(* ===== verification/Go_Prelude.thy ===== *)
theory Go_Prelude
  imports Main "HOL-Library.Char_ord" "HOL-Library.List_Lexorder" "HOL-Library.Sublist"
    "HOL-Library.Multiset"
begin

text \<open>
  The fragment of Go and of its standard library that the operator uses: fixed-width
  integers, durations, byte strings, error values, and the few generic facts about lists
  that the component theories share.

  A Go \<^verbatim>\<open>string\<close> is a byte sequence, so it is a \<^typ>\<open>string\<close> (a list of bytes); the
  order of \<open>List_Lexorder\<close> over \<open>Char_ord\<close> is the bytewise order of Go's \<^verbatim>\<open><\<close> and of
  \<^verbatim>\<open>sort.Strings\<close>. Integers are \<^typ>\<open>int\<close> with the wrap-around of their width written
  out (\<open>wrap32\<close>, \<open>wrap64\<close>) at every operation that can leave the range.
\<close>

named_theorems go_simps \<open>unfolding rules of the Go library fragment\<close>
named_theorems res_simps \<open>unfolding rules of results and early returns\<close>

section \<open>Integers and durations\<close>

type_synonym int32 = int
type_synonym int64 = int
type_synonym duration = int
type_synonym gotime = int

definition wrap32 :: "int \<Rightarrow> int32" where
  "wrap32 n = (n + 2147483648) mod 4294967296 - 2147483648"

definition wrap64 :: "int \<Rightarrow> int64" where
  "wrap64 n = (n + 9223372036854775808) mod 18446744073709551616 - 9223372036854775808"

definition is_int32 :: "int \<Rightarrow> bool" where
  "is_int32 n \<longleftrightarrow> - 2147483648 \<le> n \<and> n \<le> 2147483647"

definition is_int64 :: "int \<Rightarrow> bool" where
  "is_int64 n \<longleftrightarrow> - 9223372036854775808 \<le> n \<and> n \<le> 9223372036854775807"

definition second :: duration where "second = 1000000000"
definition minute :: duration where "minute = 60000000000"

lemma wrap32_range: "is_int32 (wrap32 n)"
  unfolding wrap32_def is_int32_def
  using pos_mod_bound [of 4294967296 "n + 2147483648"]
    pos_mod_sign [of 4294967296 "n + 2147483648"] by linarith

lemma wrap64_range: "is_int64 (wrap64 n)"
  unfolding wrap64_def is_int64_def
  using pos_mod_bound [of 18446744073709551616 "n + 9223372036854775808"]
    pos_mod_sign [of 18446744073709551616 "n + 9223372036854775808"] by linarith

lemma wrap32_id [simp]: "is_int32 n \<Longrightarrow> wrap32 n = n"
  by (simp add: wrap32_def is_int32_def)

lemma wrap64_id [simp]: "is_int64 n \<Longrightarrow> wrap64 n = n"
  by (simp add: wrap64_def is_int64_def)

text \<open>Wrapping at an even modulus keeps the parity: a parity test survives an overflow.\<close>

lemma even_wrap32 [simp]: "even (wrap32 n) \<longleftrightarrow> even n"
  by (simp add: wrap32_def dvd_mod_iff)

text \<open>Go's \<^verbatim>\<open>%\<close> truncates towards zero; only its comparison with 0 is used.\<close>

definition rem2_is_zero :: "int \<Rightarrow> bool" where
  "rem2_is_zero n \<longleftrightarrow> n mod 2 = 0"

lemma rem2_is_zero_even [simp]: "rem2_is_zero n \<longleftrightarrow> even n"
  by (simp add: rem2_is_zero_def even_iff_mod_2_eq_zero)

section \<open>Decimal formatting (the \<open>%d\<close> verb)\<close>

definition digit_char :: "nat \<Rightarrow> char" where
  "digit_char d = char_of (48 + d)"

fun show_nat :: "nat \<Rightarrow> string" where
  "show_nat n = (if n < 10 then [digit_char n]
     else show_nat (n div 10) @ [digit_char (n mod 10)])"

declare show_nat.simps [simp del]

definition show_int :: "int \<Rightarrow> string" where
  "show_int i = (if i < 0 then CHR ''-'' # show_nat (nat (- i)) else show_nat (nat i))"

definition is_digit :: "char \<Rightarrow> bool" where
  "is_digit c \<longleftrightarrow> CHR ''0'' \<le> c \<and> c \<le> CHR ''9''"

definition digit_val :: "char \<Rightarrow> int" where
  "digit_val c = int (of_char c) - 48"

lemma is_digit_of_char: "is_digit c \<longleftrightarrow> 48 \<le> (of_char c :: nat) \<and> (of_char c :: nat) \<le> 57"
  by (simp add: is_digit_def less_eq_char_def)

lemma of_char_digit_char: "d < 10 \<Longrightarrow> (of_char (digit_char d) :: nat) = 48 + d"
  by (simp add: digit_char_def of_char_of)

lemma is_digit_digit_char [simp]: "d < 10 \<Longrightarrow> is_digit (digit_char d)"
  by (simp add: is_digit_of_char of_char_digit_char)

lemma digit_val_digit_char [simp]: "d < 10 \<Longrightarrow> digit_val (digit_char d) = int d"
  by (simp add: digit_val_def of_char_digit_char)

lemma show_nat_ne [simp]: "show_nat n \<noteq> []"
  by (subst show_nat.simps) simp

lemma show_nat_digits: "\<forall>c \<in> set (show_nat n). is_digit c"
proof (induction n rule: show_nat.induct)
  case (1 n)
  show ?case
  proof (cases "n < 10")
    case True
    then show ?thesis by (subst show_nat.simps) simp
  next
    case False
    with "1.IH" show ?thesis by (subst show_nat.simps) auto
  qed
qed

text \<open>The number a run of digits denotes, continuing from \<open>n\<close>: the inverse of the decimal format.\<close>

definition digits_value :: "int \<Rightarrow> string \<Rightarrow> int" where
  "digits_value n s = foldl (\<lambda>m c. m * 10 + digit_val c) n s"

lemma digits_value_simps [simp]:
  "digits_value n [] = n" "digits_value n (c # s) = digits_value (n * 10 + digit_val c) s"
  by (simp_all add: digits_value_def)

lemma digits_value_append [simp]:
  "digits_value n (s @ t) = digits_value (digits_value n s) t"
  by (simp add: digits_value_def)

lemma digits_value_show_nat: "digits_value 0 (show_nat n) = int n"
proof (induction n rule: show_nat.induct)
  case (1 n)
  show ?case
  proof (cases "n < 10")
    case True
    then show ?thesis by (subst show_nat.simps) simp
  next
    case False
    have "int (n div 10) * 10 + int (n mod 10) = int n"
      by (metis div_mult_mod_eq of_nat_add of_nat_mult of_nat_numeral)
    with False "1.IH" show ?thesis by (subst show_nat.simps) simp
  qed
qed

lemma show_nat_inj: "show_nat m = show_nat n \<longleftrightarrow> m = n"
  by (metis digits_value_show_nat of_nat_eq_iff)

lemma digit_val_range: "is_digit c \<Longrightarrow> 0 \<le> digit_val c \<and> digit_val c \<le> 9"
  by (simp add: is_digit_of_char digit_val_def)

lemma digits_value_ge:
  "\<forall>c \<in> set s. is_digit c \<Longrightarrow> 0 \<le> n \<Longrightarrow> n \<le> digits_value n s"
proof (induction s arbitrary: n)
  case (Cons c s)
  then have d: "0 \<le> digit_val c" using digit_val_range [of c] by simp
  then have "n * 10 + digit_val c \<le> digits_value (n * 10 + digit_val c) s"
    using Cons by simp
  with d Cons.prems show ?case by simp
qed simp

section \<open>Strings\<close>

text \<open>\<^verbatim>\<open>strings.HasPrefix\<close>, \<^verbatim>\<open>strings.Contains\<close>, \<^verbatim>\<open>strings.ContainsAny\<close>.\<close>

definition HasPrefix :: "string \<Rightarrow> string \<Rightarrow> bool" where
  "HasPrefix s p \<longleftrightarrow> take (length p) s = p"

fun StrContains :: "string \<Rightarrow> string \<Rightarrow> bool" where
  "StrContains [] p = (p = [])"
| "StrContains (c # s) p = (HasPrefix (c # s) p \<or> StrContains s p)"

definition ContainsAny :: "string \<Rightarrow> string \<Rightarrow> bool" where
  "ContainsAny s chars \<longleftrightarrow> list_ex (\<lambda>c. c \<in> set chars) s"

text \<open>\<^verbatim>\<open>strings.Split\<close> and \<^verbatim>\<open>strings.SplitN\<close> with a one-byte separator.\<close>

fun split_on :: "char \<Rightarrow> string \<Rightarrow> string list" where
  "split_on d [] = [[]]"
| "split_on d (c # s) =
     (if c = d then [] # split_on d s
      else case split_on d s of [] \<Rightarrow> [[c]] | w # ws \<Rightarrow> (c # w) # ws)"

fun splitN :: "nat \<Rightarrow> char \<Rightarrow> string \<Rightarrow> string list" where
  "splitN 0 d s = []"
| "splitN (Suc 0) d s = [s]"
| "splitN (Suc (Suc n)) d [] = [[]]"
| "splitN (Suc (Suc n)) d (c # s) =
     (if c = d then [] # splitN (Suc n) d s
      else case splitN (Suc (Suc n)) d s of [] \<Rightarrow> [[c]] | w # ws \<Rightarrow> (c # w) # ws)"

text \<open>\<^verbatim>\<open>strings.Join\<close>.\<close>

fun Join :: "string list \<Rightarrow> string \<Rightarrow> string" where
  "Join [] sep = []"
| "Join [x] sep = x"
| "Join (x # y # xs) sep = x @ sep @ Join (y # xs) sep"

text \<open>
  \<^verbatim>\<open>strings.TrimSpace\<close> removes the leading and trailing Unicode white space: the UTF-8
  encodings of the code points for which \<^verbatim>\<open>unicode.IsSpace\<close> holds.
\<close>

definition go_spaces :: "string list" where
  "go_spaces =
    [[CHR 0x09], [CHR 0x0A], [CHR 0x0B], [CHR 0x0C], [CHR 0x0D], [CHR 0x20],
     [CHR 0xC2, CHR 0x85], [CHR 0xC2, CHR 0xA0], [CHR 0xE1, CHR 0x9A, CHR 0x80],
     [CHR 0xE2, CHR 0x80, CHR 0x80], [CHR 0xE2, CHR 0x80, CHR 0x81],
     [CHR 0xE2, CHR 0x80, CHR 0x82], [CHR 0xE2, CHR 0x80, CHR 0x83],
     [CHR 0xE2, CHR 0x80, CHR 0x84], [CHR 0xE2, CHR 0x80, CHR 0x85],
     [CHR 0xE2, CHR 0x80, CHR 0x86], [CHR 0xE2, CHR 0x80, CHR 0x87],
     [CHR 0xE2, CHR 0x80, CHR 0x88], [CHR 0xE2, CHR 0x80, CHR 0x89],
     [CHR 0xE2, CHR 0x80, CHR 0x8A], [CHR 0xE2, CHR 0x80, CHR 0xA8],
     [CHR 0xE2, CHR 0x80, CHR 0xA9], [CHR 0xE2, CHR 0x80, CHR 0xAF],
     [CHR 0xE2, CHR 0x81, CHR 0x9F], [CHR 0xE3, CHR 0x80, CHR 0x80]]"

fun trim_front :: "string list \<Rightarrow> string \<Rightarrow> string" where
  "trim_front sps [] = []"
| "trim_front sps (c # s) =
     (case find (\<lambda>p. p \<noteq> [] \<and> HasPrefix (c # s) p) sps of
        None \<Rightarrow> c # s
      | Some p \<Rightarrow> trim_front sps (drop (length p - 1) s))"

definition TrimSpace :: "string \<Rightarrow> string" where
  "TrimSpace s =
     rev (trim_front (map rev go_spaces) (rev (trim_front go_spaces s)))"

text \<open>
  \<^verbatim>\<open>%q\<close>: double quotes, with the quote, the backslash and control bytes escaped; bytes
  of multi-byte characters are kept.
\<close>

definition hex_digit :: "nat \<Rightarrow> char" where
  "hex_digit d = (if d < 10 then char_of (48 + d) else char_of (87 + d))"

definition quote_char :: "char \<Rightarrow> string" where
  "quote_char c =
     (if c = CHR 0x22 then [CHR 0x5C, CHR 0x22]
      else if c = CHR 0x5C then [CHR 0x5C, CHR 0x5C]
      else if c = CHR 0x07 then [CHR 0x5C, CHR ''a'']
      else if c = CHR 0x08 then [CHR 0x5C, CHR ''b'']
      else if c = CHR 0x0C then [CHR 0x5C, CHR ''f'']
      else if c = CHR 0x0A then [CHR 0x5C, CHR ''n'']
      else if c = CHR 0x0D then [CHR 0x5C, CHR ''r'']
      else if c = CHR 0x09 then [CHR 0x5C, CHR ''t'']
      else if c = CHR 0x0B then [CHR 0x5C, CHR ''v'']
      else if c < CHR 0x20 \<or> c = CHR 0x7F then
        [CHR 0x5C, CHR ''x'', hex_digit (of_char c div 16), hex_digit (of_char c mod 16)]
      else [c])"

definition Quote :: "string \<Rightarrow> string" where
  "Quote s = CHR 0x22 # concat (map quote_char s) @ [CHR 0x22]"

text \<open>Strings given by their UTF-8 bytes; the arrow and the long dash occur in messages.\<close>

definition utf8 :: "nat list \<Rightarrow> string" where "utf8 bs = map char_of bs"
definition arrow :: string where "arrow = [CHR 0xE2, CHR 0x86, CHR 0x92]"
definition emdash :: string where "emdash = [CHR 0xE2, CHR 0x80, CHR 0x94]"

text \<open>Splitting and joining with the same separator.\<close>

lemma split_on_ne [simp]: "split_on d s \<noteq> []"
  by (cases s) (auto split: list.splits)

lemma Join_Cons: "xs \<noteq> [] \<Longrightarrow> Join (x # xs) sep = x @ sep @ Join xs sep"
  by (cases xs) auto

lemma Join_Cons_char: "Join ((c # w) # vs) sep = c # Join (w # vs) sep"
  by (cases vs) auto

lemma Join_split_on: "Join (split_on d s) [d] = s"
proof (induction s)
  case Nil
  show ?case by simp
next
  case (Cons c s)
  obtain w ws where *: "split_on d s = w # ws" by (cases "split_on d s") auto
  with Cons.IH show ?case
    by (cases ws) (auto simp: Join_Cons)
qed

lemma split_on_no_sep: "d \<notin> set s \<Longrightarrow> split_on d s = [s]"
  by (induction s) auto

lemma split_on_append_sep: "d \<notin> set s \<Longrightarrow> split_on d (s @ d # t) = s # split_on d t"
  by (induction s) auto

lemma split_on_parts: "w \<in> set (split_on d s) \<Longrightarrow> d \<notin> set w"
proof (induction s arbitrary: w)
  case Nil
  then show ?case by simp
next
  case (Cons c s)
  obtain v vs where "split_on d s = v # vs" by (cases "split_on d s") auto
  with Cons show ?case by (auto split: if_splits)
qed

lemma HasPrefix_iff: "HasPrefix s p \<longleftrightarrow> prefix p s"
  by (metis HasPrefix_def append_eq_conv_conj append_take_drop_id prefix_def)

section \<open>Errors and results\<close>

text \<open>
  Error values by the class the operator distinguishes: the API server's reasons
  (\<^verbatim>\<open>apierrors.IsNotFound\<close> and its kin, which see through wrapping), the sentinel
  \<^verbatim>\<open>errBootstrapBusy\<close>, a \<^verbatim>\<open>mongo.ServerError\<close> with its code, plain messages, and an error wrapped with \<^verbatim>\<open>%w\<close>.
\<close>

datatype go_error =
    ErrNotFound string
  | ErrConflict string
  | ErrAlreadyExists string
  | ErrBootstrapBusy
  | ErrServer int string
  | ErrMsg string
  | Wrapped string go_error

fun IsNotFound :: "go_error \<Rightarrow> bool" where
  "IsNotFound (ErrNotFound _) = True"
| "IsNotFound (Wrapped _ e) = IsNotFound e"
| "IsNotFound _ = False"

fun IsConflict :: "go_error \<Rightarrow> bool" where
  "IsConflict (ErrConflict _) = True"
| "IsConflict (Wrapped _ e) = IsConflict e"
| "IsConflict _ = False"

fun IsAlreadyExists :: "go_error \<Rightarrow> bool" where
  "IsAlreadyExists (ErrAlreadyExists _) = True"
| "IsAlreadyExists (Wrapped _ e) = IsAlreadyExists e"
| "IsAlreadyExists _ = False"

fun IsBootstrapBusy :: "go_error \<Rightarrow> bool" where
  "IsBootstrapBusy ErrBootstrapBusy = True"
| "IsBootstrapBusy (Wrapped _ e) = IsBootstrapBusy e"
| "IsBootstrapBusy _ = False"

fun HasErrorCode :: "go_error \<Rightarrow> int \<Rightarrow> bool" where
  "HasErrorCode (ErrServer c _) code = (c = code)"
| "HasErrorCode (Wrapped _ e) code = HasErrorCode e code"
| "HasErrorCode _ code = False"

fun Error :: "go_error \<Rightarrow> string" where
  "Error (ErrNotFound m) = m"
| "Error (ErrConflict m) = m"
| "Error (ErrAlreadyExists m) = m"
| "Error ErrBootstrapBusy = ''bootstrap lease busy''"
| "Error (ErrServer c m) = m"
| "Error (ErrMsg m) = m"
| "Error (Wrapped p e) = p @ '': '' @ Error e"

text \<open>\<^verbatim>\<open>ctrl.Result\<close>.\<close>

record ctrl_result =
  RequeueAfter :: duration
  Requeue :: bool

definition no_requeue :: ctrl_result where
  "no_requeue = \<lparr>RequeueAfter = 0, Requeue = False\<rparr>"

definition requeue_after :: "duration \<Rightarrow> ctrl_result" where
  "requeue_after d = \<lparr>RequeueAfter = d, Requeue = False\<rparr>"

definition requeue_now :: ctrl_result where
  "requeue_now = \<lparr>RequeueAfter = 0, Requeue = True\<rparr>"

lemmas ctrl_result_defs [res_simps] = no_requeue_def requeue_after_def requeue_now_def

section \<open>Maps with string keys\<close>

text \<open>
  A Go map is an association list without duplicate keys; the order in which
  \<^verbatim>\<open>range\<close> visits it is not fixed by the language, so results that must not depend on
  that order are proved for every permutation of the list.
\<close>

type_synonym 'v gomap = "(string \<times> 'v) list"

definition wf_gomap :: "'v gomap \<Rightarrow> bool" where
  "wf_gomap m \<longleftrightarrow> distinct (map fst m)"

section \<open>Sorted lists are determined by their elements\<close>

lemma sorted_mset_unique:
  fixes xs ys :: "'a::linorder list"
  assumes "sorted xs" and "sorted ys" and "mset xs = mset ys"
  shows "xs = ys"
  using assms by (metis properties_for_sort sorted_sort_id)

end
