(* ===== verification/Api_Types.thy ===== *)
theory Api_Types
  imports Go_Prelude
begin

text \<open>
  The custom resources of \<^verbatim>\<open>api/v1alpha1\<close>: every struct is a record with the fields of
  the source in their order, a pointer field is an \<^typ>\<open>'a option\<close>, a slice a list, a Go
  map an association list. A field is named by a tag of its struct and the Go name
  (\<open>mdb_Members\<close> is \<^verbatim>\<open>MongoDBSpec.Members\<close>). Values of third-party API types that the
  operator only passes through are opaque (\<open>k8s_value\<close>, their serialised text);
  \<^verbatim>\<open>resource.Quantity\<close> is an integer number of nano-units, the finest scale it keeps.
\<close>

section \<open>Third-party values\<close>

datatype k8s_value = K8sValue string
datatype IntOrString = IntVal int32 | StrVal string

type_synonym Quantity = int
type_synonym string_map = "string gomap"

record SecretKeySelector =
  sks_Name :: string
  sks_Key :: string

record Condition =
  c_Type :: string
  c_Status :: string
  c_ObservedGeneration :: int64
  c_LastTransitionTime :: gotime
  c_Reason :: string
  c_Message :: string

record ObjectMeta =
  om_Name :: string
  om_Namespace :: string
  om_Generation :: int64
  om_DeletionTimestamp :: "gotime option"
  om_Finalizers :: "string list"
  om_Annotations :: string_map

section \<open>Version, storage and encryption\<close>

record MongoDBVersion =
  ver_Version :: string
  ver_Image :: string

record SecretKMSConfig =
  skms_SecretRef :: SecretKeySelector

record VaultKMSConfig =
  vault_Address :: string
  vault_TransitPath :: string
  vault_KeyName :: string
  vault_AuthMethod :: string
  vault_AuthSecretRef :: string
  vault_CASecretRef :: "string option"

record AWSKMSConfig =
  aws_KeyARN :: string
  aws_Region :: string
  aws_AuthSecretRef :: "string option"

record GCPKMSConfig =
  gcp_ProjectID :: string
  gcp_Location :: string
  gcp_Keyring :: string
  gcp_Key :: string
  gcp_AuthSecretRef :: "string option"

record AzureKVConfig =
  az_VaultURL :: string
  az_KeyName :: string
  az_KeyVersion :: string
  az_TenantID :: string
  az_ClientID :: string
  az_AuthSecretRef :: "string option"

record KMSConfigSpec =
  kms_Secret :: "SecretKMSConfig option"
  kms_Vault :: "VaultKMSConfig option"
  kms_AWSKMS :: "AWSKMSConfig option"
  kms_GCPKMS :: "GCPKMSConfig option"
  kms_AzureKV :: "AzureKVConfig option"

record EncryptionSpec =
  enc_Enabled :: bool
  enc_KeyProvider :: string
  enc_KMSConfig :: "KMSConfigSpec option"
  enc_CipherMode :: string
  enc_KeyRotationDays :: int32

record StorageSpec =
  st_StorageClassName :: string
  st_Size :: Quantity
  st_DataDirPath :: string
  st_PersistentVolumeClaimRetentionPolicy :: "k8s_value option"
  st_AccessModes :: "k8s_value list"
  st_SubPath :: string
  st_Selector :: "k8s_value option"
  st_Encryption :: "EncryptionSpec option"

record ResourcesSpec =
  rs_Requests :: "Quantity gomap"
  rs_Limits :: "Quantity gomap"

section \<open>TLS and authentication\<close>

record CertIssuerRef =
  iss_Name :: string
  iss_Kind :: string

record CertManagerSpec =
  cm_IssuerRef :: CertIssuerRef
  cm_Duration :: string
  cm_RenewBefore :: string

record CustomCertSpec =
  cc_SecretName :: string

record TLSSpec =
  tls_Enabled :: bool
  tls_CertManager :: "CertManagerSpec option"
  tls_Mode :: string
  tls_AllowInvalidHostnames :: "bool option"
  tls_CustomCert :: "CustomCertSpec option"

record LDAPSpec =
  ldap_Servers :: string
  ldap_BindMethod :: string
  ldap_BindCredentialsSecretRef :: "string option"
  ldap_UserToDNMapping :: string
  ldap_TLS :: bool
  ldap_CASecretRef :: "string option"
  ldap_AuthorizationQueryTemplate :: string

record OIDCSpec =
  oidc_IssuerURL :: string
  oidc_ClientID :: string
  oidc_UserClaim :: string
  oidc_RolesClaim :: string
  oidc_IdentityProvider :: string

record MongoDBRole =
  role_Name :: string
  role_DB :: string

record MongoDBUser =
  usr_Name :: string
  usr_DB :: string
  usr_PasswordSecretRef :: SecretKeySelector
  usr_Roles :: "MongoDBRole list"

record AuthSpec =
  auth_Mechanism :: string
  auth_AdminCredentialsSecretRef :: string
  auth_Users :: "MongoDBUser list"
  auth_LDAP :: "LDAPSpec option"
  auth_OIDC :: "OIDCSpec option"

section \<open>Monitoring and audit\<close>

record ServiceMonitorSpec =
  sm_Labels :: string_map
  sm_Interval :: string
  sm_Namespace :: string

record PrometheusRulesSpec =
  pr_Enabled :: bool
  pr_Labels :: string_map

record ExporterSpec =
  exp_Image :: string
  exp_Resources :: ResourcesSpec

record MonitoringSpec =
  mon_Enabled :: bool
  mon_ServiceMonitor :: "ServiceMonitorSpec option"
  mon_PrometheusRules :: "PrometheusRulesSpec option"
  mon_Exporter :: "ExporterSpec option"

record AuditForwarderSpec =
  fwd_Type :: string
  fwd_URL :: string
  fwd_CredentialsSecretRef :: string

record AuditAlertRule =
  rule_Name :: string
  rule_EventType :: string
  rule_Threshold :: int32
  rule_Severity :: string

record AuditLogSpec =
  aud_Enabled :: bool
  aud_Destination :: string
  aud_Format :: string
  aud_FilterJSON :: string
  aud_CentralForwarder :: "AuditForwarderSpec option"
  aud_AlertRules :: "AuditAlertRule list"

section \<open>Upgrade, backup, scaling and policies\<close>

record UpgradeStrategySpec =
  us_Type :: string
  us_PreUpgradeBackup :: bool
  us_ValidationInterval :: string
  us_RollbackOnFailure :: bool
  us_MaxRetries :: int32

record BackupThrottleSpec =
  bt_ReadMBps :: int32
  bt_WriteMBps :: int32

record QueryableBackupSpec =
  qb_Enabled :: bool
  qb_TTL :: string
  qb_ResourcesPreset :: string

record RetentionSpec =
  ret_Days :: int64
  ret_Count :: "int64 option"

record S3StorageSpec =
  s3_Bucket :: string
  s3_Endpoint :: string
  s3_Region :: string
  s3_CredentialsRef :: string
  s3_Prefix :: string
  s3_InsecureSkipTLS :: bool

record PVCStorageSpec =
  pvc_StorageClassName :: string
  pvc_Size :: Quantity

record BackupStorageSpec =
  bs_Type :: string
  bs_S3 :: "S3StorageSpec option"
  bs_PVC :: "PVCStorageSpec option"

record BackupSpec =
  bk_Enabled :: bool
  bk_Schedule :: string
  bk_Retention :: "RetentionSpec option"
  bk_Storage :: BackupStorageSpec
  bk_PITREnabled :: bool
  bk_OplogRetentionHours :: int64
  bk_Throttle :: "BackupThrottleSpec option"
  bk_Queryable :: "QueryableBackupSpec option"
  bk_VerificationSchedule :: string

record CustomMetricSpec =
  cms_Name :: string
  cms_Query :: string

record AutoScalingMetric =
  asm_Type :: string
  asm_Target :: int32
  asm_CustomMetric :: "CustomMetricSpec option"

record AutoScalingSpec =
  as_Enabled :: bool
  as_MinReplicas :: int32
  as_MaxReplicas :: int32
  as_Metrics :: "AutoScalingMetric list"

record ScalePolicy =
  sp_Deliberate :: bool

record HPAStatus =
  hs_Enabled :: bool
  hs_CurrentReplicas :: int32
  hs_DesiredReplicas :: int32
  hs_MinReplicas :: int32
  hs_MaxReplicas :: int32
  hs_LastScaleTime :: string

record PendingScale =
  ps_CurrentMembers :: int32
  ps_DesiredMembers :: int32
  ps_RequestedAt :: string
  ps_Reason :: string

record NetworkPolicyPeer =
  np_PodSelector :: "string_map option"
  np_NamespaceSelector :: "string_map option"

record NetworkPolicySpec =
  nps_Enabled :: bool
  nps_AdditionalIngressFrom :: "NetworkPolicyPeer list"

record PodDisruptionBudgetSpec =
  pdb_Enabled :: bool
  pdb_MinAvailable :: "IntOrString option"
  pdb_MaxUnavailable :: "IntOrString option"

record ClusterReference =
  cr_Name :: string
  cr_Kind :: string

section \<open>Pod-level settings\<close>

record VolumePermissionsSpec =
  vp_Enabled :: bool
  vp_Image :: string
  vp_Resources :: ResourcesSpec

record CustomConfigSpec =
  ccfg_ConfigInline :: string
  ccfg_ConfigMapRef :: "string option"

record InitScriptsSpec =
  is_ConfigMapRef :: "string option"
  is_SecretRef :: "string option"

record DiagnosticModeSpec =
  dm_Enabled :: bool

section \<open>Pods\<close>

text \<open>
  The part of \<^verbatim>\<open>corev1\<close> that the builders fill in. A security context is named by the function of
  the commons library that returns it. A number that the source does not set is \<open>None\<close>.
\<close>

datatype VolumeSource =
    SecretVolume string "int32 option"
  | ConfigMapVolume string "int32 option"
  | EmptyDirVolume "Quantity option"
  | ClaimVolume string bool
  | OtherVolume k8s_value

record Volume =
  vol_Name :: string
  vol_Source :: VolumeSource

record VolumeMount =
  vm_Name :: string
  vm_MountPath :: string
  vm_ReadOnly :: bool
  vm_SubPath :: string

datatype EnvSource =
    EnvValue string
  | EnvFieldRef string
  | EnvSecretKeyRef SecretKeySelector
  | EnvOther k8s_value

record EnvVar =
  env_Name :: string
  env_Source :: EnvSource

datatype Handler = ExecAction "string list" | TCPSocketAction int32 | OtherHandler k8s_value

record Probe =
  pr_Handler :: Handler
  pr_InitialDelaySeconds :: "int32 option"
  pr_PeriodSeconds :: "int32 option"
  pr_TimeoutSeconds :: "int32 option"
  pr_FailureThreshold :: "int32 option"

record Lifecycle =
  lc_PostStart :: "Handler option"
  lc_PreStop :: "Handler option"

record ContainerPort =
  cport_Name :: string
  cport_ContainerPort :: int32

record ResourceRequirements =
  rr_Requests :: "Quantity gomap"
  rr_Limits :: "Quantity gomap"

datatype SecurityContext =
    DefaultContainerSecurityContext
  | KeyfileInitSecurityContext
  | NoSecurityContext
  | GivenSecurityContext k8s_value

record Container =
  ct_Name :: string
  ct_Image :: string
  ct_Command :: "string list"
  ct_Args :: "string list"
  ct_Ports :: "ContainerPort list"
  ct_Env :: "EnvVar list"
  ct_Resources :: ResourceRequirements
  ct_VolumeMounts :: "VolumeMount list"
  ct_LivenessProbe :: "Probe option"
  ct_ReadinessProbe :: "Probe option"
  ct_StartupProbe :: "Probe option"
  ct_Lifecycle :: "Lifecycle option"
  ct_SecurityContext :: SecurityContext

record PodSpec =
  pod_SecurityContext :: "k8s_value option"
  pod_ContainerSecurityContext :: "k8s_value option"
  pod_Affinity :: "k8s_value option"
  pod_Tolerations :: "k8s_value list"
  pod_NodeSelector :: string_map
  pod_PriorityClassName :: string
  pod_ServiceAccountName :: string
  pod_TopologySpreadConstraints :: "k8s_value list"
  pod_DiagnosticMode :: "DiagnosticModeSpec option"
  pod_Sidecars :: "Container list"
  pod_InitContainers :: "Container list"
  pod_ExtraVolumes :: "Volume list"
  pod_ExtraVolumeMounts :: "VolumeMount list"
  pod_ExtraEnvVars :: "EnvVar list"
  pod_LifecycleHooks :: "Lifecycle option"
  pod_VolumePermissions :: "VolumePermissionsSpec option"
  pod_InitScripts :: "InitScriptsSpec option"
  pod_ResourcesPreset :: string
  pod_CustomConfig :: "CustomConfigSpec option"

end
