(* ===== verification/Cluster_Types.thy ===== *)
theory Cluster_Types
  imports Api_Types
begin

text \<open>
  The two cluster resources, \<^verbatim>\<open>MongoDB\<close> (a replica set, \<^verbatim>\<open>mongodb_types.go\<close>) and
  \<^verbatim>\<open>MongoDBSharded\<close> (\<^verbatim>\<open>mongodbsharded_types.go\<close>): desired state and observed status.
  The phases are the string constants of the source.
\<close>

section \<open>Replica set\<close>

definition PhasePending :: string where "PhasePending = ''Pending''"
definition PhaseInitializing :: string where "PhaseInitializing = ''Initializing''"
definition PhaseRunning :: string where "PhaseRunning = ''Running''"
definition PhaseFailed :: string where "PhaseFailed = ''Failed''"

lemmas phase_defs = PhasePending_def PhaseInitializing_def PhaseRunning_def PhaseFailed_def

record ArbiterSpec =
  arb_Enabled :: bool
  arb_Resources :: ResourcesSpec

record MongoDBSpec =
  mdb_Members :: int32
  mdb_Version :: MongoDBVersion
  mdb_Storage :: StorageSpec
  mdb_Resources :: ResourcesSpec
  mdb_TLS :: "TLSSpec option"
  mdb_Auth :: AuthSpec
  mdb_Monitoring :: "MonitoringSpec option"
  mdb_Backup :: "BackupSpec option"
  mdb_UpgradeStrategy :: "UpgradeStrategySpec option"
  mdb_AuditLog :: "AuditLogSpec option"
  mdb_AutoScaling :: "AutoScalingSpec option"
  mdb_ScalePolicy :: "ScalePolicy option"
  mdb_Pod :: "PodSpec option"
  mdb_Arbiter :: "ArbiterSpec option"
  mdb_PodDisruptionBudget :: "PodDisruptionBudgetSpec option"
  mdb_NetworkPolicy :: "NetworkPolicySpec option"
  mdb_ReplicaSetName :: string
  mdb_AdditionalConfig :: string_map

record MemberStatus =
  ms_Name :: string
  ms_State :: string
  ms_Health :: bool
  ms_Uptime :: int64

record BackupStatus =
  bst_Time :: gotime
  bst_Successful :: bool
  bst_Location :: string
  bst_Size :: string

record MongoDBStatus =
  s_Phase :: string
  s_ReadyMembers :: int32
  s_CurrentPrimary :: string
  s_Members :: "MemberStatus list"
  s_Conditions :: "Condition list"
  s_ConnectionString :: string
  s_TLSSecretName :: string
  s_LastBackup :: "BackupStatus option"
  s_Version :: string
  s_ObservedGeneration :: int64
  s_ReplicaSetInitialized :: bool
  s_AdminUserCreated :: bool
  s_HPA :: "HPAStatus option"
  s_PendingScale :: "PendingScale option"
  s_PreviousVersion :: string
  s_UpgradePhase :: string
  s_UpgradeStartTime :: "gotime option"
  s_EffectiveVersion :: string
  s_RollbackActive :: bool
  s_UpgradeRetryCount :: int32
  s_ObservedUpgradeGeneration :: int64
  s_FCVVersion :: string

record MongoDB =
  Meta :: ObjectMeta
  Spec :: MongoDBSpec
  Status :: MongoDBStatus

abbreviation Name :: "MongoDB \<Rightarrow> string" where "Name m \<equiv> om_Name (Meta m)"
abbreviation Namespace :: "MongoDB \<Rightarrow> string" where "Namespace m \<equiv> om_Namespace (Meta m)"
abbreviation Generation :: "MongoDB \<Rightarrow> int64" where "Generation m \<equiv> om_Generation (Meta m)"

definition IsStandaloneMode :: "MongoDBSpec \<Rightarrow> bool" where
  "IsStandaloneMode s \<longleftrightarrow> mdb_Members s = 1"

section \<open>Sharded cluster\<close>

record ShardKeyField =
  skf_Field :: string
  skf_Order :: string

record TimeseriesSpec =
  ts_TimeField :: string
  ts_MetaField :: string
  ts_Granularity :: string

record ShardedCollectionSpec =
  sc_Database :: string
  sc_Collection :: string
  sc_ShardKey :: "ShardKeyField list"
  sc_Unique :: bool
  sc_Timeseries :: "TimeseriesSpec option"

record ExternalConfigServerSpec =
  ext_ReplicaSetName :: string
  ext_Hosts :: "string list"

record ConfigServerSpec =
  cs_Members :: int32
  cs_Storage :: StorageSpec
  cs_Resources :: ResourcesSpec
  cs_Pod :: "PodSpec option"
  cs_AutoScaling :: "AutoScalingSpec option"
  cs_ScalePolicy :: "ScalePolicy option"
  cs_External :: "ExternalConfigServerSpec option"

record ShardAutoScalingSpec =
  sas_Enabled :: bool
  sas_MinShards :: int32
  sas_MaxShards :: int32
  sas_Metrics :: "AutoScalingMetric list"

record ShardHiddenMembersSpec =
  hm_Count :: int32
  hm_Priority :: string
  hm_Votes :: int32
  hm_SlaveDelaySeconds :: int32
  hm_Tags :: string_map
  hm_Resources :: ResourcesSpec

record ShardArbiterSpec =
  sarb_Enabled :: bool
  sarb_Replicas :: int32
  sarb_Resources :: ResourcesSpec

record ShardSpec =
  sh_Count :: int32
  sh_MembersPerShard :: int32
  sh_Storage :: StorageSpec
  sh_Resources :: ResourcesSpec
  sh_Pod :: "PodSpec option"
  sh_AutoScaling :: "ShardAutoScalingSpec option"
  sh_ScalePolicy :: "ScalePolicy option"
  sh_HiddenMembers :: "ShardHiddenMembersSpec option"
  sh_Arbiter :: "ShardArbiterSpec option"
  sh_DrainTimeoutSeconds :: "int32 option"

record ServicePerReplicaSpec =
  spr_Enabled :: bool
  spr_Type :: string
  spr_Annotations :: string_map

record MongosServiceSpec =
  msvc_Type :: string
  msvc_Port :: int32
  msvc_Annotations :: string_map
  msvc_LoadBalancerIP :: string
  msvc_SessionAffinity :: string
  msvc_SessionAffinityConfig :: "k8s_value option"
  msvc_ExternalIPs :: "string list"
  msvc_NodePort :: int32
  msvc_Headless :: bool
  msvc_ServicePerReplica :: "ServicePerReplicaSpec option"

record MongosSpec =
  ms_Replicas :: int32
  ms_UseStatefulSet :: bool
  ms_Resources :: ResourcesSpec
  ms_Pod :: "PodSpec option"
  ms_Service :: "MongosServiceSpec option"
  ms_AutoScaling :: "AutoScalingSpec option"

record MongoDBShardedSpec =
  shd_Version :: MongoDBVersion
  shd_ConfigServer :: ConfigServerSpec
  shd_Shards :: ShardSpec
  shd_Mongos :: MongosSpec
  shd_TLS :: "TLSSpec option"
  shd_Auth :: AuthSpec
  shd_Monitoring :: "MonitoringSpec option"
  shd_Backup :: "BackupSpec option"
  shd_UpgradeStrategy :: "UpgradeStrategySpec option"
  shd_AuditLog :: "AuditLogSpec option"
  shd_AdditionalConfig :: string_map
  shd_PodDisruptionBudget :: "PodDisruptionBudgetSpec option"
  shd_NetworkPolicy :: "NetworkPolicySpec option"
  shd_ShardedCollections :: "ShardedCollectionSpec list"

record ComponentStatus =
  cst_Ready :: int32
  cst_Total :: int32
  cst_Phase :: string
  cst_HPA :: "HPAStatus option"
  cst_PendingScale :: "PendingScale option"

record ShardStatus =
  sst_Name :: string
  sst_Ready :: int32
  sst_Total :: int32
  sst_Primary :: string
  sst_Phase :: string

record MongoDBShardedStatus =
  ss_Phase :: string
  ss_ConfigServer :: ComponentStatus
  ss_Shards :: "ShardStatus list"
  ss_Mongos :: ComponentStatus
  ss_Conditions :: "Condition list"
  ss_ConnectionString :: string
  ss_LastBackup :: "BackupStatus option"
  ss_ShardedCollections :: "string list"
  ss_ObservedGeneration :: int64
  ss_ConfigServerInitialized :: bool
  ss_ShardsInitialized :: "bool list"
  ss_ShardsAdded :: "bool list"
  ss_AdminUserCreated :: bool
  ss_Version :: string
  ss_PreviousVersion :: string
  ss_UpgradePhase :: string
  ss_UpgradeStartTime :: "gotime option"
  ss_EffectiveVersion :: string
  ss_RollbackActive :: bool
  ss_UpgradeRetryCount :: int32
  ss_ObservedUpgradeGeneration :: int64
  ss_FCVVersion :: string

record MongoDBSharded =
  ShMeta :: ObjectMeta
  ShSpec :: MongoDBShardedSpec
  ShStatus :: MongoDBShardedStatus

abbreviation ShName :: "MongoDBSharded \<Rightarrow> string" where "ShName m \<equiv> om_Name (ShMeta m)"
abbreviation ShGeneration :: "MongoDBSharded \<Rightarrow> int64" where
  "ShGeneration m \<equiv> om_Generation (ShMeta m)"

section \<open>Backups\<close>

record RestoreSpec =
  rst_SourceBackupName :: string
  rst_PointInTime :: "gotime option"

record MongoDBBackupSpec =
  bks_ClusterRef :: ClusterReference
  bks_Storage :: BackupStorageSpec
  bks_Type :: string
  bks_Compression :: bool
  bks_CompressionType :: string
  bks_Restore :: "RestoreSpec option"

record MongoDBBackupStatus =
  bkst_Phase :: string
  bkst_StartTime :: "gotime option"
  bkst_CompletionTime :: "gotime option"
  bkst_Size :: string
  bkst_Location :: string
  bkst_Error :: string
  bkst_Conditions :: "Condition list"

record MongoDBBackup =
  BkMeta :: ObjectMeta
  BkSpec :: MongoDBBackupSpec
  BkStatus :: MongoDBBackupStatus

section \<open>Example values\<close>

definition zero_resources :: ResourcesSpec where "zero_resources = \<lparr>rs_Requests = [], rs_Limits = []\<rparr>"

definition zero_storage :: StorageSpec where
  "zero_storage = \<lparr>st_StorageClassName = [], st_Size = 0, st_DataDirPath = [],
     st_PersistentVolumeClaimRetentionPolicy = None, st_AccessModes = [], st_SubPath = [],
     st_Selector = None, st_Encryption = None\<rparr>"

definition zero_component :: ComponentStatus where
  "zero_component = \<lparr>cst_Ready = 0, cst_Total = 0, cst_Phase = [], cst_HPA = None, cst_PendingScale = None\<rparr>"

text \<open>A sharded cluster with two shards of three members, validating an upgrade from 8.0.4 to 8.2.1.\<close>

definition sample_sharded :: MongoDBSharded where
  "sample_sharded = \<lparr>ShMeta = \<lparr>om_Name = ''sh'', om_Namespace = ''db'', om_Generation = 2,
       om_DeletionTimestamp = None, om_Finalizers = [''mongodbsharded.keiailab.com/finalizer''], om_Annotations = []\<rparr>,
     ShSpec = \<lparr>shd_Version = \<lparr>ver_Version = ''8.2.1'', ver_Image = []\<rparr>,
       shd_ConfigServer = \<lparr>cs_Members = 3, cs_Storage = zero_storage, cs_Resources = zero_resources, cs_Pod = None,
         cs_AutoScaling = None, cs_ScalePolicy = None, cs_External = None\<rparr>,
       shd_Shards = \<lparr>sh_Count = 2, sh_MembersPerShard = 3, sh_Storage = zero_storage, sh_Resources = zero_resources,
         sh_Pod = None, sh_AutoScaling = None, sh_ScalePolicy = None, sh_HiddenMembers = None, sh_Arbiter = None,
         sh_DrainTimeoutSeconds = None\<rparr>,
       shd_Mongos = \<lparr>ms_Replicas = 2, ms_UseStatefulSet = False, ms_Resources = zero_resources, ms_Pod = None,
         ms_Service = None, ms_AutoScaling = None\<rparr>,
       shd_TLS = None,
       shd_Auth = \<lparr>auth_Mechanism = ''SCRAM-SHA-256'', auth_AdminCredentialsSecretRef = ''admin-creds'',
         auth_Users = [], auth_LDAP = None, auth_OIDC = None\<rparr>,
       shd_Monitoring = None, shd_Backup = None,
       shd_UpgradeStrategy = Some \<lparr>us_Type = ''RollingUpdate'', us_PreUpgradeBackup = False,
         us_ValidationInterval = ''60s'', us_RollbackOnFailure = True, us_MaxRetries = 3\<rparr>,
       shd_AuditLog = None, shd_AdditionalConfig = [],
       shd_PodDisruptionBudget = Some \<lparr>pdb_Enabled = True, pdb_MinAvailable = None, pdb_MaxUnavailable = None\<rparr>,
       shd_NetworkPolicy = Some \<lparr>nps_Enabled = True, nps_AdditionalIngressFrom = []\<rparr>,
       shd_ShardedCollections = []\<rparr>,
     ShStatus = \<lparr>ss_Phase = ''Running'', ss_ConfigServer = zero_component\<lparr>cst_Ready := 3, cst_Total := 3\<rparr>,
       ss_Shards = [\<lparr>sst_Name = ''sh-shard-0'', sst_Ready = 3, sst_Total = 3, sst_Primary = [], sst_Phase = ''Running''\<rparr>,
         \<lparr>sst_Name = ''sh-shard-1'', sst_Ready = 3, sst_Total = 3, sst_Primary = [], sst_Phase = ''Running''\<rparr>],
       ss_Mongos = zero_component\<lparr>cst_Ready := 2, cst_Total := 2\<rparr>, ss_Conditions = [], ss_ConnectionString = [],
       ss_LastBackup = None, ss_ShardedCollections = [], ss_ObservedGeneration = 2,
       ss_ConfigServerInitialized = True, ss_ShardsInitialized = [True, True], ss_ShardsAdded = [True, True],
       ss_AdminUserCreated = True, ss_Version = ''8.0.4'', ss_PreviousVersion = ''8.0.4'',
       ss_UpgradePhase = ''Validating'', ss_UpgradeStartTime = Some 0, ss_EffectiveVersion = ''8.2.1'',
       ss_RollbackActive = False, ss_UpgradeRetryCount = 0, ss_ObservedUpgradeGeneration = 0,
       ss_FCVVersion = ''8.0''\<rparr>\<rparr>"

end
