(* ===== verification/Versions.thy ===== *)
theory Versions
  imports Cluster_Types
begin

text \<open>
  Version handling of \<^verbatim>\<open>api/v1alpha1/common_types.go\<close>, \<^verbatim>\<open>internal/controller/upgrade.go\<close>
  and \<^verbatim>\<open>internal/resources/builder.go\<close>: the whitelist of supported versions, the check of
  an upgrade path that the admission webhook applies, the version the workloads run, and
  the derivation of the feature compatibility version (FCV).

  The whitelist object is \<^verbatim>\<open>commonsversion.MustList\<close> of \<^verbatim>\<open>keiailab-commons\<close>, which is
  not part of the repository: its membership test is the parameter \<open>isSup\<close>, applied to
  the declared list and a \<^verbatim>\<open>major.minor\<close> string.
\<close>

section \<open>Parsing\<close>

fun splitVersion_go :: "string \<Rightarrow> string list \<Rightarrow> string \<Rightarrow> string list" where
  "splitVersion_go cur parts [] = (if cur \<noteq> [] then parts @ [cur] else parts)"
| "splitVersion_go cur parts (c # v) =
     (if c = CHR ''.'' then splitVersion_go [] (parts @ [cur]) v
      else splitVersion_go (cur @ [c]) parts v)"

definition splitVersion :: "string \<Rightarrow> string list" where
  "splitVersion v = splitVersion_go [] [] v"

text \<open>\<^verbatim>\<open>%q\<close> of a rune uses single quotes.\<close>

definition Quote_rune :: "char \<Rightarrow> string" where
  "Quote_rune c = CHR 0x27 # (if c = CHR 0x27 then [CHR 0x5C, CHR 0x27]
     else if c = CHR 0x22 then [CHR 0x22] else quote_char c) @ [CHR 0x27]"

fun atoi_go :: "int64 \<Rightarrow> string \<Rightarrow> go_error + int64" where
  "atoi_go n [] = Inr n"
| "atoi_go n (c # s) =
     (if c < CHR ''0'' \<or> CHR ''9'' < c then Inl (ErrMsg (''not digit: '' @ Quote_rune c))
      else atoi_go (wrap64 (wrap64 (n * 10) + digit_val c)) s)"

definition atoi :: "string \<Rightarrow> go_error + int64" where
  "atoi s = (if s = [] then Inl (ErrMsg ''empty'') else atoi_go 0 s)"

definition parseMongoVersion :: "string \<Rightarrow> int64 \<times> int64 \<times> bool" where
  "parseMongoVersion v =
     (let parts = splitVersion v in
      if length parts < 2 then (0, 0, False)
      else case (atoi (parts ! 0), atoi (parts ! 1)) of
             (Inr maj, Inr mnr) \<Rightarrow> (maj, mnr, True)
           | _ \<Rightarrow> (0, 0, False))"

definition formatMongoVersion :: "int64 \<Rightarrow> int64 \<Rightarrow> string" where
  "formatMongoVersion major minor = show_int major @ ''.'' @ show_int minor"

section \<open>Supported versions\<close>

definition SupportedMongoDBVersions :: "string list" where
  "SupportedMongoDBVersions = [''8.0'', ''8.2'', ''8.3'', ''9.0'']"

definition IsSupportedMongoDBVersion ::
    "(string list \<Rightarrow> string \<Rightarrow> bool) \<Rightarrow> string \<Rightarrow> bool" where
  "IsSupportedMongoDBVersion isSup v =
     (let parts = splitN 3 (CHR ''.'') v in
      if length parts < 2 \<or> parts ! 0 = [] \<or> parts ! 1 = [] then False
      else isSup SupportedMongoDBVersions (parts ! 0 @ ''.'' @ parts ! 1))"

text \<open>The minors of one major in the whitelist, in ascending order.\<close>

definition supportedMinors :: "int64 \<Rightarrow> int64 list" where
  "supportedMinors major =
     sort (concat (map (\<lambda>v. case parseMongoVersion v of
                       (maj, mnr, ok) \<Rightarrow> if ok \<and> maj = major then [mnr] else [])
                     SupportedMongoDBVersions))"

section \<open>Upgrade paths\<close>

definition checkMajorStep :: "string \<Rightarrow> string \<Rightarrow> go_error option" where
  "checkMajorStep from to =
     (case (parseMongoVersion from, parseMongoVersion to) of
        ((fromMajor, fromMinor, _), (toMajor, toMinor, _)) \<Rightarrow>
          if toMajor \<noteq> wrap64 (fromMajor + 1) then
            Some (ErrMsg (''major version change '' @ Quote from @ '' '' @ arrow @ '' '' @ Quote to
                          @ '' is not allowed (must upgrade through supported minor path)''))
          else
            let last_ms = supportedMinors fromMajor; first_ms = supportedMinors toMajor in
            if length last_ms = 0 \<or> length first_ms = 0 then
              Some (ErrMsg (''version not in supported minor sequence: from='' @ Quote from @ '' to='' @ Quote to))
            else
              let lastMinor = last_ms ! (length last_ms - 1) in
              if fromMinor \<noteq> lastMinor \<or> toMinor \<noteq> first_ms ! 0 then
                Some (ErrMsg (''major version change '' @ Quote from @ '' '' @ arrow @ '' '' @ Quote to
                              @ '' is not allowed (must upgrade ''
                              @ Quote (formatMongoVersion fromMajor lastMinor) @ '' '' @ arrow @ '' ''
                              @ Quote (formatMongoVersion toMajor (first_ms ! 0)) @ '')''))
              else None)"

text \<open>
  The index scan keeps the last position at which a minor occurs, as the loop of the
  source does; \<open>-1\<close> when it does not occur.
\<close>

fun index_scan :: "int64 \<Rightarrow> int \<Rightarrow> int64 list \<Rightarrow> int \<Rightarrow> int" where
  "index_scan m i [] idx = idx"
| "index_scan m i (x # xs) idx = index_scan m (i + 1) xs (if x = m then i else idx)"

definition IsValidUpgradePath ::
    "(string list \<Rightarrow> string \<Rightarrow> bool) \<Rightarrow> string \<Rightarrow> string \<Rightarrow> go_error option" where
  "IsValidUpgradePath isSup from to =
     (if from = to then None
      else if \<not> IsSupportedMongoDBVersion isSup from then
        Some (ErrMsg (''from version '' @ Quote from @ '' is not supported''))
      else if \<not> IsSupportedMongoDBVersion isSup to then
        Some (ErrMsg (''to version '' @ Quote to @ '' is not supported''))
      else case (parseMongoVersion from, parseMongoVersion to) of
        ((fromMajor, fromMinor, fromOK), (toMajor, toMinor, toOK)) \<Rightarrow>
          if \<not> fromOK \<or> \<not> toOK then
            Some (ErrMsg (''unable to parse versions: from='' @ Quote from @ '' to='' @ Quote to))
          else if toMajor \<noteq> fromMajor then checkMajorStep from to
          else if toMinor < fromMinor then
            Some (ErrMsg (''downgrade '' @ Quote from @ '' '' @ arrow @ '' '' @ Quote to
              @ '' is not allowed (featureCompatibilityVersion not guaranteed)''))
          else
            let supported = supportedMinors fromMajor;
                fromIdx = index_scan fromMinor 0 supported (-1);
                toIdx = index_scan toMinor 0 supported (-1) in
            if fromIdx < 0 \<or> toIdx < 0 then
              Some (ErrMsg (''version not in supported minor sequence: from='' @ Quote from @ '' to='' @ Quote to))
            else if toIdx - fromIdx > 1 then
              Some (ErrMsg (''minor skip '' @ Quote from @ '' '' @ arrow @ '' '' @ Quote to
                @ '' is not allowed (must upgrade through ''
                @ Quote (formatMongoVersion fromMajor (supported ! nat (fromIdx + 1))) @ '')''))
            else None)"

section \<open>The version that is deployed, and its FCV\<close>

definition effectiveMongoDBVersion :: "MongoDBVersion \<Rightarrow> string \<Rightarrow> MongoDBVersion" where
  "effectiveMongoDBVersion spec statusEffective =
     (if statusEffective = [] \<or> ver_Image spec \<noteq> [] then spec
      else \<lparr>ver_Version = statusEffective, ver_Image = []\<rparr>)"

definition getMongoDBImage :: "MongoDBVersion \<Rightarrow> string" where
  "getMongoDBImage v = (if ver_Image v \<noteq> [] then ver_Image v else ''mongo:'' @ ver_Version v)"

definition fcvMajorMinor :: "string \<Rightarrow> string" where
  "fcvMajorMinor version =
     (let parts = split_on (CHR ''.'') version in
      if length parts < 2 then [] else parts ! 0 @ ''.'' @ parts ! 1)"

section \<open>Specification\<close>

text \<open>
  The accepted steps on the \<^verbatim>\<open>major.minor\<close> level, read off the rules of the comment of
  \<^verbatim>\<open>IsValidUpgradePath\<close>: stay, go to the next supported minor, or go from the last minor of a
  major to the first of the next.
\<close>

definition valid_steps :: "(string \<times> string) list" where
  "valid_steps =
     [(''8.0'', ''8.0''), (''8.0'', ''8.2''), (''8.2'', ''8.2''), (''8.2'', ''8.3''),
      (''8.3'', ''8.3''), (''8.3'', ''9.0''), (''9.0'', ''9.0'')]"

fun version_rank :: "string \<Rightarrow> nat" where
  "version_rank v = (if v = ''8.0'' then 0 else if v = ''8.2'' then 1
     else if v = ''8.3'' then 2 else 3)"

text \<open>One admitted change of \<^verbatim>\<open>spec.version.version\<close>.\<close>

definition accepted_update :: "(string list \<Rightarrow> string \<Rightarrow> bool) \<Rightarrow> string \<Rightarrow> string \<Rightarrow> bool" where
  "accepted_update isSup a b \<longleftrightarrow> IsValidUpgradePath isSup a b = None"

definition strip_last :: "string list \<Rightarrow> string list" where
  "strip_last xs = (if last xs = [] then butlast xs else xs)"

section \<open>The two parsers agree\<close>

lemma splitVersion_go_split:
  "split_on (CHR ''.'') v = w # ws \<Longrightarrow>
   splitVersion_go cur parts v = parts @ strip_last ((cur @ w) # ws)"
proof (induction v arbitrary: cur parts w ws)
  case Nil
  then show ?case by (auto simp: strip_last_def)
next
  case (Cons c v)
  obtain u us where u: "split_on (CHR ''.'') v = u # us" by (cases "split_on (CHR ''.'') v") auto
  show ?case
  proof (cases "c = CHR ''.''")
    case True
    with Cons.prems u have "w = []" "ws = u # us" by auto
    with True Cons.IH [OF u] show ?thesis by (auto simp: strip_last_def)
  next
    case False
    with Cons.prems u have "w = c # u" "ws = us" by auto
    with False Cons.IH [OF u] show ?thesis by auto
  qed
qed

lemma parseMongoVersion_prefix:
  assumes "split_on (CHR ''.'') v = a # b # r" and "b \<noteq> []"
  shows "parseMongoVersion v =
    (case (atoi a, atoi b) of (Inr maj, Inr mnr) \<Rightarrow> (maj, mnr, True) | _ \<Rightarrow> (0, 0, False))"
proof -
  have "splitVersion v = strip_last (a # b # r)"
    using splitVersion_go_split [OF assms(1), of "[]" "[]"] by (simp add: splitVersion_def)
  moreover have "\<exists>t. strip_last (a # b # r) = a # b # t"
    using assms(2) by (cases r) (auto simp: strip_last_def)
  ultimately show ?thesis by (auto simp: parseMongoVersion_def Let_def split: sum.splits)
qed

lemma splitN_Suc_Suc_split:
  "split_on d v = w # ws \<Longrightarrow> splitN (Suc (Suc n)) d v = w # (if ws = [] then [] else splitN (Suc n) d (Join ws [d]))"
proof (induction v arbitrary: w ws)
  case Nil
  then show ?case by auto
next
  case (Cons c v)
  obtain u us where u: "split_on d v = u # us" by (cases "split_on d v") auto
  have j: "Join (split_on d v) [d] = v" by (rule Join_split_on)
  show ?case
  proof (cases "c = d")
    case True
    with Cons.prems have "w = []" "ws = split_on d v" by auto
    with True j show ?thesis by simp
  next
    case False
    with Cons.prems u have "w = c # u" "ws = us" by auto
    with False Cons.IH [OF u] show ?thesis by simp
  qed
qed

section \<open>Supported versions\<close>

lemma supported_iff:
  assumes "\<And>l x. isSup l x = (x \<in> set l)"
  shows "IsSupportedMongoDBVersion isSup v \<longleftrightarrow> fcvMajorMinor v \<in> set SupportedMongoDBVersions"
proof -
  obtain w ws where w: "split_on (CHR ''.'') v = w # ws" by (cases "split_on (CHR ''.'') v") auto
  show ?thesis
  proof (cases ws)
    case Nil
    then show ?thesis using w splitN_Suc_Suc_split [OF w, of 1]
      by (simp add: IsSupportedMongoDBVersion_def fcvMajorMinor_def SupportedMongoDBVersions_def numeral_3_eq_3)
  next
    case (Cons b r)
    have sp: "split_on (CHR ''.'') (Join (b # r) ''.'') = b # r"
    proof -
      have "Join (w # b # r) ''.'' = v" using Join_split_on [of "CHR ''.''" v] w Cons by simp
      moreover have "CHR ''.'' \<notin> set w" using split_on_parts [of w "CHR ''.''" v] w by simp
      ultimately have "split_on (CHR ''.'') v = w # split_on (CHR ''.'') (Join (b # r) ''.'')"
        using split_on_append_sep [of "CHR ''.''" w "Join (b # r) ''.''"] by simp
      with w Cons show ?thesis by simp
    qed
    from w Cons have "splitN 3 (CHR ''.'') v = w # b # (if r = [] then [] else [Join r ''.''])"
      using splitN_Suc_Suc_split [OF w, of 1] splitN_Suc_Suc_split [OF sp, of 0]
      by (simp add: numeral_3_eq_3)
    then show ?thesis using w Cons assms
      by (auto simp: IsSupportedMongoDBVersion_def fcvMajorMinor_def SupportedMongoDBVersions_def)
  qed
qed

lemma fcv_split:
  assumes "fcvMajorMinor v \<noteq> []"
  obtains a b r where "split_on (CHR ''.'') v = a # b # r" "fcvMajorMinor v = a @ ''.'' @ b"
    "split_on (CHR ''.'') (fcvMajorMinor v) = [a, b]"
proof -
  obtain a ws where a: "split_on (CHR ''.'') v = a # ws" by (cases "split_on (CHR ''.'') v") auto
  with assms obtain b r where b: "ws = b # r" by (cases ws) (auto simp: fcvMajorMinor_def)
  with a have mm: "fcvMajorMinor v = a @ ''.'' @ b" by (simp add: fcvMajorMinor_def)
  have "CHR ''.'' \<notin> set a" "CHR ''.'' \<notin> set b"
    using split_on_parts [of a "CHR ''.''" v] split_on_parts [of b "CHR ''.''" v] a b by auto
  then have "split_on (CHR ''.'') (fcvMajorMinor v) = [a, b]"
    using split_on_append_sep [of "CHR ''.''" a b] split_on_no_sep [of "CHR ''.''" b] mm by simp
  with a b mm that show thesis by blast
qed

lemma parse_supported:
  assumes "fcvMajorMinor v \<in> set SupportedMongoDBVersions"
  shows "parseMongoVersion v = parseMongoVersion (fcvMajorMinor v)"
proof -
  from assms have ne: "fcvMajorMinor v \<noteq> []" by (auto simp: SupportedMongoDBVersions_def)
  obtain a b r where sp: "split_on (CHR ''.'') v = a # b # r"
    "split_on (CHR ''.'') (fcvMajorMinor v) = [a, b]" by (rule fcv_split [OF ne])
  have "b \<noteq> []"
    using sp(2) assms by (auto simp: SupportedMongoDBVersions_def)
  with sp show ?thesis by (simp add: parseMongoVersion_prefix)
qed

section \<open>Formatting and parsing are inverse\<close>

lemma atoi_go_digits:
  "\<forall>c \<in> set s. is_digit c \<Longrightarrow> 0 \<le> n \<Longrightarrow> is_int64 (digits_value n s)
   \<Longrightarrow> atoi_go n s = Inr (digits_value n s)"
proof (induction s arbitrary: n)
  case (Cons c s)
  then have d: "0 \<le> digit_val c" and c: "is_digit c" using digit_val_range [of c] by simp_all
  let ?n = "n * 10 + digit_val c"
  from Cons.prems d have le: "?n \<le> digits_value ?n s" using digits_value_ge [of s ?n] by simp
  with Cons.prems d have r: "is_int64 (n * 10)" "is_int64 ?n" by (auto simp: is_int64_def)
  from c have "\<not> (c < CHR ''0'' \<or> CHR ''9'' < c)" by (auto simp: is_digit_def)
  with r Cons d show ?case by simp
qed simp

lemma atoi_show_int:
  assumes "0 \<le> n" "is_int64 n" shows "atoi (show_int n) = Inr n"
proof -
  have "digits_value 0 (show_nat (nat n)) = n" using assms digits_value_show_nat [of "nat n"] by simp
  with assms atoi_go_digits [of "show_nat (nat n)" 0] show_nat_digits [of "nat n"]
  show ?thesis by (simp add: atoi_def show_int_def)
qed

lemma show_int_no_dot:
  assumes "0 \<le> n" shows "CHR ''.'' \<notin> set (show_int n)"
  using assms show_nat_digits [of "nat n"] by (auto simp: show_int_def is_digit_def)

lemma format_parse:
  assumes "0 \<le> a" "is_int64 a" "0 \<le> b" "is_int64 b"
  shows "parseMongoVersion (formatMongoVersion a b) = (a, b, True)"
proof -
  have "split_on (CHR ''.'') (formatMongoVersion a b) = [show_int a, show_int b]"
    using assms show_int_no_dot
    by (simp add: formatMongoVersion_def split_on_append_sep split_on_no_sep)
  moreover have "show_int b \<noteq> []" using assms by (simp add: show_int_def)
  ultimately show ?thesis using assms by (simp add: parseMongoVersion_prefix atoi_show_int)
qed

section \<open>Upgrade paths\<close>

lemma parse_table:
  "parseMongoVersion ''8.0'' = (8, 0, True)" "parseMongoVersion ''8.2'' = (8, 2, True)"
  "parseMongoVersion ''8.3'' = (8, 3, True)" "parseMongoVersion ''9.0'' = (9, 0, True)"
  by code_simp+

lemma minors_table: "supportedMinors 8 = [0, 2, 3]" "supportedMinors 9 = [0]"
  by (simp_all add: supportedMinors_def SupportedMongoDBVersions_def parse_table)

lemma path_supported:
  assumes exact: "\<And>l x. isSup l x = (x \<in> set l)"
    and f: "fcvMajorMinor from \<in> set SupportedMongoDBVersions"
    and t: "fcvMajorMinor to \<in> set SupportedMongoDBVersions" and "from \<noteq> to"
  shows "IsValidUpgradePath isSup from to = None
    \<longleftrightarrow> (fcvMajorMinor from, fcvMajorMinor to) \<in> set valid_steps"
proof -
  have pf: "parseMongoVersion from = parseMongoVersion (fcvMajorMinor from)"
    and pt: "parseMongoVersion to = parseMongoVersion (fcvMajorMinor to)"
    using f t by (simp_all add: parse_supported)
  have sup: "IsSupportedMongoDBVersion isSup from" "IsSupportedMongoDBVersion isSup to"
    using f t supported_iff [OF exact] by auto
  from f t show ?thesis
    unfolding IsValidUpgradePath_def checkMajorStep_def pf pt
    using \<open>from \<noteq> to\<close> sup
    by (auto simp: SupportedMongoDBVersions_def valid_steps_def parse_table minors_table
        Let_def is_int64_def)
qed

lemma valid_steps_supported:
  "(a, b) \<in> set valid_steps \<Longrightarrow>
   a \<in> set SupportedMongoDBVersions \<and> b \<in> set SupportedMongoDBVersions"
  by (auto simp: valid_steps_def SupportedMongoDBVersions_def)

lemma path_exact:
  assumes exact: "\<And>l x. isSup l x = (x \<in> set l)"
  shows "IsValidUpgradePath isSup from to = None
    \<longleftrightarrow> from = to \<or> (fcvMajorMinor from, fcvMajorMinor to) \<in> set valid_steps"
proof (cases "from = to")
  case True
  then show ?thesis by (simp add: IsValidUpgradePath_def)
next
  case ne: False
  show ?thesis
  proof (cases "fcvMajorMinor from \<in> set SupportedMongoDBVersions
      \<and> fcvMajorMinor to \<in> set SupportedMongoDBVersions")
    case True
    then show ?thesis using ne path_supported [OF exact] by blast
  next
    case False
    then have "\<not> IsSupportedMongoDBVersion isSup from \<or> \<not> IsSupportedMongoDBVersion isSup to"
      using supported_iff [OF exact] by blast
    then have "IsValidUpgradePath isSup from to \<noteq> None"
      using ne by (auto simp: IsValidUpgradePath_def)
    moreover have "(fcvMajorMinor from, fcvMajorMinor to) \<notin> set valid_steps"
      using False valid_steps_supported by blast
    ultimately show ?thesis using ne by blast
  qed
qed

lemma accepted_update_rank:
  assumes "\<And>l x. isSup l x = (x \<in> set l)" and "accepted_update isSup a b"
  shows "a = b \<or> (fcvMajorMinor a \<in> set SupportedMongoDBVersions
    \<and> fcvMajorMinor b \<in> set SupportedMongoDBVersions
    \<and> version_rank (fcvMajorMinor a) \<le> version_rank (fcvMajorMinor b)
    \<and> version_rank (fcvMajorMinor b) \<le> version_rank (fcvMajorMinor a) + 1)"
proof -
  have "a = b \<or> (fcvMajorMinor a, fcvMajorMinor b) \<in> set valid_steps"
    using assms path_exact [of isSup a b] by (simp add: accepted_update_def)
  then show ?thesis by (auto simp: valid_steps_def SupportedMongoDBVersions_def)
qed

text \<open>
  C14. The check of an upgrade path accepts exactly the unchanged version, patch changes
  within one supported \<^verbatim>\<open>major.minor\<close>, and the single steps 8.0 to 8.2, 8.2 to 8.3 and 8.3 to
  9.0; every skip, downgrade, other major change and unsupported version is rejected.
  The whitelist's membership test is assumed to be exact.
\<close>

theorem upgrade_path_exact:
  assumes "\<forall>l x. isSup l x = (x \<in> set l)"
  shows "IsValidUpgradePath isSup from to = None
    \<longleftrightarrow> from = to \<or> (fcvMajorMinor from, fcvMajorMinor to) \<in> set valid_steps"
  using assms by (intro path_exact) blast

theorem upgrade_path_exact_witness:
  "IsValidUpgradePath (\<lambda>l x. x \<in> set l) ''8.3.1'' ''9.0.2'' = None
   \<and> IsValidUpgradePath (\<lambda>l x. x \<in> set l) ''8.0.4'' ''8.3.0'' \<noteq> None"
  using upgrade_path_exact [of "\<lambda>l x. x \<in> set l" "''8.3.1''" "''9.0.2''"]
    upgrade_path_exact [of "\<lambda>l x. x \<in> set l" "''8.0.4''" "''8.3.0''"]
  by (simp add: fcvMajorMinor_def valid_steps_def)

text \<open>
  No sequence of admitted version changes, however long, takes a cluster that runs a
  supported version to a lower \<^verbatim>\<open>major.minor\<close>: the version and therefore the FCV derived
  from it only move up, and the cluster stays on supported versions.
\<close>

theorem accepted_updates_never_downgrade:
  assumes "\<forall>l x. isSup l x = (x \<in> set l)"
    and "(accepted_update isSup)\<^sup>*\<^sup>* a b"
    and "fcvMajorMinor a \<in> set SupportedMongoDBVersions"
  shows "fcvMajorMinor b \<in> set SupportedMongoDBVersions
    \<and> version_rank (fcvMajorMinor a) \<le> version_rank (fcvMajorMinor b)"
  using assms(2,3)
proof (induction rule: rtranclp_induct)
  case base
  then show ?case by simp
next
  case (step y z)
  then show ?case using accepted_update_rank [of isSup y z] assms(1) by (auto simp del: version_rank.simps)
qed

theorem accepted_updates_never_downgrade_witness:
  "version_rank (fcvMajorMinor ''8.0.5'') \<le> version_rank (fcvMajorMinor ''8.3.0'')"
proof -
  have ex: "\<forall>l x. (\<lambda>l x. x \<in> set l) l x = (x \<in> set (l :: string list))" by simp
  have "accepted_update (\<lambda>l x. x \<in> set l) ''8.0.5'' ''8.2.1''"
    "accepted_update (\<lambda>l x. x \<in> set l) ''8.2.1'' ''8.3.0''"
    by (simp_all add: accepted_update_def path_exact fcvMajorMinor_def valid_steps_def)
  then have run: "(accepted_update (\<lambda>l x. x \<in> set l))\<^sup>*\<^sup>* ''8.0.5'' ''8.3.0''" by simp
  have "fcvMajorMinor ''8.0.5'' \<in> set SupportedMongoDBVersions"
    by (simp add: fcvMajorMinor_def SupportedMongoDBVersions_def)
  from accepted_updates_never_downgrade [OF ex run this] show ?thesis by blast
qed

text \<open>The deployed image.\<close>

lemma image_of_effective:
  "getMongoDBImage (effectiveMongoDBVersion spec eff) =
     (if ver_Image spec \<noteq> [] then ver_Image spec
      else if eff \<noteq> [] then ''mongo:'' @ eff else ''mongo:'' @ ver_Version spec)"
  by (simp add: getMongoDBImage_def effectiveMongoDBVersion_def)

end
