(* ===== verification/Go_Time.thy ===== *)
theory Go_Time
  imports Go_Prelude
begin

text \<open>
  The parts of Go's \<^verbatim>\<open>time\<close> package that the operator uses: \<^verbatim>\<open>Time.Sub\<close> (which saturates)
  and \<^verbatim>\<open>time.ParseDuration\<close>, and the requeue cadences of
  \<^verbatim>\<open>internal/controller/intervals.go\<close>. Fractions such as \<^verbatim>\<open>1.5h\<close> are truncated exactly;
  Go computes them through \<^verbatim>\<open>float64\<close>.
\<close>

definition time_sub :: "gotime \<Rightarrow> gotime \<Rightarrow> duration" where
  "time_sub t u = max (- 9223372036854775808) (min 9223372036854775807 (t - u))"

definition requeueSteady :: duration where "requeueSteady = 30 * second"
definition requeueProvisioning :: duration where "requeueProvisioning = 10 * second"
definition requeueWaitForExternal :: duration where "requeueWaitForExternal = 5 * second"

definition unit_ns :: "string \<Rightarrow> int option" where
  "unit_ns u =
     (if u = ''ns'' then Some 1
      else if u = ''us'' then Some 1000
      else if u = [CHR 0xC2, CHR 0xB5, CHR ''s''] then Some 1000
      else if u = [CHR 0xCE, CHR 0xBC, CHR ''s''] then Some 1000
      else if u = ''ms'' then Some 1000000
      else if u = ''s'' then Some second
      else if u = ''m'' then Some minute
      else if u = ''h'' then Some 3600000000000
      else None)"

fun leadingInt :: "int \<Rightarrow> string \<Rightarrow> (int \<times> string) option" where
  "leadingInt v [] = Some (v, [])"
| "leadingInt v (c # s) =
     (if \<not> is_digit c then Some (v, c # s)
      else if v > 922337203685477580 then None
      else let v' = v * 10 + digit_val c in
           if v' > 9223372036854775808 then None else leadingInt v' s)"

fun leadingFraction :: "int \<Rightarrow> int \<Rightarrow> bool \<Rightarrow> string \<Rightarrow> int \<times> int \<times> string" where
  "leadingFraction f scale ov [] = (f, scale, [])"
| "leadingFraction f scale ov (c # s) =
     (if \<not> is_digit c then (f, scale, c # s)
      else if ov then leadingFraction f scale True s
      else if f > 922337203685477580 then leadingFraction f scale True s
      else let f' = f * 10 + digit_val c in
           if f' > 9223372036854775808 then leadingFraction f scale True s
           else leadingFraction f' (scale * 10) False s)"

definition unit_of :: "string \<Rightarrow> string" where
  "unit_of s = takeWhile (\<lambda>c. c \<noteq> CHR ''.'' \<and> \<not> is_digit c) s"

definition fraction_part :: "string \<Rightarrow> int \<times> int \<times> string \<times> bool" where
  "fraction_part s =
     (case s of
        [] \<Rightarrow> (0, 1, s, False)
      | d # t \<Rightarrow>
          if d = CHR ''.'' then
            (case leadingFraction 0 1 False t of
               (f, scale, t') \<Rightarrow> (f, scale, t', length t' \<noteq> length t))
          else (0, 1, s, False))"

text \<open>One component (number and unit) of a duration string.\<close>

definition duration_component :: "string \<Rightarrow> (int \<times> string) option" where
  "duration_component s =
     (case s of [] \<Rightarrow> None
      | c # _ \<Rightarrow>
        if \<not> (c = CHR ''.'' \<or> is_digit c) then None
        else case leadingInt 0 s of None \<Rightarrow> None
        | Some (v, s1) \<Rightarrow>
          let pre = length s1 \<noteq> length s;
              (f, scale, s2, post) = fraction_part s1;
              u = unit_of s2 in
          if \<not> pre \<and> \<not> post then None
          else if u = [] then None
          else case unit_ns u of None \<Rightarrow> None
          | Some un \<Rightarrow>
            if v > 9223372036854775808 div un then None
            else let v' = v * un + (if f > 0 then (f * un) div scale else 0) in
                 if v' > 9223372036854775808 then None
                 else Some (v', drop (length u) s2))"

fun duration_sum :: "nat \<Rightarrow> int \<Rightarrow> string \<Rightarrow> int option" where
  "duration_sum fuel d [] = Some d"
| "duration_sum 0 d (c # s) = None"
| "duration_sum (Suc fuel) d (c # s) =
     (case duration_component (c # s) of None \<Rightarrow> None
      | Some (v, s') \<Rightarrow>
        if d + v > 9223372036854775808 then None else duration_sum fuel (d + v) s')"

text \<open>Every component consumes at least one byte, so the length of the string is enough fuel.\<close>

definition ParseDuration :: "string \<Rightarrow> duration option" where
  "ParseDuration s =
     (let neg = (case s of c # _ \<Rightarrow> c = CHR ''-'' | [] \<Rightarrow> False);
          t = (case s of c # r \<Rightarrow> if c = CHR ''-'' \<or> c = CHR ''+'' then r else s | [] \<Rightarrow> s) in
      if t = ''0'' then Some 0
      else if t = [] then None
      else case duration_sum (length t) 0 t of None \<Rightarrow> None
        | Some d \<Rightarrow> if neg then Some (- d)
                    else if d > 9223372036854775807 then None else Some d)"

section \<open>Rendering\<close>

text \<open>\<^verbatim>\<open>Duration.String\<close>: a fraction without trailing zeros, then hours, minutes and seconds.\<close>

definition pad_left :: "nat \<Rightarrow> string \<Rightarrow> string" where
  "pad_left n s = replicate (n - length s) (CHR ''0'') @ s"

definition strip_zeros :: "string \<Rightarrow> string" where
  "strip_zeros s = rev (dropWhile (\<lambda>c. c = CHR ''0'') (rev s))"

definition fmtFrac :: "nat \<Rightarrow> nat \<Rightarrow> string" where
  "fmtFrac v prec =
     (let f = strip_zeros (pad_left prec (show_nat (v mod 10 ^ prec)))
      in if f = [] then [] else CHR ''.'' # f)"

definition DurationString :: "duration \<Rightarrow> string" where
  "DurationString d =
     (let u = nat \<bar>d\<bar>; sign = (if d < 0 then ''-'' else []) in
      if u = 0 then ''0s''
      else if u < 1000 then sign @ show_nat u @ ''ns''
      else if u < 1000000 then sign @ show_nat (u div 1000) @ fmtFrac u 3 @ [CHR 0xC2, CHR 0xB5, CHR ''s'']
      else if u < 1000000000 then sign @ show_nat (u div 1000000) @ fmtFrac u 6 @ ''ms''
      else
        let t = u div 1000000000; secs = show_nat (t mod 60) @ fmtFrac u 9 @ ''s''; mins = t div 60 in
        if mins = 0 then sign @ secs
        else if mins div 60 = 0 then sign @ show_nat (mins mod 60) @ ''m'' @ secs
        else sign @ show_nat (mins div 60) @ ''h'' @ show_nat (mins mod 60) @ ''m'' @ secs)"

text \<open>
  \<^verbatim>\<open>Time.UTC().Format(time.RFC3339)\<close> of a time in nanoseconds since 1970, with the
  proleptic Gregorian calendar of Go.
\<close>

definition civil_from_days :: "int \<Rightarrow> int \<times> int \<times> int" where
  "civil_from_days days =
     (let z = days + 719468; era = z div 146097; doe = z mod 146097;
          yoe = (doe - doe div 1460 + doe div 36524 - doe div 146096) div 365;
          doy = doe - (365 * yoe + yoe div 4 - yoe div 100);
          mp = (5 * doy + 2) div 153;
          d = doy - (153 * mp + 2) div 5 + 1;
          m = (if mp < 10 then mp + 3 else mp - 9);
          y = yoe + era * 400 + (if m \<le> 2 then 1 else 0)
      in (y, m, d))"

definition pad_int :: "nat \<Rightarrow> int \<Rightarrow> string" where
  "pad_int n i = pad_left n (show_int i)"

definition rfc3339 :: "gotime \<Rightarrow> string" where
  "rfc3339 t =
     (let secs = t div 1000000000; days = secs div 86400; rest = secs mod 86400 in
      case civil_from_days days of (y, m, d) \<Rightarrow>
        pad_int 4 y @ ''-'' @ pad_int 2 m @ ''-'' @ pad_int 2 d @ ''T'' @ pad_int 2 (rest div 3600) @ '':''
        @ pad_int 2 (rest div 60 mod 60) @ '':'' @ pad_int 2 (rest mod 60) @ ''Z'')"

lemma digit_char_table:
  "digit_char 0 = CHR ''0''" "digit_char (Suc 0) = CHR ''1''" "digit_char 2 = CHR ''2''" "digit_char 3 = CHR ''3''"
  "digit_char 4 = CHR ''4''" "digit_char 5 = CHR ''5''" "digit_char 6 = CHR ''6''" "digit_char 7 = CHR ''7''"
  "digit_char 8 = CHR ''8''" "digit_char 9 = CHR ''9''"
  by code_simp+

lemmas render_defs = fmtFrac_def pad_left_def strip_zeros_def pad_int_def show_int_def show_nat.simps
  digit_char_table

lemma DurationString_examples:
  "DurationString (10 * minute) = ''10m0s''" "DurationString 1500000000 = ''1.5s''"
  "DurationString 0 = ''0s''" "DurationString (3690 * second) = ''1h1m30s''"
  by (simp_all add: DurationString_def render_defs second_def minute_def)

lemma civil_examples:
  "civil_from_days 19782 = (2024, 2, 29)" "civil_from_days 0 = (1970, 1, 1)" "civil_from_days (-1) = (1969, 12, 31)"
  by code_simp+

section \<open>Enough fuel\<close>

lemma leadingInt_length: "leadingInt v s = Some (w, t) \<Longrightarrow> length t \<le> length s"
  by (induction v s rule: leadingInt.induct) (auto simp: Let_def split: if_splits)

lemma leadingFraction_length:
  "leadingFraction f sc ov s = (f', sc', t) \<Longrightarrow> length t \<le> length s"
  by (induction f sc ov s rule: leadingFraction.induct) (auto simp: Let_def split: if_splits)

lemma unit_of_drop: "unit_of s \<noteq> [] \<Longrightarrow> length (drop (length (unit_of s)) s) < length s"
  by (metis diff_less length_0_conv length_drop length_greater_0_conv not_gr_zero takeWhile.simps(1)
      unit_of_def)

lemma duration_component_shorter:
  assumes "duration_component s = Some (v, t)" shows "length t < length s"
proof -
  from assms obtain w s1 where s1: "leadingInt 0 s = Some (w, s1)"
    by (auto simp: duration_component_def split: list.splits if_splits option.splits)
  obtain f scale s2 post where q: "fraction_part s1 = (f, scale, s2, post)"
    by (cases "fraction_part s1")
  then have "length s2 \<le> length s1"
    by (auto simp: fraction_part_def dest!: leadingFraction_length
        split: list.splits if_splits prod.splits)
  moreover have "t = drop (length (unit_of s2)) s2 \<and> unit_of s2 \<noteq> []"
    using assms s1 q
    by (auto simp: duration_component_def Let_def split: list.splits if_splits option.splits prod.splits)
  ultimately show ?thesis
    using unit_of_drop [of s2] leadingInt_length [OF s1] by simp
qed

lemma duration_sum_fuel:
  "length s \<le> n \<Longrightarrow> length s \<le> m \<Longrightarrow> duration_sum n d s = duration_sum m d s"
proof (induction n arbitrary: m d s)
  case 0
  then show ?case by simp
next
  case (Suc n)
  show ?case
  proof (cases s)
    case Nil
    then show ?thesis by simp
  next
    case (Cons c r)
    with Suc.prems(2) obtain m' where m: "m = Suc m'" by (cases m) auto
    have "length t \<le> n \<and> length t \<le> m'" if "duration_component (c # r) = Some (v, t)" for v t
      using duration_component_shorter [OF that] Suc.prems Cons m by simp
    with Suc.IH show ?thesis
      unfolding Cons m by (auto split: option.splits)
  qed
qed

lemma ParseDuration_60s: "ParseDuration ''60s'' = Some (60 * second)"
  by code_simp

lemma ParseDuration_90m: "ParseDuration ''1h30m'' = Some (90 * minute)"
  by code_simp

lemma ParseDuration_bad: "ParseDuration ''60'' = None" "ParseDuration ''s'' = None"
  by code_simp+

end
