(* ===== verification/Mongo_Admin.thy ===== *)
theory Mongo_Admin
  imports Cluster_Types Go_Time
begin

text \<open>
  \<^verbatim>\<open>internal/mongodb/client.go\<close>, \<^verbatim>\<open>replicaset.go\<close> and the bootstrap of \<^verbatim>\<open>auth.go\<close>: how the
  operator talks to a mongod. The driver is a third-party package: a record of functions
  (\<open>mongo_driver\<close>) that answers connects, pings and read commands and accepts or refuses
  write commands. A manager operation returns the write commands it issued, in order, with
  its result.
\<close>

section \<open>Data\<close>

record ReplicaSetMember =
  rm_ID :: int64
  rm_Host :: string
  rm_Priority :: int
  rm_Votes :: int64
  rm_ArbiterOnly :: bool
  rm_Hidden :: bool

record ReplicaSetConfig =
  rc_ID :: string
  rc_Members :: "ReplicaSetMember list"
  rc_Version :: int64

record ReplicaSetMemberStatus =
  rms_ID :: int64
  rms_Name :: string
  rms_Health :: int64
  rms_State :: int64
  rms_StateStr :: string
  rms_Uptime :: int64
  rms_Self :: bool

record ReplicaSetStatus =
  rst_Set :: string
  rst_MyState :: int64
  rst_Members :: "ReplicaSetMemberStatus list"
  rst_OK :: int64

record ConnectOpts =
  co_Hosts :: "string list"
  co_Username :: string
  co_Password :: string
  co_AuthDB :: string
  co_ReplicaSet :: string
  co_Direct :: bool
  co_Timeout :: duration

record credential =
  cred_Mechanism :: string
  cred_AuthSource :: string
  cred_Username :: string
  cred_Password :: string

record conn =
  cn_URI :: string
  cn_Cred :: "credential option"
  cn_Timeout :: duration

text \<open>The fields of a \<^verbatim>\<open>hello\<close> reply that are read.\<close>

record hello_reply =
  hr_info :: "string option"
  hr_setName :: bool

text \<open>
  Values of a shard key document. A \<^verbatim>\<open>float64\<close> is either integral (\<open>BFloat\<close>) or given by its
  \<^verbatim>\<open>%v\<close> rendering (\<open>BFraction\<close>, infinities included); any other type by its rendering as well.
\<close>

datatype bson_val =
    BString string
  | BInt32 int
  | BInt64 int
  | BFloat int
  | BFraction string
  | BOther string

type_synonym bson_doc = "(string \<times> bson_val) list"

record TimeseriesOptions =
  tso_TimeField :: string
  tso_MetaField :: string
  tso_Granularity :: string

record ShardCollectionOptions =
  sco_Unique :: bool
  sco_Timeseries :: "TimeseriesOptions option"

record RemoveShardResult =
  rsr_State :: string
  rsr_Msg :: string
  rsr_Shard :: string
  rsr_Chunks :: int
  rsr_Databases :: int

record listed_shard =
  lsh_ID :: string
  lsh_Host :: string
  lsh_State :: int

record configCollectionDoc =
  ccd_ID :: string
  ccd_Key :: bson_doc
  ccd_Dropped :: bool

datatype mongo_cmd =
    ReplSetInitiate ReplicaSetConfig
  | ReplSetReconfig ReplicaSetConfig bool
  | SetFeatureCompatibilityVersion string
  | CreateRootUser string string
  | AddShardCmd string
  | RemoveShardCmd string
  | EnableShardingCmd string
  | ShardCollectionCmd string bson_doc bool "bson_doc option"
  | CreateUserCmd string string "string list" "(string \<times> string) list"
  | UpdateUserCmd string string "string list" "(string \<times> string) list"
  | DropUserCmd string
  | CreateSearchIndexCmd string string string string bson_doc
  | UpdateSearchIndexCmd string string string bson_doc
  | DropSearchIndexCmd string string string
  | ProfileCmd string int int

record mongo_driver =
  drv_connect :: "conn \<Rightarrow> go_error option"
  drv_ping :: "conn \<Rightarrow> go_error option"
  drv_hello :: "conn \<Rightarrow> go_error + hello_reply"
  drv_status :: "conn \<Rightarrow> go_error + ReplicaSetStatus"
  drv_config :: "conn \<Rightarrow> go_error + ReplicaSetConfig"
  drv_users :: "conn \<Rightarrow> string \<Rightarrow> string \<Rightarrow> go_error + string list"
  drv_run :: "conn \<Rightarrow> mongo_cmd \<Rightarrow> go_error option"
  drv_remove_shard :: "conn \<Rightarrow> string \<Rightarrow> go_error + RemoveShardResult"
  drv_list_shards :: "conn \<Rightarrow> go_error + listed_shard list"
  drv_collection :: "conn \<Rightarrow> string \<Rightarrow> go_error + configCollectionDoc option"
  drv_collections :: "conn \<Rightarrow> go_error + configCollectionDoc list"
  drv_show_key :: "bson_doc \<Rightarrow> string"

section \<open>Addresses and connections\<close>

definition GetPodFQDN :: "string \<Rightarrow> string \<Rightarrow> string \<Rightarrow> int \<Rightarrow> string" where
  "GetPodFQDN podName serviceName namespace port =
     podName @ ''.'' @ serviceName @ ''.'' @ namespace @ ''.svc.cluster.local:'' @ show_int port"

text \<open>
  The number of replicas is an \<^verbatim>\<open>int\<close> in the source. A negative one, which the schema of the resources
  excludes, would panic in \<^verbatim>\<open>make\<close>; it is not modelled.
\<close>

definition GetPodsFQDN :: "string \<Rightarrow> string \<Rightarrow> string \<Rightarrow> nat \<Rightarrow> int \<Rightarrow> string list" where
  "GetPodsFQDN baseName serviceName namespace replicas port =
     map (\<lambda>i. GetPodFQDN (baseName @ ''-'' @ show_nat i) serviceName namespace port) [0..<replicas]"

definition buildURI :: "string list \<Rightarrow> string \<Rightarrow> bool \<Rightarrow> string" where
  "buildURI hosts replicaSet direct =
     (let params = (if direct then [''directConnection=true'']
                    else if replicaSet \<noteq> [] then [''replicaSet='' @ replicaSet] else [])
      in ''mongodb://'' @ Join hosts '',''
         @ (if length params > 0 then ''/?'' @ Join params ''&'' else []))"

definition adminUserDB :: string where "adminUserDB = ''admin''"

definition failed_ko :: string where "failed_ko = utf8 [32, 236, 139, 164, 237, 140, 168]"

definition NewClient :: "mongo_driver \<Rightarrow> ConnectOpts \<Rightarrow> go_error + conn" where
  "NewClient drv opts =
     (if length (co_Hosts opts) = 0 then
        Inl (ErrMsg (''ConnectOpts.Hosts '' @
          utf8 [235, 185, 132, 236, 150, 180, 236, 158, 136, 236, 157, 140]))
      else if co_Direct opts \<and> co_ReplicaSet opts \<noteq> [] then
        Inl (ErrMsg (''ConnectOpts.Direct=true'' @ utf8 [236, 153, 128] @ '' ReplicaSet '' @
          utf8 [235, 143, 153, 236, 139, 156, 32, 236, 167, 128, 236, 160, 149, 32,
                235, 182, 136, 234, 176, 128]))
      else
        let timeout = (if co_Timeout opts = 0 then 10 * second else co_Timeout opts);
            uri = buildURI (co_Hosts opts) (co_ReplicaSet opts) (co_Direct opts);
            authDB = (if co_AuthDB opts = [] then adminUserDB else co_AuthDB opts);
            cred = (if co_Username opts \<noteq> []
                    then Some \<lparr>cred_Mechanism = ''SCRAM-SHA-256'', cred_AuthSource = authDB,
                               cred_Username = co_Username opts, cred_Password = co_Password opts\<rparr>
                    else None);
            c = \<lparr>cn_URI = uri, cn_Cred = cred, cn_Timeout = timeout\<rparr> in
        case drv_connect drv c of
          Some e \<Rightarrow> Inl (Wrapped (''mongo.Connect'' @ failed_ko) e)
        | None \<Rightarrow>
          (case drv_ping drv c of
             Some e \<Rightarrow> Inl (Wrapped (''mongo Ping'' @ failed_ko) e)
           | None \<Rightarrow> Inr c))"

text \<open>
  A \<^verbatim>\<open>ConnectFactory\<close>: pod name, namespace and the direct flag to a connection.
\<close>

type_synonym ConnectFactory = "string \<Rightarrow> string \<Rightarrow> bool \<Rightarrow> go_error + conn"

definition NewPodConnectFactory ::
    "mongo_driver \<Rightarrow> string \<Rightarrow> int \<Rightarrow> string \<Rightarrow> string \<Rightarrow> string \<Rightarrow> ConnectFactory" where
  "NewPodConnectFactory drv serviceName port username password authDB =
     (\<lambda>podName namespace direct.
        NewClient drv \<lparr>co_Hosts = [GetPodFQDN podName serviceName namespace port],
          co_Username = username, co_Password = password, co_AuthDB = authDB,
          co_ReplicaSet = [], co_Direct = direct, co_Timeout = 0\<rparr>)"

definition NewServiceConnectFactory ::
    "mongo_driver \<Rightarrow> string \<Rightarrow> string \<Rightarrow> int \<Rightarrow> string \<Rightarrow> string \<Rightarrow> string \<Rightarrow> ConnectFactory" where
  "NewServiceConnectFactory drv serviceName namespace port username password authDB =
     (\<lambda>_ _ direct.
        NewClient drv
          \<lparr>co_Hosts = [serviceName @ ''.'' @ namespace @ ''.svc.cluster.local:'' @ show_int port],
           co_Username = username, co_Password = password, co_AuthDB = authDB,
           co_ReplicaSet = [], co_Direct = direct, co_Timeout = 0\<rparr>)"

section \<open>The replica set manager\<close>

type_synonym 'a mgr_result = "mongo_cmd list \<times> (go_error + 'a)"

definition helloNoConfigInfoSubstr :: string where
  "helloNoConfigInfoSubstr = ''valid replica set config''"
definition rsStateStrPrimary :: string where "rsStateStrPrimary = ''PRIMARY''"

definition classifyHelloForRSInit :: "hello_reply \<Rightarrow> bool" where
  "classifyHelloForRSInit hello =
     (case hr_info hello of
        Some info \<Rightarrow> if StrContains info helloNoConfigInfoSubstr then False else hr_setName hello
      | None \<Rightarrow> hr_setName hello)"

definition IsInitialized :: "mongo_driver \<Rightarrow> ConnectFactory \<Rightarrow> string \<Rightarrow> string \<Rightarrow> go_error + bool" where
  "IsInitialized drv f podName namespace =
     (case f podName namespace True of
        Inl e \<Rightarrow> Inl (Wrapped ''connect for IsInitialized'' e)
      | Inr c \<Rightarrow> (case drv_hello drv c of
                    Inl e \<Rightarrow> Inl (Wrapped ''hello'' e)
                  | Inr hello \<Rightarrow> Inr (classifyHelloForRSInit hello)))"

definition run_cmd :: "mongo_driver \<Rightarrow> conn \<Rightarrow> mongo_cmd \<Rightarrow> string \<Rightarrow> unit mgr_result" where
  "run_cmd drv c cmd what =
     ([cmd], case drv_run drv c cmd of Some e \<Rightarrow> Inl (Wrapped what e) | None \<Rightarrow> Inr ())"

definition Initiate ::
    "mongo_driver \<Rightarrow> ConnectFactory \<Rightarrow> string \<Rightarrow> string \<Rightarrow> ReplicaSetConfig \<Rightarrow> unit mgr_result" where
  "Initiate drv f podName namespace config =
     (case IsInitialized drv f podName namespace of
        Inl e \<Rightarrow> ([], Inl (Wrapped ''check init'' e))
      | Inr initialized \<Rightarrow>
        if initialized then ([], Inr ())
        else case f podName namespace True of
               Inl e \<Rightarrow> ([], Inl (Wrapped ''connect for Initiate'' e))
             | Inr c \<Rightarrow> run_cmd drv c (ReplSetInitiate config) ''replSetInitiate'')"

definition GetStatus ::
    "mongo_driver \<Rightarrow> ConnectFactory \<Rightarrow> string \<Rightarrow> string \<Rightarrow> go_error + ReplicaSetStatus" where
  "GetStatus drv f podName namespace =
     (case f podName namespace True of
        Inl e \<Rightarrow> Inl (Wrapped ''connect for GetStatus'' e)
      | Inr c \<Rightarrow> (case drv_status drv c of
                    Inl e \<Rightarrow> Inl (Wrapped ''replSetGetStatus'' e)
                  | Inr st \<Rightarrow> Inr st))"

definition SetFCV ::
    "mongo_driver \<Rightarrow> ConnectFactory \<Rightarrow> string \<Rightarrow> string \<Rightarrow> string \<Rightarrow> unit mgr_result" where
  "SetFCV drv f podName namespace version =
     (case f podName namespace False of
        Inl e \<Rightarrow> ([], Inl (Wrapped ''connect for SetFCV'' e))
      | Inr c \<Rightarrow> run_cmd drv c (SetFeatureCompatibilityVersion version)
                   (''setFeatureCompatibilityVersion='' @ version))"

definition GetPrimaryPod ::
    "mongo_driver \<Rightarrow> ConnectFactory \<Rightarrow> string \<Rightarrow> string \<Rightarrow> go_error + string" where
  "GetPrimaryPod drv f podName namespace =
     (case GetStatus drv f podName namespace of
        Inl e \<Rightarrow> Inl e
      | Inr status \<Rightarrow>
        (case find (\<lambda>m. rms_StateStr m = rsStateStrPrimary) (rst_Members status) of
           Some m \<Rightarrow> Inr (split_on (CHR ''.'') (rms_Name m) ! 0)
         | None \<Rightarrow> Inl (ErrMsg ''no primary found'')))"

definition HasPrimary ::
    "mongo_driver \<Rightarrow> ConnectFactory \<Rightarrow> string \<Rightarrow> string \<Rightarrow> go_error + bool" where
  "HasPrimary drv f podName namespace =
     (case GetStatus drv f podName namespace of
        Inl e \<Rightarrow> Inl e
      | Inr status \<Rightarrow>
          Inr (list_ex (\<lambda>m. rms_StateStr m = rsStateStrPrimary \<and> rms_Health m = 1)
                 (rst_Members status)))"

definition GetConfig ::
    "mongo_driver \<Rightarrow> ConnectFactory \<Rightarrow> string \<Rightarrow> string \<Rightarrow> go_error + ReplicaSetConfig" where
  "GetConfig drv f podName namespace =
     (case f podName namespace True of
        Inl e \<Rightarrow> Inl (Wrapped ''connect for GetConfig'' e)
      | Inr c \<Rightarrow> (case drv_config drv c of
                    Inl e \<Rightarrow> Inl (Wrapped ''replSetGetConfig'' e)
                  | Inr cfg \<Rightarrow> Inr cfg))"

definition Reconfigure ::
    "mongo_driver \<Rightarrow> ConnectFactory \<Rightarrow> string \<Rightarrow> string \<Rightarrow> ReplicaSetConfig \<Rightarrow> bool
     \<Rightarrow> unit mgr_result" where
  "Reconfigure drv f podName namespace config force =
     (case f podName namespace True of
        Inl e \<Rightarrow> ([], Inl (Wrapped ''connect for Reconfigure'' e))
      | Inr c \<Rightarrow> run_cmd drv c (ReplSetReconfig config force) ''replSetReconfig'')"

text \<open>
  The scan of \<^verbatim>\<open>AddMember\<close>: \<open>None\<close> when the host is already a member, otherwise the
  largest member id (\<open>-1\<close> for an empty list).
\<close>

fun scan_members :: "string \<Rightarrow> int64 \<Rightarrow> ReplicaSetMember list \<Rightarrow> int64 option" where
  "scan_members newHost maxID [] = Some maxID"
| "scan_members newHost maxID (m # ms) =
     (if rm_Host m = newHost then None
      else scan_members newHost (if rm_ID m > maxID then rm_ID m else maxID) ms)"

definition AddMember ::
    "mongo_driver \<Rightarrow> ConnectFactory \<Rightarrow> string \<Rightarrow> string \<Rightarrow> string \<Rightarrow> bool \<Rightarrow> unit mgr_result" where
  "AddMember drv f podName namespace newHost arbiterOnly =
     (case GetConfig drv f podName namespace of
        Inl e \<Rightarrow> ([], Inl (Wrapped ''get config'' e))
      | Inr cfg \<Rightarrow>
        (case scan_members newHost (-1) (rc_Members cfg) of
           None \<Rightarrow> ([], Inr ())
         | Some maxID \<Rightarrow>
             Reconfigure drv f podName namespace
               (cfg\<lparr>rc_Members := rc_Members cfg @
                      [\<lparr>rm_ID = wrap64 (maxID + 1), rm_Host = newHost, rm_Priority = 0,
                        rm_Votes = 0, rm_ArbiterOnly = arbiterOnly, rm_Hidden = False\<rparr>],
                    rc_Version := wrap64 (rc_Version cfg + 1)\<rparr>) False))"

definition RemoveMember ::
    "mongo_driver \<Rightarrow> ConnectFactory \<Rightarrow> string \<Rightarrow> string \<Rightarrow> string \<Rightarrow> unit mgr_result" where
  "RemoveMember drv f podName namespace hostToRemove =
     (case GetConfig drv f podName namespace of
        Inl e \<Rightarrow> ([], Inl (Wrapped ''get config'' e))
      | Inr cfg \<Rightarrow>
        if \<not> list_ex (\<lambda>m. rm_Host m = hostToRemove) (rc_Members cfg) then ([], Inr ())
        else Reconfigure drv f podName namespace
               (cfg\<lparr>rc_Members := filter (\<lambda>m. rm_Host m \<noteq> hostToRemove) (rc_Members cfg),
                    rc_Version := wrap64 (rc_Version cfg + 1)\<rparr>) False)"

text \<open>
  The number of members is an \<^verbatim>\<open>int\<close> in the source. A negative one, which the schema of the resources
  excludes, would panic in \<^verbatim>\<open>make\<close>; it is not modelled.
\<close>

definition BuildReplicaSetConfig ::
    "string \<Rightarrow> string \<Rightarrow> string \<Rightarrow> string \<Rightarrow> nat \<Rightarrow> int \<Rightarrow> ReplicaSetConfig" where
  "BuildReplicaSetConfig rsName baseName serviceName namespace members port =
     \<lparr>rc_ID = rsName,
      rc_Members = map (\<lambda>i. \<lparr>rm_ID = int i,
          rm_Host = GetPodFQDN (baseName @ ''-'' @ show_nat i) serviceName namespace port,
          rm_Priority = 0, rm_Votes = 0, rm_ArbiterOnly = False, rm_Hidden = False\<rparr>) [0..<members],
      rc_Version = 0\<rparr>"

section \<open>Bootstrap of the admin user\<close>

definition isAuthRequiredErr :: "go_error \<Rightarrow> bool" where
  "isAuthRequiredErr err =
     (HasErrorCode err 13 \<or> HasErrorCode err 18
      \<or> StrContains (Error err) ''requires authentication''
      \<or> StrContains (Error err) ''Authentication failed''
      \<or> StrContains (Error err) ''AuthenticationFailed'')"

definition isUserAlreadyExistsErr :: "go_error \<Rightarrow> bool" where
  "isUserAlreadyExistsErr err =
     (HasErrorCode err 11000 \<or> HasErrorCode err 51003 \<or> StrContains (Error err) ''already exists'')"

definition BootstrapAdminUser ::
    "mongo_driver \<Rightarrow> string \<Rightarrow> string \<Rightarrow> string \<Rightarrow> unit mgr_result" where
  "BootstrapAdminUser drv firstHost username password =
     (case NewClient drv \<lparr>co_Hosts = [firstHost], co_Username = [], co_Password = [],
              co_AuthDB = [], co_ReplicaSet = [], co_Direct = False, co_Timeout = 25 * second\<rparr> of
        Inl err \<Rightarrow>
          ([], if isAuthRequiredErr err then Inr () else Inl (Wrapped ''anonymous connect'' err))
      | Inr c \<Rightarrow>
          ([CreateRootUser username password],
           case drv_run drv c (CreateRootUser username password) of
             None \<Rightarrow> Inr ()
           | Some err \<Rightarrow> if isUserAlreadyExistsErr err \<or> isAuthRequiredErr err then Inr ()
                          else Inl (Wrapped ''createUser'' err)))"

definition UserExists ::
    "mongo_driver \<Rightarrow> ConnectFactory \<Rightarrow> string \<Rightarrow> string \<Rightarrow> string \<Rightarrow> string \<Rightarrow> go_error + bool" where
  "UserExists drv f podName namespace username database =
     (case f podName namespace True of
        Inl e \<Rightarrow> Inl (Wrapped ''connect for UserExists'' e)
      | Inr c \<Rightarrow> (case drv_users drv c username database of
                    Inl e \<Rightarrow> Inl (Wrapped ''usersInfo'' e)
                  | Inr users \<Rightarrow> Inr (length users > 0)))"

text \<open>The user is no longer created by the manager: it only checks that the bootstrap made it.\<close>

definition CreateAdminUser :: "mongo_driver \<Rightarrow> ConnectFactory \<Rightarrow> string \<Rightarrow> string \<Rightarrow> string \<Rightarrow> go_error option" where
  "CreateAdminUser drv f podName namespace username =
     (case UserExists drv f podName namespace username adminUserDB of
        Inl e \<Rightarrow> Some (Wrapped ''verify admin user'' e)
      | Inr found \<Rightarrow>
          if \<not> found then Some (ErrMsg (''admin user '' @ Quote username @ '' not found '' @
            utf8 [226, 128, 148, 32, 112, 111, 100, 236, 157, 152, 32, 108, 105, 102, 101, 99, 121, 99, 108, 101, 46, 112, 111, 115, 116, 83, 116, 97, 114, 116, 32, 98, 111, 111, 116, 115, 116, 114, 97, 112, 236, 157, 180, 32, 236, 139, 164, 237, 150, 137, 235, 144, 152, 236, 167, 128, 32, 236, 149, 138, 236, 149, 152, 234, 177, 176, 235, 130, 152, 32, 236, 139, 164, 237, 140, 168, 237, 149, 168]))
          else None)"

record UserRole =
  ur_Role :: string
  ur_DB :: string

record MongoUser =
  mu_Username :: string
  mu_Password :: string
  mu_Database :: string
  mu_Roles :: "UserRole list"

definition admin_role :: "string \<Rightarrow> UserRole" where
  "admin_role role = \<lparr>ur_Role = role, ur_DB = adminUserDB\<rparr>"

definition DefaultAdminUser :: "string \<Rightarrow> MongoUser" where
  "DefaultAdminUser password = \<lparr>mu_Username = adminUserDB, mu_Password = password, mu_Database = adminUserDB,
     mu_Roles = [admin_role ''root'']\<rparr>"

definition ClusterAdminUser :: "string \<Rightarrow> string \<Rightarrow> MongoUser" where
  "ClusterAdminUser username password = \<lparr>mu_Username = username, mu_Password = password, mu_Database = adminUserDB,
     mu_Roles = map admin_role [''clusterAdmin'', ''userAdminAnyDatabase'', ''readWriteAnyDatabase'']\<rparr>"

definition ReadWriteUser :: "string \<Rightarrow> string \<Rightarrow> string \<Rightarrow> MongoUser" where
  "ReadWriteUser username password database = \<lparr>mu_Username = username, mu_Password = password, mu_Database = database,
     mu_Roles = [\<lparr>ur_Role = ''readWrite'', ur_DB = database\<rparr>]\<rparr>"

text \<open>\<open>getParameter\<close> is the answer of the server to the command of that name.\<close>

definition GetFCV :: "(conn \<Rightarrow> go_error + string) \<Rightarrow> ConnectFactory \<Rightarrow> string \<Rightarrow> string \<Rightarrow> go_error + string" where
  "GetFCV getParameter f podName namespace =
     (case f podName namespace True of
        Inl e \<Rightarrow> Inl (Wrapped ''connect for GetFCV'' e)
      | Inr c \<Rightarrow> (case getParameter c of
                    Inl e \<Rightarrow> Inl (Wrapped ''getParameter featureCompatibilityVersion'' e)
                  | Inr version \<Rightarrow> Inr version))"

text \<open>One poll per tick until the context ends with \<open>ctxErr\<close>; the drivers are those of the ticks before that.\<close>

fun WaitForPrimary :: "go_error \<Rightarrow> ConnectFactory \<Rightarrow> string \<Rightarrow> string \<Rightarrow> mongo_driver list \<Rightarrow> go_error option" where
  "WaitForPrimary ctxErr f podName namespace [] = Some ctxErr"
| "WaitForPrimary ctxErr f podName namespace (drv # ticks) =
     (if HasPrimary drv f podName namespace = Inr True then None else WaitForPrimary ctxErr f podName namespace ticks)"

section \<open>Member identities\<close>

lemma scan_members_spec:
  "scan_members h k ms = (if h \<in> rm_Host ` set ms then None
     else Some (fold max (map rm_ID ms) k))"
proof (induction ms arbitrary: k)
  case (Cons m ms)
  have "(if rm_ID m > k then rm_ID m else k) = max (rm_ID m) k" by (simp add: max_def)
  with Cons show ?case by auto
qed simp

lemma fold_max_ge: "k \<le> fold max xs (k::int) \<and> (\<forall>x \<in> set xs. x \<le> fold max xs k)"
proof (induction xs arbitrary: k)
  case (Cons x xs)
  from Cons [of "max x k"] show ?case by auto
qed simp

lemma fold_max_bound: "(\<forall>x \<in> set xs. x < b) \<Longrightarrow> k < b \<Longrightarrow> fold max xs k < (b::int)"
  by (induction xs arbitrary: k) auto

text \<open>The member that \<^verbatim>\<open>AddMember\<close> appends, and the configurations it accepts without overflow.\<close>

definition fresh_member :: "ReplicaSetConfig \<Rightarrow> string \<Rightarrow> bool \<Rightarrow> ReplicaSetMember" where
  "fresh_member cfg h arb = \<lparr>rm_ID = fold max (map rm_ID (rc_Members cfg)) (-1) + 1, rm_Host = h,
     rm_Priority = 0, rm_Votes = 0, rm_ArbiterOnly = arb, rm_Hidden = False\<rparr>"

definition rs_config_ok :: "ReplicaSetConfig \<Rightarrow> bool" where
  "rs_config_ok cfg \<longleftrightarrow> distinct (map rm_ID (rc_Members cfg)) \<and> distinct (map rm_Host (rc_Members cfg))
     \<and> (\<forall>m \<in> set (rc_Members cfg). 0 \<le> rm_ID m \<and> rm_ID m < 9223372036854775807)
     \<and> 0 \<le> rc_Version cfg \<and> rc_Version cfg < 9223372036854775806"

lemma AddMember_new:
  assumes "GetConfig drv f p ns = Inr cfg" "rs_config_ok cfg" "h \<notin> rm_Host ` set (rc_Members cfg)"
  shows "AddMember drv f p ns h arb =
    Reconfigure drv f p ns (cfg\<lparr>rc_Members := rc_Members cfg @ [fresh_member cfg h arb],
       rc_Version := rc_Version cfg + 1\<rparr>) False"
proof -
  let ?m = "fold max (map rm_ID (rc_Members cfg)) (-1)"
  have "-1 \<le> ?m" "?m < 9223372036854775807"
    using fold_max_ge [of "-1" "map rm_ID (rc_Members cfg)"]
      fold_max_bound [of "map rm_ID (rc_Members cfg)" 9223372036854775807 "-1"] assms(2)
    by (auto simp: rs_config_ok_def)
  then have "wrap64 (?m + 1) = ?m + 1" "wrap64 (rc_Version cfg + 1) = rc_Version cfg + 1"
    using assms(2) by (simp_all add: is_int64_def rs_config_ok_def)
  with assms show ?thesis
    by (simp add: AddMember_def scan_members_spec fresh_member_def)
qed

lemma fresh_member_config_ok:
  assumes "rs_config_ok cfg" "h \<notin> rm_Host ` set (rc_Members cfg)"
  shows "distinct (map rm_ID (rc_Members cfg @ [fresh_member cfg h arb]))
       \<and> distinct (map rm_Host (rc_Members cfg @ [fresh_member cfg h arb]))"
proof -
  have "\<forall>m \<in> set (rc_Members cfg). rm_ID m < rm_ID (fresh_member cfg h arb)"
    using fold_max_ge [of "-1" "map rm_ID (rc_Members cfg)"] by (force simp: fresh_member_def)
  with assms show ?thesis by (auto simp: rs_config_ok_def fresh_member_def)
qed

lemma BuildReplicaSetConfig_distinct:
  "distinct (map rm_ID (rc_Members (BuildReplicaSetConfig rs b s ns n p)))
   \<and> distinct (map rm_Host (rc_Members (BuildReplicaSetConfig rs b s ns n p)))"
proof -
  have "inj (\<lambda>i. GetPodFQDN (b @ ''-'' @ show_nat i) s ns p)"
  proof (rule injI)
    fix i j assume "GetPodFQDN (b @ ''-'' @ show_nat i) s ns p = GetPodFQDN (b @ ''-'' @ show_nat j) s ns p"
    then have "show_nat i = show_nat j" by (simp add: GetPodFQDN_def)
    then show "i = j" by (simp add: show_nat_inj)
  qed
  then show ?thesis
    by (simp add: BuildReplicaSetConfig_def distinct_map comp_def inj_on_def)
qed

section \<open>Example values\<close>

text \<open>A mongod that accepts everything.\<close>

definition yes_driver :: mongo_driver where
  "yes_driver = \<lparr>drv_connect = \<lambda>_. None, drv_ping = \<lambda>_. None,
     drv_hello = \<lambda>_. Inr \<lparr>hr_info = None, hr_setName = True\<rparr>,
     drv_status = \<lambda>_. Inr \<lparr>rst_Set = ''rs0'', rst_MyState = 1, rst_Members =
       [\<lparr>rms_ID = 0, rms_Name = ''rs-0.rs-headless.db.svc.cluster.local:27017'', rms_Health = 1, rms_State = 1,
         rms_StateStr = ''PRIMARY'', rms_Uptime = 10, rms_Self = True\<rparr>], rst_OK = 1\<rparr>,
     drv_config = \<lambda>_. Inl (ErrMsg []), drv_users = \<lambda>_ u _. Inr [u], drv_run = \<lambda>_ _. None,
     drv_remove_shard = \<lambda>_ sh. Inr \<lparr>rsr_State = ''completed'', rsr_Msg = [], rsr_Shard = sh, rsr_Chunks = 0, rsr_Databases = 0\<rparr>,
     drv_list_shards = \<lambda>_. Inr [], drv_collection = \<lambda>_ _. Inr None, drv_collections = \<lambda>_. Inr [], drv_show_key = \<lambda>_. []\<rparr>"

end
