(* ===== verification/Conditions.thy ===== *)
theory Conditions
  imports Cluster_Types
begin

text \<open>
  Lists of \<^verbatim>\<open>metav1.Condition\<close>. The contract of an operation that records a condition is the
  locale \<open>condition_store\<close>; the loop of \<^verbatim>\<open>setUpgradeCondition\<close> (and of its sharded twin)
  implements it, and \<^verbatim>\<open>meta.SetStatusCondition\<close> of \<^verbatim>\<open>apimachinery\<close>, which is a parameter
  of the model, is assumed to satisfy it wherever a result depends on it.
\<close>

definition ConditionTrue :: string where "ConditionTrue = ''True''"
definition ConditionFalse :: string where "ConditionFalse = ''False''"

definition conditionTypeReady :: string where "conditionTypeReady = ''Ready''"
definition conditionTypeReconcileError :: string where
  "conditionTypeReconcileError = ''ReconcileError''"
definition ReasonReconcileSucceeded :: string where
  "ReasonReconcileSucceeded = ''ReconcileSucceeded''"

text \<open>The first condition of a type.\<close>

definition cond_of :: "string \<Rightarrow> Condition list \<Rightarrow> Condition option" where
  "cond_of t cs = find (\<lambda>c. c_Type c = t) cs"

definition cond_says :: "Condition \<Rightarrow> Condition option \<Rightarrow> bool" where
  "cond_says c d \<longleftrightarrow> (case d of None \<Rightarrow> False
     | Some d \<Rightarrow> c_Type d = c_Type c \<and> c_Status d = c_Status c \<and> c_Reason d = c_Reason c
               \<and> c_Message d = c_Message c)"

text \<open>
  The loop of \<^verbatim>\<open>setUpgradeCondition\<close>: overwrite status, reason, message and transition time of
  the first condition of the type and return, or append a new one.
\<close>

fun put_condition :: "Condition \<Rightarrow> Condition list \<Rightarrow> Condition list" where
  "put_condition c [] = [c]"
| "put_condition c (d # ds) =
     (if c_Type d = c_Type c
      then d\<lparr>c_Status := c_Status c, c_Reason := c_Reason c, c_Message := c_Message c,
             c_LastTransitionTime := c_LastTransitionTime c\<rparr> # ds
      else d # put_condition c ds)"

definition upgrade_condition :: "gotime \<Rightarrow> string \<Rightarrow> string \<Rightarrow> string \<Rightarrow> string \<Rightarrow> Condition" where
  "upgrade_condition now condType status reason message =
     \<lparr>c_Type = condType, c_Status = status, c_ObservedGeneration = 0,
      c_LastTransitionTime = now, c_Reason = reason, c_Message = message\<rparr>"

definition clearReconcileErrorCondition ::
    "(Condition \<Rightarrow> Condition list \<Rightarrow> Condition list) \<Rightarrow> Condition list \<Rightarrow> int64 \<Rightarrow> gotime
     \<Rightarrow> Condition list" where
  "clearReconcileErrorCondition setStatusCondition conds generation now =
     (if \<not> list_ex (\<lambda>c. c_Type c = conditionTypeReconcileError) conds then conds
      else setStatusCondition
        \<lparr>c_Type = conditionTypeReconcileError, c_Status = ConditionFalse,
         c_ObservedGeneration = generation, c_LastTransitionTime = now,
         c_Reason = ReasonReconcileSucceeded, c_Message = ''Last reconcile succeeded''\<rparr> conds)"

section \<open>The contract\<close>

locale condition_store =
  fixes put :: "Condition \<Rightarrow> Condition list \<Rightarrow> Condition list"
  assumes put_same: "cond_says c (cond_of (c_Type c) (put c cs))"
    and put_other: "t \<noteq> c_Type c \<Longrightarrow> cond_of t (put c cs) = cond_of t cs"
    and put_distinct: "distinct (map c_Type cs) \<Longrightarrow> distinct (map c_Type (put c cs))"
begin

lemma put_present: "cond_of (c_Type c) (put c cs) \<noteq> None"
  using put_same [of c cs] by (auto simp: cond_says_def split: option.splits)

lemma put_survives:
  "c_Type b \<noteq> c_Type c \<Longrightarrow> cond_says c (cond_of (c_Type c) (put b (put c cs)))"
  using put_other [of "c_Type c" b "put c cs"] put_same [of c cs] by simp

lemma puts_distinct:
  "distinct (map c_Type cs) \<Longrightarrow> distinct (map c_Type (fold put us cs))"
  by (induction us arbitrary: cs) (auto intro: put_distinct)

lemma puts_other:
  "t \<notin> c_Type ` set us \<Longrightarrow> cond_of t (fold put us cs) = cond_of t cs"
  by (induction us arbitrary: cs) (auto simp: put_other)

end

section \<open>The operator's own loop satisfies it\<close>

lemma put_condition_types:
  "map c_Type (put_condition c cs) =
     (if c_Type c \<in> c_Type ` set cs then map c_Type cs else map c_Type cs @ [c_Type c])"
  by (induction cs) auto

lemma put_condition_same: "cond_says c (cond_of (c_Type c) (put_condition c cs))"
  by (induction cs) (auto simp: cond_of_def cond_says_def)

lemma put_condition_other:
  "t \<noteq> c_Type c \<Longrightarrow> cond_of t (put_condition c cs) = cond_of t cs"
  by (induction cs) (auto simp: cond_of_def)

lemma put_condition_distinct:
  "distinct (map c_Type cs) \<Longrightarrow> distinct (map c_Type (put_condition c cs))"
  by (auto simp: put_condition_types)

interpretation upgrade_cond: condition_store put_condition
  by unfold_locales (auto simp: put_condition_same put_condition_other put_condition_distinct)

lemma clear_keeps_others:
  assumes "condition_store setStatusCondition" and "t \<noteq> conditionTypeReconcileError"
  shows "cond_of t (clearReconcileErrorCondition setStatusCondition conds g now) = cond_of t conds"
  using condition_store.put_other [OF assms(1)] assms(2)
  by (simp add: clearReconcileErrorCondition_def)

end
