(* ===== verification/Controller_Runtime.thy ===== *)
theory Controller_Runtime
  imports Mongo_Admin Conditions "HOL-Library.State_Monad"
begin

text \<open>
  The surroundings of a reconciler. A \<open>world\<close> holds everything that is not the operator's
  own code: the answers of the API server, of the \<^verbatim>\<open>keiailab-commons\<close> helpers, of the mongo
  driver and of the clock. Every answer is indexed by a moment (a counter that grows with
  each interaction), so two reads of the same object within one call may differ. A reconciler
  is a program in the state monad over \<open>rstate\<close>: the object in memory, the moment, and the
  log of the effects issued so far, in order.
\<close>

section \<open>Objects that are only read\<close>

record StatefulSet =
  sts_Replicas :: "int32 option"
  sts_MatchLabels :: string_map
  sts_UpdatedReplicas :: int32
  sts_ReadyReplicas :: int32
  sts_CurrentRevision :: string
  sts_UpdateRevision :: string

record ContainerStatus =
  ctr_Name :: string
  ctr_Waiting :: "string option"

record Pod =
  p_Name :: string
  p_Phase :: string
  p_ContainerStatuses :: "ContainerStatus list"

record Deployment =
  dep_Replicas :: "int32 option"
  dep_ReadyReplicas :: int32

record Secret =
  sec_Name :: string
  sec_Data :: string_map

text \<open>A secret with its labels and the uid of its controlling owner.\<close>

record OwnedSecret = Secret +
  sec_Namespace :: string
  sec_Labels :: string_map
  sec_Controller :: "string option"

record Lease =
  ls_Name :: string
  ls_HolderIdentity :: "string option"
  ls_LeaseDurationSeconds :: "int32 option"
  ls_AcquireTime :: "gotime option"
  ls_RenewTime :: "gotime option"

section \<open>Effects and state\<close>

text \<open>
  \<open>PersistStatus\<close> is a status update the API server accepted, \<open>PersistObject\<close> an accepted
  update of the object, \<open>Applied\<close> the create-or-update of the resource that the named builder
  makes from the object, \<open>AppliedWorkload\<close> the same for a named StatefulSet or Deployment with its
  preserve-replicas flag. A mongo command is logged when it is sent, whether or not the
  answer was an error, by \<open>IssuedAt\<close> together with the connection it was sent over. \<open>Annotated\<close> is a
  patch of the annotations of another object, \<open>AppliedObject\<close> the create-or-update of an object
  of the given kind and name with its data.
\<close>

datatype 'o effect =
    PersistStatus 'o
  | PersistObject 'o
  | Applied string 'o
  | AppliedWorkload string 'o bool
  | Deleted string string
  | CreatedBackup MongoDBBackup
  | Issued mongo_cmd
  | LeaseCreated Lease
  | LeaseUpdated Lease
  | LeaseDeleted string
  | IssuedAt conn mongo_cmd
  | SecretWritten OwnedSecret
  | Annotated string string_map
  | AppliedObject string string string_map

record 'o rstate =
  r_obj :: 'o
  r_tick :: nat
  r_log :: "'o effect list"

type_synonym ('o, 'a) ctl = "('o rstate, 'a) state"

text \<open>
  A status mutation: the closures of the source read the clock, and \<^verbatim>\<open>UpdateWithRetry\<close> calls
  them again after a conflict, so they take the time as an argument.
\<close>

type_synonym 'o mutator = "gotime \<Rightarrow> 'o \<Rightarrow> 'o"

record 'o world =
  w_now :: "nat \<Rightarrow> gotime"
  w_get :: "nat \<Rightarrow> go_error + 'o"
  w_update_object :: "nat \<Rightarrow> 'o \<Rightarrow> 'o \<times> go_error option"
  w_UpdateWithRetry :: "nat \<Rightarrow> 'o mutator \<Rightarrow> 'o \<Rightarrow> 'o \<times> go_error option"
  w_HandleFinalizerCleanup :: "nat \<Rightarrow> 'o \<Rightarrow> ctrl_result \<times> go_error option"
  w_ApplyErrorCondition ::
    "nat \<Rightarrow> string \<Rightarrow> go_error \<Rightarrow> 'o \<Rightarrow> 'o \<times> bool \<times> ctrl_result \<times> go_error option"
  w_SetStatusCondition :: "Condition \<Rightarrow> Condition list \<Rightarrow> Condition list"
  w_RemoveStatusCondition :: "string \<Rightarrow> Condition list \<Rightarrow> Condition list"
  w_apply :: "nat \<Rightarrow> string \<Rightarrow> 'o \<Rightarrow> go_error option"
  w_lookup :: "nat \<Rightarrow> string \<Rightarrow> string \<Rightarrow> go_error option"
  w_delete :: "nat \<Rightarrow> string \<Rightarrow> string \<Rightarrow> go_error option"
  w_sts :: "nat \<Rightarrow> string \<Rightarrow> string \<Rightarrow> go_error + StatefulSet"
  w_deployment :: "nat \<Rightarrow> string \<Rightarrow> string \<Rightarrow> go_error + Deployment"
  w_pvcs :: "nat \<Rightarrow> string \<Rightarrow> string_map \<Rightarrow> go_error + string list"
  w_pods :: "nat \<Rightarrow> string \<Rightarrow> string_map \<Rightarrow> go_error + Pod list"
  w_secret :: "nat \<Rightarrow> string \<Rightarrow> string \<Rightarrow> go_error + Secret"
  w_backup :: "nat \<Rightarrow> string \<Rightarrow> string \<Rightarrow> go_error + MongoDBBackup"
  w_create_backup :: "nat \<Rightarrow> MongoDBBackup \<Rightarrow> go_error option"
  w_lease :: "nat \<Rightarrow> string \<Rightarrow> string \<Rightarrow> go_error + Lease"
  w_create_lease :: "nat \<Rightarrow> Lease \<Rightarrow> go_error option"
  w_update_lease :: "nat \<Rightarrow> Lease \<Rightarrow> go_error option"
  w_delete_lease :: "nat \<Rightarrow> Lease \<Rightarrow> go_error option"
  w_drv :: "nat \<Rightarrow> mongo_driver"
  w_secret_hash :: "Secret \<Rightarrow> string"

section \<open>Primitives\<close>

definition ret :: "'a \<Rightarrow> ('o, 'a) ctl" where "ret a = State_Monad.return a"

definition ask :: "(nat \<Rightarrow> 'a) \<Rightarrow> ('o, 'a) ctl" where
  "ask q = State (\<lambda>s. (q (r_tick s), s\<lparr>r_tick := Suc (r_tick s)\<rparr>))"

definition the_obj :: "('o, 'o) ctl" where
  "the_obj = State (\<lambda>s. (r_obj s, s))"

definition put_obj :: "'o \<Rightarrow> ('o, unit) ctl" where
  "put_obj m = State (\<lambda>s. ((), s\<lparr>r_obj := m\<rparr>))"

definition emit :: "'o effect \<Rightarrow> ('o, unit) ctl" where
  "emit e = State (\<lambda>s. ((), s\<lparr>r_log := r_log s @ [e]\<rparr>))"

definition emit_if_ok :: "go_error option \<Rightarrow> 'o effect \<Rightarrow> ('o, unit) ctl" where
  "emit_if_ok err e = (if err = None then emit e else ret ())"

text \<open>\<^verbatim>\<open>f(); UpdateWithRetry(ctx, client, obj, f)\<close>.\<close>

definition UpdateWithRetry :: "'o world \<Rightarrow> 'o mutator \<Rightarrow> ('o, go_error option) ctl" where
  "UpdateWithRetry W f = do {
     t \<leftarrow> ask (w_now W);
     m \<leftarrow> the_obj;
     r \<leftarrow> ask (\<lambda>k. w_UpdateWithRetry W k f (f t m));
     put_obj (fst r);
     emit_if_ok (snd r) (PersistStatus (fst r));
     ret (snd r)
   }"

text \<open>The commands of a manager operation, then its result.\<close>

definition issue :: "(nat \<Rightarrow> 'a mgr_result) \<Rightarrow> ('o, go_error + 'a) ctl" where
  "issue op = do {
     r \<leftarrow> ask op;
     State (\<lambda>s. ((), s\<lparr>r_log := r_log s @ map Issued (fst r)\<rparr>));
     ret (snd r)
   }"

section \<open>Weakest preconditions\<close>

definition wp :: "('s, 'a) state \<Rightarrow> ('a \<Rightarrow> 's \<Rightarrow> bool) \<Rightarrow> 's \<Rightarrow> bool" where
  "wp c Q s = (case run_state c s of (a, s') \<Rightarrow> Q a s')"

named_theorems wp_simps \<open>weakest preconditions of the primitives\<close>

lemma wp_ret [wp_simps]: "wp (ret a) Q s = Q a s"
  by (simp add: wp_def ret_def)

lemma wp_ret_fun: "wp (ret a) Q = Q a"
  by (simp add: fun_eq_iff wp_ret)

lemma wp_bind [wp_simps]: "wp (State_Monad.bind c f) Q s = wp c (\<lambda>a. wp (f a) Q) s"
  by (simp add: wp_def split: prod.splits)

lemma wp_ask [wp_simps]: "wp (ask q) Q s = Q (q (r_tick s)) (s\<lparr>r_tick := Suc (r_tick s)\<rparr>)"
  by (simp add: wp_def ask_def)

lemma wp_the_obj [wp_simps]: "wp the_obj Q s = Q (r_obj s) s"
  by (simp add: wp_def the_obj_def)

lemma wp_put_obj [wp_simps]: "wp (put_obj m) Q s = Q () (s\<lparr>r_obj := m\<rparr>)"
  by (simp add: wp_def put_obj_def)

lemma wp_emit [wp_simps]: "wp (emit e) Q s = Q () (s\<lparr>r_log := r_log s @ [e]\<rparr>)"
  by (simp add: wp_def emit_def)

lemma wp_emit_if_ok [wp_simps]:
  "wp (emit_if_ok err e) Q s =
     (if err = None then Q () (s\<lparr>r_log := r_log s @ [e]\<rparr>) else Q () s)"
  by (simp add: emit_if_ok_def wp_simps)

lemma wp_if [wp_simps]: "wp (if b then c else d) Q s = (if b then wp c Q s else wp d Q s)"
  by simp

lemma wp_case_option [wp_simps]:
  "wp (case x of None \<Rightarrow> c | Some a \<Rightarrow> d a) Q s = (case x of None \<Rightarrow> wp c Q s | Some a \<Rightarrow> wp (d a) Q s)"
  by (simp split: option.splits)

lemma wp_case_sum [wp_simps]:
  "wp (case x of Inl a \<Rightarrow> c a | Inr b \<Rightarrow> d b) Q s = (case x of Inl a \<Rightarrow> wp (c a) Q s | Inr b \<Rightarrow> wp (d b) Q s)"
  by (simp split: sum.splits)

lemma wp_case_prod [wp_simps]:
  "wp (case x of (a, b) \<Rightarrow> c a b) Q s = (case x of (a, b) \<Rightarrow> wp (c a b) Q s)"
  by (simp split: prod.splits)

lemma wp_Let [wp_simps]: "wp (let x = e in c x) Q s = (let x = e in wp (c x) Q s)"
  by simp

lemma wp_UpdateWithRetry [wp_simps]:
  "wp (UpdateWithRetry W f) Q s =
     (case w_UpdateWithRetry W (Suc (r_tick s)) f (f (w_now W (r_tick s)) (r_obj s)) of
        (m', err) \<Rightarrow>
          Q err (s\<lparr>r_obj := m', r_tick := Suc (Suc (r_tick s)),
                   r_log := r_log s @ (if err = None then [PersistStatus m'] else [])\<rparr>))"
  by (cases s) (auto simp: UpdateWithRetry_def wp_simps split: prod.splits)

lemma wp_issue [wp_simps]:
  "wp (issue op) Q s =
     (case op (r_tick s) of (cmds, res) \<Rightarrow>
        Q res (s\<lparr>r_tick := Suc (r_tick s), r_log := r_log s @ map Issued cmds\<rparr>))"
  by (simp add: wp_def issue_def ask_def ret_def split: prod.splits)

lemma wp_mono: "wp c Q s \<Longrightarrow> (\<And>a t. Q a t \<Longrightarrow> R a t) \<Longrightarrow> wp c R s"
  by (auto simp: wp_def split: prod.splits)

lemma wp_conj: "wp c (\<lambda>a t. Q a t \<and> R a t) s \<longleftrightarrow> wp c Q s \<and> wp c R s"
  by (simp add: wp_def split: prod.splits)

lemma wp_True [wp_simps]: "wp c (\<lambda>_ _. True) s"
  by (simp add: wp_def split: prod.splits)

lemma wpD: "wp c Q s \<Longrightarrow> run_state c s = (a, t) \<Longrightarrow> Q a t"
  by (simp add: wp_def)

lemma wp_run: "wp c (\<lambda>a t. run_state c s = (a, t)) s"
  by (simp add: wp_def split: prod.splits)

section \<open>Preserved assertions\<close>

text \<open>
  \<open>keeps I c\<close>: the assertion \<open>I\<close> on states holds after \<open>c\<close> when it held before, on every path.
  The rules below split a program along its structure, so that only its writes are left.
\<close>

definition keeps :: "('s \<Rightarrow> bool) \<Rightarrow> ('s, 'a) state \<Rightarrow> bool" where
  "keeps I c \<longleftrightarrow> (\<forall>s. I s \<longrightarrow> wp c (\<lambda>_. I) s)"

named_theorems keeps_intros \<open>structural rules for preserved assertions\<close>

lemma keeps_ret [keeps_intros]: "keeps I (ret a)"
  by (simp add: keeps_def wp_simps)

lemma keeps_bind [keeps_intros]:
  assumes "keeps I c" and "\<And>a. keeps I (f a)" shows "keeps I (State_Monad.bind c f)"
  unfolding keeps_def wp_bind
proof (intro allI impI)
  fix s assume "I s"
  then have "wp c (\<lambda>_. I) s" using assms(1) by (simp add: keeps_def)
  then show "wp c (\<lambda>a. wp (f a) (\<lambda>_. I)) s"
    by (rule wp_mono) (use assms(2) in \<open>simp add: keeps_def\<close>)
qed

lemma keeps_if [keeps_intros]: "keeps I c \<Longrightarrow> keeps I d \<Longrightarrow> keeps I (if b then c else d)"
  by simp

lemma keeps_case_option [keeps_intros]:
  "keeps I c \<Longrightarrow> (\<And>a. keeps I (d a)) \<Longrightarrow> keeps I (case x of None \<Rightarrow> c | Some a \<Rightarrow> d a)"
  by (cases x) auto

lemma keeps_case_sum [keeps_intros]:
  "(\<And>a. keeps I (c a)) \<Longrightarrow> (\<And>b. keeps I (d b)) \<Longrightarrow> keeps I (case x of Inl a \<Rightarrow> c a | Inr b \<Rightarrow> d b)"
  by (cases x) auto

lemma keeps_case_prod [keeps_intros]:
  "(\<And>a b. keeps I (c a b)) \<Longrightarrow> keeps I (case x of (a, b) \<Rightarrow> c a b)"
  by (cases x) auto

lemma keeps_Let [keeps_intros]: "(\<And>x. keeps I (c x)) \<Longrightarrow> keeps I (let x = e in c x)"
  by simp

lemma keeps_the_obj [keeps_intros]: "keeps I the_obj"
  by (simp add: keeps_def wp_simps)

lemma keepsD: "keeps I c \<Longrightarrow> I s \<Longrightarrow> run_state c s = (a, t) \<Longrightarrow> I t"
  using wpD by (fastforce simp: keeps_def)

lemma keeps_wp: "keeps I c \<Longrightarrow> I s \<Longrightarrow> wp c (\<lambda>_. I) s"
  by (simp add: keeps_def)

section \<open>What the operator relies on\<close>

text \<open>
  The documented behaviour of \<^verbatim>\<open>UpdateWithRetry\<close>: when it succeeds, the object holds the
  mutation applied to some version \<open>b\<close> of the object, the one in memory or (after a conflict)
  one read again from the server; when it fails the object in memory is the mutated or the
  unmutated version. \<open>R pre b\<close> says how a version that is read again relates to the object
  before the mutation.
\<close>

definition retry_ok :: "('o \<Rightarrow> 'o \<Rightarrow> bool) \<Rightarrow> 'o world \<Rightarrow> bool" where
  "retry_ok R W \<longleftrightarrow> (\<forall>k f t pre m' err. w_UpdateWithRetry W k f (f t pre) = (m', err) \<longrightarrow>
     (\<exists>t' b. R pre b \<and> (m' = f t' b \<or> err \<noteq> None \<and> m' = b)))"

lemma retry_okE:
  assumes "retry_ok R W" "w_UpdateWithRetry W k f (f t pre) = (m', err)"
  obtains t' b where "R pre b" "m' = f t' b" | b where "R pre b" "err \<noteq> None" "m' = b"
  using assms unfolding retry_ok_def by blast

text \<open>
  The rule of every status write: what the mutation establishes on each version that can be
  read again holds of the object afterwards.
\<close>

lemma wp_update:
  assumes "retry_ok R W"
    and "\<And>t b. R (r_obj s) b \<Longrightarrow> Q None (s\<lparr>r_obj := f t b, r_tick := Suc (Suc (r_tick s)),
           r_log := r_log s @ [PersistStatus (f t b)]\<rparr>)"
    and "\<And>e t b. R (r_obj s) b \<Longrightarrow> Q (Some e) (s\<lparr>r_obj := f t b, r_tick := Suc (Suc (r_tick s))\<rparr>)"
    and "\<And>e b. R (r_obj s) b \<Longrightarrow> Q (Some e) (s\<lparr>r_obj := b, r_tick := Suc (Suc (r_tick s))\<rparr>)"
  shows "wp (UpdateWithRetry W f) Q s"
proof -
  obtain m' err where u: "w_UpdateWithRetry W (Suc (r_tick s)) f (f (w_now W (r_tick s)) (r_obj s)) = (m', err)"
    by (cases "w_UpdateWithRetry W (Suc (r_tick s)) f (f (w_now W (r_tick s)) (r_obj s))")
  have same: "s\<lparr>r_obj := x, r_tick := n, r_log := r_log s\<rparr> = s\<lparr>r_obj := x, r_tick := n\<rparr>" for x n
    by (cases s) simp
  from u assms(1) show ?thesis
  proof (cases rule: retry_okE [OF assms(1) u])
    case (1 t b)
    with u assms(2,3) same show ?thesis by (cases err) (simp_all add: wp_UpdateWithRetry)
  next
    case (2 b)
    with u assms(4) same show ?thesis by (cases err) (simp_all add: wp_UpdateWithRetry)
  qed
qed

text \<open>The update of a world without conflicts.\<close>

definition accept_update :: "nat \<Rightarrow> 'o mutator \<Rightarrow> 'o \<Rightarrow> 'o \<times> go_error option" where
  "accept_update k f m = (m, None)"

lemma retry_ok_accept:
  assumes "\<And>m. R m m" and "w_UpdateWithRetry W = accept_update" shows "retry_ok R W"
  unfolding retry_ok_def assms(2) accept_update_def using assms(1) by blast

text \<open>The object that is stored after a run: the last one that was persisted.\<close>

fun stored :: "'o \<Rightarrow> 'o effect list \<Rightarrow> 'o" where
  "stored m [] = m"
| "stored m (PersistStatus m' # es) = stored m' es"
| "stored m (PersistObject m' # es) = stored m' es"
| "stored m (_ # es) = stored m es"

fun persisted :: "'o effect list \<Rightarrow> 'o list" where
  "persisted [] = []"
| "persisted (PersistStatus m' # es) = m' # persisted es"
| "persisted (PersistObject m' # es) = m' # persisted es"
| "persisted (_ # es) = persisted es"

lemma persisted_append [simp]: "persisted (xs @ ys) = persisted xs @ persisted ys"
  by (induction xs rule: persisted.induct) auto

lemma stored_append [simp]: "stored m (xs @ ys) = stored (stored m xs) ys"
  by (induction m xs rule: stored.induct) auto

lemma stored_persisted: "stored m es = last (m # persisted es)"
  by (induction m es rule: stored.induct) auto

lemma stored_cases: "stored m es = m \<or> stored m es \<in> set (persisted es)"
  by (auto simp: stored_persisted)

lemma persisted_Issued [simp]: "persisted (map Issued cs) = []"
  by (induction cs) auto

text \<open>The objects that workloads (StatefulSets and Deployments) were built from.\<close>

fun applied :: "'o effect list \<Rightarrow> 'o list" where
  "applied [] = []"
| "applied (AppliedWorkload _ m _ # es) = m # applied es"
| "applied (_ # es) = applied es"

lemma applied_append [simp]: "applied (xs @ ys) = applied xs @ applied ys"
  by (induction xs rule: applied.induct) auto

lemma applied_Issued [simp]: "applied (map Issued cs) = []"
  by (induction cs) auto

text \<open>The commands that were sent.\<close>

definition issued :: "'o effect list \<Rightarrow> mongo_cmd list" where
  "issued es = concat (map (\<lambda>e. case e of Issued c \<Rightarrow> [c] | _ \<Rightarrow> []) es)"

lemma issued_simps [simp]:
  "issued [] = []" "issued (xs @ ys) = issued xs @ issued ys"
  "issued (Issued c # es) = c # issued es" "issued (PersistStatus m # es) = issued es"
  "issued (PersistObject m # es) = issued es" "issued (Applied n m # es) = issued es"
  "issued (AppliedWorkload w m b # es) = issued es" "issued (Deleted n k # es) = issued es"
  "issued (CreatedBackup b' # es) = issued es" "issued (LeaseCreated l # es) = issued es"
  "issued (LeaseUpdated l # es) = issued es" "issued (LeaseDeleted n # es) = issued es"
  "issued (IssuedAt cn x # es) = issued es" "issued (SecretWritten sec # es) = issued es"
  "issued (Annotated n sm # es) = issued es" "issued (AppliedObject kd n sm # es) = issued es"
  by (simp_all add: issued_def)

lemma issued_Issued [simp]: "issued (map Issued cs) = cs"
  by (induction cs) (auto simp: issued_def)

end
