(* ===== verification/Upgrade_Contract.thy ===== *)
theory Upgrade_Contract
  imports Controller_Runtime Versions
begin

text \<open>
  What an upgrade must respect, stated once for replica sets and sharded clusters: the part
  of a resource that the upgrade machine reads and writes (\<open>upgrade_view\<close>), its mutations on
  that level, and the version discipline \<open>uinv\<close> that they keep. The two controllers write
  their mutations separately; the locale \<open>upgrade_object\<close> is the contract both satisfy.
\<close>

record upgrade_view =
  uv_Desired :: string
  uv_Generation :: int64
  uv_Version :: string
  uv_EffectiveVersion :: string
  uv_PreviousVersion :: string
  uv_UpgradePhase :: string
  uv_FCVVersion :: string
  uv_RollbackActive :: bool
  uv_Observed :: int64

section \<open>Order of versions\<close>

definition supported_mm :: "string \<Rightarrow> bool" where
  "supported_mm v \<longleftrightarrow> fcvMajorMinor v \<in> set SupportedMongoDBVersions"

definition vrank :: "string \<Rightarrow> nat" where
  "vrank v = version_rank (fcvMajorMinor v)"

text \<open>\<open>v\<close> is not newer than \<open>w\<close> on the level that the FCV depends on; both are supported.\<close>

definition vle :: "string \<Rightarrow> string \<Rightarrow> bool" where
  "vle v w \<longleftrightarrow> supported_mm v \<and> supported_mm w \<and> vrank v \<le> vrank w"

lemma vle_refl: "supported_mm v \<Longrightarrow> vle v v"
  by (simp add: vle_def)

lemma vle_trans: "vle u v \<Longrightarrow> vle v w \<Longrightarrow> vle u w"
  by (simp add: vle_def)

lemma vle_supported: "vle v w \<Longrightarrow> supported_mm v" "vle v w \<Longrightarrow> supported_mm w"
  by (simp_all add: vle_def)

lemma supported_mm_ne: "supported_mm v \<Longrightarrow> v \<noteq> []"
  by (auto simp: supported_mm_def fcvMajorMinor_def SupportedMongoDBVersions_def)

lemma accepted_vle:
  assumes "\<forall>l x. isSup l x = (x \<in> set l)" "accepted_update isSup a b" "supported_mm a"
  shows "vle a b"
  using accepted_update_rank [of isSup a b] assms
  by (auto simp: vle_def supported_mm_def vrank_def simp del: version_rank.simps)

text \<open>A recorded FCV is not above a version.\<close>

definition fcv_below :: "string \<Rightarrow> string \<Rightarrow> bool" where
  "fcv_below f v \<longleftrightarrow> f = [] \<or> (supported_mm v \<and> f \<in> set SupportedMongoDBVersions \<and> version_rank f \<le> vrank v)"

lemma fcv_below_vle: "fcv_below f v \<Longrightarrow> vle v w \<Longrightarrow> fcv_below f w"
  by (auto simp: fcv_below_def vle_def simp del: version_rank.simps)

lemma fcv_below_own: "supported_mm v \<Longrightarrow> fcv_below (fcvMajorMinor v) v"
  by (simp add: fcv_below_def vrank_def supported_mm_def del: version_rank.simps)

section \<open>The invariant\<close>

definition uinv :: "upgrade_view \<Rightarrow> bool" where
  "uinv v \<longleftrightarrow>
     supported_mm (uv_Desired v) \<and>
     (uv_Version v \<noteq> [] \<longrightarrow> vle (uv_Version v) (uv_Desired v)) \<and>
     (uv_EffectiveVersion v \<noteq> [] \<longrightarrow> vle (uv_EffectiveVersion v) (uv_Desired v)) \<and>
     fcv_below (uv_FCVVersion v) (uv_Version v) \<and>
     fcv_below (uv_FCVVersion v) (uv_EffectiveVersion v) \<and>
     (uv_UpgradePhase v \<noteq> [] \<longrightarrow>
        vle (uv_PreviousVersion v) (uv_Desired v) \<and> fcv_below (uv_FCVVersion v) (uv_PreviousVersion v))"

text \<open>A version of the object that differs only by accepted edits of the spec.\<close>

definition edited_view :: "upgrade_view \<Rightarrow> upgrade_view \<Rightarrow> bool" where
  "edited_view v w \<longleftrightarrow>
     w = v\<lparr>uv_Desired := uv_Desired w, uv_Generation := uv_Generation w\<rparr> \<and>
     (uv_Desired w = uv_Desired v \<or> vle (uv_Desired v) (uv_Desired w)) \<and> uv_Generation v \<le> uv_Generation w"

lemma edited_view_refl [simp]: "edited_view v v"
  by (simp add: edited_view_def)

lemma uinv_edited: "uinv v \<Longrightarrow> edited_view v w \<Longrightarrow> uinv w"
  unfolding uinv_def edited_view_def
  by (cases v; cases w) (auto intro: vle_trans dest: vle_supported)

section \<open>The mutations on the level of the view\<close>

definition a_seed :: "string \<Rightarrow> upgrade_view \<Rightarrow> upgrade_view" where
  "a_seed d v =
     (let v1 = (if uv_EffectiveVersion v = [] then v\<lparr>uv_EffectiveVersion := d\<rparr> else v)
      in if uv_Version v1 = [] then v1\<lparr>uv_Version := uv_EffectiveVersion v1\<rparr> else v1)"

definition a_init :: "string \<Rightarrow> string \<Rightarrow> string \<Rightarrow> upgrade_view \<Rightarrow> upgrade_view" where
  "a_init cur d phase v = v\<lparr>uv_PreviousVersion := cur, uv_EffectiveVersion := d,
     uv_RollbackActive := False, uv_UpgradePhase := phase\<rparr>"

definition a_phase :: "string \<Rightarrow> upgrade_view \<Rightarrow> upgrade_view" where
  "a_phase phase v = v\<lparr>uv_UpgradePhase := phase\<rparr>"

definition a_complete :: "string \<Rightarrow> string \<Rightarrow> upgrade_view \<Rightarrow> upgrade_view" where
  "a_complete d fcv v = v\<lparr>uv_Version := d, uv_EffectiveVersion := d, uv_FCVVersion := fcv,
     uv_RollbackActive := False, uv_UpgradePhase := [], uv_Observed := uv_Generation v\<rparr>"

definition a_fail :: "upgrade_view \<Rightarrow> upgrade_view" where
  "a_fail v = v\<lparr>uv_UpgradePhase := [], uv_Observed := uv_Generation v\<rparr>"

definition a_rollback :: "string \<Rightarrow> upgrade_view \<Rightarrow> upgrade_view" where
  "a_rollback prev v = v\<lparr>uv_EffectiveVersion := prev, uv_RollbackActive := True,
     uv_UpgradePhase := [], uv_Observed := uv_Generation v\<rparr>"

lemmas a_defs = a_seed_def a_init_def a_phase_def a_complete_def a_fail_def a_rollback_def

text \<open>No mutation touches the desired version, so they commute with an edit of it.\<close>

lemma a_desired [simp]:
  "uv_Desired (a_seed d v) = uv_Desired v" "uv_Desired (a_init cur d ph v) = uv_Desired v"
  "uv_Desired (a_phase ph v) = uv_Desired v" "uv_Desired (a_complete d f v) = uv_Desired v"
  "uv_Desired (a_fail v) = uv_Desired v" "uv_Desired (a_rollback p v) = uv_Desired v"
  by (simp_all add: a_defs Let_def)

lemma a_commute [simp]:
  "(a_seed d v)\<lparr>uv_Desired := x\<rparr> = a_seed d (v\<lparr>uv_Desired := x\<rparr>)"
  "(a_init cur d ph v)\<lparr>uv_Desired := x\<rparr> = a_init cur d ph (v\<lparr>uv_Desired := x\<rparr>)"
  "(a_phase ph v)\<lparr>uv_Desired := x\<rparr> = a_phase ph (v\<lparr>uv_Desired := x\<rparr>)"
  "(a_complete d f v)\<lparr>uv_Desired := x\<rparr> = a_complete d f (v\<lparr>uv_Desired := x\<rparr>)"
  "(a_fail v)\<lparr>uv_Desired := x\<rparr> = a_fail (v\<lparr>uv_Desired := x\<rparr>)"
  "(a_rollback p v)\<lparr>uv_Desired := x\<rparr> = a_rollback p (v\<lparr>uv_Desired := x\<rparr>)"
  by (cases v; simp add: a_defs Let_def)+

lemma uinv_desired_supported: "uinv v \<Longrightarrow> vle (uv_Desired v) (uv_Desired v)"
  by (simp add: uinv_def vle_refl)

lemma uinv_a_seed: "uinv v \<Longrightarrow> vle d (uv_Desired v) \<Longrightarrow> uinv (a_seed d v)"
  by (cases v) (auto simp: uinv_def a_seed_def Let_def fcv_below_def dest: supported_mm_ne)

lemma uinv_a_init:
  assumes "uinv v" "vle d (uv_Desired v)" "uv_Version v \<noteq> []" "vle (uv_Version v) d"
  shows "uinv (a_init (uv_Version v) d ph v)"
  using assms by (cases v) (auto simp: uinv_def a_init_def intro: fcv_below_vle)

lemma uinv_a_phase:
  "uinv v \<Longrightarrow> ph = [] \<or> uv_UpgradePhase v \<noteq> [] \<Longrightarrow> uinv (a_phase ph v)"
  by (cases v) (auto simp: uinv_def a_phase_def)

lemma uinv_a_complete:
  assumes "uinv v" "vle d (uv_Desired v)"
  shows "uinv (a_complete d (fcvMajorMinor d) v)"
  using assms vle_supported(1) [OF assms(2)]
  by (cases v) (auto simp: uinv_def a_complete_def fcv_below_own)

lemma uinv_a_fail: "uinv v \<Longrightarrow> uinv (a_fail v)"
  by (cases v) (auto simp: uinv_def a_fail_def)

lemma uinv_a_rollback:
  "uinv v \<Longrightarrow> uv_UpgradePhase v \<noteq> [] \<Longrightarrow> uinv (a_rollback (uv_PreviousVersion v) v)"
  by (cases v) (auto simp: uinv_def a_rollback_def)

section \<open>Runs that keep the discipline\<close>

text \<open>
  The assertion of a run that read the desired version \<open>d\<close> at its start: the object in memory
  satisfies the invariant even with respect to \<open>d\<close>, its spec may have moved on by accepted
  edits, and every object that was persisted, and every object a StatefulSet was built from,
  satisfies the invariant.
\<close>

definition good_log :: "('o \<Rightarrow> upgrade_view) \<Rightarrow> 'o effect list \<Rightarrow> bool" where
  "good_log view es \<longleftrightarrow>
     (\<forall>m \<in> set (persisted es). uinv (view m)) \<and> (\<forall>m \<in> set (applied es). uinv (view m))"

definition good_obj :: "string \<Rightarrow> upgrade_view \<Rightarrow> bool" where
  "good_obj d v \<longleftrightarrow> uinv (v\<lparr>uv_Desired := d\<rparr>) \<and> vle d (uv_Desired v)"

definition good_run :: "('o \<Rightarrow> upgrade_view) \<Rightarrow> string \<Rightarrow> 'o rstate \<Rightarrow> bool" where
  "good_run view d s \<longleftrightarrow> good_obj d (view (r_obj s)) \<and> good_log view (r_log s)"

lemma good_log_simps [simp]:
  "good_log view []"
  "good_log view (xs @ ys) \<longleftrightarrow> good_log view xs \<and> good_log view ys"
  "good_log view [PersistStatus m] \<longleftrightarrow> uinv (view m)"
  "good_log view [PersistObject m] \<longleftrightarrow> uinv (view m)"
  "good_log view [Applied n m]" "good_log view [AppliedWorkload w m b] \<longleftrightarrow> uinv (view m)"
  "good_log view [Deleted n k]" "good_log view [CreatedBackup bk]" "good_log view [Issued c]"
  "good_log view [LeaseCreated l]" "good_log view [LeaseUpdated l]" "good_log view [LeaseDeleted n]"
  "good_log view [IssuedAt cn c]" "good_log view [SecretWritten sec]" "good_log view [Annotated n sm]"
  "good_log view [AppliedObject kd n sm]"
  "good_log view (map Issued cs)"
  by (auto simp: good_log_def)

lemma good_obj_uinv: "good_obj d v \<Longrightarrow> uinv v"
proof -
  assume "good_obj d v"
  then have "uinv (v\<lparr>uv_Desired := d\<rparr>)" "edited_view (v\<lparr>uv_Desired := d\<rparr>) v"
    by (simp_all add: good_obj_def edited_view_def)
  then show "uinv v" by (rule uinv_edited)
qed

lemma good_obj_refl: "uinv v \<Longrightarrow> good_obj (uv_Desired v) v"
  by (simp add: good_obj_def uinv_def vle_refl)

lemma good_obj_edited:
  assumes "good_obj d v" "edited_view v w" shows "good_obj d w"
proof -
  from assms have "uinv (v\<lparr>uv_Desired := d\<rparr>)" "w\<lparr>uv_Desired := d\<rparr> = v\<lparr>uv_Desired := d, uv_Generation := uv_Generation w\<rparr>"
    by (cases v; cases w; simp add: good_obj_def edited_view_def)+
  then have "uinv (w\<lparr>uv_Desired := d\<rparr>)" by (simp add: uinv_def)
  with assms show ?thesis by (auto simp: good_obj_def edited_view_def intro: vle_trans)
qed

definition edited :: "('o \<Rightarrow> upgrade_view) \<Rightarrow> 'o \<Rightarrow> 'o \<Rightarrow> bool" where
  "edited view a b \<longleftrightarrow> edited_view (view a) (view b)"

lemma good_update:
  assumes "retry_ok (edited view) W" and "good_run view d s"
    and "\<And>t b. edited view (r_obj s) b \<Longrightarrow> good_obj d (view b) \<Longrightarrow> good_obj d (view (f t b))"
  shows "wp (UpdateWithRetry W f) (\<lambda>_. good_run view d) s"
proof (rule wp_update [OF assms(1)])
  fix t b assume e: "edited view (r_obj s) b"
  with assms(2) have b: "good_obj d (view b)"
    by (auto simp: good_run_def edited_def intro: good_obj_edited)
  with assms(3) [OF e b] assms(2)
  show "good_run view d (s\<lparr>r_obj := f t b, r_tick := Suc (Suc (r_tick s)),
           r_log := r_log s @ [PersistStatus (f t b)]\<rparr>)"
    "good_run view d (s\<lparr>r_obj := f t b, r_tick := Suc (Suc (r_tick s))\<rparr>)"
    "good_run view d (s\<lparr>r_obj := b, r_tick := Suc (Suc (r_tick s))\<rparr>)"
    by (auto simp: good_run_def intro: good_obj_uinv)
qed

section \<open>The contract of a resource that can be upgraded\<close>

locale upgrade_object =
  fixes view :: "'o \<Rightarrow> upgrade_view"
    and seed_m :: "string \<Rightarrow> 'o mutator" and clear_m :: "'o mutator"
    and init_m :: "string \<Rightarrow> string \<Rightarrow> 'o mutator" and upgrading_m :: "'o mutator"
    and abort_m :: "'o mutator" and complete_m :: "string \<Rightarrow> string \<Rightarrow> 'o mutator"
    and rolling_back_m :: "'o mutator" and fail_m :: "string \<Rightarrow> 'o mutator"
    and rollback_m :: "string \<Rightarrow> 'o mutator"
  assumes view_seed: "view (seed_m d t m) = a_seed d (view m)"
    and view_clear: "view (clear_m t m) = a_phase [] (view m)"
    and view_init: "\<exists>ph. ph \<noteq> [] \<and> view (init_m cur d t m) = a_init cur d ph (view m)"
    and view_upgrading: "\<exists>ph. ph \<noteq> [] \<and> view (upgrading_m t m) = a_phase ph (view m)"
    and view_abort: "view (abort_m t m) = a_phase [] (view m)"
    and view_complete: "view (complete_m d fcv t m) = a_complete d fcv (view m)"
    and view_rolling_back: "\<exists>ph. ph \<noteq> [] \<and> view (rolling_back_m t m) = a_phase ph (view m)"
    and view_fail: "view (fail_m msg t m) = a_fail (view m)"
    and view_rollback: "view (rollback_m (uv_PreviousVersion (view m)) t m)
                        = a_rollback (uv_PreviousVersion (view m)) (view m)"
begin

lemma seed_good: "good_obj d (view m) \<Longrightarrow> good_obj d (view (seed_m d t m))"
  using uinv_a_seed [of "(view m)\<lparr>uv_Desired := d\<rparr>" d]
    uinv_desired_supported [of "(view m)\<lparr>uv_Desired := d\<rparr>"]
  by (simp add: good_obj_def view_seed)

lemma clear_good: "good_obj d (view m) \<Longrightarrow> good_obj d (view (clear_m t m))"
  using uinv_a_phase [of "(view m)\<lparr>uv_Desired := d\<rparr>" "[]"]
  by (simp add: good_obj_def view_clear)

lemma abort_good: "good_obj d (view m) \<Longrightarrow> good_obj d (view (abort_m t m))"
  using uinv_a_phase [of "(view m)\<lparr>uv_Desired := d\<rparr>" "[]"]
  by (simp add: good_obj_def view_abort)

lemma init_good:
  assumes "good_obj d (view m)" "uv_Version (view m) = cur" "cur \<noteq> []"
  shows "good_obj d (view (init_m cur d t m))"
proof -
  obtain ph where "ph \<noteq> []" "view (init_m cur d t m) = a_init cur d ph (view m)"
    using view_init by blast
  moreover have "vle cur d" using assms by (simp add: good_obj_def uinv_def)
  ultimately show ?thesis using assms uinv_a_init [of "(view m)\<lparr>uv_Desired := d\<rparr>" d ph]
      uinv_desired_supported [of "(view m)\<lparr>uv_Desired := d\<rparr>"]
    by (simp add: good_obj_def)
qed

lemma upgrading_good:
  assumes "good_obj d (view m)" "uv_UpgradePhase (view m) \<noteq> []"
  shows "good_obj d (view (upgrading_m t m))"
proof -
  obtain ph where "ph \<noteq> []" "view (upgrading_m t m) = a_phase ph (view m)"
    using view_upgrading by blast
  then show ?thesis using assms uinv_a_phase [of "(view m)\<lparr>uv_Desired := d\<rparr>" ph]
    by (simp add: good_obj_def)
qed

lemma rolling_back_good:
  assumes "good_obj d (view m)" "uv_UpgradePhase (view m) \<noteq> []"
  shows "good_obj d (view (rolling_back_m t m))"
proof -
  obtain ph where "ph \<noteq> []" "view (rolling_back_m t m) = a_phase ph (view m)"
    using view_rolling_back by blast
  then show ?thesis using assms uinv_a_phase [of "(view m)\<lparr>uv_Desired := d\<rparr>" ph]
    by (simp add: good_obj_def)
qed

lemma complete_good:
  "good_obj d (view m) \<Longrightarrow> good_obj d (view (complete_m d (fcvMajorMinor d) t m))"
  using uinv_a_complete [of "(view m)\<lparr>uv_Desired := d\<rparr>" d]
    uinv_desired_supported [of "(view m)\<lparr>uv_Desired := d\<rparr>"]
  by (simp add: good_obj_def view_complete)

lemma fail_good: "good_obj d (view m) \<Longrightarrow> good_obj d (view (fail_m msg t m))"
  using uinv_a_fail [of "(view m)\<lparr>uv_Desired := d\<rparr>"]
  by (simp add: good_obj_def view_fail)

lemma rollback_good:
  "good_obj d (view m) \<Longrightarrow> uv_UpgradePhase (view m) \<noteq> [] \<Longrightarrow> p = uv_PreviousVersion (view m)
   \<Longrightarrow> good_obj d (view (rollback_m p t m))"
  using uinv_a_rollback [of "(view m)\<lparr>uv_Desired := d\<rparr>"]
  by (simp add: good_obj_def view_rollback)

end

end
