(* ===== verification/Upgrade.thy ===== *)
theory Upgrade
  imports Upgrade_Contract
begin

text \<open>
  The upgrade state machine of a replica set, \<^verbatim>\<open>internal/controller/upgrade.go\<close>: start of an
  upgrade, pre-upgrade backup, validation of the rollout, commit of the feature compatibility
  version (FCV), rollback, and the guard that makes a terminal result stick to a generation
  of the spec.
\<close>

section \<open>Constants and pure helpers\<close>

definition UpgradePhaseBackingUp :: string where "UpgradePhaseBackingUp = ''BackingUp''"
definition UpgradePhaseUpgrading :: string where "UpgradePhaseUpgrading = ''Upgrading''"
definition UpgradePhaseValidating :: string where "UpgradePhaseValidating = ''Validating''"
definition UpgradePhaseRollingBack :: string where "UpgradePhaseRollingBack = ''RollingBack''"

lemmas upgrade_phase_defs = UpgradePhaseBackingUp_def UpgradePhaseUpgrading_def
  UpgradePhaseValidating_def UpgradePhaseRollingBack_def

definition defaultValidationInterval :: duration where
  "defaultValidationInterval = 60 * second"
definition upgradeRequeueInterval :: duration where
  "upgradeRequeueInterval = 30 * second"
definition perMemberRolloutBudget :: duration where
  "perMemberRolloutBudget = 3 * minute"

definition parseValidationInterval :: "UpgradeStrategySpec option \<Rightarrow> duration" where
  "parseValidationInterval strategy =
     (case strategy of
        None \<Rightarrow> defaultValidationInterval
      | Some st \<Rightarrow>
          if us_ValidationInterval st = [] then defaultValidationInterval
          else (case ParseDuration (us_ValidationInterval st) of
                  None \<Rightarrow> defaultValidationInterval
                | Some d \<Rightarrow> d))"

definition setUpgradeCondition ::
    "gotime \<Rightarrow> string \<Rightarrow> string \<Rightarrow> string \<Rightarrow> string \<Rightarrow> MongoDBStatus \<Rightarrow> MongoDBStatus" where
  "setUpgradeCondition now condType status reason message s =
     s\<lparr>s_Conditions :=
         put_condition (upgrade_condition now condType status reason message) (s_Conditions s)\<rparr>"

text \<open>The test \<^verbatim>\<open>strategy != nil && strategy.Field\<close>.\<close>

definition strategy_flag :: "(UpgradeStrategySpec \<Rightarrow> bool) \<Rightarrow> UpgradeStrategySpec option \<Rightarrow> bool" where
  "strategy_flag fld strategy = (case strategy of None \<Rightarrow> False | Some st \<Rightarrow> fld st)"

section \<open>The status mutations\<close>

abbreviation upd :: "(MongoDBStatus \<Rightarrow> MongoDBStatus) \<Rightarrow> MongoDB \<Rightarrow> MongoDB" where
  "upd f m \<equiv> m\<lparr>Status := f (Status m)\<rparr>"

definition seed :: "string \<Rightarrow> MongoDB mutator" where
  "seed desiredVersion _ mdb =
     (let mdb1 = (if s_EffectiveVersion (Status mdb) = [] then
                    upd (s_EffectiveVersion_update (\<lambda>_. desiredVersion)) mdb else mdb)
      in if s_Version (Status mdb1) = [] then
           upd (s_Version_update (\<lambda>_. s_EffectiveVersion (Status mdb1))) mdb1 else mdb1)"

definition clearUpgrade :: "MongoDB mutator" where
  "clearUpgrade _ = upd (\<lambda>s. s\<lparr>s_UpgradePhase := [], s_UpgradeStartTime := None\<rparr>)"

definition initUpgrade :: "string \<Rightarrow> string \<Rightarrow> MongoDB mutator" where
  "initUpgrade currentVersion desiredVersion now mdb =
     upd (\<lambda>s. s\<lparr>s_PreviousVersion := currentVersion, s_EffectiveVersion := desiredVersion,
                s_RollbackActive := False, s_UpgradeStartTime := Some now,
                s_UpgradePhase :=
                  (if strategy_flag us_PreUpgradeBackup (mdb_UpgradeStrategy (Spec mdb))
                   then UpgradePhaseBackingUp else UpgradePhaseUpgrading)\<rparr>) mdb"

definition setUpgrading :: "MongoDB mutator" where
  "setUpgrading _ = upd (s_UpgradePhase_update (\<lambda>_. UpgradePhaseUpgrading))"

definition abortUpgrade :: "MongoDB mutator" where
  "abortUpgrade now = upd (\<lambda>s.
     setUpgradeCondition now ''UpgradeFailed'' ConditionTrue ''BackupFailed''
       ''Pre-upgrade backup failed, upgrade aborted''
       (s\<lparr>s_UpgradePhase := [], s_UpgradeStartTime := None\<rparr>))"

definition completeUpgrade :: "string \<Rightarrow> string \<Rightarrow> MongoDB mutator" where
  "completeUpgrade desiredVersion fcv now mdb =
     upd (\<lambda>s. setUpgradeCondition now ''UpgradeComplete'' ConditionTrue ''Upgraded''
       (''Successfully upgraded to '' @ desiredVersion @ '' (FCV '' @ fcv @ '' committed)'')
       (s\<lparr>s_Version := desiredVersion, s_EffectiveVersion := desiredVersion, s_FCVVersion := fcv,
          s_RollbackActive := False, s_UpgradePhase := [], s_UpgradeStartTime := None,
          s_UpgradeRetryCount := 0, s_ObservedUpgradeGeneration := Generation mdb\<rparr>)) mdb"

definition setRollingBack :: "MongoDB mutator" where
  "setRollingBack _ = upd (s_UpgradePhase_update (\<lambda>_. UpgradePhaseRollingBack))"

definition failUpgrade :: "string \<Rightarrow> MongoDB mutator" where
  "failUpgrade message now mdb =
     upd (\<lambda>s. (setUpgradeCondition now ''UpgradeFailed'' ConditionTrue ''ValidationFailed'' message s)
       \<lparr>s_UpgradePhase := [], s_UpgradeStartTime := None,
        s_ObservedUpgradeGeneration := Generation mdb\<rparr>) mdb"

definition finishRollback :: "MongoDB mutator" where
  "finishRollback now mdb =
     upd (\<lambda>s. setUpgradeCondition now ''UpgradeRolledBack'' ConditionTrue ''RolledBack''
       (''Rolled back to '' @ s_PreviousVersion s @ '' (spec.Version '' @
         ver_Version (mdb_Version (Spec mdb)) @ '' preserved; change spec to retry)'')
       (s\<lparr>s_EffectiveVersion := s_PreviousVersion s, s_RollbackActive := True,
          s_UpgradePhase := [], s_UpgradeStartTime := None,
          s_UpgradeRetryCount := wrap32 (s_UpgradeRetryCount s + 1),
          s_ObservedUpgradeGeneration := Generation mdb\<rparr>)) mdb"

lemmas upgrade_mutators = seed_def clearUpgrade_def initUpgrade_def setUpgrading_def
  abortUpgrade_def completeUpgrade_def setRollingBack_def failUpgrade_def finishRollback_def
  setUpgradeCondition_def

section \<open>Handlers\<close>

type_synonym upgrade_outcome = "ctrl_result \<times> bool \<times> go_error option"

text \<open>\<^verbatim>\<open>if err := UpdateWithRetry(f); err != nil { return err }; return out\<close>.\<close>

definition finish_with :: "'o world \<Rightarrow> 'o mutator \<Rightarrow> upgrade_outcome \<Rightarrow> ('o, upgrade_outcome) ctl" where
  "finish_with W f out = do {
     err \<leftarrow> UpdateWithRetry W f;
     case err of
       Some e \<Rightarrow> ret (no_requeue, False, Some e)
     | None \<Rightarrow> ret out
   }"

definition preUpgradeBackup :: "string \<Rightarrow> string \<Rightarrow> string \<Rightarrow> string \<Rightarrow> MongoDBBackup" where
  "preUpgradeBackup backupName namespace clusterName kind =
     \<lparr>BkMeta = \<lparr>om_Name = backupName, om_Namespace = namespace, om_Generation = 0,
               om_DeletionTimestamp = None, om_Finalizers = [], om_Annotations = []\<rparr>,
      BkSpec = \<lparr>bks_ClusterRef = \<lparr>cr_Name = clusterName, cr_Kind = kind\<rparr>,
               bks_Storage = \<lparr>bs_Type = [], bs_S3 = None, bs_PVC = None\<rparr>, bks_Type = [],
               bks_Compression = False, bks_CompressionType = [], bks_Restore = None\<rparr>,
      BkStatus = \<lparr>bkst_Phase = [], bkst_StartTime = None, bkst_CompletionTime = None,
                 bkst_Size = [], bkst_Location = [], bkst_Error = [], bkst_Conditions = []\<rparr>\<rparr>"

definition create_backup :: "'o world \<Rightarrow> MongoDBBackup \<Rightarrow> ('o, upgrade_outcome) ctl" where
  "create_backup W b = do {
     err \<leftarrow> ask (\<lambda>k. w_create_backup W k b);
     emit_if_ok err (CreatedBackup b);
     case err of
       Some e \<Rightarrow> ret (no_requeue, False, Some e)
     | None \<Rightarrow> ret (requeue_after upgradeRequeueInterval, True, None)
   }"

definition reconcileUpgradeBackup ::
    "MongoDB world \<Rightarrow> string \<Rightarrow> (MongoDB, upgrade_outcome) ctl" where
  "reconcileUpgradeBackup W desiredVersion = do {
     mdb \<leftarrow> the_obj;
     let backupName = Name mdb @ ''-pre-upgrade-'' @ desiredVersion;
     got \<leftarrow> ask (\<lambda>k. w_backup W k backupName (Namespace mdb));
     case got of
       Inl _ \<Rightarrow> create_backup W (preUpgradeBackup backupName (Namespace mdb) (Name mdb) ''MongoDB'')
     | Inr backup \<Rightarrow>
         if bkst_Phase (BkStatus backup) = ''Completed'' then
           finish_with W setUpgrading (requeue_after (1 * second), True, None)
         else if bkst_Phase (BkStatus backup) = ''Failed'' then
           finish_with W abortUpgrade (no_requeue, True, None)
         else ret (requeue_after upgradeRequeueInterval, True, None)
   }"

definition stsRolloutComplete ::
    "MongoDB world \<Rightarrow> string \<Rightarrow> string \<Rightarrow> int32 \<Rightarrow> (MongoDB, go_error + bool) ctl" where
  "stsRolloutComplete W name namespace members = do {
     got \<leftarrow> ask (\<lambda>k. w_sts W k name namespace);
     ret (case got of
       Inl e \<Rightarrow> Inl e
     | Inr sts \<Rightarrow> Inr (sts_UpdatedReplicas sts = members \<and> sts_ReadyReplicas sts = members
                     \<and> sts_CurrentRevision sts = sts_UpdateRevision sts))
   }"

definition stuckReasons :: "string list" where
  "stuckReasons = [''ImagePullBackOff'', ''ErrImagePull'', ''CrashLoopBackOff'', ''InvalidImageName'']"

fun stuck_container :: "string \<Rightarrow> ContainerStatus list \<Rightarrow> string option" where
  "stuck_container podName [] = None"
| "stuck_container podName (cs # rest) =
     (case ctr_Waiting cs of
        None \<Rightarrow> stuck_container podName rest
      | Some reason \<Rightarrow>
          if reason \<in> set stuckReasons then Some (podName @ ''/'' @ ctr_Name cs @ '': '' @ reason)
          else stuck_container podName rest)"

fun stuck_pod :: "Pod list \<Rightarrow> string option" where
  "stuck_pod [] = None"
| "stuck_pod (p # ps) =
     (case stuck_container (p_Name p) (p_ContainerStatuses p) of
        Some reason \<Rightarrow> Some reason
      | None \<Rightarrow> stuck_pod ps)"

definition stsRolloutStuck ::
    "MongoDB world \<Rightarrow> string \<Rightarrow> string \<Rightarrow> (MongoDB, string option) ctl" where
  "stsRolloutStuck W name namespace = do {
     got \<leftarrow> ask (\<lambda>k. w_sts W k name namespace);
     case got of
       Inl _ \<Rightarrow> ret None
     | Inr sts \<Rightarrow> do {
         pods \<leftarrow> ask (\<lambda>k. w_pods W k namespace (sts_MatchLabels sts));
         ret (case pods of Inl _ \<Rightarrow> None | Inr ps \<Rightarrow> stuck_pod ps)
       }
   }"

definition getAdminPassword ::
    "'o world \<Rightarrow> string \<Rightarrow> string \<Rightarrow> ('o, go_error + string) ctl" where
  "getAdminPassword W secretName namespace = do {
     got \<leftarrow> ask (\<lambda>k. w_secret W k secretName namespace);
     ret (case got of
       Inl e \<Rightarrow> Inl (Wrapped ''failed to get admin credentials secret'' e)
     | Inr secret \<Rightarrow>
         (case map_of (sec_Data secret) ''password'' of
            None \<Rightarrow> Inl (ErrMsg (''password key not found in secret '' @ secretName))
          | Some password \<Rightarrow> Inr password))
   }"

text \<open>The connection factory of the authenticated replica set manager.\<close>

definition newRSManager :: "MongoDB world \<Rightarrow> MongoDB \<Rightarrow> (MongoDB, go_error + string) ctl" where
  "newRSManager W mdb = do {
     pw \<leftarrow> getAdminPassword W (auth_AdminCredentialsSecretRef (mdb_Auth (Spec mdb))) (Namespace mdb);
     ret (case pw of Inl e \<Rightarrow> Inl (Wrapped ''get admin password'' e) | Inr p \<Rightarrow> Inr p)
   }"

definition rs_factory :: "mongo_driver \<Rightarrow> MongoDB \<Rightarrow> string \<Rightarrow> ConnectFactory" where
  "rs_factory drv mdb pw =
     NewPodConnectFactory drv (Name mdb @ ''-headless'') 27017 ''admin'' pw ''admin''"

definition commitFCV ::
    "MongoDB world \<Rightarrow> MongoDB \<Rightarrow> string \<Rightarrow> (MongoDB, go_error + string) ctl" where
  "commitFCV W mdb desiredVersion =
     (let fcv = fcvMajorMinor desiredVersion in
      if fcv = [] then
        ret (Inl (ErrMsg (''cannot derive FCV from version '' @ Quote desiredVersion)))
      else if s_FCVVersion (Status mdb) = fcv then ret (Inr fcv)
      else do {
        mgr \<leftarrow> newRSManager W mdb;
        case mgr of
          Inl e \<Rightarrow> ret (Inl (Wrapped ''rs manager for FCV commit'' e))
        | Inr pw \<Rightarrow> do {
            res \<leftarrow> issue (\<lambda>k. SetFCV (w_drv W k) (rs_factory (w_drv W k) mdb pw)
                                (Name mdb @ ''-0'') (Namespace mdb) fcv);
            ret (case res of Inl e \<Rightarrow> Inl e | Inr _ \<Rightarrow> Inr fcv)
          }
      })"

definition upgradeValidationFailed ::
    "MongoDB world \<Rightarrow> string \<Rightarrow> string \<Rightarrow> (MongoDB, upgrade_outcome) ctl" where
  "upgradeValidationFailed W desiredVersion reason = do {
     mdb \<leftarrow> the_obj;
     if strategy_flag us_RollbackOnFailure (mdb_UpgradeStrategy (Spec mdb)) then
       finish_with W setRollingBack (requeue_after (1 * second), True, None)
     else
       finish_with W (failUpgrade (''Upgrade to '' @ desiredVersion @ '' failed ('' @ reason @
           ''), manual intervention required'')) (no_requeue, True, None)
   }"

definition validationTimeout :: "duration \<Rightarrow> int32 \<Rightarrow> duration" where
  "validationTimeout interval members =
     wrap64 (interval + wrap64 ((if members < 1 then 1 else members) * perMemberRolloutBudget))"

definition reconcileUpgradeValidation ::
    "MongoDB world \<Rightarrow> string \<Rightarrow> (MongoDB, upgrade_outcome) ctl" where
  "reconcileUpgradeValidation W desiredVersion = do {
     mdb \<leftarrow> the_obj;
     let interval = parseValidationInterval (mdb_UpgradeStrategy (Spec mdb));
     let timeout = validationTimeout interval (mdb_Members (Spec mdb));
     case s_UpgradeStartTime (Status mdb) of
       None \<Rightarrow> ret (requeue_after upgradeRequeueInterval, True, None)
     | Some start \<Rightarrow> do {
         now \<leftarrow> ask (w_now W);
         let elapsed = time_sub now start;
         rollout \<leftarrow> stsRolloutComplete W (Name mdb) (Namespace mdb) (mdb_Members (Spec mdb));
         case rollout of
           Inl _ \<Rightarrow> ret (requeue_after upgradeRequeueInterval, True, None)
         | Inr rolloutDone \<Rightarrow>
             if rolloutDone then
               (if elapsed < interval then ret (requeue_after (wrap64 (interval - elapsed)), True, None)
                else do {
                  committed \<leftarrow> commitFCV W mdb desiredVersion;
                  case committed of
                    Inl _ \<Rightarrow> ret (requeue_after upgradeRequeueInterval, True, None)
                  | Inr fcv \<Rightarrow> finish_with W (completeUpgrade desiredVersion fcv) (no_requeue, True, None)
                })
             else do {
               stuck \<leftarrow> stsRolloutStuck W (Name mdb) (Namespace mdb);
               case stuck of
                 Some reason \<Rightarrow> upgradeValidationFailed W desiredVersion (''rollout stuck: '' @ reason)
               | None \<Rightarrow>
                   if elapsed < timeout then ret (requeue_after upgradeRequeueInterval, True, None)
                   else upgradeValidationFailed W desiredVersion (''timed out after '' @ DurationString timeout)
             }
       }
   }"

definition reconcileUpgradeRollback :: "MongoDB world \<Rightarrow> (MongoDB, upgrade_outcome) ctl" where
  "reconcileUpgradeRollback W = do {
     mdb \<leftarrow> the_obj;
     if s_PreviousVersion (Status mdb) = [] then
       finish_with W clearUpgrade (no_requeue, True, None)
     else if \<not> strategy_flag us_RollbackOnFailure (mdb_UpgradeStrategy (Spec mdb)) then
       finish_with W (failUpgrade ''Upgrade validation failed, manual intervention required'')
         (no_requeue, True, None)
     else finish_with W finishRollback (no_requeue, True, None)
   }"

text \<open>The dispatch after the seeding of the two version fields.\<close>

definition terminal_for_generation :: "MongoDB \<Rightarrow> bool" where
  "terminal_for_generation mdb \<longleftrightarrow>
     s_UpgradePhase (Status mdb) = [] \<and>
     s_ObservedUpgradeGeneration (Status mdb) = Generation mdb \<and>
     s_ObservedUpgradeGeneration (Status mdb) \<noteq> 0"

definition upgrade_dispatch ::
    "MongoDB world \<Rightarrow> string \<Rightarrow> (MongoDB, upgrade_outcome) ctl" where
  "upgrade_dispatch W desiredVersion = do {
     mdb \<leftarrow> the_obj;
     let currentVersion = s_Version (Status mdb);
     let phase = s_UpgradePhase (Status mdb);
     if currentVersion = [] \<or> currentVersion = desiredVersion then
       (if phase \<noteq> [] then finish_with W clearUpgrade (no_requeue, False, None)
        else ret (no_requeue, False, None))
     else if terminal_for_generation mdb then ret (no_requeue, False, None)
     else if phase = [] then
       finish_with W (initUpgrade currentVersion desiredVersion) (requeue_after (1 * second), True, None)
     else if phase = UpgradePhaseBackingUp then reconcileUpgradeBackup W desiredVersion
     else if phase = UpgradePhaseUpgrading then ret (no_requeue, False, None)
     else if phase = UpgradePhaseValidating then
       reconcileUpgradeValidation W desiredVersion
     else if phase = UpgradePhaseRollingBack then reconcileUpgradeRollback W
     else ret (no_requeue, False, None)
   }"

definition reconcileUpgrade ::
    "MongoDB world \<Rightarrow> (MongoDB, upgrade_outcome) ctl" where
  "reconcileUpgrade W = do {
     mdb \<leftarrow> the_obj;
     let desiredVersion = ver_Version (mdb_Version (Spec mdb));
     if s_EffectiveVersion (Status mdb) = [] \<or> s_Version (Status mdb) = [] then do {
       err \<leftarrow> UpdateWithRetry W (seed desiredVersion);
       case err of
         Some e \<Rightarrow> ret (no_requeue, False, Some e)
       | None \<Rightarrow> upgrade_dispatch W desiredVersion
     }
     else upgrade_dispatch W desiredVersion
   }"

section \<open>The version discipline\<close>

definition rs_view :: "MongoDB \<Rightarrow> upgrade_view" where
  "rs_view m = \<lparr>uv_Desired = ver_Version (mdb_Version (Spec m)), uv_Generation = Generation m,
     uv_Version = s_Version (Status m), uv_EffectiveVersion = s_EffectiveVersion (Status m),
     uv_PreviousVersion = s_PreviousVersion (Status m), uv_UpgradePhase = s_UpgradePhase (Status m),
     uv_FCVVersion = s_FCVVersion (Status m), uv_RollbackActive = s_RollbackActive (Status m),
     uv_Observed = s_ObservedUpgradeGeneration (Status m)\<rparr>"

interpretation rs_up: upgrade_object rs_view seed clearUpgrade initUpgrade setUpgrading abortUpgrade
  completeUpgrade setRollingBack failUpgrade "\<lambda>_. finishRollback"
  by unfold_locales
    (auto simp: rs_view_def upgrade_mutators a_defs Let_def upgrade_phase_defs)

lemmas wp_flow = wp_ret wp_bind wp_ask wp_the_obj wp_put_obj wp_emit wp_emit_if_ok wp_if
  wp_case_option wp_case_sum wp_case_prod wp_Let wp_issue

lemma wp_seq:
  "wp c Q s \<Longrightarrow> (\<And>a t. Q a t \<Longrightarrow> wp (f a) R t) \<Longrightarrow> wp (State_Monad.bind c f) R s"
  unfolding wp_bind by (rule wp_mono)

lemma wp_finish_with:
  "wp (finish_with W f out) Q s = wp (UpdateWithRetry W f)
     (\<lambda>err. case err of None \<Rightarrow> Q out | Some e \<Rightarrow> Q (no_requeue, False, Some e)) s"
  by (simp add: finish_with_def wp_def ret_def split: prod.splits option.splits)

lemma finish_good:
  assumes "retry_ok (edited view) W" "good_run view d s"
    and "\<And>t b. edited view (r_obj s) b \<Longrightarrow> good_obj d (view b) \<Longrightarrow> good_obj d (view (f t b))"
  shows "wp (finish_with W f out) (\<lambda>_. good_run view d) s"
  unfolding wp_finish_with
  by (rule wp_mono [OF good_update [OF assms]]) (auto split: option.splits)

lemma good_run_frame [simp]:
  "good_run view d (s\<lparr>r_tick := n\<rparr>) = good_run view d s"
  "good_run view d (s\<lparr>r_tick := n, r_log := es\<rparr>) = good_run view d (s\<lparr>r_log := es\<rparr>)"
  by (simp_all add: good_run_def)

lemma keeps_ask_good [keeps_intros]: "keeps (good_run view d) (ask q)"
  by (simp add: keeps_def wp_simps)

lemma keeps_issue_good [keeps_intros]: "keeps (good_run view d) (issue op)"
  by (simp add: keeps_def wp_simps good_run_def split: prod.splits)

lemma keeps_emit_good [keeps_intros]:
  "(\<And>s. good_log view [e]) \<Longrightarrow> keeps (good_run view d) (emit_if_ok err e)"
  by (auto simp: keeps_def wp_simps good_run_def)

lemma edited_fields:
  "edited view a b \<Longrightarrow> uv_UpgradePhase (view b) = uv_UpgradePhase (view a)"
  "edited view a b \<Longrightarrow> uv_Version (view b) = uv_Version (view a)"
  "edited view a b \<Longrightarrow> uv_PreviousVersion (view b) = uv_PreviousVersion (view a)"
  by (cases "view a"; cases "view b"; simp add: edited_def edited_view_def)+


lemma create_backup_good: "good_run view d s \<Longrightarrow> wp (create_backup W b) (\<lambda>_. good_run view d) s"
  by (auto simp: create_backup_def wp_flow good_run_def split: option.splits)

lemma backup_good:
  assumes "retry_ok (edited rs_view) W" "good_run rs_view d s" "s_UpgradePhase (Status (r_obj s)) \<noteq> []"
  shows "wp (reconcileUpgradeBackup W d) (\<lambda>_. good_run rs_view d) s"
proof -
  have ph: "edited rs_view (r_obj s) b \<Longrightarrow> uv_UpgradePhase (rs_view b) \<noteq> []" for b
    using assms(3) by (simp add: edited_fields) (simp add: rs_view_def)
  show ?thesis
    using assms(2) ph
    by (auto simp: reconcileUpgradeBackup_def wp_flow Let_def split: sum.splits
        intro!: finish_good [OF assms(1)] create_backup_good rs_up.abort_good rs_up.upgrading_good)
qed

lemma commitFCV_keeps: "keeps (good_run rs_view d) (commitFCV W m v)"
  unfolding commitFCV_def newRSManager_def getAdminPassword_def by (intro keeps_intros)

lemma commitFCV_result: "wp (commitFCV W m v) (\<lambda>r _. \<forall>f. r = Inr f \<longrightarrow> f = fcvMajorMinor v) s"
  by (auto simp: commitFCV_def newRSManager_def getAdminPassword_def wp_flow Let_def
      split: sum.splits option.splits prod.splits)

lemma failed_good:
  assumes "retry_ok (edited rs_view) W" "good_run rs_view d s" "s_UpgradePhase (Status (r_obj s)) \<noteq> []"
  shows "wp (upgradeValidationFailed W d r) (\<lambda>_. good_run rs_view d) s"
proof -
  have ph: "edited rs_view (r_obj s) b \<Longrightarrow> uv_UpgradePhase (rs_view b) \<noteq> []" for b
    using assms(3) by (simp add: edited_fields) (simp add: rs_view_def)
  show ?thesis
    using assms(2) ph
    by (auto simp: upgradeValidationFailed_def wp_flow
        intro!: finish_good [OF assms(1)] rs_up.rolling_back_good rs_up.fail_good)
qed

lemma validation_good:
  assumes "retry_ok (edited rs_view) W" "good_run rs_view d s" "s_UpgradePhase (Status (r_obj s)) \<noteq> []"
  shows "wp (reconcileUpgradeValidation W d) (\<lambda>_. good_run rs_view d) s"
proof -
  have fcv: "wp (commitFCV W (r_obj s) d)
      (\<lambda>r s'. good_run rs_view d s' \<and> (\<forall>f. r = Inr f \<longrightarrow> f = fcvMajorMinor d)) s'"
    if "good_run rs_view d s'" for s'
    using that commitFCV_keeps [of d W "r_obj s" d] commitFCV_result [of W "r_obj s" d s']
    by (simp add: wp_conj keeps_wp)
  have commit: "wp (commitFCV W (r_obj s) d)
      (\<lambda>r. wp (case r of Inl _ \<Rightarrow> ret out' | Inr fcv \<Rightarrow> finish_with W (completeUpgrade d fcv) out)
               (\<lambda>_. good_run rs_view d)) s'"
    if "good_run rs_view d s'" for s' out out'
    by (rule wp_mono [OF fcv [OF that]])
      (auto simp: wp_flow split: sum.splits intro!: finish_good [OF assms(1)] rs_up.complete_good)
  show ?thesis
    using assms(2,3)
    by (auto simp: reconcileUpgradeValidation_def stsRolloutComplete_def stsRolloutStuck_def wp_flow Let_def
        split: sum.splits option.splits intro!: failed_good [OF assms(1)] commit)
qed

lemma rollback_pass_good:
  assumes "retry_ok (edited rs_view) W" "good_run rs_view d s" "s_UpgradePhase (Status (r_obj s)) \<noteq> []"
  shows "wp (reconcileUpgradeRollback W) (\<lambda>_. good_run rs_view d) s"
proof -
  have ph: "edited rs_view (r_obj s) b \<Longrightarrow> uv_UpgradePhase (rs_view b) \<noteq> []" for b
    using assms(3) by (simp add: edited_fields) (simp add: rs_view_def)
  show ?thesis
    using assms(2) ph
    by (auto simp: reconcileUpgradeRollback_def wp_flow
        intro!: finish_good [OF assms(1)] rs_up.clear_good rs_up.fail_good rs_up.rollback_good)
qed

lemma dispatch_good:
  assumes "retry_ok (edited rs_view) W" "good_run rs_view d s"
  shows "wp (upgrade_dispatch W d) (\<lambda>_. good_run rs_view d) s"
proof -
  have init: "wp (finish_with W (initUpgrade (s_Version (Status (r_obj s))) d) out) (\<lambda>_. good_run rs_view d) s"
    if "s_Version (Status (r_obj s)) \<noteq> []" for out
  proof (rule finish_good [OF assms])
    fix t b assume e: "edited rs_view (r_obj s) b" and g: "good_obj d (rs_view b)"
    have "uv_Version (rs_view b) = s_Version (Status (r_obj s))"
      using edited_fields(2) [OF e] by (simp add: rs_view_def)
    with that g show "good_obj d (rs_view (initUpgrade (s_Version (Status (r_obj s))) d t b))"
      by (intro rs_up.init_good)
  qed
  show ?thesis
    using assms(2) init
    by (auto simp: upgrade_dispatch_def wp_flow Let_def upgrade_phase_defs
        intro!: finish_good [OF assms(1)] rs_up.clear_good backup_good [OF assms(1)]
          validation_good [OF assms(1)] rollback_pass_good [OF assms(1)])
qed

lemma reconcileUpgrade_good:
  assumes "retry_ok (edited rs_view) W" "good_run rs_view (ver_Version (mdb_Version (Spec (r_obj s)))) s"
  shows "wp (reconcileUpgrade W) (\<lambda>_. good_run rs_view (ver_Version (mdb_Version (Spec (r_obj s))))) s"
proof -
  let ?d = "ver_Version (mdb_Version (Spec (r_obj s)))"
  have upd: "wp (UpdateWithRetry W (seed ?d)) (\<lambda>_. good_run rs_view ?d) s"
    by (rule good_update [OF assms]) (rule rs_up.seed_good)
  have "wp (UpdateWithRetry W (seed ?d) \<bind> (\<lambda>err. case err of
      Some e \<Rightarrow> ret (no_requeue, False, Some e) | None \<Rightarrow> upgrade_dispatch W ?d))
      (\<lambda>_. good_run rs_view ?d) s"
    by (rule wp_seq [OF upd]) (auto simp: wp_flow split: option.splits intro: dispatch_good [OF assms(1)])
  then show ?thesis
    using assms(2) dispatch_good [OF assms(1)]
    by (simp add: reconcileUpgrade_def wp_the_obj wp_bind [of the_obj] wp_if Let_def)
qed

section \<open>Commands are sent by the validation only\<close>

abbreviation says_only :: "mongo_cmd set \<Rightarrow> 'o rstate \<Rightarrow> bool" where
  "says_only C s \<equiv> set (issued (r_log s)) \<subseteq> C"

lemma keeps_says_ask [keeps_intros]: "keeps (says_only C) (ask q)"
  by (simp add: keeps_def wp_simps)

lemma keeps_says_emit [keeps_intros]:
  "issued [e] = [] \<Longrightarrow> keeps (says_only C) (emit_if_ok err e)"
  by (simp add: keeps_def wp_simps)

lemma keeps_says_update [keeps_intros]: "keeps (says_only C) (UpdateWithRetry W f)"
  by (auto simp: keeps_def wp_simps split: prod.splits)

lemma keeps_says_finish [keeps_intros]: "keeps (says_only C) (finish_with W f out)"
  unfolding finish_with_def by (intro keeps_intros)

lemma keeps_says_backup [keeps_intros]: "keeps (says_only C) (reconcileUpgradeBackup W d)"
  unfolding reconcileUpgradeBackup_def create_backup_def Let_def by (intro keeps_intros) simp

lemma keeps_says_failed [keeps_intros]: "keeps (says_only C) (upgradeValidationFailed W d r)"
  unfolding upgradeValidationFailed_def by (intro keeps_intros)

lemma keeps_says_rollback [keeps_intros]: "keeps (says_only C) (reconcileUpgradeRollback W)"
  unfolding reconcileUpgradeRollback_def by (intro keeps_intros)

lemma SetFCV_cmds: "set (fst (SetFCV drv f p ns v)) \<subseteq> {SetFeatureCompatibilityVersion v}"
  by (auto simp: SetFCV_def run_cmd_def split: sum.splits)

lemma commitFCV_cmds:
  assumes "SetFeatureCompatibilityVersion (fcvMajorMinor d) \<in> C"
  shows "keeps (says_only C) (commitFCV W m d)"
proof -
  have "keeps (says_only C) (issue (\<lambda>k. SetFCV (w_drv W k) (f k) p ns (fcvMajorMinor d))
    :: (MongoDB, _) ctl)" for f p ns
    unfolding keeps_def wp_issue
  proof (intro allI impI)
    fix s :: "MongoDB rstate" assume "says_only C s"
    then show "case SetFCV (w_drv W (r_tick s)) (f (r_tick s)) p ns (fcvMajorMinor d) of (cmds, res) \<Rightarrow>
        says_only C (s\<lparr>r_tick := Suc (r_tick s), r_log := r_log s @ map Issued cmds\<rparr>)"
      using SetFCV_cmds [of "w_drv W (r_tick s)" "f (r_tick s)" p ns "fcvMajorMinor d"] assms
      by (simp add: split_beta) blast
  qed
  then show ?thesis
    unfolding commitFCV_def newRSManager_def getAdminPassword_def Let_def by (intro keeps_intros)
qed

text \<open>
  The evidence on which the FCV is raised: while the machine is validating, the StatefulSet was
  read with every replica updated and ready on one revision, and the validation interval had
  passed since the recorded start.
\<close>

definition rollout_verified :: "MongoDB world \<Rightarrow> nat \<Rightarrow> MongoDB \<Rightarrow> bool" where
  "rollout_verified W k m \<longleftrightarrow>
     s_UpgradePhase (Status m) = UpgradePhaseValidating \<and>
     (case (s_UpgradeStartTime (Status m), w_sts W (Suc k) (Name m) (Namespace m)) of
        (Some start, Inr sts) \<Rightarrow>
          sts_UpdatedReplicas sts = mdb_Members (Spec m) \<and> sts_ReadyReplicas sts = mdb_Members (Spec m)
          \<and> sts_CurrentRevision sts = sts_UpdateRevision sts
          \<and> parseValidationInterval (mdb_UpgradeStrategy (Spec m)) \<le> time_sub (w_now W k) start
      | _ \<Rightarrow> False)"

definition fcv_evidence :: "MongoDB world \<Rightarrow> nat \<Rightarrow> MongoDB \<Rightarrow> string \<Rightarrow> mongo_cmd set" where
  "fcv_evidence W k m d =
     (if rollout_verified W k m then {SetFeatureCompatibilityVersion (fcvMajorMinor d)} else {})"

lemma validation_cmds:
  assumes "says_only (fcv_evidence W (r_tick s) (r_obj s) d) s"
    "s_UpgradePhase (Status (r_obj s)) = UpgradePhaseValidating"
  shows "wp (reconcileUpgradeValidation W d)
    (\<lambda>_. says_only (fcv_evidence W (r_tick s) (r_obj s) d)) s"
proof -
  have commit: "wp (commitFCV W (r_obj s) d) (\<lambda>r. wp (case r of Inl _ \<Rightarrow> ret out'
        | Inr fcv \<Rightarrow> finish_with W (completeUpgrade d fcv) out) (\<lambda>_. says_only (fcv_evidence W (r_tick s) (r_obj s) d))) t"
    if "rollout_verified W (r_tick s) (r_obj s)" "says_only (fcv_evidence W (r_tick s) (r_obj s) d) t" for out out' t
  proof -
    have "keeps (says_only (fcv_evidence W (r_tick s) (r_obj s) d)) (commitFCV W (r_obj s) d \<bind>
      (\<lambda>r. case r of Inl _ \<Rightarrow> ret out' | Inr fcv \<Rightarrow> finish_with W (completeUpgrade d fcv) out))"
      by (intro keeps_intros commitFCV_cmds) (simp add: that fcv_evidence_def)
    from keeps_wp [OF this that(2)] show ?thesis by (simp add: wp_bind)
  qed
  show ?thesis
    using assms
    by (auto simp: reconcileUpgradeValidation_def stsRolloutComplete_def stsRolloutStuck_def wp_flow Let_def
          rollout_verified_def
        split: sum.splits option.splits intro!: keeps_wp [OF keeps_says_failed] commit)
qed

lemma dispatch_cmds:
  assumes "says_only (fcv_evidence W (r_tick s) (r_obj s) d) s"
  shows "wp (upgrade_dispatch W d) (\<lambda>_. says_only (fcv_evidence W (r_tick s) (r_obj s) d)) s"
  using assms
  by (auto simp: upgrade_dispatch_def wp_flow Let_def
      intro!: keeps_wp [OF keeps_says_finish] keeps_wp [OF keeps_says_backup] validation_cmds
        keeps_wp [OF keeps_says_rollback])

section \<open>Properties\<close>

text \<open>A run on an object, from an empty log.\<close>

definition start_run :: "'o \<Rightarrow> nat \<Rightarrow> 'o rstate" where
  "start_run m k = \<lparr>r_obj = m, r_tick = k, r_log = []\<rparr>"

lemma start_run_simps [simp]:
  "r_obj (start_run m k) = m" "r_tick (start_run m k) = k" "r_log (start_run m k) = []"
  by (simp_all add: start_run_def)

text \<open>The versions fields are seeded; otherwise the first write of the run seeds them.\<close>

definition seeded :: "MongoDB \<Rightarrow> bool" where
  "seeded m \<longleftrightarrow> s_EffectiveVersion (Status m) \<noteq> [] \<and> s_Version (Status m) \<noteq> []"

lemma reconcileUpgrade_seeded:
  "seeded (r_obj s) \<Longrightarrow> run_state (reconcileUpgrade W) s =
     run_state (upgrade_dispatch W (ver_Version (mdb_Version (Spec (r_obj s))))) s"
  by (simp add: reconcileUpgrade_def seeded_def the_obj_def Let_def)

text \<open>
  C2. The feature compatibility version, whose raise cannot be undone by a binary downgrade, is
  raised only on evidence: a pass that sends any command to the database was validating, had read
  the StatefulSet with all members updated and ready on a single revision, and had waited for
  the validation interval; the command sets exactly the \<^verbatim>\<open>major.minor\<close> of the desired version.
  The backup, start, failure and rollback paths send nothing.
\<close>

theorem fcv_raised_only_after_rollout:
  assumes "seeded m"
    and "run_state (reconcileUpgrade W) (start_run m k) = (out, s')"
    and "cmd \<in> set (issued (r_log s'))"
  shows "cmd = SetFeatureCompatibilityVersion (fcvMajorMinor (ver_Version (mdb_Version (Spec m))))
    \<and> rollout_verified W k m"
proof -
  let ?d = "ver_Version (mdb_Version (Spec m))"
  have "wp (upgrade_dispatch W ?d) (\<lambda>_. says_only (fcv_evidence W k m ?d)) (start_run m k)"
    using dispatch_cmds [where W = W and s = "start_run m k" and d = ?d] by simp
  from wpD [OF this] have "says_only (fcv_evidence W k m ?d) s'"
    using assms by (simp add: reconcileUpgrade_seeded)
  with assms(3) show ?thesis by (auto simp: fcv_evidence_def split: if_splits)
qed

text \<open>
  A terminal result sticks to its generation: once an upgrade of this generation has
  completed, failed or been rolled back, every further pass leaves the object alone, writes
  nothing, sends nothing and hands over to the rest of the reconcile, whatever the cluster
  looks like; only an edit of the spec re-arms the machine.
\<close>

theorem terminal_result_sticks:
  assumes "seeded m" and "terminal_for_generation m"
  shows "run_state (reconcileUpgrade W) (start_run m k) = ((no_requeue, False, None), start_run m k)"
  using assms
  by (auto simp: reconcileUpgrade_seeded upgrade_dispatch_def the_obj_def ret_def Let_def
      terminal_for_generation_def)

section \<open>Persisted objects\<close>

text \<open>
  What a pass persists: the mutation of the branch that was taken, applied to a version of the
  object. \<open>writes P s s'\<close>: every object persisted between \<open>s\<close> and \<open>s'\<close> satisfies \<open>P\<close>.
\<close>

definition writes :: "('o \<Rightarrow> bool) \<Rightarrow> 'o rstate \<Rightarrow> 'o rstate \<Rightarrow> bool" where
  "writes P s s' \<longleftrightarrow> (\<forall>m \<in> set (persisted (r_log s')). m \<in> set (persisted (r_log s)) \<or> P m)"

lemma writes_frame [simp]:
  "writes P s s" "writes P s (s'\<lparr>r_tick := n\<rparr>) = writes P s s'"
  "writes P (s\<lparr>r_tick := n\<rparr>) = writes P s"
  by (simp_all add: writes_def fun_eq_iff)

lemma finish_writes:
  assumes "retry_ok R W" and "\<And>t b. R (r_obj s) b \<Longrightarrow> P (f t b)"
  shows "wp (finish_with W f out) (\<lambda>_. writes P s) s"
  unfolding wp_finish_with writes_def by (rule wp_update [OF assms(1)]) (auto intro: assms(2))

text \<open>Programs that leave the object and the store alone.\<close>

definition quiet :: "'o \<Rightarrow> 'o list \<Rightarrow> 'o rstate \<Rightarrow> bool" where
  "quiet m L s \<longleftrightarrow> r_obj s = m \<and> persisted (r_log s) = L"

lemma keeps_quiet [keeps_intros]:
  "keeps (quiet m L) (ask q)" "keeps (quiet m L) (issue op)"
  by (simp_all add: keeps_def wp_simps quiet_def split: prod.splits)

lemma commitFCV_quiet: "keeps (quiet m L) (commitFCV W m' v)"
  unfolding commitFCV_def newRSManager_def getAdminPassword_def Let_def by (intro keeps_intros)

definition settled :: "MongoDB \<Rightarrow> bool" where
  "settled m \<longleftrightarrow> s_UpgradePhase (Status m) = UpgradePhaseRollingBack
     \<or> (s_UpgradePhase (Status m) = [] \<and> s_ObservedUpgradeGeneration (Status m) = Generation m)"

lemma settled_mutators:
  "settled (setRollingBack t m)" "settled (failUpgrade msg t m)" "settled (finishRollback t m)"
  "settled (completeUpgrade d fcv t m)"
  by (simp_all add: settled_def upgrade_mutators)

lemma failed_settles:
  assumes "retry_ok R W" shows "wp (upgradeValidationFailed W d r) (\<lambda>_. writes settled s) s"
  by (auto simp: upgradeValidationFailed_def wp_flow settled_mutators intro!: finish_writes [OF assms])

lemma validation_settles:
  assumes "retry_ok R W" shows "wp (reconcileUpgradeValidation W d) (\<lambda>_. writes settled s) s"
proof -
  have commit: "wp (commitFCV W m d) (\<lambda>r. wp (case r of Inl _ \<Rightarrow> ret out'
        | Inr fcv \<Rightarrow> finish_with W (completeUpgrade d fcv) out) (\<lambda>_. writes settled s)) (s\<lparr>r_tick := n\<rparr>)"
    for m out out' n
  proof (rule wp_mono [OF keeps_wp [OF commitFCV_quiet [of "r_obj s" "persisted (r_log s)"]]])
    fix r and t :: "MongoDB rstate" assume q: "quiet (r_obj s) (persisted (r_log s)) t"
    have "writes P t = writes P s" for P using q by (simp add: writes_def quiet_def fun_eq_iff)
    with finish_writes [OF assms, of t settled] q
    show "wp (case r of Inl _ \<Rightarrow> ret out' | Inr fcv \<Rightarrow> finish_with W (completeUpgrade d fcv) out)
            (\<lambda>_. writes settled s) t"
      by (auto simp: wp_flow settled_mutators writes_def quiet_def split: sum.splits)
  qed (simp add: quiet_def)
  have fail: "wp (upgradeValidationFailed W d r) (\<lambda>_. writes settled s) (s\<lparr>r_tick := n\<rparr>)" for r n
    using failed_settles [OF assms, of d r "s\<lparr>r_tick := n\<rparr>"] by simp
  show ?thesis
    by (auto simp: reconcileUpgradeValidation_def stsRolloutComplete_def stsRolloutStuck_def wp_flow Let_def
        split: sum.splits option.splits intro!: fail commit)
qed

lemma rollback_settles:
  assumes "retry_ok R W" "s_PreviousVersion (Status (r_obj s)) \<noteq> []"
  shows "wp (reconcileUpgradeRollback W) (\<lambda>_. writes settled s) s"
  using assms(2)
  by (auto simp: reconcileUpgradeRollback_def wp_flow settled_mutators intro!: finish_writes [OF assms(1)])

lemma clear_writes:
  assumes "retry_ok R W"
  shows "wp (finish_with W clearUpgrade out) (\<lambda>_. writes (\<lambda>m. s_UpgradePhase (Status m) = []) s) s"
  by (auto simp: upgrade_mutators intro!: finish_writes [OF assms])

text \<open>
  C8. Validation and rollback never leave the machine re-armed: whatever happens between reads
  and writes (conflicts and refetches included), an object persisted by a pass that found the
  version fields recorded and the machine validating or rolling back is either rolling back, or
  idle and terminal for its own generation. It is idle without that record in two cases only: the
  recorded version is the desired one, so that there is nothing to upgrade, or a rollback finds
  no previous version to return to. So a failing upgrade cannot loop between validation and
  rollback.
\<close>

theorem failing_upgrade_cannot_loop:
  assumes "retry_ok (\<lambda>_ _. True) W" and "seeded m"
    and "s_UpgradePhase (Status m) \<in> {UpgradePhaseValidating, UpgradePhaseRollingBack}"
    and "run_state (reconcileUpgrade W) (start_run m k) = (out, s')"
    and "m' \<in> set (persisted (r_log s'))"
  shows "s_UpgradePhase (Status m') = UpgradePhaseRollingBack
    \<or> s_UpgradePhase (Status m') = [] \<and>
      (s_ObservedUpgradeGeneration (Status m') = Generation m'
       \<or> s_Version (Status m) = ver_Version (mdb_Version (Spec m))
       \<or> s_UpgradePhase (Status m) = UpgradePhaseRollingBack \<and> s_PreviousVersion (Status m) = [])"
proof -
  let ?d = "ver_Version (mdb_Version (Spec m))" and ?s = "start_run m k"
  let ?P = "\<lambda>m'. settled m' \<or> s_UpgradePhase (Status m') = [] \<and> (s_Version (Status m) = ?d
    \<or> s_UpgradePhase (Status m) = UpgradePhaseRollingBack \<and> s_PreviousVersion (Status m) = [])"
  have settled: "wp c (\<lambda>_. writes settled ?s) ?s \<Longrightarrow> wp c (\<lambda>_. writes ?P ?s) ?s" for c :: "(MongoDB, upgrade_outcome) ctl"
    by (erule wp_mono) (auto simp: writes_def)
  have cleared: "wp (finish_with W clearUpgrade out) (\<lambda>_. writes ?P ?s) ?s"
    if "s_Version (Status m) = ?d \<or> s_UpgradePhase (Status m) = UpgradePhaseRollingBack \<and> s_PreviousVersion (Status m) = []" for out
    using that by (intro wp_mono [OF clear_writes [OF assms(1)]]) (auto simp: writes_def)
  have v: "wp (reconcileUpgradeValidation W ?d) (\<lambda>_. writes ?P ?s) ?s"
    by (rule settled [OF validation_settles [OF assms(1)]])
  have r: "wp (reconcileUpgradeRollback W) (\<lambda>_. writes ?P ?s) ?s" if "s_UpgradePhase (Status m) = UpgradePhaseRollingBack"
  proof (cases "s_PreviousVersion (Status m) = []")
    case True
    with cleared that show ?thesis by (simp add: reconcileUpgradeRollback_def wp_flow)
  next
    case False
    then show ?thesis by (intro settled rollback_settles [OF assms(1)]) simp
  qed
  have "wp (upgrade_dispatch W ?d) (\<lambda>_. writes ?P ?s) ?s"
    using assms(2,3) v r cleared
    by (auto simp: upgrade_dispatch_def wp_flow Let_def seeded_def terminal_for_generation_def upgrade_phase_defs)
  from wpD [OF this] have "writes ?P ?s s'"
    using assms(2,4) by (simp add: reconcileUpgrade_seeded)
  with assms(5) show ?thesis by (auto simp: writes_def settled_def)
qed

text \<open>Concrete inputs: a cluster that validates an upgrade from 8.0.4 to 8.2.1.\<close>

definition sample_status :: MongoDBStatus where
  "sample_status = \<lparr>s_Phase = PhaseRunning, s_ReadyMembers = 3, s_CurrentPrimary = ''rs-0'', s_Members = [],
     s_Conditions = [], s_ConnectionString = [], s_TLSSecretName = [], s_LastBackup = None,
     s_Version = ''8.0.4'', s_ObservedGeneration = 2, s_ReplicaSetInitialized = True,
     s_AdminUserCreated = True, s_HPA = None, s_PendingScale = None, s_PreviousVersion = ''8.0.4'',
     s_UpgradePhase = ''Validating'', s_UpgradeStartTime = Some 0, s_EffectiveVersion = ''8.2.1'',
     s_RollbackActive = False, s_UpgradeRetryCount = 0, s_ObservedUpgradeGeneration = 0,
     s_FCVVersion = ''8.0''\<rparr>"

definition sample_strategy :: UpgradeStrategySpec where
  "sample_strategy = \<lparr>us_Type = ''RollingUpdate'', us_PreUpgradeBackup = False,
     us_ValidationInterval = ''60s'', us_RollbackOnFailure = True, us_MaxRetries = 3\<rparr>"

definition sample_mdb :: MongoDB where
  "sample_mdb = \<lparr>Meta = \<lparr>om_Name = ''rs'', om_Namespace = ''db'', om_Generation = 2,
       om_DeletionTimestamp = None, om_Finalizers = [''mongodb.keiailab.com/finalizer''], om_Annotations = []\<rparr>,
     Spec = \<lparr>mdb_Members = 3, mdb_Version = \<lparr>ver_Version = ''8.2.1'', ver_Image = []\<rparr>,
       mdb_Storage = zero_storage, mdb_Resources = zero_resources, mdb_TLS = None,
       mdb_Auth = \<lparr>auth_Mechanism = ''SCRAM-SHA-256'', auth_AdminCredentialsSecretRef = ''admin-creds'',
         auth_Users = [], auth_LDAP = None, auth_OIDC = None\<rparr>,
       mdb_Monitoring = None, mdb_Backup = None, mdb_UpgradeStrategy = Some sample_strategy,
       mdb_AuditLog = None, mdb_AutoScaling = None, mdb_ScalePolicy = None, mdb_Pod = None,
       mdb_Arbiter = None, mdb_PodDisruptionBudget = None, mdb_NetworkPolicy = None,
       mdb_ReplicaSetName = ''rs0'', mdb_AdditionalConfig = []\<rparr>,
     Status = sample_status\<rparr>"

text \<open>A world at time \<open>now\<close> with a given StatefulSet.\<close>

definition done_sts :: StatefulSet where
  "done_sts = \<lparr>sts_Replicas = Some 3, sts_MatchLabels = [], sts_UpdatedReplicas = 3, sts_ReadyReplicas = 3,
     sts_CurrentRevision = ''r2'', sts_UpdateRevision = ''r2''\<rparr>"

definition rolling_sts :: StatefulSet where
  "rolling_sts = done_sts\<lparr>sts_UpdatedReplicas := 1, sts_CurrentRevision := ''r1''\<rparr>"

definition sample_world :: "gotime \<Rightarrow> StatefulSet \<Rightarrow> Pod list \<Rightarrow> mongo_driver \<Rightarrow> 'o world" where
  "sample_world now sts pods drv = \<lparr>w_now = \<lambda>_. now, w_get = \<lambda>_. Inl (ErrMsg []),
     w_update_object = \<lambda>_ m. (m, None), w_UpdateWithRetry = accept_update,
     w_HandleFinalizerCleanup = \<lambda>_ _. (no_requeue, None),
     w_ApplyErrorCondition = \<lambda>_ _ e m. (m, False, no_requeue, Some e),
     w_SetStatusCondition = put_condition,
     w_RemoveStatusCondition = \<lambda>t. filter (\<lambda>c. c_Type c \<noteq> t), w_apply = \<lambda>_ _ _. None,
     w_lookup = \<lambda>_ _ _. Some (ErrNotFound []), w_delete = \<lambda>_ _ _. None,
     w_sts = \<lambda>_ _ _. Inr sts, w_deployment = \<lambda>_ _ _. Inr \<lparr>dep_Replicas = Some 2, dep_ReadyReplicas = 2\<rparr>,
     w_pvcs = \<lambda>_ _ _. Inr [], w_pods = \<lambda>_ _ _. Inr pods,
     w_secret = \<lambda>_ n _. Inr \<lparr>sec_Name = n, sec_Data = [(''username'', ''admin''), (''password'', ''pw'')]\<rparr>,
     w_backup = \<lambda>_ _ _. Inl (ErrNotFound []), w_create_backup = \<lambda>_ _. None,
     w_lease = \<lambda>_ _ _. Inl (ErrNotFound []), w_create_lease = \<lambda>_ _. None,
     w_update_lease = \<lambda>_ _. None, w_delete_lease = \<lambda>_ _. None, w_drv = \<lambda>_. drv,
     w_secret_hash = \<lambda>_. ''0123456789abcdef''\<rparr>"

lemma retry_ok_sample: "(\<And>m. R m m) \<Longrightarrow> retry_ok R (sample_world now sts pods drv)"
  by (rule retry_ok_accept) (simp_all add: sample_world_def)

lemmas upgrade_run = reconcileUpgrade_def upgrade_dispatch_def reconcileUpgradeBackup_def create_backup_def
  reconcileUpgradeValidation_def stsRolloutComplete_def stsRolloutStuck_def commitFCV_def newRSManager_def
  getAdminPassword_def upgradeValidationFailed_def reconcileUpgradeRollback_def

lemmas sample_defs = sample_world_def sample_mdb_def sample_status_def sample_strategy_def done_sts_def
  rolling_sts_def yes_driver_def accept_update_def

lemma sample_interval: "parseValidationInterval (Some sample_strategy) = 60000000000"
  by code_simp

lemma sample_versions: "fcvMajorMinor ''8.2.1'' = ''8.2''" "fcvMajorMinor ''8.0.4'' = ''8.0''"
  by code_simp+

lemmas sample_eval = upgrade_run wp_flow wp_finish_with wp_UpdateWithRetry Let_def sample_world_def sample_mdb_def
  sample_status_def accept_update_def sample_interval sample_versions upgrade_phase_defs
  terminal_for_generation_def time_sub_def second_def

lemma sample_driver_ok: "NewPodConnectFactory yes_driver svc port u p a pod ns direct \<noteq> Inl e"
  by (simp add: NewPodConnectFactory_def NewClient_def yes_driver_def Let_def)

lemma sample_set_fcv:
  "SetFCV yes_driver (rs_factory yes_driver m pw) p ns v = ([SetFeatureCompatibilityVersion v], Inr ())"
  by (auto simp: SetFCV_def rs_factory_def run_cmd_def sample_driver_ok split: sum.splits)
    (simp add: yes_driver_def)

theorem fcv_raised_only_after_rollout_witness:
  "rollout_verified (sample_world (90 * second) done_sts [] yes_driver) 0 sample_mdb"
proof -
  let ?W = "sample_world (90 * second) done_sts [] yes_driver :: MongoDB world"
  let ?s = "snd (run_state (reconcileUpgrade ?W) (start_run sample_mdb 0))"
  have "seeded sample_mdb" by (simp add: seeded_def sample_mdb_def sample_status_def)
  moreover have "wp (reconcileUpgrade ?W)
      (\<lambda>_ s'. SetFeatureCompatibilityVersion ''8.2'' \<in> set (issued (r_log s'))) (start_run sample_mdb 0)"
    by (simp add: sample_eval sample_set_fcv) (simp add: done_sts_def)
  ultimately show ?thesis
    using fcv_raised_only_after_rollout [of sample_mdb ?W 0]
    by (metis (no_types, lifting) prod.collapse wpD)
qed

theorem terminal_result_sticks_witness:
  "run_state (reconcileUpgrade (sample_world 0 rolling_sts [] yes_driver))
     (start_run (finishRollback 0 sample_mdb) 0)
   = ((no_requeue, False, None), start_run (finishRollback 0 sample_mdb) 0)"
proof (rule terminal_result_sticks)
  show "seeded (finishRollback 0 sample_mdb)" "terminal_for_generation (finishRollback 0 sample_mdb)"
    by (simp_all add: upgrade_mutators seeded_def terminal_for_generation_def sample_mdb_def sample_status_def)
qed

definition crashing_pod :: Pod where
  "crashing_pod = \<lparr>p_Name = ''rs-2'', p_Phase = ''Running'', p_ContainerStatuses =
     [\<lparr>ctr_Name = ''mongodb'', ctr_Waiting = Some ''CrashLoopBackOff''\<rparr>]\<rparr>"

lemma sample_flags: "strategy_flag us_RollbackOnFailure (Some sample_strategy)"
  by (simp add: strategy_flag_def sample_strategy_def)

lemma sample_stuck: "stuck_pod [crashing_pod] = Some ''rs-2/mongodb: CrashLoopBackOff''"
  by (simp add: crashing_pod_def stuckReasons_def)

theorem failing_upgrade_cannot_loop_witness:
  "\<exists>m' \<in> set (persisted (r_log (snd (run_state
      (reconcileUpgrade (sample_world (5 * second) rolling_sts [crashing_pod] yes_driver))
      (start_run sample_mdb 0))))). s_UpgradePhase (Status m') = UpgradePhaseRollingBack"
proof -
  let ?W = "sample_world (5 * second) rolling_sts [crashing_pod] yes_driver :: MongoDB world"
  let ?r = "run_state (reconcileUpgrade ?W) (start_run sample_mdb 0)"
  let ?m = "setRollingBack (5 * second) sample_mdb"
  have "wp (reconcileUpgrade ?W) (\<lambda>_ s'. ?m \<in> set (persisted (r_log s'))) (start_run sample_mdb 0)"
    by (simp add: sample_eval sample_stuck sample_flags upgrade_mutators rolling_sts_def done_sts_def
        del: stuck_pod.simps)
  then have m: "?m \<in> set (persisted (r_log (snd ?r)))" by (simp add: wp_def split: prod.splits)
  have "s_UpgradePhase (Status ?m) = UpgradePhaseRollingBack
    \<or> s_UpgradePhase (Status ?m) = [] \<and>
      (s_ObservedUpgradeGeneration (Status ?m) = Generation ?m
       \<or> s_Version (Status sample_mdb) = ver_Version (mdb_Version (Spec sample_mdb))
       \<or> s_UpgradePhase (Status sample_mdb) = UpgradePhaseRollingBack \<and> s_PreviousVersion (Status sample_mdb) = [])"
    by (rule failing_upgrade_cannot_loop [of ?W sample_mdb  0 "fst ?r" "snd ?r" ?m])
      (use m in \<open>simp_all add: retry_ok_sample seeded_def sample_mdb_def sample_status_def upgrade_phase_defs\<close>)
  then have "s_UpgradePhase (Status ?m) = UpgradePhaseRollingBack"
    by (auto simp: upgrade_mutators upgrade_phase_defs)
  with m show ?thesis by blast
qed

section \<open>The verdict of a validation\<close>

definition rollout_complete :: "MongoDB \<Rightarrow> StatefulSet \<Rightarrow> bool" where
  "rollout_complete m sts \<longleftrightarrow> sts_UpdatedReplicas sts = mdb_Members (Spec m)
     \<and> sts_ReadyReplicas sts = mdb_Members (Spec m) \<and> sts_CurrentRevision sts = sts_UpdateRevision sts"

text \<open>The budget of a validation, as the comment of the source states it.\<close>

definition rollout_budget :: "MongoDB \<Rightarrow> duration" where
  "rollout_budget m = parseValidationInterval (mdb_UpgradeStrategy (Spec m))
     + max 1 (mdb_Members (Spec m)) * perMemberRolloutBudget"

lemma validationTimeout_exact:
  assumes "0 \<le> interval" "interval \<le> 9000000000000000000" "members \<le> 1000000"
  shows "validationTimeout interval members = interval + max 1 members * perMemberRolloutBudget"
proof -
  let ?b = "max 1 members * perMemberRolloutBudget"
  have "(if members < 1 then 1 else members) = max 1 members" by (simp add: max_def)
  moreover have "0 \<le> ?b" "?b \<le> 180000000000000000"
    using assms(3) by (auto simp: perMemberRolloutBudget_def minute_def max_def)
  ultimately show ?thesis using assms(1,2) by (simp add: validationTimeout_def is_int64_def)
qed

lemma wp_failed_accept:
  assumes "w_UpdateWithRetry W = accept_update"
    "strategy_flag us_RollbackOnFailure (mdb_UpgradeStrategy (Spec (r_obj s)))"
  shows "wp (upgradeValidationFailed W d r) Q s =
    (let m = setRollingBack (w_now W (r_tick s)) (r_obj s) in
     Q (requeue_after (1 * second), True, None)
       (s\<lparr>r_obj := m, r_tick := Suc (Suc (r_tick s)), r_log := r_log s @ [PersistStatus m]\<rparr>))"
  using assms
  by (simp add: upgradeValidationFailed_def wp_flow wp_finish_with wp_UpdateWithRetry accept_update_def Let_def)

lemma wp_validation_incomplete:
  assumes "s_UpgradeStartTime (Status (r_obj s)) = Some start" "r_tick s = k" "r_obj s = m"
    "w_sts W (Suc k) (Name m) (Namespace m) = Inr sts1" "\<not> rollout_complete m sts1"
    "w_sts W (Suc (Suc k)) (Name m) (Namespace m) = Inr sts2"
    "w_pods W (Suc (Suc (Suc k))) (Namespace m) (sts_MatchLabels sts2) = Inr pods"
  shows "wp (reconcileUpgradeValidation W d) Q s =
    (let s' = s\<lparr>r_tick := Suc (Suc (Suc (Suc k)))\<rparr>;
         timeout = validationTimeout (parseValidationInterval (mdb_UpgradeStrategy (Spec m))) (mdb_Members (Spec m)) in
     case stuck_pod pods of
       Some reason \<Rightarrow> wp (upgradeValidationFailed W d (''rollout stuck: '' @ reason)) Q s'
     | None \<Rightarrow>
         if time_sub (w_now W k) start < timeout then Q (requeue_after upgradeRequeueInterval, True, None) s'
         else wp (upgradeValidationFailed W d (''timed out after '' @ DurationString timeout)) Q s')"
proof -
  have r: "(sts_UpdatedReplicas sts1 = mdb_Members (Spec m) \<and> sts_ReadyReplicas sts1 = mdb_Members (Spec m)
      \<and> sts_CurrentRevision sts1 = sts_UpdateRevision sts1) = False"
    using assms(5) by (simp add: rollout_complete_def)
  show ?thesis
    using assms(1-4,6,7)
    by (simp add: reconcileUpgradeValidation_def stsRolloutComplete_def stsRolloutStuck_def wp_flow Let_def r
        del: de_Morgan_conj split: option.split)
qed

text \<open>
  C9. A validation gives up exactly when it should. With the rollout incomplete and rollback
  enabled, a pass moves to rollback if and only if a container of the StatefulSet waits in one of
  the four hopeless states or the time since the start has reached the validation interval plus
  three minutes per member; before that it changes nothing, so a slow but healthy rollout is
  never taken for a failure. A rollback from there restores the recorded previous version.
\<close>

theorem validation_gives_up_iff:
  assumes "w_UpdateWithRetry W = accept_update" and "seeded m"
    and "s_Version (Status m) \<noteq> ver_Version (mdb_Version (Spec m))"
    and "s_UpgradePhase (Status m) = UpgradePhaseValidating"
    and "s_UpgradeStartTime (Status m) = Some start"
    and "strategy_flag us_RollbackOnFailure (mdb_UpgradeStrategy (Spec m))"
    and "0 \<le> parseValidationInterval (mdb_UpgradeStrategy (Spec m))"
    and "parseValidationInterval (mdb_UpgradeStrategy (Spec m)) \<le> 9000000000000000000"
    and "mdb_Members (Spec m) \<le> 1000000"
    and "w_sts W (Suc k) (Name m) (Namespace m) = Inr sts1" and "\<not> rollout_complete m sts1"
    and "w_sts W (Suc (Suc k)) (Name m) (Namespace m) = Inr sts2"
    and "w_pods W (Suc (Suc (Suc k))) (Namespace m) (sts_MatchLabels sts2) = Inr pods"
  shows "stored m (r_log (snd (run_state (reconcileUpgrade W) (start_run m k)))) =
    (if stuck_pod pods \<noteq> None \<or> rollout_budget m \<le> time_sub (w_now W k) start
     then m\<lparr>Status := Status m\<lparr>s_UpgradePhase := UpgradePhaseRollingBack\<rparr>\<rparr> else m)"
proof -
  have t: "validationTimeout (parseValidationInterval (mdb_UpgradeStrategy (Spec m))) (mdb_Members (Spec m))
      = rollout_budget m"
    using validationTimeout_exact [OF assms(7-9)] by (simp add: rollout_budget_def)
  let ?Q = "\<lambda>_ s'. stored m (r_log s') = (if stuck_pod pods \<noteq> None \<or> rollout_budget m \<le> time_sub (w_now W k) start
       then m\<lparr>Status := Status m\<lparr>s_UpgradePhase := UpgradePhaseRollingBack\<rparr>\<rparr> else m)"
  have v: "wp (reconcileUpgradeValidation W d) ?Q (start_run m k)" for d
    using assms(1,6) t
      wp_validation_incomplete [where s = "start_run m k", OF _ _ _ assms(10,11,12,13), of start d ?Q] assms(5)
    by (cases "stuck_pod pods") (simp_all add: wp_failed_accept Let_def setRollingBack_def)
  have "wp (upgrade_dispatch W (ver_Version (mdb_Version (Spec m)))) ?Q (start_run m k)"
    using assms(2-4) v
    by (simp add: upgrade_dispatch_def wp_bind [of the_obj] wp_the_obj wp_if Let_def seeded_def terminal_for_generation_def
        upgrade_phase_defs)
  then show ?thesis
    using assms(2) by (simp add: reconcileUpgrade_seeded wp_def split: prod.splits)
qed

lemma sample_timeout: "validationTimeout 60000000000 3 = 600000000000"
  by (simp add: validationTimeout_exact perMemberRolloutBudget_def minute_def)

theorem validation_gives_up_iff_witness:
  "stored sample_mdb (r_log (snd (run_state
      (reconcileUpgrade (sample_world (600 * second) rolling_sts [] yes_driver))
      (start_run sample_mdb 0))))
   = sample_mdb\<lparr>Status := sample_status\<lparr>s_UpgradePhase := ''RollingBack''\<rparr>\<rparr>"
proof -
  let ?W = "sample_world (600 * second) rolling_sts [] yes_driver :: MongoDB world"
  have i: "parseValidationInterval (mdb_UpgradeStrategy (Spec sample_mdb)) = 60000000000"
    by (simp add: sample_mdb_def sample_interval)
  have "rollout_budget sample_mdb = 600000000000"
    by (simp add: rollout_budget_def i perMemberRolloutBudget_def minute_def) (simp add: sample_mdb_def)
  then show ?thesis
    using validation_gives_up_iff [of ?W sample_mdb 0 0 rolling_sts rolling_sts "[]"] i
    by (simp add: sample_world_def seeded_def sample_mdb_def sample_status_def upgrade_phase_defs
        sample_flags rollout_complete_def rolling_sts_def done_sts_def time_sub_def second_def)
qed

lemma wp_rollback_accept:
  assumes "w_UpdateWithRetry W = accept_update" "seeded m"
    "s_Version (Status m) \<noteq> ver_Version (mdb_Version (Spec m))"
    "s_UpgradePhase (Status m) = UpgradePhaseRollingBack" "s_PreviousVersion (Status m) \<noteq> []"
    "strategy_flag us_RollbackOnFailure (mdb_UpgradeStrategy (Spec m))"
  shows "wp (reconcileUpgrade W) (\<lambda>_ s'. r_log s' = [PersistStatus (finishRollback (w_now W k) m)]) (start_run m k)"
proof -
  have "wp (upgrade_dispatch W (ver_Version (mdb_Version (Spec m))))
      (\<lambda>_ s'. r_log s' = [PersistStatus (finishRollback (w_now W k) m)]) (start_run m k)"
    using assms
    by (simp add: upgrade_dispatch_def reconcileUpgradeRollback_def wp_flow wp_finish_with wp_UpdateWithRetry
        Let_def accept_update_def seeded_def terminal_for_generation_def upgrade_phase_defs)
  then show ?thesis using assms(2) by (simp add: wp_def reconcileUpgrade_seeded)
qed

text \<open>
  C10. A rollback restores the previous version and nothing else: the effective version becomes
  the recorded previous one, so the next StatefulSet runs its image (unless the image is
  overridden), the spec and the recorded FCV are untouched, no command is sent to the
  database, and the result is terminal for the generation.
\<close>

theorem rollback_restores_previous:
  assumes "w_UpdateWithRetry W = accept_update" and "seeded m"
    and "s_Version (Status m) \<noteq> ver_Version (mdb_Version (Spec m))"
    and "s_UpgradePhase (Status m) = UpgradePhaseRollingBack"
    and "s_PreviousVersion (Status m) \<noteq> []"
    and "strategy_flag us_RollbackOnFailure (mdb_UpgradeStrategy (Spec m))"
    and "run_state (reconcileUpgrade W) (start_run m k) = (out, s')"
    and "m' = stored m (r_log s')"
  shows "s_EffectiveVersion (Status m') = s_PreviousVersion (Status m)
    \<and> getMongoDBImage (effectiveMongoDBVersion (mdb_Version (Spec m')) (s_EffectiveVersion (Status m')))
      = (if ver_Image (mdb_Version (Spec m)) = [] then ''mongo:'' @ s_PreviousVersion (Status m)
         else ver_Image (mdb_Version (Spec m)))
    \<and> Spec m' = Spec m \<and> s_FCVVersion (Status m') = s_FCVVersion (Status m)
    \<and> s_UpgradePhase (Status m') = [] \<and> s_ObservedUpgradeGeneration (Status m') = Generation m'
    \<and> issued (r_log s') = []"
proof -
  have l: "r_log s' = [PersistStatus (finishRollback (w_now W k) m)]"
    using wpD [OF wp_rollback_accept [OF assms(1-6)] assms(7)] .
  with assms(5,8) show ?thesis by (simp add: finishRollback_def setUpgradeCondition_def image_of_effective)
qed

theorem rollback_restores_previous_witness:
  "s_EffectiveVersion (Status (stored (setRollingBack 0 sample_mdb) (r_log (snd (run_state
     (reconcileUpgrade (sample_world 0 rolling_sts [] yes_driver))
     (start_run (setRollingBack 0 sample_mdb) 0)))))) = ''8.0.4''"
proof -
  let ?m = "setRollingBack 0 sample_mdb"
  let ?W = "sample_world 0 rolling_sts [] yes_driver :: MongoDB world"
  let ?r = "run_state (reconcileUpgrade ?W) (start_run ?m 0)"
  have "s_EffectiveVersion (Status (stored ?m (r_log (snd ?r)))) = s_PreviousVersion (Status ?m)"
    using rollback_restores_previous [of ?W ?m  0 "fst ?r" "snd ?r" "stored ?m (r_log (snd ?r))"]
    by (simp add: sample_world_def setRollingBack_def seeded_def sample_mdb_def sample_status_def sample_flags)
  then show ?thesis by (simp add: setRollingBack_def sample_mdb_def sample_status_def)
qed

text \<open>
  A refused commit of the FCV is retried without limit: when the rollout is complete, the
  interval has passed and the database refuses the command, the pass persists nothing and asks to
  be called again, however long the upgrade has been running; the timeout and the rollback do
  not apply to this state.
\<close>

theorem refused_fcv_waits_forever:
  assumes "seeded m" and "s_Version (Status m) \<noteq> ver_Version (mdb_Version (Spec m))"
    and "rollout_verified W k m"
    and "s_FCVVersion (Status m) \<noteq> fcvMajorMinor (ver_Version (mdb_Version (Spec m)))"
    and "\<And>n drv f p ns v. n \<ge> k \<Longrightarrow> w_drv W n = drv \<Longrightarrow> \<exists>cs e. SetFCV drv f p ns v = (cs, Inl e)"
    and "run_state (reconcileUpgrade W) (start_run m k) = (out, s')"
  shows "out = (requeue_after upgradeRequeueInterval, True, None) \<and> stored m (r_log s') = m"
proof -
  from assms(3) obtain start sts where v: "s_UpgradeStartTime (Status m) = Some start"
    "w_sts W (Suc k) (Name m) (Namespace m) = Inr sts" "s_UpgradePhase (Status m) = UpgradePhaseValidating"
    "sts_UpdatedReplicas sts = mdb_Members (Spec m)" "sts_ReadyReplicas sts = mdb_Members (Spec m)"
    "sts_CurrentRevision sts = sts_UpdateRevision sts"
    "\<not> time_sub (w_now W k) start < parseValidationInterval (mdb_UpgradeStrategy (Spec m))"
    by (auto simp: rollout_verified_def split: option.splits sum.splits)
  have refused: "wp (commitFCV W m d) (\<lambda>r t. (\<exists>e. r = Inl e) \<and> persisted (r_log t) = []) t"
    if "r_tick t \<ge> k" "persisted (r_log t) = []" "s_FCVVersion (Status m) \<noteq> fcvMajorMinor d" for d t
    using assms(5) [of "Suc (r_tick t)" _ "rs_factory (w_drv W (Suc (r_tick t))) m _" "Name m @ ''-0''" "Namespace m"] that
    by (auto simp: commitFCV_def newRSManager_def getAdminPassword_def wp_flow Let_def
        split: sum.splits option.splits prod.splits) (metis Inl_Inr_False prod.inject)+
  have "wp (upgrade_dispatch W (ver_Version (mdb_Version (Spec m)))) (\<lambda>out s'.
      out = (requeue_after upgradeRequeueInterval, True, None) \<and> persisted (r_log s') = []) (start_run m k)"
    using assms(1,2,4) v
    by (simp add: upgrade_dispatch_def reconcileUpgradeValidation_def stsRolloutComplete_def wp_flow Let_def
        seeded_def terminal_for_generation_def upgrade_phase_defs)
      (rule wp_mono [OF refused], auto simp: wp_flow)
  from wpD [OF this] show ?thesis
    using assms(1,6) by (auto simp: reconcileUpgrade_seeded stored_persisted)
qed

definition refusing_driver :: mongo_driver where
  "refusing_driver = yes_driver\<lparr>drv_run := \<lambda>_ _. Some (ErrServer 72 ''InvalidOptions'')\<rparr>"

theorem refused_fcv_waits_forever_witness:
  "stored sample_mdb (r_log (snd (run_state
     (reconcileUpgrade (sample_world (1000000 * second) done_sts [] refusing_driver))
     (start_run sample_mdb 0)))) = sample_mdb"
proof -
  let ?W = "sample_world (1000000 * second) done_sts [] refusing_driver :: MongoDB world"
  let ?r = "run_state (reconcileUpgrade ?W) (start_run sample_mdb 0)"
  have "rollout_verified ?W 0 sample_mdb"
    by (simp add: rollout_verified_def sample_world_def sample_mdb_def sample_status_def done_sts_def
        upgrade_phase_defs sample_interval time_sub_def second_def)
  moreover have "\<exists>cs e. SetFCV drv f p ns v = (cs, Inl e)" if "w_drv ?W n = drv" for n drv f p ns v
    using that by (auto simp: sample_world_def SetFCV_def run_cmd_def refusing_driver_def split: sum.splits)
  ultimately show ?thesis
    using refused_fcv_waits_forever [of sample_mdb ?W 0 "fst ?r" "snd ?r"]
    by (simp add: seeded_def sample_mdb_def sample_status_def sample_versions)
qed

text \<open>The worlds of a lost status write: the update fails; then a container crashes.\<close>

definition lost_write_world :: "MongoDB world" where
  "lost_write_world = (sample_world (90 * second) done_sts [] yes_driver)
     \<lparr>w_UpdateWithRetry := \<lambda>_ _ m. (m, Some (ErrConflict ''conflict''))\<rparr>"

definition crash_world :: "MongoDB world" where
  "crash_world = sample_world (120 * second) rolling_sts [crashing_pod] yes_driver"

definition upgrade_pass :: "MongoDB world \<Rightarrow> MongoDB \<Rightarrow> MongoDB \<times> mongo_cmd list" where
  "upgrade_pass W m =
     (let es = r_log (snd (run_state (reconcileUpgrade W) (start_run m 0)))
      in (stored m es, issued es))"

lemma upgrade_passI:
  "wp (reconcileUpgrade W) (\<lambda>_ s'. stored m (r_log s') = m' \<and> issued (r_log s') = cs) (start_run m 0)
   \<Longrightarrow> upgrade_pass W m = (m', cs)"
  by (simp add: upgrade_pass_def wp_def Let_def split: prod.splits)

lemma wp_stuck_accept:
  assumes "w_UpdateWithRetry W = accept_update" "seeded m"
    "s_Version (Status m) \<noteq> ver_Version (mdb_Version (Spec m))"
    "s_UpgradePhase (Status m) = UpgradePhaseValidating" "s_UpgradeStartTime (Status m) = Some start"
    "strategy_flag us_RollbackOnFailure (mdb_UpgradeStrategy (Spec m))"
    "w_sts W (Suc k) (Name m) (Namespace m) = Inr sts1" "\<not> rollout_complete m sts1"
    "w_sts W (Suc (Suc k)) (Name m) (Namespace m) = Inr sts2"
    "w_pods W (Suc (Suc (Suc k))) (Namespace m) (sts_MatchLabels sts2) = Inr pods"
    "stuck_pod pods = Some reason"
  shows "wp (reconcileUpgrade W) (\<lambda>_ s'. \<exists>t. r_log s' = [PersistStatus (setRollingBack t m)]) (start_run m k)"
proof -
  let ?Q = "\<lambda>_ s'. \<exists>t. r_log s' = [PersistStatus (setRollingBack t m)]"
  have v: "wp (reconcileUpgradeValidation W d) ?Q (start_run m k)" for d
    using assms(1,5,6,11) wp_validation_incomplete [where s = "start_run m k", OF _ _ _ assms(7-10), of start d ?Q]
    by (auto simp: wp_failed_accept Let_def)
  have "wp (upgrade_dispatch W (ver_Version (mdb_Version (Spec m)))) ?Q (start_run m k)"
    using assms(2-4) v
    by (simp add: upgrade_dispatch_def wp_bind [of the_obj] wp_the_obj wp_if Let_def seeded_def terminal_for_generation_def
        upgrade_phase_defs)
  then show ?thesis using assms(2) by (simp add: wp_def reconcileUpgrade_seeded)
qed

text \<open>A pass that has sent the command and then ends with an error got it accepted: a refusal is no error.\<close>

definition fcv_accepted :: "'o world \<Rightarrow> string \<Rightarrow> bool" where
  "fcv_accepted W f \<longleftrightarrow> (\<exists>j c. drv_run (w_drv W j) c (SetFeatureCompatibilityVersion f) = None)"

lemma commit_accepted:
  assumes "issued (r_log s) = []"
  shows "wp (commitFCV W m d) (\<lambda>r t. issued (r_log t) \<noteq> [] \<and> (\<exists>x. r = Inr x) \<longrightarrow> fcv_accepted W (fcvMajorMinor d)) s"
  using assms
  by (auto simp: commitFCV_def newRSManager_def getAdminPassword_def wp_flow wp_issue Let_def SetFCV_def run_cmd_def fcv_accepted_def
      split: sum.splits option.splits prod.splits if_splits)

lemma validation_accepted:
  assumes "issued (r_log s) = []"
  shows "wp (reconcileUpgradeValidation W d) (\<lambda>out t. issued (r_log t) \<noteq> [] \<and> snd (snd out) \<noteq> None
    \<longrightarrow> fcv_accepted W (fcvMajorMinor d)) s"
proof -
  define Q :: "upgrade_outcome \<Rightarrow> MongoDB rstate \<Rightarrow> bool"
    where "Q out t \<longleftrightarrow> (issued (r_log t) \<noteq> [] \<and> snd (snd out) \<noteq> None \<longrightarrow> fcv_accepted W (fcvMajorMinor d))" for out t
  have fin: "wp (finish_with W f out) Q t" if "issued (r_log t) \<noteq> [] \<longrightarrow> fcv_accepted W (fcvMajorMinor d)" for f out t
    using that by (auto simp: Q_def wp_finish_with wp_UpdateWithRetry wp_flow split: prod.splits option.splits)
  have commit: "wp (commitFCV W m d) (\<lambda>r. wp (case r of Inl _ \<Rightarrow> ret (o1, b, None) | Inr fcv \<Rightarrow> finish_with W (completeUpgrade d fcv) out) Q)
      (s\<lparr>r_tick := n\<rparr>)" for m o1 b out n
    by (rule wp_mono [OF commit_accepted]) (auto simp: assms wp_ret Q_def [of "(o1, b, None)"] intro!: fin split: sum.split)
  have failed: "wp (upgradeValidationFailed W d r) Q (s\<lparr>r_tick := n\<rparr>)" for r n
    using assms by (auto simp: upgradeValidationFailed_def wp_flow intro!: fin)
  have quiet: "Q out (s\<lparr>r_tick := n\<rparr>)" "Q out s" for out n using assms by (simp_all add: Q_def)
  have "wp (reconcileUpgradeValidation W d) Q s"
    by (auto simp: reconcileUpgradeValidation_def stsRolloutComplete_def stsRolloutStuck_def quiet
        wp_flow Let_def split: sum.splits option.splits intro!: commit failed)
  then show ?thesis by (simp add: Q_def [abs_def])
qed

text \<open>
  C36. A lost status write breaks the order of commit and rollback. Take a pending upgrade to a
  newer feature compatibility version, with rollback enabled and the previous version recorded.
  If a pass sends a command, ends with an error and stores nothing, then the database has accepted
  the new FCV and only the status write after it was lost. If the next pass finds the rollout no
  longer complete and a container in a hopeless state, then that pass and the one after it, their
  writes accepted, send nothing and make the previous version effective again, although the database
  has the FCV of the desired one, which that version does not support.
\<close>

theorem lost_write_rolls_back_below_fcv:
  assumes "seeded m" and "s_Version (Status m) \<noteq> ver_Version (mdb_Version (Spec m))"
    and "s_PreviousVersion (Status m) \<noteq> []"
    and "strategy_flag us_RollbackOnFailure (mdb_UpgradeStrategy (Spec m))"
    and "f = fcvMajorMinor (ver_Version (mdb_Version (Spec m)))"
    and "\<not> fcv_below f (s_PreviousVersion (Status m))"
    and "upgrade_pass W1 m = (m, cmds)" and "cmds \<noteq> []"
    and "snd (snd (fst (run_state (reconcileUpgrade W1) (start_run m 0)))) \<noteq> None"
    and "w_UpdateWithRetry W2 = accept_update"
    and "w_sts W2 1 (Name m) (Namespace m) = Inr sts1" and "\<not> rollout_complete m sts1"
    and "w_sts W2 2 (Name m) (Namespace m) = Inr sts2"
    and "w_pods W2 3 (Namespace m) (sts_MatchLabels sts2) = Inr pods" and "stuck_pod pods \<noteq> None"
    and "w_UpdateWithRetry W3 = accept_update"
  shows "set cmds = {SetFeatureCompatibilityVersion f} \<and> fcv_accepted W1 f
    \<and> (\<exists>m2 m3. upgrade_pass W2 m = (m2, []) \<and> upgrade_pass W3 m2 = (m3, [])
         \<and> s_EffectiveVersion (Status m3) = s_PreviousVersion (Status m)
         \<and> \<not> fcv_below f (s_EffectiveVersion (Status m3)))"
proof -
  let ?d = "ver_Version (mdb_Version (Spec m))" and ?s1 = "snd (run_state (reconcileUpgrade W1) (start_run m 0))"
  have "wp (upgrade_dispatch W1 ?d) (\<lambda>_. says_only (fcv_evidence W1 0 m ?d)) (start_run m 0)"
    using dispatch_cmds [where W = W1 and s = "start_run m 0" and d = ?d] by simp
  then have "says_only (fcv_evidence W1 0 m ?d) ?s1"
    using assms(1) by (simp add: wp_def reconcileUpgrade_seeded split_beta)
  moreover have c: "cmds = issued (r_log ?s1)"
    using assms(7) by (simp add: upgrade_pass_def Let_def)
  ultimately have "cmds = [] \<or> rollout_verified W1 0 m" and cs: "set cmds \<subseteq> {SetFeatureCompatibilityVersion f}"
    using assms(5) by (auto simp: fcv_evidence_def split: if_splits)
  with assms(8) obtain start where v: "s_UpgradePhase (Status m) = UpgradePhaseValidating"
    "s_UpgradeStartTime (Status m) = Some start"
    by (auto simp: rollout_verified_def split: option.splits)
  have "wp (upgrade_dispatch W1 ?d) (\<lambda>out t. issued (r_log t) \<noteq> [] \<and> snd (snd out) \<noteq> None \<longrightarrow> fcv_accepted W1 f) (start_run m 0)"
    using assms(1,2,5) v validation_accepted [of "start_run m 0" W1 ?d]
    by (simp add: upgrade_dispatch_def wp_bind [of the_obj] wp_the_obj wp_if Let_def seeded_def terminal_for_generation_def upgrade_phase_defs)
  then have acc: "fcv_accepted W1 f"
    using assms(1,8,9) c by (simp add: wp_def reconcileUpgrade_seeded split_beta)
  obtain reason where st: "stuck_pod pods = Some reason" using assms(15) by blast
  have "\<exists>t. upgrade_pass W2 m = (setRollingBack t m, [])"
    using wp_stuck_accept [where W = W2 and m = m and k = 0, OF assms(10,1,2) v assms(4) _ assms(12) _ _ st] assms(11,13,14)
    by (auto simp: upgrade_pass_def wp_def Let_def numeral_eq_Suc split: prod.splits)
  then obtain t where p2: "upgrade_pass W2 m = (setRollingBack t m, [])" ..
  have "wp (reconcileUpgrade W3) (\<lambda>_ s'. r_log s' = [PersistStatus (finishRollback (w_now W3 0) (setRollingBack t m))])
      (start_run (setRollingBack t m) 0)"
    using assms(1-4) by (intro wp_rollback_accept [OF assms(16)]) (simp_all add: upgrade_mutators seeded_def)
  then have "upgrade_pass W3 (setRollingBack t m) = (finishRollback (w_now W3 0) (setRollingBack t m), [])"
    by (intro upgrade_passI) (auto elim: wp_mono)
  moreover have "s_EffectiveVersion (Status (finishRollback (w_now W3 0) (setRollingBack t m))) = s_PreviousVersion (Status m)"
    by (simp add: upgrade_mutators)
  ultimately show ?thesis using cs assms(6,8) p2 acc by (cases cmds) auto
qed

lemma lost_write_passes:
  "upgrade_pass lost_write_world sample_mdb = (sample_mdb, [SetFeatureCompatibilityVersion ''8.2''])"
  by (rule upgrade_passI) (simp add: lost_write_world_def sample_eval sample_set_fcv done_sts_def)

theorem lost_write_rolls_back_below_fcv_witness:
  "upgrade_pass lost_write_world sample_mdb = (sample_mdb, [SetFeatureCompatibilityVersion ''8.2''])
   \<and> s_EffectiveVersion (Status (fst (upgrade_pass crash_world (fst (upgrade_pass crash_world sample_mdb)))))
     = ''8.0.4''"
proof -
  have "\<not> fcv_below ''8.2'' ''8.0.4''" by code_simp
  moreover have "stuck_pod [crashing_pod] \<noteq> None" by (simp add: sample_stuck del: stuck_pod.simps)
  moreover have "wp (reconcileUpgrade lost_write_world) (\<lambda>out _. snd (snd out) \<noteq> None) (start_run sample_mdb 0)"
    by (simp add: lost_write_world_def sample_eval sample_set_fcv done_sts_def)
  then have "snd (snd (fst (run_state (reconcileUpgrade lost_write_world) (start_run sample_mdb 0)))) \<noteq> None"
    by (simp add: wp_def split_beta)
  ultimately show ?thesis
    using lost_write_rolls_back_below_fcv [of sample_mdb "''8.2''" lost_write_world
        "[SetFeatureCompatibilityVersion ''8.2'']" crash_world rolling_sts rolling_sts "[crashing_pod]" crash_world]
      lost_write_passes
    by (auto simp: seeded_def sample_mdb_def sample_status_def sample_flags sample_versions crash_world_def
        sample_world_def rollout_complete_def rolling_sts_def done_sts_def simp del: stuck_pod.simps)
qed

end
