(* ===== verification/Policies.thy ===== *)
theory Policies
  imports Cluster_Types
begin

text \<open>
  The policy objects the operator derives from a cluster: autoscalers and their guards
  (\<^verbatim>\<open>builder_hpa.go\<close>), disruption budgets and network policies (\<^verbatim>\<open>builder_policy.go\<close>), the
  TLS certificate (\<^verbatim>\<open>tls.go\<close>) and the findings of \<^verbatim>\<open>internal/security\<close>. The objects themselves
  are assembled by \<^verbatim>\<open>keiailab-commons\<close>: a builder returns the parameters it passes there, or
  \<open>None\<close> when the feature is off.
\<close>

section \<open>Labels\<close>

record LabelSet =
  lb_Name :: string
  lb_Instance :: string
  lb_Component :: string
  lb_ManagedBy :: string

definition buildLabels :: "string \<Rightarrow> string \<Rightarrow> LabelSet" where
  "buildLabels name component =
     \<lparr>lb_Name = ''mongodb'', lb_Instance = name, lb_Component = component,
      lb_ManagedBy = ''mongodb-operator''\<rparr>"

definition mongoDBPort :: int32 where "mongoDBPort = 27017"

section \<open>Autoscaling\<close>

datatype MetricSpec =
    CPUUtilization int32
  | MemoryUtilization int32
  | PodsAverageValue string int64

fun buildHPAMetrics_go :: "AutoScalingMetric list \<Rightarrow> MetricSpec list" where
  "buildHPAMetrics_go [] = []"
| "buildHPAMetrics_go (m # ms) =
     (if asm_Type m = ''cpu'' then [CPUUtilization (asm_Target m)]
      else if asm_Type m = ''memory'' then [MemoryUtilization (asm_Target m)]
      else if asm_Type m = ''custom'' then
        (case asm_CustomMetric m of
           None \<Rightarrow> []
         | Some c \<Rightarrow> if cms_Name c = [] then [] else [PodsAverageValue (cms_Name c) (asm_Target m)])
      else []) @ buildHPAMetrics_go ms"

definition buildHPAMetrics :: "AutoScalingMetric list \<Rightarrow> MetricSpec list" where
  "buildHPAMetrics metrics =
     (if length metrics = 0 then [CPUUtilization 80] else buildHPAMetrics_go metrics)"

record HPAParams =
  hp_Name :: string
  hp_Namespace :: string
  hp_Labels :: LabelSet
  hp_TargetKind :: string
  hp_TargetName :: string
  hp_MinReplicas :: int32
  hp_MaxReplicas :: int32
  hp_MinFloor :: int32
  hp_Metrics :: "MetricSpec list"

definition buildHPAForTarget ::
    "string \<Rightarrow> string \<Rightarrow> LabelSet \<Rightarrow> string \<Rightarrow> string \<Rightarrow> AutoScalingSpec \<Rightarrow> HPAParams" where
  "buildHPAForTarget name namespace labels kind refName as =
     \<lparr>hp_Name = name, hp_Namespace = namespace, hp_Labels = labels, hp_TargetKind = kind,
      hp_TargetName = refName, hp_MinReplicas = as_MinReplicas as, hp_MaxReplicas = as_MaxReplicas as,
      hp_MinFloor = 1, hp_Metrics = buildHPAMetrics (as_Metrics as)\<rparr>"

definition deliberate :: "ScalePolicy option \<Rightarrow> bool" where
  "deliberate p = (case p of None \<Rightarrow> False | Some sp \<Rightarrow> sp_Deliberate sp)"

definition hpa_enabled :: "AutoScalingSpec option \<Rightarrow> bool" where
  "hpa_enabled a = (case a of None \<Rightarrow> False | Some as \<Rightarrow> as_Enabled as)"

definition IsRSHPAActive :: "MongoDB \<Rightarrow> bool" where
  "IsRSHPAActive mdb =
     (hpa_enabled (mdb_AutoScaling (Spec mdb)) \<and> deliberate (mdb_ScalePolicy (Spec mdb)))"

definition IsConfigServerHPAActive :: "MongoDBSharded \<Rightarrow> bool" where
  "IsConfigServerHPAActive mdbsh =
     (hpa_enabled (cs_AutoScaling (shd_ConfigServer (ShSpec mdbsh)))
      \<and> deliberate (cs_ScalePolicy (shd_ConfigServer (ShSpec mdbsh))))"

definition IsMongosHPAActive :: "MongoDBSharded \<Rightarrow> bool" where
  "IsMongosHPAActive mdbsh = hpa_enabled (ms_AutoScaling (shd_Mongos (ShSpec mdbsh)))"

definition IsRSScaleDeliberate :: "MongoDB \<Rightarrow> bool" where
  "IsRSScaleDeliberate mdb = deliberate (mdb_ScalePolicy (Spec mdb))"

definition IsConfigServerScaleDeliberate :: "MongoDBSharded \<Rightarrow> bool" where
  "IsConfigServerScaleDeliberate mdbsh = deliberate (cs_ScalePolicy (shd_ConfigServer (ShSpec mdbsh)))"

definition IsShardScaleDeliberate :: "MongoDBSharded \<Rightarrow> bool" where
  "IsShardScaleDeliberate mdbsh = deliberate (sh_ScalePolicy (shd_Shards (ShSpec mdbsh)))"

definition BuildReplicaSetHPA :: "MongoDB \<Rightarrow> HPAParams option" where
  "BuildReplicaSetHPA mdb =
     (if \<not> IsRSHPAActive mdb then None
      else map_option (buildHPAForTarget (Name mdb @ ''-hpa'') (Namespace mdb)
             (buildLabels (Name mdb) ''replicaset'') ''StatefulSet'' (Name mdb))
             (mdb_AutoScaling (Spec mdb)))"

definition BuildMongosHPA :: "MongoDBSharded \<Rightarrow> HPAParams option" where
  "BuildMongosHPA mdbsh =
     (if \<not> IsMongosHPAActive mdbsh then None
      else map_option (buildHPAForTarget (ShName mdbsh @ ''-mongos-hpa'') (om_Namespace (ShMeta mdbsh))
             (buildLabels (ShName mdbsh) ''mongos'') ''Deployment'' (ShName mdbsh @ ''-mongos''))
             (ms_AutoScaling (shd_Mongos (ShSpec mdbsh))))"

definition BuildConfigServerHPA :: "MongoDBSharded \<Rightarrow> HPAParams option" where
  "BuildConfigServerHPA mdbsh =
     (if \<not> IsConfigServerHPAActive mdbsh then None
      else map_option (buildHPAForTarget (ShName mdbsh @ ''-cfg-hpa'') (om_Namespace (ShMeta mdbsh))
             (buildLabels (ShName mdbsh) ''configsvr'') ''StatefulSet'' (ShName mdbsh @ ''-cfg''))
             (cs_AutoScaling (shd_ConfigServer (ShSpec mdbsh))))"

section \<open>Disruption budgets\<close>

record PDBParams =
  pp_Name :: string
  pp_Namespace :: string
  pp_Selector :: LabelSet
  pp_Replicas :: int32
  pp_DefaultFloor :: int32
  pp_MinAvailable :: "IntOrString option"
  pp_MaxUnavailable :: "IntOrString option"

definition pdb_params ::
    "PodDisruptionBudgetSpec \<Rightarrow> string \<Rightarrow> string \<Rightarrow> LabelSet \<Rightarrow> int32 \<Rightarrow> PDBParams" where
  "pdb_params pdbSpec name namespace selector replicas =
     \<lparr>pp_Name = name, pp_Namespace = namespace, pp_Selector = selector, pp_Replicas = replicas,
      pp_DefaultFloor = 0, pp_MinAvailable = pdb_MinAvailable pdbSpec,
      pp_MaxUnavailable = pdb_MaxUnavailable pdbSpec\<rparr>"

definition enabled_pdb :: "PodDisruptionBudgetSpec option \<Rightarrow> PodDisruptionBudgetSpec option" where
  "enabled_pdb o' = (case o' of None \<Rightarrow> None | Some p \<Rightarrow> if pdb_Enabled p then Some p else None)"

definition BuildMongoDBPDB :: "MongoDB \<Rightarrow> PDBParams option" where
  "BuildMongoDBPDB mdb =
     map_option (\<lambda>p. pdb_params p (Name mdb @ ''-pdb'') (Namespace mdb)
                   (buildLabels (Name mdb) ''replicaset'') (mdb_Members (Spec mdb)))
       (enabled_pdb (mdb_PodDisruptionBudget (Spec mdb)))"

definition shard_component :: "nat \<Rightarrow> string" where "shard_component i = ''shard-'' @ show_nat i"

definition BuildShardedPDBs :: "MongoDBSharded \<Rightarrow> PDBParams list" where
  "BuildShardedPDBs mdbsh =
     (case enabled_pdb (shd_PodDisruptionBudget (ShSpec mdbsh)) of
        None \<Rightarrow> []
      | Some p \<Rightarrow>
          let name = ShName mdbsh; ns = om_Namespace (ShMeta mdbsh); sp = ShSpec mdbsh in
          [pdb_params p (name @ ''-cfg-pdb'') ns (buildLabels name ''configsvr'')
             (cs_Members (shd_ConfigServer sp))]
          @ map (\<lambda>i. pdb_params p (name @ ''-'' @ shard_component i @ ''-pdb'') ns
                      (buildLabels name (shard_component i)) (sh_MembersPerShard (shd_Shards sp)))
              [0..<nat (sh_Count (shd_Shards sp))]
          @ [pdb_params p (name @ ''-mongos-pdb'') ns (buildLabels name ''mongos'')
               (ms_Replicas (shd_Mongos sp))])"

section \<open>Network policies\<close>

record Peer =
  pr_PodSelector :: "string_map option"
  pr_NamespaceSelector :: "string_map option"

datatype np_option =
    WithLabels LabelSet
  | WithSelfIngress "int32 list"
  | WithIngressFromPeers "Peer list" "int32 list"

record NetPol =
  npl_Name :: string
  npl_Namespace :: string
  npl_Selector :: LabelSet
  npl_Options :: "np_option list"

fun convertAdditionalPeers :: "NetworkPolicyPeer list \<Rightarrow> Peer list" where
  "convertAdditionalPeers [] = []"
| "convertAdditionalPeers (peer # rest) =
     (if np_PodSelector peer = None \<and> np_NamespaceSelector peer = None then convertAdditionalPeers rest
      else \<lparr>pr_PodSelector = np_PodSelector peer, pr_NamespaceSelector = np_NamespaceSelector peer\<rparr>
             # convertAdditionalPeers rest)"

definition enabled_np :: "NetworkPolicySpec option \<Rightarrow> NetworkPolicySpec option" where
  "enabled_np o' = (case o' of None \<Rightarrow> None | Some p \<Rightarrow> if nps_Enabled p then Some p else None)"

definition extra_ingress :: "NetworkPolicySpec \<Rightarrow> int32 list \<Rightarrow> np_option list" where
  "extra_ingress npSpec ports =
     (let extra = convertAdditionalPeers (nps_AdditionalIngressFrom npSpec) in
      if length extra > 0 then [WithIngressFromPeers extra ports] else [])"

definition BuildMongoDBNetworkPolicy :: "MongoDB \<Rightarrow> NetPol option" where
  "BuildMongoDBNetworkPolicy mdb =
     map_option (\<lambda>npSpec.
       let selector = buildLabels (Name mdb) ''replicaset'' in
       \<lparr>npl_Name = Name mdb @ ''-netpol'', npl_Namespace = Namespace mdb, npl_Selector = selector,
        npl_Options = [WithLabels selector, WithSelfIngress [mongoDBPort]] @ extra_ingress npSpec [mongoDBPort]\<rparr>)
       (enabled_np (mdb_NetworkPolicy (Spec mdb)))"

definition cluster_peer :: "string \<Rightarrow> Peer" where
  "cluster_peer name = \<lparr>pr_PodSelector = Some [(''app.kubernetes.io/instance'', name),
     (''app.kubernetes.io/managed-by'', ''mongodb-operator'')], pr_NamespaceSelector = None\<rparr>"

definition buildShardedComponentNetworkPolicy ::
    "MongoDBSharded \<Rightarrow> NetworkPolicySpec \<Rightarrow> string \<Rightarrow> int32 \<Rightarrow> LabelSet \<Rightarrow> NetPol" where
  "buildShardedComponentNetworkPolicy mdbsh npSpec name port selector =
     \<lparr>npl_Name = name, npl_Namespace = om_Namespace (ShMeta mdbsh), npl_Selector = selector,
      npl_Options = [WithLabels selector, WithIngressFromPeers [cluster_peer (ShName mdbsh)] [port]]
        @ extra_ingress npSpec [port]\<rparr>"

definition BuildShardedNetworkPolicies :: "MongoDBSharded \<Rightarrow> NetPol list" where
  "BuildShardedNetworkPolicies mdbsh =
     (case enabled_np (shd_NetworkPolicy (ShSpec mdbsh)) of
        None \<Rightarrow> []
      | Some np \<Rightarrow>
          let name = ShName mdbsh in
          [buildShardedComponentNetworkPolicy mdbsh np (name @ ''-cfg-netpol'') 27019 (buildLabels name ''configsvr'')]
          @ map (\<lambda>i. buildShardedComponentNetworkPolicy mdbsh np (name @ ''-'' @ shard_component i @ ''-netpol'') 27018
                      (buildLabels name (shard_component i)))
              [0..<nat (sh_Count (shd_Shards (ShSpec mdbsh)))]
          @ [buildShardedComponentNetworkPolicy mdbsh np (name @ ''-mongos-netpol'') 27017 (buildLabels name ''mongos'')])"

section \<open>Security findings\<close>

datatype Severity = SeverityWarning | SeverityError

datatype FindingReason =
    PeerMatchesNothing | PeerMatchesNamespace | Privileged | RunAsRoot | MayRunAsRoot | Escalation

record Finding =
  fi_Field :: string
  fi_Reason :: FindingReason
  fi_Severity :: Severity

definition peer_field :: "nat \<Rightarrow> string" where
  "peer_field i = ''spec.networkPolicy.additionalIngressFrom['' @ show_nat i @ '']''"

definition peer_finding :: "nat \<Rightarrow> NetworkPolicyPeer \<Rightarrow> Finding list" where
  "peer_finding i peer =
     (if np_PodSelector peer = None \<and> np_NamespaceSelector peer = None then
        [\<lparr>fi_Field = peer_field i, fi_Reason = PeerMatchesNothing, fi_Severity = SeverityError\<rparr>]
      else if np_PodSelector peer = Some [] \<and> np_NamespaceSelector peer = None then
        [\<lparr>fi_Field = peer_field i, fi_Reason = PeerMatchesNamespace, fi_Severity = SeverityWarning\<rparr>]
      else [])"

definition ValidateNetworkPolicyPeers :: "NetworkPolicyPeer list \<Rightarrow> Finding list" where
  "ValidateNetworkPolicyPeers peers = concat (map (\<lambda>(i, p). peer_finding i p) (enumerate 0 peers))"

record SecurityContext =
  sctx_Privileged :: "bool option"
  sctx_RunAsUser :: "int64 option"
  sctx_RunAsNonRoot :: "bool option"
  sctx_AllowPrivilegeEscalation :: "bool option"

definition PreflightContainerSecurityContext :: "SecurityContext option \<Rightarrow> Finding list" where
  "PreflightContainerSecurityContext sc =
     (case sc of None \<Rightarrow> []
      | Some c \<Rightarrow>
          (if sctx_Privileged c = Some True then
             [\<lparr>fi_Field = ''containerSecurityContext.privileged'', fi_Reason = Privileged,
               fi_Severity = SeverityError\<rparr>] else [])
          @ (if sctx_RunAsUser c = Some 0 then
             [\<lparr>fi_Field = ''containerSecurityContext.runAsUser'', fi_Reason = RunAsRoot,
               fi_Severity = SeverityError\<rparr>] else [])
          @ (if sctx_RunAsNonRoot c = Some False then
             [\<lparr>fi_Field = ''containerSecurityContext.runAsNonRoot'', fi_Reason = MayRunAsRoot,
               fi_Severity = SeverityWarning\<rparr>] else [])
          @ (if sctx_AllowPrivilegeEscalation c = Some True then
             [\<lparr>fi_Field = ''containerSecurityContext.allowPrivilegeEscalation'', fi_Reason = Escalation,
               fi_Severity = SeverityWarning\<rparr>] else []))"

section \<open>TLS certificates\<close>

record CertParams =
  cp_Name :: string
  cp_Namespace :: string
  cp_Labels :: string_map
  cp_SecretName :: string
  cp_CommonName :: string
  cp_DNSNames :: "string list"
  cp_IssuerName :: string
  cp_IssuerKind :: string
  cp_Duration :: string
  cp_RenewBefore :: string
  cp_ECDSAPrivateKey :: bool

definition custom_secret :: "TLSSpec option \<Rightarrow> string \<Rightarrow> string" where
  "custom_secret tls name =
     (case tls of None \<Rightarrow> name @ ''-tls''
      | Some t \<Rightarrow> (case tls_CustomCert t of None \<Rightarrow> name @ ''-tls''
          | Some c \<Rightarrow> if cc_SecretName c \<noteq> [] then cc_SecretName c else name @ ''-tls''))"

definition TLSCertSecretName :: "MongoDBSharded \<Rightarrow> string" where
  "TLSCertSecretName mdbsh = custom_secret (shd_TLS (ShSpec mdbsh)) (ShName mdbsh)"

definition TLSCertSecretNameForRS :: "MongoDB \<Rightarrow> string" where
  "TLSCertSecretNameForRS mdb = custom_secret (mdb_TLS (Spec mdb)) (Name mdb)"

text \<open>The issuer settings when a certificate is to be requested.\<close>

definition cert_request :: "TLSSpec option \<Rightarrow> CertManagerSpec option" where
  "cert_request tls =
     (case tls of None \<Rightarrow> None
      | Some t \<Rightarrow> if \<not> tls_Enabled t then None
          else (case tls_CertManager t of None \<Rightarrow> None
            | Some cm \<Rightarrow> if iss_Name (cm_IssuerRef cm) = [] then None else Some cm))"

definition server_tls_labels :: "string \<Rightarrow> string \<Rightarrow> string_map" where
  "server_tls_labels kind name = [(''app.kubernetes.io/name'', kind), (''app.kubernetes.io/instance'', name),
     (''app.kubernetes.io/managed-by'', ''keiailab-mongodb-operator''), (''mongodb.keiailab.com/role'', ''server-tls'')]"

definition cert_params :: "string \<Rightarrow> string \<Rightarrow> string \<Rightarrow> string \<Rightarrow> string list \<Rightarrow> CertManagerSpec \<Rightarrow> CertParams" where
  "cert_params kind name namespace secret dnsNames cm =
     \<lparr>cp_Name = name @ ''-tls'', cp_Namespace = namespace, cp_Labels = server_tls_labels kind name,
      cp_SecretName = secret, cp_CommonName = name, cp_DNSNames = dnsNames,
      cp_IssuerName = iss_Name (cm_IssuerRef cm), cp_IssuerKind = iss_Kind (cm_IssuerRef cm),
      cp_Duration = cm_Duration cm, cp_RenewBefore = cm_RenewBefore cm, cp_ECDSAPrivateKey = True\<rparr>"

definition buildCertificate :: "(string \<Rightarrow> string \<Rightarrow> bool \<Rightarrow> string list) \<Rightarrow> MongoDBSharded \<Rightarrow> CertParams option" where
  "buildCertificate serviceSANs mdbsh =
     map_option (cert_params ''mongodbsharded'' (ShName mdbsh) (om_Namespace (ShMeta mdbsh)) (TLSCertSecretName mdbsh)
       ([ShName mdbsh]
        @ serviceSANs (ShName mdbsh @ ''-mongos'') (om_Namespace (ShMeta mdbsh)) False
        @ serviceSANs (ShName mdbsh @ ''-cfg-headless'') (om_Namespace (ShMeta mdbsh)) False
        @ concat (map (\<lambda>i. serviceSANs (ShName mdbsh @ ''-'' @ shard_component i @ ''-headless'')
                             (om_Namespace (ShMeta mdbsh)) False)
            [0..<nat (sh_Count (shd_Shards (ShSpec mdbsh)))])))
       (cert_request (shd_TLS (ShSpec mdbsh)))"

definition buildRSCertificate :: "(string \<Rightarrow> string \<Rightarrow> bool \<Rightarrow> string list) \<Rightarrow> MongoDB \<Rightarrow> CertParams option" where
  "buildRSCertificate serviceSANs mdb =
     map_option (cert_params ''mongodb'' (Name mdb) (Namespace mdb) (TLSCertSecretNameForRS mdb)
       ([Name mdb] @ serviceSANs (Name mdb @ ''-headless'') (Namespace mdb) True
        @ serviceSANs (Name mdb) (Namespace mdb) True))
       (cert_request (mdb_TLS (Spec mdb)))"

section \<open>Custom configuration\<close>

definition BuildCustomConfigMap :: "string \<Rightarrow> string \<Rightarrow> PodSpec option \<Rightarrow> (string \<times> string \<times> string) option" where
  "BuildCustomConfigMap name namespace pod =
     (case pod of None \<Rightarrow> None
      | Some p \<Rightarrow> (case pod_CustomConfig p of None \<Rightarrow> None
          | Some c \<Rightarrow> if ccfg_ConfigInline c = [] then None
                      else Some (name @ ''-custom-config'', namespace, ccfg_ConfigInline c)))"

section \<open>Properties\<close>

lemma convertAdditionalPeers_filter:
  "convertAdditionalPeers ps = map (\<lambda>p. \<lparr>pr_PodSelector = np_PodSelector p, pr_NamespaceSelector = np_NamespaceSelector p\<rparr>)
     (filter (\<lambda>p. np_PodSelector p \<noteq> None \<or> np_NamespaceSelector p \<noteq> None) ps)"
  by (induction ps) auto

lemma peer_errors_from:
  "length (filter (\<lambda>f. fi_Severity f = SeverityError) (concat (map (\<lambda>(i, p). peer_finding i p) (enumerate n ps))))
     + length (convertAdditionalPeers ps) = length ps"
  by (induction ps arbitrary: n) (auto simp: peer_finding_def)

text \<open>
  Extra ingress is never unrestricted by omission: each peer that reaches the network policy
  has a pod or a namespace selector, peers without either are dropped, and the security check
  reports an error for exactly as many peers as the builder drops.
\<close>

theorem extra_peers_are_selective:
  "list_all (\<lambda>p. \<not> (pr_PodSelector p = None \<and> pr_NamespaceSelector p = None)) (convertAdditionalPeers ps)
   \<and> length (filter (\<lambda>f. fi_Severity f = SeverityError) (ValidateNetworkPolicyPeers ps))
       + length (convertAdditionalPeers ps) = length ps"
  using peer_errors_from [of 0 ps]
  by (auto simp: ValidateNetworkPolicyPeers_def convertAdditionalPeers_filter list_all_iff)

text \<open>The names of the components of a sharded cluster.\<close>

definition component_names :: "nat \<Rightarrow> string list" where
  "component_names n = [''configsvr''] @ map shard_component [0..<n] @ [''mongos'']"

lemma component_names_distinct: "distinct (component_names n)"
  by (auto simp: component_names_def shard_component_def distinct_map inj_on_def show_nat_inj)

lemma sharded_selectors:
  assumes "enabled_np (shd_NetworkPolicy (ShSpec m)) = Some np"
  shows "map (\<lambda>p. lb_Component (npl_Selector p)) (BuildShardedNetworkPolicies m)
    = component_names (nat (sh_Count (shd_Shards (ShSpec m))))"
  using assms by (simp add: BuildShardedNetworkPolicies_def Let_def buildShardedComponentNetworkPolicy_def buildLabels_def
      component_names_def comp_def)

text \<open>
  One network policy per component of a sharded cluster: when they are enabled there is
  exactly one for the config server, one for every shard and one for mongos, with pairwise
  different names and pairwise disjoint pod selectors, and every one of them admits the pods
  of this cluster on the port of its component.
\<close>

theorem sharded_policies_per_component:
  assumes "enabled_np (shd_NetworkPolicy (ShSpec m)) = Some np"
  shows "map (\<lambda>p. lb_Component (npl_Selector p)) (BuildShardedNetworkPolicies m)
      = component_names (nat (sh_Count (shd_Shards (ShSpec m))))
    \<and> distinct (map (\<lambda>p. lb_Component (npl_Selector p)) (BuildShardedNetworkPolicies m))
    \<and> distinct (map npl_Name (BuildShardedNetworkPolicies m))
    \<and> (\<forall>p \<in> set (BuildShardedNetworkPolicies m). \<exists>port \<in> {27017, 27018, 27019}.
         WithIngressFromPeers [cluster_peer (ShName m)] [port] \<in> set (npl_Options p))"
proof -
  have "map npl_Name (BuildShardedNetworkPolicies m) = map (\<lambda>c. ShName m @ ''-'' @ c @ ''-netpol'')
      ([''cfg''] @ map shard_component [0..<nat (sh_Count (shd_Shards (ShSpec m)))] @ [''mongos''])"
    using assms by (simp add: BuildShardedNetworkPolicies_def Let_def buildShardedComponentNetworkPolicy_def)
  moreover have "distinct \<dots>"
    by (auto simp: shard_component_def distinct_map inj_on_def show_nat_inj)
  ultimately have "distinct (map npl_Name (BuildShardedNetworkPolicies m))" by (simp only:)
  moreover have "\<forall>p \<in> set (BuildShardedNetworkPolicies m). \<exists>port \<in> {27017, 27018, 27019}.
         WithIngressFromPeers [cluster_peer (ShName m)] [port] \<in> set (npl_Options p)"
    using assms by (auto simp: BuildShardedNetworkPolicies_def Let_def buildShardedComponentNetworkPolicy_def)
  ultimately show ?thesis using sharded_selectors [OF assms] component_names_distinct by simp
qed

theorem sharded_policies_per_component_witness:
  "distinct (map npl_Name (BuildShardedNetworkPolicies sample_sharded))
   \<and> length (BuildShardedNetworkPolicies sample_sharded) = 4"
  using sharded_policies_per_component [of sample_sharded "\<lparr>nps_Enabled = True, nps_AdditionalIngressFrom = []\<rparr>"]
    map_eq_imp_length_eq [of "\<lambda>p. lb_Component (npl_Selector p)" "BuildShardedNetworkPolicies sample_sharded" id]
  by (simp add: enabled_np_def sample_sharded_def component_names_def numeral_eq_Suc)

text \<open>
  One disruption budget per component of a sharded cluster, each guarding the replica
  count of that component: config servers, the members of each shard, mongos.
\<close>

theorem sharded_budgets_per_component:
  assumes "enabled_pdb (shd_PodDisruptionBudget (ShSpec m)) = Some p"
  shows "map (\<lambda>b. lb_Component (pp_Selector b)) (BuildShardedPDBs m)
      = component_names (nat (sh_Count (shd_Shards (ShSpec m))))
    \<and> distinct (map pp_Name (BuildShardedPDBs m))
    \<and> map pp_Replicas (BuildShardedPDBs m) = [cs_Members (shd_ConfigServer (ShSpec m))]
        @ replicate (nat (sh_Count (shd_Shards (ShSpec m)))) (sh_MembersPerShard (shd_Shards (ShSpec m)))
        @ [ms_Replicas (shd_Mongos (ShSpec m))]"
proof -
  have "map pp_Name (BuildShardedPDBs m) = map (\<lambda>c. ShName m @ ''-'' @ c @ ''-pdb'')
      ([''cfg''] @ map shard_component [0..<nat (sh_Count (shd_Shards (ShSpec m)))] @ [''mongos''])"
    using assms by (simp add: BuildShardedPDBs_def Let_def pdb_params_def)
  moreover have "distinct \<dots>"
    by (auto simp: shard_component_def distinct_map inj_on_def show_nat_inj)
  ultimately show ?thesis
    using assms by (simp add: BuildShardedPDBs_def Let_def pdb_params_def buildLabels_def component_names_def comp_def
        map_replicate_const)
qed

theorem sharded_budgets_per_component_witness:
  "map pp_Replicas (BuildShardedPDBs sample_sharded) = [3, 3, 3, 2]"
  using sharded_budgets_per_component [of sample_sharded
      "\<lparr>pdb_Enabled = True, pdb_MinAvailable = None, pdb_MaxUnavailable = None\<rparr>"]
  by (simp add: enabled_pdb_def sample_sharded_def numeral_eq_Suc)

end
