(* ===== verification/Replica_Set.thy ===== *)
theory Replica_Set
  imports Upgrade Policies
begin

text \<open>
  The controller of \<^verbatim>\<open>MongoDB\<close> resources, \<^verbatim>\<open>internal/controller/mongodb_controller.go\<close>, with the
  bootstrap lease (\<^verbatim>\<open>bootstrap_lease.go\<close>) and the password rotation check
  (\<^verbatim>\<open>password_rotation.go\<close>). \<open>Reconcile\<close> is the whole pass: finalizer, resources in order, upgrade,
  StatefulSet, policies, readiness, replica set initialisation, primary election, admin user,
  autoscaler and status.
\<close>

section \<open>Building blocks\<close>

definition FinalizerMongoDB :: string where
  "FinalizerMongoDB = ''mongodb.keiailab.com/finalizer''"
definition conditionTypePrimaryUnreachable :: string where
  "conditionTypePrimaryUnreachable = ''PrimaryUnreachable''"
definition ReasonConnectError :: string where "ReasonConnectError = ''ConnectError''"
definition ReasonReachable :: string where "ReasonReachable = ''Reachable''"

definition updateStatusError ::
    "'o world \<Rightarrow> string \<Rightarrow> go_error \<Rightarrow> ('o, ctrl_result \<times> go_error option) ctl" where
  "updateStatusError W component err = do {
     m \<leftarrow> the_obj;
     r \<leftarrow> ask (\<lambda>k. w_ApplyErrorCondition W k component err m);
     case r of (m', written, res, e) \<Rightarrow> do {
       put_obj m';
       (if written then emit (PersistStatus m') else ret ());
       ret (res, e)
     }
   }"

text \<open>The idiom of the pass: run a step, report its error under a component name, go on.\<close>

definition stage ::
    "'o world \<Rightarrow> string \<Rightarrow> ('o, go_error option) ctl \<Rightarrow> ('o, ctrl_result \<times> go_error option) ctl
     \<Rightarrow> ('o, ctrl_result \<times> go_error option) ctl" where
  "stage W component step rest = do {
     err \<leftarrow> step;
     case err of
       Some e \<Rightarrow> updateStatusError W component e
     | None \<Rightarrow> rest
   }"

text \<open>Create or update the resource that a builder makes from the object.\<close>

definition apply_built :: "'o world \<Rightarrow> string \<Rightarrow> ('o, go_error option) ctl" where
  "apply_built W what = do {
     m \<leftarrow> the_obj;
     err \<leftarrow> ask (\<lambda>k. w_apply W k what m);
     emit_if_ok err (Applied what m);
     ret err
   }"

definition delete_named :: "'o world \<Rightarrow> string \<Rightarrow> string \<Rightarrow> ('o, go_error option) ctl" where
  "delete_named W kind name = do {
     err \<leftarrow> ask (\<lambda>k. w_delete W k kind name);
     emit_if_ok err (Deleted kind name);
     ret err
   }"

text \<open>Remove an object that is no longer wanted; a missing one is fine.\<close>

definition cleanup_named :: "'o world \<Rightarrow> string \<Rightarrow> string \<Rightarrow> ('o, go_error option) ctl" where
  "cleanup_named W kind name = do {
     got \<leftarrow> ask (\<lambda>k. w_lookup W k kind name);
     case got of
       Some e \<Rightarrow> ret (if IsNotFound e then None else Some e)
     | None \<Rightarrow> delete_named W kind name
   }"

section \<open>Resources\<close>

definition reconcileKeyfileSecret :: "'o world \<Rightarrow> ('o, go_error option) ctl" where
  "reconcileKeyfileSecret W = apply_built W ''keyfile''"

definition reconcileTLS ::
    "(string \<Rightarrow> string \<Rightarrow> bool \<Rightarrow> string list) \<Rightarrow> MongoDB world \<Rightarrow> (MongoDB, go_error option) ctl" where
  "reconcileTLS sans W = do {
     mdb \<leftarrow> the_obj;
     case buildRSCertificate sans mdb of
       None \<Rightarrow> ret None
     | Some _ \<Rightarrow> do {
         err \<leftarrow> apply_built W ''certificate'';
         ret (map_option (Wrapped ''upsert tls Certificate'') err)
       }
   }"

definition reconcileCustomConfigMap :: "MongoDB world \<Rightarrow> (MongoDB, go_error option) ctl" where
  "reconcileCustomConfigMap W = do {
     mdb \<leftarrow> the_obj;
     case BuildCustomConfigMap (Name mdb) (Namespace mdb) (mdb_Pod (Spec mdb)) of
       None \<Rightarrow> ret None
     | Some _ \<Rightarrow> apply_built W ''custom-config''
   }"

definition preserve_replicas :: "MongoDB \<Rightarrow> bool" where
  "preserve_replicas mdb = (IsRSHPAActive mdb \<or> \<not> IsRSScaleDeliberate mdb)"

definition reconcileStatefulSet :: "MongoDB world \<Rightarrow> (MongoDB, go_error option) ctl" where
  "reconcileStatefulSet W = do {
     mdb \<leftarrow> the_obj;
     err \<leftarrow> ask (\<lambda>k. w_apply W k ''statefulset'' mdb);
     emit_if_ok err (AppliedWorkload (Name mdb) mdb (preserve_replicas mdb));
     ret err
   }"

definition reconcileNetworkPolicy :: "MongoDB world \<Rightarrow> (MongoDB, go_error option) ctl" where
  "reconcileNetworkPolicy W = do {
     mdb \<leftarrow> the_obj;
     case BuildMongoDBNetworkPolicy mdb of
       None \<Rightarrow> cleanup_named W ''NetworkPolicy'' (Name mdb @ ''-netpol'')
     | Some _ \<Rightarrow> apply_built W ''networkpolicy''
   }"

definition reconcilePDB :: "MongoDB world \<Rightarrow> (MongoDB, go_error option) ctl" where
  "reconcilePDB W = do {
     mdb \<leftarrow> the_obj;
     case BuildMongoDBPDB mdb of
       None \<Rightarrow> cleanup_named W ''PodDisruptionBudget'' (Name mdb @ ''-pdb'')
     | Some _ \<Rightarrow> apply_built W ''pdb''
   }"

definition reconcileRSHPA :: "bool \<Rightarrow> MongoDB world \<Rightarrow> (MongoDB, go_error option) ctl" where
  "reconcileRSHPA enableAutoscaling W =
     (if \<not> enableAutoscaling then ret None
      else do {
        mdb \<leftarrow> the_obj;
        case BuildReplicaSetHPA mdb of
          None \<Rightarrow> do {
            err \<leftarrow> cleanup_named W ''HorizontalPodAutoscaler'' (Name mdb @ ''-hpa'');
            ret (case err of Some e \<Rightarrow> if IsNotFound e then None else Some e | None \<Rightarrow> None)
          }
        | Some _ \<Rightarrow> do {
            err \<leftarrow> apply_built W ''hpa'';
            ret (map_option (Wrapped ''apply RS HPA'') err)
          }
      })"

section \<open>Readiness and initialisation\<close>

definition areAllPodsReady :: "MongoDB world \<Rightarrow> (MongoDB, go_error + bool) ctl" where
  "areAllPodsReady W = do {
     mdb \<leftarrow> the_obj;
     if mdb_Members (Spec mdb) = 0 then ret (Inr False)
     else do {
       got \<leftarrow> ask (\<lambda>k. w_sts W k (Name mdb) (Namespace mdb));
       ret (case got of Inl e \<Rightarrow> Inl e
            | Inr sts \<Rightarrow> Inr (sts_ReadyReplicas sts = mdb_Members (Spec mdb)))
     }
   }"

definition anon_factory :: "mongo_driver \<Rightarrow> MongoDB \<Rightarrow> ConnectFactory" where
  "anon_factory drv mdb = NewPodConnectFactory drv (Name mdb @ ''-headless'') 27017 [] [] []"

definition setRSInitialized :: "MongoDB mutator" where
  "setRSInitialized _ = upd (s_ReplicaSetInitialized_update (\<lambda>_. True))"

definition reconcileReplicaSetInitialization :: "MongoDB world \<Rightarrow> (MongoDB, go_error option) ctl" where
  "reconcileReplicaSetInitialization W = do {
     mdb \<leftarrow> the_obj;
     let firstPod = Name mdb @ ''-0'';
     init \<leftarrow> ask (\<lambda>k. IsInitialized (w_drv W k) (anon_factory (w_drv W k) mdb) firstPod (Namespace mdb));
     case init of
       Inl e \<Rightarrow> ret (Some (Wrapped ''check replica set init'' e))
     | Inr initialized \<Rightarrow>
         if initialized then UpdateWithRetry W setRSInitialized
         else do {
           let config = BuildReplicaSetConfig (mdb_ReplicaSetName (Spec mdb)) (Name mdb) (Name mdb @ ''-headless'')
                          (Namespace mdb) (nat (mdb_Members (Spec mdb))) 27017;
           res \<leftarrow> issue (\<lambda>k. Initiate (w_drv W k) (anon_factory (w_drv W k) mdb) firstPod (Namespace mdb) config);
           case res of
             Inl e \<Rightarrow> ret (Some (Wrapped ''failed to initiate replica set'' e))
           | Inr _ \<Rightarrow> UpdateWithRetry W setRSInitialized
         }
   }"

definition hasPrimary :: "MongoDB world \<Rightarrow> MongoDB \<Rightarrow> (MongoDB, go_error + bool) ctl" where
  "hasPrimary W mdb =
     (if s_AdminUserCreated (Status mdb) then do {
        mgr \<leftarrow> newRSManager W mdb;
        case mgr of
          Inl e \<Rightarrow> ret (Inl e)
        | Inr pw \<Rightarrow> ask (\<lambda>k. HasPrimary (w_drv W k) (rs_factory (w_drv W k) mdb pw) (Name mdb @ ''-0'') (Namespace mdb))
      }
      else ask (\<lambda>k. HasPrimary (w_drv W k) (anon_factory (w_drv W k) mdb) (Name mdb @ ''-0'') (Namespace mdb)))"

fun firstLine :: "string \<Rightarrow> string" where
  "firstLine [] = []"
| "firstLine (c # s) = (if c = CHR 0x0A then [] else c # firstLine s)"

definition primary_condition :: "string \<Rightarrow> string \<Rightarrow> string \<Rightarrow> int64 \<Rightarrow> Condition" where
  "primary_condition status reason message gen =
     \<lparr>c_Type = conditionTypePrimaryUnreachable, c_Status = status, c_ObservedGeneration = gen,
      c_LastTransitionTime = 0, c_Reason = reason, c_Message = message\<rparr>"

definition put_primary_condition :: "MongoDB world \<Rightarrow> string \<Rightarrow> string \<Rightarrow> string \<Rightarrow> MongoDB mutator" where
  "put_primary_condition W status reason message _ mdb =
     upd (\<lambda>s. s\<lparr>s_Conditions := w_SetStatusCondition W (primary_condition status reason message (Generation mdb))
                                  (s_Conditions s)\<rparr>) mdb"

definition setPrimaryUnreachableCondition :: "MongoDB world \<Rightarrow> go_error \<Rightarrow> (MongoDB, unit) ctl" where
  "setPrimaryUnreachableCondition W err = do {
     _ \<leftarrow> UpdateWithRetry W (put_primary_condition W ConditionTrue ReasonConnectError
            (''hasPrimary check failed: '' @ firstLine (Error err)));
     ret ()
   }"

definition clearPrimaryUnreachableCondition :: "MongoDB world \<Rightarrow> (MongoDB, unit) ctl" where
  "clearPrimaryUnreachableCondition W = do {
     mdb \<leftarrow> the_obj;
     if list_ex (\<lambda>c. c_Type c = conditionTypePrimaryUnreachable \<and> c_Status c = ConditionTrue)
          (s_Conditions (Status mdb))
     then do {
       _ \<leftarrow> UpdateWithRetry W (put_primary_condition W ConditionFalse ReasonReachable ''Primary check succeeded'');
       ret ()
     }
     else ret ()
   }"

section \<open>The bootstrap lease\<close>

definition bootstrapLeaseDuration :: duration where "bootstrapLeaseDuration = 30 * second"

text \<open>\<^verbatim>\<open>bootstrapLeaseHolder\<close> on the host name and the process id.\<close>

definition bootstrapLeaseHolder :: "string \<Rightarrow> int \<Rightarrow> string" where
  "bootstrapLeaseHolder host pid = (if host = [] then ''unknown'' else host) @ ''-'' @ show_int pid"

definition bootstrapLeaseName :: "MongoDB \<Rightarrow> string" where
  "bootstrapLeaseName mdb = ''mongodb-bootstrap-'' @ Name mdb"

text \<open>Another holder has a lease that has not expired at the given time.\<close>

definition lease_held_by_other :: "string \<Rightarrow> gotime \<Rightarrow> Lease \<Rightarrow> bool" where
  "lease_held_by_other holder now l =
     (case (ls_HolderIdentity l, ls_RenewTime l, ls_LeaseDurationSeconds l) of
        (Some h, Some renew, Some secs) \<Rightarrow> h \<noteq> holder \<and> now < renew + wrap64 (secs * second)
      | _ \<Rightarrow> False)"

definition fresh_lease :: "string \<Rightarrow> string \<Rightarrow> gotime \<Rightarrow> Lease" where
  "fresh_lease name holder now =
     \<lparr>ls_Name = name, ls_HolderIdentity = Some holder,
      ls_LeaseDurationSeconds = Some (wrap32 (bootstrapLeaseDuration div second)),
      ls_AcquireTime = Some now, ls_RenewTime = Some now\<rparr>"

definition acquireBootstrapLease :: "string \<Rightarrow> MongoDB world \<Rightarrow> (MongoDB, go_error + Lease option) ctl" where
  "acquireBootstrapLease holder W = do {
     mdb \<leftarrow> the_obj;
     let leaseName = bootstrapLeaseName mdb;
     now \<leftarrow> ask (w_now W);
     got \<leftarrow> ask (\<lambda>k. w_lease W k leaseName (Namespace mdb));
     case got of
       Inl err \<Rightarrow>
         if IsNotFound err then do {
           let fresh = fresh_lease leaseName holder now;
           cerr \<leftarrow> ask (\<lambda>k. w_create_lease W k fresh);
           emit_if_ok cerr (LeaseCreated fresh);
           ret (case cerr of
                  Some e \<Rightarrow> if IsAlreadyExists e then Inr None else Inl e
                | None \<Rightarrow> Inr (Some fresh))
         }
         else ret (Inl err)
     | Inr existing \<Rightarrow> do {
         now2 \<leftarrow> ask (w_now W);
         if lease_held_by_other holder now2 existing then ret (Inr None)
         else do {
           let updated = existing\<lparr>ls_HolderIdentity := Some holder, ls_AcquireTime := Some now,
                 ls_RenewTime := Some now,
                 ls_LeaseDurationSeconds := Some (wrap32 (bootstrapLeaseDuration div second))\<rparr>;
           uerr \<leftarrow> ask (\<lambda>k. w_update_lease W k updated);
           emit_if_ok uerr (LeaseUpdated updated);
           ret (case uerr of
                  Some e \<Rightarrow> if IsConflict e then Inr None else Inl e
                | None \<Rightarrow> Inr (Some updated))
         }
       }
   }"

definition releaseBootstrapLease :: "MongoDB world \<Rightarrow> Lease \<Rightarrow> (MongoDB, unit) ctl" where
  "releaseBootstrapLease W l = do {
     err \<leftarrow> ask (\<lambda>k. w_delete_lease W k l);
     emit_if_ok err (LeaseDeleted (ls_Name l))
   }"

section \<open>The admin user\<close>

text \<open>
  The polling loop of \<^verbatim>\<open>verifyAdminUser\<close>. \<open>n\<close> is the number of one-second waits after which the
  context is cancelled: the loop polls, gives up at the deadline, and returns the context's
  error when a wait is interrupted.
\<close>

fun verify_loop ::
    "MongoDB world \<Rightarrow> MongoDB \<Rightarrow> string \<Rightarrow> gotime \<Rightarrow> nat \<Rightarrow> (MongoDB, go_error option) ctl" where
  "verify_loop W mdb password deadline n = do {
     res \<leftarrow> ask (\<lambda>k. UserExists (w_drv W k) (rs_factory (w_drv W k) mdb password) (Name mdb @ ''-0'')
                       (Namespace mdb) ''admin'' ''admin'');
     if res = Inr True then ret None
     else do {
       let lastErr = (case res of
             Inl e \<Rightarrow> Wrapped ''usersInfo'' e
           | Inr _ \<Rightarrow> ErrMsg ''admin user not visible (oplog sync pending?)'');
       now \<leftarrow> ask (w_now W);
       if \<not> now < deadline then ret (Some (Wrapped ''verify admin user timeout(5s)'' lastErr))
       else (case n of
               0 \<Rightarrow> ret (Some (ErrMsg ''context canceled''))
             | Suc n' \<Rightarrow> verify_loop W mdb password deadline n')
     }
   }"

declare verify_loop.simps [simp del]

definition verifyAdminUser :: "nat \<Rightarrow> MongoDB world \<Rightarrow> MongoDB \<Rightarrow> string \<Rightarrow> (MongoDB, go_error option) ctl" where
  "verifyAdminUser waits W mdb password = do {
     start \<leftarrow> ask (w_now W);
     verify_loop W mdb password (start + 5 * second) waits
   }"

definition setAdminCreated :: "MongoDB mutator" where
  "setAdminCreated _ = upd (s_AdminUserCreated_update (\<lambda>_. True))"

text \<open>The part of \<^verbatim>\<open>reconcileAdminUser\<close> that runs while the lease is held.\<close>

definition bootstrap_under_lease :: "nat \<Rightarrow> MongoDB world \<Rightarrow> (MongoDB, go_error option) ctl" where
  "bootstrap_under_lease waits W = do {
     mdb \<leftarrow> the_obj;
     pw \<leftarrow> getAdminPassword W (auth_AdminCredentialsSecretRef (mdb_Auth (Spec mdb))) (Namespace mdb);
     case pw of
       Inl e \<Rightarrow> ret (Some (Wrapped ''failed to get admin password'' e))
     | Inr adminPassword \<Rightarrow> do {
         let firstHost = GetPodFQDN (Name mdb @ ''-0'') (Name mdb @ ''-headless'') (Namespace mdb) 27017;
         boot \<leftarrow> issue (\<lambda>k. BootstrapAdminUser (w_drv W k) firstHost ''admin'' adminPassword);
         case boot of
           Inl e \<Rightarrow> ret (Some (Wrapped ''bootstrap admin user'' e))
         | Inr _ \<Rightarrow> do {
             verr \<leftarrow> verifyAdminUser waits W mdb adminPassword;
             case verr of
               Some e \<Rightarrow> ret (Some (Wrapped ''verify admin user post-bootstrap'' e))
             | None \<Rightarrow> UpdateWithRetry W setAdminCreated
           }
       }
   }"

definition reconcileAdminUser :: "string \<Rightarrow> nat \<Rightarrow> MongoDB world \<Rightarrow> (MongoDB, go_error option) ctl" where
  "reconcileAdminUser holder waits W = do {
     got \<leftarrow> acquireBootstrapLease holder W;
     case got of
       Inl e \<Rightarrow> ret (Some (Wrapped ''acquire bootstrap lease'' e))
     | Inr None \<Rightarrow> ret (Some ErrBootstrapBusy)
     | Inr (Some lease) \<Rightarrow> do {
         err \<leftarrow> bootstrap_under_lease waits W;
         releaseBootstrapLease W lease;
         ret err
       }
   }"

section \<open>Password rotation, exporter and pending scale\<close>

definition authHashAnnotation :: string where
  "authHashAnnotation = ''mongodb.keiailab.com/auth-secret-hash''"

definition getAnnotation :: "MongoDB \<Rightarrow> string \<Rightarrow> string" where
  "getAnnotation mdb key = (case map_of (om_Annotations (Meta mdb)) key of None \<Rightarrow> [] | Some v \<Rightarrow> v)"

definition setAnnotation :: "string \<Rightarrow> string \<Rightarrow> MongoDB \<Rightarrow> MongoDB" where
  "setAnnotation key value mdb =
     mdb\<lparr>Meta := (Meta mdb)\<lparr>om_Annotations :=
        (key, value) # filter (\<lambda>e. fst e \<noteq> key) (om_Annotations (Meta mdb))\<rparr>\<rparr>"

definition update_object :: "'o world \<Rightarrow> ('o, go_error option) ctl" where
  "update_object W = do {
     m \<leftarrow> the_obj;
     r \<leftarrow> ask (\<lambda>k. w_update_object W k m);
     put_obj (fst r);
     emit_if_ok (snd r) (PersistObject (fst r));
     ret (snd r)
   }"

definition rotationPending :: "MongoDB mutator" where
  "rotationPending now = upd (setUpgradeCondition now ''PasswordRotationPending'' ConditionTrue ''SecretChanged''
     ''Admin credentials Secret has changed, password rotation pending'')"

definition hashSecretData :: "MongoDB world \<Rightarrow> Secret \<Rightarrow> string" where
  "hashSecretData W secret = take 16 (w_secret_hash W secret)"

definition reconcilePasswordRotation :: "MongoDB world \<Rightarrow> (MongoDB, go_error option) ctl" where
  "reconcilePasswordRotation W = do {
     mdb \<leftarrow> the_obj;
     let ref = auth_AdminCredentialsSecretRef (mdb_Auth (Spec mdb));
     if ref = [] then ret None
     else do {
       got \<leftarrow> ask (\<lambda>k. w_secret W k ref (Namespace mdb));
       case got of
         Inl e \<Rightarrow> ret (Some e)
       | Inr secret \<Rightarrow> do {
           let currentHash = hashSecretData W secret;
           let known = getAnnotation mdb authHashAnnotation;
           if known = [] then do {
             put_obj (setAnnotation authHashAnnotation currentHash mdb);
             update_object W
           }
           else if known \<noteq> currentHash then do {
             put_obj (setAnnotation authHashAnnotation currentHash mdb);
             err \<leftarrow> UpdateWithRetry W rotationPending;
             case err of
               Some e \<Rightarrow> ret (Some e)
             | None \<Rightarrow> update_object W
           }
           else ret None
         }
     }
   }"

text \<open>\<^verbatim>\<open>url.UserPassword(user, pass).String()\<close>: percent-encoding of user information.\<close>

definition is_alnum :: "char \<Rightarrow> bool" where
  "is_alnum c \<longleftrightarrow> is_digit c \<or> (CHR ''a'' \<le> c \<and> c \<le> CHR ''z'') \<or> (CHR ''A'' \<le> c \<and> c \<le> CHR ''Z'')"

definition userinfo_safe :: "char \<Rightarrow> bool" where
  "userinfo_safe c \<longleftrightarrow> is_alnum c \<or> c \<in> set ''-_.~$&+,;=''"

definition upper_hex :: "nat \<Rightarrow> char" where
  "upper_hex d = (if d < 10 then char_of (48 + d) else char_of (55 + d))"

definition escape_char :: "char \<Rightarrow> string" where
  "escape_char c = (if userinfo_safe c then [c]
     else [CHR ''%'', upper_hex (of_char c div 16), upper_hex (of_char c mod 16)])"

definition escape_userinfo :: "string \<Rightarrow> string" where
  "escape_userinfo s = concat (map escape_char s)"

definition UserPassword :: "string \<Rightarrow> string \<Rightarrow> string" where
  "UserPassword user pass = escape_userinfo user @ '':'' @ escape_userinfo pass"

definition buildExporterURI :: "Secret \<Rightarrow> string \<Rightarrow> go_error + string" where
  "buildExporterURI adminSecret host =
     (case map_of (sec_Data adminSecret) ''username'' of
        None \<Rightarrow> Inl (ErrMsg (''username key not found in admin credentials secret '' @ sec_Name adminSecret))
      | Some user \<Rightarrow>
        (case map_of (sec_Data adminSecret) ''password'' of
           None \<Rightarrow> Inl (ErrMsg (''password key not found in admin credentials secret '' @ sec_Name adminSecret))
         | Some pass \<Rightarrow> Inr (''mongodb://'' @ UserPassword user pass @ ''@'' @ host @ ''/?authSource=admin'')))"

definition reconcileExporterSecret :: "MongoDB world \<Rightarrow> (MongoDB, go_error option) ctl" where
  "reconcileExporterSecret W = do {
     mdb \<leftarrow> the_obj;
     got \<leftarrow> ask (\<lambda>k. w_secret W k (auth_AdminCredentialsSecretRef (mdb_Auth (Spec mdb))) (Namespace mdb));
     case got of
       Inl e \<Rightarrow> ret (Some e)
     | Inr secret \<Rightarrow>
         (case buildExporterURI secret (Name mdb @ ''-headless.'' @ Namespace mdb @ ''.svc.cluster.local:27017'') of
            Inl e \<Rightarrow> ret (Some e)
          | Inr uri \<Rightarrow> apply_built W (''exporter-uri '' @ uri))
   }"

definition deliberateReason :: string where
  "deliberateReason = ''ScalePolicy.Deliberate=false '' @ emdash @ '' set spec.scalePolicy.deliberate=true to apply''"

definition recordPendingScale :: "MongoDB world \<Rightarrow> (MongoDB, unit) ctl" where
  "recordPendingScale W = do {
     mdb \<leftarrow> the_obj;
     if IsRSScaleDeliberate mdb then put_obj (upd (s_PendingScale_update (\<lambda>_. None)) mdb)
     else do {
       got \<leftarrow> ask (\<lambda>k. w_sts W k (Name mdb) (Namespace mdb));
       case got of
         Inl _ \<Rightarrow> ret ()
       | Inr sts \<Rightarrow>
           (case sts_Replicas sts of
              None \<Rightarrow> ret ()
            | Some current \<Rightarrow>
                let desired = mdb_Members (Spec mdb) in
                if current = desired then put_obj (upd (s_PendingScale_update (\<lambda>_. None)) mdb)
                else if (case s_PendingScale (Status mdb) of None \<Rightarrow> False
                         | Some p \<Rightarrow> ps_CurrentMembers p = current \<and> ps_DesiredMembers p = desired)
                then ret ()
                else do {
                  now \<leftarrow> ask (w_now W);
                  put_obj (upd (s_PendingScale_update (\<lambda>_. Some
                    \<lparr>ps_CurrentMembers = current, ps_DesiredMembers = desired, ps_RequestedAt = rfc3339 now,
                     ps_Reason = deliberateReason\<rparr>)) mdb)
                })
     }
   }"

section \<open>Status\<close>

definition managedTypes :: "string list" where
  "managedTypes = [conditionTypeReady, ''ReplicaSetInitialized'', ''AuthenticationReady'']"

definition fully_ready :: "MongoDB \<Rightarrow> bool" where
  "fully_ready mdb \<longleftrightarrow> s_ReadyMembers (Status mdb) = mdb_Members (Spec mdb)
     \<and> s_ReplicaSetInitialized (Status mdb) \<and> s_AdminUserCreated (Status mdb)"

definition cond_now :: "gotime \<Rightarrow> int64 \<Rightarrow> string \<Rightarrow> string \<Rightarrow> string \<Rightarrow> string \<Rightarrow> Condition" where
  "cond_now now gen ty status reason message =
     \<lparr>c_Type = ty, c_Status = status, c_ObservedGeneration = gen, c_LastTransitionTime = now,
      c_Reason = reason, c_Message = message\<rparr>"

definition buildConditions :: "gotime \<Rightarrow> MongoDB \<Rightarrow> Condition list" where
  "buildConditions now mdb =
     filter (\<lambda>c. c_Type c \<notin> set managedTypes) (s_Conditions (Status mdb)) @
     [if fully_ready mdb
      then cond_now now (Generation mdb) conditionTypeReady ConditionTrue conditionTypeReady
             ''All members are ready and cluster is fully initialized''
      else cond_now now (Generation mdb) conditionTypeReady ConditionFalse ''NotReady''
             (show_int (s_ReadyMembers (Status mdb)) @ ''/'' @ show_int (mdb_Members (Spec mdb)) @ '' members ready''),
      if s_ReplicaSetInitialized (Status mdb)
      then cond_now now (Generation mdb) ''ReplicaSetInitialized'' ConditionTrue ''Initialized''
             ''Replica set has been initialized''
      else cond_now now (Generation mdb) ''ReplicaSetInitialized'' ConditionFalse ''NotInitialized''
             ''Replica set has not been initialized'',
      if s_AdminUserCreated (Status mdb)
      then cond_now now (Generation mdb) ''AuthenticationReady'' ConditionTrue ''Configured''
             ''Admin user has been created''
      else cond_now now (Generation mdb) ''AuthenticationReady'' ConditionFalse ''NotConfigured''
             ''Admin user has not been created'']"

definition recordPrimaryUnreachable :: "MongoDB world \<Rightarrow> string \<Rightarrow> go_error \<Rightarrow> MongoDB \<Rightarrow> MongoDB" where
  "recordPrimaryUnreachable W reason err mdb =
     put_primary_condition W ConditionTrue reason (firstLine (Error err)) 0 mdb"

definition applyStatus :: "MongoDB world \<Rightarrow> MongoDB mutator" where
  "applyStatus W now mdb =
     (let mdb1 = upd (\<lambda>s. s\<lparr>s_ConnectionString := ''mongodb://'' @ Name mdb @ ''-headless.'' @ Namespace mdb @
                   ''.svc.cluster.local:27017/?replicaSet='' @ mdb_ReplicaSetName (Spec mdb),
                 s_Version := ver_Version (mdb_Version (Spec mdb)),
                 s_ObservedGeneration := Generation mdb,
                 s_Conditions := clearReconcileErrorCondition (w_SetStatusCondition W) (s_Conditions s)
                   (Generation mdb) now\<rparr>) mdb
      in upd (\<lambda>s. s\<lparr>s_Conditions := buildConditions now mdb1\<rparr>) mdb1)"

definition observed_phase :: "MongoDB \<Rightarrow> MongoDB" where
  "observed_phase mdb =
     (if fully_ready mdb then upd (s_Phase_update (\<lambda>_. PhaseRunning)) mdb
      else if s_ReadyMembers (Status mdb) > 0 then upd (s_Phase_update (\<lambda>_. PhaseInitializing)) mdb
      else mdb)"

text \<open>The probe of the primary in \<^verbatim>\<open>updateStatus\<close>.\<close>

definition probe_primary :: "MongoDB world \<Rightarrow> MongoDB \<Rightarrow> (MongoDB, MongoDB) ctl" where
  "probe_primary W mdb =
     (if s_ReplicaSetInitialized (Status mdb) \<and> s_AdminUserCreated (Status mdb) then do {
        mgr \<leftarrow> newRSManager W mdb;
        case mgr of
          Inl e \<Rightarrow> ret (recordPrimaryUnreachable W ''ManagerCreateFailed'' e mdb)
        | Inr pw \<Rightarrow> do {
            found \<leftarrow> ask (\<lambda>k. GetPrimaryPod (w_drv W k) (rs_factory (w_drv W k) mdb pw) (Name mdb @ ''-0'') (Namespace mdb));
            ret (case found of
                   Inl e \<Rightarrow> recordPrimaryUnreachable W ''PrimaryLookupFailed'' e mdb
                 | Inr pod \<Rightarrow> upd (s_CurrentPrimary_update (\<lambda>_. pod)) mdb)
          }
      }
      else ret mdb)"

definition updateStatus :: "MongoDB world \<Rightarrow> (MongoDB, go_error option) ctl" where
  "updateStatus W = do {
     mdb \<leftarrow> the_obj;
     got \<leftarrow> ask (\<lambda>k. w_sts W k (Name mdb) (Namespace mdb));
     if (case got of Inl e \<Rightarrow> \<not> IsNotFound e | Inr _ \<Rightarrow> False)
     then ret (case got of Inl e \<Rightarrow> Some e | Inr _ \<Rightarrow> None)
     else do {
       let ready = (case got of Inl _ \<Rightarrow> 0 | Inr sts \<Rightarrow> sts_ReadyReplicas sts);
       mdb2 \<leftarrow> probe_primary W (observed_phase (upd (s_ReadyMembers_update (\<lambda>_. ready)) mdb));
       put_obj mdb2;
       UpdateWithRetry W (applyStatus W)
     }
   }"

section \<open>The pass\<close>

record op_config =
  cfg_EnableAutoscaling :: bool
  cfg_Holder :: string
  cfg_Waits :: nat
  cfg_ServiceSANs :: "string \<Rightarrow> string \<Rightarrow> bool \<Rightarrow> string list"

type_synonym reconcile_result = "ctrl_result \<times> go_error option"

definition setInitializing :: "MongoDB mutator" where
  "setInitializing _ = upd (s_Phase_update (\<lambda>_. PhaseInitializing))"

definition setValidating :: "MongoDB mutator" where
  "setValidating now = upd (\<lambda>s. s\<lparr>s_UpgradePhase := UpgradePhaseValidating, s_UpgradeStartTime := Some now\<rparr>)"

definition ignore_error :: "('o, go_error option) ctl \<Rightarrow> ('o, unit) ctl" where
  "ignore_error c = do { _ \<leftarrow> c; ret () }"

text \<open>Steps 9.05 to 10: rotation, exporter, autoscaler, pending scale, backup schedule, status.\<close>

definition finish_pass :: "op_config \<Rightarrow> MongoDB world \<Rightarrow> (MongoDB, reconcile_result) ctl" where
  "finish_pass cfg W = do {
     ignore_error (reconcilePasswordRotation W);
     mdb \<leftarrow> the_obj;
     (if (case mdb_Monitoring (Spec mdb) of None \<Rightarrow> False | Some mon \<Rightarrow> mon_Enabled mon)
      then ignore_error (reconcileExporterSecret W) else ret ());
     stage W ''RSHPA'' (reconcileRSHPA (cfg_EnableAutoscaling cfg) W) (do {
       recordPendingScale W;
       mdb \<leftarrow> the_obj;
       stage W ''BackupCronJob''
         (if (case mdb_Backup (Spec mdb) of None \<Rightarrow> False | Some b \<Rightarrow> bk_Schedule b \<noteq> [])
          then apply_built W ''backup-cronjob'' else ret None)
         (do {
           err \<leftarrow> updateStatus W;
           ret (case err of Some e \<Rightarrow> (no_requeue, Some e) | None \<Rightarrow> (requeue_after requeueSteady, None))
         })
     })
   }"

text \<open>Step 9: the admin user.\<close>

definition admin_user_pass :: "op_config \<Rightarrow> MongoDB world \<Rightarrow> (MongoDB, reconcile_result) ctl" where
  "admin_user_pass cfg W = do {
     mdb \<leftarrow> the_obj;
     if s_AdminUserCreated (Status mdb) then finish_pass cfg W
     else do {
       err \<leftarrow> reconcileAdminUser (cfg_Holder cfg) (cfg_Waits cfg) W;
       case err of
         Some e \<Rightarrow> if IsBootstrapBusy e then ret (requeue_after requeueWaitForExternal, None)
                    else updateStatusError W ''AdminUser'' e
       | None \<Rightarrow> finish_pass cfg W
     }
   }"

text \<open>Step 8: the primary, with the authenticated or the anonymous manager.\<close>

definition primary_pass :: "op_config \<Rightarrow> MongoDB world \<Rightarrow> (MongoDB, reconcile_result) ctl" where
  "primary_pass cfg W = do {
     mdb \<leftarrow> the_obj;
     if s_AdminUserCreated (Status mdb) then do {
       res \<leftarrow> hasPrimary W mdb;
       case res of
         Inl e \<Rightarrow> do { setPrimaryUnreachableCondition W e; ret (requeue_after requeueProvisioning, None) }
       | Inr False \<Rightarrow> do { clearPrimaryUnreachableCondition W; ret (requeue_after requeueProvisioning, None) }
       | Inr True \<Rightarrow> do { clearPrimaryUnreachableCondition W; admin_user_pass cfg W }
     }
     else do {
       res \<leftarrow> ask (\<lambda>k. HasPrimary (w_drv W k) (anon_factory (w_drv W k) mdb) (Name mdb @ ''-0'') (Namespace mdb));
       case res of
         Inl e \<Rightarrow>
           if isAuthRequiredErr e then do { clearPrimaryUnreachableCondition W; admin_user_pass cfg W }
           else do { setPrimaryUnreachableCondition W e; ret (requeue_after requeueProvisioning, None) }
       | Inr False \<Rightarrow> do { clearPrimaryUnreachableCondition W; ret (requeue_after requeueWaitForExternal, None) }
       | Inr True \<Rightarrow> do { clearPrimaryUnreachableCondition W; admin_user_pass cfg W }
     }
   }"

text \<open>Steps 5.1 to 7: volumes, policies, readiness, replica set initialisation.\<close>

definition workload_pass :: "op_config \<Rightarrow> MongoDB world \<Rightarrow> (MongoDB, reconcile_result) ctl" where
  "workload_pass cfg W = do {
     ignore_error (apply_built W ''expand-pvcs'');
     stage W ''PodDisruptionBudget'' (reconcilePDB W) (
     stage W ''NetworkPolicy'' (reconcileNetworkPolicy W) (do {
       ready \<leftarrow> areAllPodsReady W;
       case ready of
         Inl e \<Rightarrow> updateStatusError W ''PodReadiness'' e
       | Inr False \<Rightarrow> ret (requeue_after requeueProvisioning, None)
       | Inr True \<Rightarrow> do {
           mdb \<leftarrow> the_obj;
           if s_ReplicaSetInitialized (Status mdb) then primary_pass cfg W
           else stage W ''ReplicaSetInit'' (reconcileReplicaSetInitialization W) (primary_pass cfg W)
         }
     }))
   }"

text \<open>Step 5.0.1: the move to validation.\<close>

definition after_statefulset :: "op_config \<Rightarrow> MongoDB world \<Rightarrow> (MongoDB, reconcile_result) ctl" where
  "after_statefulset cfg W = do {
     mdb \<leftarrow> the_obj;
     if s_UpgradePhase (Status mdb) = UpgradePhaseUpgrading then do {
       err \<leftarrow> UpdateWithRetry W setValidating;
       case err of
         Some e \<Rightarrow> ret (no_requeue, Some e)
       | None \<Rightarrow> do {
           mdb2 \<leftarrow> the_obj;
           ret (requeue_after (parseValidationInterval (mdb_UpgradeStrategy (Spec mdb2))), None)
         }
     }
     else workload_pass cfg W
   }"

text \<open>Steps 4.5 and 5: the upgrade machine and the StatefulSet.\<close>

definition upgrade_and_apply :: "op_config \<Rightarrow> MongoDB world \<Rightarrow> (MongoDB, reconcile_result) ctl" where
  "upgrade_and_apply cfg W = do {
     out \<leftarrow> reconcileUpgrade W;
     case out of (result, handled, err) \<Rightarrow>
       (case err of
          Some e \<Rightarrow> updateStatusError W ''Upgrade'' e
        | None \<Rightarrow>
            if handled then ret (result, None)
            else stage W ''StatefulSet'' (reconcileStatefulSet W) (after_statefulset cfg W))
   }"

text \<open>Steps 1 to 4.\<close>

definition resources_pass :: "op_config \<Rightarrow> MongoDB world \<Rightarrow> (MongoDB, reconcile_result) ctl" where
  "resources_pass cfg W =
     stage W ''KeyfileSecret'' (reconcileKeyfileSecret W) (
     stage W ''TLS'' (reconcileTLS (cfg_ServiceSANs cfg) W) (
     stage W ''ConfigMap'' (apply_built W ''scripts'') (
     stage W ''CustomConfigMap'' (reconcileCustomConfigMap W) (
     stage W ''HeadlessService'' (apply_built W ''headless-service'') (
     stage W ''ClientService'' (apply_built W ''client-service'') (
     upgrade_and_apply cfg W))))))"

definition Reconcile :: "op_config \<Rightarrow> MongoDB world \<Rightarrow> (MongoDB, reconcile_result) ctl" where
  "Reconcile cfg W = do {
     got \<leftarrow> ask (w_get W);
     case got of
       Inl e \<Rightarrow> ret (no_requeue, if IsNotFound e then None else Some e)
     | Inr mdb \<Rightarrow> do {
         put_obj mdb;
         if om_DeletionTimestamp (Meta mdb) \<noteq> None then ask (\<lambda>k. w_HandleFinalizerCleanup W k mdb)
         else if FinalizerMongoDB \<notin> set (om_Finalizers (Meta mdb)) then do {
           put_obj (mdb\<lparr>Meta := (Meta mdb)\<lparr>om_Finalizers := om_Finalizers (Meta mdb) @ [FinalizerMongoDB]\<rparr>\<rparr>);
           err \<leftarrow> update_object W;
           ret (case err of Some e \<Rightarrow> (no_requeue, Some e) | None \<Rightarrow> (requeue_now, None))
         }
         else if s_Phase (Status mdb) = [] \<or> s_Phase (Status mdb) = PhasePending then do {
           err \<leftarrow> UpdateWithRetry W setInitializing;
           case err of
             Some e \<Rightarrow> ret (no_requeue, Some e)
           | None \<Rightarrow> resources_pass cfg W
         }
         else resources_pass cfg W
       }
   }"

end
