(* ===== verification/Replica_Set_Laws.thy ===== *)
theory Replica_Set_Laws
  imports Replica_Set
begin

text \<open>
  What every reconcile pass of a \<^verbatim>\<open>MongoDB\<close> resource keeps. The contract \<open>pass_invariant\<close> says what
  an invariant has to satisfy; it is interpreted for the version discipline, for the ownership of the
  spec, for settled upgrades and for the bootstrap, and each interpretation gives a property of
  arbitrarily long histories of the object.
\<close>

section \<open>Invariants of a pass\<close>

text \<open>
  \<open>ok_run P C s\<close>: the object in memory, every object that was persisted and every object a
  StatefulSet was built from satisfy \<open>P\<close>. \<open>honest R W\<close> is what is assumed of the API server and
  of the helpers: a version of the object that comes back from a write is related by \<open>R\<close> to the
  one in memory (the error helper sees the object through the \<^verbatim>\<open>Statusable\<close> interface, which
  gives it the phase and the conditions only).
\<close>

definition ok_log :: "('o \<Rightarrow> bool) \<Rightarrow> (mongo_cmd \<Rightarrow> bool) \<Rightarrow> 'o effect list \<Rightarrow> bool" where
  "ok_log P C es \<longleftrightarrow> (\<forall>m \<in> set (persisted es). P m) \<and> (\<forall>m \<in> set (applied es). P m)
     \<and> (\<forall>c \<in> set (issued es). C c)"

definition ok_run :: "('o \<Rightarrow> bool) \<Rightarrow> (mongo_cmd \<Rightarrow> bool) \<Rightarrow> 'o rstate \<Rightarrow> bool" where
  "ok_run P C s \<longleftrightarrow> P (r_obj s) \<and> ok_log P C (r_log s)"

definition honest :: "('o \<Rightarrow> 'o \<Rightarrow> bool) \<Rightarrow> 'o world \<Rightarrow> bool" where
  "honest R W \<longleftrightarrow> retry_ok R W
     \<and> (\<forall>k m m' e. w_update_object W k m = (m', e) \<longrightarrow> R m m')
     \<and> (\<forall>k c err m m' b r e. w_ApplyErrorCondition W k c err m = (m', b, r, e) \<longrightarrow> R m m')"

lemma honest_retry: "honest R W \<Longrightarrow> retry_ok R W"
  by (simp add: honest_def)

lemma ok_log_simps [simp]:
  "ok_log P C []" "ok_log P C (xs @ ys) \<longleftrightarrow> ok_log P C xs \<and> ok_log P C ys"
  "ok_log P C [PersistStatus m] \<longleftrightarrow> P m" "ok_log P C [PersistObject m] \<longleftrightarrow> P m"
  "ok_log P C [Applied n m]" "ok_log P C [AppliedWorkload w m b] \<longleftrightarrow> P m"
  "ok_log P C [Deleted n k]" "ok_log P C [CreatedBackup bk]" "ok_log P C [Issued c] \<longleftrightarrow> C c"
  "ok_log P C [LeaseCreated l]" "ok_log P C [LeaseUpdated l]" "ok_log P C [LeaseDeleted n]"
  "ok_log P C (map Issued cs) \<longleftrightarrow> (\<forall>c \<in> set cs. C c)"
  by (auto simp: ok_log_def)

lemma ok_run_tick [simp]: "ok_run P C (s\<lparr>r_tick := n\<rparr>) = ok_run P C s"
  by (simp add: ok_run_def)

lemma ok_update:
  assumes "retry_ok R W" "ok_run P C s"
    and "\<And>t b. R (r_obj s) b \<Longrightarrow> P b" and "\<And>t b. R (r_obj s) b \<Longrightarrow> P (f t b)"
  shows "wp (UpdateWithRetry W f) (\<lambda>_. ok_run P C) s"
  by (rule wp_update [OF assms(1)]) (use assms in \<open>auto simp: ok_run_def\<close>)

lemma keeps_ok_ask [keeps_intros]: "keeps (ok_run P C) (ask q)"
  by (simp add: keeps_def wp_simps)

lemma keeps_ok_issue:
  assumes "\<And>k c. c \<in> set (fst (op k)) \<Longrightarrow> C c" shows "keeps (ok_run P C) (issue op)"
  unfolding keeps_def
proof (intro allI impI)
  fix s assume "ok_run P C s"
  with assms [of _ "r_tick s"] show "wp (issue op) (\<lambda>_. ok_run P C) s"
    by (cases "op (r_tick s)") (auto simp: wp_issue ok_run_def)
qed

lemma keeps_ok_emit [keeps_intros]: "ok_log P C [e] \<Longrightarrow> keeps (ok_run P C) (emit_if_ok err e)"
  by (auto simp: keeps_def wp_simps ok_run_def)

lemma keeps_case_bool [keeps_intros]:
  "keeps I a \<Longrightarrow> keeps I b \<Longrightarrow> keeps I (case x of True \<Rightarrow> a | False \<Rightarrow> b)"
  by (cases x) auto

lemma keeps_ignore [keeps_intros]: "keeps I c \<Longrightarrow> keeps I (ignore_error c)"
  unfolding ignore_error_def by (intro keeps_intros)

lemma keeps_ok_builders [keeps_intros]:
  "keeps (ok_run P C) (apply_built W n)" "keeps (ok_run P C) (delete_named W k n)"
  unfolding apply_built_def delete_named_def by (intro keeps_intros; simp)+

lemma keeps_ok_reads [keeps_intros]:
  "keeps (ok_run P C) (cleanup_named W k n)"
  "keeps (ok_run P C) (reconcileKeyfileSecret W)"
  "keeps (ok_run P C) (getAdminPassword W sn ns)"
  unfolding cleanup_named_def reconcileKeyfileSecret_def getAdminPassword_def by (intro keeps_intros)+

lemma keeps_ok_resources [keeps_intros]:
  "keeps (ok_run P C) (reconcileTLS sans W)" "keeps (ok_run P C) (reconcileCustomConfigMap W)"
  "keeps (ok_run P C) (reconcileNetworkPolicy W)" "keeps (ok_run P C) (reconcilePDB W)"
  "keeps (ok_run P C) (reconcileRSHPA b W)" "keeps (ok_run P C) (reconcileExporterSecret W)"
  "keeps (ok_run P C) (areAllPodsReady W)" "keeps (ok_run P C) (newRSManager W m)"
  "keeps (ok_run P C) (hasPrimary W m)"
  unfolding reconcileTLS_def reconcileCustomConfigMap_def reconcileNetworkPolicy_def
    reconcilePDB_def reconcileRSHPA_def reconcileExporterSecret_def areAllPodsReady_def newRSManager_def
    hasPrimary_def
  by (intro keeps_intros)+

lemma keeps_ok_statefulset [keeps_intros]: "keeps (ok_run P C) (reconcileStatefulSet W)"
  by (auto simp: keeps_def reconcileStatefulSet_def wp_flow ok_run_def)

lemma keeps_ok_acquire [keeps_intros]: "keeps (ok_run P C) (acquireBootstrapLease h W)"
  unfolding acquireBootstrapLease_def Let_def by (intro keeps_intros) simp_all

lemma keeps_ok_verify [keeps_intros]: "keeps (ok_run P C) (verify_loop W m pw dl n)"
proof (induction n)
  case 0
  show ?case by (subst verify_loop.simps) (auto intro!: keeps_intros simp: Let_def)
next
  case (Suc n)
  then show ?case by (subst verify_loop.simps) (auto intro!: keeps_intros simp: Let_def)
qed

lemma ok_log_stored: "ok_log P C es \<Longrightarrow> P m \<Longrightarrow> P (stored m es)"
  using stored_cases [of m es] by (auto simp: ok_log_def)

text \<open>Passes in a row, without an edit in between, on an API server that is honest about \<open>R\<close>.\<close>

inductive passes ::
    "(MongoDB \<Rightarrow> MongoDB \<Rightarrow> bool) \<Rightarrow> op_config \<Rightarrow> MongoDB \<Rightarrow> MongoDB effect list \<Rightarrow> MongoDB \<Rightarrow> bool"
  for R cfg m0 where
  none: "passes R cfg m0 [] m0"
| more: "passes R cfg m0 es m \<Longrightarrow> honest R W \<Longrightarrow> w_get W k = Inr m \<Longrightarrow>
     run_state (Reconcile cfg W) (start_run m k) = (r, s') \<Longrightarrow>
     passes R cfg m0 (es @ r_log s') (stored m (r_log s'))"

text \<open>
  The contract of an invariant of the pass: it is closed under versions read again, it does not
  depend on what the small mutations change, and the upgrade machine, the move to validation
  and the final status write keep it.
\<close>

locale pass_invariant =
  fixes P :: "MongoDB \<Rightarrow> bool" and C :: "mongo_cmd \<Rightarrow> bool" and R :: "MongoDB \<Rightarrow> MongoDB \<Rightarrow> bool"
  assumes closed: "P a \<Longrightarrow> R a b \<Longrightarrow> P b"
    and annotation: "P m \<Longrightarrow> P (setAnnotation key v m)"
    and finalizer: "P m \<Longrightarrow> P (m\<lparr>Meta := (Meta m)\<lparr>om_Finalizers := fs\<rparr>\<rparr>)"
    and initializing: "P m \<Longrightarrow> P (setInitializing t m)"
    and rs_initialized: "P m \<Longrightarrow> P (setRSInitialized t m)"
    and admin_created: "P m \<Longrightarrow> P (setAdminCreated t m)"
    and rotation: "P m \<Longrightarrow> P (rotationPending t m)"
    and conditions: "P m \<Longrightarrow> P (upd (s_Conditions_update g) m)"
    and pending_scale: "P m \<Longrightarrow> P (upd (s_PendingScale_update h) m)"
    and ready_members: "P m \<Longrightarrow> P (upd (s_ReadyMembers_update i) m)"
    and phase: "P m \<Longrightarrow> P (upd (s_Phase_update j) m)"
    and primary: "P m \<Longrightarrow> P (upd (s_CurrentPrimary_update p) m)"
    and validating: "P m \<Longrightarrow> s_UpgradePhase (Status m) = UpgradePhaseUpgrading \<Longrightarrow> R m b \<Longrightarrow> P (setValidating t b)"
    and sync: "P m \<Longrightarrow> P (applyStatus W t m)"
    and initiates: "P m \<Longrightarrow> s_ReplicaSetInitialized (Status m) \<or> C (ReplSetInitiate c)"
    and bootstraps: "P m \<Longrightarrow> s_AdminUserCreated (Status m) \<or> C (CreateRootUser u pw)"
    and upgrade: "retry_ok R W \<Longrightarrow> keeps (ok_run P C) (reconcileUpgrade W)"
begin

lemma update:
  assumes "honest R W" and "\<And>t m. P m \<Longrightarrow> P (f t m)"
  shows "keeps (ok_run P C) (UpdateWithRetry W f)"
  unfolding keeps_def
proof (intro allI impI)
  fix s assume s: "ok_run P C s"
  then have "P b" if "R (r_obj s) b" for b using closed that by (auto simp: ok_run_def)
  then show "wp (UpdateWithRetry W f) (\<lambda>_. ok_run P C) s"
    by (intro ok_update [OF honest_retry [OF assms(1)] s]) (simp_all add: assms(2))
qed

lemma primary_condition: "P m \<Longrightarrow> P (put_primary_condition W a b c t m)"
  using conditions [of m "\<lambda>_. w_SetStatusCondition W (primary_condition a b c (Generation m)) (s_Conditions (Status m))"]
  by (simp add: put_primary_condition_def)

lemma error_step:
  assumes "honest R W" shows "keeps (ok_run P C) (updateStatusError W c e)"
  unfolding keeps_def
proof (intro allI impI)
  fix s assume g: "ok_run P C s"
  obtain m' b r e' where w: "w_ApplyErrorCondition W (r_tick s) c e (r_obj s) = (m', b, r, e')"
    by (metis prod_cases4)
  then have "R (r_obj s) m'" using assms unfolding honest_def by blast
  then have "P m'" using closed g by (auto simp: ok_run_def)
  with w g show "wp (updateStatusError W c e) (\<lambda>_. ok_run P C) s"
    by (simp add: updateStatusError_def wp_flow ok_run_def)
qed

lemma update_object_step:
  assumes "honest R W" shows "keeps (ok_run P C) (update_object W)"
  unfolding keeps_def
proof (intro allI impI)
  fix s assume g: "ok_run P C s"
  obtain m' e where w: "w_update_object W (r_tick s) (r_obj s) = (m', e)" by fastforce
  then have "R (r_obj s) m'" using assms unfolding honest_def by blast
  then have "P m'" using closed g by (auto simp: ok_run_def)
  with w g show "wp (update_object W) (\<lambda>_. ok_run P C) s"
    by (simp add: update_object_def wp_flow ok_run_def)
qed

lemma stage_step:
  assumes "honest R W" "keeps (ok_run P C) c" "keeps (ok_run P C) r"
  shows "keeps (ok_run P C) (stage W n c r)"
  unfolding stage_def by (intro keeps_intros error_step assms)

lemma rotation_step:
  assumes "honest R W" shows "keeps (ok_run P C) (reconcilePasswordRotation W)"
  unfolding keeps_def
proof (intro allI impI)
  fix s assume g: "ok_run P C s"
  have p: "ok_run P C (s\<lparr>r_tick := n, r_obj := setAnnotation k v (r_obj s)\<rparr>)" for n k v
    using g annotation by (simp add: ok_run_def)
  have u: "wp (update_object W) (\<lambda>_. ok_run P C) t" if "ok_run P C t" for t
    using keeps_wp [OF update_object_step [OF assms] that] .
  have k: "keeps (ok_run P C) (UpdateWithRetry W rotationPending)"
    by (rule update [OF assms]) (rule rotation)
  have r: "wp (UpdateWithRetry W rotationPending) (\<lambda>err. wp (case err of Some e \<Rightarrow> ret (Some e)
      | None \<Rightarrow> update_object W) (\<lambda>_. ok_run P C)) t" if "ok_run P C t" for t
    by (rule wp_mono [OF keeps_wp [OF k that]]) (auto simp: wp_ret u split: option.splits)
  show "wp (reconcilePasswordRotation W) (\<lambda>_. ok_run P C) s"
    using g p by (auto simp: reconcilePasswordRotation_def wp_flow Let_def split: sum.splits intro!: u r)
qed

lemma pending_scale_step: "keeps (ok_run P C) (recordPendingScale W)"
  by (auto simp: keeps_def recordPendingScale_def wp_flow Let_def ok_run_def pending_scale
      split: sum.splits option.splits)

lemma status_step:
  assumes "honest R W" shows "keeps (ok_run P C) (updateStatus W)"
  unfolding keeps_def
proof (intro allI impI)
  fix s assume g: "ok_run P C s"
  have u: "wp (UpdateWithRetry W (applyStatus W)) (\<lambda>_. ok_run P C) t" if "ok_run P C t" for t
    using keeps_wp [OF update [OF assms] that] sync by blast
  have ph: "P m \<Longrightarrow> P (observed_phase m)" for m
    using phase [of m] by (simp add: observed_phase_def)
  have o: "P (observed_phase (upd (s_ReadyMembers_update f) (r_obj s)))" for f
    using g by (intro ph ready_members) (simp add: ok_run_def)
  have probe: "wp (probe_primary W m) (\<lambda>m' t. P m' \<and> ok_run P C t) t" if "ok_run P C t" "P m" for m t
    using that primary_condition [of m W] primary [of m]
    by (auto simp: probe_primary_def newRSManager_def getAdminPassword_def wp_flow recordPrimaryUnreachable_def
        split: sum.splits option.splits)
  have "wp (probe_primary W m \<bind> (\<lambda>m'. put_obj m' \<bind> (\<lambda>_. UpdateWithRetry W (applyStatus W)))) (\<lambda>_. ok_run P C) t"
    if "ok_run P C t" "P m" for m t
    by (rule wp_seq [OF probe [OF that]]) (simp add: wp_bind wp_put_obj, rule u, simp add: ok_run_def)
  then show "wp (updateStatus W) (\<lambda>_. ok_run P C) s"
    using g o by (auto simp: updateStatus_def wp_bind [of the_obj] wp_bind [of "ask _"] wp_the_obj wp_ask wp_if wp_ret Let_def
        split: sum.splits)
qed

lemma finish_step:
  assumes h: "honest R W" shows "keeps (ok_run P C) (finish_pass cfg W)"
  unfolding finish_pass_def
  by (intro keeps_intros stage_step [OF h] rotation_step [OF h] pending_scale_step status_step [OF h])

lemma guarded_step:
  assumes "keeps (ok_run P C) c" and "\<And>m. P m \<Longrightarrow> \<not> b m \<Longrightarrow> keeps (ok_run P C) d"
  shows "keeps (ok_run P C) (the_obj \<bind> (\<lambda>m. if b m then c else d))"
  using assms by (auto simp: keeps_def wp_bind wp_the_obj ok_run_def)

lemma admin_step:
  assumes h: "honest R W" shows "keeps (ok_run P C) (admin_user_pass cfg W)"
proof -
  have a: "keeps (ok_run P C) (UpdateWithRetry W setAdminCreated)"
    by (rule update [OF h]) (rule admin_created)
  have b: "keeps (ok_run P C) (bootstrap_under_lease n W)" if "\<And>u pw. C (CreateRootUser u pw)" for n
    unfolding bootstrap_under_lease_def verifyAdminUser_def Let_def
    by (intro keeps_intros keeps_ok_issue a) (auto simp: BootstrapAdminUser_def that split: sum.splits)
  have r: "keeps (ok_run P C) (releaseBootstrapLease W l)" for l
    unfolding releaseBootstrapLease_def by (intro keeps_intros) simp
  show ?thesis
    unfolding admin_user_pass_def reconcileAdminUser_def
    by (intro guarded_step keeps_intros b r finish_step [OF h] error_step [OF h]) (use bootstraps in blast)
qed

lemma primary_step:
  assumes h: "honest R W" shows "keeps (ok_run P C) (primary_pass cfg W)"
proof -
  have c: "keeps (ok_run P C) (UpdateWithRetry W (put_primary_condition W a b c))" for a b c
    by (rule update [OF h]) (rule primary_condition)
  show ?thesis
    unfolding primary_pass_def setPrimaryUnreachableCondition_def clearPrimaryUnreachableCondition_def
    by (intro keeps_intros c admin_step [OF h])
qed

lemma initialize_step:
  assumes h: "honest R W" and c: "\<And>c. C (ReplSetInitiate c)"
  shows "keeps (ok_run P C) (reconcileReplicaSetInitialization W)"
proof -
  have i: "keeps (ok_run P C) (UpdateWithRetry W setRSInitialized)"
    by (rule update [OF h]) (rule rs_initialized)
  show ?thesis
    unfolding reconcileReplicaSetInitialization_def Let_def
    by (intro keeps_intros keeps_ok_issue i)
      (auto simp: Initiate_def run_cmd_def c split: sum.splits if_splits)
qed

lemma workload_step:
  assumes h: "honest R W" shows "keeps (ok_run P C) (workload_pass cfg W)"
  unfolding workload_pass_def
  by (intro guarded_step keeps_intros stage_step [OF h] initialize_step [OF h] primary_step [OF h]
      error_step [OF h]) (use initiates in blast)

lemma after_statefulset_step:
  assumes h: "honest R W" shows "keeps (ok_run P C) (after_statefulset cfg W)"
  unfolding keeps_def
proof (intro allI impI)
  fix t assume t: "ok_run P C t"
  have "wp (UpdateWithRetry W setValidating \<bind> (\<lambda>err. case err of
        Some e \<Rightarrow> ret (no_requeue, Some e)
      | None \<Rightarrow> the_obj \<bind> (\<lambda>mdb2. ret (requeue_after (parseValidationInterval (mdb_UpgradeStrategy (Spec mdb2))), None))))
      (\<lambda>_. ok_run P C) t"
    if "s_UpgradePhase (Status (r_obj t)) = UpgradePhaseUpgrading"
  proof (rule wp_seq [OF ok_update [OF honest_retry [OF h] t]])
    fix u b assume "R (r_obj t) b"
    then show "P b" "P (setValidating u b)"
      using t that closed validating by (auto simp: ok_run_def)
  qed (auto simp: wp_flow split: option.splits)
  then show "wp (after_statefulset cfg W) (\<lambda>_. ok_run P C) t"
    using keeps_wp [OF workload_step [OF h] t]
    by (simp add: after_statefulset_def wp_bind [of the_obj] wp_the_obj wp_if)
qed

lemma resources_step:
  assumes h: "honest R W" shows "keeps (ok_run P C) (resources_pass cfg W)"
  unfolding resources_pass_def upgrade_and_apply_def
  by (intro keeps_intros stage_step [OF h] error_step [OF h] after_statefulset_step [OF h]
      upgrade [OF honest_retry [OF h]])

lemma pass_keeps:
  assumes h: "honest R W" and "w_get W k = Inr m" "P m"
  shows "wp (Reconcile cfg W) (\<lambda>_ s'. ok_log P C (r_log s')) (start_run m k)"
proof -
  have i: "keeps (ok_run P C) (UpdateWithRetry W setInitializing \<bind> (\<lambda>err. case err of
      Some e \<Rightarrow> ret (no_requeue, Some e) | None \<Rightarrow> resources_pass cfg W))"
    by (intro keeps_intros resources_step [OF h] update [OF h] initializing)
  have u: "keeps (ok_run P C) (update_object W \<bind> (\<lambda>err. ret (f err)))" for f :: "go_error option \<Rightarrow> reconcile_result"
    by (intro keeps_intros update_object_step [OF h])
  have "wp (Reconcile cfg W) (\<lambda>_. ok_run P C) (start_run m k)"
    using assms(2,3) keeps_wp [OF i] keeps_wp [OF u] keeps_wp [OF resources_step [OF h, of cfg]] finalizer [of m]
    by (simp add: Reconcile_def wp_bind [of "ask (w_get W)"] wp_ask wp_bind [of "put_obj _"] wp_put_obj wp_if ok_run_def)
  then show ?thesis by (rule wp_mono) (simp add: ok_run_def)
qed

lemma passes_keep:
  assumes "passes R cfg m0 es m" "P m0" shows "P m \<and> ok_log P C es"
  using assms
proof induction
  case (more es m W k r s')
  from pass_keeps [OF more(2,3)] more(5,6) wpD [OF _ more(4)] have "ok_log P C (r_log s')" by blast
  with more show ?case by (simp add: ok_log_stored)
qed simp

end

section \<open>The version discipline\<close>

lemma uinv_sync:
  assumes "uinv v" shows "uinv (v\<lparr>uv_Version := uv_Desired v\<rparr>)"
proof -
  have "fcv_below (uv_FCVVersion v) (uv_Desired v)"
  proof (cases "uv_Version v = []")
    case True
    with assms show ?thesis by (auto simp: uinv_def fcv_below_def dest: supported_mm_ne)
  next
    case False
    with assms show ?thesis by (auto simp: uinv_def intro: fcv_below_vle)
  qed
  with assms show ?thesis by (auto simp: uinv_def vle_refl)
qed

lemma view_applyStatus: "rs_view (applyStatus W t m) = (rs_view m)\<lparr>uv_Version := uv_Desired (rs_view m)\<rparr>"
  by (simp add: rs_view_def applyStatus_def Let_def)

lemma uinv_upgrade:
  assumes "retry_ok (edited rs_view) W"
  shows "keeps (ok_run (\<lambda>m. uinv (rs_view m)) (\<lambda>_. True)) (reconcileUpgrade W)"
  unfolding keeps_def
proof (intro allI impI)
  fix s assume s: "ok_run (\<lambda>m. uinv (rs_view m)) (\<lambda>_. True) s"
  let ?d = "ver_Version (mdb_Version (Spec (r_obj s)))"
  have l: "ok_log (\<lambda>m. uinv (rs_view m)) (\<lambda>_. True) es = good_log rs_view es" for es
    by (simp add: ok_log_def good_log_def)
  from s have "good_run rs_view ?d s"
    using good_obj_refl [of "rs_view (r_obj s)"] by (simp add: ok_run_def l good_run_def) (simp add: rs_view_def)
  from reconcileUpgrade_good [OF assms this]
  show "wp (reconcileUpgrade W) (\<lambda>_. ok_run (\<lambda>m. uinv (rs_view m)) (\<lambda>_. True)) s"
    by (rule wp_mono) (auto simp: good_run_def ok_run_def l intro: good_obj_uinv)
qed

interpretation discipline: pass_invariant "\<lambda>m. uinv (rs_view m)" "\<lambda>_. True" "edited rs_view"
proof unfold_locales
  fix m b t assume "uinv (rs_view m)" "s_UpgradePhase (Status m) = UpgradePhaseUpgrading" "edited rs_view m b"
  then have "uinv (rs_view b)" "uv_UpgradePhase (rs_view b) \<noteq> []"
    using edited_fields(1) [of rs_view m b]
    by (auto simp: edited_def upgrade_phase_defs intro: uinv_edited) (simp add: rs_view_def)
  moreover have "rs_view (setValidating t b) = a_phase UpgradePhaseValidating (rs_view b)"
    by (simp add: rs_view_def setValidating_def a_phase_def)
  ultimately show "uinv (rs_view (setValidating t b))" by (simp add: uinv_a_phase)
next
  fix W t m assume "uinv (rs_view m)"
  then show "uinv (rs_view (applyStatus W t m))" by (simp add: view_applyStatus uinv_sync)
next
  fix a b assume "uinv (rs_view a)" "edited rs_view a b"
  then show "uinv (rs_view b)" by (auto simp: edited_def intro: uinv_edited)
next
  fix W assume "retry_ok (edited rs_view) W"
  then show "keeps (ok_run (\<lambda>m. uinv (rs_view m)) (\<lambda>_. True)) (reconcileUpgrade W)" by (rule uinv_upgrade)
qed (auto simp: rs_view_def setAnnotation_def setInitializing_def setRSInitialized_def
      setAdminCreated_def rotationPending_def setUpgradeCondition_def)

section \<open>The spec belongs to the user\<close>

text \<open>Versions of the object with the same spec and identity.\<close>

definition same_spec :: "MongoDB \<Rightarrow> MongoDB \<Rightarrow> bool" where
  "same_spec a b \<longleftrightarrow> Spec b = Spec a \<and> Name b = Name a \<and> Namespace b = Namespace a \<and> Generation b = Generation a"

lemma same_spec_refl [simp]: "same_spec m m"
  by (simp add: same_spec_def)

lemma same_spec_trans: "same_spec a b \<Longrightarrow> same_spec b c \<Longrightarrow> same_spec a c"
  by (simp add: same_spec_def)

lemma same_spec_upd [simp]: "same_spec a (m\<lparr>Status := x\<rparr>) = same_spec a m"
  by (simp add: same_spec_def)

lemma keeps_update:
  assumes "retry_ok R W" "\<And>a b. P a \<Longrightarrow> R a b \<Longrightarrow> P b" "\<And>t m. P m \<Longrightarrow> P (f t m)"
  shows "keeps (ok_run P C) (UpdateWithRetry W f)"
  unfolding keeps_def
proof (intro allI impI)
  fix s assume s: "ok_run P C s"
  then have "P b" if "R (r_obj s) b" for b using assms(2) that by (auto simp: ok_run_def)
  then show "wp (UpdateWithRetry W f) (\<lambda>_. ok_run P C) s"
    by (intro ok_update [OF assms(1) s]) (simp_all add: assms(3))
qed

text \<open>The upgrade machine keeps whatever its ten mutations keep.\<close>

lemma upgrade_keeps:
  assumes r: "retry_ok R W" and c: "\<And>a b. P a \<Longrightarrow> R a b \<Longrightarrow> P b"
    and m: "\<And>d t m. P m \<Longrightarrow> P (seed d t m)" "\<And>t m. P m \<Longrightarrow> P (clearUpgrade t m)"
      "\<And>x d t m. P m \<Longrightarrow> P (initUpgrade x d t m)" "\<And>t m. P m \<Longrightarrow> P (setUpgrading t m)"
      "\<And>t m. P m \<Longrightarrow> P (abortUpgrade t m)" "\<And>x d t m. P m \<Longrightarrow> P (completeUpgrade x d t m)"
      "\<And>t m. P m \<Longrightarrow> P (setRollingBack t m)" "\<And>x t m. P m \<Longrightarrow> P (failUpgrade x t m)"
      "\<And>t m. P m \<Longrightarrow> P (finishRollback t m)"
    and fcv: "\<And>v. C (SetFeatureCompatibilityVersion v)"
  shows "keeps (ok_run P C) (reconcileUpgrade W)"
proof -
  have u: "keeps (ok_run P C) (UpdateWithRetry W f)" if "\<And>t m. P m \<Longrightarrow> P (f t m)" for f
    using keeps_update [of R W P, OF r c that] .
  have f: "keeps (ok_run P C) (finish_with W f out)" if "\<And>t m. P m \<Longrightarrow> P (f t m)" for f out
    unfolding finish_with_def by (intro keeps_intros u that)
  have v: "keeps (ok_run P C) (commitFCV W m v)" for m v
    unfolding commitFCV_def newRSManager_def getAdminPassword_def Let_def
    by (intro keeps_intros keeps_ok_issue) (use SetFCV_cmds fcv in blast)
  have "keeps (ok_run P C) (upgrade_dispatch W d)" for d
    unfolding upgrade_dispatch_def reconcileUpgradeBackup_def create_backup_def reconcileUpgradeValidation_def
      reconcileUpgradeRollback_def upgradeValidationFailed_def stsRolloutComplete_def stsRolloutStuck_def Let_def
    by (intro keeps_intros u f v m) simp_all
  then show ?thesis unfolding reconcileUpgrade_def Let_def by (intro keeps_intros u m)
qed

lemmas same_spec_mutators = setAnnotation_def setInitializing_def setRSInitialized_def setAdminCreated_def
  rotationPending_def setValidating_def applyStatus_def upgrade_mutators Let_def

lemma same_spec_machine:
  "retry_ok same_spec W \<Longrightarrow> keeps (ok_run (same_spec m0) (\<lambda>_. True)) (reconcileUpgrade W)"
  by (rule upgrade_keeps [where R = same_spec]) (auto simp: same_spec_mutators intro: same_spec_trans)

interpretation owner: pass_invariant "same_spec m0" "\<lambda>_. True" same_spec for m0
proof unfold_locales
  fix W show "retry_ok same_spec W \<Longrightarrow> keeps (ok_run (same_spec m0) (\<lambda>_. True)) (reconcileUpgrade W)"
    by (rule same_spec_machine)
next
  fix m b t assume "same_spec m0 m" "same_spec m b"
  then show "same_spec m0 (setValidating t b)" by (simp add: same_spec_def setValidating_def)
qed (auto simp: same_spec_mutators, auto simp: same_spec_def)

text \<open>
  The life of a stored object: reconcile passes that read it from an honest API server, and edits
  of the spec that admission accepted. A pass is recorded with the effects it had.
\<close>

inductive life ::
    "(string list \<Rightarrow> string \<Rightarrow> bool) \<Rightarrow> op_config \<Rightarrow> MongoDB \<Rightarrow> MongoDB effect list \<Rightarrow> MongoDB \<Rightarrow> bool"
  for isSup cfg m0 where
  created: "life isSup cfg m0 [] m0"
| reconciled: "life isSup cfg m0 es m \<Longrightarrow> honest (edited rs_view) W \<Longrightarrow> w_get W k = Inr m \<Longrightarrow>
     run_state (Reconcile cfg W) (start_run m k) = (r, s') \<Longrightarrow>
     life isSup cfg m0 (es @ r_log s') (stored m (r_log s'))"
| spec_edited: "life isSup cfg m0 es m \<Longrightarrow>
     accepted_update isSup (ver_Version (mdb_Version (Spec m))) (ver_Version (mdb_Version (Spec m'))) \<Longrightarrow>
     Status m' = Status m \<Longrightarrow> Generation m \<le> Generation m' \<Longrightarrow> life isSup cfg m0 es m'"

definition fresh_object :: "MongoDB \<Rightarrow> bool" where
  "fresh_object m \<longleftrightarrow> supported_mm (ver_Version (mdb_Version (Spec m)))
     \<and> s_Version (Status m) = [] \<and> s_EffectiveVersion (Status m) = [] \<and> s_FCVVersion (Status m) = []
     \<and> s_UpgradePhase (Status m) = []"

definition deployed_version :: "MongoDB \<Rightarrow> string" where
  "deployed_version m = ver_Version (effectiveMongoDBVersion (mdb_Version (Spec m)) (s_EffectiveVersion (Status m)))"

lemma uinv_deployed:
  assumes "uinv (rs_view m)" shows "fcv_below (s_FCVVersion (Status m)) (deployed_version m)"
proof -
  have f: "fcv_below (s_FCVVersion (Status m)) (s_EffectiveVersion (Status m))"
    and e: "s_EffectiveVersion (Status m) \<noteq> [] \<longrightarrow>
      vle (s_EffectiveVersion (Status m)) (ver_Version (mdb_Version (Spec m)))"
    using assms by (simp_all add: uinv_def rs_view_def)
  have "s_EffectiveVersion (Status m) = [] \<Longrightarrow> s_FCVVersion (Status m) = []"
    using f by (auto simp: fcv_below_def dest: supported_mm_ne)
  with f e show ?thesis
    by (auto simp: deployed_version_def effectiveMongoDBVersion_def fcv_below_def [of "[]"] intro: fcv_below_vle)
qed

lemma life_discipline:
  assumes "life isSup cfg m0 es m" and "\<forall>l x. isSup l x = (x \<in> set l)" and "uinv (rs_view m0)"
  shows "uinv (rs_view m) \<and> ok_log (\<lambda>m. uinv (rs_view m)) (\<lambda>_. True) es"
  using assms(1)
proof induction
  case (reconciled es m W k r s')
  from discipline.pass_keeps [OF reconciled(2,3)] reconciled(5)
  have "wp (Reconcile cfg W) (\<lambda>_ s'. ok_log (\<lambda>m. uinv (rs_view m)) (\<lambda>_. True) (r_log s')) (start_run m k)"
    by blast
  from wpD [OF this reconciled(4)] reconciled(5) show ?case 
    by (simp add: ok_log_stored [of "\<lambda>m. uinv (rs_view m)"])
next
  case (spec_edited es m m')
  have "vle (ver_Version (mdb_Version (Spec m))) (ver_Version (mdb_Version (Spec m')))"
    using spec_edited accepted_vle [OF assms(2)] by (simp add: uinv_def rs_view_def)
  then have "edited_view (rs_view m) (rs_view m')"
    using spec_edited by (simp add: edited_view_def rs_view_def)
  with spec_edited show ?case by (blast intro: uinv_edited)
qed (use assms(3) in simp)

text \<open>Along a life the FCV that the operator recorded is never above the binary it deploys.\<close>

lemma life_fcv_below:
  assumes "\<forall>l x. isSup l x = (x \<in> set l)" and "fresh_object m0" and "life isSup cfg m0 es m"
  shows "fcv_below (s_FCVVersion (Status m)) (deployed_version m)
    \<and> (s_UpgradePhase (Status m) \<noteq> [] \<longrightarrow> fcv_below (s_FCVVersion (Status m)) (s_PreviousVersion (Status m)))
    \<and> (\<forall>m' \<in> set (applied es). fcv_below (s_FCVVersion (Status m')) (deployed_version m'))"
proof -
  have "uinv (rs_view m0)"
    using assms(2) by (simp add: fresh_object_def uinv_def rs_view_def fcv_below_def)
  from life_discipline [OF assms(3,1) this] show ?thesis
    by (auto simp: ok_log_def intro: uinv_deployed) (simp add: uinv_def rs_view_def)
qed

text \<open>A new cluster gets its finalizer, and is then moved to the next release.\<close>

definition new_mdb :: MongoDB where
  "new_mdb = sample_mdb\<lparr>Meta := (Meta sample_mdb)\<lparr>om_Finalizers := []\<rparr>,
     Spec := (Spec sample_mdb)\<lparr>mdb_Version := \<lparr>ver_Version = ''8.0.4'', ver_Image = []\<rparr>\<rparr>,
     Status := (Status sample_mdb)\<lparr>s_Version := [], s_EffectiveVersion := [], s_FCVVersion := [],
       s_UpgradePhase := [], s_PreviousVersion := []\<rparr>\<rparr>"

definition sample_cfg :: op_config where
  "sample_cfg = \<lparr>cfg_EnableAutoscaling = False, cfg_Holder = ''op-1'', cfg_Waits = 5, cfg_ServiceSANs = \<lambda>_ _ _. []\<rparr>"

definition reading :: "'o \<Rightarrow> 'o world \<Rightarrow> 'o world" where
  "reading m W = W\<lparr>w_get := \<lambda>_. Inr m\<rparr>"

lemma get_reading [simp]: "w_get (reading m W) k = Inr m"
  by (simp add: reading_def)

lemma honest_sample: "(\<And>m. R m m) \<Longrightarrow> honest R (reading m (sample_world now sts pods drv))"
  using retry_ok_accept [of R "reading m (sample_world now sts pods drv)"]
  by (simp add: honest_def reading_def sample_world_def)

definition pass_log :: "MongoDB \<Rightarrow> MongoDB effect list" where
  "pass_log m = r_log (snd (run_state (Reconcile sample_cfg (reading m (sample_world 0 done_sts [] yes_driver)))
     (start_run m 0)))"

definition after_pass :: "MongoDB \<Rightarrow> MongoDB" where
  "after_pass m = stored m (pass_log m)"

definition bumped :: "string \<Rightarrow> MongoDB \<Rightarrow> MongoDB" where
  "bumped v m = m\<lparr>Meta := (Meta m)\<lparr>om_Generation := om_Generation (Meta m) + 1\<rparr>,
     Spec := (Spec m)\<lparr>mdb_Version := \<lparr>ver_Version = v, ver_Image = []\<rparr>\<rparr>\<rparr>"

lemma after_pass_spec: "Spec (after_pass m) = Spec m"
proof -
  let ?W = "reading m (sample_world 0 done_sts [] yes_driver)"
  have "honest same_spec ?W" by (rule honest_sample) simp
  then have "wp (Reconcile sample_cfg ?W) (\<lambda>_ s'. ok_log (same_spec m) (\<lambda>_. True) (r_log s')) (start_run m 0)"
    by (rule owner.pass_keeps) (simp_all add: reading_def)
  then have "ok_log (same_spec m) (\<lambda>_. True) (pass_log m)"
    by (simp add: pass_log_def wp_def split_beta)
  then show ?thesis
    using ok_log_stored [of "same_spec m" _ "pass_log m" m] by (simp add: after_pass_def same_spec_def)
qed

text \<open>
  C12. The spec belongs to the user: whatever happens in any number of passes, every object the
  operator writes back and every StatefulSet it applies carries the spec, the name and the
  generation of the object it read. A rollback in particular does not edit \<^verbatim>\<open>spec.version\<close>.
\<close>

theorem operator_never_writes_spec:
  assumes "passes same_spec cfg m0 es m"
  shows "Spec m = Spec m0 \<and> (\<forall>m' \<in> set (persisted es). Spec m' = Spec m0)
    \<and> (\<forall>m' \<in> set (applied es). Spec m' = Spec m0)"
  using owner.passes_keep [OF assms, of m0] by (auto simp: ok_log_def same_spec_def)

lemma passes_sample:
  assumes "\<And>m. R m m" "passes R sample_cfg m0 es m"
  shows "passes R sample_cfg m0 (es @ pass_log m) (after_pass m)"
  unfolding pass_log_def after_pass_def
  by (rule passes.more [where W = "reading m (sample_world 0 done_sts [] yes_driver)" and k = 0 and
        r = "fst (run_state (Reconcile sample_cfg (reading m (sample_world 0 done_sts [] yes_driver))) (start_run m 0))"])
    (simp_all add: honest_sample assms)

theorem operator_never_writes_spec_witness: "Spec (after_pass (after_pass new_mdb)) = Spec new_mdb"
proof -
  have "passes same_spec sample_cfg new_mdb (([] @ pass_log new_mdb) @ pass_log (after_pass new_mdb))
      (after_pass (after_pass new_mdb))"
    by (intro passes_sample passes.none) simp_all
  from operator_never_writes_spec [OF this] show ?thesis by simp
qed

section \<open>Settled until edited\<close>

definition same_view :: "MongoDB \<Rightarrow> MongoDB \<Rightarrow> bool" where
  "same_view a b \<longleftrightarrow> rs_view b = rs_view a \<and> ver_Image (mdb_Version (Spec b)) = ver_Image (mdb_Version (Spec a))"

text \<open>An upgrade of this generation has ended, with \<open>e\<close> deployed and \<open>f\<close> committed.\<close>

definition settled_on :: "string \<Rightarrow> string \<Rightarrow> string \<Rightarrow> MongoDB \<Rightarrow> bool" where
  "settled_on d e f m \<longleftrightarrow> terminal_for_generation m \<and> seeded m \<and> ver_Version (mdb_Version (Spec m)) \<noteq> []
     \<and> s_EffectiveVersion (Status m) = e \<and> s_FCVVersion (Status m) = f \<and> deployed_version m = d"

lemma settled_machine:
  "keeps (ok_run (settled_on d e f) C) (reconcileUpgrade W)"
proof -
  have "run_state (reconcileUpgrade W) s = ((no_requeue, False, None), s)" if "settled_on d e f (r_obj s)" for s
    using that by (simp add: settled_on_def reconcileUpgrade_seeded)
      (auto simp: upgrade_dispatch_def the_obj_def ret_def Let_def terminal_for_generation_def)
  then show ?thesis by (simp add: keeps_def ok_run_def wp_def)
qed

lemma settled_on_status:
  "settled_on d e f m \<Longrightarrow> s_UpgradePhase x = s_UpgradePhase (Status m) \<Longrightarrow>
   s_ObservedUpgradeGeneration x = s_ObservedUpgradeGeneration (Status m) \<Longrightarrow>
   s_EffectiveVersion x = s_EffectiveVersion (Status m) \<Longrightarrow> s_Version x \<noteq> [] \<Longrightarrow>
   s_FCVVersion x = s_FCVVersion (Status m) \<Longrightarrow> settled_on d e f (m\<lparr>Status := x\<rparr>)"
  by (auto simp: settled_on_def terminal_for_generation_def seeded_def deployed_version_def)

lemma settled_on_version: "settled_on d e f m \<Longrightarrow> s_Version (Status m) \<noteq> []"
  by (simp add: settled_on_def seeded_def)

interpretation settled: pass_invariant "settled_on d e f" "\<lambda>c. \<forall>v. c \<noteq> SetFeatureCompatibilityVersion v" same_view
  for d e f
proof unfold_locales
  fix m b t assume "settled_on d e f m" "s_UpgradePhase (Status m) = UpgradePhaseUpgrading"
  then show "settled_on d e f (setValidating t b)"
    by (simp add: settled_on_def terminal_for_generation_def upgrade_phase_defs)
next
  fix a b assume "settled_on d e f a" "same_view a b"
  then show "settled_on d e f b"
    by (auto simp: settled_on_def same_view_def rs_view_def terminal_for_generation_def seeded_def deployed_version_def
        effectiveMongoDBVersion_def split: if_splits)
next
  fix W t m assume "settled_on d e f m"
  then show "settled_on d e f (applyStatus W t m)"
    by (auto simp: settled_on_def terminal_for_generation_def seeded_def deployed_version_def applyStatus_def Let_def)
next
  fix W show "keeps (ok_run (settled_on d e f) (\<lambda>c. \<forall>v. c \<noteq> SetFeatureCompatibilityVersion v)) (reconcileUpgrade W)"
    by (rule settled_machine)
qed (auto simp: setInitializing_def setRSInitialized_def setAdminCreated_def rotationPending_def
     setUpgradeCondition_def settled_on_version intro!: settled_on_status,
     auto simp: setAnnotation_def settled_on_def terminal_for_generation_def seeded_def deployed_version_def)

text \<open>
  C11. A finished upgrade, successful, failed or rolled back, stays finished until the spec is
  edited: in any number of passes every StatefulSet that is applied deploys the version that was
  deployed when it ended, and no pass raises the FCV. A rolled back cluster does not oscillate.
\<close>

theorem settled_until_edited:
  assumes "terminal_for_generation m0" "seeded m0" "ver_Version (mdb_Version (Spec m0)) \<noteq> []"
    and "passes same_view cfg m0 es m"
  shows "deployed_version m = deployed_version m0
    \<and> (\<forall>m' \<in> set (applied es). deployed_version m' = deployed_version m0)
    \<and> (\<forall>v. SetFeatureCompatibilityVersion v \<notin> set (issued es))"
proof -
  have "settled_on (deployed_version m0) (s_EffectiveVersion (Status m0)) (s_FCVVersion (Status m0)) m0"
    using assms by (simp add: settled_on_def)
  from settled.passes_keep [OF assms(4) this] show ?thesis
    by (auto simp: ok_log_def) (auto simp: settled_on_def)
qed

text \<open>The sample cluster after its upgrade to 8.2.1 was rolled back.\<close>

definition rolled_back_mdb :: MongoDB where
  "rolled_back_mdb = upd (\<lambda>s. s\<lparr>s_EffectiveVersion := ''8.0.4'', s_RollbackActive := True, s_UpgradePhase := [],
     s_ObservedUpgradeGeneration := 2\<rparr>) sample_mdb"

theorem settled_until_edited_witness:
  "deployed_version (after_pass (after_pass rolled_back_mdb)) = ''8.0.4''"
proof -
  have "passes same_view sample_cfg rolled_back_mdb (([] @ pass_log rolled_back_mdb) @ pass_log (after_pass rolled_back_mdb))
      (after_pass (after_pass rolled_back_mdb))"
    by (intro passes_sample passes.none) (simp_all add: same_view_def)
  moreover have "terminal_for_generation rolled_back_mdb" "seeded rolled_back_mdb"
    "ver_Version (mdb_Version (Spec rolled_back_mdb)) \<noteq> []" "deployed_version rolled_back_mdb = ''8.0.4''"
    by (simp_all add: rolled_back_mdb_def sample_mdb_def sample_status_def terminal_for_generation_def seeded_def
        deployed_version_def effectiveMongoDBVersion_def)
  ultimately show ?thesis using settled_until_edited [of rolled_back_mdb sample_cfg] by auto
qed

section \<open>Bootstrap happens once\<close>

definition same_flags :: "MongoDB \<Rightarrow> MongoDB \<Rightarrow> bool" where
  "same_flags a b \<longleftrightarrow> s_ReplicaSetInitialized (Status b) = s_ReplicaSetInitialized (Status a)
     \<and> s_AdminUserCreated (Status b) = s_AdminUserCreated (Status a)"

definition bootstrapped :: "MongoDB \<Rightarrow> bool" where
  "bootstrapped m \<longleftrightarrow> s_ReplicaSetInitialized (Status m) \<and> s_AdminUserCreated (Status m)"

definition is_fcv_cmd :: "mongo_cmd \<Rightarrow> bool" where
  "is_fcv_cmd c \<longleftrightarrow> (\<exists>v. c = SetFeatureCompatibilityVersion v)"

lemma bootstrapped_machine:
  "retry_ok same_flags W \<Longrightarrow> keeps (ok_run bootstrapped is_fcv_cmd) (reconcileUpgrade W)"
  by (rule upgrade_keeps [where R = same_flags])
    (auto simp: same_spec_mutators bootstrapped_def same_flags_def is_fcv_cmd_def)

interpretation once: pass_invariant bootstrapped is_fcv_cmd same_flags
proof unfold_locales
  fix W show "retry_ok same_flags W \<Longrightarrow> keeps (ok_run bootstrapped is_fcv_cmd) (reconcileUpgrade W)"
    by (rule bootstrapped_machine)
qed (auto simp: same_spec_mutators bootstrapped_def same_flags_def)

text \<open>
  C13. The bootstrap is not repeated: once a replica set is recorded as initialised and its admin
  user as created, no pass ever sends \<^verbatim>\<open>replSetInitiate\<close> or creates a root user again, both
  records stay, and the only command the controller still sends is the FCV raise.
\<close>

theorem bootstrap_never_repeats:
  assumes "bootstrapped m0" and "passes same_flags cfg m0 es m"
  shows "bootstrapped m \<and> (\<forall>c \<in> set (issued es). is_fcv_cmd c)"
  using once.passes_keep [OF assms(2,1)] by (simp add: ok_log_def)

theorem bootstrap_never_repeats_witness:
  "bootstrapped (after_pass sample_mdb) \<and> list_all is_fcv_cmd (issued (pass_log sample_mdb))"
proof -
  have "passes same_flags sample_cfg sample_mdb ([] @ pass_log sample_mdb) (after_pass sample_mdb)"
    by (intro passes_sample passes.none) (simp_all add: same_flags_def)
  moreover have "bootstrapped sample_mdb" by (simp add: bootstrapped_def sample_mdb_def sample_status_def)
  ultimately show ?thesis using bootstrap_never_repeats [of sample_mdb sample_cfg] by (simp add: list_all_iff)
qed

end
