(* ===== verification/Bootstrap_Protocol.thy ===== *)
theory Bootstrap_Protocol
  imports Replica_Set_Laws
begin

text \<open>
  The creation of the admin user (\<^verbatim>\<open>reconcileAdminUser\<close> of \<^verbatim>\<open>mongodb_controller.go\<close>) under the lease of
  \<^verbatim>\<open>bootstrap_lease.go\<close>: the order of its effects, the exclusion of a second operator and the end of the
  verification loop.
\<close>

section \<open>The bootstrap protocol\<close>

text \<open>A lease that names its holder, written at the given time for the lease duration.\<close>

definition lease_of :: "string \<Rightarrow> gotime \<Rightarrow> Lease \<Rightarrow> bool" where
  "lease_of holder now l \<longleftrightarrow> ls_HolderIdentity l = Some holder \<and> ls_RenewTime l = Some now
     \<and> ls_LeaseDurationSeconds l = Some 30"

definition lease_effect :: "Lease \<Rightarrow> MongoDB effect set" where
  "lease_effect l = {LeaseCreated l, LeaseUpdated l}"

lemma lease_secs: "wrap32 (bootstrapLeaseDuration div second) = 30"
  by code_simp

lemma acquire_result:
  "wp (acquireBootstrapLease holder W) (\<lambda>r s'. r_obj s' = r_obj s \<and> r_tick s' > r_tick s \<and>
     (case r of Inr (Some l) \<Rightarrow> \<exists>e \<in> lease_effect l. r_log s' = r_log s @ [e]
         \<and> lease_of holder (w_now W (r_tick s)) l
      | _ \<Rightarrow> r_log s' = r_log s)) s"
  by (auto simp: acquireBootstrapLease_def wp_flow Let_def lease_effect_def lease_of_def fresh_lease_def lease_secs
      split: sum.splits option.splits)

lemma verify_loop_result:
  "wp (verify_loop W m pw dl n) (\<lambda>r s'. r_obj s' = r_obj s \<and> r_log s' = r_log s \<and>
     (r = None \<longrightarrow> (\<exists>k. UserExists (w_drv W k) (rs_factory (w_drv W k) m pw) (Name m @ ''-0'')
        (Namespace m) ''admin'' ''admin'' = Inr True))) s"
proof (induction n arbitrary: s)
  case 0
  show ?case by (subst verify_loop.simps) (auto simp: wp_flow Let_def)
next
  case (Suc n)
  show ?case by (subst verify_loop.simps) (auto simp: wp_flow Let_def intro: wp_mono [OF Suc])
qed

text \<open>The admin user can log in, according to some answer of the database.\<close>

definition admin_verified :: "MongoDB world \<Rightarrow> MongoDB \<Rightarrow> bool" where
  "admin_verified W m \<longleftrightarrow> (\<exists>k pw. UserExists (w_drv W k) (rs_factory (w_drv W k) m pw) (Name m @ ''-0'')
     (Namespace m) ''admin'' ''admin'' = Inr True)"

lemma under_lease_result:
  "wp (bootstrap_under_lease n W) (\<lambda>r s'. \<exists>cmds st. r_log s' = r_log s @ map Issued cmds @ st
     \<and> (\<forall>c \<in> set cmds. \<exists>pw. c = CreateRootUser ''admin'' pw)
     \<and> (st = [] \<or> admin_verified W (r_obj s) \<and> (\<exists>m'. st = [PersistStatus m'])) \<and> (r = None \<longrightarrow> st \<noteq> [])) s" (is "wp _ ?Q s")
proof -
  have v: "wp (verifyAdminUser n W (r_obj s) pw) (\<lambda>r s'. wp (case r of
        Some e \<Rightarrow> ret (Some (Wrapped ''verify admin user post-bootstrap'' e))
      | None \<Rightarrow> UpdateWithRetry W setAdminCreated)
      (\<lambda>r s'. \<exists>st. r_log s' = r_log t @ st \<and> (st = [] \<or> admin_verified W (r_obj s) \<and> (\<exists>m'. st = [PersistStatus m']))
         \<and> (r = None \<longrightarrow> st \<noteq> [])) s') t" for pw t
    unfolding verifyAdminUser_def wp_bind wp_ask
    by (rule wp_mono [OF verify_loop_result])
      (auto simp: wp_flow wp_UpdateWithRetry admin_verified_def split: option.splits prod.splits)
  have c: "\<exists>pw. x = CreateRootUser ''admin'' pw" if "x \<in> set (fst (BootstrapAdminUser drv h ''admin'' p))" for x drv h p
    using that by (auto simp: BootstrapAdminUser_def split: sum.splits)
  have g: "wp (getAdminPassword W sn ns) (\<lambda>_ t. r_obj t = r_obj s \<and> r_log t = r_log s) s" for sn ns
    by (auto simp: getAdminPassword_def wp_flow split: sum.splits option.splits)
  have "wp (issue (\<lambda>k. BootstrapAdminUser (w_drv W k) h ''admin'' p) \<bind> (\<lambda>boot. case boot of
        Inl e \<Rightarrow> ret (Some (Wrapped ''bootstrap admin user'' e))
      | Inr _ \<Rightarrow> verifyAdminUser n W (r_obj s) p \<bind> (\<lambda>verr. case verr of
          Some e \<Rightarrow> ret (Some (Wrapped ''verify admin user post-bootstrap'' e))
        | None \<Rightarrow> UpdateWithRetry W setAdminCreated))) ?Q t"
    if "r_log t = r_log s" for h p t
  proof -
    let ?op = "BootstrapAdminUser (w_drv W (r_tick t)) h ''admin'' p"
    let ?t = "t\<lparr>r_tick := Suc (r_tick t), r_log := r_log t @ map Issued (fst ?op)\<rparr>"
    have "wp (verifyAdminUser n W (r_obj s) p \<bind> (\<lambda>verr. case verr of
          Some e \<Rightarrow> ret (Some (Wrapped ''verify admin user post-bootstrap'' e))
        | None \<Rightarrow> UpdateWithRetry W setAdminCreated)) ?Q ?t"
      unfolding wp_bind
    proof (rule wp_mono [OF v [of p ?t]], rule wp_mono)
      fix r :: "go_error option" and s' :: "MongoDB rstate"
      assume "\<exists>st. r_log s' = r_log ?t @ st \<and> (st = [] \<or> admin_verified W (r_obj s) \<and> (\<exists>m'. st = [PersistStatus m']))
         \<and> (r = None \<longrightarrow> st \<noteq> [])"
      then show "?Q r s'" using that c [of _ "w_drv W (r_tick t)" h p] by (intro exI [of _ "fst ?op"]) auto
    qed
    moreover have "?Q (Some e) ?t" for e
      using that c [of _ "w_drv W (r_tick t)" h p] by (intro exI [of _ "fst ?op"]) auto
    ultimately show ?thesis
      by (cases ?op; cases "snd ?op") (simp_all add: wp_bind [of "issue _"] wp_issue wp_ret)
  qed
  then show ?thesis
    unfolding bootstrap_under_lease_def Let_def wp_bind [of the_obj] wp_the_obj
    by (intro wp_seq [OF g]) (auto simp: wp_ret intro!: exI [of _ "[]"] split: sum.splits)
qed

text \<open>
  A log of the protocol: the lease of this operator, at most creations of the user \<^verbatim>\<open>admin\<close>, at
  most one status write, at most the release of the lease.
\<close>

definition bootstrap_log ::
    "string \<Rightarrow> gotime \<Rightarrow> bool \<Rightarrow> bool \<Rightarrow> MongoDB effect list \<Rightarrow> bool" where
  "bootstrap_log holder now verified ok es \<longleftrightarrow>
     (\<exists>l e cmds st rel. es = [e] @ map Issued cmds @ st @ rel
        \<and> e \<in> lease_effect l \<and> lease_of holder now l
        \<and> (\<forall>c \<in> set cmds. \<exists>pw. c = CreateRootUser ''admin'' pw)
        \<and> (st = [] \<or> verified \<and> (\<exists>m'. st = [PersistStatus m'])) \<and> (ok \<longrightarrow> st \<noteq> [])
        \<and> set rel \<subseteq> {LeaseDeleted (ls_Name l)})"

lemma release_log:
  "wp (releaseBootstrapLease W l) (\<lambda>_ t. \<exists>rel. r_log t = r_log s @ rel \<and> set rel \<subseteq> {LeaseDeleted (ls_Name l)}) s"
  by (auto simp: releaseBootstrapLease_def wp_flow)

lemma under_lease_log:
  assumes "r_obj t = m" "r_log t = [e]" "e \<in> lease_effect l" "lease_of holder now l"
  shows "wp (bootstrap_under_lease n W \<bind> (\<lambda>err. releaseBootstrapLease W l \<bind> (\<lambda>_. ret err)))
    (\<lambda>err s'. bootstrap_log holder now (admin_verified W m) (err = None) (r_log s')) t"
proof (rule wp_seq [OF under_lease_result])
  fix r :: "go_error option" and u :: "MongoDB rstate"
  assume "\<exists>cmds st. r_log u = r_log t @ map Issued cmds @ st
     \<and> (\<forall>c \<in> set cmds. \<exists>pw. c = CreateRootUser ''admin'' pw)
     \<and> (st = [] \<or> admin_verified W (r_obj t) \<and> (\<exists>m'. st = [PersistStatus m'])) \<and> (r = None \<longrightarrow> st \<noteq> [])"
  then obtain cmds st where o: "r_log u = [e] @ map Issued cmds @ st"
    "\<forall>c \<in> set cmds. \<exists>pw. c = CreateRootUser ''admin'' pw"
    "st = [] \<or> admin_verified W m \<and> (\<exists>m'. st = [PersistStatus m'])" "r = None \<longrightarrow> st \<noteq> []"
    using assms by auto
  show "wp (releaseBootstrapLease W l \<bind> (\<lambda>_. ret r))
      (\<lambda>err s'. bootstrap_log holder now (admin_verified W m) (err = None) (r_log s')) u"
  proof (rule wp_seq [OF release_log])
    fix v :: "MongoDB rstate" assume "\<exists>rel. r_log v = r_log u @ rel \<and> set rel \<subseteq> {LeaseDeleted (ls_Name l)}"
    then obtain rel where "r_log v = r_log u @ rel" "set rel \<subseteq> {LeaseDeleted (ls_Name l)}" by blast
    with o assms show "wp (ret r) (\<lambda>err s'. bootstrap_log holder now (admin_verified W m) (err = None) (r_log s')) v"
      unfolding wp_ret bootstrap_log_def
      by (intro exI [of _ l] exI [of _ e] exI [of _ cmds] exI [of _ st] exI [of _ rel]) simp
  qed
qed

text \<open>
  C6. The bootstrap protocol, on every path: either nothing is done and the step fails, or the log
  of effects is the acquired lease of this operator, then at most the creation of the user
  \<^verbatim>\<open>admin\<close>, then at most one status write, then at most the release of that lease. The status
  write, which records the user as created, happens only if the database confirmed that the
  user can log in, and the step succeeds only if that write went through. The user is never
  created without the lease.
\<close>

theorem bootstrap_protocol:
  assumes "run_state (reconcileAdminUser holder n W) (start_run m k) = (err, s')"
  shows "r_log s' = [] \<and> err \<noteq> None
    \<or> bootstrap_log holder (w_now W k) (admin_verified W m) (err = None) (r_log s')"
proof -
  let ?Q = "\<lambda>err s'. r_log s' = [] \<and> err \<noteq> None
    \<or> bootstrap_log holder (w_now W k) (admin_verified W m) (err = None) (r_log s')"
  have "wp (reconcileAdminUser holder n W) ?Q (start_run m k)"
    unfolding reconcileAdminUser_def
    by (rule wp_seq [OF acquire_result])
      (auto simp: wp_ret intro: wp_mono [OF under_lease_log] split: sum.splits option.splits)
  from wpD [OF this assms] show ?thesis .
qed

lemma sample_user: "UserExists yes_driver (rs_factory yes_driver m pw) p ns u db = Inr True"
  by (auto simp: UserExists_def rs_factory_def sample_driver_ok split: sum.splits) (simp_all add: yes_driver_def)

lemma sample_verify:
  "w_drv W = (\<lambda>_. yes_driver) \<Longrightarrow> wp (verify_loop W m pw dl n) Q s = Q None (s\<lparr>r_tick := Suc (r_tick s)\<rparr>)"
  by (subst verify_loop.simps) (simp add: wp_flow sample_user)

lemma sample_bootstrap: "BootstrapAdminUser yes_driver h u p = ([CreateRootUser u p], Inr ())"
  by (simp add: BootstrapAdminUser_def NewClient_def yes_driver_def)

theorem bootstrap_protocol_witness:
  "bootstrap_log ''op-1'' 0 True True
     (r_log (snd (run_state (reconcileAdminUser ''op-1'' 5 (sample_world 0 done_sts [] yes_driver)) (start_run new_mdb 0))))"
proof -
  let ?W = "sample_world 0 done_sts [] yes_driver :: MongoDB world"
  let ?r = "run_state (reconcileAdminUser ''op-1'' 5 ?W) (start_run new_mdb 0)"
  have "wp (reconcileAdminUser ''op-1'' 5 ?W) (\<lambda>err _. err = None) (start_run new_mdb 0)"
    by (simp add: reconcileAdminUser_def acquireBootstrapLease_def bootstrap_under_lease_def verifyAdminUser_def
        getAdminPassword_def sample_verify releaseBootstrapLease_def wp_flow wp_UpdateWithRetry Let_def
        sample_world_def accept_update_def sample_bootstrap)
  then have "fst ?r = None" by (simp add: wp_def split_beta)
  moreover have "admin_verified ?W new_mdb" by (simp add: admin_verified_def sample_world_def sample_user)
  moreover have "w_now ?W 0 = 0" by (simp add: sample_world_def)
  moreover have "?r = (fst ?r, snd ?r)" by simp
  note bootstrap_protocol [OF this]
  ultimately show ?thesis by simp
qed

text \<open>
  Mutual exclusion of the bootstrap: when one operator has taken the lease at some time,
  another operator that finds that lease within its thirty seconds backs off, without creating
  a user, writing the status or touching the lease, and asks to be called again.
\<close>

theorem lease_excludes_second_operator:
  assumes "run_state (acquireBootstrapLease h1 W1) (start_run m1 k1) = (Inr (Some l), s1)"
    and "h2 \<noteq> h1"
    and "\<forall>k. w_lease W2 k (bootstrapLeaseName m2) (Namespace m2) = Inr l"
    and "\<forall>k. w_now W2 k < w_now W1 k1 + 30 * second"
  shows "run_state (reconcileAdminUser h2 n W2) (start_run m2 k2)
    = (Some ErrBootstrapBusy, \<lparr>r_obj = m2, r_tick = k2 + 3, r_log = []\<rparr>)"
proof -
  have "lease_of h1 (w_now W1 k1) l"
    using wpD [OF acquire_result [of h1 W1 "start_run m1 k1"] assms(1)] by auto
  moreover have "wrap64 (30 * second) = 30 * second" by code_simp
  ultimately have "lease_held_by_other h2 (w_now W2 k) l" for k
    using assms(2,4) by (auto simp: lease_held_by_other_def lease_of_def)
  then show ?thesis
    using assms(3)
    by (simp add: reconcileAdminUser_def acquireBootstrapLease_def Let_def the_obj_def ask_def ret_def start_run_def)
qed

theorem lease_excludes_second_operator_witness:
  "run_state (reconcileAdminUser ''op-2'' 5 ((sample_world (10 * second) done_sts [] yes_driver)
       \<lparr>w_lease := \<lambda>_ _ _. Inr (fresh_lease ''mongodb-bootstrap-rs'' ''op-1'' 0)\<rparr>)) (start_run new_mdb 0)
   = (Some ErrBootstrapBusy, \<lparr>r_obj = new_mdb, r_tick = 3, r_log = []\<rparr>)"
proof -
  let ?W1 = "sample_world 0 done_sts [] yes_driver :: MongoDB world"
  let ?l = "fresh_lease ''mongodb-bootstrap-rs'' ''op-1'' 0"
  let ?W2 = "(sample_world (10 * second) done_sts [] yes_driver)\<lparr>w_lease := \<lambda>_ _ _. Inr ?l\<rparr> :: MongoDB world"
  have "wp (acquireBootstrapLease ''op-1'' ?W1) (\<lambda>r _. r = Inr (Some ?l)) (start_run new_mdb 0)"
    by (simp add: acquireBootstrapLease_def wp_flow Let_def sample_world_def bootstrapLeaseName_def new_mdb_def sample_mdb_def)
  then obtain s1 where "run_state (acquireBootstrapLease ''op-1'' ?W1) (start_run new_mdb 0) = (Inr (Some ?l), s1)"
    by (auto simp: wp_def split: prod.splits)
  from lease_excludes_second_operator [OF this, of "''op-2''" ?W2 new_mdb 5 0] show ?thesis
    by (simp add: sample_world_def second_def)
qed

lemma verify_loop_bounded:
  assumes "\<forall>j. w_now W (Suc (r_tick s) + 2 * j + 2) \<ge> w_now W (Suc (r_tick s) + 2 * j) + second"
    and "w_now W (Suc (r_tick s)) + int i * second \<ge> dl" and "n \<ge> i"
  shows "run_state (verify_loop W m pw dl n) s = run_state (verify_loop W m pw dl i) s
    \<and> r_tick (snd (run_state (verify_loop W m pw dl n) s)) \<le> r_tick s + 2 * (i + 1)"
  using assms
proof (induction i arbitrary: n s)
  case 0
  then have "\<not> w_now W (Suc (r_tick s)) < dl" by simp
  then show ?case
    by (subst (1 2 3) verify_loop.simps) (auto simp: ask_def ret_def Let_def)
next
  case (Suc i)
  then obtain n' where n: "n = Suc n'" "n' \<ge> i" by (cases n) auto
  let ?s = "s\<lparr>r_tick := Suc (Suc (r_tick s))\<rparr>"
  have later: "\<forall>j. w_now W (Suc (r_tick ?s) + 2 * j + 2) \<ge> w_now W (Suc (r_tick ?s) + 2 * j) + second"
    using Suc(2) [rule_format, of "Suc j" for j] by simp
  have "w_now W (Suc (r_tick ?s)) + int i * second \<ge> dl"
    using Suc(2) [rule_format, of 0] Suc(3) by (simp add: algebra_simps)
  from Suc.IH [OF later this n(2)] show ?case
    unfolding n(1)
    by (subst (1 2 3) verify_loop.simps) (auto simp: ask_def ret_def Let_def)
qed

text \<open>
  C7. The verification of the admin user ends: if the clock does not run backwards before the
  first look at it and every later wait takes at least a second of it (the loop sleeps that
  long; nothing is assumed of the time a poll takes), then at most six polls are made, whatever
  the database answers, and a context that allows five waits gives the same result as any longer
  one.
\<close>

theorem verification_ends:
  assumes "w_now W (r_tick s + 2) \<ge> w_now W (r_tick s)"
    and "\<forall>j. w_now W (r_tick s + 2 * j + 4) \<ge> w_now W (r_tick s + 2 * j + 2) + second"
    and "n \<ge> 5"
  shows "run_state (verifyAdminUser n W m pw) s = run_state (verifyAdminUser 5 W m pw) s
    \<and> r_tick (snd (run_state (verifyAdminUser n W m pw) s)) \<le> r_tick s + 13"
proof -
  let ?s = "s\<lparr>r_tick := Suc (r_tick s)\<rparr>" and ?dl = "w_now W (r_tick s) + 5 * second"
  have "\<forall>j. w_now W (Suc (r_tick ?s) + 2 * j + 2) \<ge> w_now W (Suc (r_tick ?s) + 2 * j) + second"
    using assms(2) by (simp add: ac_simps numeral_eq_Suc)
  moreover have "w_now W (Suc (r_tick ?s)) + int 5 * second \<ge> ?dl"
    using assms(1) by simp
  ultimately show ?thesis
    using verify_loop_bounded [of W ?s ?dl 5 n m pw] assms(3)
    by (auto simp: verifyAdminUser_def ask_def)
qed

text \<open>A database that does not know the user and answers at once, and a clock that counts the waits.\<close>

definition slow_world :: "MongoDB world" where
  "slow_world = (sample_world 0 done_sts [] (yes_driver\<lparr>drv_users := \<lambda>_ _ _. Inr []\<rparr>))
     \<lparr>w_now := \<lambda>k. int ((k - 2) div 2) * second\<rparr>"

theorem verification_ends_witness:
  "r_tick (snd (run_state (verifyAdminUser 100 slow_world new_mdb ''pw'') (start_run new_mdb 0))) \<le> 13"
  using verification_ends [of slow_world "start_run new_mdb 0" 100 new_mdb "''pw''"]
  by (auto simp: slow_world_def second_def algebra_simps)

text \<open>The bound is attained: on this world the loop polls six times.\<close>

lemma no_user_listed:
  "UserExists (yes_driver\<lparr>drv_users := \<lambda>_ _ _. Inr []\<rparr>) f p ns u db \<noteq> Inr True"
  by (simp add: UserExists_def split: sum.splits)

lemma six_polls_happen:
  "r_tick (snd (run_state (verifyAdminUser 100 slow_world new_mdb ''pw'') (start_run new_mdb 0))) = 13"
proof -
  have [simp]: "w_drv slow_world k = yes_driver\<lparr>drv_users := \<lambda>_ _ _. Inr []\<rparr>"
    "w_now slow_world k = int ((k - 2) div 2) * second" for k
    by (simp_all add: slow_world_def sample_world_def)
  show ?thesis
    by (simp add: verifyAdminUser_def ask_def verify_loop.simps ret_def Let_def second_def no_user_listed)
qed

end
