(* ===== verification/Replica_Set_Status.thy ===== *)
theory Replica_Set_Status
  imports Bootstrap_Protocol
begin

text \<open>
  What a replica set reports and derives: the conditions and the pending scale of
  \<^verbatim>\<open>mongodb_controller.go\<close>, the credentials in the exporter URI, and who writes the replica count.
\<close>

section \<open>Conditions\<close>

lemma managed_types_distinct:
  "conditionTypeReady \<in> set managedTypes" "''ReplicaSetInitialized'' \<in> set managedTypes"
  "''AuthenticationReady'' \<in> set managedTypes" "distinct managedTypes"
  by (simp_all add: managedTypes_def conditionTypeReady_def)

lemma buildConditions_types:
  "map c_Type (buildConditions now m) =
     map c_Type (filter (\<lambda>c. c_Type c \<notin> set managedTypes) (s_Conditions (Status m))) @ managedTypes"
  by (simp add: buildConditions_def cond_now_def managedTypes_def)

text \<open>
  The conditions of a status write are exactly the foreign conditions, untouched and in
  order, and one entry per managed type; \<^verbatim>\<open>Ready\<close> is true exactly when all members are ready, the
  replica set is initialised and the admin user exists, and every managed entry carries the
  current generation.
\<close>

theorem conditions_exact:
  "filter (\<lambda>c. c_Type c \<notin> set managedTypes) (buildConditions now m)
     = filter (\<lambda>c. c_Type c \<notin> set managedTypes) (s_Conditions (Status m))
   \<and> map c_Type (filter (\<lambda>c. c_Type c \<in> set managedTypes) (buildConditions now m)) = managedTypes
   \<and> (\<exists>c. filter (\<lambda>c. c_Type c = conditionTypeReady) (buildConditions now m) = [c]
        \<and> (c_Status c = ConditionTrue) = fully_ready m \<and> c_ObservedGeneration c = Generation m)"
  by (auto simp: buildConditions_def cond_now_def managedTypes_def conditionTypeReady_def filter_empty_conv
      ConditionTrue_def ConditionFalse_def)

section \<open>Pending scale\<close>

text \<open>
  The pending scale tells the truth: after the check, with a StatefulSet that reports its
  replica count, a request is pending exactly when scaling is not deliberate and the count
  differs from the spec, and then it names both counts.
\<close>

theorem pending_scale_exact:
  assumes "\<forall>k. w_sts W k (Name m) (Namespace m) = Inr sts" and "sts_Replicas sts = Some current"
    and "run_state (recordPendingScale W) (start_run m k) = (u, s')"
  shows "case s_PendingScale (Status (r_obj s')) of
      None \<Rightarrow> IsRSScaleDeliberate m \<or> current = mdb_Members (Spec m)
    | Some p \<Rightarrow> \<not> IsRSScaleDeliberate m \<and> ps_CurrentMembers p = current
        \<and> ps_DesiredMembers p = mdb_Members (Spec m) \<and> current \<noteq> mdb_Members (Spec m)"
proof -
  have "wp (recordPendingScale W) (\<lambda>_ s'. case s_PendingScale (Status (r_obj s')) of
      None \<Rightarrow> IsRSScaleDeliberate m \<or> current = mdb_Members (Spec m)
    | Some p \<Rightarrow> \<not> IsRSScaleDeliberate m \<and> ps_CurrentMembers p = current
        \<and> ps_DesiredMembers p = mdb_Members (Spec m) \<and> current \<noteq> mdb_Members (Spec m)) (start_run m k)"
    using assms(1,2) by (auto simp: recordPendingScale_def wp_flow Let_def split: option.splits)
  from wpD [OF this assms(3)] show ?thesis .
qed

theorem pending_scale_exact_witness:
  "\<exists>p. s_PendingScale (Status (r_obj (snd (run_state (recordPendingScale
       (sample_world 0 (done_sts\<lparr>sts_Replicas := Some 5\<rparr>) [] yes_driver)) (start_run sample_mdb 0))))) = Some p
     \<and> ps_CurrentMembers p = 5 \<and> ps_DesiredMembers p = 3"
proof -
  let ?W = "sample_world 0 (done_sts\<lparr>sts_Replicas := Some 5\<rparr>) [] yes_driver :: MongoDB world"
  have "\<not> IsRSScaleDeliberate sample_mdb" "mdb_Members (Spec sample_mdb) = 3"
    by (simp_all add: IsRSScaleDeliberate_def deliberate_def sample_mdb_def)
  then show ?thesis
    using pending_scale_exact [of ?W sample_mdb "done_sts\<lparr>sts_Replicas := Some 5\<rparr>" 5 0, OF _ _ surjective_pairing]
    by (auto simp: sample_world_def split: option.splits)
qed

section \<open>Who writes the replica count\<close>

text \<open>
  The replica count has one writer at most: the controller applies \<^verbatim>\<open>spec.members\<close> only when
  scaling is deliberate and no autoscaler is built for the set; whenever an autoscaler is
  built, or scaling is not deliberate, it keeps the count that it finds.
\<close>

theorem replica_count_has_one_writer:
  "(\<not> preserve_replicas m) = (IsRSScaleDeliberate m \<and> BuildReplicaSetHPA m = None)"
  by (auto simp: preserve_replicas_def BuildReplicaSetHPA_def IsRSHPAActive_def IsRSScaleDeliberate_def hpa_enabled_def
      split: option.splits)

text \<open>
  With the autoscaling gate off (the default of \<^verbatim>\<open>--enable-autoscaling\<close>) there can be no writer
  at all: for a cluster that asks for an autoscaler and for deliberate scaling the controller
  keeps the count it finds, and also leaves the autoscaler alone, so that an edit of
  \<^verbatim>\<open>spec.members\<close> has no effect.
\<close>

theorem gate_off_leaves_no_writer:
  assumes "IsRSHPAActive m"
  shows "preserve_replicas m \<and> run_state (reconcileRSHPA False W) s = (None, s)"
  using assms by (simp add: preserve_replicas_def reconcileRSHPA_def ret_def)

definition autoscaled_mdb :: MongoDB where
  "autoscaled_mdb = sample_mdb\<lparr>Spec := (Spec sample_mdb)\<lparr>
     mdb_AutoScaling := Some \<lparr>as_Enabled = True, as_MinReplicas = 3, as_MaxReplicas = 7, as_Metrics = []\<rparr>,
     mdb_ScalePolicy := Some \<lparr>sp_Deliberate = True\<rparr>\<rparr>\<rparr>"

theorem gate_off_leaves_no_writer_witness: "preserve_replicas autoscaled_mdb"
  using gate_off_leaves_no_writer [of autoscaled_mdb undefined undefined]
  by (simp add: autoscaled_mdb_def sample_mdb_def IsRSHPAActive_def hpa_enabled_def deliberate_def)

section \<open>Credentials in the exporter URI\<close>

definition hex_value :: "char \<Rightarrow> nat" where
  "hex_value c = (if is_digit c then of_char c - 48 else of_char c - 55)"

text \<open>What a URI parser does with user information: \<^verbatim>\<open>%XX\<close> is a byte, anything else itself.\<close>

fun unescape :: "string \<Rightarrow> string" where
  "unescape [] = []"
| "unescape (c # s) =
     (if c = CHR ''%'' then
        (case s of a # b # t \<Rightarrow> char_of (16 * hex_value a + hex_value b) # unescape t
         | _ \<Rightarrow> c # unescape s)
      else c # unescape s)"

lemma hex_upper_all: "\<forall>d<16. hex_value (upper_hex d) = d \<and> userinfo_safe (upper_hex d)"
  by code_simp

lemma hex_upper:
  "d < 16 \<Longrightarrow> hex_value (upper_hex d) = d" "d < 16 \<Longrightarrow> userinfo_safe (upper_hex d)"
  using hex_upper_all by blast+

lemma char_nibbles: "of_char c div 16 < (16 :: nat)" "of_char c mod 16 < (16 :: nat)"
  using nat_of_char_less_256 [of c] by (simp_all add: less_mult_imp_div_less)

lemma safe_reserved: "userinfo_safe c \<Longrightarrow> c \<noteq> CHR ''%''" "userinfo_safe c \<Longrightarrow> c \<noteq> CHR ''@''"
  "userinfo_safe c \<Longrightarrow> c \<noteq> CHR '':''"
proof -
  have "\<not> userinfo_safe (CHR ''%'')" "\<not> userinfo_safe (CHR ''@'')" "\<not> userinfo_safe (CHR '':'')" by code_simp+
  then show "userinfo_safe c \<Longrightarrow> c \<noteq> CHR ''%''" "userinfo_safe c \<Longrightarrow> c \<noteq> CHR ''@''"
    "userinfo_safe c \<Longrightarrow> c \<noteq> CHR '':''" by auto
qed

lemma unescape_escape: "unescape (escape_userinfo s) = s"
proof (induction s)
  case Nil
  show ?case by (simp add: escape_userinfo_def)
next
  case (Cons c s)
  have "16 * (of_char c div 16) + of_char c mod 16 = (of_char c :: nat)" by simp
  with Cons show ?case
    by (auto simp: escape_userinfo_def escape_char_def safe_reserved hex_upper char_nibbles)
qed

lemma escaped_chars: "c \<in> set (escape_userinfo s) \<Longrightarrow> userinfo_safe c \<or> c = CHR ''%''"
  by (auto simp: escape_userinfo_def escape_char_def hex_upper char_nibbles split: if_splits)

lemma takeWhile_upto: "\<forall>c \<in> set xs. c \<noteq> a \<Longrightarrow> takeWhile (\<lambda>c. c \<noteq> a) (xs @ a # ys) = xs"
  "\<forall>c \<in> set xs. c \<noteq> a \<Longrightarrow> dropWhile (\<lambda>c. c \<noteq> a) (xs @ a # ys) = a # ys"
  by (induction xs) auto

text \<open>
  The user and the password that a client reads off a connection URI: the user information ends
  at the first \<^verbatim>\<open>@\<close>, and the user ends at its first \<^verbatim>\<open>:\<close>.
\<close>

definition uri_credentials :: "string \<Rightarrow> string \<times> string" where
  "uri_credentials uri =
     (let ui = takeWhile (\<lambda>c. c \<noteq> CHR ''@'') (drop (length ''mongodb://'') uri)
      in (unescape (takeWhile (\<lambda>c. c \<noteq> CHR '':'') ui), unescape (tl (dropWhile (\<lambda>c. c \<noteq> CHR '':'') ui))))"

lemma credentials_of_uri:
  "uri_credentials (''mongodb://'' @ UserPassword u p @ ''@'' @ host) = (u, p)"
proof -
  let ?eu = "escape_userinfo u" and ?ep = "escape_userinfo p"
  have n: "c \<noteq> CHR '':''" "c \<noteq> CHR ''@''" if "c \<in> set (escape_userinfo x)" for c x
    using escaped_chars [OF that] safe_reserved by auto
  have "takeWhile (\<lambda>c. c \<noteq> CHR ''@'') ((?eu @ CHR '':'' # ?ep) @ CHR ''@'' # host) = ?eu @ CHR '':'' # ?ep"
    by (rule takeWhile_upto) (use n in auto)
  moreover have "takeWhile (\<lambda>c. c \<noteq> CHR '':'') (?eu @ CHR '':'' # ?ep) = ?eu"
    "dropWhile (\<lambda>c. c \<noteq> CHR '':'') (?eu @ CHR '':'' # ?ep) = CHR '':'' # ?ep"
    by (rule takeWhile_upto; use n in blast)+
  ultimately show ?thesis by (simp add: uri_credentials_def UserPassword_def unescape_escape)
qed

text \<open>
  C29. Credentials survive the exporter URI: whatever bytes the username and the password of the
  admin secret contain, reserved characters included, a client that parses the URI gets exactly
  these two strings back; a secret without either key is an error.
\<close>

theorem exporter_uri_roundtrip:
  "case buildExporterURI secret host of
     Inr uri \<Rightarrow> map_of (sec_Data secret) ''username'' = Some (fst (uri_credentials uri))
       \<and> map_of (sec_Data secret) ''password'' = Some (snd (uri_credentials uri))
   | Inl _ \<Rightarrow> map_of (sec_Data secret) ''username'' = None \<or> map_of (sec_Data secret) ''password'' = None"
  by (auto simp: buildExporterURI_def credentials_of_uri [simplified] split: option.splits)

section \<open>Password rotation\<close>

text \<open>
  The update of the status subresource answers with the object as the server stores it: the
  metadata of the request is ignored, the metadata in memory is replaced by the stored one.
\<close>

definition status_subresource :: "MongoDB world \<Rightarrow> ObjectMeta \<Rightarrow> bool" where
  "status_subresource W stored_meta \<longleftrightarrow>
     (\<forall>k f m. snd (w_UpdateWithRetry W k f m) = None \<longrightarrow> Meta (fst (w_UpdateWithRetry W k f m)) = stored_meta)"

text \<open>
  After a change of the admin secret the new hash is not recorded: the annotation is set
  before the status write, whose answer restores the stored metadata, so the final update
  writes the old hash back. If both writes succeed, the object that is stored still carries
  the old hash, and the next pass reports the same change again.
\<close>

theorem rotation_reported_again:
  assumes "status_subresource W (Meta m)"
    and "\<forall>k m'. w_update_object W k m' = (m', None)"
    and "\<forall>k. w_secret W k (auth_AdminCredentialsSecretRef (mdb_Auth (Spec m))) (Namespace m) = Inr secret"
    and "auth_AdminCredentialsSecretRef (mdb_Auth (Spec m)) \<noteq> []"
    and "getAnnotation m authHashAnnotation \<notin> {[], hashSecretData W secret}"
    and "run_state (reconcilePasswordRotation W) (start_run m k) = (None, s')"
  shows "getAnnotation (stored m (r_log s')) authHashAnnotation = getAnnotation m authHashAnnotation"
proof -
  let ?a = "getAnnotation m authHashAnnotation" and ?h = "hashSecretData W secret"
  let ?m = "setAnnotation authHashAnnotation ?h m"
  obtain m' e where u: "w_UpdateWithRetry W (Suc (Suc k)) rotationPending
      (rotationPending (w_now W (Suc k)) ?m) = (m', e)" by fastforce
  have "e = None \<Longrightarrow> Meta m' = Meta m"
    using assms(1) u unfolding status_subresource_def by (metis fst_conv snd_conv)
  then have g: "e = None \<Longrightarrow> getAnnotation m' authHashAnnotation = ?a" by (simp add: getAnnotation_def)
  have "wp (reconcilePasswordRotation W) (\<lambda>r s'. r = None \<longrightarrow>
      getAnnotation (stored m (r_log s')) authHashAnnotation = ?a) (start_run m k)"
    using assms(2-5) u g
    by (cases e) (simp_all add: reconcilePasswordRotation_def wp_flow Let_def wp_UpdateWithRetry update_object_def)
  from wpD [OF this assms(6)] show ?thesis by simp
qed

definition rotated_world :: "MongoDB world" where
  "rotated_world = (sample_world 0 done_sts [] yes_driver)
     \<lparr>w_UpdateWithRetry := \<lambda>_ _ m. (m\<lparr>Meta := Meta (setAnnotation authHashAnnotation ''old'' sample_mdb)\<rparr>, None)\<rparr>"

theorem rotation_reported_again_witness:
  "getAnnotation (stored (setAnnotation authHashAnnotation ''old'' sample_mdb) (r_log (snd (run_state
     (reconcilePasswordRotation rotated_world) (start_run (setAnnotation authHashAnnotation ''old'' sample_mdb) 0)))))
     authHashAnnotation = ''old''"
proof -
  let ?m = "setAnnotation authHashAnnotation ''old'' sample_mdb"
  let ?s = "\<lparr>sec_Name = ''admin-creds'', sec_Data = [(''username'', ''admin''), (''password'', ''pw'')]\<rparr>"
  let ?r = "run_state (reconcilePasswordRotation rotated_world) (start_run ?m 0)"
  have "wp (reconcilePasswordRotation rotated_world) (\<lambda>r _. r = None) (start_run ?m 0)"
    by (simp add: reconcilePasswordRotation_def wp_flow Let_def wp_UpdateWithRetry update_object_def rotated_world_def
        sample_world_def)
  then have "?r = (None, snd ?r)" by (simp add: wp_def split_beta prod_eq_iff)
  moreover have "getAnnotation ?m authHashAnnotation = ''old''"
    by (simp add: getAnnotation_def setAnnotation_def)
  ultimately show ?thesis
    using rotation_reported_again [of rotated_world ?m ?s 0 "snd ?r"]
    by (simp add: rotated_world_def sample_world_def status_subresource_def hashSecretData_def)
      (simp add: setAnnotation_def sample_mdb_def)
qed

section \<open>After a rollback\<close>

text \<open>
  C37. A rollback is forgotten by the next status write: \<^verbatim>\<open>updateStatus\<close> sets \<^verbatim>\<open>status.version\<close> to
  the version of the spec although the previous version is deployed. When the user then asks
  for a third version, the new upgrade records the version that had failed, not the one that
  is running, as the version to roll back to.
\<close>

theorem failed_version_becomes_rollback_target:
  assumes "s_RollbackActive (Status m)" "s_UpgradePhase (Status m) = []"
    and "s_EffectiveVersion (Status m) = prev" "prev \<noteq> []" "ver_Version (mdb_Version (Spec m)) = failed"
    and "failed \<notin> {[], prev, next}" "s_ObservedUpgradeGeneration (Status m) = Generation m"
    and "w_UpdateWithRetry W = accept_update"
    and "run_state (reconcileUpgrade W) (start_run (bumped next (applyStatus W' t m)) k) = (out, s')"
  shows "deployed_version (bumped next (applyStatus W' t m)) = prev
    \<and> s_PreviousVersion (Status (r_obj s')) = failed \<and> s_EffectiveVersion (Status (r_obj s')) = next"
proof -
  let ?m = "bumped next (applyStatus W' t m)"
  have st: "s_Version (Status ?m) = failed" "s_EffectiveVersion (Status ?m) = prev" "s_UpgradePhase (Status ?m) = []"
    "ver_Version (mdb_Version (Spec ?m)) = next" "ver_Image (mdb_Version (Spec ?m)) = []"
    "s_ObservedUpgradeGeneration (Status ?m) \<noteq> Generation ?m"
    using assms by (simp_all add: bumped_def applyStatus_def Let_def)
  have "wp (reconcileUpgrade W) (\<lambda>_ s'. s_PreviousVersion (Status (r_obj s')) = failed
      \<and> s_EffectiveVersion (Status (r_obj s')) = next) (start_run ?m k)"
    using st assms(4,6,8)
    by (simp add: reconcileUpgrade_def upgrade_dispatch_def wp_flow wp_finish_with wp_UpdateWithRetry Let_def
        accept_update_def terminal_for_generation_def initUpgrade_def)
  from wpD [OF this assms(9)] st assms(4) show ?thesis
    by (simp add: deployed_version_def effectiveMongoDBVersion_def)
qed

theorem failed_version_becomes_rollback_target_witness:
  "s_PreviousVersion (Status (r_obj (snd (run_state (reconcileUpgrade (sample_world 0 done_sts [] yes_driver))
     (start_run (bumped ''8.2.3'' (applyStatus (sample_world 0 done_sts [] yes_driver) 0 rolled_back_mdb)) 0))))) = ''8.2.1''"
  using failed_version_becomes_rollback_target
    [of rolled_back_mdb "''8.0.4''" "''8.2.1''" "''8.2.3''" "sample_world 0 done_sts [] yes_driver"
        "sample_world 0 done_sts [] yes_driver" 0 0, OF _ _ _ _ _ _ _ _ surjective_pairing]
  by (simp add: rolled_back_mdb_def sample_mdb_def sample_status_def sample_world_def)

end
