(* ===== verification/Sharding.thy ===== *)
theory Sharding
  imports Mongo_Admin Cluster_Types
begin

text \<open>
  The shard manager of \<^verbatim>\<open>internal/mongodb/sharding.go\<close>: administration of a sharded cluster through
  mongos. A manager operation returns the commands it sent and its result. The rendering of a
  shard key in an error message is the driver's (\<open>drv_show_key\<close>).
\<close>

section \<open>Commands\<close>

text \<open>\<^verbatim>\<open>errors.As\<close> with a \<^verbatim>\<open>mongo.ServerError\<close>: its message.\<close>

fun AsServerError :: "go_error \<Rightarrow> string option" where
  "AsServerError (ErrServer _ m) = Some m"
| "AsServerError (Wrapped _ e) = AsServerError e"
| "AsServerError _ = None"

definition idempotent_reply :: "string \<Rightarrow> bool" where
  "idempotent_reply msg \<longleftrightarrow> StrContains msg ''already a shard'' \<or> StrContains msg ''already exists''
     \<or> StrContains msg ''already enabled'' \<or> StrContains msg ''already sharded''"

definition runAdminCommand ::
    "mongo_driver \<Rightarrow> ConnectFactory \<Rightarrow> string \<Rightarrow> string \<Rightarrow> mongo_cmd \<Rightarrow> string \<Rightarrow> unit mgr_result" where
  "runAdminCommand drv f mongosPod namespace cmd op =
     (case f mongosPod namespace True of
        Inl e \<Rightarrow> ([], Inl (Wrapped (''connect for '' @ op) e))
      | Inr c \<Rightarrow> ([cmd],
          case drv_run drv c cmd of
            None \<Rightarrow> Inr ()
          | Some err \<Rightarrow>
              if (case AsServerError err of Some msg \<Rightarrow> idempotent_reply msg | None \<Rightarrow> False) then Inr ()
              else Inl (Wrapped op err)))"

definition AddShard :: "mongo_driver \<Rightarrow> ConnectFactory \<Rightarrow> string \<Rightarrow> string \<Rightarrow> string \<Rightarrow> unit mgr_result" where
  "AddShard drv f mongosPod namespace conn_string =
     runAdminCommand drv f mongosPod namespace (AddShardCmd conn_string) ''addShard''"

definition RemoveShard :: "mongo_driver \<Rightarrow> ConnectFactory \<Rightarrow> string \<Rightarrow> string \<Rightarrow> string \<Rightarrow> unit mgr_result" where
  "RemoveShard drv f mongosPod namespace shardName =
     runAdminCommand drv f mongosPod namespace (RemoveShardCmd shardName) ''removeShard''"

definition RemoveShardWithStatus ::
    "mongo_driver \<Rightarrow> ConnectFactory \<Rightarrow> string \<Rightarrow> string \<Rightarrow> string \<Rightarrow> RemoveShardResult mgr_result" where
  "RemoveShardWithStatus drv f mongosPod namespace shardName =
     (case f mongosPod namespace True of
        Inl e \<Rightarrow> ([], Inl (Wrapped ''connect for removeShard'' e))
      | Inr c \<Rightarrow> ([RemoveShardCmd shardName],
          case drv_remove_shard drv c shardName of
            Inl e \<Rightarrow> Inl (Wrapped ''removeShard'' e)
          | Inr res \<Rightarrow> Inr res))"

definition ListShards ::
    "mongo_driver \<Rightarrow> ConnectFactory \<Rightarrow> string \<Rightarrow> string \<Rightarrow> go_error + listed_shard list" where
  "ListShards drv f mongosPod namespace =
     (case f mongosPod namespace True of
        Inl e \<Rightarrow> Inl (Wrapped ''connect for ListShards'' e)
      | Inr c \<Rightarrow> (case drv_list_shards drv c of
                    Inl e \<Rightarrow> Inl (Wrapped ''listShards'' e)
                  | Inr shards \<Rightarrow> Inr shards))"

definition IsShardAdded ::
    "mongo_driver \<Rightarrow> ConnectFactory \<Rightarrow> string \<Rightarrow> string \<Rightarrow> string \<Rightarrow> go_error + bool" where
  "IsShardAdded drv f mongosPod namespace shardName =
     (case ListShards drv f mongosPod namespace of
        Inl e \<Rightarrow> Inl e
      | Inr shards \<Rightarrow> Inr (list_ex (\<lambda>s. lsh_ID s = shardName) shards))"

definition EnableSharding ::
    "mongo_driver \<Rightarrow> ConnectFactory \<Rightarrow> string \<Rightarrow> string \<Rightarrow> string \<Rightarrow> unit mgr_result" where
  "EnableSharding drv f mongosPod namespace database =
     runAdminCommand drv f mongosPod namespace (EnableShardingCmd database) ''enableSharding''"

definition timeseries_doc :: "TimeseriesOptions \<Rightarrow> bson_doc" where
  "timeseries_doc ts =
     [(''timeField'', BString (tso_TimeField ts))]
     @ (if tso_MetaField ts \<noteq> [] then [(''metaField'', BString (tso_MetaField ts))] else [])
     @ (if tso_Granularity ts \<noteq> [] then [(''granularity'', BString (tso_Granularity ts))] else [])"

definition shard_collection_cmd :: "string \<Rightarrow> bson_doc \<Rightarrow> ShardCollectionOptions option \<Rightarrow> mongo_cmd" where
  "shard_collection_cmd collection key opts =
     (case opts of
        None \<Rightarrow> ShardCollectionCmd collection key False None
      | Some o' \<Rightarrow> ShardCollectionCmd collection key (sco_Unique o') (map_option timeseries_doc (sco_Timeseries o')))"

definition runShardCollectionCommand ::
    "mongo_driver \<Rightarrow> ConnectFactory \<Rightarrow> string \<Rightarrow> string \<Rightarrow> mongo_cmd \<Rightarrow> unit mgr_result" where
  "runShardCollectionCommand drv f mongosPod namespace cmd =
     (case f mongosPod namespace True of
        Inl e \<Rightarrow> ([], Inl (Wrapped ''connect for shardCollection'' e))
      | Inr c \<Rightarrow> run_cmd drv c cmd ''shardCollection'')"

definition ShardCollection ::
    "mongo_driver \<Rightarrow> ConnectFactory \<Rightarrow> string \<Rightarrow> string \<Rightarrow> string \<Rightarrow> bson_doc \<Rightarrow> ShardCollectionOptions option
     \<Rightarrow> unit mgr_result" where
  "ShardCollection drv f mongosPod namespace collection key opts =
     runShardCollectionCommand drv f mongosPod namespace (shard_collection_cmd collection key opts)"

section \<open>Registered collections\<close>

definition bucketsPrefix :: string where "bucketsPrefix = ''system.buckets.''"

definition bucketsNamespace :: "string \<Rightarrow> string \<Rightarrow> string" where
  "bucketsNamespace database collection =
     (if HasPrefix collection bucketsPrefix then database @ ''.'' @ collection
      else database @ ''.'' @ bucketsPrefix @ collection)"

text \<open>\<^verbatim>\<open>strings.IndexByte\<close> splits at the first dot, if there is one.\<close>

definition userNamespaceFromBuckets :: "string \<Rightarrow> string" where
  "userNamespaceFromBuckets namespace =
     (let db = takeWhile (\<lambda>c. c \<noteq> CHR ''.'') namespace; rest = tl (dropWhile (\<lambda>c. c \<noteq> CHR ''.'') namespace) in
      if CHR ''.'' \<notin> set namespace then namespace
      else if \<not> HasPrefix rest bucketsPrefix then namespace
      else db @ ''.'' @ drop (length bucketsPrefix) rest)"

definition lookupShardedCollection ::
    "mongo_driver \<Rightarrow> conn \<Rightarrow> string \<Rightarrow> go_error + configCollectionDoc option" where
  "lookupShardedCollection drv c namespace =
     (case drv_collection drv c namespace of
        Inl e \<Rightarrow> Inl (Wrapped (''lookup config.collections '' @ namespace) e)
      | Inr None \<Rightarrow> Inr None
      | Inr (Some doc) \<Rightarrow> Inr (if ccd_Dropped doc then None else Some doc))"

definition lookupShardedCollectionAny ::
    "mongo_driver \<Rightarrow> conn \<Rightarrow> string \<Rightarrow> string \<Rightarrow> go_error + (configCollectionDoc option \<times> bool)" where
  "lookupShardedCollectionAny drv c database collection =
     (case lookupShardedCollection drv c (database @ ''.'' @ collection) of
        Inl e \<Rightarrow> Inl e
      | Inr (Some doc) \<Rightarrow> Inr (Some doc, False)
      | Inr None \<Rightarrow>
          (case lookupShardedCollection drv c (bucketsNamespace database collection) of
             Inl e \<Rightarrow> Inl e
           | Inr (Some doc) \<Rightarrow> Inr (Some doc, True)
           | Inr None \<Rightarrow> Inr (None, False)))"

fun normalizeShardKeyValue :: "bson_val \<Rightarrow> string" where
  "normalizeShardKeyValue (BString s) = s"
| "normalizeShardKeyValue (BInt32 i) = show_int i"
| "normalizeShardKeyValue (BInt64 i) = show_int i"
| "normalizeShardKeyValue (BFloat i) = show_int i"
| "normalizeShardKeyValue (BFraction s) = s"
| "normalizeShardKeyValue (BOther s) = s"

definition shardKeyEqual :: "bson_doc \<Rightarrow> bson_doc \<Rightarrow> bool" where
  "shardKeyEqual a b =
     (length a = length b
      \<and> list_all (\<lambda>(x, y). fst x = fst y \<and> normalizeShardKeyValue (snd x) = normalizeShardKeyValue (snd y)) (zip a b))"

definition drift_error :: "(bson_doc \<Rightarrow> string) \<Rightarrow> string \<Rightarrow> bson_doc \<Rightarrow> bson_doc \<Rightarrow> go_error" where
  "drift_error show_key ns cur key =
     ErrMsg (''collection '' @ ns @ '' already sharded with different key '' @ show_key cur
       @ '' (desired '' @ show_key key @ '') '' @ emdash @ '' ShardKeyDrift'')"

definition decideEnsureAction ::
    "(bson_doc \<Rightarrow> string) \<Rightarrow> configCollectionDoc option \<Rightarrow> bool \<Rightarrow> string \<Rightarrow> bson_doc \<Rightarrow> go_error + bool" where
  "decideEnsureAction show_key cur isBuckets ns key =
     (case cur of
        None \<Rightarrow> Inr True
      | Some doc \<Rightarrow>
          if isBuckets then Inr False
          else if shardKeyEqual (ccd_Key doc) key then Inr False
          else Inl (drift_error show_key ns (ccd_Key doc) key))"

definition EnsureShardedCollection ::
    "mongo_driver \<Rightarrow> ConnectFactory \<Rightarrow> string \<Rightarrow> string \<Rightarrow> string \<Rightarrow> string \<Rightarrow> bson_doc
     \<Rightarrow> ShardCollectionOptions option \<Rightarrow> unit mgr_result" where
  "EnsureShardedCollection drv f mongosPod namespace database collection key opts =
     (let ns = database @ ''.'' @ collection in
      case f mongosPod namespace True of
        Inl e \<Rightarrow> ([], Inl (Wrapped ''connect for EnsureShardedCollection'' e))
      | Inr c \<Rightarrow>
        (case lookupShardedCollectionAny drv c database collection of
           Inl e \<Rightarrow> ([], Inl e)
         | Inr (cur, isBuckets) \<Rightarrow>
           (case decideEnsureAction (drv_show_key drv) cur isBuckets ns key of
              Inl e \<Rightarrow> ([], Inl e)
            | Inr doShard \<Rightarrow>
                if \<not> doShard then ([], Inr ())
                else (case EnableSharding drv f mongosPod namespace database of
                        (cmds, Inl e) \<Rightarrow> (cmds, Inl (Wrapped (''enableSharding '' @ database) e))
                      | (cmds, Inr _) \<Rightarrow>
                          (case ShardCollection drv f mongosPod namespace ns key opts of
                             (cmds', res) \<Rightarrow> (cmds @ cmds', res))))))"

definition ListShardedNamespaces ::
    "mongo_driver \<Rightarrow> ConnectFactory \<Rightarrow> string \<Rightarrow> string \<Rightarrow> go_error + (string \<times> bson_doc) list" where
  "ListShardedNamespaces drv f mongosPod namespace =
     (case f mongosPod namespace True of
        Inl e \<Rightarrow> Inl (Wrapped ''connect for ListShardedNamespaces'' e)
      | Inr c \<Rightarrow> (case drv_collections drv c of
                    Inl e \<Rightarrow> Inl (Wrapped ''find config.collections'' e)
                  | Inr docs \<Rightarrow> Inr (map (\<lambda>d. (userNamespaceFromBuckets (ccd_ID d), ccd_Key d)) docs)))"

text \<open>
  The number of members is an \<^verbatim>\<open>int\<close> in the source. A negative one, which the schema of the resources
  excludes, would panic in \<^verbatim>\<open>make\<close>; it is not modelled.
\<close>

definition BuildShardConnectionString ::
    "string \<Rightarrow> string \<Rightarrow> string \<Rightarrow> string \<Rightarrow> nat \<Rightarrow> int \<Rightarrow> string" where
  "BuildShardConnectionString shardName baseName serviceName namespace members port =
     shardName @ ''/'' @ Join (GetPodsFQDN baseName serviceName namespace members port) '',''"

section \<open>Shard keys\<close>

lemma shardKeyEqual_normal:
  "shardKeyEqual a b \<longleftrightarrow>
     map (\<lambda>x. (fst x, normalizeShardKeyValue (snd x))) a = map (\<lambda>x. (fst x, normalizeShardKeyValue (snd x))) b"
  unfolding shardKeyEqual_def
  by (auto simp: list_eq_iff_nth_eq list_all_length)

lemma shardKeyEqual_equivp: "equivp shardKeyEqual"
  by (rule equivpI) (auto simp: reflp_def symp_def transp_def shardKeyEqual_normal)

lemma contains_suffix: "StrContains (p @ s) s"
  by (induction p) (auto simp: HasPrefix_def split: list.splits, cases s, auto simp: HasPrefix_def)

lemma drift_error_says: "StrContains (Error (drift_error sk ns cur key)) ''ShardKeyDrift''"
  using contains_suffix [of "''collection '' @ ns @ '' already sharded with different key '' @ sk cur
      @ '' (desired '' @ sk key @ '') '' @ emdash @ '' ''" "''ShardKeyDrift''"]
  by (simp add: drift_error_def del: StrContains.simps)

text \<open>
  A collection that is registered is left alone: no command is sent for it. A registration
  under the buckets namespace of a timeseries, or with the same key up to the numeric
  representation of its values, is a success; any other key is reported as a shard key drift.
\<close>

theorem registered_collection_left_alone:
  assumes "f pod ns True = Inr c" and "lookupShardedCollectionAny drv c db coll = Inr (Some doc, isBuckets)"
  shows "fst (EnsureShardedCollection drv f pod ns db coll key opts) = []
    \<and> (case snd (EnsureShardedCollection drv f pod ns db coll key opts) of
         Inr _ \<Rightarrow> isBuckets \<or> shardKeyEqual (ccd_Key doc) key
       | Inl e \<Rightarrow> \<not> isBuckets \<and> \<not> shardKeyEqual (ccd_Key doc) key \<and> StrContains (Error e) ''ShardKeyDrift'')"
  using assms by (auto simp: EnsureShardedCollection_def decideEnsureAction_def Let_def drift_error_says)

definition orders_doc :: configCollectionDoc where
  "orders_doc = \<lparr>ccd_ID = ''shop.orders'', ccd_Key = [(''id'', BFloat 1)], ccd_Dropped = False\<rparr>"

definition orders_driver :: "mongo_driver \<Rightarrow> mongo_driver" where
  "orders_driver drv = drv\<lparr>drv_collection := \<lambda>_ n. Inr (if n = ''shop.orders'' then Some orders_doc else None)\<rparr>"

definition mongos_conn :: conn where
  "mongos_conn = \<lparr>cn_URI = ''mongodb://sh-mongos'', cn_Cred = None, cn_Timeout = 10 * second\<rparr>"

theorem registered_collection_left_alone_witness:
  "fst (EnsureShardedCollection (orders_driver yes_driver) (\<lambda>_ _ _. Inr mongos_conn) ''p'' ''db'' ''shop'' ''orders''
     [(''id'', BInt32 1)] None) = []"
  using registered_collection_left_alone [of "\<lambda>_ _ _. Inr mongos_conn" "''p''" "''db''" mongos_conn
      "orders_driver yes_driver" "''shop''" "''orders''" orders_doc False]
  by (simp add: lookupShardedCollectionAny_def lookupShardedCollection_def orders_driver_def orders_doc_def)

text \<open>
  A collection that is not registered is sharded in the right order: sharding is enabled
  for its database first, and the collection is sharded with the declared key and options
  only if that did not fail; nothing else is sent.
\<close>

theorem unregistered_collection_sharded_in_order:
  assumes "f pod ns True = Inr c" and "lookupShardedCollectionAny drv c db coll = Inr (None, b)"
  shows "case EnsureShardedCollection drv f pod ns db coll key opts of
      (cmds, Inr _) \<Rightarrow> cmds = [EnableShardingCmd db, shard_collection_cmd (db @ ''.'' @ coll) key opts]
        \<and> drv_run drv c (shard_collection_cmd (db @ ''.'' @ coll) key opts) = None
    | (cmds, Inl _) \<Rightarrow> cmds = [EnableShardingCmd db]
        \<or> cmds = [EnableShardingCmd db, shard_collection_cmd (db @ ''.'' @ coll) key opts]"
  using assms
  by (auto simp: EnsureShardedCollection_def decideEnsureAction_def Let_def EnableSharding_def runAdminCommand_def
      ShardCollection_def runShardCollectionCommand_def run_cmd_def split: sum.splits option.splits if_splits)

theorem unregistered_collection_sharded_in_order_witness:
  "length (fst (EnsureShardedCollection yes_driver (\<lambda>_ _ _. Inr mongos_conn) ''p'' ''db'' ''shop'' ''orders''
     [(''id'', BInt32 1)] None)) \<in> {1, 2}"
  using unregistered_collection_sharded_in_order [of "\<lambda>_ _ _. Inr mongos_conn" "''p''" "''db''" mongos_conn
      yes_driver "''shop''" "''orders''" False "[(''id'', BInt32 1)]" None]
  by (auto simp: lookupShardedCollectionAny_def lookupShardedCollection_def yes_driver_def split: prod.splits sum.splits)

section \<open>Namespaces of timeseries\<close>

lemma split_dot: "CHR ''.'' \<notin> set db \<Longrightarrow> takeWhile (\<lambda>c. c \<noteq> CHR ''.'') (db @ CHR ''.'' # r) = db"
  "CHR ''.'' \<notin> set db \<Longrightarrow> dropWhile (\<lambda>c. c \<noteq> CHR ''.'') (db @ CHR ''.'' # r) = CHR ''.'' # r"
  by (induction db) auto

text \<open>
  The status reports the namespace the user declared: a timeseries that mongos registers
  under its buckets namespace is translated back to \<^verbatim>\<open>db.collection\<close>, and the namespace of an
  ordinary collection is reported unchanged.
\<close>

theorem buckets_roundtrip:
  assumes "CHR ''.'' \<notin> set db" and "\<not> HasPrefix coll bucketsPrefix"
  shows "userNamespaceFromBuckets (bucketsNamespace db coll) = db @ ''.'' @ coll
    \<and> userNamespaceFromBuckets (db @ ''.'' @ coll) = db @ ''.'' @ coll"
  using assms
  by (simp add: userNamespaceFromBuckets_def bucketsNamespace_def Let_def split_dot HasPrefix_def)

theorem buckets_roundtrip_witness:
  "userNamespaceFromBuckets (bucketsNamespace ''crypto'' ''klines'') = ''crypto.klines''
   \<and> bucketsNamespace ''crypto'' ''klines'' = ''crypto.system.buckets.klines''"
  using buckets_roundtrip [of "''crypto''" "''klines''"]
  by (simp add: bucketsNamespace_def bucketsPrefix_def HasPrefix_def)

end
