(* ===== verification/Sharded_Upgrade.thy ===== *)
theory Sharded_Upgrade
  imports Upgrade Sharding
begin

text \<open>
  The upgrade machine of sharded clusters, \<^verbatim>\<open>internal/controller/sharded_upgrade.go\<close>, with
  \<^verbatim>\<open>ensureShardedUpgradeStartTime\<close>, \<^verbatim>\<open>getMongosPodName\<close> and the move to validation of
  \<^verbatim>\<open>mongodbsharded_controller.go\<close>. It is the second provider of the contract \<open>upgrade_object\<close>.
\<close>

section \<open>The status mutations\<close>

abbreviation updsh :: "(MongoDBShardedStatus \<Rightarrow> MongoDBShardedStatus) \<Rightarrow> MongoDBSharded \<Rightarrow> MongoDBSharded" where
  "updsh f m \<equiv> m\<lparr>ShStatus := f (ShStatus m)\<rparr>"

abbreviation ShNamespace :: "MongoDBSharded \<Rightarrow> string" where "ShNamespace m \<equiv> om_Namespace (ShMeta m)"

abbreviation sh_desired :: "MongoDBSharded \<Rightarrow> string" where "sh_desired m \<equiv> ver_Version (shd_Version (ShSpec m))"

definition setShardedUpgradeCondition ::
    "gotime \<Rightarrow> string \<Rightarrow> string \<Rightarrow> string \<Rightarrow> string \<Rightarrow> MongoDBShardedStatus \<Rightarrow> MongoDBShardedStatus" where
  "setShardedUpgradeCondition now condType status reason message s =
     s\<lparr>ss_Conditions :=
         put_condition (upgrade_condition now condType status reason message) (ss_Conditions s)\<rparr>"

definition seedSharded :: "string \<Rightarrow> MongoDBSharded mutator" where
  "seedSharded desiredVersion _ mdbsh =
     (let m1 = (if ss_EffectiveVersion (ShStatus mdbsh) = [] then
                  updsh (ss_EffectiveVersion_update (\<lambda>_. desiredVersion)) mdbsh else mdbsh)
      in if ss_Version (ShStatus m1) = [] then
           updsh (ss_Version_update (\<lambda>_. ss_EffectiveVersion (ShStatus m1))) m1 else m1)"

definition clearShardedUpgrade :: "MongoDBSharded mutator" where
  "clearShardedUpgrade _ = updsh (\<lambda>s. s\<lparr>ss_UpgradePhase := [], ss_UpgradeStartTime := None\<rparr>)"

definition initShardedUpgrade :: "string \<Rightarrow> string \<Rightarrow> MongoDBSharded mutator" where
  "initShardedUpgrade currentVersion desiredVersion now mdbsh =
     updsh (\<lambda>s. s\<lparr>ss_PreviousVersion := currentVersion, ss_EffectiveVersion := desiredVersion,
                  ss_RollbackActive := False, ss_UpgradeStartTime := Some now,
                  ss_UpgradePhase :=
                    (if strategy_flag us_PreUpgradeBackup (shd_UpgradeStrategy (ShSpec mdbsh))
                     then UpgradePhaseBackingUp else UpgradePhaseUpgrading)\<rparr>) mdbsh"

definition setShardedUpgrading :: "MongoDBSharded mutator" where
  "setShardedUpgrading _ = updsh (ss_UpgradePhase_update (\<lambda>_. UpgradePhaseUpgrading))"

definition abortShardedUpgrade :: "MongoDBSharded mutator" where
  "abortShardedUpgrade now = updsh (\<lambda>s.
     setShardedUpgradeCondition now ''UpgradeFailed'' ConditionTrue ''BackupFailed''
       ''Pre-upgrade backup failed, upgrade aborted''
       (s\<lparr>ss_UpgradePhase := [], ss_UpgradeStartTime := None\<rparr>))"

definition completeShardedUpgrade :: "string \<Rightarrow> string \<Rightarrow> MongoDBSharded mutator" where
  "completeShardedUpgrade desiredVersion fcv now mdbsh =
     updsh (\<lambda>s. setShardedUpgradeCondition now ''UpgradeComplete'' ConditionTrue ''Upgraded''
       (''Successfully upgraded to '' @ desiredVersion @ '' (FCV '' @ fcv @ '' committed)'')
       (s\<lparr>ss_Version := desiredVersion, ss_EffectiveVersion := desiredVersion, ss_FCVVersion := fcv,
          ss_RollbackActive := False, ss_UpgradePhase := [], ss_UpgradeStartTime := None,
          ss_UpgradeRetryCount := 0, ss_ObservedUpgradeGeneration := ShGeneration mdbsh\<rparr>)) mdbsh"

definition setShardedRollingBack :: "MongoDBSharded mutator" where
  "setShardedRollingBack _ = updsh (ss_UpgradePhase_update (\<lambda>_. UpgradePhaseRollingBack))"

definition failShardedUpgrade :: "string \<Rightarrow> string \<Rightarrow> MongoDBSharded mutator" where
  "failShardedUpgrade reason message now mdbsh =
     updsh (\<lambda>s. (setShardedUpgradeCondition now ''UpgradeFailed'' ConditionTrue reason message s)
       \<lparr>ss_UpgradePhase := [], ss_UpgradeStartTime := None,
        ss_ObservedUpgradeGeneration := ShGeneration mdbsh\<rparr>) mdbsh"

definition finishShardedRollback :: "string \<Rightarrow> MongoDBSharded mutator" where
  "finishShardedRollback previousVersion now mdbsh =
     updsh (\<lambda>s. setShardedUpgradeCondition now ''UpgradeRolledBack'' ConditionTrue ''RolledBack''
       (''Rolled back to '' @ previousVersion @ '' (spec.Version '' @ sh_desired mdbsh
          @ '' preserved; change spec to retry)'')
       (s\<lparr>ss_EffectiveVersion := previousVersion, ss_RollbackActive := True,
          ss_UpgradePhase := [], ss_UpgradeStartTime := None,
          ss_UpgradeRetryCount := wrap32 (ss_UpgradeRetryCount s + 1),
          ss_ObservedUpgradeGeneration := ShGeneration mdbsh\<rparr>)) mdbsh"

definition ensureShardedUpgradeStartTime :: "gotime \<Rightarrow> MongoDBSharded \<Rightarrow> MongoDBSharded" where
  "ensureShardedUpgradeStartTime now mdbsh =
     (if ss_UpgradeStartTime (ShStatus mdbsh) = None
      then updsh (ss_UpgradeStartTime_update (\<lambda>_. Some now)) mdbsh else mdbsh)"

definition setShardedValidating :: "MongoDBSharded mutator" where
  "setShardedValidating now mdbsh =
     ensureShardedUpgradeStartTime now (updsh (ss_UpgradePhase_update (\<lambda>_. UpgradePhaseValidating)) mdbsh)"

lemmas sharded_upgrade_mutators = seedSharded_def clearShardedUpgrade_def initShardedUpgrade_def
  setShardedUpgrading_def abortShardedUpgrade_def completeShardedUpgrade_def setShardedRollingBack_def
  failShardedUpgrade_def finishShardedRollback_def setShardedUpgradeCondition_def

section \<open>Handlers\<close>

definition reconcileShardedUpgradeBackup ::
    "MongoDBSharded world \<Rightarrow> string \<Rightarrow> (MongoDBSharded, upgrade_outcome) ctl" where
  "reconcileShardedUpgradeBackup W desiredVersion = do {
     mdbsh \<leftarrow> the_obj;
     let backupName = ShName mdbsh @ ''-pre-upgrade-'' @ desiredVersion;
     got \<leftarrow> ask (\<lambda>k. w_backup W k backupName (ShNamespace mdbsh));
     case got of
       Inl err \<Rightarrow>
         if \<not> IsNotFound err then ret (no_requeue, False, Some err)
         else create_backup W (preUpgradeBackup backupName (ShNamespace mdbsh) (ShName mdbsh) ''MongoDBSharded'')
     | Inr backup \<Rightarrow>
         if bkst_Phase (BkStatus backup) = ''Completed'' then
           finish_with W setShardedUpgrading (requeue_after (1 * second), True, None)
         else if bkst_Phase (BkStatus backup) = ''Failed'' then
           finish_with W abortShardedUpgrade (no_requeue, True, None)
         else ret (requeue_after upgradeRequeueInterval, True, None)
   }"

fun running_pod :: "Pod list \<Rightarrow> string option" where
  "running_pod [] = None"
| "running_pod (p # ps) = (if p_Phase p = ''Running'' then Some (p_Name p) else running_pod ps)"

definition getMongosPodName :: "MongoDBSharded world \<Rightarrow> MongoDBSharded \<Rightarrow> (MongoDBSharded, go_error + string) ctl" where
  "getMongosPodName W mdbsh = do {
     pods \<leftarrow> ask (\<lambda>k. w_pods W k (ShNamespace mdbsh)
               [(''app.kubernetes.io/instance'', ShName mdbsh), (''app.kubernetes.io/component'', ''mongos'')]);
     ret (case pods of
            Inl e \<Rightarrow> Inl e
          | Inr ps \<Rightarrow> (case running_pod ps of
                         Some n \<Rightarrow> Inr n
                       | None \<Rightarrow> Inl (ErrMsg ''no running mongos pod found'')))
   }"

text \<open>The connection factory towards mongos, which all administration of the cluster goes through.\<close>

definition mongos_factory :: "mongo_driver \<Rightarrow> MongoDBSharded \<Rightarrow> string \<Rightarrow> ConnectFactory" where
  "mongos_factory drv mdbsh pw =
     NewServiceConnectFactory drv (ShName mdbsh @ ''-mongos'') (ShNamespace mdbsh) 27017 ''admin'' pw ''admin''"

definition sh_password :: "MongoDBSharded world \<Rightarrow> MongoDBSharded \<Rightarrow> (MongoDBSharded, go_error + string) ctl" where
  "sh_password W mdbsh =
     getAdminPassword W (auth_AdminCredentialsSecretRef (shd_Auth (ShSpec mdbsh))) (ShNamespace mdbsh)"

definition commitShardedFCV ::
    "MongoDBSharded world \<Rightarrow> MongoDBSharded \<Rightarrow> string \<Rightarrow> (MongoDBSharded, go_error + string) ctl" where
  "commitShardedFCV W mdbsh desiredVersion =
     (let fcv = fcvMajorMinor desiredVersion in
      if fcv = [] then
        ret (Inl (ErrMsg (''cannot derive FCV from version '' @ Quote desiredVersion)))
      else if ss_FCVVersion (ShStatus mdbsh) = fcv then ret (Inr fcv)
      else do {
        pw \<leftarrow> sh_password W mdbsh;
        case pw of
          Inl e \<Rightarrow> ret (Inl (Wrapped ''get admin password for FCV commit'' e))
        | Inr adminPassword \<Rightarrow> do {
            pod \<leftarrow> getMongosPodName W mdbsh;
            case pod of
              Inl e \<Rightarrow> ret (Inl (Wrapped ''get mongos pod for FCV commit'' e))
            | Inr mongosPod \<Rightarrow> do {
                res \<leftarrow> issue (\<lambda>k. SetFCV (w_drv W k) (mongos_factory (w_drv W k) mdbsh adminPassword)
                                    mongosPod (ShNamespace mdbsh) fcv);
                ret (case res of Inl e \<Rightarrow> Inl e | Inr _ \<Rightarrow> Inr fcv)
              }
          }
      })"

definition sharded_members :: "MongoDBSharded \<Rightarrow> int32" where
  "sharded_members mdbsh =
     wrap32 (cs_Members (shd_ConfigServer (ShSpec mdbsh))
       + wrap32 (sh_Count (shd_Shards (ShSpec mdbsh)) * sh_MembersPerShard (shd_Shards (ShSpec mdbsh))))"

definition reported_ready :: "MongoDBSharded \<Rightarrow> bool" where
  "reported_ready mdbsh \<longleftrightarrow>
     cst_Ready (ss_ConfigServer (ShStatus mdbsh)) \<ge> cst_Total (ss_ConfigServer (ShStatus mdbsh))
     \<and> cst_Ready (ss_Mongos (ShStatus mdbsh)) \<ge> cst_Total (ss_Mongos (ShStatus mdbsh))
     \<and> list_all (\<lambda>s. \<not> sst_Ready s < sst_Total s) (ss_Shards (ShStatus mdbsh))"

definition reconcileShardedUpgradeValidation ::
    "MongoDBSharded world \<Rightarrow> string \<Rightarrow> (MongoDBSharded, upgrade_outcome) ctl" where
  "reconcileShardedUpgradeValidation W desiredVersion = do {
     mdbsh \<leftarrow> the_obj;
     let interval = parseValidationInterval (shd_UpgradeStrategy (ShSpec mdbsh));
     let timeout = validationTimeout interval (sharded_members mdbsh);
     case ss_UpgradeStartTime (ShStatus mdbsh) of
       None \<Rightarrow> ret (requeue_after upgradeRequeueInterval, True, None)
     | Some start \<Rightarrow> do {
         now \<leftarrow> ask (w_now W);
         let elapsed = time_sub now start;
         if elapsed < interval then ret (requeue_after (wrap64 (interval - elapsed)), True, None)
         else if reported_ready mdbsh then do {
           committed \<leftarrow> commitShardedFCV W mdbsh desiredVersion;
           case committed of
             Inl _ \<Rightarrow> ret (requeue_after upgradeRequeueInterval, True, None)
           | Inr fcv \<Rightarrow> finish_with W (completeShardedUpgrade desiredVersion fcv) (no_requeue, True, None)
         }
         else if elapsed < timeout then ret (requeue_after upgradeRequeueInterval, True, None)
         else if strategy_flag us_RollbackOnFailure (shd_UpgradeStrategy (ShSpec mdbsh)) then
           finish_with W setShardedRollingBack (requeue_after (1 * second), True, None)
         else finish_with W (failShardedUpgrade ''ValidationTimeout''
                (''Upgrade to '' @ desiredVersion @ '' timed out, manual intervention required''))
                (no_requeue, True, None)
       }
   }"

definition reconcileShardedUpgradeRollback :: "MongoDBSharded world \<Rightarrow> (MongoDBSharded, upgrade_outcome) ctl" where
  "reconcileShardedUpgradeRollback W = do {
     mdbsh \<leftarrow> the_obj;
     if ss_PreviousVersion (ShStatus mdbsh) = [] then
       finish_with W clearShardedUpgrade (no_requeue, True, None)
     else if \<not> strategy_flag us_RollbackOnFailure (shd_UpgradeStrategy (ShSpec mdbsh)) then
       finish_with W (failShardedUpgrade ''ValidationFailed'' ''Upgrade validation failed, manual intervention required'')
         (no_requeue, True, None)
     else finish_with W (finishShardedRollback (ss_PreviousVersion (ShStatus mdbsh))) (no_requeue, True, None)
   }"

definition sh_terminal_for_generation :: "MongoDBSharded \<Rightarrow> bool" where
  "sh_terminal_for_generation mdbsh \<longleftrightarrow>
     ss_UpgradePhase (ShStatus mdbsh) = [] \<and>
     ss_ObservedUpgradeGeneration (ShStatus mdbsh) = ShGeneration mdbsh \<and>
     ss_ObservedUpgradeGeneration (ShStatus mdbsh) \<noteq> 0"

definition sharded_upgrade_dispatch ::
    "MongoDBSharded world \<Rightarrow> string \<Rightarrow> (MongoDBSharded, upgrade_outcome) ctl" where
  "sharded_upgrade_dispatch W desiredVersion = do {
     mdbsh \<leftarrow> the_obj;
     let currentVersion = ss_Version (ShStatus mdbsh);
     let phase = ss_UpgradePhase (ShStatus mdbsh);
     if currentVersion = [] \<or> currentVersion = desiredVersion then
       (if phase \<noteq> [] then finish_with W clearShardedUpgrade (no_requeue, False, None)
        else ret (no_requeue, False, None))
     else if sh_terminal_for_generation mdbsh then ret (no_requeue, False, None)
     else if phase = [] then
       finish_with W (initShardedUpgrade currentVersion desiredVersion) (requeue_after (1 * second), True, None)
     else if phase = UpgradePhaseBackingUp then reconcileShardedUpgradeBackup W desiredVersion
     else if phase = UpgradePhaseUpgrading then ret (no_requeue, False, None)
     else if phase = UpgradePhaseValidating then reconcileShardedUpgradeValidation W desiredVersion
     else if phase = UpgradePhaseRollingBack then reconcileShardedUpgradeRollback W
     else ret (no_requeue, False, None)
   }"

definition reconcileShardedUpgrade :: "MongoDBSharded world \<Rightarrow> (MongoDBSharded, upgrade_outcome) ctl" where
  "reconcileShardedUpgrade W = do {
     mdbsh \<leftarrow> the_obj;
     let desiredVersion = sh_desired mdbsh;
     if ss_EffectiveVersion (ShStatus mdbsh) = [] \<or> ss_Version (ShStatus mdbsh) = [] then do {
       err \<leftarrow> UpdateWithRetry W (seedSharded desiredVersion);
       case err of
         Some e \<Rightarrow> ret (no_requeue, False, Some e)
       | None \<Rightarrow> sharded_upgrade_dispatch W desiredVersion
     }
     else sharded_upgrade_dispatch W desiredVersion
   }"

section \<open>The version discipline\<close>

definition sh_view :: "MongoDBSharded \<Rightarrow> upgrade_view" where
  "sh_view m = \<lparr>uv_Desired = sh_desired m, uv_Generation = ShGeneration m,
     uv_Version = ss_Version (ShStatus m), uv_EffectiveVersion = ss_EffectiveVersion (ShStatus m),
     uv_PreviousVersion = ss_PreviousVersion (ShStatus m), uv_UpgradePhase = ss_UpgradePhase (ShStatus m),
     uv_FCVVersion = ss_FCVVersion (ShStatus m), uv_RollbackActive = ss_RollbackActive (ShStatus m),
     uv_Observed = ss_ObservedUpgradeGeneration (ShStatus m)\<rparr>"

interpretation sh_up: upgrade_object sh_view seedSharded clearShardedUpgrade initShardedUpgrade
  setShardedUpgrading abortShardedUpgrade completeShardedUpgrade setShardedRollingBack
  "failShardedUpgrade r" finishShardedRollback for r
  by unfold_locales
    (auto simp: sh_view_def sharded_upgrade_mutators a_defs Let_def upgrade_phase_defs)

lemma sh_phase:
  "edited sh_view a b \<Longrightarrow> ss_UpgradePhase (ShStatus a) \<noteq> [] \<Longrightarrow> uv_UpgradePhase (sh_view b) \<noteq> []"
  "edited sh_view a b \<Longrightarrow> uv_PreviousVersion (sh_view b) = ss_PreviousVersion (ShStatus a)"
  using edited_fields [of sh_view a b] by (auto simp: sh_view_def)

lemma sh_backup_good:
  assumes "retry_ok (edited sh_view) W" "good_run sh_view d s" "ss_UpgradePhase (ShStatus (r_obj s)) \<noteq> []"
  shows "wp (reconcileShardedUpgradeBackup W d) (\<lambda>_. good_run sh_view d) s"
  using assms(2,3) sh_phase(1) [OF _ assms(3)]
  by (auto simp: reconcileShardedUpgradeBackup_def wp_flow Let_def split: sum.splits
      intro!: finish_good [OF assms(1)] create_backup_good sh_up.abort_good sh_up.upgrading_good)

lemma commitShardedFCV_keeps: "keeps (good_run sh_view d) (commitShardedFCV W m v)"
  unfolding commitShardedFCV_def sh_password_def getAdminPassword_def getMongosPodName_def
  by (intro keeps_intros)

lemma commitShardedFCV_result:
  "wp (commitShardedFCV W m v) (\<lambda>r _. \<forall>f. r = Inr f \<longrightarrow> f = fcvMajorMinor v) s"
  by (auto simp: commitShardedFCV_def sh_password_def getAdminPassword_def getMongosPodName_def wp_flow Let_def
      split: sum.splits option.splits prod.splits)

lemma sh_validation_good:
  assumes "retry_ok (edited sh_view) W" "good_run sh_view d s" "ss_UpgradePhase (ShStatus (r_obj s)) \<noteq> []"
  shows "wp (reconcileShardedUpgradeValidation W d) (\<lambda>_. good_run sh_view d) s"
proof -
  have fcv: "wp (commitShardedFCV W (r_obj s) d)
      (\<lambda>r s'. good_run sh_view d s' \<and> (\<forall>f. r = Inr f \<longrightarrow> f = fcvMajorMinor d)) s'"
    if "good_run sh_view d s'" for s'
    using that commitShardedFCV_keeps [of d W "r_obj s" d] commitShardedFCV_result [of W "r_obj s" d s']
    by (simp add: wp_conj keeps_wp)
  have commit: "wp (commitShardedFCV W (r_obj s) d)
      (\<lambda>r. wp (case r of Inl _ \<Rightarrow> ret out' | Inr fcv \<Rightarrow> finish_with W (completeShardedUpgrade d fcv) out)
               (\<lambda>_. good_run sh_view d)) s'"
    if "good_run sh_view d s'" for s' out out'
    by (rule wp_mono [OF fcv [OF that]])
      (auto simp: wp_flow split: sum.splits intro!: finish_good [OF assms(1)] sh_up.complete_good)
  show ?thesis
    using assms(2) sh_phase(1) [OF _ assms(3)]
    by (auto simp: reconcileShardedUpgradeValidation_def wp_flow Let_def split: option.splits
        intro!: finish_good [OF assms(1)] sh_up.rolling_back_good sh_up.fail_good commit)
qed

lemma sh_rollback_good:
  assumes "retry_ok (edited sh_view) W" "good_run sh_view d s" "ss_UpgradePhase (ShStatus (r_obj s)) \<noteq> []"
  shows "wp (reconcileShardedUpgradeRollback W) (\<lambda>_. good_run sh_view d) s"
  using assms(2) sh_phase(1) [OF _ assms(3)] sh_phase(2) [of "r_obj s"]
  by (auto simp: reconcileShardedUpgradeRollback_def wp_flow
      intro!: finish_good [OF assms(1)] sh_up.clear_good sh_up.fail_good sh_up.rollback_good)

lemma sh_dispatch_good:
  assumes "retry_ok (edited sh_view) W" "good_run sh_view d s"
  shows "wp (sharded_upgrade_dispatch W d) (\<lambda>_. good_run sh_view d) s"
proof -
  have init: "wp (finish_with W (initShardedUpgrade (ss_Version (ShStatus (r_obj s))) d) out) (\<lambda>_. good_run sh_view d) s"
    if "ss_Version (ShStatus (r_obj s)) \<noteq> []" for out
  proof (rule finish_good [OF assms])
    fix t b assume e: "edited sh_view (r_obj s) b" and g: "good_obj d (sh_view b)"
    have "uv_Version (sh_view b) = ss_Version (ShStatus (r_obj s))"
      using edited_fields(2) [OF e] by (simp add: sh_view_def)
    with that g show "good_obj d (sh_view (initShardedUpgrade (ss_Version (ShStatus (r_obj s))) d t b))"
      by (intro sh_up.init_good)
  qed
  show ?thesis
    using assms(2) init
    by (auto simp: sharded_upgrade_dispatch_def wp_flow Let_def upgrade_phase_defs
        intro!: finish_good [OF assms(1)] sh_up.clear_good sh_backup_good [OF assms(1)]
          sh_validation_good [OF assms(1)] sh_rollback_good [OF assms(1)])
qed

lemma reconcileShardedUpgrade_good:
  assumes "retry_ok (edited sh_view) W" "good_run sh_view (sh_desired (r_obj s)) s"
  shows "wp (reconcileShardedUpgrade W) (\<lambda>_. good_run sh_view (sh_desired (r_obj s))) s"
proof -
  let ?d = "sh_desired (r_obj s)"
  have upd: "wp (UpdateWithRetry W (seedSharded ?d)) (\<lambda>_. good_run sh_view ?d) s"
    by (rule good_update [OF assms]) (rule sh_up.seed_good)
  have "wp (UpdateWithRetry W (seedSharded ?d) \<bind> (\<lambda>err. case err of
      Some e \<Rightarrow> ret (no_requeue, False, Some e) | None \<Rightarrow> sharded_upgrade_dispatch W ?d))
      (\<lambda>_. good_run sh_view ?d) s"
    by (rule wp_seq [OF upd]) (auto simp: wp_flow split: option.splits intro: sh_dispatch_good [OF assms(1)])
  then show ?thesis
    using assms(2) sh_dispatch_good [OF assms(1)]
    by (simp add: reconcileShardedUpgrade_def wp_the_obj wp_bind [of the_obj] wp_if Let_def)
qed

section \<open>When the FCV is raised\<close>

definition sh_seeded :: "MongoDBSharded \<Rightarrow> bool" where
  "sh_seeded m \<longleftrightarrow> ss_EffectiveVersion (ShStatus m) \<noteq> [] \<and> ss_Version (ShStatus m) \<noteq> []"

lemma reconcileShardedUpgrade_seeded:
  "sh_seeded (r_obj s) \<Longrightarrow> run_state (reconcileShardedUpgrade W) s =
     run_state (sharded_upgrade_dispatch W (sh_desired (r_obj s))) s"
  by (simp add: reconcileShardedUpgrade_def sh_seeded_def the_obj_def Let_def)

text \<open>The evidence for a raise: the phase, the status counts and the time since the start.\<close>

definition sh_evidence :: "MongoDBSharded world \<Rightarrow> nat \<Rightarrow> MongoDBSharded \<Rightarrow> bool" where
  "sh_evidence W k m \<longleftrightarrow> ss_UpgradePhase (ShStatus m) = UpgradePhaseValidating \<and> reported_ready m
     \<and> (\<exists>start. ss_UpgradeStartTime (ShStatus m) = Some start
          \<and> parseValidationInterval (shd_UpgradeStrategy (ShSpec m)) \<le> time_sub (w_now W k) start)"

definition sh_cmds :: "MongoDBSharded world \<Rightarrow> nat \<Rightarrow> MongoDBSharded \<Rightarrow> string \<Rightarrow> mongo_cmd set" where
  "sh_cmds W k m d = (if sh_evidence W k m then {SetFeatureCompatibilityVersion (fcvMajorMinor d)} else {})"

lemma commitShardedFCV_cmds:
  assumes "SetFeatureCompatibilityVersion (fcvMajorMinor d) \<in> C"
  shows "keeps (says_only C) (commitShardedFCV W m d)"
proof -
  have "keeps (says_only C) (issue (\<lambda>k. SetFCV (w_drv W k) (f k) p ns (fcvMajorMinor d)) :: (MongoDBSharded, _) ctl)" for f p ns
    using assms SetFCV_cmds unfolding keeps_def wp_issue
    by (auto split: prod.splits) (metis fst_conv in_mono insert_absorb singleton_insert_inj_eq')
  then show ?thesis
    unfolding commitShardedFCV_def sh_password_def getAdminPassword_def getMongosPodName_def Let_def
    by (intro keeps_intros)
qed

lemma sh_validation_cmds:
  assumes "says_only (sh_cmds W (r_tick s) (r_obj s) d) s" "ss_UpgradePhase (ShStatus (r_obj s)) = UpgradePhaseValidating"
  shows "wp (reconcileShardedUpgradeValidation W d) (\<lambda>_. says_only (sh_cmds W (r_tick s) (r_obj s) d)) s"
proof -
  let ?C = "sh_cmds W (r_tick s) (r_obj s) d"
  have c: "wp (commitShardedFCV W (r_obj s) d \<bind> (\<lambda>r. case r of Inl _ \<Rightarrow> ret out'
        | Inr fcv \<Rightarrow> finish_with W (completeShardedUpgrade d fcv) out)) (\<lambda>_. says_only ?C) t"
    if "says_only ?C t" "sh_evidence W (r_tick s) (r_obj s)" for t out out'
  proof -
    have "keeps (says_only ?C) (commitShardedFCV W (r_obj s) d)"
      by (rule commitShardedFCV_cmds) (use that in \<open>simp add: sh_cmds_def\<close>)
    then have "keeps (says_only ?C) (commitShardedFCV W (r_obj s) d \<bind> (\<lambda>r. case r of Inl _ \<Rightarrow> ret out'
        | Inr fcv \<Rightarrow> finish_with W (completeShardedUpgrade d fcv) out))"
      by (intro keeps_intros)
    from keeps_wp [OF this that(1)] show ?thesis .
  qed
  have f: "wp (finish_with W g out) (\<lambda>_. says_only ?C) t" if "says_only ?C t" for g out and t :: "MongoDBSharded rstate"
    by (rule keeps_wp [OF keeps_says_finish that])
  show ?thesis
    using assms
    by (auto simp: reconcileShardedUpgradeValidation_def wp_bind [of the_obj] wp_bind [of "ask _"] wp_the_obj wp_ask
        wp_ret wp_if Let_def sh_evidence_def split: option.splits intro!: c f)
qed

lemma sh_dispatch_cmds:
  assumes "says_only (sh_cmds W (r_tick s) (r_obj s) d) s"
  shows "wp (sharded_upgrade_dispatch W d) (\<lambda>_. says_only (sh_cmds W (r_tick s) (r_obj s) d)) s"
proof -
  have b: "keeps (says_only C) (reconcileShardedUpgradeBackup W d)" "keeps (says_only C) (reconcileShardedUpgradeRollback W)" for C
    unfolding reconcileShardedUpgradeBackup_def reconcileShardedUpgradeRollback_def create_backup_def Let_def
    by (intro keeps_intros; simp)+
  show ?thesis
    using assms
    by (auto simp: sharded_upgrade_dispatch_def wp_flow Let_def
        intro!: keeps_wp [OF keeps_says_finish] keeps_wp [OF b(1)] keeps_wp [OF b(2)] sh_validation_cmds)
qed

text \<open>
  C26. A sharded upgrade raises the FCV only in the validation phase, after the validation
  interval, and when the status reports every component ready; the command sets the
  \<^verbatim>\<open>major.minor\<close> of the desired version, and no other phase sends anything.
\<close>

theorem sharded_fcv_raised_on_reported_readiness:
  assumes "sh_seeded m"
    and "run_state (reconcileShardedUpgrade W) (start_run m k) = (out, s')"
    and "cmd \<in> set (issued (r_log s'))"
  shows "cmd = SetFeatureCompatibilityVersion (fcvMajorMinor (sh_desired m)) \<and> sh_evidence W k m"
proof -
  have "wp (sharded_upgrade_dispatch W (sh_desired m)) (\<lambda>_. says_only (sh_cmds W k m (sh_desired m))) (start_run m k)"
    using sh_dispatch_cmds [where W = W and s = "start_run m k" and d = "sh_desired m"] by simp
  from wpD [OF this] have "says_only (sh_cmds W k m (sh_desired m)) s'"
    using assms by (simp add: reconcileShardedUpgrade_seeded)
  with assms(3) show ?thesis by (auto simp: sh_cmds_def split: if_splits)
qed

definition mongos_pod :: Pod where
  "mongos_pod = \<lparr>p_Name = ''sh-mongos-x'', p_Phase = ''Running'', p_ContainerStatuses = []\<rparr>"

lemma sample_service_ok: "NewServiceConnectFactory yes_driver svc ns port u p a pod ns' direct \<noteq> Inl e"
  by (simp add: NewServiceConnectFactory_def NewClient_def yes_driver_def Let_def)

lemma sample_mongos_fcv:
  "SetFCV yes_driver (mongos_factory yes_driver m pw) p ns v = ([SetFeatureCompatibilityVersion v], Inr ())"
  by (auto simp: SetFCV_def mongos_factory_def run_cmd_def sample_service_ok split: sum.splits)
    (simp add: yes_driver_def)

lemmas sharded_run = reconcileShardedUpgrade_def sharded_upgrade_dispatch_def reconcileShardedUpgradeValidation_def
  commitShardedFCV_def sh_password_def getAdminPassword_def getMongosPodName_def

lemma sample_sharded_interval:
  "parseValidationInterval (shd_UpgradeStrategy (ShSpec sample_sharded)) = 60000000000"
  by code_simp

lemma sample_sharded_facts:
  "ss_EffectiveVersion (ShStatus sample_sharded) = ''8.2.1''" "ss_Version (ShStatus sample_sharded) = ''8.0.4''"
  "ss_UpgradePhase (ShStatus sample_sharded) = ''Validating''" "ss_UpgradeStartTime (ShStatus sample_sharded) = Some 0"
  "ss_FCVVersion (ShStatus sample_sharded) = ''8.0''" "sh_desired sample_sharded = ''8.2.1''"
  "reported_ready sample_sharded" "\<not> sh_terminal_for_generation sample_sharded"
  by (simp_all add: sample_sharded_def reported_ready_def zero_component_def sh_terminal_for_generation_def)

theorem sharded_fcv_raised_on_reported_readiness_witness:
  "sh_evidence (sample_world (90 * second) rolling_sts [mongos_pod] yes_driver) 0 sample_sharded"
proof -
  let ?W = "sample_world (90 * second) rolling_sts [mongos_pod] yes_driver :: MongoDBSharded world"
  let ?s = "snd (run_state (reconcileShardedUpgrade ?W) (start_run sample_sharded 0))"
  have "sh_seeded sample_sharded" by (simp add: sh_seeded_def sample_sharded_def)
  moreover have "wp (reconcileShardedUpgrade ?W)
      (\<lambda>_ s'. SetFeatureCompatibilityVersion ''8.2'' \<in> set (issued (r_log s'))) (start_run sample_sharded 0)"
    by (simp add: sharded_run wp_flow wp_finish_with wp_UpdateWithRetry Let_def sample_world_def accept_update_def
        sample_versions upgrade_phase_defs time_sub_def second_def sample_mongos_fcv sample_sharded_facts
        sample_sharded_interval mongos_pod_def)
  ultimately show ?thesis
    using sharded_fcv_raised_on_reported_readiness [of sample_sharded ?W 0]
    by (metis (no_types, lifting) prod.collapse wpD)
qed

text \<open>
  That evidence is all there is: the decision does not read the StatefulSets. Whatever
  they look like, even mid-rollout, the upgrade machine does exactly the same.
\<close>

theorem sharded_validation_ignores_rollout:
  "run_state (reconcileShardedUpgrade (W\<lparr>w_sts := f\<rparr>)) s = run_state (reconcileShardedUpgrade W) s"
proof -
  have u: "UpdateWithRetry (W\<lparr>w_sts := f\<rparr>) g = UpdateWithRetry W g" for g
    by (simp add: UpdateWithRetry_def)
  let ?V = "W\<lparr>w_sts := f\<rparr>"
  have w: "w_now ?V = w_now W" "w_backup ?V = w_backup W" "w_create_backup ?V = w_create_backup W"
    "w_secret ?V = w_secret W" "w_pods ?V = w_pods W" "w_drv ?V = w_drv W" by simp_all
  show ?thesis
    unfolding reconcileShardedUpgrade_def sharded_upgrade_dispatch_def reconcileShardedUpgradeBackup_def
      reconcileShardedUpgradeValidation_def reconcileShardedUpgradeRollback_def finish_with_def create_backup_def
      commitShardedFCV_def sh_password_def getAdminPassword_def getMongosPodName_def u w ..
qed

end
