(* ===== verification/Sharded.thy ===== *)
theory Sharded
  imports Sharded_Upgrade Replica_Set
begin

text \<open>
  The controller of \<^verbatim>\<open>MongoDBSharded\<close> resources, \<^verbatim>\<open>internal/controller/mongodbsharded_controller.go\<close>:
  the twelve steps of a pass, scale-in with its drain polling and cleanup, the declarative sharding
  of collections, and the status. An index that is out of the range of a slice ends the pass with
  the value \<open>index_panic\<close>.
\<close>

section \<open>Building blocks\<close>

definition FinalizerMongoDBSharded :: string where
  "FinalizerMongoDBSharded = ''mongodbsharded.keiailab.com/finalizer''"

definition index_panic :: go_error where "index_panic = ErrMsg ''runtime error: index out of range''"

definition go_index :: "'a list \<Rightarrow> nat \<Rightarrow> go_error + 'a" where
  "go_index xs i = (if i < length xs then Inr (xs ! i) else Inl index_panic)"

definition shard_count :: "MongoDBSharded \<Rightarrow> nat" where
  "shard_count mdbsh = nat (sh_Count (shd_Shards (ShSpec mdbsh)))"

definition shard_name :: "MongoDBSharded \<Rightarrow> nat \<Rightarrow> string" where
  "shard_name mdbsh i = ShName mdbsh @ ''-shard-'' @ show_nat i"

definition apply_workload :: "'o world \<Rightarrow> string \<Rightarrow> bool \<Rightarrow> ('o, go_error option) ctl" where
  "apply_workload W name preserve = do {
     m \<leftarrow> the_obj;
     err \<leftarrow> ask (\<lambda>k. w_apply W k name m);
     emit_if_ok err (AppliedWorkload name m preserve);
     ret err
   }"

text \<open>\<^verbatim>\<open>if err := c; err != nil { return err }; d\<close>.\<close>

definition and_then :: "('o, go_error option) ctl \<Rightarrow> ('o, go_error option) ctl \<Rightarrow> ('o, go_error option) ctl" where
  "and_then c d = do {
     err \<leftarrow> c;
     case err of Some e \<Rightarrow> ret (Some e) | None \<Rightarrow> d
   }"

definition ignore_not_found :: "go_error option \<Rightarrow> go_error option" where
  "ignore_not_found err = (case err of Some e \<Rightarrow> if IsNotFound e then None else Some e | None \<Rightarrow> None)"

text \<open>\<^verbatim>\<open>errors.Join\<close>: the messages of the errors that are not nil, one per line.\<close>

definition JoinErrors :: "go_error option list \<Rightarrow> go_error option" where
  "JoinErrors errs =
     (let es = concat (map (\<lambda>e. case e of Some x \<Rightarrow> [x] | None \<Rightarrow> []) errs) in
      if es = [] then None else Some (ErrMsg (Join (map Error es) [CHR 0x0A])))"

section \<open>Workloads\<close>

definition reconcileConfigServerScriptsConfigMap :: "MongoDBSharded world \<Rightarrow> (MongoDBSharded, go_error option) ctl" where
  "reconcileConfigServerScriptsConfigMap W = do {
     mdbsh \<leftarrow> the_obj;
     if auth_AdminCredentialsSecretRef (shd_Auth (ShSpec mdbsh)) = [] then ret None
     else apply_built W ''configmap cfg-scripts''
   }"

definition reconcileShardScriptsConfigMap :: "MongoDBSharded world \<Rightarrow> nat \<Rightarrow> (MongoDBSharded, go_error option) ctl" where
  "reconcileShardScriptsConfigMap W i = do {
     mdbsh \<leftarrow> the_obj;
     if auth_AdminCredentialsSecretRef (shd_Auth (ShSpec mdbsh)) = [] then ret None
     else apply_built W (''configmap '' @ shard_name mdbsh i @ ''-scripts'')
   }"

definition reconcileConfigServer :: "MongoDBSharded world \<Rightarrow> (MongoDBSharded, go_error option) ctl" where
  "reconcileConfigServer W = do {
     mdbsh \<leftarrow> the_obj;
     and_then (reconcileConfigServerScriptsConfigMap W)
       (and_then (apply_built W ''service cfg-headless'')
         (apply_workload W (ShName mdbsh @ ''-cfg'')
            (IsConfigServerHPAActive mdbsh \<or> \<not> IsConfigServerScaleDeliberate mdbsh)))
   }"

definition isConfigServerReady :: "MongoDBSharded world \<Rightarrow> (MongoDBSharded, bool) ctl" where
  "isConfigServerReady W = do {
     mdbsh \<leftarrow> the_obj;
     got \<leftarrow> ask (\<lambda>k. w_sts W k (ShName mdbsh @ ''-cfg'') (ShNamespace mdbsh));
     ret (case got of Inl _ \<Rightarrow> False
          | Inr sts \<Rightarrow> sts_ReadyReplicas sts = cs_Members (shd_ConfigServer (ShSpec mdbsh)))
   }"

definition reconcileShard :: "MongoDBSharded world \<Rightarrow> nat \<Rightarrow> (MongoDBSharded, go_error option) ctl" where
  "reconcileShard W i = do {
     mdbsh \<leftarrow> the_obj;
     and_then (reconcileShardScriptsConfigMap W i)
       (and_then (apply_built W (''service '' @ shard_name mdbsh i @ ''-headless''))
         (apply_workload W (shard_name mdbsh i) (\<not> IsShardScaleDeliberate mdbsh)))
   }"

fun shards_ready :: "MongoDBSharded world \<Rightarrow> MongoDBSharded \<Rightarrow> nat list \<Rightarrow> (MongoDBSharded, bool) ctl" where
  "shards_ready W mdbsh [] = ret True"
| "shards_ready W mdbsh (i # rest) = do {
     got \<leftarrow> ask (\<lambda>k. w_sts W k (shard_name mdbsh i) (ShNamespace mdbsh));
     case got of
       Inl _ \<Rightarrow> ret False
     | Inr sts \<Rightarrow>
         if sts_ReadyReplicas sts \<noteq> sh_MembersPerShard (shd_Shards (ShSpec mdbsh)) then ret False
         else shards_ready W mdbsh rest
   }"

definition areShardsReady :: "MongoDBSharded world \<Rightarrow> (MongoDBSharded, bool) ctl" where
  "areShardsReady W = do {
     mdbsh \<leftarrow> the_obj;
     shards_ready W mdbsh [0..<shard_count mdbsh]
   }"

definition reconcileMongos :: "MongoDBSharded world \<Rightarrow> (MongoDBSharded, go_error option) ctl" where
  "reconcileMongos W = do {
     mdbsh \<leftarrow> the_obj;
     and_then (apply_built W ''configmap mongos'')
       (and_then (apply_built W ''service mongos'')
         (apply_workload W (ShName mdbsh @ ''-mongos'') (IsMongosHPAActive mdbsh)))
   }"

definition isMongosReady :: "MongoDBSharded world \<Rightarrow> (MongoDBSharded, bool) ctl" where
  "isMongosReady W = do {
     mdbsh \<leftarrow> the_obj;
     got \<leftarrow> ask (\<lambda>k. w_deployment W k (ShName mdbsh @ ''-mongos'') (ShNamespace mdbsh));
     ret (case got of Inl _ \<Rightarrow> False | Inr d \<Rightarrow> dep_ReadyReplicas d \<ge> 1)
   }"

section \<open>Initialisation\<close>

definition newShardedRSManager :: "mongo_driver \<Rightarrow> string \<Rightarrow> int \<Rightarrow> string \<Rightarrow> ConnectFactory" where
  "newShardedRSManager drv serviceName port adminPassword =
     NewPodConnectFactory drv serviceName port ''admin'' adminPassword ''admin''"

definition setConfigServerInitialized :: "MongoDBSharded mutator" where
  "setConfigServerInitialized _ = updsh (ss_ConfigServerInitialized_update (\<lambda>_. True))"

definition reconcileConfigServerInit :: "MongoDBSharded world \<Rightarrow> (MongoDBSharded, go_error option) ctl" where
  "reconcileConfigServerInit W = do {
     mdbsh \<leftarrow> the_obj;
     pw \<leftarrow> sh_password W mdbsh;
     case pw of
       Inl e \<Rightarrow> ret (Some (Wrapped ''get admin password'' e))
     | Inr adminPassword \<Rightarrow> do {
         let svc = ShName mdbsh @ ''-cfg-headless'';
         let firstPod = ShName mdbsh @ ''-cfg-0'';
         init \<leftarrow> ask (\<lambda>k. IsInitialized (w_drv W k) (newShardedRSManager (w_drv W k) svc 27019 adminPassword)
                            firstPod (ShNamespace mdbsh));
         case init of
           Inl e \<Rightarrow> ret (Some (Wrapped ''check config server init'' e))
         | Inr True \<Rightarrow> UpdateWithRetry W setConfigServerInitialized
         | Inr False \<Rightarrow> do {
             let config = BuildReplicaSetConfig (ShName mdbsh @ ''-cfg'') (ShName mdbsh @ ''-cfg'') svc
                            (ShNamespace mdbsh) (nat (cs_Members (shd_ConfigServer (ShSpec mdbsh)))) 27019;
             res \<leftarrow> issue (\<lambda>k. Initiate (w_drv W k) (newShardedRSManager (w_drv W k) svc 27019 adminPassword)
                                 firstPod (ShNamespace mdbsh) config);
             case res of
               Inl e \<Rightarrow> ret (Some (Wrapped ''failed to initiate config server replica set'' e))
             | Inr _ \<Rightarrow> UpdateWithRetry W setConfigServerInitialized
           }
       }
   }"

text \<open>\<^verbatim>\<open>make([]bool, n)\<close> and \<^verbatim>\<open>copy\<close>, when the slice is too short.\<close>

definition extend_flags :: "nat \<Rightarrow> bool list \<Rightarrow> bool list" where
  "extend_flags n flags = (if length flags < n then flags @ replicate (n - length flags) False else flags)"

fun init_shards ::
    "MongoDBSharded world \<Rightarrow> MongoDBSharded \<Rightarrow> string \<Rightarrow> nat list \<Rightarrow> go_error list \<Rightarrow> bool list
     \<Rightarrow> (MongoDBSharded, go_error + (go_error list \<times> bool list)) ctl" where
  "init_shards W mdbsh pw [] errs flags = ret (Inr (errs, flags))"
| "init_shards W mdbsh pw (i # rest) errs flags =
     (case go_index flags i of
        Inl p \<Rightarrow> ret (Inl p)
      | Inr True \<Rightarrow> init_shards W mdbsh pw rest errs flags
      | Inr False \<Rightarrow> do {
          let shardName = shard_name mdbsh i;
          let svc = shardName @ ''-headless'';
          init \<leftarrow> ask (\<lambda>k. IsInitialized (w_drv W k) (newShardedRSManager (w_drv W k) svc 27018 pw)
                             (shardName @ ''-0'') (ShNamespace mdbsh));
          case init of
            Inl e \<Rightarrow> init_shards W mdbsh pw rest (errs @ [Wrapped (''shard '' @ shardName @ '': check init'') e]) flags
          | Inr True \<Rightarrow> init_shards W mdbsh pw rest errs (flags[i := True])
          | Inr False \<Rightarrow> do {
              let config = BuildReplicaSetConfig shardName shardName svc (ShNamespace mdbsh)
                             (nat (sh_MembersPerShard (shd_Shards (ShSpec mdbsh)))) 27018;
              res \<leftarrow> issue (\<lambda>k. Initiate (w_drv W k) (newShardedRSManager (w_drv W k) svc 27018 pw)
                                  (shardName @ ''-0'') (ShNamespace mdbsh) config);
              case res of
                Inl e \<Rightarrow> init_shards W mdbsh pw rest (errs @ [Wrapped (''shard '' @ shardName @ '': initiate'') e]) flags
              | Inr _ \<Rightarrow> init_shards W mdbsh pw rest errs (flags[i := True])
            }
        })"

definition setShardsInitialized :: "bool list \<Rightarrow> MongoDBSharded mutator" where
  "setShardsInitialized flags _ = updsh (ss_ShardsInitialized_update (\<lambda>_. flags))"

text \<open>Write the snapshot of the flags; the errors of the shards come first.\<close>

definition persist_flags ::
    "MongoDBSharded world \<Rightarrow> (bool list \<Rightarrow> MongoDBSharded mutator) \<Rightarrow> go_error list \<times> bool list
     \<Rightarrow> (MongoDBSharded, go_error option) ctl" where
  "persist_flags W set_flags r = do {
     statusErr \<leftarrow> UpdateWithRetry W (set_flags (snd r));
     ret (if fst r \<noteq> [] then JoinErrors (map Some (fst r) @ [statusErr]) else statusErr)
   }"

definition reconcileShardsInit :: "MongoDBSharded world \<Rightarrow> (MongoDBSharded, go_error option) ctl" where
  "reconcileShardsInit W = do {
     m0 \<leftarrow> the_obj;
     put_obj (updsh (ss_ShardsInitialized_update (extend_flags (shard_count m0))) m0);
     mdbsh \<leftarrow> the_obj;
     pw \<leftarrow> sh_password W mdbsh;
     case pw of
       Inl e \<Rightarrow> ret (Some (Wrapped ''get admin password'' e))
     | Inr adminPassword \<Rightarrow> do {
         done \<leftarrow> init_shards W mdbsh adminPassword [0..<shard_count mdbsh] [] (ss_ShardsInitialized (ShStatus mdbsh));
         case done of
           Inl p \<Rightarrow> ret (Some p)
         | Inr r \<Rightarrow> persist_flags W setShardsInitialized r
       }
   }"

text \<open>The message is UTF-8 in the source.\<close>

definition admin_user_missing :: string where
  "admin_user_missing = ''admin user not found '' @ emdash @ '' '' @
     ''mongos pod'' @
     utf8 [236, 157, 152] @
     '' postStart bootstrap'' @
     utf8 [236, 157, 180] @
     '' '' @
     utf8 [236, 139, 164, 237, 150, 137, 235, 144, 152, 236, 167, 128] @
     '' '' @
     utf8 [236, 149, 138, 236, 149, 152, 234, 177, 176, 235, 130, 152] @
     '' '' @
     utf8 [236, 139, 164, 237, 140, 168, 237, 149, 168]"

definition setShardedAdminCreated :: "MongoDBSharded mutator" where
  "setShardedAdminCreated _ = updsh (ss_AdminUserCreated_update (\<lambda>_. True))"

definition reconcileShardedAdminUser :: "MongoDBSharded world \<Rightarrow> (MongoDBSharded, go_error option) ctl" where
  "reconcileShardedAdminUser W = do {
     mdbsh \<leftarrow> the_obj;
     pw \<leftarrow> sh_password W mdbsh;
     case pw of
       Inl e \<Rightarrow> ret (Some (Wrapped ''failed to get admin password'' e))
     | Inr adminPassword \<Rightarrow> do {
         pod \<leftarrow> getMongosPodName W mdbsh;
         case pod of
           Inl e \<Rightarrow> ret (Some (Wrapped ''failed to get mongos pod'' e))
         | Inr mongosPod \<Rightarrow> do {
             ex \<leftarrow> ask (\<lambda>k. UserExists (w_drv W k) (mongos_factory (w_drv W k) mdbsh adminPassword)
                            mongosPod (ShNamespace mdbsh) ''admin'' ''admin'');
             case ex of
               Inl e \<Rightarrow> ret (Some (Wrapped ''verify admin user'' e))
             | Inr False \<Rightarrow> ret (Some (ErrMsg admin_user_missing))
             | Inr True \<Rightarrow> UpdateWithRetry W setShardedAdminCreated
           }
       }
   }"

fun add_shards ::
    "MongoDBSharded world \<Rightarrow> MongoDBSharded \<Rightarrow> string \<Rightarrow> string \<Rightarrow> nat list \<Rightarrow> go_error list \<Rightarrow> bool list
     \<Rightarrow> (MongoDBSharded, go_error + (go_error list \<times> bool list)) ctl" where
  "add_shards W mdbsh pw mongosPod [] errs flags = ret (Inr (errs, flags))"
| "add_shards W mdbsh pw mongosPod (i # rest) errs flags =
     (case go_index flags i of
        Inl p \<Rightarrow> ret (Inl p)
      | Inr True \<Rightarrow> add_shards W mdbsh pw mongosPod rest errs flags
      | Inr False \<Rightarrow> do {
          let shardName = shard_name mdbsh i;
          let connString = BuildShardConnectionString shardName shardName (shardName @ ''-headless'') (ShNamespace mdbsh)
                             (nat (sh_MembersPerShard (shd_Shards (ShSpec mdbsh)))) 27018;
          res \<leftarrow> issue (\<lambda>k. AddShard (w_drv W k) (mongos_factory (w_drv W k) mdbsh pw) mongosPod (ShNamespace mdbsh) connString);
          case res of
            Inl e \<Rightarrow> add_shards W mdbsh pw mongosPod rest (errs @ [Wrapped (''shard '' @ shardName @ '': add'') e]) flags
          | Inr _ \<Rightarrow> add_shards W mdbsh pw mongosPod rest errs (flags[i := True])
        })"

definition setShardsAdded :: "bool list \<Rightarrow> MongoDBSharded mutator" where
  "setShardsAdded flags _ = updsh (ss_ShardsAdded_update (\<lambda>_. flags))"

definition all_initialized :: "MongoDBSharded \<Rightarrow> bool" where
  "all_initialized mdbsh \<longleftrightarrow>
     list_all (\<lambda>i. i < length (ss_ShardsInitialized (ShStatus mdbsh)) \<and> ss_ShardsInitialized (ShStatus mdbsh) ! i)
       [0..<shard_count mdbsh]"

definition reconcileAddShards :: "MongoDBSharded world \<Rightarrow> (MongoDBSharded, go_error option) ctl" where
  "reconcileAddShards W = do {
     m0 \<leftarrow> the_obj;
     put_obj (updsh (ss_ShardsAdded_update (extend_flags (shard_count m0))) m0);
     mdbsh \<leftarrow> the_obj;
     if \<not> all_initialized mdbsh then ret None
     else do {
       pw \<leftarrow> sh_password W mdbsh;
       case pw of
         Inl e \<Rightarrow> ret (Some (Wrapped ''failed to get admin password'' e))
       | Inr adminPassword \<Rightarrow> do {
           pod \<leftarrow> getMongosPodName W mdbsh;
           case pod of
             Inl e \<Rightarrow> ret (Some (Wrapped ''failed to get mongos pod'' e))
           | Inr mongosPod \<Rightarrow> do {
               done \<leftarrow> add_shards W mdbsh adminPassword mongosPod [0..<shard_count mdbsh] [] (ss_ShardsAdded (ShStatus mdbsh));
               case done of
                 Inl p \<Rightarrow> ret (Some p)
               | Inr r \<Rightarrow> persist_flags W setShardsAdded r
             }
         }
     }
   }"

section \<open>Scale-in\<close>

definition shardDraining :: string where "shardDraining = ''ShardDraining''"

definition in_conditions :: "(Condition list \<Rightarrow> Condition list) \<Rightarrow> MongoDBSharded \<Rightarrow> MongoDBSharded" where
  "in_conditions f m = updsh (ss_Conditions_update f) m"

text \<open>
  \<^verbatim>\<open>SetStatusCondition\<close> fills in the current time where the condition has none, so it is passed here.
\<close>

definition draining_condition :: "gotime \<Rightarrow> int64 \<Rightarrow> string \<Rightarrow> RemoveShardResult \<Rightarrow> Condition" where
  "draining_condition now gen shardName result =
     \<lparr>c_Type = shardDraining, c_Status = ConditionTrue, c_ObservedGeneration = gen, c_LastTransitionTime = now,
      c_Reason = rsr_State result,
      c_Message = ''shard '' @ shardName @ '' state='' @ rsr_State result @ '', remaining chunks='' @
        show_int (rsr_Chunks result) @ '', dbs='' @ show_int (rsr_Databases result)\<rparr>"

definition recordShardDrainingCondition ::
    "MongoDBSharded world \<Rightarrow> gotime \<Rightarrow> string \<Rightarrow> RemoveShardResult \<Rightarrow> MongoDBSharded \<Rightarrow> MongoDBSharded" where
  "recordShardDrainingCondition W now shardName result m =
     in_conditions (w_SetStatusCondition W (draining_condition now (ShGeneration m) shardName result)) m"

definition poll_interval :: "duration \<Rightarrow> duration" where
  "poll_interval elapsed =
     (if elapsed < 5 * minute then 30 * second else if elapsed < 30 * minute then 1 * minute else 5 * minute)"

fun scale_in_poll :: "gotime \<Rightarrow> string \<Rightarrow> Condition list \<Rightarrow> duration" where
  "scale_in_poll now shardName [] = 30 * second"
| "scale_in_poll now shardName (c # cs) =
     (if c_Type c = shardDraining \<and> StrContains (c_Message c) shardName
      then poll_interval (time_sub now (c_LastTransitionTime c)) else scale_in_poll now shardName cs)"

definition scaleInPollInterval :: "gotime \<Rightarrow> MongoDBSharded \<Rightarrow> string \<Rightarrow> duration" where
  "scaleInPollInterval now mdbsh shardName = scale_in_poll now shardName (ss_Conditions (ShStatus mdbsh))"

text \<open>\<^verbatim>\<open>Delete\<close> each object in order; one that is already gone is fine.\<close>

fun delete_each ::
    "'o world \<Rightarrow> (string \<Rightarrow> string \<Rightarrow> string) \<Rightarrow> (string \<times> string) list \<Rightarrow> ('o, go_error option) ctl" where
  "delete_each W what [] = ret None"
| "delete_each W what ((kind, name) # rest) = do {
     err \<leftarrow> delete_named W kind name;
     case ignore_not_found err of
       Some e \<Rightarrow> ret (Some (Wrapped (what kind name) e))
     | None \<Rightarrow> delete_each W what rest
   }"

definition shard_objects :: "string \<Rightarrow> (string \<times> string) list" where
  "shard_objects base =
     [(''StatefulSet'', base), (''Service'', base @ ''-headless''), (''ConfigMap'', base @ ''-scripts''),
      (''PodDisruptionBudget'', base @ ''-pdb''), (''NetworkPolicy'', base @ ''-netpol'')]"

definition reset_flags :: "nat \<Rightarrow> MongoDBSharded \<Rightarrow> MongoDBSharded" where
  "reset_flags i = updsh (\<lambda>s. s\<lparr>ss_ShardsAdded := (ss_ShardsAdded s)[i := False],
                                ss_ShardsInitialized := (ss_ShardsInitialized s)[i := False]\<rparr>)"

definition cleanupShardResources :: "MongoDBSharded world \<Rightarrow> nat \<Rightarrow> (MongoDBSharded, go_error option) ctl" where
  "cleanupShardResources W i = do {
     mdbsh \<leftarrow> the_obj;
     let pre = shard_name mdbsh i;
     err \<leftarrow> delete_each W (\<lambda>kind name. ''delete *v1.'' @ kind @ '' '' @ name) (shard_objects pre);
     case err of
       Some e \<Rightarrow> ret (Some e)
     | None \<Rightarrow> do {
         pvcs \<leftarrow> ask (\<lambda>k. w_pvcs W k (ShNamespace mdbsh)
                   [(''app.kubernetes.io/component'', ''shard-'' @ show_nat i), (''app.kubernetes.io/instance'', ShName mdbsh)]);
         case pvcs of
           Inl e \<Rightarrow> ret (Some (Wrapped (''list PVCs for '' @ pre) e))
         | Inr names \<Rightarrow> do {
             derr \<leftarrow> delete_each W (\<lambda>_ name. ''delete PVC '' @ name) (map (Pair ''PersistentVolumeClaim'') names);
             case derr of
               Some e \<Rightarrow> ret (Some e)
             | None \<Rightarrow> do {
                 put_obj (reset_flags i mdbsh);
                 ret None
               }
           }
       }
   }"

definition drop_condition :: "MongoDBSharded world \<Rightarrow> string \<Rightarrow> (MongoDBSharded, unit) ctl" where
  "drop_condition W ty = do {
     m \<leftarrow> the_obj;
     put_obj (in_conditions (w_RemoveStatusCondition W ty) m)
   }"

fun drain_shards ::
    "MongoDBSharded world \<Rightarrow> string \<Rightarrow> nat list \<Rightarrow> (MongoDBSharded, reconcile_result) ctl" where
  "drain_shards W pw [] = do {
     drop_condition W shardDraining;
     ret (no_requeue, None)
   }"
| "drain_shards W pw (i # rest) = do {
     mdbsh \<leftarrow> the_obj;
     let shardName = shard_name mdbsh i;
     res \<leftarrow> issue (\<lambda>k. RemoveShardWithStatus (w_drv W k) (mongos_factory (w_drv W k) mdbsh pw)
                        (ShName mdbsh @ ''-mongos-0'') (ShNamespace mdbsh) shardName);
     case res of
       Inl e \<Rightarrow> ret (no_requeue, Some (Wrapped (''remove shard '' @ shardName) e))
     | Inr result \<Rightarrow>
         if rsr_State result \<noteq> ''completed'' then do {
           now \<leftarrow> ask (w_now W);
           put_obj (recordShardDrainingCondition W now shardName result mdbsh);
           m \<leftarrow> the_obj;
           now2 \<leftarrow> ask (w_now W);
           ret (requeue_after (scaleInPollInterval now2 m shardName), None)
         }
         else do {
           err \<leftarrow> cleanupShardResources W i;
           case err of
             Some e \<Rightarrow> ret (no_requeue, Some (Wrapped (''cleanup shard '' @ shardName) e))
           | None \<Rightarrow> drain_shards W pw rest
         }
   }"

definition reconcileScaleIn :: "MongoDBSharded world \<Rightarrow> (MongoDBSharded, reconcile_result) ctl" where
  "reconcileScaleIn W = do {
     mdbsh \<leftarrow> the_obj;
     let shardLen = length (ss_Shards (ShStatus mdbsh));
     if shardLen > 2147483647 then ret (no_requeue, None)
     else if sh_Count (shd_Shards (ShSpec mdbsh)) \<ge> int shardLen then do {
       drop_condition W shardDraining;
       ret (no_requeue, None)
     }
     else do {
       pw \<leftarrow> sh_password W mdbsh;
       case pw of
         Inl e \<Rightarrow> ret (no_requeue, Some (Wrapped ''get admin password'' e))
       | Inr adminPassword \<Rightarrow> drain_shards W adminPassword [shard_count mdbsh..<shardLen]
     }
   }"

section \<open>Sharded collections\<close>

definition buildShardKey :: "ShardKeyField list \<Rightarrow> bson_doc" where
  "buildShardKey keyFields = map (\<lambda>f. (skf_Field f,
     if skf_Order f = ''hashed'' then BString ''hashed''
     else if skf_Order f = ''-1'' then BInt32 (-1) else BInt32 1)) keyFields"

definition buildShardCollectionOptions :: "ShardedCollectionSpec \<Rightarrow> ShardCollectionOptions option" where
  "buildShardCollectionOptions sc =
     (if \<not> sc_Unique sc \<and> sc_Timeseries sc = None then None
      else Some \<lparr>sco_Unique = sc_Unique sc,
        sco_Timeseries = map_option (\<lambda>t. \<lparr>tso_TimeField = ts_TimeField t, tso_MetaField = ts_MetaField t,
          tso_Granularity = ts_Granularity t\<rparr>) (sc_Timeseries sc)\<rparr>)"

definition isNamespaceNotFound :: "string \<Rightarrow> bool" where
  "isNamespaceNotFound msg \<longleftrightarrow> StrContains msg ''NamespaceNotFound'' \<or> StrContains msg ''ns not found''
     \<or> StrContains msg ''does not exist''"

definition isConnectError :: "string \<Rightarrow> bool" where
  "isConnectError msg \<longleftrightarrow> StrContains msg ''connect for'' \<or> StrContains msg ''connection refused''
     \<or> StrContains msg ''server selection error'' \<or> StrContains msg ''context deadline exceeded''
     \<or> StrContains msg ''no reachable servers''"

definition all_added :: "MongoDBSharded \<Rightarrow> bool" where
  "all_added mdbsh \<longleftrightarrow> length (ss_ShardsAdded (ShStatus mdbsh)) \<ge> shard_count mdbsh
     \<and> list_all (\<lambda>i. ss_ShardsAdded (ShStatus mdbsh) ! i) [0..<shard_count mdbsh]"

text \<open>The loop over the declared collections: the drift messages and whether to come back.\<close>

fun ensure_collections ::
    "MongoDBSharded world \<Rightarrow> MongoDBSharded \<Rightarrow> string \<Rightarrow> string \<Rightarrow> ShardedCollectionSpec list \<Rightarrow> string list \<Rightarrow> bool
     \<Rightarrow> (MongoDBSharded, go_error + (string list \<times> bool)) ctl" where
  "ensure_collections W mdbsh pw mongosPod [] drift requeue = ret (Inr (drift, requeue))"
| "ensure_collections W mdbsh pw mongosPod (sc # rest) drift requeue = do {
     let ns = sc_Database sc @ ''.'' @ sc_Collection sc;
     res \<leftarrow> issue (\<lambda>k. EnsureShardedCollection (w_drv W k) (mongos_factory (w_drv W k) mdbsh pw) mongosPod
              (ShNamespace mdbsh) (sc_Database sc) (sc_Collection sc) (buildShardKey (sc_ShardKey sc))
              (buildShardCollectionOptions sc));
     case res of
       Inr _ \<Rightarrow> ensure_collections W mdbsh pw mongosPod rest drift requeue
     | Inl e \<Rightarrow>
         if StrContains (Error e) ''ShardKeyDrift'' then
           ensure_collections W mdbsh pw mongosPod rest (drift @ [ns @ '': '' @ Error e]) requeue
         else if isNamespaceNotFound (Error e) \<or> isConnectError (Error e) then
           ensure_collections W mdbsh pw mongosPod rest drift True
         else ret (Inl (Wrapped (''ensure sharded collection '' @ ns) e))
   }"

definition shardKeyDrift :: string where "shardKeyDrift = ''ShardKeyDrift''"

definition applyDrift :: "MongoDBSharded world \<Rightarrow> string list \<Rightarrow> MongoDBSharded mutator" where
  "applyDrift W driftMsgs now m =
     (if driftMsgs \<noteq> [] then
        in_conditions (w_SetStatusCondition W
          \<lparr>c_Type = shardKeyDrift, c_Status = ConditionTrue, c_ObservedGeneration = ShGeneration m,
           c_LastTransitionTime = now, c_Reason = ''ShardKeyMismatch'', c_Message = Join driftMsgs ''; ''\<rparr>) m
      else in_conditions (w_RemoveStatusCondition W shardKeyDrift) m)"

text \<open>What follows the loop.\<close>

definition finish_collections ::
    "MongoDBSharded world \<Rightarrow> string list \<Rightarrow> bool \<Rightarrow> (MongoDBSharded, reconcile_result) ctl" where
  "finish_collections W drift requeue =
     (if requeue then
        (if drift \<noteq> [] then do {
           err \<leftarrow> UpdateWithRetry W (applyDrift W drift);
           ret (case err of
                  Some e \<Rightarrow> (no_requeue, Some (Wrapped ''persist ShardKeyDrift condition before requeue'' e))
                | None \<Rightarrow> (requeue_after requeueProvisioning, None))
         }
         else do {
           t \<leftarrow> ask (w_now W);
           m \<leftarrow> the_obj;
           put_obj (applyDrift W drift t m);
           ret (requeue_after requeueProvisioning, None)
         })
      else do {
        t \<leftarrow> ask (w_now W);
        m \<leftarrow> the_obj;
        put_obj (applyDrift W drift t m);
        ret (no_requeue, None)
      })"

definition reconcileShardedCollections :: "MongoDBSharded world \<Rightarrow> (MongoDBSharded, reconcile_result) ctl" where
  "reconcileShardedCollections W = do {
     mdbsh \<leftarrow> the_obj;
     if shd_ShardedCollections (ShSpec mdbsh) = [] then do {
       drop_condition W shardKeyDrift;
       ret (no_requeue, None)
     }
     else do {
       mongosReady \<leftarrow> isMongosReady W;
       if \<not> mongosReady \<or> \<not> all_added mdbsh then ret (requeue_after requeueProvisioning, None)
       else do {
         pw \<leftarrow> sh_password W mdbsh;
         case pw of
           Inl e \<Rightarrow> ret (no_requeue, Some (Wrapped ''get admin password'' e))
         | Inr adminPassword \<Rightarrow> do {
             pod \<leftarrow> getMongosPodName W mdbsh;
             case pod of
               Inl _ \<Rightarrow> ret (requeue_after requeueProvisioning, None)
             | Inr mongosPod \<Rightarrow> do {
                 res \<leftarrow> ensure_collections W mdbsh adminPassword mongosPod (shd_ShardedCollections (ShSpec mdbsh)) [] False;
                 case res of
                   Inl e \<Rightarrow> ret (no_requeue, Some e)
                 | Inr (drift, requeue) \<Rightarrow> finish_collections W drift requeue
               }
           }
       }
     }
   }"

text \<open>
  What is observed of \<^verbatim>\<open>config.collections\<close>; \<open>None\<close> is a failed observation. \<^verbatim>\<open>sort.Strings\<close> orders
  strings by their bytes.
\<close>

definition user_namespaces :: "string list \<Rightarrow> string list" where
  "user_namespaces nss =
     sort (filter (\<lambda>n. \<not> HasPrefix n ''config.'' \<and> \<not> HasPrefix n ''admin.'') nss)"

definition observeShardedCollections :: "MongoDBSharded world \<Rightarrow> (MongoDBSharded, string list option) ctl" where
  "observeShardedCollections W = do {
     mdbsh \<leftarrow> the_obj;
     mongosReady \<leftarrow> isMongosReady W;
     if \<not> mongosReady then ret None
     else do {
       pw \<leftarrow> sh_password W mdbsh;
       case pw of
         Inl _ \<Rightarrow> ret None
       | Inr adminPassword \<Rightarrow> do {
           pod \<leftarrow> getMongosPodName W mdbsh;
           case pod of
             Inl _ \<Rightarrow> ret None
           | Inr mongosPod \<Rightarrow> do {
               infos \<leftarrow> ask (\<lambda>k. ListShardedNamespaces (w_drv W k) (mongos_factory (w_drv W k) mdbsh adminPassword)
                                 mongosPod (ShNamespace mdbsh));
               ret (case infos of Inl _ \<Rightarrow> None | Inr is \<Rightarrow> Some (user_namespaces (map fst is)))
             }
         }
     }
   }"

section \<open>Status\<close>

definition getComponentPhase :: "int32 \<Rightarrow> int32 \<Rightarrow> string" where
  "getComponentPhase ready n = (if ready = n then ''Running'' else if ready > 0 then ''Initializing'' else ''Pending'')"

definition cfg_target :: "MongoDBSharded \<Rightarrow> int32" where
  "cfg_target m = (if IsConfigServerHPAActive m \<and> cst_Total (ss_ConfigServer (ShStatus m)) > 0
     then cst_Total (ss_ConfigServer (ShStatus m)) else cs_Members (shd_ConfigServer (ShSpec m)))"

definition mongos_target :: "MongoDBSharded \<Rightarrow> int32" where
  "mongos_target m = (if IsMongosHPAActive m \<and> cst_Total (ss_Mongos (ShStatus m)) > 0
     then cst_Total (ss_Mongos (ShStatus m)) else ms_Replicas (shd_Mongos (ShSpec m)))"

definition isClusterReady :: "MongoDBSharded \<Rightarrow> bool" where
  "isClusterReady m =
     (let shardLen = length (ss_Shards (ShStatus m)); members = sh_MembersPerShard (shd_Shards (ShSpec m)) in
      if shardLen > 2147483647 \<or> int shardLen \<noteq> sh_Count (shd_Shards (ShSpec m)) then False
      else if cfg_target m \<le> 0 \<or> cst_Ready (ss_ConfigServer (ShStatus m)) \<noteq> cfg_target m then False
      else if mongos_target m \<le> 0 \<or> cst_Ready (ss_Mongos (ShStatus m)) \<noteq> mongos_target m then False
      else if members \<le> 0 then False
      else list_all (\<lambda>s. sst_Ready s = members) (ss_Shards (ShStatus m)))"

definition sharded_condition :: "MongoDBSharded \<Rightarrow> string \<Rightarrow> string \<Rightarrow> string \<Rightarrow> string \<Rightarrow> Condition" where
  "sharded_condition m ty status reason message =
     \<lparr>c_Type = ty, c_Status = status, c_ObservedGeneration = ShGeneration m, c_LastTransitionTime = 0,
      c_Reason = reason, c_Message = message\<rparr>"

text \<open>A condition that is \<^verbatim>\<open>Available\<close> or \<^verbatim>\<open>Initializing\<close>.\<close>

definition availability :: "MongoDBSharded \<Rightarrow> string \<Rightarrow> bool \<Rightarrow> string \<Rightarrow> Condition" where
  "availability m ty ok message =
     sharded_condition m ty (if ok then ConditionTrue else ConditionFalse) (if ok then ''Available'' else ''Initializing'') message"

definition component_ready :: "ComponentStatus \<Rightarrow> bool" where
  "component_ready c \<longleftrightarrow> cst_Ready c = cst_Total c \<and> cst_Total c > 0"

definition all_shards_ready :: "ShardStatus list \<Rightarrow> bool" where
  "all_shards_ready ss \<longleftrightarrow> ss \<noteq> [] \<and> \<not> list_ex (\<lambda>s. sst_Ready s \<noteq> sst_Total s \<or> sst_Total s = 0) ss"

definition ready_of_total :: "string \<Rightarrow> ComponentStatus \<Rightarrow> string" where
  "ready_of_total what c = what @ '' '' @ show_int (cst_Ready c) @ ''/'' @ show_int (cst_Total c) @ '' ready''"

definition evaluateShardedConditions :: "MongoDBSharded \<Rightarrow> bool \<Rightarrow> Condition list" where
  "evaluateShardedConditions m ready =
     [availability m ''Ready'' ready
        (if ready then ''All components (config server, shards, mongos) ready''
         else ''MongoDBSharded cluster is initializing components''),
      sharded_condition m ''Progressing'' (if ready then ConditionFalse else ConditionTrue)
        (if ready then ''Available'' else ''Initializing'')
        (if ready then ''Cluster reached desired state'' else ''Cluster components transitioning to ready state''),
      availability m ''ConfigServerReady'' (component_ready (ss_ConfigServer (ShStatus m)))
        (ready_of_total ''ConfigServer'' (ss_ConfigServer (ShStatus m))),
      availability m ''ShardsReady'' (all_shards_ready (ss_Shards (ShStatus m)))
        (show_nat (length (ss_Shards (ShStatus m))) @ ''/'' @ show_int (sh_Count (shd_Shards (ShSpec m)))
           @ '' shards reporting all members ready''),
      availability m ''MongosReady'' (component_ready (ss_Mongos (ShStatus m)))
        (ready_of_total ''Mongos'' (ss_Mongos (ShStatus m)))]
     @ (case shd_TLS (ShSpec m) of None \<Rightarrow> [] | Some t \<Rightarrow>
          if tls_Enabled t then [sharded_condition m ''TLSReady'' ConditionTrue ''TLSEnabled''
            ''TLS spec enabled (cert validation is operator-internal)''] else [])
     @ (case shd_Backup (ShSpec m) of None \<Rightarrow> [] | Some b \<Rightarrow>
          if bk_Enabled b then [sharded_condition m ''BackupReady'' ConditionTrue ''BackupEnabled''
            (''Backup enabled (schedule: '' @ Quote (bk_Schedule b) @ '', type: '' @ bs_Type (bk_Storage b) @ '')'')] else [])"

definition sharded_applyStatus :: "MongoDBSharded world \<Rightarrow> string list option \<Rightarrow> bool \<Rightarrow> MongoDBSharded mutator" where
  "sharded_applyStatus W observed ready now mdbsh =
     (let m1 = updsh (\<lambda>s. s\<lparr>ss_ConnectionString := ''mongodb://'' @ ShName mdbsh @ ''-mongos.'' @ ShNamespace mdbsh
                              @ ''.svc.cluster.local:27017'',
                 ss_ShardedCollections := (case observed of Some o' \<Rightarrow> o' | None \<Rightarrow> ss_ShardedCollections s),
                 ss_ObservedGeneration := ShGeneration mdbsh,
                 ss_Conditions := clearReconcileErrorCondition (w_SetStatusCondition W) (ss_Conditions s)
                   (ShGeneration mdbsh) now\<rparr>) mdbsh
      in in_conditions (fold (w_SetStatusCondition W) (evaluateShardedConditions m1 ready)) m1)"

text \<open>
  The shards that have a StatefulSet, in order. A component that is not found keeps its previous
  status; any other error ends the update.
\<close>

fun observe_shards ::
    "MongoDBSharded world \<Rightarrow> MongoDBSharded \<Rightarrow> nat list \<Rightarrow> ShardStatus list
     \<Rightarrow> (MongoDBSharded, go_error + ShardStatus list) ctl" where
  "observe_shards W m [] acc = ret (Inr acc)"
| "observe_shards W m (i # rest) acc = do {
     got \<leftarrow> ask (\<lambda>k. w_sts W k (shard_name m i) (ShNamespace m));
     case got of
       Inr sts \<Rightarrow> observe_shards W m rest (acc @ [\<lparr>sst_Name = shard_name m i, sst_Ready = sts_ReadyReplicas sts,
           sst_Total = sh_MembersPerShard (shd_Shards (ShSpec m)), sst_Primary = [],
           sst_Phase = getComponentPhase (sts_ReadyReplicas sts) (sh_MembersPerShard (shd_Shards (ShSpec m)))\<rparr>])
     | Inl e \<Rightarrow> if IsNotFound e then observe_shards W m rest acc
                else ret (Inl (Wrapped (''get shard '' @ show_nat i @ '' statefulset for status'') e))
   }"

definition component_status :: "int32 \<Rightarrow> int32 \<Rightarrow> ComponentStatus" where
  "component_status ready n =
     \<lparr>cst_Ready = ready, cst_Total = n, cst_Phase = getComponentPhase ready n, cst_HPA = None, cst_PendingScale = None\<rparr>"

definition live_total :: "bool \<Rightarrow> int32 option \<Rightarrow> int32 \<Rightarrow> int32" where
  "live_total hpa replicas spec = (case replicas of Some n \<Rightarrow> if hpa then n else spec | None \<Rightarrow> spec)"

definition observe_config_server :: "MongoDBSharded world \<Rightarrow> (MongoDBSharded, go_error option) ctl" where
  "observe_config_server W = do {
     m \<leftarrow> the_obj;
     got \<leftarrow> ask (\<lambda>k. w_sts W k (ShName m @ ''-cfg'') (ShNamespace m));
     case got of
       Inr sts \<Rightarrow> do {
         put_obj (updsh (ss_ConfigServer_update (\<lambda>_. component_status (sts_ReadyReplicas sts)
           (live_total (IsConfigServerHPAActive m) (sts_Replicas sts) (cs_Members (shd_ConfigServer (ShSpec m)))))) m);
         ret None
       }
     | Inl e \<Rightarrow> ret (if IsNotFound e then None else Some (Wrapped ''get cfg statefulset for status'' e))
   }"

definition observe_all_shards :: "MongoDBSharded world \<Rightarrow> (MongoDBSharded, go_error option) ctl" where
  "observe_all_shards W = do {
     m \<leftarrow> the_obj;
     got \<leftarrow> observe_shards W m [0..<shard_count m] [];
     case got of
       Inr shards \<Rightarrow> do { put_obj (updsh (ss_Shards_update (\<lambda>_. shards)) m); ret None }
     | Inl e \<Rightarrow> ret (Some e)
   }"

definition observe_mongos :: "MongoDBSharded world \<Rightarrow> (MongoDBSharded, go_error option) ctl" where
  "observe_mongos W = do {
     m \<leftarrow> the_obj;
     got \<leftarrow> ask (\<lambda>k. w_deployment W k (ShName m @ ''-mongos'') (ShNamespace m));
     case got of
       Inr d \<Rightarrow> do {
         put_obj (updsh (ss_Mongos_update (\<lambda>_. component_status (dep_ReadyReplicas d)
           (live_total (IsMongosHPAActive m) (dep_Replicas d) (ms_Replicas (shd_Mongos (ShSpec m)))))) m);
         ret None
       }
     | Inl e \<Rightarrow> ret (if IsNotFound e then None else Some (Wrapped ''get mongos deployment for status'' e))
   }"

definition sharded_updateStatus :: "MongoDBSharded world \<Rightarrow> (MongoDBSharded, go_error option) ctl" where
  "sharded_updateStatus W =
     and_then (observe_config_server W) (and_then (observe_all_shards W) (and_then (observe_mongos W) (do {
       m \<leftarrow> the_obj;
       let ready = isClusterReady m;
       put_obj (updsh (ss_Phase_update (\<lambda>_. if ready then ''Running'' else ''Initializing'')) m);
       observed \<leftarrow> observeShardedCollections W;
       UpdateWithRetry W (sharded_applyStatus W observed ready)
     })))"

section \<open>Autoscalers and policies\<close>

definition areShardsInitialized :: "MongoDBSharded \<Rightarrow> bool" where
  "areShardsInitialized m \<longleftrightarrow> length (ss_ShardsInitialized (ShStatus m)) \<ge> shard_count m
     \<and> list_all (\<lambda>i. ss_ShardsInitialized (ShStatus m) ! i) [0..<shard_count m]"

text \<open>\<^verbatim>\<open>Get\<close>, then \<^verbatim>\<open>Delete\<close>: an object that is gone before either is fine.\<close>

definition cleanup_quiet :: "'o world \<Rightarrow> string \<Rightarrow> string \<Rightarrow> ('o, go_error option) ctl" where
  "cleanup_quiet W kind name = do {
     err \<leftarrow> cleanup_named W kind name;
     ret (ignore_not_found err)
   }"

definition reconcile_hpa ::
    "MongoDBSharded world \<Rightarrow> string \<Rightarrow> string \<Rightarrow> HPAParams option \<Rightarrow> (MongoDBSharded, go_error option) ctl" where
  "reconcile_hpa W name what desired =
     (case desired of
        None \<Rightarrow> cleanup_quiet W ''HorizontalPodAutoscaler'' name
      | Some _ \<Rightarrow> do {
          err \<leftarrow> apply_built W (''hpa '' @ name);
          ret (map_option (Wrapped (''apply '' @ what @ '' HPA'')) err)
        })"

definition reconcileMongosHPA :: "bool \<Rightarrow> MongoDBSharded world \<Rightarrow> (MongoDBSharded, go_error option) ctl" where
  "reconcileMongosHPA enableAutoscaling W =
     (if \<not> enableAutoscaling then ret None
      else do {
        m \<leftarrow> the_obj;
        if \<not> ss_ConfigServerInitialized (ShStatus m) \<or> \<not> areShardsInitialized m then ret None
        else reconcile_hpa W (ShName m @ ''-mongos-hpa'') ''mongos'' (BuildMongosHPA m)
      })"

definition reconcileConfigServerHPA :: "bool \<Rightarrow> MongoDBSharded world \<Rightarrow> (MongoDBSharded, go_error option) ctl" where
  "reconcileConfigServerHPA enableAutoscaling W =
     (if \<not> enableAutoscaling then ret None
      else do {
        m \<leftarrow> the_obj;
        if \<not> ss_ConfigServerInitialized (ShStatus m) then ret None
        else reconcile_hpa W (ShName m @ ''-cfg-hpa'') ''cfg'' (BuildConfigServerHPA m)
      })"

fun apply_each :: "'o world \<Rightarrow> string \<Rightarrow> string list \<Rightarrow> ('o, go_error option) ctl" where
  "apply_each W what [] = ret None"
| "apply_each W what (n # ns) = do {
     err \<leftarrow> apply_built W (what @ '' '' @ n);
     case err of
       Some e \<Rightarrow> ret (Some (Wrapped (''apply '' @ what @ '' '' @ n) e))
     | None \<Rightarrow> apply_each W what ns
   }"

fun cleanup_each :: "'o world \<Rightarrow> string \<Rightarrow> string list \<Rightarrow> ('o, go_error option) ctl" where
  "cleanup_each W kind [] = ret None"
| "cleanup_each W kind (n # ns) = and_then (cleanup_quiet W kind n) (cleanup_each W kind ns)"

definition policy_names :: "MongoDBSharded \<Rightarrow> string \<Rightarrow> string list" where
  "policy_names m ending = [ShName m @ ''-cfg'' @ ending, ShName m @ ''-mongos'' @ ending]
     @ map (\<lambda>i. shard_name m i @ ending) [0..<shard_count m]"

definition cleanupShardedPDBs :: "MongoDBSharded world \<Rightarrow> (MongoDBSharded, go_error option) ctl" where
  "cleanupShardedPDBs W = do {
     m \<leftarrow> the_obj;
     cleanup_each W ''PodDisruptionBudget'' (policy_names m ''-pdb'')
   }"

definition reconcileShardedPDBs :: "MongoDBSharded world \<Rightarrow> (MongoDBSharded, go_error option) ctl" where
  "reconcileShardedPDBs W = do {
     m \<leftarrow> the_obj;
     if BuildShardedPDBs m = [] then cleanupShardedPDBs W
     else apply_each W ''PDB'' (map pp_Name (BuildShardedPDBs m))
   }"

definition cleanupShardedNetworkPolicies :: "MongoDBSharded world \<Rightarrow> (MongoDBSharded, go_error option) ctl" where
  "cleanupShardedNetworkPolicies W = do {
     m \<leftarrow> the_obj;
     cleanup_each W ''NetworkPolicy'' (policy_names m ''-netpol'')
   }"

definition reconcileShardedNetworkPolicies :: "MongoDBSharded world \<Rightarrow> (MongoDBSharded, go_error option) ctl" where
  "reconcileShardedNetworkPolicies W = do {
     m \<leftarrow> the_obj;
     if BuildShardedNetworkPolicies m = [] then cleanupShardedNetworkPolicies W
     else apply_each W ''NetworkPolicy'' (map npl_Name (BuildShardedNetworkPolicies m))
   }"

definition reconcileShardedTLS ::
    "(string \<Rightarrow> string \<Rightarrow> bool \<Rightarrow> string list) \<Rightarrow> MongoDBSharded world \<Rightarrow> (MongoDBSharded, go_error option) ctl" where
  "reconcileShardedTLS sans W = do {
     m \<leftarrow> the_obj;
     case buildCertificate sans m of
       None \<Rightarrow> ret None
     | Some _ \<Rightarrow> do {
         err \<leftarrow> apply_built W ''certificate'';
         ret (map_option (Wrapped ''upsert tls Certificate'') err)
       }
   }"

section \<open>The pass\<close>

definition setShardedInitializing :: "MongoDBSharded mutator" where
  "setShardedInitializing _ = updsh (ss_Phase_update (\<lambda>_. ''Initializing''))"

text \<open>A step that returns a result of its own: an error is reported, a requeue ends the pass.\<close>

definition stage_result ::
    "'o world \<Rightarrow> string \<Rightarrow> ('o, reconcile_result) ctl \<Rightarrow> ('o, reconcile_result) ctl \<Rightarrow> ('o, reconcile_result) ctl" where
  "stage_result W component step rest = do {
     r \<leftarrow> step;
     case r of (res, err) \<Rightarrow>
       (case err of
          Some e \<Rightarrow> updateStatusError W component e
        | None \<Rightarrow> if RequeueAfter res > 0 then ret (res, None) else rest)
   }"

text \<open>Steps 10.5 to 12: scale-in, the shard registry, collections, autoscalers, status.\<close>

definition registry_pass :: "op_config \<Rightarrow> MongoDBSharded world \<Rightarrow> (MongoDBSharded, reconcile_result) ctl" where
  "registry_pass cfg W =
     stage_result W ''ScaleIn'' (reconcileScaleIn W) (
     stage W ''AddShards'' (reconcileAddShards W) (
     stage_result W ''ShardedCollections'' (reconcileShardedCollections W) (
     stage W ''MongosHPA'' (reconcileMongosHPA (cfg_EnableAutoscaling cfg) W) (
     stage W ''ConfigServerHPA'' (reconcileConfigServerHPA (cfg_EnableAutoscaling cfg) W) (do {
       err \<leftarrow> sharded_updateStatus W;
       ret (case err of Some e \<Rightarrow> (no_requeue, Some e) | None \<Rightarrow> (requeue_after requeueSteady, None))
     })))))"

text \<open>Steps 6.5 to 10: policies, initialisation, mongos, the admin user.\<close>

definition initialize_pass :: "op_config \<Rightarrow> MongoDBSharded world \<Rightarrow> (MongoDBSharded, reconcile_result) ctl" where
  "initialize_pass cfg W =
     stage W ''PodDisruptionBudgets'' (reconcileShardedPDBs W) (
     stage W ''NetworkPolicies'' (reconcileShardedNetworkPolicies W) (
     stage W ''ConfigServerInit''
       (do { m \<leftarrow> the_obj; if ss_ConfigServerInitialized (ShStatus m) then ret None else reconcileConfigServerInit W }) (
     stage W ''ShardsInit'' (reconcileShardsInit W) (do {
       ready \<leftarrow> isMongosReady W;
       if \<not> ready then ret (requeue_after requeueProvisioning, None)
       else stage W ''AdminUser''
         (do { m \<leftarrow> the_obj; if ss_AdminUserCreated (ShStatus m) then ret None else reconcileShardedAdminUser W })
         (registry_pass cfg W)
     }))))"

text \<open>Step 6.1: the move to validation.\<close>

definition after_mongos :: "op_config \<Rightarrow> MongoDBSharded world \<Rightarrow> (MongoDBSharded, reconcile_result) ctl" where
  "after_mongos cfg W = do {
     m \<leftarrow> the_obj;
     if ss_UpgradePhase (ShStatus m) = UpgradePhaseUpgrading then do {
       err \<leftarrow> UpdateWithRetry W setShardedValidating;
       case err of
         Some e \<Rightarrow> ret (no_requeue, Some e)
       | None \<Rightarrow> do {
           m2 \<leftarrow> the_obj;
           ret (requeue_after (parseValidationInterval (shd_UpgradeStrategy (ShSpec m2))), None)
         }
     }
     else initialize_pass cfg W
   }"

fun each_shard ::
    "MongoDBSharded world \<Rightarrow> nat list \<Rightarrow> (MongoDBSharded, reconcile_result) ctl \<Rightarrow> (MongoDBSharded, reconcile_result) ctl" where
  "each_shard W [] rest = rest"
| "each_shard W (i # is) rest = stage W (''Shard-'' @ show_nat i) (reconcileShard W i) (each_shard W is rest)"

text \<open>Steps 2 to 6: config servers, shards and mongos, each only when the one before is ready.\<close>

definition workloads_pass :: "op_config \<Rightarrow> MongoDBSharded world \<Rightarrow> (MongoDBSharded, reconcile_result) ctl" where
  "workloads_pass cfg W =
     stage W ''ConfigServer'' (reconcileConfigServer W) (do {
       cfgReady \<leftarrow> isConfigServerReady W;
       if \<not> cfgReady then ret (requeue_after requeueProvisioning, None)
       else do {
         m \<leftarrow> the_obj;
         each_shard W [0..<shard_count m] (do {
           shardsReady \<leftarrow> areShardsReady W;
           if \<not> shardsReady then ret (requeue_after requeueProvisioning, None)
           else stage W ''Mongos'' (reconcileMongos W) (after_mongos cfg W)
         })
       }
     })"

definition sharded_upgrade_and_apply :: "op_config \<Rightarrow> MongoDBSharded world \<Rightarrow> (MongoDBSharded, reconcile_result) ctl" where
  "sharded_upgrade_and_apply cfg W = do {
     out \<leftarrow> reconcileShardedUpgrade W;
     case out of (result, handled, err) \<Rightarrow>
       (case err of
          Some e \<Rightarrow> updateStatusError W ''Upgrade'' e
        | None \<Rightarrow> if handled then ret (result, None) else workloads_pass cfg W)
   }"

definition sharded_resources :: "op_config \<Rightarrow> MongoDBSharded world \<Rightarrow> (MongoDBSharded, reconcile_result) ctl" where
  "sharded_resources cfg W =
     stage W ''TLSCertificate'' (reconcileShardedTLS (cfg_ServiceSANs cfg) W) (
     stage W ''KeyfileSecret'' (reconcileKeyfileSecret W) (
     sharded_upgrade_and_apply cfg W))"

definition ReconcileSharded :: "op_config \<Rightarrow> MongoDBSharded world \<Rightarrow> (MongoDBSharded, reconcile_result) ctl" where
  "ReconcileSharded cfg W = do {
     got \<leftarrow> ask (w_get W);
     case got of
       Inl e \<Rightarrow> ret (no_requeue, if IsNotFound e then None else Some e)
     | Inr mdbsh \<Rightarrow> do {
         put_obj mdbsh;
         if om_DeletionTimestamp (ShMeta mdbsh) \<noteq> None then ask (\<lambda>k. w_HandleFinalizerCleanup W k mdbsh)
         else if FinalizerMongoDBSharded \<notin> set (om_Finalizers (ShMeta mdbsh)) then do {
           put_obj (mdbsh\<lparr>ShMeta := (ShMeta mdbsh)\<lparr>om_Finalizers := om_Finalizers (ShMeta mdbsh) @ [FinalizerMongoDBSharded]\<rparr>\<rparr>);
           err \<leftarrow> update_object W;
           ret (case err of Some e \<Rightarrow> (no_requeue, Some e) | None \<Rightarrow> (requeue_now, None))
         }
         else if ss_Phase (ShStatus mdbsh) = [] \<or> ss_Phase (ShStatus mdbsh) = ''Pending'' then do {
           err \<leftarrow> UpdateWithRetry W setShardedInitializing;
           case err of
             Some e \<Rightarrow> ret (no_requeue, Some e)
           | None \<Rightarrow> sharded_resources cfg W
         }
         else sharded_resources cfg W
       }
   }"

end
