(* ===== verification/Sharded_Laws.thy ===== *)
theory Sharded_Laws
  imports Sharded Replica_Set_Laws
begin

text \<open>
  What every reconcile pass of a \<^verbatim>\<open>MongoDBSharded\<close> resource keeps. An invariant speaks about the object
  and about each effect together with the effects before it; the contract \<open>sharded_invariant\<close> says what
  it has to satisfy. It is interpreted for the version discipline and for the order of the
  destructive steps of a pass.
\<close>

section \<open>Invariants with a history\<close>

definition every_effect :: "('o effect list \<Rightarrow> 'o effect \<Rightarrow> bool) \<Rightarrow> 'o effect list \<Rightarrow> bool" where
  "every_effect E es \<longleftrightarrow> (\<forall>pre e post. es = pre @ e # post \<longrightarrow> E pre e)"

definition ev_run :: "('o \<Rightarrow> bool) \<Rightarrow> ('o effect list \<Rightarrow> 'o effect \<Rightarrow> bool) \<Rightarrow> 'o rstate \<Rightarrow> bool" where
  "ev_run P E s \<longleftrightarrow> P (r_obj s) \<and> every_effect E (r_log s)"

lemma every_effect_Nil [simp]: "every_effect E []"
  by (simp add: every_effect_def)

lemma every_effect_snoc [simp]: "every_effect E (es @ [e]) \<longleftrightarrow> every_effect E es \<and> E es e"
proof -
  have "es @ [e] = pre @ x # post \<longleftrightarrow> post = [] \<and> pre = es \<and> x = e \<or> (\<exists>q. post = q @ [e] \<and> es = pre @ x # q)"
    for pre x post by (cases post rule: rev_cases) auto
  then show ?thesis unfolding every_effect_def by (metis (no_types))
qed

lemma every_effect_Issued:
  assumes "every_effect E es" "\<And>c pre. c \<in> set cs \<Longrightarrow> E pre (Issued c)"
  shows "every_effect E (es @ map Issued cs)"
  using assms(2)
proof (induction cs rule: rev_induct)
  case (snoc c cs)
  then have "every_effect E ((es @ map Issued cs) @ [Issued c])" unfolding every_effect_snoc by simp
  then show ?case by simp
qed (simp add: assms(1))

lemma ev_run_tick [simp]: "ev_run P E (s\<lparr>r_tick := n\<rparr>) = ev_run P E s"
  by (simp add: ev_run_def)

lemma ev_run_fun: "ev_run P E = (\<lambda>s. P (r_obj s) \<and> every_effect E (r_log s))"
  by (simp add: fun_eq_iff ev_run_def)

named_theorems ev_intros \<open>rules that split a program of the sharded controller\<close>

lemma ev_ask [ev_intros]: "keeps (ev_run P E) (ask q)"
  by (simp add: keeps_def wp_simps)

lemma ev_put [ev_intros]: "P m \<Longrightarrow> keeps (ev_run P E) (put_obj m)"
  by (simp add: keeps_def wp_simps ev_run_def)

lemma ev_issue:
  assumes "\<And>k c pre. c \<in> set (fst (op k)) \<Longrightarrow> E pre (Issued c)" shows "keeps (ev_run P E) (issue op)"
  unfolding keeps_def
proof (intro allI impI)
  fix s assume "ev_run P E s"
  with assms [of _ "r_tick s"] show "wp (issue op) (\<lambda>_. ev_run P E) s"
    by (cases "op (r_tick s)") (auto simp: wp_issue ev_run_def intro!: every_effect_Issued)
qed

lemma ev_emit: "(\<And>pre. E pre e) \<Longrightarrow> keeps (ev_run P E) (emit_if_ok err e)"
  by (auto simp: keeps_def wp_simps ev_run_def)

text \<open>Reading the object: the invariant is known of it from there on.\<close>

lemma ev_obj: "(\<And>m. P m \<Longrightarrow> keeps (ev_run P E) (c m)) \<Longrightarrow> keeps (ev_run P E) (the_obj \<bind> c)"
  by (auto simp: keeps_def wp_bind wp_the_obj ev_run_def)

lemma keeps_guard: "(b \<Longrightarrow> keeps I c) \<Longrightarrow> (\<not> b \<Longrightarrow> keeps I d) \<Longrightarrow> keeps I (if b then c else d)"
  by simp

section \<open>The contract\<close>

text \<open>The status fields the upgrade machine owns.\<close>

definition upgrade_fields :: "MongoDBShardedStatus \<Rightarrow> string \<times> string \<times> string \<times> string \<times> bool \<times> int64 \<times> string" where
  "upgrade_fields s = (ss_Version s, ss_PreviousVersion s, ss_UpgradePhase s, ss_EffectiveVersion s,
     ss_RollbackActive s, ss_ObservedUpgradeGeneration s, ss_FCVVersion s)"

text \<open>The removal of a shard was asked for and answered with \<^verbatim>\<open>completed\<close>.\<close>

definition drained :: "MongoDBSharded world \<Rightarrow> MongoDBSharded effect list \<Rightarrow> string \<Rightarrow> bool" where
  "drained W pre shard \<longleftrightarrow> Issued (RemoveShardCmd shard) \<in> set pre
     \<and> (\<exists>k c r. drv_remove_shard (w_drv W k) c shard = Inr r \<and> rsr_State r = ''completed'')"

text \<open>The objects that go with shard \<open>i\<close>: the named ones, and the claims with its labels.\<close>

definition belongs_to_shard :: "MongoDBSharded world \<Rightarrow> MongoDBSharded \<Rightarrow> nat \<Rightarrow> string \<Rightarrow> string \<Rightarrow> bool" where
  "belongs_to_shard W m i kind name \<longleftrightarrow> (kind, name) \<in> set (shard_objects (shard_name m i))
     \<or> kind = ''PersistentVolumeClaim'' \<and> (\<exists>k ns names. w_pvcs W k ns
          [(''app.kubernetes.io/component'', ''shard-'' @ show_nat i), (''app.kubernetes.io/instance'', ShName m)] = Inr names
          \<and> name \<in> set names)"

text \<open>A workload was applied earlier in the pass, and reported as many ready replicas as wanted.\<close>

definition applied_before :: "string \<Rightarrow> 'o effect list \<Rightarrow> bool" where
  "applied_before name pre \<longleftrightarrow> (\<exists>m keep. AppliedWorkload name m keep \<in> set pre)"

definition seen_ready :: "MongoDBSharded world \<Rightarrow> MongoDBSharded \<Rightarrow> string \<Rightarrow> int32 \<Rightarrow> bool" where
  "seen_ready W m name n \<longleftrightarrow> (\<exists>k sts. w_sts W k name (ShNamespace m) = Inr sts \<and> sts_ReadyReplicas sts = n)"

definition config_server_up :: "MongoDBSharded world \<Rightarrow> MongoDBSharded effect list \<Rightarrow> MongoDBSharded \<Rightarrow> bool" where
  "config_server_up W pre m \<longleftrightarrow> applied_before (ShName m @ ''-cfg'') pre
     \<and> seen_ready W m (ShName m @ ''-cfg'') (cs_Members (shd_ConfigServer (ShSpec m)))"

definition shards_up :: "MongoDBSharded world \<Rightarrow> MongoDBSharded effect list \<Rightarrow> MongoDBSharded \<Rightarrow> bool" where
  "shards_up W pre m \<longleftrightarrow> (\<forall>i < shard_count m. applied_before (shard_name m i) pre
     \<and> seen_ready W m (shard_name m i) (sh_MembersPerShard (shd_Shards (ShSpec m))))"

lemma applied_before_mono: "set pre \<subseteq> set pre' \<Longrightarrow> applied_before n pre \<Longrightarrow> applied_before n pre'"
  by (auto simp: applied_before_def)

lemma config_server_up_mono: "set pre \<subseteq> set pre' \<Longrightarrow> config_server_up W pre m \<Longrightarrow> config_server_up W pre' m"
  by (auto simp: config_server_up_def applied_before_def)

lemma shards_up_mono: "set pre \<subseteq> set pre' \<Longrightarrow> shards_up W pre m \<Longrightarrow> shards_up W pre' m"
  unfolding shards_up_def by (meson applied_before_mono)

text \<open>A later state of a run that has not touched the object.\<close>

definition extends :: "'o rstate \<Rightarrow> 'o rstate \<Rightarrow> bool" where
  "extends s t \<longleftrightarrow> r_obj t = r_obj s \<and> set (r_log s) \<subseteq> set (r_log t)"

lemma extends_refl [simp]: "extends s s" "extends s (s\<lparr>r_tick := n\<rparr>)"
  by (simp_all add: extends_def)

lemma extends_trans: "extends s t \<Longrightarrow> extends t u \<Longrightarrow> extends s u"
  by (auto simp: extends_def)

lemma config_server_up_extends:
  "extends s t \<Longrightarrow> config_server_up W (r_log s) m \<Longrightarrow> config_server_up W (r_log t) m"
  by (auto simp: extends_def intro: config_server_up_mono)

text \<open>The state while the resources of shard \<open>i\<close> are cleaned up.\<close>

definition drain_run ::
    "(MongoDBSharded \<Rightarrow> bool) \<Rightarrow> (MongoDBSharded effect list \<Rightarrow> MongoDBSharded effect \<Rightarrow> bool) \<Rightarrow> MongoDBSharded world
     \<Rightarrow> MongoDBSharded \<Rightarrow> nat \<Rightarrow> MongoDBSharded rstate \<Rightarrow> bool" where
  "drain_run P E W m i s \<longleftrightarrow> ev_run P E s \<and> drained W (r_log s) (shard_name m i)
     \<and> shard_count (r_obj s) = shard_count m"

lemma drain_run_tick [simp]: "drain_run P E W m i (s\<lparr>r_tick := n\<rparr>) = drain_run P E W m i s"
  by (simp add: drain_run_def)

definition policy_kinds :: "string set" where
  "policy_kinds = {''PodDisruptionBudget'', ''NetworkPolicy'', ''HorizontalPodAutoscaler''}"

locale sharded_invariant =
  fixes P :: "MongoDBSharded \<Rightarrow> bool"
    and E :: "MongoDBSharded effect list \<Rightarrow> MongoDBSharded effect \<Rightarrow> bool"
    and R :: "MongoDBSharded \<Rightarrow> MongoDBSharded \<Rightarrow> bool" and W :: "MongoDBSharded world"
  assumes closed: "P a \<Longrightarrow> R a b \<Longrightarrow> P b"
    and finalizer: "P m \<Longrightarrow> P (m\<lparr>ShMeta := (ShMeta m)\<lparr>om_Finalizers := fs\<rparr>\<rparr>)"
    and small: "P m \<Longrightarrow> upgrade_fields x = upgrade_fields (ShStatus m) \<Longrightarrow> P (m\<lparr>ShStatus := x\<rparr>)"
    and validating: "P m \<Longrightarrow> ss_UpgradePhase (ShStatus m) = UpgradePhaseUpgrading \<Longrightarrow> R m b \<Longrightarrow> P (setShardedValidating t b)"
    and upgrade: "retry_ok R W \<Longrightarrow> keeps (ev_run P E) (reconcileShardedUpgrade W)"
    and persists: "P m \<Longrightarrow> E pre (PersistStatus m)" "P m \<Longrightarrow> E pre (PersistObject m)"
    and applies: "P m \<Longrightarrow> E pre (Applied what m)"
    and config_server: "P m \<Longrightarrow> E pre (AppliedWorkload (ShName m @ ''-cfg'') m keep)"
    and shard: "P m \<Longrightarrow> i < shard_count m \<Longrightarrow> config_server_up W pre m \<Longrightarrow> E pre (AppliedWorkload (shard_name m i) m keep)"
    and mongos: "P m \<Longrightarrow> config_server_up W pre m \<Longrightarrow> shards_up W pre m \<Longrightarrow>
      E pre (AppliedWorkload (ShName m @ ''-mongos'') m keep)"
    and policy_gone: "kind \<in> policy_kinds \<Longrightarrow> E pre (Deleted kind name)"
    and shard_gone: "P m \<Longrightarrow> shard_count m \<le> i \<Longrightarrow> drained W pre (shard_name m i) \<Longrightarrow>
      belongs_to_shard W m i kind name \<Longrightarrow> E pre (Deleted kind name)"
    and initiates: "E pre (Issued (ReplSetInitiate c))"
    and adds: "P m \<Longrightarrow> all_initialized m \<Longrightarrow> E pre (Issued (AddShardCmd conn))"
    and removes: "P m \<Longrightarrow> shard_count m \<le> i \<Longrightarrow> E pre (Issued (RemoveShardCmd (shard_name m i)))"
    and collections: "E pre (Issued (EnableShardingCmd d))" "E pre (Issued (ShardCollectionCmd n ky u ts))"
begin

lemma update:
  assumes "retry_ok R W" and "\<And>t m. P m \<Longrightarrow> P (f t m)"
  shows "keeps (ev_run P E) (UpdateWithRetry W f)"
  unfolding keeps_def
proof (intro allI impI)
  fix s assume s: "ev_run P E s"
  have "P b" if "R (r_obj s) b" for b using closed that s by (auto simp: ev_run_def)
  then show "wp (UpdateWithRetry W f) (\<lambda>_. ev_run P E) s"
    by (intro wp_update [OF assms(1)]) (use s assms(2) persists in \<open>auto simp: ev_run_def\<close>)
qed

lemma error_step:
  assumes "honest R W" shows "keeps (ev_run P E) (updateStatusError W c e)"
  unfolding keeps_def
proof (intro allI impI)
  fix s assume g: "ev_run P E s"
  obtain m' b r e' where w: "w_ApplyErrorCondition W (r_tick s) c e (r_obj s) = (m', b, r, e')"
    by (metis prod_cases4)
  then have "R (r_obj s) m'" using assms unfolding honest_def by blast
  then have "P m'" using closed g by (auto simp: ev_run_def)
  with w g persists show "wp (updateStatusError W c e) (\<lambda>_. ev_run P E) s"
    by (simp add: updateStatusError_def wp_flow ev_run_def)
qed

lemma update_object_step:
  assumes "honest R W" shows "keeps (ev_run P E) (update_object W)"
  unfolding keeps_def
proof (intro allI impI)
  fix s assume g: "ev_run P E s"
  obtain m' e where w: "w_update_object W (r_tick s) (r_obj s) = (m', e)" by fastforce
  then have "R (r_obj s) m'" using assms unfolding honest_def by blast
  then have "P m'" using closed g by (auto simp: ev_run_def)
  with w g persists show "wp (update_object W) (\<lambda>_. ev_run P E) s"
    by (simp add: update_object_def wp_flow ev_run_def)
qed

lemma stage_step:
  assumes "honest R W" "keeps (ev_run P E) c" "keeps (ev_run P E) r"
  shows "keeps (ev_run P E) (stage W n c r)" 
  unfolding stage_def by (intro keeps_intros error_step assms)

lemma stage_result_step:
  assumes "honest R W" "keeps (ev_run P E) c" "keeps (ev_run P E) r"
  shows "keeps (ev_run P E) (stage_result W n c r)" 
  unfolding stage_result_def by (intro keeps_intros error_step assms)

lemma and_then_step: "keeps I c \<Longrightarrow> keeps I d \<Longrightarrow> keeps I (and_then c d)"
  unfolding and_then_def by (intro keeps_intros)

lemma built_step: "keeps (ev_run P E) (apply_built W what)"
  unfolding apply_built_def by (rule ev_obj) (intro keeps_intros ev_intros ev_emit applies; assumption)

lemma policy_gone_step:
  "kind \<in> policy_kinds \<Longrightarrow> keeps (ev_run P E) (cleanup_quiet W kind n)"
  unfolding cleanup_quiet_def cleanup_named_def delete_named_def
  by (intro keeps_intros ev_intros ev_emit policy_gone)

lemma cleanup_each_step: "kind \<in> policy_kinds \<Longrightarrow> keeps (ev_run P E) (cleanup_each W kind ns)"
  by (induction ns) (auto intro!: keeps_intros and_then_step policy_gone_step)

lemma apply_each_step: "keeps (ev_run P E) (apply_each W what ns)"
  by (induction ns) (auto intro!: keeps_intros built_step)

lemma policies_step: "keeps (ev_run P E) (reconcileShardedPDBs W)" "keeps (ev_run P E) (reconcileShardedNetworkPolicies W)"
  unfolding reconcileShardedPDBs_def cleanupShardedPDBs_def reconcileShardedNetworkPolicies_def
    cleanupShardedNetworkPolicies_def
  by (intro keeps_intros apply_each_step cleanup_each_step; simp add: policy_kinds_def)+

lemma hpa_step: "keeps (ev_run P E) (reconcileMongosHPA b W)" "keeps (ev_run P E) (reconcileConfigServerHPA b W)"
  unfolding reconcileMongosHPA_def reconcileConfigServerHPA_def reconcile_hpa_def
  by (intro keeps_intros policy_gone_step built_step; simp add: policy_kinds_def)+

lemma tls_step: "keeps (ev_run P E) (reconcileShardedTLS sans W)" "keeps (ev_run P E) (reconcileKeyfileSecret W)"
  unfolding reconcileShardedTLS_def reconcileKeyfileSecret_def by (intro keeps_intros built_step)+

text \<open>
  Applying a component: the object stays, the effects so far stay, and on success the workload has
  been applied.
\<close>

lemma workload_post:
  assumes "ev_run P E s" and "\<And>pre. set (r_log s) \<subseteq> set pre \<Longrightarrow> E pre (AppliedWorkload n (r_obj s) b)"
  shows "wp (apply_workload W n b)
    (\<lambda>err t. ev_run P E t \<and> extends s t
       \<and> (err = None \<longrightarrow> applied_before n (r_log t))) s"
  using assms by (auto simp: apply_workload_def wp_flow ev_run_def extends_def applied_before_def)

lemma built_post:
  assumes "ev_run P E s"
  shows "wp (apply_built W what)
    (\<lambda>_ t. ev_run P E t \<and> extends s t) s"
  using assms applies by (auto simp: apply_built_def wp_flow ev_run_def extends_def)

lemma and_then_post:
  assumes "wp c (\<lambda>_ t. ev_run P E t \<and> extends s t) s"
    and "\<And>t. ev_run P E t \<Longrightarrow> extends s t \<Longrightarrow>
      wp d (\<lambda>err u. ev_run P E u \<and> extends s u
        \<and> (err = None \<longrightarrow> applied_before n (r_log u))) t"
  shows "wp (and_then c d) (\<lambda>err u. ev_run P E u \<and> extends s u
        \<and> (err = None \<longrightarrow> applied_before n (r_log u))) s"
  unfolding and_then_def wp_bind
  by (rule wp_mono [OF assms(1)]) (auto simp: wp_ret split: option.splits intro: assms(2))

lemma scripts_post:
  assumes "ev_run P E s"
  shows "wp (reconcileConfigServerScriptsConfigMap W) (\<lambda>_ t. ev_run P E t \<and> extends s t) s"
    "wp (reconcileShardScriptsConfigMap W i) (\<lambda>_ t. ev_run P E t \<and> extends s t) s"
  using assms built_post [OF assms]
  by (simp_all add: reconcileConfigServerScriptsConfigMap_def reconcileShardScriptsConfigMap_def wp_bind [of the_obj]
      wp_the_obj wp_if wp_ret)

lemma three_post:
  assumes s: "ev_run P E s"
    and a: "wp a (\<lambda>_ t. ev_run P E t \<and> extends s t) s"
    and "\<And>pre. set (r_log s) \<subseteq> set pre \<Longrightarrow> E pre (AppliedWorkload n (r_obj s) keep)"
  shows "wp (and_then a (and_then (apply_built W what) (apply_workload W n keep)))
    (\<lambda>err t. ev_run P E t \<and> extends s t
       \<and> (err = None \<longrightarrow> applied_before n (r_log t))) s"
proof (rule and_then_post [OF a])
  fix t assume t: "ev_run P E t" "extends s t"
  show "wp (and_then (apply_built W what) (apply_workload W n keep))
    (\<lambda>err t. ev_run P E t \<and> extends s t
       \<and> (err = None \<longrightarrow> applied_before n (r_log t))) t"
    unfolding and_then_def wp_bind
  proof (rule wp_mono [OF built_post [OF t(1)]])
    fix err u assume u: "ev_run P E u \<and> extends t u"
    have "wp (apply_workload W n keep) (\<lambda>err v. ev_run P E v \<and> extends u v
       \<and> (err = None \<longrightarrow> applied_before n (r_log v))) u"
      by (rule workload_post) (use u t assms(3) in \<open>auto simp: extends_def\<close>)
    then have "wp (apply_workload W n keep) (\<lambda>err v. ev_run P E v \<and> extends s v
       \<and> (err = None \<longrightarrow> applied_before n (r_log v))) u"
      by (rule wp_mono) (use u t extends_trans in blast)
    then show "wp (case err of None \<Rightarrow> apply_workload W n keep | Some e \<Rightarrow> ret (Some e))
      (\<lambda>err t. ev_run P E t \<and> extends s t
       \<and> (err = None \<longrightarrow> applied_before n (r_log t))) u"
      using u t extends_trans [of s t u] by (auto simp: wp_ret split: option.splits)
  qed
qed

lemma reads_step:
  "keeps (ev_run P E) (isConfigServerReady W)" "keeps (ev_run P E) (isMongosReady W)"
  "keeps (ev_run P E) (sh_password W m)" "keeps (ev_run P E) (getMongosPodName W m)"
  unfolding isConfigServerReady_def isMongosReady_def sh_password_def getAdminPassword_def getMongosPodName_def
  by (intro keeps_intros ev_intros)+

lemma shards_ready_step: "keeps (ev_run P E) (shards_ready W m is)"
  by (induction "is") (auto intro!: keeps_intros ev_intros)

lemma areShardsReady_step: "keeps (ev_run P E) (areShardsReady W)"
  unfolding areShardsReady_def by (intro keeps_intros shards_ready_step)

lemma initiate_step:
  "keeps (ev_run P E) (issue (\<lambda>k. Initiate (drv k) (f k) p ns (c k)))"
  by (rule ev_issue) (auto simp: Initiate_def run_cmd_def initiates split: sum.splits if_splits)

lemma init_shards_step: "keeps (ev_run P E) (init_shards W m pw is errs flags)"
  by (induction "is" arbitrary: errs flags)
    (auto intro!: keeps_intros ev_intros initiate_step simp: Let_def)

lemma add_shards_step:
  "P m \<Longrightarrow> all_initialized m \<Longrightarrow> keeps (ev_run P E) (add_shards W m' pw pod is errs flags)"
  by (induction "is" arbitrary: errs flags)
    (auto intro!: keeps_intros ev_intros ev_issue simp: Let_def AddShard_def runAdminCommand_def adds split: sum.splits)

lemma small_update:
  assumes "retry_ok R W" and "\<And>t m. \<exists>x. f t m = m\<lparr>ShStatus := x\<rparr> \<and> upgrade_fields x = upgrade_fields (ShStatus m)"
  shows "keeps (ev_run P E) (UpdateWithRetry W f)"
  by (rule update [OF assms(1)]) (use assms(2) small in metis)

lemma small_put:
  "P m \<Longrightarrow> upgrade_fields (g (ShStatus m)) = upgrade_fields (ShStatus m) \<Longrightarrow> keeps (ev_run P E) (put_obj (updsh g m))"
  by (rule ev_put) (rule small)

lemma init_step:
  assumes "retry_ok R W"
  shows "keeps (ev_run P E) (reconcileConfigServerInit W)" "keeps (ev_run P E) (reconcileShardsInit W)"
    "keeps (ev_run P E) (reconcileShardedAdminUser W)"
proof -
  have u: "keeps (ev_run P E) (UpdateWithRetry W setConfigServerInitialized)"
    "keeps (ev_run P E) (UpdateWithRetry W (setShardsInitialized fl))"
    "keeps (ev_run P E) (UpdateWithRetry W setShardedAdminCreated)" for fl
    by (rule small_update [OF assms]; auto simp: setConfigServerInitialized_def setShardsInitialized_def
        setShardedAdminCreated_def upgrade_fields_def intro!: exI)+
  show "keeps (ev_run P E) (reconcileConfigServerInit W)" "keeps (ev_run P E) (reconcileShardedAdminUser W)"
    unfolding reconcileConfigServerInit_def reconcileShardedAdminUser_def Let_def
    by (intro keeps_intros ev_intros reads_step initiate_step u)+
  have put: "P m \<Longrightarrow> keeps (ev_run P E) (put_obj (updsh (ss_ShardsInitialized_update g) m))" for m g
    by (erule small_put) (simp add: upgrade_fields_def)
  show "keeps (ev_run P E) (reconcileShardsInit W)"
    unfolding reconcileShardsInit_def persist_flags_def
    by (rule ev_obj, rule keeps_bind, erule put) (intro keeps_intros ev_intros reads_step init_shards_step u)
qed

lemma add_step:
  assumes "retry_ok R W" shows "keeps (ev_run P E) (reconcileAddShards W)"
proof -
  have u: "keeps (ev_run P E) (UpdateWithRetry W (setShardsAdded fl))" for fl
    by (rule small_update [OF assms]) (auto simp: setShardsAdded_def upgrade_fields_def intro!: exI)
  have put: "P m \<Longrightarrow> keeps (ev_run P E) (put_obj (updsh (ss_ShardsAdded_update g) m))" for m g
    by (erule small_put) (simp add: upgrade_fields_def)
  show ?thesis
    unfolding reconcileAddShards_def persist_flags_def
    by (rule ev_obj, rule keeps_bind, erule put, rule ev_obj, rule keeps_guard, rule keeps_ret)
      (intro keeps_intros reads_step add_shards_step u; simp)
qed

lemma delete_step:
  assumes "P m" "shard_count m \<le> i" "\<And>kind n. (kind, n) \<in> set xs \<Longrightarrow> belongs_to_shard W m i kind n"
  shows "keeps (drain_run P E W m i) (delete_each W what xs)"
  using assms(3)
proof (induction xs)
  case (Cons x xs)
  obtain kind n where x: "x = (kind, n)" by (cases x)
  have "keeps (drain_run P E W m i) (delete_named W kind n)"
    using shard_gone [OF assms(1,2) _ Cons.prems [of kind n]] x
    by (auto simp: keeps_def delete_named_def wp_flow drain_run_def ev_run_def drained_def)
  with Cons x show ?case by (auto intro!: keeps_intros)
qed (auto intro!: keeps_intros)

lemma cleanup_step:
  assumes "P m" "shard_count m \<le> i" "drain_run P E W m i s" "r_obj s = m"
  shows "wp (cleanupShardResources W i) (\<lambda>_. drain_run P E W m i) s"
proof -
  have put: "keeps (drain_run P E W m i) (put_obj (reset_flags i m))"
    using small [OF assms(1)]
    by (auto simp: keeps_def wp_flow drain_run_def ev_run_def reset_flags_def upgrade_fields_def shard_count_def)
  have first: "keeps (drain_run P E W m i) (delete_each W what (shard_objects (shard_name m i)))" for what
    by (rule delete_step [OF assms(1,2)]) (simp add: belongs_to_shard_def)
  have second: "wp (delete_each W what (map (Pair ''PersistentVolumeClaim'') names) \<bind> (\<lambda>derr. case derr of Some e \<Rightarrow> ret (Some e)
        | None \<Rightarrow> put_obj (reset_flags i m) \<bind> (\<lambda>_. ret None))) (\<lambda>_. drain_run P E W m i) t"
    if "drain_run P E W m i t" and "w_pvcs W k ns [(''app.kubernetes.io/component'', ''shard-'' @ show_nat i),
      (''app.kubernetes.io/instance'', ShName m)] = Inr names" for names what t k ns
  proof (rule keeps_wp)
    have "belongs_to_shard W m i kind n" if "(kind, n) \<in> set (map (Pair ''PersistentVolumeClaim'') names)" for kind n
      using \<open>w_pvcs W k ns _ = _\<close> that unfolding belongs_to_shard_def by auto
    then have "keeps (drain_run P E W m i) (delete_each W what (map (Pair ''PersistentVolumeClaim'') names))"
      by (rule delete_step [OF assms(1,2)])
    then show "keeps (drain_run P E W m i) (delete_each W what (map (Pair ''PersistentVolumeClaim'') names) \<bind>
        (\<lambda>derr. case derr of Some e \<Rightarrow> ret (Some e) | None \<Rightarrow> put_obj (reset_flags i m) \<bind> (\<lambda>_. ret None)))"
      by (intro keeps_intros put)
  qed (rule that(1))
  show ?thesis
    unfolding cleanupShardResources_def wp_bind [of the_obj] wp_the_obj Let_def assms(4) wp_bind [of "delete_each _ _ _"]
    by (rule wp_mono [OF keeps_wp [OF first assms(3)]])
      (auto simp: wp_ret wp_bind [of "ask _"] wp_ask simp del: append.simps split: option.splits sum.splits intro!: second)
qed

lemma drop_step: "keeps (ev_run P E) (drop_condition W ty)"
  unfolding drop_condition_def in_conditions_def
  by (rule ev_obj, erule small_put) (simp add: upgrade_fields_def)

lemma drain_step:
  assumes "\<And>i. i \<in> set is \<Longrightarrow> lim \<le> i" "ev_run P E s" "shard_count (r_obj s) \<le> lim"
  shows "wp (drain_shards W pw is) (\<lambda>_. ev_run P E) s"
  using assms
proof (induction "is" arbitrary: s)
  case Nil
  have "keeps (ev_run P E) (drain_shards W pw [])"
    unfolding drain_shards.simps by (intro keeps_intros drop_step)
  then show ?case by (rule keeps_wp) (rule Nil.prems(2))
next
  case (Cons i "is")
  let ?m = "r_obj s" let ?n = "shard_name ?m i"
  have P: "P ?m" using Cons.prems by (simp add: ev_run_def)
  have i: "shard_count ?m \<le> i" using Cons.prems(1) [of i] Cons.prems(3) by simp
  define op where "op k = RemoveShardWithStatus (w_drv W k) (mongos_factory (w_drv W k) ?m pw)
      (ShName ?m @ ''-mongos-0'') (ShNamespace ?m) ?n" for k
  obtain cmds res where r: "op (r_tick s) = (cmds, res)" by fastforce
  let ?t = "s\<lparr>r_tick := Suc (r_tick s), r_log := r_log s @ map Issued cmds\<rparr>"
  have t: "ev_run P E ?t"
    using r Cons.prems(2) removes [OF P i]
    by (auto simp: ev_run_def op_def RemoveShardWithStatus_def split: sum.splits)
  have d: "drain_run P E W ?m i ?t" if "res = Inr x" "rsr_State x = ''completed''" for x
    using r that t by (auto simp: op_def RemoveShardWithStatus_def drain_run_def drained_def split: sum.splits)
  have clean: "wp (cleanupShardResources W i \<bind> (\<lambda>err. case err of Some e \<Rightarrow> ret (f e)
      | None \<Rightarrow> drain_shards W pw is)) (\<lambda>_. ev_run P E) ?t" if "drain_run P E W ?m i ?t" for f
    unfolding wp_bind
    by (rule wp_mono [OF cleanup_step [OF P i that]])
      (use Cons in \<open>auto simp: wp_ret drain_run_def split: option.splits\<close>)
  have p: "P (recordShardDrainingCondition W now ?n x ?m)" for now x
    unfolding recordShardDrainingCondition_def in_conditions_def
    by (rule small [OF P]) (simp add: upgrade_fields_def)
  show ?case
    using r t d clean p
    by (auto simp: wp_bind [of the_obj] wp_the_obj Let_def wp_bind [of "issue _"] wp_issue op_def [symmetric] wp_ret
        wp_bind [of "ask _"] wp_ask wp_bind [of "put_obj _"] wp_put_obj ev_run_fun split: sum.splits prod.splits)
qed

lemma scale_in_step: "keeps (ev_run P E) (reconcileScaleIn W)"
proof -
  have d: "wp (drain_shards W pw [shard_count (r_obj s)..<n]) (\<lambda>_. ev_run P E) t"
    if "ev_run P E t" "r_obj t = r_obj s" for pw s n t
    by (rule drain_step [where lim = "shard_count (r_obj s)"]) (use that in auto)
  have z: "wp (drop_condition W ty \<bind> (\<lambda>_. ret r)) (\<lambda>_. ev_run P E) s" if "ev_run P E s" for ty s and r :: reconcile_result
    by (rule keeps_wp, intro keeps_intros drop_step) (rule that)
  show ?thesis
    unfolding keeps_def
    by (auto simp: reconcileScaleIn_def wp_bind [of the_obj] wp_the_obj Let_def wp_ret wp_if sh_password_def getAdminPassword_def
        wp_bind [of "State_Monad.bind _ _"] wp_bind [of "ask _"] wp_bind [of "ret _"] wp_ask split: sum.splits option.splits intro!: d z)
qed

lemma ensure_step: "keeps (ev_run P E) (ensure_collections W m pw pod scs drift rq)"
proof (induction scs arbitrary: drift rq)
  case (Cons sc scs)
  have i: "keeps (ev_run P E) (issue (\<lambda>k. EnsureShardedCollection (w_drv W k) (mongos_factory (w_drv W k) m pw) pod ns d c ky op))"
    for ns d c ky op
    by (rule ev_issue) (auto simp: EnsureShardedCollection_def EnableSharding_def runAdminCommand_def ShardCollection_def
        runShardCollectionCommand_def shard_collection_cmd_def run_cmd_def Let_def collections split: sum.splits prod.splits if_splits option.splits)
  show ?case unfolding ensure_collections.simps by (intro keeps_intros i Cons)
qed (auto intro: keeps_intros)

lemma collections_step:
  assumes "retry_ok R W" shows "keeps (ev_run P E) (reconcileShardedCollections W)"
proof -
  have a: "\<exists>x. applyDrift W drift t m = m\<lparr>ShStatus := x\<rparr> \<and> upgrade_fields x = upgrade_fields (ShStatus m)" for drift t m
    by (auto simp: applyDrift_def in_conditions_def upgrade_fields_def intro!: exI)
  have u: "keeps (ev_run P E) (UpdateWithRetry W (applyDrift W drift))" for drift
    by (rule small_update [OF assms a])
  have p: "keeps (ev_run P E) (put_obj (applyDrift W drift t m))" if "P m" for drift t m
    using a [of drift t m] small [OF that] by (auto intro: ev_put)
  have f: "keeps (ev_run P E) (finish_collections W drift rq)" for drift rq
    unfolding finish_collections_def
    by (rule keeps_if, rule keeps_if, intro keeps_intros u)
      (rule keeps_bind [OF ev_ask], rule ev_obj, rule keeps_bind [OF p keeps_ret], assumption)+
  show ?thesis
    unfolding reconcileShardedCollections_def by (intro keeps_intros drop_step reads_step ensure_step f)
qed

lemma observe_shards_step: "keeps (ev_run P E) (observe_shards W m is acc)"
  by (induction "is" arbitrary: acc) (auto intro!: keeps_intros ev_intros)

lemma observe_step:
  "keeps (ev_run P E) (observe_config_server W)" "keeps (ev_run P E) (observe_all_shards W)"
  "keeps (ev_run P E) (observe_mongos W)"
  unfolding observe_config_server_def observe_all_shards_def observe_mongos_def
  by (rule ev_obj, rule keeps_bind, (rule ev_ask observe_shards_step)+, rule keeps_case_sum;
      (rule keeps_ret | rule keeps_bind [OF small_put keeps_ret], assumption, simp add: upgrade_fields_def))+

lemma status_step:
  assumes "retry_ok R W" shows "keeps (ev_run P E) (sharded_updateStatus W)"
proof -
  have u: "keeps (ev_run P E) (UpdateWithRetry W (sharded_applyStatus W obs ready))" for obs ready
    by (rule small_update [OF assms])
      (auto simp: sharded_applyStatus_def Let_def in_conditions_def upgrade_fields_def intro!: exI)
  have o: "keeps (ev_run P E) (observeShardedCollections W)"
    unfolding observeShardedCollections_def by (intro keeps_intros ev_intros reads_step)
  have p: "keeps (ev_run P E) (put_obj (updsh (ss_Phase_update g) m))" if "P m" for m g
    by (rule small_put [OF that]) (simp add: upgrade_fields_def)
  show ?thesis
    unfolding sharded_updateStatus_def Let_def
    by (intro and_then_step observe_step ev_obj keeps_bind [OF p] keeps_bind [OF o] u)
qed

lemma registry_step:
  assumes h: "honest R W" shows "keeps (ev_run P E) (registry_pass cfg W)"
  unfolding registry_pass_def
  by (intro stage_step [OF h] stage_result_step [OF h] scale_in_step add_step [OF honest_retry [OF h]]
      collections_step [OF honest_retry [OF h]] hpa_step keeps_bind [OF status_step [OF honest_retry [OF h]]] keeps_ret)

lemma initialize_step:
  assumes h: "honest R W" shows "keeps (ev_run P E) (initialize_pass cfg W)"
  unfolding initialize_pass_def
  by (intro stage_step [OF h] policies_step keeps_intros init_step [OF honest_retry [OF h]] reads_step registry_step [OF h])

lemma after_mongos_step:
  assumes h: "honest R W" shows "keeps (ev_run P E) (after_mongos cfg W)"
  unfolding keeps_def
proof (intro allI impI)
  fix s assume s: "ev_run P E s"
  have "wp (UpdateWithRetry W setShardedValidating \<bind> (\<lambda>err. case err of
        Some e \<Rightarrow> ret (no_requeue, Some e)
      | None \<Rightarrow> the_obj \<bind> (\<lambda>m2. ret (requeue_after (parseValidationInterval (shd_UpgradeStrategy (ShSpec m2))), None))))
      (\<lambda>_. ev_run P E) s"
    if u: "ss_UpgradePhase (ShStatus (r_obj s)) = UpgradePhaseUpgrading"
  proof (rule wp_seq [where R = "\<lambda>_. ev_run P E"], rule wp_update [OF honest_retry [OF h]])
    fix t b assume "R (r_obj s) b"
    then have "P b" "P (setShardedValidating t b)" using s u closed validating by (auto simp: ev_run_def)
    then show "ev_run P E (s\<lparr>r_obj := setShardedValidating t b, r_tick := Suc (Suc (r_tick s)),
         r_log := r_log s @ [PersistStatus (setShardedValidating t b)]\<rparr>)"
      "ev_run P E (s\<lparr>r_obj := setShardedValidating t b, r_tick := Suc (Suc (r_tick s))\<rparr>)"
      "ev_run P E (s\<lparr>r_obj := b, r_tick := Suc (Suc (r_tick s))\<rparr>)"
      using s persists by (auto simp: ev_run_def)
  qed (auto simp: wp_flow split: option.splits)
  then show "wp (after_mongos cfg W) (\<lambda>_. ev_run P E) s"
    using keeps_wp [OF initialize_step [OF h] s]
    by (simp add: after_mongos_def wp_bind [of the_obj] wp_the_obj wp_if)
qed

lemma stage_post:
  assumes "honest R W" "wp c Q s" "\<And>e t. Q (Some e) t \<Longrightarrow> ev_run P E t" "\<And>t. Q None t \<Longrightarrow> wp rest (\<lambda>_. ev_run P E) t"
  shows "wp (stage W n c rest) (\<lambda>_. ev_run P E) s"
  unfolding stage_def wp_bind
  by (rule wp_mono [OF assms(2)]) (use assms(3,4) keeps_wp [OF error_step [OF assms(1)]] in \<open>auto split: option.splits\<close>)

lemma each_shard_step:
  assumes "honest R W" "ev_run P E s" "config_server_up W (r_log s) (r_obj s)" "set is \<subseteq> {..<shard_count (r_obj s)}"
    and "\<And>t. ev_run P E t \<Longrightarrow> extends s t \<Longrightarrow> \<forall>i \<in> set is. applied_before (shard_name (r_obj s) i) (r_log t) \<Longrightarrow>
      wp rest (\<lambda>_. ev_run P E) t"
  shows "wp (each_shard W is rest) (\<lambda>_. ev_run P E) s"
  using assms(2-)
proof (induction "is" arbitrary: s)
  case (Cons i "is")
  let ?m = "r_obj s"
  have "P ?m" using Cons.prems by (simp add: ev_run_def)
  then have "E pre (AppliedWorkload (shard_name ?m i) ?m b)" if "set (r_log s) \<subseteq> set pre" for pre b
    using Cons.prems(2,3) shard config_server_up_mono [OF that] by auto
  then have "wp (reconcileShard W i) (\<lambda>err t. ev_run P E t \<and> extends s t
      \<and> (err = None \<longrightarrow> applied_before (shard_name ?m i) (r_log t))) s"
    unfolding reconcileShard_def wp_bind [of the_obj] wp_the_obj
    by (intro three_post scripts_post Cons.prems)
  then show ?case
    unfolding each_shard.simps
  proof (rule stage_post [OF assms(1)])
    fix t assume t: "ev_run P E t \<and> extends s t \<and> (None = None \<longrightarrow> applied_before (shard_name ?m i) (r_log t))"
    show "wp (each_shard W is rest) (\<lambda>_. ev_run P E) t"
    proof (rule Cons.IH)
      fix u assume "ev_run P E u" "extends t u" "\<forall>i \<in> set is. applied_before (shard_name (r_obj t) i) (r_log u)"
      with t show "wp rest (\<lambda>_. ev_run P E) u"
        by (intro Cons.prems(4)) (auto simp: extends_def intro: applied_before_mono)
    qed (use t Cons.prems in \<open>auto simp: extends_def intro: config_server_up_mono\<close>)
  qed simp
qed simp

lemma shards_ready_post:
  "ev_run P E s \<Longrightarrow> wp (shards_ready W m is) (\<lambda>b t. ev_run P E t \<and> extends s t
     \<and> (b \<longrightarrow> (\<forall>i \<in> set is. seen_ready W m (shard_name m i) (sh_MembersPerShard (shd_Shards (ShSpec m)))))) s"
proof (induction "is" arbitrary: s)
  case (Cons i "is")
  from Cons.IH [of "s\<lparr>r_tick := Suc (r_tick s)\<rparr>"] Cons.prems
  have "wp (shards_ready W m is) (\<lambda>b t. ev_run P E t \<and> extends s t \<and> (b \<longrightarrow> (\<forall>i \<in> set is.
      seen_ready W m (shard_name m i) (sh_MembersPerShard (shd_Shards (ShSpec m)))))) (s\<lparr>r_tick := Suc (r_tick s)\<rparr>)"
    by (simp add: extends_def)
  with Cons.prems show ?case
    by (auto simp: wp_bind wp_ask wp_ret seen_ready_def split: sum.splits elim!: wp_mono)
qed (simp add: wp_ret)

lemma mongos_step:
  assumes h: "honest R W" and s: "ev_run P E s" "config_server_up W (r_log s) (r_obj s)" "shards_up W (r_log s) (r_obj s)"
  shows "wp (stage W n (reconcileMongos W) (after_mongos cfg W)) (\<lambda>_. ev_run P E) s"
proof -
  have "P (r_obj s)" using s by (simp add: ev_run_def)
  then have "E pre (AppliedWorkload (ShName (r_obj s) @ ''-mongos'') (r_obj s) b)" if "set (r_log s) \<subseteq> set pre" for pre b
    using mongos config_server_up_mono [OF that s(2)] shards_up_mono [OF that s(3)] by blast
  then have "wp (reconcileMongos W) (\<lambda>err t. ev_run P E t \<and> extends s t
      \<and> (err = None \<longrightarrow> applied_before (ShName (r_obj s) @ ''-mongos'') (r_log t))) s"
    unfolding reconcileMongos_def wp_bind [of the_obj] wp_the_obj
    by (intro three_post built_post s)
  then show ?thesis
    by (rule stage_post [OF h]) (auto intro: keeps_wp [OF after_mongos_step [OF h]])
qed

lemma workloads_step:
  assumes h: "honest R W" shows "keeps (ev_run P E) (workloads_pass cfg W)"
  unfolding keeps_def workloads_pass_def
proof (intro allI impI)
  fix s assume s: "ev_run P E s"
  let ?m = "r_obj s"
  have "P ?m" using s by (simp add: ev_run_def)
  then have c: "wp (reconcileConfigServer W) (\<lambda>err t. ev_run P E t \<and> extends s t
      \<and> (err = None \<longrightarrow> applied_before (ShName ?m @ ''-cfg'') (r_log t))) s"
    unfolding reconcileConfigServer_def wp_bind [of the_obj] wp_the_obj
    by (intro three_post scripts_post s config_server)
  have sh: "wp (each_shard W [0..<shard_count ?m] (areShardsReady W \<bind> (\<lambda>ready.
      if \<not> ready then ret r else stage W n (reconcileMongos W) (after_mongos cfg W)))) (\<lambda>_. ev_run P E) t"
    if t: "ev_run P E t" "extends s t" "config_server_up W (r_log t) ?m" for t n and r :: reconcile_result
  proof (rule each_shard_step [OF h t(1)])
    fix u assume u: "ev_run P E u" "extends t u"
      "\<forall>i \<in> set [0..<shard_count ?m]. applied_before (shard_name (r_obj t) i) (r_log u)"
    have m: "r_obj t = ?m" "r_obj u = ?m" using t u by (simp_all add: extends_def)
    show "wp (areShardsReady W \<bind> (\<lambda>ready. if \<not> ready then ret r
        else stage W n (reconcileMongos W) (after_mongos cfg W))) (\<lambda>_. ev_run P E) u"
      unfolding areShardsReady_def wp_bind wp_the_obj
    proof (rule wp_mono [OF shards_ready_post [OF u(1)]])
      fix b v assume v: "ev_run P E v \<and> extends u v \<and> (b \<longrightarrow> (\<forall>i \<in> set [0..<shard_count (r_obj u)].
        seen_ready W (r_obj u) (shard_name (r_obj u) i) (sh_MembersPerShard (shd_Shards (ShSpec (r_obj u))))))"
      then have "config_server_up W (r_log v) (r_obj v)" "b \<Longrightarrow> shards_up W (r_log v) (r_obj v)"
        using u t m config_server_up_extends [OF extends_trans [OF u(2)]]
        by (auto simp: shards_up_def extends_def intro: applied_before_mono)
      with v show "wp (if \<not> b then ret r else stage W n (reconcileMongos W) (after_mongos cfg W)) (\<lambda>_. ev_run P E) v"
        by (auto simp: wp_ret intro: mongos_step [OF h])
    qed
  qed (use t in \<open>auto simp: extends_def\<close>)
  show "wp (stage W ''ConfigServer'' (reconcileConfigServer W) (isConfigServerReady W \<bind> (\<lambda>cfgReady.
      if \<not> cfgReady then ret (requeue_after requeueProvisioning, None) else the_obj \<bind> (\<lambda>m.
        each_shard W [0..<shard_count m] (areShardsReady W \<bind> (\<lambda>shardsReady.
          if \<not> shardsReady then ret (requeue_after requeueProvisioning, None)
          else stage W ''Mongos'' (reconcileMongos W) (after_mongos cfg W))))))) (\<lambda>_. ev_run P E) s"
  proof (rule stage_post [OF h c])
    fix t assume t: "ev_run P E t \<and> extends s t \<and> (None = None \<longrightarrow> applied_before (ShName ?m @ ''-cfg'') (r_log t))"
    then have "wp (isConfigServerReady W) (\<lambda>b u. ev_run P E u \<and> extends s u \<and> (b \<longrightarrow> config_server_up W (r_log u) ?m)) t"
      by (auto simp: isConfigServerReady_def wp_flow extends_def config_server_up_def seen_ready_def split: sum.splits)
    then show "wp (isConfigServerReady W \<bind> (\<lambda>cfgReady.
      if \<not> cfgReady then ret (requeue_after requeueProvisioning, None) else the_obj \<bind> (\<lambda>m.
        each_shard W [0..<shard_count m] (areShardsReady W \<bind> (\<lambda>shardsReady.
          if \<not> shardsReady then ret (requeue_after requeueProvisioning, None)
          else stage W ''Mongos'' (reconcileMongos W) (after_mongos cfg W)))))) (\<lambda>_. ev_run P E) t"
      unfolding wp_bind [of "isConfigServerReady W"]
      by (rule wp_mono) (auto simp: wp_ret wp_bind [of the_obj] wp_the_obj extends_def intro!: sh [unfolded extends_def])
  qed simp
qed

lemma resources_step:
  assumes h: "honest R W" shows "keeps (ev_run P E) (sharded_resources cfg W)"
  unfolding sharded_resources_def sharded_upgrade_and_apply_def
  by (intro stage_step [OF h] tls_step keeps_intros upgrade [OF honest_retry [OF h]] error_step [OF h] workloads_step [OF h])

lemma pass_keeps:
  assumes h: "honest R W" and "w_get W k = Inr m" "P m"
  shows "wp (ReconcileSharded cfg W) (\<lambda>_. ev_run P E) (start_run m k)"
proof -
  have f: "keeps (ev_run P E) (UpdateWithRetry W setShardedInitializing)"
    by (rule small_update [OF honest_retry [OF h]]) (auto simp: setShardedInitializing_def upgrade_fields_def intro!: exI)
  have i: "keeps (ev_run P E) (UpdateWithRetry W setShardedInitializing \<bind> (\<lambda>err. case err of
      Some e \<Rightarrow> ret (no_requeue, Some e) | None \<Rightarrow> sharded_resources cfg W))"
    by (intro keeps_intros resources_step [OF h] f)
  have u: "keeps (ev_run P E) (update_object W \<bind> (\<lambda>err. ret (g err)))" for g :: "go_error option \<Rightarrow> reconcile_result"
    by (intro keeps_intros update_object_step [OF h])
  show ?thesis
    using assms(2,3) keeps_wp [OF i] keeps_wp [OF u] keeps_wp [OF resources_step [OF h, of cfg]] finalizer [of m]
    by (simp add: ReconcileSharded_def wp_bind [of "ask (w_get W)"] wp_ask wp_bind [of "put_obj _"] wp_put_obj wp_if ev_run_def)
qed

end

section \<open>The version discipline of sharded clusters\<close>

definition sound_effect :: "MongoDBSharded effect \<Rightarrow> bool" where
  "sound_effect e = (case e of PersistStatus m \<Rightarrow> uinv (sh_view m) | PersistObject m \<Rightarrow> uinv (sh_view m)
     | AppliedWorkload _ m _ \<Rightarrow> uinv (sh_view m) | _ \<Rightarrow> True)"

lemma sound_log: "every_effect (\<lambda>_. sound_effect) es \<longleftrightarrow> good_log sh_view es"
proof (induction es rule: rev_induct)
  case (snoc e es)
  then show ?case by (cases e) (simp_all add: sound_effect_def)
qed simp

lemma sh_machine_sound:
  assumes "retry_ok (edited sh_view) W"
  shows "keeps (ev_run (\<lambda>m. uinv (sh_view m)) (\<lambda>_. sound_effect)) (reconcileShardedUpgrade W)"
  unfolding keeps_def
proof (intro allI impI)
  fix s assume s: "ev_run (\<lambda>m. uinv (sh_view m)) (\<lambda>_. sound_effect) s"
  then have "good_run sh_view (sh_desired (r_obj s)) s"
    using good_obj_refl [of "sh_view (r_obj s)"]
    by (simp add: ev_run_def sound_log good_run_def) (simp add: sh_view_def)
  from reconcileShardedUpgrade_good [OF assms this]
  show "wp (reconcileShardedUpgrade W) (\<lambda>_. ev_run (\<lambda>m. uinv (sh_view m)) (\<lambda>_. sound_effect)) s"
    by (rule wp_mono) (auto simp: good_run_def ev_run_def sound_log intro: good_obj_uinv)
qed

interpretation sh_discipline: sharded_invariant "\<lambda>m. uinv (sh_view m)" "\<lambda>_. sound_effect" "edited sh_view" W for W
proof unfold_locales
  fix m b t assume "uinv (sh_view m)" "ss_UpgradePhase (ShStatus m) = UpgradePhaseUpgrading" "edited sh_view m b"
  then have "uinv (sh_view b)" "uv_UpgradePhase (sh_view b) \<noteq> []"
    using edited_fields(1) [of sh_view m b]
    by (auto simp: edited_def upgrade_phase_defs intro: uinv_edited) (simp add: sh_view_def)
  moreover have "sh_view (setShardedValidating t b) = a_phase UpgradePhaseValidating (sh_view b)"
    by (simp add: sh_view_def setShardedValidating_def ensureShardedUpgradeStartTime_def a_phase_def)
  ultimately show "uinv (sh_view (setShardedValidating t b))" by (simp add: uinv_a_phase)
next
  fix a b assume "uinv (sh_view a)" "edited sh_view a b"
  then show "uinv (sh_view b)" by (auto simp: edited_def intro: uinv_edited)
next
  fix m x assume "uinv (sh_view m)" "upgrade_fields x = upgrade_fields (ShStatus m)"
  then show "uinv (sh_view (m\<lparr>ShStatus := x\<rparr>))" by (simp add: sh_view_def upgrade_fields_def)
next
  show "retry_ok (edited sh_view) W \<Longrightarrow>
      keeps (ev_run (\<lambda>m. uinv (sh_view m)) (\<lambda>_. sound_effect)) (reconcileShardedUpgrade W)"
    by (rule sh_machine_sound)
qed (auto simp: sound_effect_def sh_view_def)

text \<open>The life of a sharded cluster: reconcile passes and accepted edits of the spec.\<close>

inductive sharded_life ::
    "(string list \<Rightarrow> string \<Rightarrow> bool) \<Rightarrow> op_config \<Rightarrow> MongoDBSharded \<Rightarrow> MongoDBSharded effect list \<Rightarrow> MongoDBSharded \<Rightarrow> bool"
  for isSup cfg m0 where
  sh_created: "sharded_life isSup cfg m0 [] m0"
| sh_reconciled: "sharded_life isSup cfg m0 es m \<Longrightarrow> honest (edited sh_view) W \<Longrightarrow> w_get W k = Inr m \<Longrightarrow>
     run_state (ReconcileSharded cfg W) (start_run m k) = (r, s') \<Longrightarrow>
     sharded_life isSup cfg m0 (es @ r_log s') (stored m (r_log s'))"
| sh_spec_edited: "sharded_life isSup cfg m0 es m \<Longrightarrow> accepted_update isSup (sh_desired m) (sh_desired m') \<Longrightarrow>
     ShStatus m' = ShStatus m \<Longrightarrow> ShGeneration m \<le> ShGeneration m' \<Longrightarrow> sharded_life isSup cfg m0 es m'"

lemma good_log_stored: "good_log view es \<Longrightarrow> uinv (view m) \<Longrightarrow> uinv (view (stored m es))"
  using stored_cases [of m es] by (auto simp: good_log_def)

lemma sharded_life_discipline:
  assumes "sharded_life isSup cfg m0 es m" "\<forall>l x. isSup l x = (x \<in> set l)" "uinv (sh_view m0)"
  shows "uinv (sh_view m) \<and> good_log sh_view es"
  using assms(1)
proof induction
  case (sh_reconciled es m W k r s')
  with wpD [OF sh_discipline.pass_keeps [OF sh_reconciled(2,3)] sh_reconciled(4)]
  have "good_log sh_view (r_log s')" by (simp add: ev_run_def sound_log)
  with sh_reconciled show ?case by (simp add: good_log_stored [of sh_view])
next
  case (sh_spec_edited es m m')
  have "vle (sh_desired m) (sh_desired m')"
    using sh_spec_edited accepted_vle [OF assms(2)] by (simp add: uinv_def sh_view_def)
  then have "edited_view (sh_view m) (sh_view m')"
    using sh_spec_edited by (simp add: edited_view_def sh_view_def)
  with sh_spec_edited show ?case by (blast intro: uinv_edited)
qed (simp add: assms(3))

definition sh_deployed_version :: "MongoDBSharded \<Rightarrow> string" where
  "sh_deployed_version m = ver_Version (effectiveMongoDBVersion (shd_Version (ShSpec m)) (ss_EffectiveVersion (ShStatus m)))"

lemma sh_uinv_deployed:
  assumes "uinv (sh_view m)" shows "fcv_below (ss_FCVVersion (ShStatus m)) (sh_deployed_version m)"
proof -
  have f: "fcv_below (ss_FCVVersion (ShStatus m)) (ss_EffectiveVersion (ShStatus m))"
    and e: "ss_EffectiveVersion (ShStatus m) \<noteq> [] \<longrightarrow> vle (ss_EffectiveVersion (ShStatus m)) (sh_desired m)"
    using assms by (simp_all add: uinv_def sh_view_def)
  have "ss_EffectiveVersion (ShStatus m) = [] \<Longrightarrow> ss_FCVVersion (ShStatus m) = []"
    using f by (auto simp: fcv_below_def dest: supported_mm_ne)
  with f e show ?thesis
    by (auto simp: sh_deployed_version_def effectiveMongoDBVersion_def fcv_below_def [of "[]"] intro: fcv_below_vle)
qed

definition fresh_sharded :: "MongoDBSharded \<Rightarrow> bool" where
  "fresh_sharded m \<longleftrightarrow> supported_mm (sh_desired m) \<and> ss_Version (ShStatus m) = [] \<and> ss_EffectiveVersion (ShStatus m) = []
     \<and> ss_FCVVersion (ShStatus m) = [] \<and> ss_UpgradePhase (ShStatus m) = []"

text \<open>The same discipline as for replica sets holds along the life of a sharded cluster.\<close>

lemma sharded_life_fcv_below:
  assumes "\<forall>l x. isSup l x = (x \<in> set l)" and "fresh_sharded m0" and "sharded_life isSup cfg m0 es m"
  shows "fcv_below (ss_FCVVersion (ShStatus m)) (sh_deployed_version m)
    \<and> (ss_UpgradePhase (ShStatus m) \<noteq> [] \<longrightarrow> fcv_below (ss_FCVVersion (ShStatus m)) (ss_PreviousVersion (ShStatus m)))
    \<and> (\<forall>m' \<in> set (applied es). fcv_below (ss_FCVVersion (ShStatus m')) (sh_deployed_version m'))"
proof -
  have "uinv (sh_view m0)"
    using assms(2) by (simp add: fresh_sharded_def uinv_def sh_view_def fcv_below_def)
  from sharded_life_discipline [OF assms(3,1) this] show ?thesis
    by (auto simp: good_log_def intro: sh_uinv_deployed) (simp add: uinv_def sh_view_def)
qed

text \<open>A new sharded cluster, and a pass over it in the sample world.\<close>

definition new_sharded :: MongoDBSharded where
  "new_sharded = sample_sharded\<lparr>ShMeta := (ShMeta sample_sharded)\<lparr>om_Finalizers := []\<rparr>,
     ShSpec := (ShSpec sample_sharded)\<lparr>shd_Version := \<lparr>ver_Version = ''8.0.4'', ver_Image = []\<rparr>\<rparr>,
     ShStatus := (ShStatus sample_sharded)\<lparr>ss_Version := [], ss_EffectiveVersion := [], ss_FCVVersion := [],
       ss_UpgradePhase := [], ss_PreviousVersion := []\<rparr>\<rparr>"

definition sh_world :: "MongoDBSharded \<Rightarrow> MongoDBSharded world" where
  "sh_world m = reading m (sample_world 0 done_sts [mongos_pod] yes_driver)"

definition sh_pass_log :: "MongoDBSharded \<Rightarrow> MongoDBSharded effect list" where
  "sh_pass_log m = r_log (snd (run_state (ReconcileSharded sample_cfg (sh_world m)) (start_run m 0)))"

definition sh_after_pass :: "MongoDBSharded \<Rightarrow> MongoDBSharded" where
  "sh_after_pass m = stored m (sh_pass_log m)"

lemma sh_world_facts [simp]: "w_get (sh_world m) k = Inr m" "(\<And>m. R m m) \<Longrightarrow> honest R (sh_world m)"
  by (simp_all add: sh_world_def honest_sample)

section \<open>What a pass destroys and in which order it rolls out\<close>

definition same_sharded :: "MongoDBSharded \<Rightarrow> MongoDBSharded \<Rightarrow> bool" where
  "same_sharded a b \<longleftrightarrow> ShSpec b = ShSpec a \<and> ShName b = ShName a \<and> ShNamespace b = ShNamespace a \<and> ShGeneration b = ShGeneration a"

lemma same_sharded_refl [simp]: "same_sharded m m"
  by (simp add: same_sharded_def)

lemma same_sharded_trans: "same_sharded a b \<Longrightarrow> same_sharded b c \<Longrightarrow> same_sharded a c"
  by (simp add: same_sharded_def)

lemma same_sharded_upd [simp]: "same_sharded a (m\<lparr>ShStatus := x\<rparr>) = same_sharded a m"
  by (simp add: same_sharded_def)

lemma same_sharded_names:
  assumes "same_sharded m0 m"
  shows "shard_name m = shard_name m0" "shard_count m = shard_count m0"
    "belongs_to_shard W m = belongs_to_shard W m0" "config_server_up W pre m = config_server_up W pre m0"
    "shards_up W pre m = shards_up W pre m0"
  using assms by (simp_all add: same_sharded_def fun_eq_iff shard_name_def shard_count_def belongs_to_shard_def
      config_server_up_def shards_up_def seen_ready_def)

text \<open>What the effects of a pass over \<open>m0\<close> need in their history.\<close>

definition orderly :: "MongoDBSharded world \<Rightarrow> MongoDBSharded \<Rightarrow> MongoDBSharded effect list \<Rightarrow> MongoDBSharded effect \<Rightarrow> bool" where
  "orderly W m0 pre e = (case e of
     Deleted kind name \<Rightarrow> kind \<in> policy_kinds \<or>
       (\<exists>i. shard_count m0 \<le> i \<and> drained W pre (shard_name m0 i) \<and> belongs_to_shard W m0 i kind name)
   | AppliedWorkload name m _ \<Rightarrow> ShSpec m = ShSpec m0 \<and>
       (name = ShName m0 @ ''-cfg''
        \<or> (\<exists>i < shard_count m0. name = shard_name m0 i \<and> config_server_up W pre m0)
        \<or> name = ShName m0 @ ''-mongos'' \<and> config_server_up W pre m0 \<and> shards_up W pre m0)
   | Issued (RemoveShardCmd shard) \<Rightarrow> \<exists>i. shard_count m0 \<le> i \<and> shard = shard_name m0 i
   | PersistStatus m \<Rightarrow> ShSpec m = ShSpec m0
   | PersistObject m \<Rightarrow> ShSpec m = ShSpec m0
   | _ \<Rightarrow> True)"

lemma orderly_machine:
  assumes "retry_ok same_sharded W"
  shows "keeps (ev_run (same_sharded m0) (orderly W m0)) (reconcileShardedUpgrade W)"
proof -
  have u: "keeps (ev_run (same_sharded m0) (orderly W m0)) (UpdateWithRetry W f)" 
    if f: "\<And>t m. \<exists>x. f t m = m\<lparr>ShStatus := x\<rparr>" for f
    unfolding keeps_def
  proof (intro allI impI)
    fix s assume s: "ev_run (same_sharded m0) (orderly W m0) s"
    have b: "same_sharded m0 b" "same_sharded m0 (f t b)" if "same_sharded (r_obj s) b" for b t
      using s that f [of t b] by (auto simp: ev_run_def intro: same_sharded_trans)
    show "wp (UpdateWithRetry W f) (\<lambda>_. ev_run (same_sharded m0) (orderly W m0)) s"
      by (rule wp_update [OF assms]) (use s b in \<open>auto simp: ev_run_def orderly_def same_sharded_def\<close>)
  qed
  have fin: "keeps (ev_run (same_sharded m0) (orderly W m0)) (finish_with W f out)"
    if "\<And>t m. \<exists>x. f t m = m\<lparr>ShStatus := x\<rparr>" for f out
    unfolding finish_with_def by (intro keeps_intros u that)
  have c: "keeps (ev_run (same_sharded m0) (orderly W m0)) (commitShardedFCV W m v)" for m v
    unfolding commitShardedFCV_def sh_password_def getAdminPassword_def getMongosPodName_def Let_def
    by (intro keeps_intros ev_intros ev_issue) (use SetFCV_cmds in \<open>force simp: orderly_def\<close>)
  have b: "keeps (ev_run (same_sharded m0) (orderly W m0)) (create_backup W bk)" for bk
    unfolding create_backup_def by (intro keeps_intros ev_intros ev_emit) (simp add: orderly_def)
  have mut: "\<exists>x. seedSharded d t m = m\<lparr>ShStatus := x\<rparr>" "\<exists>x. clearShardedUpgrade t m = m\<lparr>ShStatus := x\<rparr>"
    "\<exists>x. initShardedUpgrade d d' t m = m\<lparr>ShStatus := x\<rparr>" "\<exists>x. setShardedUpgrading t m = m\<lparr>ShStatus := x\<rparr>"
    "\<exists>x. abortShardedUpgrade t m = m\<lparr>ShStatus := x\<rparr>" "\<exists>x. completeShardedUpgrade d d' t m = m\<lparr>ShStatus := x\<rparr>"
    "\<exists>x. setShardedRollingBack t m = m\<lparr>ShStatus := x\<rparr>" "\<exists>x. failShardedUpgrade d d' t m = m\<lparr>ShStatus := x\<rparr>"
    "\<exists>x. finishShardedRollback d t m = m\<lparr>ShStatus := x\<rparr>" for d d' t m
    by (cases m; force simp: sharded_upgrade_mutators Let_def)+
  have "keeps (ev_run (same_sharded m0) (orderly W m0)) (sharded_upgrade_dispatch W d)" for d
    unfolding sharded_upgrade_dispatch_def reconcileShardedUpgradeBackup_def reconcileShardedUpgradeValidation_def
      reconcileShardedUpgradeRollback_def Let_def
    by (intro keeps_intros ev_intros fin b c mut)
  then show ?thesis unfolding reconcileShardedUpgrade_def Let_def by (intro keeps_intros u mut)
qed

interpretation pass_order: sharded_invariant "same_sharded m0" "orderly W m0" same_sharded W for W m0
proof unfold_locales
  show "retry_ok same_sharded W \<Longrightarrow> keeps (ev_run (same_sharded m0) (orderly W m0)) (reconcileShardedUpgrade W)"
    by (rule orderly_machine)
next
  fix m b t assume "same_sharded m0 m" "same_sharded m b"
  then show "same_sharded m0 (setShardedValidating t b)"
    by (auto simp: setShardedValidating_def ensureShardedUpgradeStartTime_def intro: same_sharded_trans)
qed (auto simp: orderly_def same_sharded_names intro: same_sharded_trans, auto simp: same_sharded_def)

lemma orderly_pass:
  assumes "honest same_sharded W" and "w_get W k = Inr m"
    and "run_state (ReconcileSharded cfg W) (start_run m k) = (r, s')" and "r_log s' = pre @ e # post"
  shows "orderly W m pre e"
  using wpD [OF pass_order.pass_keeps [OF assms(1,2) same_sharded_refl] assms(3)] assms(4)
  unfolding ev_run_def every_effect_def by blast

text \<open>
  C3. Scaling in never deletes a shard that still holds data: whatever a pass deletes other than
  policies and autoscalers belongs to one shard with an index beyond the declared count, and at
  an earlier point of the same pass the removal of exactly that shard was requested and mongos
  answered that it is complete. The claims of the shard are covered like its StatefulSet.
\<close>

theorem scale_in_deletes_only_drained:
  assumes "honest same_sharded W" and "w_get W k = Inr m"
    and "run_state (ReconcileSharded cfg W) (start_run m k) = (r, s')"
    and "r_log s' = pre @ Deleted kind name # post" and "kind \<notin> policy_kinds"
  shows "\<exists>i. shard_count m \<le> i \<and> drained W pre (shard_name m i) \<and> belongs_to_shard W m i kind name"
  using orderly_pass [OF assms(1-4)] assms(5) by (simp add: orderly_def)

text \<open>The sample cluster, settled on its version and declared with one shard only.\<close>

definition shrinking :: MongoDBSharded where
  "shrinking = sample_sharded\<lparr>ShSpec := (ShSpec sample_sharded)\<lparr>shd_Shards := (shd_Shards (ShSpec sample_sharded))\<lparr>sh_Count := 1\<rparr>\<rparr>,
     ShStatus := (ShStatus sample_sharded)\<lparr>ss_Version := ''8.2.1'', ss_UpgradePhase := []\<rparr>\<rparr>"

lemma shrinking_facts:
  "ShName shrinking = ''sh''" "ShNamespace shrinking = ''db''" "om_DeletionTimestamp (ShMeta shrinking) = None"
  "om_Finalizers (ShMeta shrinking) = [FinalizerMongoDBSharded]" "ss_Phase (ShStatus shrinking) = ''Running''"
  "shd_TLS (ShSpec shrinking) = None" "ss_EffectiveVersion (ShStatus shrinking) = ''8.2.1''"
  "ss_Version (ShStatus shrinking) = ''8.2.1''" "sh_desired shrinking = ''8.2.1''" "ss_UpgradePhase (ShStatus shrinking) = []"
  "auth_AdminCredentialsSecretRef (shd_Auth (ShSpec shrinking)) = ''admin-creds''"
  "cs_Members (shd_ConfigServer (ShSpec shrinking)) = 3" "shard_count shrinking = 1"
  "sh_Count (shd_Shards (ShSpec shrinking)) = 1" "sh_MembersPerShard (shd_Shards (ShSpec shrinking)) = 3"
  "ss_ConfigServerInitialized (ShStatus shrinking)" "ss_ShardsInitialized (ShStatus shrinking) = [True, True]"
  "ss_AdminUserCreated (ShStatus shrinking)" "length (ss_Shards (ShStatus shrinking)) = 2"
  by (simp_all add: shrinking_def sample_sharded_def FinalizerMongoDBSharded_def shard_count_def)

lemma shrinking_policies: "map pp_Name (BuildShardedPDBs shrinking) = [''sh-cfg-pdb'', ''sh-shard-0-pdb'', ''sh-mongos-pdb'']"
  "map npl_Name (BuildShardedNetworkPolicies shrinking) = [''sh-cfg-netpol'', ''sh-shard-0-netpol'', ''sh-mongos-netpol'']"
  "BuildShardedPDBs shrinking \<noteq> []" "BuildShardedNetworkPolicies shrinking \<noteq> []"
  by code_simp+

lemma sample_remove_shard:
  "RemoveShardWithStatus yes_driver (mongos_factory yes_driver m pw) p ns sh
   = ([RemoveShardCmd sh], Inr \<lparr>rsr_State = ''completed'', rsr_Msg = [], rsr_Shard = sh, rsr_Chunks = 0, rsr_Databases = 0\<rparr>)"
  by (auto simp: RemoveShardWithStatus_def mongos_factory_def sample_service_ok split: sum.splits) (simp_all add: yes_driver_def)

lemmas sharded_pass_run = ReconcileSharded_def sharded_resources_def sharded_upgrade_and_apply_def workloads_pass_def stage_def
  reconcileShardedTLS_def buildCertificate_def cert_request_def reconcileKeyfileSecret_def apply_built_def
  reconcileShardedUpgrade_def sharded_upgrade_dispatch_def reconcileConfigServer_def and_then_def
  reconcileConfigServerScriptsConfigMap_def apply_workload_def isConfigServerReady_def reconcileShard_def
  reconcileShardScriptsConfigMap_def areShardsReady_def reconcileMongos_def after_mongos_def initialize_pass_def
  reconcileShardedPDBs_def reconcileShardedNetworkPolicies_def reconcileShardsInit_def persist_flags_def isMongosReady_def
  registry_pass_def stage_result_def reconcileScaleIn_def sh_password_def getAdminPassword_def
  extend_flags_def go_index_def cleanupShardResources_def shard_objects_def delete_named_def ignore_not_found_def
  drop_condition_def in_conditions_def reset_flags_def setShardsInitialized_def shard_name_def reconcileAddShards_def
  getMongosPodName_def updateStatusError_def all_initialized_def

lemma shard_count_upd: "shard_count (m\<lparr>ShStatus := x\<rparr>) = shard_count m"
  by (simp add: shard_count_def)

lemma one_shard: "[Suc 0..<2] = [Suc 0]" "show_nat (Suc 0) = ''1''" "show_nat 0 = ''0''"
  by (simp add: upt_rec, code_simp+)

text \<open>Without a running mongos pod, the pass ends after the scale-in.\<close>

abbreviation shrink_world :: "MongoDBSharded world" where
  "shrink_world \<equiv> reading shrinking (sample_world 0 done_sts [] yes_driver)"

lemma shrinking_deletes:
  "wp (ReconcileSharded sample_cfg shrink_world) (\<lambda>_ s'. Deleted ''StatefulSet'' ''sh-shard-1'' \<in> set (r_log s')
     \<and> (\<exists>m keep. AppliedWorkload ''sh-mongos'' m keep \<in> set (r_log s'))) (start_run shrinking 0)"
  by (simp add: sharded_pass_run wp_flow wp_UpdateWithRetry reading_def sample_world_def shrinking_facts Let_def
    done_sts_def shrinking_policies accept_update_def sample_remove_shard upgrade_phase_defs shard_count_upd one_shard no_requeue_def)

theorem scale_in_deletes_only_drained_witness:
  "\<exists>pre i. 1 \<le> i \<and> drained shrink_world pre (shard_name shrinking i)
     \<and> belongs_to_shard shrink_world shrinking i ''StatefulSet'' ''sh-shard-1''"
proof -
  obtain r s' where run: "run_state (ReconcileSharded sample_cfg shrink_world) (start_run shrinking 0) = (r, s')"
    by fastforce
  with wpD [OF shrinking_deletes run] obtain pre post where
    "r_log s' = pre @ Deleted ''StatefulSet'' ''sh-shard-1'' # post" by (meson split_list)
  with scale_in_deletes_only_drained [OF _ _ run this] show ?thesis
    by (auto simp: honest_sample shrinking_facts policy_kinds_def)
qed

text \<open>
  C4. Components are rolled out in the order MongoDB asks for: a pass applies a shard only after
  it has applied the config servers and seen all of them ready, and mongos only after it has
  applied the config servers and every shard and seen all of them ready. Every workload is built
  from the spec that was read.
\<close>

theorem components_rolled_out_in_order:
  assumes "honest same_sharded W" and "w_get W k = Inr m"
    and "run_state (ReconcileSharded cfg W) (start_run m k) = (r, s')"
    and "r_log s' = pre @ AppliedWorkload name m' keep # post"
  shows "ShSpec m' = ShSpec m \<and>
    (name = ShName m @ ''-cfg''
     \<or> (\<exists>i < shard_count m. name = shard_name m i \<and> config_server_up W pre m)
     \<or> name = ShName m @ ''-mongos'' \<and> config_server_up W pre m \<and> shards_up W pre m)"
  using orderly_pass [OF assms] by (simp add: orderly_def)

theorem components_rolled_out_in_order_witness:
  "\<exists>pre. config_server_up shrink_world pre shrinking \<and> shards_up shrink_world pre shrinking"
proof -
  obtain r s' where run: "run_state (ReconcileSharded sample_cfg shrink_world) (start_run shrinking 0) = (r, s')"
    by fastforce
  with wpD [OF shrinking_deletes run] obtain m' keep pre post where
    "r_log s' = pre @ AppliedWorkload ''sh-mongos'' m' keep # post" by (meson split_list)
  with components_rolled_out_in_order [OF _ _ run this] show ?thesis
    by (auto simp: honest_sample shrinking_facts shard_name_def)
qed

section \<open>Initialisation flags\<close>

definition confirmed :: "MongoDBSharded world \<Rightarrow> MongoDBSharded \<Rightarrow> string \<Rightarrow> nat \<Rightarrow> bool" where
  "confirmed W m pw i \<longleftrightarrow> (\<exists>k. let sh = shard_name m i; f = newShardedRSManager (w_drv W k) (sh @ ''-headless'') 27018 pw in
     IsInitialized (w_drv W k) f (sh @ ''-0'') (ShNamespace m) = Inr True
     \<or> snd (Initiate (w_drv W k) f (sh @ ''-0'') (ShNamespace m) (BuildReplicaSetConfig sh sh (sh @ ''-headless'')
         (ShNamespace m) (nat (sh_MembersPerShard (shd_Shards (ShSpec m)))) 27018)) = Inr ())"

definition better_flags :: "(nat \<Rightarrow> bool) \<Rightarrow> bool list \<Rightarrow> bool list \<Rightarrow> bool" where
  "better_flags Q old new \<longleftrightarrow> length new = length old \<and> (\<forall>i < length old. (old ! i \<longrightarrow> new ! i) \<and> (new ! i \<longrightarrow> old ! i \<or> Q i))"

lemma better_refl: "better_flags Q fl fl"
  by (simp add: better_flags_def)

lemma better_set:
  "i < length fl \<Longrightarrow> Q i \<Longrightarrow> better_flags Q (fl[i := True]) new \<Longrightarrow> better_flags Q fl new"
  by (auto simp: better_flags_def nth_list_update split: if_splits)

lemma init_shards_flags:
  "\<forall>i \<in> set is. i < length fl \<Longrightarrow>
   wp (init_shards W m pw is errs fl) (\<lambda>r _. \<exists>errs' fl'. r = Inr (errs', fl') \<and> better_flags (confirmed W m pw) fl fl') s"
proof (induction "is" arbitrary: errs fl s)
  case (Cons i "is")
  have set: "wp (init_shards W m pw is errs (fl[i := True])) (\<lambda>r _. \<exists>errs' fl'. r = Inr (errs', fl')
      \<and> better_flags (confirmed W m pw) fl fl') t" if "confirmed W m pw i" for errs t
    by (rule wp_mono [OF Cons.IH]) (use Cons.prems that in \<open>auto intro: better_set\<close>)
  have conf: "confirmed W m pw i" if "IsInitialized (w_drv W k) (newShardedRSManager (w_drv W k) (shard_name m i @ ''-headless'') 27018 pw)
      (shard_name m i @ ''-0'') (ShNamespace m) = Inr True \<or> Initiate (w_drv W k) (newShardedRSManager (w_drv W k) (shard_name m i @ ''-headless'') 27018 pw)
      (shard_name m i @ ''-0'') (ShNamespace m) (BuildReplicaSetConfig (shard_name m i) (shard_name m i) (shard_name m i @ ''-headless'')
         (ShNamespace m) (nat (sh_MembersPerShard (shd_Shards (ShSpec m)))) 27018) = (cmds, Inr u)" for k cmds u
    unfolding confirmed_def Let_def using that by (intro exI [of _ k]) auto
  show ?case
    using Cons.prems Cons.IH
    by (auto simp: go_index_def wp_flow Let_def split: sum.splits prod.splits bool.splits intro!: set intro: conf)
qed (simp add: wp_ret better_refl)

text \<open>What becomes of the flags that were stored, against the number of declared shards.\<close>

definition kept_flags :: "(nat \<Rightarrow> bool) \<Rightarrow> nat \<Rightarrow> bool list \<Rightarrow> bool list \<Rightarrow> bool" where
  "kept_flags Q n old new \<longleftrightarrow> length new = max (length old) n
     \<and> (\<forall>i < length old. old ! i \<longrightarrow> new ! i)
     \<and> (\<forall>i < length new. new ! i \<longrightarrow> i < length old \<and> old ! i \<or> Q i)"

lemma better_extended: "better_flags Q (extend_flags n old) new \<Longrightarrow> kept_flags Q n old new"
  unfolding better_flags_def kept_flags_def extend_flags_def by (auto simp: nth_append split: if_splits)

lemma confirmed_flags: "confirmed W (updsh f m) = confirmed W m"
  by (simp add: fun_eq_iff confirmed_def shard_name_def)

lemma wp_init_flags:
  assumes "m' = updsh (ss_ShardsInitialized_update (extend_flags (shard_count m))) m"
  shows "wp (init_shards W m' pw [0..<shard_count m'] [] (ss_ShardsInitialized (ShStatus m')))
    (\<lambda>r s'. \<exists>errs new. r = Inr (errs, new) \<and> kept_flags (\<lambda>i. \<exists>pw. confirmed W m pw i) (shard_count m) (ss_ShardsInitialized (ShStatus m)) new
      \<and> persisted (r_log s') = persisted (r_log s)) s"
proof -
  have c: "shard_count m' = shard_count m" "ss_ShardsInitialized (ShStatus m') = extend_flags (shard_count m) (ss_ShardsInitialized (ShStatus m))"
    "confirmed W m' = confirmed W m"
    by (simp_all add: assms shard_count_def confirmed_flags)
  have "keeps (\<lambda>s'. persisted (r_log s') = persisted (r_log s)) (init_shards W m' pw is errs fl)" for "is" errs fl
    by (induction "is" arbitrary: errs fl) (auto simp: Let_def keeps_def wp_simps intro!: keeps_intros split: sum.split bool.split prod.split)
  moreover have "wp (init_shards W m' pw [0..<shard_count m] [] (extend_flags (shard_count m) (ss_ShardsInitialized (ShStatus m))))
     (\<lambda>r _. \<exists>errs new. r = Inr (errs, new) \<and> better_flags (confirmed W m' pw) (extend_flags (shard_count m) (ss_ShardsInitialized (ShStatus m))) new) s"
    by (rule init_shards_flags) (auto simp: extend_flags_def)
  moreover have kept: "kept_flags (\<lambda>i. \<exists>pw. confirmed W m pw i) n old new" if "better_flags (confirmed W m' pw) (extend_flags n old) new" for n old new
    using better_extended [OF that] unfolding kept_flags_def c by blast
  ultimately have "wp (init_shards W m' pw [0..<shard_count m] [] (extend_flags (shard_count m) (ss_ShardsInitialized (ShStatus m))))
      (\<lambda>r s'. (\<exists>errs new. r = Inr (errs, new) \<and> better_flags (confirmed W m' pw) (extend_flags (shard_count m) (ss_ShardsInitialized (ShStatus m))) new)
        \<and> persisted (r_log s') = persisted (r_log s)) s"
    unfolding wp_conj by (intro conjI keeps_wp) simp_all
  then show ?thesis
    unfolding c(1,2) by (rule wp_mono) (use kept in blast)
qed

text \<open>
  C27. The flags of the shards cannot be indexed out of range, and progress is never lost. In every
  run of the initialisation step, whatever is read again after a conflict, each status that is
  stored has as many flags as there are declared shards, or as many as before if these were more;
  every flag that was set is still set, and a new one is set only for a shard whose replica set
  answered that it is initialised or accepted \<^verbatim>\<open>replSetInitiate\<close>. When the password is read and the
  write is accepted, a status is stored: the step does not end in an index out of range.
\<close>

theorem shard_flags_safe_and_monotone:
  assumes "retry_ok (\<lambda>_ _. True) W" and "run_state (reconcileShardsInit W) (start_run m k) = (err, s')"
  shows "(\<forall>m' \<in> set (persisted (r_log s')). kept_flags (\<lambda>i. \<exists>pw. confirmed W m pw i) (shard_count m)
        (ss_ShardsInitialized (ShStatus m)) (ss_ShardsInitialized (ShStatus m')))
    \<and> (w_UpdateWithRetry W = accept_update \<and> (\<exists>pw s. run_state (sh_password W m) (start_run m k) = (Inr pw, s))
        \<longrightarrow> persisted (r_log s') \<noteq> [])"
proof -
  let ?m = "updsh (ss_ShardsInitialized_update (extend_flags (shard_count m))) m"
  let ?P = "\<lambda>m'. kept_flags (\<lambda>i. \<exists>pw. confirmed W m pw i) (shard_count m)
        (ss_ShardsInitialized (ShStatus m)) (ss_ShardsInitialized (ShStatus m'))"
  let ?go = "w_UpdateWithRetry W = accept_update \<and> (\<exists>pw s. run_state (sh_password W m) (start_run m k) = (Inr pw, s))"
  let ?Q = "\<lambda>s'. (\<forall>m' \<in> set (persisted (r_log s')). ?P m') \<and> (?go \<longrightarrow> persisted (r_log s') \<noteq> [])"
  have put: "wp (persist_flags W setShardsInitialized (errs, new)) (\<lambda>_. ?Q) s"
    if "kept_flags (\<lambda>i. \<exists>pw. confirmed W m pw i) (shard_count m) (ss_ShardsInitialized (ShStatus m)) new" "persisted (r_log s) = []" for errs new s
  proof (cases "w_UpdateWithRetry W = accept_update")
    case True
    then show ?thesis using that
      by (simp add: persist_flags_def wp_bind wp_ret_fun wp_ret wp_UpdateWithRetry accept_update_def setShardsInitialized_def)
  next
    case False
    then show ?thesis using that
      unfolding persist_flags_def wp_bind by (intro wp_update [OF assms(1)]) (simp_all add: wp_ret setShardsInitialized_def)
  qed
  have init: "wp (init_shards W ?m pw [0..<shard_count ?m] [] (ss_ShardsInitialized (ShStatus ?m)))
      (\<lambda>r. wp (case r of Inl p \<Rightarrow> ret (Some p) | Inr r \<Rightarrow> persist_flags W setShardsInitialized r) (\<lambda>_. ?Q)) s"
    if "persisted (r_log s) = []" for pw s
    by (rule wp_mono [OF wp_init_flags [OF refl]]) (use that put in auto)
  have pw: "run_state (sh_password W ?m) ((start_run m k)\<lparr>r_obj := x\<rparr>) =
      (fst (run_state (sh_password W m) (start_run m k)), (start_run m k)\<lparr>r_obj := x, r_tick := Suc k\<rparr>)" for x
    by (simp add: sh_password_def getAdminPassword_def ask_def ret_def start_run_def)
  have "wp (reconcileShardsInit W) (\<lambda>_. ?Q) (start_run m k)"
    unfolding reconcileShardsInit_def wp_bind wp_the_obj wp_put_obj
    using init by (auto simp: wp_def [of "sh_password W ?m"] pw wp_ret wp_bind [of "init_shards _ _ _ _ _ _"] split: sum.split prod.split)
  from wpD [OF this assms(2)] show ?thesis .
qed

definition partly_initialized :: MongoDBSharded where
  "partly_initialized = updsh (\<lambda>s. s\<lparr>ss_ShardsInitialized := [True]\<rparr>) sample_sharded"

theorem shard_flags_safe_and_monotone_witness:
  "\<exists>m'. m' \<in> set (persisted (r_log (snd (run_state (reconcileShardsInit (sample_world 0 done_sts [] yes_driver)) (start_run partly_initialized 0)))))
     \<and> length (ss_ShardsInitialized (ShStatus m')) = shard_count partly_initialized \<and> ss_ShardsInitialized (ShStatus m') ! 0"
proof -
  let ?W = "sample_world 0 done_sts [] yes_driver :: MongoDBSharded world"
  let ?s = "snd (run_state (reconcileShardsInit ?W) (start_run partly_initialized 0))"
  have flags: "ss_ShardsInitialized (ShStatus partly_initialized) = [True]" by (simp add: partly_initialized_def)
  have "\<exists>s. run_state (sh_password ?W partly_initialized) (start_run partly_initialized 0) = (Inr ''pw'', s)"
    by (simp add: sh_password_def getAdminPassword_def ask_def ret_def sample_world_def)
  moreover have "w_UpdateWithRetry ?W = accept_update" by (simp add: sample_world_def)
  ultimately have "persisted (r_log ?s) \<noteq> []" and all: "\<forall>m' \<in> set (persisted (r_log ?s)).
      kept_flags (\<lambda>i. \<exists>pw. confirmed ?W partly_initialized pw i) (shard_count partly_initialized) [True] (ss_ShardsInitialized (ShStatus m'))"
    using shard_flags_safe_and_monotone [of ?W, OF retry_ok_sample surjective_pairing, of partly_initialized 0] unfolding flags by auto
  then have "hd (persisted (r_log ?s)) \<in> set (persisted (r_log ?s))" by simp
  moreover have "0 < shard_count partly_initialized" by (simp add: partly_initialized_def shard_count_def sample_sharded_def)
  ultimately show ?thesis using all by (intro exI [of _ "hd (persisted (r_log ?s))"]) (auto simp: kept_flags_def)
qed

end
