(* ===== verification/Sharded_Status.thy ===== *)
theory Sharded_Status
  imports Sharded_Laws
begin

text \<open>
  What the status of a sharded cluster says: its conditions against the workloads they were read
  from, and the progress of a scale-in that needs several passes.
\<close>

section \<open>Recording several conditions\<close>

context condition_store
begin

lemma puts_says:
  "distinct (map c_Type us) \<Longrightarrow> c \<in> set us \<Longrightarrow> cond_says c (cond_of (c_Type c) (fold put us cs))"
proof (induction us arbitrary: cs)
  case (Cons u us)
  show ?case
  proof (cases "c = u")
    case True
    with Cons.prems have "c_Type c \<notin> c_Type ` set us" by simp
    with True puts_other [of "c_Type c" us "put u cs"] put_same [of u cs] show ?thesis by simp
  next
    case False
    with Cons show ?thesis by simp
  qed
qed simp

end

lemma says_status: "cond_says c d \<Longrightarrow> \<exists>x. d = Some x \<and> c_Status x = c_Status c"
  by (auto simp: cond_says_def split: option.splits)

lemma evaluated_types: "distinct (map c_Type (evaluateShardedConditions m ready))"
  by (auto simp: evaluateShardedConditions_def availability_def sharded_condition_def split: option.splits)

definition cond_is :: "string \<Rightarrow> Condition list \<Rightarrow> bool \<Rightarrow> bool" where
  "cond_is ty cs b \<longleftrightarrow> (\<exists>c. cond_of ty cs = Some c \<and> c_Status c = (if b then ConditionTrue else ConditionFalse))"

lemma recorded_conditions:
  assumes "condition_store (w_SetStatusCondition W)"
  shows "cond_is ''Ready'' (ss_Conditions (ShStatus (sharded_applyStatus W obs ready now m))) ready"
    "cond_is ''Progressing'' (ss_Conditions (ShStatus (sharded_applyStatus W obs ready now m))) (\<not> ready)"
    "cond_is ''ConfigServerReady'' (ss_Conditions (ShStatus (sharded_applyStatus W obs ready now m)))
       (component_ready (ss_ConfigServer (ShStatus m)))"
    "cond_is ''ShardsReady'' (ss_Conditions (ShStatus (sharded_applyStatus W obs ready now m)))
       (all_shards_ready (ss_Shards (ShStatus m)))"
    "cond_is ''MongosReady'' (ss_Conditions (ShStatus (sharded_applyStatus W obs ready now m)))
       (component_ready (ss_Mongos (ShStatus m)))"
proof -
  let ?S = "w_SetStatusCondition W"
  obtain m1 cs where a: "ss_Conditions (ShStatus (sharded_applyStatus W obs ready now m)) = fold ?S (evaluateShardedConditions m1 ready) cs"
    and m1: "ss_ConfigServer (ShStatus m1) = ss_ConfigServer (ShStatus m)" "ss_Shards (ShStatus m1) = ss_Shards (ShStatus m)"
      "ss_Mongos (ShStatus m1) = ss_Mongos (ShStatus m)"
    by (auto simp: sharded_applyStatus_def Let_def in_conditions_def)
  have s: "\<exists>x. cond_of (c_Type c) (fold ?S (evaluateShardedConditions m1 ready) cs) = Some x \<and> c_Status x = c_Status c"
    if "c \<in> set (evaluateShardedConditions m1 ready)" for c
    by (rule says_status [OF condition_store.puts_says [OF assms evaluated_types that]])
  have i: "cond_is ty (fold ?S (evaluateShardedConditions m1 ready) cs) b"
    if "c \<in> set (evaluateShardedConditions m1 ready)" "c_Type c = ty" "c_Status c = (if b then ConditionTrue else ConditionFalse)"
    for c ty b using s [OF that(1)] that by (auto simp: cond_is_def)
  show "cond_is ''Ready'' (ss_Conditions (ShStatus (sharded_applyStatus W obs ready now m))) ready"
    "cond_is ''Progressing'' (ss_Conditions (ShStatus (sharded_applyStatus W obs ready now m))) (\<not> ready)"
    "cond_is ''ConfigServerReady'' (ss_Conditions (ShStatus (sharded_applyStatus W obs ready now m)))
       (component_ready (ss_ConfigServer (ShStatus m)))"
    "cond_is ''ShardsReady'' (ss_Conditions (ShStatus (sharded_applyStatus W obs ready now m)))
       (all_shards_ready (ss_Shards (ShStatus m)))"
    "cond_is ''MongosReady'' (ss_Conditions (ShStatus (sharded_applyStatus W obs ready now m)))
       (component_ready (ss_Mongos (ShStatus m)))"
    unfolding a m1 [symmetric]
    by (rule i [OF nth_mem [of 0]] i [OF nth_mem [of 1]] i [OF nth_mem [of 2]] i [OF nth_mem [of 3]] i [OF nth_mem [of 4]];
        simp add: evaluateShardedConditions_def availability_def sharded_condition_def)+
qed

section \<open>The status against the workloads\<close>

definition shard_seen :: "(string \<Rightarrow> StatefulSet) \<Rightarrow> MongoDBSharded \<Rightarrow> nat \<Rightarrow> ShardStatus" where
  "shard_seen sts m i = \<lparr>sst_Name = shard_name m i, sst_Ready = sts_ReadyReplicas (sts (shard_name m i)),
     sst_Total = sh_MembersPerShard (shd_Shards (ShSpec m)), sst_Primary = [],
     sst_Phase = getComponentPhase (sts_ReadyReplicas (sts (shard_name m i))) (sh_MembersPerShard (shd_Shards (ShSpec m)))\<rparr>"

lemma wp_observe_shards:
  assumes "\<And>k n ns. w_sts W k n ns = Inr (sts n)"
  shows "wp (observe_shards W m is acc) Q s = Q (Inr (acc @ map (shard_seen sts m) is)) (s\<lparr>r_tick := r_tick s + length is\<rparr>)"
  by (induction "is" arbitrary: acc s) (simp_all add: wp_ret wp_bind wp_ask assms shard_seen_def)

lemma observe_collections_frame: "wp (observeShardedCollections W) (\<lambda>_ t. r_obj t = r_obj s \<and> r_log t = r_log s) s"
  by (auto simp: observeShardedCollections_def isMongosReady_def sh_password_def getAdminPassword_def getMongosPodName_def
      wp_flow split: sum.splits option.splits)

text \<open>
  The workloads of the cluster run as declared. The number of members that is asked for is the
  declared one; while a horizontal autoscaler is active on a component, it is the number that the
  autoscaler has set on the workload, if that is positive.
\<close>

definition asked_for :: "bool \<Rightarrow> int32 option \<Rightarrow> int32 \<Rightarrow> int32" where
  "asked_for hpa replicas declared = (case replicas of Some n \<Rightarrow> if hpa \<and> 0 < n then n else declared | None \<Rightarrow> declared)"

definition runs_as_declared :: "(string \<Rightarrow> StatefulSet) \<Rightarrow> Deployment \<Rightarrow> MongoDBSharded \<Rightarrow> bool" where
  "runs_as_declared sts d m \<longleftrightarrow>
     sts_ReadyReplicas (sts (ShName m @ ''-cfg''))
       = asked_for (IsConfigServerHPAActive m) (sts_Replicas (sts (ShName m @ ''-cfg''))) (cs_Members (shd_ConfigServer (ShSpec m)))
     \<and> (\<forall>i < shard_count m. sts_ReadyReplicas (sts (shard_name m i)) = sh_MembersPerShard (shd_Shards (ShSpec m)))
     \<and> dep_ReadyReplicas d = asked_for (IsMongosHPAActive m) (dep_Replicas d) (ms_Replicas (shd_Mongos (ShSpec m)))"

definition declares_members :: "MongoDBSharded \<Rightarrow> bool" where
  "declares_members m \<longleftrightarrow> 0 < cs_Members (shd_ConfigServer (ShSpec m)) \<and> 0 < sh_MembersPerShard (shd_Shards (ShSpec m))
     \<and> 0 < ms_Replicas (shd_Mongos (ShSpec m)) \<and> 0 \<le> sh_Count (shd_Shards (ShSpec m))
     \<and> sh_Count (shd_Shards (ShSpec m)) \<le> 2147483647"

lemma targets_asked_for:
  assumes "declares_members m"
  shows "ss_ConfigServer (ShStatus m) = component_status r (live_total (IsConfigServerHPAActive m) n (cs_Members (shd_ConfigServer (ShSpec m))))
      \<Longrightarrow> cfg_target m = asked_for (IsConfigServerHPAActive m) n (cs_Members (shd_ConfigServer (ShSpec m))) \<and> 0 < cfg_target m"
    and "ss_Mongos (ShStatus m) = component_status r (live_total (IsMongosHPAActive m) n (ms_Replicas (shd_Mongos (ShSpec m))))
      \<Longrightarrow> mongos_target m = asked_for (IsMongosHPAActive m) n (ms_Replicas (shd_Mongos (ShSpec m))) \<and> 0 < mongos_target m"
  using assms by (auto simp: cfg_target_def mongos_target_def component_status_def live_total_def asked_for_def declares_members_def
      split: option.splits if_splits)

lemma ready_when_observed:
  assumes "declares_members m"
    and "ss_Shards (ShStatus m) = map (shard_seen sts m) [0..<shard_count m]"
    and "ss_ConfigServer (ShStatus m) = component_status (sts_ReadyReplicas (sts (ShName m @ ''-cfg'')))
      (live_total (IsConfigServerHPAActive m) (sts_Replicas (sts (ShName m @ ''-cfg''))) (cs_Members (shd_ConfigServer (ShSpec m))))"
    and "ss_Mongos (ShStatus m) = component_status (dep_ReadyReplicas d)
      (live_total (IsMongosHPAActive m) (dep_Replicas d) (ms_Replicas (shd_Mongos (ShSpec m))))"
  shows "isClusterReady m \<longleftrightarrow> runs_as_declared sts d m"
proof -
  note t = targets_asked_for(1) [OF assms(1,3)] targets_asked_for(2) [OF assms(1,4)]
  have "cst_Ready (ss_ConfigServer (ShStatus m)) = sts_ReadyReplicas (sts (ShName m @ ''-cfg''))"
    "cst_Ready (ss_Mongos (ShStatus m)) = dep_ReadyReplicas d"
    using assms(3,4) by (simp_all add: component_status_def)
  with t assms(1,2) show ?thesis
    by (auto simp: isClusterReady_def Let_def runs_as_declared_def declares_members_def list_all_iff shard_count_def shard_seen_def)
qed

lemma status_only:
  "IsConfigServerHPAActive (m\<lparr>ShStatus := x\<rparr>) = IsConfigServerHPAActive m"
  "IsMongosHPAActive (m\<lparr>ShStatus := x\<rparr>) = IsMongosHPAActive m"
  "declares_members (m\<lparr>ShStatus := x\<rparr>) = declares_members m"
  "runs_as_declared sts d (m\<lparr>ShStatus := x\<rparr>) = runs_as_declared sts d m"
  "shard_count (m\<lparr>ShStatus := x\<rparr>) = shard_count m" "shard_seen sts (m\<lparr>ShStatus := x\<rparr>) = shard_seen sts m"
  by (simp_all add: fun_eq_iff IsConfigServerHPAActive_def IsMongosHPAActive_def declares_members_def runs_as_declared_def
      shard_count_def shard_name_def shard_seen_def)

text \<open>The last part of the update, on an object whose components were observed.\<close>

lemma write_status:
  assumes "condition_store (w_SetStatusCondition W)" "w_UpdateWithRetry W = accept_update" "r_log s = []"
    and "ss_Phase (ShStatus (r_obj s)) = ph"
  shows "wp (observeShardedCollections W \<bind> (\<lambda>obs. UpdateWithRetry W (sharded_applyStatus W obs b)))
    (\<lambda>err t. err = None \<and> r_log t = [PersistStatus (r_obj t)] \<and> cond_is ''Ready'' (ss_Conditions (ShStatus (r_obj t))) b
      \<and> cond_is ''Progressing'' (ss_Conditions (ShStatus (r_obj t))) (\<not> b) \<and> ss_Phase (ShStatus (r_obj t)) = ph) s"
  unfolding wp_bind
proof (rule wp_mono [OF observe_collections_frame])
  fix obs and t :: "MongoDBSharded rstate" assume "r_obj t = r_obj s \<and> r_log t = r_log s"
  then show "wp (UpdateWithRetry W (sharded_applyStatus W obs b)) (\<lambda>err t. err = None \<and> r_log t = [PersistStatus (r_obj t)]
      \<and> cond_is ''Ready'' (ss_Conditions (ShStatus (r_obj t))) b
      \<and> cond_is ''Progressing'' (ss_Conditions (ShStatus (r_obj t))) (\<not> b) \<and> ss_Phase (ShStatus (r_obj t)) = ph) t"
    using assms recorded_conditions [OF assms(1)]
    by (simp add: wp_UpdateWithRetry accept_update_def) (simp add: sharded_applyStatus_def Let_def in_conditions_def)
qed

text \<open>
  C28. The Ready condition of a sharded cluster tells the truth: when the reads succeed and the
  write is accepted, the status that is written reports Ready, and the phase Running, exactly if
  every declared shard has as many ready members as declared and the config servers and mongos have
  as many ready members as are asked for (as declared, or as an active autoscaler has set on the
  workload), and Progressing exactly if not.
\<close>

theorem sharded_ready_exact:
  assumes "condition_store (w_SetStatusCondition W)" and "w_UpdateWithRetry W = accept_update"
    and "\<And>k n ns. w_sts W k n ns = Inr (sts n)" and "\<And>k n ns. w_deployment W k n ns = Inr d"
    and "declares_members m"
    and "run_state (sharded_updateStatus W) (start_run m k) = (err, s')"
  shows "err = None \<and> r_log s' = [PersistStatus (r_obj s')]
    \<and> cond_is ''Ready'' (ss_Conditions (ShStatus (r_obj s'))) (runs_as_declared sts d m)
    \<and> cond_is ''Progressing'' (ss_Conditions (ShStatus (r_obj s'))) (\<not> runs_as_declared sts d m)
    \<and> ss_Phase (ShStatus (r_obj s')) = (if runs_as_declared sts d m then ''Running'' else ''Initializing'')"
proof -
  have r: "isClusterReady (m\<lparr>ShStatus := x\<rparr>) = runs_as_declared sts d m"
    if "ss_Shards x = map (shard_seen sts m) [0..<shard_count m]"
      "ss_ConfigServer x = component_status (sts_ReadyReplicas (sts (ShName m @ ''-cfg'')))
        (live_total (IsConfigServerHPAActive m) (sts_Replicas (sts (ShName m @ ''-cfg''))) (cs_Members (shd_ConfigServer (ShSpec m))))"
      "ss_Mongos x = component_status (dep_ReadyReplicas d)
        (live_total (IsMongosHPAActive m) (dep_Replicas d) (ms_Replicas (shd_Mongos (ShSpec m))))" for x
    using ready_when_observed [of "m\<lparr>ShStatus := x\<rparr>" sts d] assms(5) that by (simp add: status_only)
  have "wp (sharded_updateStatus W) (\<lambda>err t. err = None \<and> r_log t = [PersistStatus (r_obj t)]
      \<and> cond_is ''Ready'' (ss_Conditions (ShStatus (r_obj t))) (runs_as_declared sts d m)
      \<and> cond_is ''Progressing'' (ss_Conditions (ShStatus (r_obj t))) (\<not> runs_as_declared sts d m)
      \<and> ss_Phase (ShStatus (r_obj t)) = (if runs_as_declared sts d m then ''Running'' else ''Initializing'')) (start_run m k)"
    unfolding sharded_updateStatus_def and_then_def observe_config_server_def observe_all_shards_def observe_mongos_def Let_def
    by (auto simp: wp_bind [of "State_Monad.bind _ _"] wp_bind [of the_obj] wp_bind [of "ask _"] wp_bind [of "put_obj _"]
        wp_bind [of "observe_shards _ _ _ _"] wp_the_obj wp_ask wp_put_obj wp_ret wp_observe_shards [where sts = sts, OF assms(3)]
        assms(3,4) r status_only wp_bind [of "ret _"] intro!: write_status [OF assms(1,2), where b = True, simplified]
        write_status [OF assms(1,2), where b = False, simplified])
  from wpD [OF this assms(6)] show ?thesis .
qed

theorem sharded_ready_exact_witness:
  "cond_is ''Ready'' (ss_Conditions (ShStatus (r_obj (snd (run_state
     (sharded_updateStatus (sample_world 0 done_sts [mongos_pod] yes_driver)) (start_run sample_sharded 0)))))) True"
proof -
  let ?W = "sample_world 0 done_sts [mongos_pod] yes_driver :: MongoDBSharded world"
  let ?d = "\<lparr>dep_Replicas = Some 2, dep_ReadyReplicas = 2\<rparr>"
  obtain err s' where run: "run_state (sharded_updateStatus ?W) (start_run sample_sharded 0) = (err, s')" by fastforce
  have "runs_as_declared (\<lambda>_. done_sts) ?d sample_sharded" "declares_members sample_sharded"
    by (simp_all add: runs_as_declared_def declares_members_def IsConfigServerHPAActive_def IsMongosHPAActive_def
        hpa_enabled_def asked_for_def sample_sharded_def done_sts_def)
  moreover have "condition_store (w_SetStatusCondition ?W)"
    by (simp add: sample_world_def upgrade_cond.condition_store_axioms)
  ultimately show ?thesis
    using sharded_ready_exact [of ?W "\<lambda>_. done_sts" ?d sample_sharded 0 err s'] run by (simp add: sample_world_def)
qed

section \<open>A scale-in over several passes\<close>

lemma nothing_stored [keeps_intros]:
  "keeps (\<lambda>s. persisted (r_log s) = L) (ask q)" "keeps (\<lambda>s. persisted (r_log s) = L) (put_obj m)"
  "keeps (\<lambda>s. persisted (r_log s) = L) (issue op)" "keeps (\<lambda>s. persisted (r_log s) = L) (delete_named W kind n)"
  by (auto simp: keeps_def delete_named_def wp_flow wp_issue split: prod.splits)

lemma delete_each_stores_nothing: "keeps (\<lambda>s. persisted (r_log s) = L) (delete_each W what xs)"
proof (induction xs)
  case (Cons x xs)
  then show ?case by (cases x) (auto intro!: keeps_intros)
qed (auto intro: keeps_intros)

lemma drain_stores_nothing: "keeps (\<lambda>s. persisted (r_log s) = L) (drain_shards W pw is)"
proof (induction "is")
  case Nil
  show ?case unfolding drain_shards.simps drop_condition_def by (intro keeps_intros)
next
  case (Cons i "is")
  have "keeps (\<lambda>s. persisted (r_log s) = L) (cleanupShardResources W i)"
    unfolding cleanupShardResources_def Let_def by (intro keeps_intros delete_each_stores_nothing)
  then show ?case unfolding drain_shards.simps Let_def by (intro keeps_intros Cons)
qed

lemma scale_in_stores_nothing: "keeps (\<lambda>s. persisted (r_log s) = L) (reconcileScaleIn W)"
  unfolding reconcileScaleIn_def drop_condition_def sh_password_def getAdminPassword_def Let_def
  by (intro keeps_intros drain_stores_nothing)

text \<open>
  A scale-in that does not finish within one pass starts over: the step stores nothing, not
  even that shards were removed and cleaned up, so the next pass asks mongos to remove the first
  excess shard again. When that shard is gone and mongos answers with an error, the step fails
  with this error, in this pass and in every later one.
\<close>

theorem unfinished_scale_in_starts_over:
  assumes "run_state (reconcileScaleIn W) (start_run m k) = (r, s')"
    and "0 \<le> sh_Count (shd_Shards (ShSpec m))" and "sh_Count (shd_Shards (ShSpec m)) < int (length (ss_Shards (ShStatus m)))"
    and "length (ss_Shards (ShStatus m)) \<le> 2147483647"
    and "w_secret W' k' (auth_AdminCredentialsSecretRef (shd_Auth (ShSpec m))) (ShNamespace m) = Inr sec"
    and "map_of (sec_Data sec) ''password'' = Some pw"
    and "mongos_factory (w_drv W' (Suc k')) m pw (ShName m @ ''-mongos-0'') (ShNamespace m) True = Inr c"
    and "drv_remove_shard (w_drv W' (Suc k')) c (shard_name m (shard_count m)) = Inl e"
  shows "stored m (r_log s') = m
    \<and> fst (run_state (reconcileScaleIn W') (start_run (stored m (r_log s')) k'))
       = (no_requeue, Some (Wrapped (''remove shard '' @ shard_name m (shard_count m)) (Wrapped ''removeShard'' e)))"
proof -
  have "persisted (r_log s') = []"
    using keepsD [OF scale_in_stores_nothing [of "[]"] _ assms(1)] by simp
  then have "stored m (r_log s') = m" by (simp add: stored_persisted)
  moreover have "[shard_count m..<length (ss_Shards (ShStatus m))]
      = shard_count m # [Suc (shard_count m)..<length (ss_Shards (ShStatus m))]"
    using assms(2,3) by (simp add: shard_count_def upt_rec)
  with assms have "wp (reconcileScaleIn W') (\<lambda>r _. r = (no_requeue,
      Some (Wrapped (''remove shard '' @ shard_name m (shard_count m)) (Wrapped ''removeShard'' e)))) (start_run m k')"
    by (simp add: reconcileScaleIn_def sh_password_def getAdminPassword_def RemoveShardWithStatus_def wp_flow Let_def)
  ultimately show ?thesis by (simp add: wp_def split_beta)
qed

text \<open>A mongos on which one excess shard is gone and the other still draining, and the next answer.\<close>

definition draining_driver :: mongo_driver where
  "draining_driver = yes_driver\<lparr>drv_remove_shard := \<lambda>_ sh. Inr \<lparr>rsr_State = (if sh = ''sh-shard-1'' then ''completed'' else ''ongoing''),
     rsr_Msg = [], rsr_Shard = sh, rsr_Chunks = 0, rsr_Databases = 0\<rparr>\<rparr>"

definition gone_driver :: mongo_driver where
  "gone_driver = yes_driver\<lparr>drv_remove_shard := \<lambda>_ sh. Inl (ErrServer 70 ''shard does not exist'')\<rparr>"

definition shrinking3 :: MongoDBSharded where
  "shrinking3 = updsh (ss_Shards_update (\<lambda>ss. ss @ [\<lparr>sst_Name = ''sh-shard-2'', sst_Ready = 3, sst_Total = 3,
     sst_Primary = [], sst_Phase = ''Running''\<rparr>])) shrinking"

theorem unfinished_scale_in_starts_over_witness:
  "fst (run_state (reconcileScaleIn (sample_world 0 done_sts [] gone_driver)) (start_run (stored shrinking3
      (r_log (snd (run_state (reconcileScaleIn (sample_world 0 done_sts [] draining_driver)) (start_run shrinking3 0))))) 0))
   = (no_requeue, Some (Wrapped ''remove shard sh-shard-1'' (Wrapped ''removeShard'' (ErrServer 70 ''shard does not exist''))))"
proof -
  let ?W = "sample_world 0 done_sts [] draining_driver :: MongoDBSharded world"
  let ?W' = "sample_world 0 done_sts [] gone_driver :: MongoDBSharded world"
  let ?sec = "\<lparr>sec_Name = ''admin-creds'', sec_Data = [(''username'', ''admin''), (''password'', ''pw'')]\<rparr>"
  obtain r s' where run: "run_state (reconcileScaleIn ?W) (start_run shrinking3 0) = (r, s')" by fastforce
  have w: "w_drv ?W' k = gone_driver" "w_secret ?W' k ''admin-creds'' ns = Inr ?sec" for k ns by (simp_all add: sample_world_def)
  obtain c where "mongos_factory gone_driver shrinking3 ''pw'' (ShName shrinking3 @ ''-mongos-0'') (ShNamespace shrinking3) True = Inr c"
    by (simp add: mongos_factory_def NewServiceConnectFactory_def NewClient_def gone_driver_def yes_driver_def Let_def)
  moreover have "drv_remove_shard gone_driver c n = Inl (ErrServer 70 ''shard does not exist'')" for n
    by (simp add: gone_driver_def)
  moreover have "sh_Count (shd_Shards (ShSpec shrinking3)) = 1" "length (ss_Shards (ShStatus shrinking3)) = 3"
    "auth_AdminCredentialsSecretRef (shd_Auth (ShSpec shrinking3)) = ''admin-creds''"
    "shard_name shrinking3 (shard_count shrinking3) = ''sh-shard-1''"
    by (simp_all add: shrinking3_def shrinking_facts shard_name_def shard_count_upd one_shard)
  ultimately show ?thesis
    using unfinished_scale_in_starts_over [OF run, of ?W' 0 ?sec "''pw''" c] run by (auto simp: w)
qed

end
