(* ===== verification/Server_Options.thy ===== *)
theory Server_Options
  imports Policies
begin

text \<open>
  The settings of the server processes: the validators and the command-line arguments for LDAP
  (\<^verbatim>\<open>auth/ldap.go\<close>), OIDC (\<^verbatim>\<open>auth/oidc.go\<close>), encryption at rest (\<^verbatim>\<open>encryption/kms.go\<close>), the audit log
  (\<^verbatim>\<open>audit/audit.go\<close>), TLS (\<^verbatim>\<open>builder_tls.go\<close>) and search (\<^verbatim>\<open>mongot.go\<close>), and the argument lists of the
  four kinds of workload as \<^verbatim>\<open>internal/resources/builder.go\<close> puts them together.
\<close>

section \<open>LDAP\<close>

definition defaultStr :: "string \<Rightarrow> string \<Rightarrow> string" where
  "defaultStr s d = (if s = [] then d else s)"

definition LDAPMongodArgs :: "LDAPSpec \<Rightarrow> string list" where
  "LDAPMongodArgs spec =
     (if ldap_Servers spec = [] then []
      else [''--ldapServers='' @ ldap_Servers spec,
            ''--ldapBindMethod='' @ defaultStr (ldap_BindMethod spec) ''simple'']
        @ (if ldap_TLS spec then [''--ldapTransportSecurity=tls''] else [''--ldapTransportSecurity=none''])
        @ (if ldap_UserToDNMapping spec \<noteq> [] then [''--ldapUserToDNMapping='' @ ldap_UserToDNMapping spec] else [])
        @ (if ldap_AuthorizationQueryTemplate spec \<noteq> []
           then [''--ldapAuthzQueryTemplate='' @ ldap_AuthorizationQueryTemplate spec] else []))"

definition ValidateLDAPSpec :: "LDAPSpec \<Rightarrow> go_error option" where
  "ValidateLDAPSpec spec =
     (if TrimSpace (ldap_Servers spec) = [] then
        Some (ErrMsg ''ldap.servers is required when ldap spec is set'')
      else if \<not> ldap_TLS spec then
        Some (ErrMsg (''ldap.tls must be true when LDAP is configured '' @ emdash @
          '' plaintext LDAP exposes credentials to network sniffing''))
      else if ldap_BindMethod spec \<noteq> [] \<and> ldap_BindMethod spec \<noteq> ''simple'' \<and> ldap_BindMethod spec \<noteq> ''sasl'' then
        Some (ErrMsg ([] @ ''ldap.bindMethod must be '' @ [CHR 0x27] @ ''simple'' @ [CHR 0x27] @ '' or '' @
          [CHR 0x27] @ ''sasl'' @ [CHR 0x27] @ '' (got '' @ Quote (ldap_BindMethod spec) @ '')''))
      else None)"

section \<open>OIDC\<close>

text \<open>
  A string in \<^verbatim>\<open>encoding/json\<close>: the quote and the backslash are escaped, control bytes and the HTML
  characters are written as \<^verbatim>\<open>\u00XX\<close>, well-formed UTF-8 is copied except for U+2028 and U+2029, and
  a byte that starts no well-formed sequence becomes U+FFFD.
\<close>

definition is_cont :: "char \<Rightarrow> bool" where
  "is_cont c \<longleftrightarrow> CHR 0x80 \<le> c \<and> c \<le> CHR 0xBF"

text \<open>The length of the well-formed multi-byte sequence a string starts with, 0 if there is none.\<close>

fun rune_len :: "string \<Rightarrow> nat" where
  "rune_len (b # c # d # e # _) =
     (if CHR 0xC2 \<le> b \<and> b \<le> CHR 0xDF \<and> is_cont c then 2
      else if is_cont d \<and> is_cont c
              \<and> (b = CHR 0xE0 \<and> CHR 0xA0 \<le> c \<or> b = CHR 0xED \<and> c \<le> CHR 0x9F
                 \<or> CHR 0xE1 \<le> b \<and> b \<le> CHR 0xEF \<and> b \<noteq> CHR 0xED) then 3
      else if is_cont e \<and> is_cont d \<and> is_cont c
              \<and> (b = CHR 0xF0 \<and> CHR 0x90 \<le> c \<or> b = CHR 0xF4 \<and> c \<le> CHR 0x8F
                 \<or> CHR 0xF1 \<le> b \<and> b \<le> CHR 0xF3) then 4
      else 0)"
| "rune_len [b, c, d] =
     (if CHR 0xC2 \<le> b \<and> b \<le> CHR 0xDF \<and> is_cont c then 2
      else if is_cont d \<and> is_cont c
              \<and> (b = CHR 0xE0 \<and> CHR 0xA0 \<le> c \<or> b = CHR 0xED \<and> c \<le> CHR 0x9F
                 \<or> CHR 0xE1 \<le> b \<and> b \<le> CHR 0xEF \<and> b \<noteq> CHR 0xED) then 3
      else 0)"
| "rune_len [b, c] = (if CHR 0xC2 \<le> b \<and> b \<le> CHR 0xDF \<and> is_cont c then 2 else 0)"
| "rune_len _ = 0"

definition json_ascii :: "char \<Rightarrow> string" where
  "json_ascii c =
     (if c = CHR 0x22 \<or> c = CHR 0x5C then [CHR 0x5C, c]
      else if c = CHR 0x08 then [CHR 0x5C, CHR ''b'']
      else if c = CHR 0x0C then [CHR 0x5C, CHR ''f'']
      else if c = CHR 0x0A then [CHR 0x5C, CHR ''n'']
      else if c = CHR 0x0D then [CHR 0x5C, CHR ''r'']
      else if c = CHR 0x09 then [CHR 0x5C, CHR ''t'']
      else if c < CHR 0x20 \<or> c = CHR ''<'' \<or> c = CHR ''>'' \<or> c = CHR ''&'' then
        CHR 0x5C # ''u00'' @ [hex_digit (of_char c div 16), hex_digit (of_char c mod 16)]
      else [c])"

function json_chars :: "string \<Rightarrow> string" where
  "json_chars [] = []"
| "json_chars (c # s) =
     (if c < CHR 0x80 then json_ascii c @ json_chars s
      else let n = rune_len (c # s); r = take n (c # s) in
        if n = 0 then (CHR 0x5C # ''ufffd'') @ json_chars s
        else (if r = [CHR 0xE2, CHR 0x80, CHR 0xA8] then CHR 0x5C # ''u2028''
              else if r = [CHR 0xE2, CHR 0x80, CHR 0xA9] then CHR 0x5C # ''u2029''
              else r) @ json_chars (drop (n - 1) s))"
  by pat_completeness auto
termination by (relation "measure length") auto

definition json_string :: "string \<Rightarrow> string" where
  "json_string s = CHR 0x22 # json_chars s @ [CHR 0x22]"

text \<open>The keys of a map are written in sorted order.\<close>

definition json_field :: "string \<Rightarrow> string \<Rightarrow> string" where
  "json_field k v = json_string k @ '':'' @ v"

definition OIDCMongodSetParameter :: "OIDCSpec \<Rightarrow> string" where
  "OIDCMongodSetParameter spec =
     ''{'' @ json_field ''oidcIdentityProviders'' (''[{'' @ Join
        [json_field ''authorizationClaim'' (json_string (defaultStr (oidc_RolesClaim spec) ''groups'')),
         json_field ''clientId'' (json_string (oidc_ClientID spec)),
         json_field ''issuer'' (json_string (oidc_IssuerURL spec)),
         json_field ''principalName'' (json_string (defaultStr (oidc_UserClaim spec) ''sub'')),
         json_field ''supportsHumanFlows'' ''true''] '','' @ ''}]'') @ ''}''"

definition ValidateOIDCSpec :: "OIDCSpec \<Rightarrow> go_error option" where
  "ValidateOIDCSpec spec =
     (if TrimSpace (oidc_IssuerURL spec) = [] then Some (ErrMsg ''oidc.issuerURL is required'')
      else if \<not> HasPrefix (oidc_IssuerURL spec) ''https://'' then
        Some (ErrMsg (''oidc.issuerURL must use https:// scheme (got '' @ Quote (oidc_IssuerURL spec) @ '') '' @ emdash @
          '' OIDC discovery requires TLS''))
      else if ContainsAny (oidc_IssuerURL spec) ''?#'' then
        Some (ErrMsg (''oidc.issuerURL must not contain query parameters or fragments (got '' @
          Quote (oidc_IssuerURL spec) @ '')''))
      else if TrimSpace (oidc_ClientID spec) = [] then Some (ErrMsg ''oidc.clientID is required'')
      else if oidc_IdentityProvider spec \<in> set [[], ''generic'', ''keycloak'', ''okta'', ''auth0'', ''google''] then None
      else Some (ErrMsg (''oidc.identityProvider unknown: '' @ Quote (oidc_IdentityProvider spec))))"

section \<open>Encryption at rest\<close>

definition EncryptionKeyMountPath :: string where "EncryptionKeyMountPath = ''/etc/mongodb-encryption''"
definition EncryptionKeyFileName :: string where "EncryptionKeyFileName = ''keyfile''"

definition encryption_MongodArgs :: "EncryptionSpec \<Rightarrow> string list" where
  "encryption_MongodArgs spec =
     (if \<not> enc_Enabled spec then []
      else [''--enableEncryption'', ''--encryptionCipherMode='' @ defaultStr (enc_CipherMode spec) ''AES256-GCM'']
        @ (if enc_KeyProvider spec \<in> set [[], ''secret''] then
             [''--encryptionKeyFile='' @ EncryptionKeyMountPath @ ''/'' @ EncryptionKeyFileName]
           else if enc_KeyProvider spec \<in> set [''vault'', ''aws-kms'', ''gcp-kms'', ''azure-kv''] then
             [''--kmipServerName=localhost'', ''--kmipPort=5696'']
           else []))"

definition countConfiguredProviders :: "KMSConfigSpec option \<Rightarrow> nat" where
  "countConfiguredProviders cfg =
     (case cfg of None \<Rightarrow> 0
      | Some c \<Rightarrow> (if kms_Secret c \<noteq> None then 1 else 0) + (if kms_Vault c \<noteq> None then 1 else 0)
          + (if kms_AWSKMS c \<noteq> None then 1 else 0) + (if kms_GCPKMS c \<noteq> None then 1 else 0)
          + (if kms_AzureKV c \<noteq> None then 1 else 0))"

text \<open>\<^verbatim>\<open>cfg == nil || cfg.X == nil\<close>, else the block.\<close>

definition kms_block :: "(KMSConfigSpec \<Rightarrow> 'b option) \<Rightarrow> KMSConfigSpec option \<Rightarrow> 'b option" where
  "kms_block sel cfg = (case cfg of None \<Rightarrow> None | Some c \<Rightarrow> sel c)"

definition enc_error :: "string \<Rightarrow> go_error option" where
  "enc_error msg = Some (ErrMsg (''encryption.'' @ msg))"

definition validate_provider :: "string \<Rightarrow> KMSConfigSpec option \<Rightarrow> go_error option" where
  "validate_provider provider cfg =
     (if provider = ''secret'' then
        (case kms_block kms_Secret cfg of
           Some b \<Rightarrow> if sks_Name (skms_SecretRef b) = []
             then enc_error ''kmsConfig.secret.secretRef is required when keyProvider=secret'' else None
         | None \<Rightarrow> enc_error ''kmsConfig.secret.secretRef is required when keyProvider=secret'')
      else if provider = ''vault'' then
        (case kms_block kms_Vault cfg of
           None \<Rightarrow> enc_error ''kmsConfig.vault is required when keyProvider=vault''
         | Some v \<Rightarrow>
             if TrimSpace (vault_Address v) = [] then enc_error ''kmsConfig.vault.address is required''
             else if vault_KeyName v = [] then enc_error ''kmsConfig.vault.keyName is required''
             else if vault_AuthSecretRef v = [] then enc_error ''kmsConfig.vault.authSecretRef is required''
             else None)
      else if provider = ''aws-kms'' then
        (case kms_block kms_AWSKMS cfg of
           None \<Rightarrow> enc_error ''kmsConfig.awsKMS is required when keyProvider=aws-kms''
         | Some a \<Rightarrow> if \<not> HasPrefix (aws_KeyARN a) ''arn:aws:kms:''
             then enc_error ''kmsConfig.awsKMS.keyARN must be a KMS CMK ARN'' else None)
      else if provider = ''gcp-kms'' then
        (case kms_block kms_GCPKMS cfg of
           None \<Rightarrow> enc_error ''kmsConfig.gcpKMS is required when keyProvider=gcp-kms''
         | Some g \<Rightarrow> if gcp_ProjectID g = [] \<or> gcp_Keyring g = [] \<or> gcp_Key g = []
             then enc_error ''kmsConfig.gcpKMS requires projectID, keyring, and key'' else None)
      else if provider = ''azure-kv'' then
        (case kms_block kms_AzureKV cfg of
           None \<Rightarrow> enc_error ''kmsConfig.azureKV is required when keyProvider=azure-kv''
         | Some z \<Rightarrow> if \<not> HasPrefix (az_VaultURL z) ''https://''
             then enc_error ''kmsConfig.azureKV.vaultURL must start with https'' else None)
      else enc_error (''keyProvider unknown: '' @ Quote provider))"

definition ValidateEncryptionSpec :: "EncryptionSpec \<Rightarrow> go_error option" where
  "ValidateEncryptionSpec spec =
     (if \<not> enc_Enabled spec then None
      else if countConfiguredProviders (enc_KMSConfig spec) > 1 then
        enc_error (''kmsConfig: only one provider may be configured at a time (found '' @
          show_nat (countConfiguredProviders (enc_KMSConfig spec)) @ '')'')
      else case validate_provider (defaultStr (enc_KeyProvider spec) ''secret'') (enc_KMSConfig spec) of
        Some e \<Rightarrow> Some e
      | None \<Rightarrow> if enc_KeyRotationDays spec < 0 then enc_error ''keyRotationDays must be >= 0'' else None)"

definition NeedsKeyRotation :: "int64 \<Rightarrow> int64 \<Rightarrow> EncryptionSpec option \<Rightarrow> bool" where
  "NeedsKeyRotation lastRotationUnix nowUnix spec =
     (case spec of None \<Rightarrow> False
      | Some s \<Rightarrow> if \<not> enc_Enabled s \<or> enc_KeyRotationDays s \<le> 0 then False
          else wrap64 (nowUnix - lastRotationUnix) \<ge> wrap64 (enc_KeyRotationDays s * (24 * 60 * 60)))"

section \<open>Audit log\<close>

definition AuditLogMountPath :: string where "AuditLogMountPath = ''/var/log/mongodb-audit''"
definition AuditLogFileName :: string where "AuditLogFileName = ''audit.json''"

definition audit_MongodArgs :: "AuditLogSpec \<Rightarrow> string list" where
  "audit_MongodArgs spec =
     (if \<not> aud_Enabled spec then []
      else let dest = defaultStr (aud_Destination spec) ''file'' in
        [''--auditDestination='' @ dest, ''--auditFormat='' @ defaultStr (aud_Format spec) ''JSON'']
        @ (if dest = ''file'' then [''--auditPath='' @ AuditLogMountPath @ ''/'' @ AuditLogFileName] else [])
        @ (if TrimSpace (aud_FilterJSON spec) \<noteq> [] then [''--auditFilter='' @ aud_FilterJSON spec] else []))"

definition audit_error :: "string \<Rightarrow> go_error option" where
  "audit_error msg = Some (ErrMsg (''auditLog.'' @ msg))"

fun validate_rules :: "nat \<Rightarrow> AuditAlertRule list \<Rightarrow> go_error option" where
  "validate_rules i [] = None"
| "validate_rules i (r # rs) =
     (let at = ''alertRules['' @ show_nat i @ ''].'' in
      if rule_Name r = [] then audit_error (at @ ''name is required'')
      else if rule_EventType r = [] then audit_error (at @ ''eventType is required'')
      else if rule_Severity r \<notin> set [[], ''info'', ''warning'', ''critical''] then
        audit_error (at @ ''severity invalid: '' @ Quote (rule_Severity r))
      else validate_rules (Suc i) rs)"

definition validate_forwarder :: "AuditForwarderSpec option \<Rightarrow> go_error option" where
  "validate_forwarder fwd =
     (case fwd of None \<Rightarrow> None
      | Some f \<Rightarrow>
          if fwd_Type f \<notin> set [''loki'', ''elasticsearch'', ''opensearch''] then
            audit_error (''centralForwarder.type invalid: '' @ Quote (fwd_Type f))
          else if \<not> HasPrefix (fwd_URL f) ''http://'' \<and> \<not> HasPrefix (fwd_URL f) ''https://'' then
            audit_error ''centralForwarder.url must be http(s)://''
          else None)"

definition ValidateAuditLogSpec :: "AuditLogSpec \<Rightarrow> go_error option" where
  "ValidateAuditLogSpec spec =
     (if \<not> aud_Enabled spec then None
      else if aud_Destination spec \<notin> set [[], ''file'', ''syslog'', ''console''] then
        audit_error (''destination invalid: '' @ Quote (aud_Destination spec))
      else case validate_forwarder (aud_CentralForwarder spec) of
        Some e \<Rightarrow> Some e
      | None \<Rightarrow> validate_rules 0 (aud_AlertRules spec))"

section \<open>TLS and search\<close>

definition MongoTLSMountPath :: string where "MongoTLSMountPath = ''/etc/ssl/mongo''"
definition MongoTLSPEMPath :: string where "MongoTLSPEMPath = ''/etc/ssl/mongo-pem''"

definition tlsArgs :: "TLSSpec \<Rightarrow> string list" where
  "tlsArgs tls =
     [''--tlsMode'', defaultStr (tls_Mode tls) ''preferTLS'',
      ''--tlsCertificateKeyFile'', MongoTLSPEMPath @ ''/server.pem'',
      ''--tlsCAFile'', MongoTLSMountPath @ ''/ca.crt'',
      ''--tlsAllowConnectionsWithoutCertificates'']
     @ (if tls_AllowInvalidHostnames tls \<noteq> Some False then [''--tlsAllowInvalidHostnames''] else [])"

definition mongotGRPCPort :: nat where "mongotGRPCPort = 27028"
definition MongotSidecarImageAnnotation :: string where
  "MongotSidecarImageAnnotation = ''search.mongodb.keiailab.com/mongot-image''"
definition MongotSyncSecretAnnotation :: string where
  "MongotSyncSecretAnnotation = ''search.mongodb.keiailab.com/sync-secret''"
definition MongotTLSModeAnnotation :: string where
  "MongotTLSModeAnnotation = ''search.mongodb.keiailab.com/tls-mode''"
definition MongotRouterShardAnnotation :: string where
  "MongotRouterShardAnnotation = ''search.mongodb.keiailab.com/router-shard''"

text \<open>Reading a key that a map does not have gives the empty string.\<close>

definition map_get :: "string_map \<Rightarrow> string \<Rightarrow> string" where
  "map_get m k = (case map_of m k of None \<Rightarrow> [] | Some v \<Rightarrow> v)"

definition MongotSetParameterArgs :: "string \<Rightarrow> string \<Rightarrow> string list" where
  "MongotSetParameterArgs endpoint tlsMode =
     (if endpoint = [] then []
      else [''--setParameter'', ''mongotHost='' @ endpoint,
            ''--setParameter'', ''searchIndexManagementHostAndPort='' @ endpoint,
            ''--setParameter'', ''searchTLSMode='' @ defaultStr tlsMode ''disabled'',
            ''--setParameter'', ''useGrpcForSearch=true''])"

definition MongotServiceName :: "string \<Rightarrow> string" where "MongotServiceName clusterName = clusterName @ ''-mongot''"

definition MongotServiceEndpoint :: "string \<Rightarrow> string \<Rightarrow> string" where
  "MongotServiceEndpoint clusterName namespace =
     MongotServiceName clusterName @ ''.'' @ namespace @ ''.svc.cluster.local:'' @ show_nat mongotGRPCPort"

section \<open>The command lines\<close>

definition keyfile_args :: "string list" where
  "keyfile_args = [''--bind_ip_all'', ''--auth'', ''--keyFile'', ''/etc/mongodb-keyfile/keyfile'']"

definition tls_enabled :: "TLSSpec option \<Rightarrow> bool" where
  "tls_enabled tls = (case tls of None \<Rightarrow> False | Some t \<Rightarrow> tls_Enabled t)"

definition tls_options :: "TLSSpec option \<Rightarrow> string list" where
  "tls_options tls = (case tls of None \<Rightarrow> [] | Some t \<Rightarrow> if tls_Enabled t then tlsArgs t else [])"

definition auth_options :: "AuthSpec \<Rightarrow> string list" where
  "auth_options auth =
     (case auth_LDAP auth of None \<Rightarrow> [] | Some l \<Rightarrow> LDAPMongodArgs l)
     @ (case auth_OIDC auth of None \<Rightarrow> []
        | Some o' \<Rightarrow> [''--setParameter'', ''oidcIdentityProviders='' @ OIDCMongodSetParameter o'])"

definition encryption_options :: "StorageSpec \<Rightarrow> string list" where
  "encryption_options st = (case st_Encryption st of None \<Rightarrow> [] | Some e \<Rightarrow> encryption_MongodArgs e)"

definition audit_options :: "AuditLogSpec option \<Rightarrow> string list" where
  "audit_options a = (case a of None \<Rightarrow> [] | Some s \<Rightarrow> audit_MongodArgs s)"

definition mongot_options :: "string_map \<Rightarrow> string \<Rightarrow> string list" where
  "mongot_options annotations endpoint =
     (if map_get annotations MongotSidecarImageAnnotation \<noteq> []
      then MongotSetParameterArgs endpoint (map_get annotations MongotTLSModeAnnotation) else [])"

definition localhost_mongot :: string where "localhost_mongot = ''localhost:'' @ show_nat mongotGRPCPort"

definition replicaset_args :: "MongoDB \<Rightarrow> string list" where
  "replicaset_args mdb =
     [''--replSet'', mdb_ReplicaSetName (Spec mdb)] @ keyfile_args
     @ tls_options (mdb_TLS (Spec mdb)) @ auth_options (mdb_Auth (Spec mdb))
     @ encryption_options (mdb_Storage (Spec mdb)) @ audit_options (mdb_AuditLog (Spec mdb))
     @ mongot_options (om_Annotations (Meta mdb)) localhost_mongot"

definition configserver_args :: "MongoDBSharded \<Rightarrow> string list" where
  "configserver_args m =
     [''--configsvr'', ''--replSet'', ShName m @ ''-cfg''] @ keyfile_args
     @ tls_options (shd_TLS (ShSpec m)) @ auth_options (shd_Auth (ShSpec m))
     @ encryption_options (cs_Storage (shd_ConfigServer (ShSpec m))) @ audit_options (shd_AuditLog (ShSpec m))"

text \<open>The mongot endpoint of a shard is its own sidecar.\<close>

definition shard_args :: "MongoDBSharded \<Rightarrow> nat \<Rightarrow> string list" where
  "shard_args m i =
     [''--shardsvr'', ''--replSet'', ShName m @ ''-'' @ shard_component i] @ keyfile_args
     @ tls_options (shd_TLS (ShSpec m)) @ auth_options (shd_Auth (ShSpec m))
     @ encryption_options (sh_Storage (shd_Shards (ShSpec m))) @ audit_options (shd_AuditLog (ShSpec m))
     @ mongot_options (om_Annotations (ShMeta m)) localhost_mongot"

fun config_hosts :: "MongoDBSharded \<Rightarrow> nat list \<Rightarrow> string" where
  "config_hosts m [] = []"
| "config_hosts m (i # is) =
     (if i > 0 then '','' else []) @ ShName m @ ''-cfg-'' @ show_nat i @ ''.'' @ ShName m @ ''-cfg-headless.''
     @ om_Namespace (ShMeta m) @ ''.svc.cluster.local:27019'' @ config_hosts m is"

definition buildMongosConfigDB :: "MongoDBSharded \<Rightarrow> string" where
  "buildMongosConfigDB m =
     (case cs_External (shd_ConfigServer (ShSpec m)) of
        Some e \<Rightarrow> ext_ReplicaSetName e @ ''/'' @ Join (ext_Hosts e) '',''
      | None \<Rightarrow> ShName m @ ''-cfg/'' @ config_hosts m [0..<nat (cs_Members (shd_ConfigServer (ShSpec m)))])"

definition mongos_args :: "MongoDBSharded \<Rightarrow> string list" where
  "mongos_args m =
     [''--configdb'', buildMongosConfigDB m, ''--bind_ip_all'', ''--keyFile'', ''/etc/mongodb-keyfile/keyfile'']
     @ tls_options (shd_TLS (ShSpec m)) @ auth_options (shd_Auth (ShSpec m)) @ audit_options (shd_AuditLog (ShSpec m))
     @ mongot_options (om_Annotations (ShMeta m)) (MongotServiceEndpoint (ShName m) (om_Namespace (ShMeta m)))"

end
