(* ===== verification/Admission.thy ===== *)
theory Admission
  imports Server_Options Upgrade
begin

text \<open>
  The validating webhooks, \<^verbatim>\<open>internal/webhook/v1alpha1\<close>: which objects and which edits the API server
  admits. A field error keeps its kind, its path and its detail; the rejected value that it also
  echoes is left out. \<^verbatim>\<open>ValidateWithPredicate\<close> of \<^verbatim>\<open>keiailab-commons\<close> is the parameter \<open>vwp\<close>.
\<close>

section \<open>Field errors\<close>

datatype ErrorType = ErrorTypeInvalid | ErrorTypeRequired | ErrorTypeDuplicate | ErrorTypeNotSupported

record FieldError =
  fe_Type :: ErrorType
  fe_Field :: string
  fe_Detail :: string

type_synonym predicate_check = "string \<Rightarrow> string \<Rightarrow> (string \<Rightarrow> bool) \<Rightarrow> string list \<Rightarrow> FieldError option"

definition Invalid :: "string \<Rightarrow> string \<Rightarrow> FieldError" where
  "Invalid path detail = \<lparr>fe_Type = ErrorTypeInvalid, fe_Field = path, fe_Detail = detail\<rparr>"

definition Child :: "string \<Rightarrow> string \<Rightarrow> string" where "Child path name = path @ ''.'' @ name"
definition Index :: "string \<Rightarrow> nat \<Rightarrow> string" where "Index path i = path @ ''['' @ show_nat i @ '']''"

definition error_list :: "FieldError option \<Rightarrow> FieldError list" where
  "error_list e = (case e of None \<Rightarrow> [] | Some x \<Rightarrow> [x])"

text \<open>\<^verbatim>\<open>if spec != nil { if err := check(spec); err != nil { append Invalid(path, err.Error()) } }\<close>\<close>

definition check_block :: "string \<Rightarrow> ('s \<Rightarrow> go_error option) \<Rightarrow> 's option \<Rightarrow> FieldError list" where
  "check_block path check spec =
     (case spec of None \<Rightarrow> []
      | Some s \<Rightarrow> (case check s of None \<Rightarrow> [] | Some e \<Rightarrow> [Invalid path (Error e)]))"

section \<open>Checks shared by both kinds\<close>

definition validateTLSSpec :: "string \<Rightarrow> TLSSpec option \<Rightarrow> FieldError list" where
  "validateTLSSpec path tls =
     (case tls of None \<Rightarrow> []
      | Some t \<Rightarrow>
          (case tls_CertManager t of
             Some cm \<Rightarrow> if iss_Name (cm_IssuerRef cm) = [] then
               [Invalid (path @ ''.certManager.issuerRef.name'')
                  ''tls.certManager.issuerRef.name must be non-empty when certManager is set''] else []
           | None \<Rightarrow> [])
          @ (case tls_CustomCert t of
             Some cc \<Rightarrow> if cc_SecretName cc = [] then
               [Invalid (path @ ''.customCert.secretName'')
                  ''tls.customCert.secretName must be non-empty when customCert is set''] else []
           | None \<Rightarrow> []))"

definition validate_s3 :: "string \<Rightarrow> S3StorageSpec option \<Rightarrow> FieldError list" where
  "validate_s3 path s3 =
     (case s3 of
        None \<Rightarrow> [\<lparr>fe_Type = ErrorTypeRequired, fe_Field = path @ ''.storage.s3'',
                  fe_Detail = ''backup.storage.s3 must be set when type=s3''\<rparr>]
      | Some s \<Rightarrow>
          (if s3_Bucket s = [] then
             [Invalid (path @ ''.storage.s3.bucket'') ''backup.storage.s3.bucket must be non-empty when type=s3''] else [])
          @ (if s3_CredentialsRef s = [] then
             [Invalid (path @ ''.storage.s3.credentialsRef.name'')
                ''backup.storage.s3.credentialsRef.name must be non-empty when type=s3''] else []))"

definition validateBackupSpec :: "string \<Rightarrow> BackupSpec option \<Rightarrow> FieldError list" where
  "validateBackupSpec path b =
     (case b of None \<Rightarrow> []
      | Some bk \<Rightarrow>
          if \<not> bk_Enabled bk then []
          else (if bk_Schedule bk = [] then
                  [Invalid (path @ ''.schedule'')
                     (''backup.schedule must be non-empty cron expression when backup.enabled=true (e.g. '' @
                      Quote ''0 2 * * *'' @ '')'')] else [])
             @ (if bs_Type (bk_Storage bk) = ''s3'' then validate_s3 path (bs_S3 (bk_Storage bk)) else []))"

definition validateAuthSecretRef :: "string \<Rightarrow> string \<Rightarrow> FieldError list" where
  "validateAuthSecretRef path name =
     (if name = [] then
        [Invalid path (''auth.adminCredentialsSecretRef.name must be non-empty '' @ emdash @
           '' controller requires admin secret for SCRAM/X509 auth setup'')] else [])"

text \<open>1Gi in the nano-units of a quantity.\<close>

definition min_storage :: Quantity where "min_storage = 1073741824 * 1000000000"

definition validateStorageSize :: "string \<Rightarrow> Quantity \<Rightarrow> FieldError list" where
  "validateStorageSize path sz =
     (if sz = 0 then []
      else if sz < min_storage then
        [Invalid path (''storage.size must be >= 1Gi '' @ emdash @
           '' production mongodb requires minimum data dir + oplog headroom'')]
      else [])"

section \<open>Replica sets\<close>

definition validateMongoDBSpec ::
    "predicate_check \<Rightarrow> (string list \<Rightarrow> string \<Rightarrow> bool) \<Rightarrow> MongoDB \<Rightarrow> FieldError list" where
  "validateMongoDBSpec vwp isSup m =
     (let s = Spec m in
      error_list (vwp ''spec.version.version'' (ver_Version (mdb_Version s)) (IsSupportedMongoDBVersion isSup) SupportedMongoDBVersions)
      @ (if IsStandaloneMode s \<and> hpa_enabled (mdb_AutoScaling s) then
           [Invalid ''spec.autoScaling.enabled'' ''autoScaling not allowed when members=1 (standalone mode)''] else [])
      @ check_block ''spec.auth.ldap'' ValidateLDAPSpec (auth_LDAP (mdb_Auth s))
      @ check_block ''spec.auth.oidc'' ValidateOIDCSpec (auth_OIDC (mdb_Auth s))
      @ check_block ''spec.storage.encryption'' ValidateEncryptionSpec (st_Encryption (mdb_Storage s))
      @ check_block ''spec.auditLog'' ValidateAuditLogSpec (mdb_AuditLog s)
      @ (if mdb_Members s \<noteq> 0 \<and> mdb_Members s \<noteq> 1 \<and> rem2_is_zero (mdb_Members s) then
           [Invalid ''spec.members'' (''members must be 1 (single-instance) or odd >= 3 (quorum) '' @ emdash @
              '' even count risks split-brain'')] else [])
      @ validateStorageSize ''spec.storage.size'' (st_Size (mdb_Storage s))
      @ validateAuthSecretRef ''spec.auth.adminCredentialsSecretRef.name'' (auth_AdminCredentialsSecretRef (mdb_Auth s))
      @ validateTLSSpec ''spec.tls'' (mdb_TLS s)
      @ validateBackupSpec ''spec.backup'' (mdb_Backup s))"

text \<open>\<^verbatim>\<open>apierrors.NewInvalid\<close>: the kind, the name and the errors.\<close>

datatype ApiError = NewInvalid string string "FieldError list"

definition ValidateCreate ::
    "predicate_check \<Rightarrow> (string list \<Rightarrow> string \<Rightarrow> bool) \<Rightarrow> MongoDB \<Rightarrow> ApiError option" where
  "ValidateCreate vwp isSup m =
     (let errs = validateMongoDBSpec vwp isSup m in
      if length errs > 0 then Some (NewInvalid ''MongoDB'' (Name m) errs) else None)"

text \<open>The rule for a change of the version; the old object can be missing.\<close>

definition version_change_error :: "(string list \<Rightarrow> string \<Rightarrow> bool) \<Rightarrow> string option \<Rightarrow> string \<Rightarrow> FieldError option" where
  "version_change_error isSup oldV newV =
     (case oldV of None \<Rightarrow> None
      | Some v \<Rightarrow>
          if v = [] \<or> v = newV then None
          else map_option (\<lambda>e. Invalid ''spec.version.version'' (Error e)) (IsValidUpgradePath isSup v newV))"

definition ValidateUpdate ::
    "predicate_check \<Rightarrow> (string list \<Rightarrow> string \<Rightarrow> bool) \<Rightarrow> MongoDB option \<Rightarrow> MongoDB \<Rightarrow> ApiError option" where
  "ValidateUpdate vwp isSup oldObj newObj =
     (let errs = validateMongoDBSpec vwp isSup newObj in
      if length errs > 0 then Some (NewInvalid ''MongoDB'' (Name newObj) errs)
      else map_option (\<lambda>e. NewInvalid ''MongoDB'' (Name newObj) [e])
        (version_change_error isSup (map_option (\<lambda>o'. ver_Version (mdb_Version (Spec o'))) oldObj)
           (ver_Version (mdb_Version (Spec newObj)))))"

section \<open>Sharded clusters\<close>

definition orderHashed :: string where "orderHashed = ''hashed''"

text \<open>The inner loop over the fields of a shard key.\<close>

fun validate_key :: "string \<Rightarrow> nat \<Rightarrow> ShardKeyField list \<Rightarrow> FieldError list" where
  "validate_key path j [] = []"
| "validate_key path j (f # fs) =
     (if skf_Field f = [] then [Invalid (Child (Index path j) ''field'') ''shard key field must not be empty''] else [])
     @ (if skf_Order f \<noteq> ''1'' \<and> skf_Order f \<noteq> ''-1'' \<and> skf_Order f \<noteq> orderHashed then
          [\<lparr>fe_Type = ErrorTypeNotSupported, fe_Field = Child (Index path j) ''order'',
            fe_Detail = ''supported values: '' @ Join (map Quote [''1'', ''-1'', orderHashed]) '', ''\<rparr>] else [])
     @ validate_key path (Suc j) fs"

fun hashed_time_field :: "string \<Rightarrow> string \<Rightarrow> nat \<Rightarrow> ShardKeyField list \<Rightarrow> FieldError list" where
  "hashed_time_field path timeField j [] = []"
| "hashed_time_field path timeField j (f # fs) =
     (if skf_Field f = timeField \<and> skf_Order f = orderHashed then
        [Invalid (Child (Index path j) ''order'') ''timeField cannot be a hashed shard key for timeseries collections'']
      else [])
     @ hashed_time_field path timeField (Suc j) fs"

definition validate_timeseries :: "string \<Rightarrow> ShardedCollectionSpec \<Rightarrow> FieldError list" where
  "validate_timeseries ip sc =
     (case sc_Timeseries sc of None \<Rightarrow> []
      | Some ts \<Rightarrow>
          (if sc_Unique sc then
             [Invalid (Child ip ''unique'') ''unique constraint is not supported for timeseries collections (MongoDB 8.x)'']
           else [])
          @ (if ts_TimeField ts = [] then
             [Invalid (Child (Child ip ''timeseries'') ''timeField'') ''timeField must not be empty for timeseries collections'']
           else [])
          @ hashed_time_field (Child ip ''shardKey'') (ts_TimeField ts) 0 (sc_ShardKey sc))"

definition collection_ns :: "ShardedCollectionSpec \<Rightarrow> string" where
  "collection_ns sc = sc_Database sc @ ''.'' @ sc_Collection sc"

fun validate_collections :: "string \<Rightarrow> string list \<Rightarrow> nat \<Rightarrow> ShardedCollectionSpec list \<Rightarrow> FieldError list" where
  "validate_collections path seen i [] = []"
| "validate_collections path seen i (sc # scs) =
     (let ip = Index path i in
      (if sc_Database sc = [] then [Invalid (Child ip ''database'') ''database must not be empty''] else [])
      @ (if sc_Collection sc = [] then [Invalid (Child ip ''collection'') ''collection must not be empty''] else [])
      @ (if collection_ns sc \<in> set seen then [\<lparr>fe_Type = ErrorTypeDuplicate, fe_Field = ip, fe_Detail = []\<rparr>] else [])
      @ (if sc_ShardKey sc = [] then [Invalid (Child ip ''shardKey'') ''shardKey must have at least 1 field''] else [])
      @ validate_key (Child ip ''shardKey'') 0 (sc_ShardKey sc)
      @ validate_timeseries ip sc
      @ validate_collections path (collection_ns sc # seen) (Suc i) scs)"

definition validateShardedCollections :: "string \<Rightarrow> ShardedCollectionSpec list \<Rightarrow> FieldError list" where
  "validateShardedCollections path scs = validate_collections path [] 0 scs"

definition validateShardArbiter :: "string \<Rightarrow> ShardArbiterSpec option \<Rightarrow> int32 \<Rightarrow> FieldError list" where
  "validateShardArbiter path arb membersPerShard =
     (case arb of None \<Rightarrow> []
      | Some a \<Rightarrow>
          if \<not> sarb_Enabled a then []
          else (if sarb_Replicas a = 0 then
                  [Invalid (Child path ''replicas'') ''arbiter.replicas must be >= 1 when enabled=true (0 contradicts enabled)'']
                else [])
             @ (if sarb_Replicas a > 1 then
                  [Invalid (Child path ''replicas'') (''arbiter.replicas must be 0 or 1 '' @ emdash @
                     '' MongoDB allows at most 1 arbiter per replica set'')] else [])
             @ (if membersPerShard > 0 \<and> sarb_Replicas a > 0 \<and> rem2_is_zero (wrap32 (membersPerShard + sarb_Replicas a)) then
                  [Invalid (Child path ''replicas'')
                     (''shard total vote count would be even (membersPerShard + arbiter.replicas) '' @ emdash @
                      '' odd quorum required to avoid split-brain'')] else []))"

definition validateMongoDBShardedSpec ::
    "predicate_check \<Rightarrow> (string list \<Rightarrow> string \<Rightarrow> bool) \<Rightarrow> MongoDBSharded \<Rightarrow> FieldError list" where
  "validateMongoDBShardedSpec vwp isSup m =
     (let s = ShSpec m; sh = shd_Shards s in
      error_list (vwp ''spec.version.version'' (ver_Version (shd_Version s)) (IsSupportedMongoDBVersion isSup) SupportedMongoDBVersions)
      @ (if sh_Count sh > 64 then
           [Invalid ''spec.shards.count'' (''shards.count exceeds operational limit 64 '' @ emdash @
              '' large cluster requires capacity planning ADR'')] else [])
      @ (if sh_MembersPerShard sh \<noteq> 0 \<and> sh_MembersPerShard sh \<noteq> 1 \<and> rem2_is_zero (sh_MembersPerShard sh) then
           [Invalid ''spec.shards.membersPerShard'' (''membersPerShard must be 1 or odd >= 3 '' @ emdash @
              '' even count risks split-brain per shard'')] else [])
      @ validateStorageSize ''spec.configServer.storage.size'' (st_Size (cs_Storage (shd_ConfigServer s)))
      @ validateStorageSize ''spec.shards.storage.size'' (st_Size (sh_Storage sh))
      @ validateAuthSecretRef ''spec.auth.adminCredentialsSecretRef.name'' (auth_AdminCredentialsSecretRef (shd_Auth s))
      @ validateTLSSpec ''spec.tls'' (shd_TLS s)
      @ validateBackupSpec ''spec.backup'' (shd_Backup s)
      @ validateShardArbiter ''spec.shards.arbiter'' (sh_Arbiter sh) (sh_MembersPerShard sh)
      @ validateShardedCollections ''spec.shardedCollections'' (shd_ShardedCollections s))"

definition ValidateShardedCreate ::
    "predicate_check \<Rightarrow> (string list \<Rightarrow> string \<Rightarrow> bool) \<Rightarrow> MongoDBSharded \<Rightarrow> ApiError option" where
  "ValidateShardedCreate vwp isSup m =
     (let errs = validateMongoDBShardedSpec vwp isSup m in
      if length errs > 0 then Some (NewInvalid ''MongoDBSharded'' (ShName m) errs) else None)"

definition ValidateShardedUpdate ::
    "predicate_check \<Rightarrow> (string list \<Rightarrow> string \<Rightarrow> bool) \<Rightarrow> MongoDBSharded option \<Rightarrow> MongoDBSharded \<Rightarrow> ApiError option" where
  "ValidateShardedUpdate vwp isSup oldObj newObj =
     (let errs = validateMongoDBShardedSpec vwp isSup newObj in
      if length errs > 0 then Some (NewInvalid ''MongoDBSharded'' (ShName newObj) errs)
      else map_option (\<lambda>e. NewInvalid ''MongoDBSharded'' (ShName newObj) [e])
        (version_change_error isSup (map_option (\<lambda>o'. ver_Version (shd_Version (ShSpec o'))) oldObj)
           (ver_Version (shd_Version (ShSpec newObj)))))"

section \<open>What is admitted\<close>

definition key_field_ok :: "ShardKeyField \<Rightarrow> bool" where
  "key_field_ok f \<longleftrightarrow> skf_Field f \<noteq> [] \<and> skf_Order f \<in> {''1'', ''-1'', ''hashed''}"

definition collection_ok :: "ShardedCollectionSpec \<Rightarrow> bool" where
  "collection_ok sc \<longleftrightarrow> sc_Database sc \<noteq> [] \<and> sc_Collection sc \<noteq> [] \<and> sc_ShardKey sc \<noteq> []
     \<and> list_all key_field_ok (sc_ShardKey sc)
     \<and> (case sc_Timeseries sc of None \<Rightarrow> True
        | Some ts \<Rightarrow> \<not> sc_Unique sc \<and> ts_TimeField ts \<noteq> []
            \<and> list_all (\<lambda>f. \<not> (skf_Field f = ts_TimeField ts \<and> skf_Order f = ''hashed'')) (sc_ShardKey sc))"

lemma validate_key_nil: "validate_key path j fs = [] \<longleftrightarrow> list_all key_field_ok fs"
  by (induction fs arbitrary: j) (auto simp: key_field_ok_def orderHashed_def)

lemma hashed_time_field_nil:
  "hashed_time_field path t j fs = [] \<longleftrightarrow> list_all (\<lambda>f. \<not> (skf_Field f = t \<and> skf_Order f = ''hashed'')) fs"
  by (induction fs arbitrary: j) (auto simp: orderHashed_def)

lemma validate_collections_nil:
  "validate_collections path seen i scs = [] \<longleftrightarrow>
     list_all collection_ok scs \<and> distinct (map collection_ns scs) \<and> set seen \<inter> set (map collection_ns scs) = {}"
  by (induction scs arbitrary: seen i)
    (auto simp: Let_def collection_ok_def validate_key_nil hashed_time_field_nil validate_timeseries_def split: option.split)

text \<open>
  C25. The declared collections of a sharded cluster are admitted exactly if each one names its
  database and collection, has a shard key of named fields with an order that MongoDB knows and
  obeys the rules for timeseries, and no namespace is declared twice.
\<close>

theorem collections_admitted_iff:
  "(validateShardedCollections path scs = []) = (list_all collection_ok scs \<and> distinct (map collection_ns scs))"
  by (simp add: validateShardedCollections_def validate_collections_nil)

lemma check_block_nil: "check_block path check spec = [] \<longleftrightarrow> (\<forall>s. spec = Some s \<longrightarrow> check s = None)"
  by (auto simp: check_block_def split: option.splits)

lemma error_list_nil [simp]: "error_list e = [] \<longleftrightarrow> e = None"
  by (simp add: error_list_def split: option.split)

lemma ValidateCreate_None: "ValidateCreate vwp isSup m = None \<longleftrightarrow> validateMongoDBSpec vwp isSup m = []"
  by (simp add: ValidateCreate_def Let_def)

lemma ValidateShardedCreate_None: "ValidateShardedCreate vwp isSup m = None \<longleftrightarrow> validateMongoDBShardedSpec vwp isSup m = []"
  by (simp add: ValidateShardedCreate_def Let_def)

lemma validated_ldap: "ValidateLDAPSpec l = None \<Longrightarrow> ''--ldapTransportSecurity=none'' \<notin> set (LDAPMongodArgs l)"
  by (auto simp: ValidateLDAPSpec_def LDAPMongodArgs_def split: if_splits)

text \<open>An enabled encryption that passed has exactly one provider block, and its options name a key source.\<close>

definition has_key_source :: "string list \<Rightarrow> bool" where
  "has_key_source args \<longleftrightarrow> list_ex (\<lambda>a. HasPrefix a ''--encryptionKeyFile='' \<or> HasPrefix a ''--kmipServerName='') args"

lemma validated_provider:
  assumes "validate_provider p cfg = None"
  shows "p \<in> {''secret'', ''vault'', ''aws-kms'', ''gcp-kms'', ''azure-kv''} \<and> countConfiguredProviders cfg \<ge> 1"
  using assms
  by (auto simp: validate_provider_def enc_error_def kms_block_def countConfiguredProviders_def
      split: if_splits option.splits)

lemma key_source_append [simp]: "has_key_source (xs @ ys) \<longleftrightarrow> has_key_source xs \<or> has_key_source ys"
  by (simp add: has_key_source_def)

lemma key_source_of_provider:
  assumes "enc_Enabled e" and "defaultStr (enc_KeyProvider e) ''secret'' \<in> {''secret'', ''vault'', ''aws-kms'', ''gcp-kms'', ''azure-kv''}"
  shows "has_key_source (encryption_MongodArgs e)"
proof -
  have "has_key_source [''--encryptionKeyFile='' @ s]" "has_key_source [''--kmipServerName=localhost'', ''--kmipPort=5696'']" for s
    by (simp_all add: has_key_source_def HasPrefix_def)
  moreover have "enc_KeyProvider e \<in> set [[], ''secret''] \<or> enc_KeyProvider e \<in> set [''vault'', ''aws-kms'', ''gcp-kms'', ''azure-kv'']"
    using assms(2) by (cases "enc_KeyProvider e = []") (simp_all add: defaultStr_def)
  ultimately show ?thesis using assms(1)
    by (simp only: encryption_MongodArgs_def if_True if_False key_source_append not_True_eq_False split: if_splits) blast
qed

lemma validated_encryption:
  assumes "ValidateEncryptionSpec e = None" and "enc_Enabled e"
  shows "countConfiguredProviders (enc_KMSConfig e) = 1 \<and> has_key_source (encryption_MongodArgs e)"
proof -
  have "validate_provider (defaultStr (enc_KeyProvider e) ''secret'') (enc_KMSConfig e) = None"
    and c: "countConfiguredProviders (enc_KMSConfig e) \<le> 1"
    using assms by (auto simp: ValidateEncryptionSpec_def enc_error_def split: if_splits option.splits)
  from validated_provider [OF this(1)] c key_source_of_provider [OF assms(2)] show ?thesis by simp
qed

lemma auth_options_plain:
  assumes "\<And>l. auth_LDAP a = Some l \<Longrightarrow> ValidateLDAPSpec l = None"
  shows "''--ldapTransportSecurity=none'' \<notin> set (auth_options a)"
  using assms validated_ldap by (auto simp: auth_options_def split: option.splits)

section \<open>Reading a command line\<close>

text \<open>
  The options of a command line, as the server reads it: an option of this list takes the next
  argument as its value, so that a value which looks like an option is none.
\<close>

definition valued_options :: "string list" where
  "valued_options = [''--replSet'', ''--configdb'', ''--keyFile'', ''--tlsMode'', ''--tlsCertificateKeyFile'', ''--tlsCAFile'',
     ''--setParameter'']"

function options_of :: "string list \<Rightarrow> string list" where
  "options_of [] = []"
| "options_of (a # as) = a # options_of (if a \<in> set valued_options then tl as else as)"
  by pat_completeness auto
termination by (relation "measure length") auto

text \<open>A block that does not end between an option and its value is read on its own.\<close>

definition whole_block :: "string list \<Rightarrow> bool" where
  "whole_block xs \<longleftrightarrow> (\<forall>ys. options_of (xs @ ys) = options_of xs @ options_of ys)"

lemma whole_blockD: "whole_block xs \<Longrightarrow> options_of (xs @ ys) = options_of xs @ options_of ys"
  by (simp add: whole_block_def)

lemma whole_blocks [simp]:
  "whole_block keyfile_args" "whole_block (tls_options t)" "whole_block (auth_options a)"
  "whole_block (encryption_options st)" "whole_block (audit_options au)"
  by (simp_all add: whole_block_def valued_options_def keyfile_args_def tls_options_def tlsArgs_def auth_options_def
      LDAPMongodArgs_def encryption_options_def encryption_MongodArgs_def audit_options_def audit_MongodArgs_def Let_def
      split: option.split)

lemma options_of_subset: "set (options_of xs) \<subseteq> set xs"
proof (induction xs rule: options_of.induct)
  case (2 a as)
  moreover have "set (tl as) \<subseteq> set as" by (cases as) auto
  ultimately show ?case by (auto split: if_splits)
qed simp

lemma replicaset_options:
  "options_of (replicaset_args m) = [''--replSet''] @ options_of keyfile_args @ options_of (tls_options (mdb_TLS (Spec m)))
     @ options_of (auth_options (mdb_Auth (Spec m))) @ options_of (encryption_options (mdb_Storage (Spec m)))
     @ options_of (audit_options (mdb_AuditLog (Spec m))) @ options_of (mongot_options (om_Annotations (Meta m)) localhost_mongot)"
  by (simp add: replicaset_args_def valued_options_def whole_blockD)

lemma other_options_plain:
  "''--ldapTransportSecurity=none'' \<notin> set (options_of keyfile_args)"
  "''--ldapTransportSecurity=none'' \<notin> set (options_of (tls_options t))"
  "''--ldapTransportSecurity=none'' \<notin> set (options_of (encryption_options st))"
  "''--ldapTransportSecurity=none'' \<notin> set (options_of (audit_options au))"
  "''--ldapTransportSecurity=none'' \<notin> set (options_of (mongot_options an ep))"
  by (simp_all add: valued_options_def keyfile_args_def tls_options_def tlsArgs_def encryption_options_def
      encryption_MongodArgs_def audit_options_def audit_MongodArgs_def mongot_options_def MongotSetParameterArgs_def Let_def
      split: option.split)

lemma encryption_options_flags: "options_of (encryption_options st) = encryption_options st"
  by (simp add: valued_options_def encryption_options_def encryption_MongodArgs_def split: option.split)

text \<open>The parameters of the webhooks as their documentation describes them.\<close>

definition sample_vwp :: predicate_check where
  "sample_vwp path v p l = (if p v then None else Some (Invalid path ''unsupported''))"

definition exact_whitelist :: "string list \<Rightarrow> string \<Rightarrow> bool" where
  "exact_whitelist l x \<longleftrightarrow> x \<in> set l"

lemma sample_parameters [simp]: "(sample_vwp path v p l = None) = p v" "exact_whitelist l x = (x \<in> set l)"
  by (simp_all add: sample_vwp_def exact_whitelist_def)

lemma sample_mdb_admitted: "ValidateCreate sample_vwp exact_whitelist sample_mdb = None"
  by code_simp

text \<open>
  C15. An admitted replica set is one the operator can run safely: its version is supported, its
  members cannot tie in a vote, the admin secret is named, and of the command line that the
  StatefulSet is built with, no option asks for LDAP in plain text, and if encryption at rest is
  enabled, there is exactly one key provider and an option that says where the key is.
\<close>

theorem admitted_replica_set:
  assumes "\<forall>path v p l. (vwp path v p l = None) = p v"
    and "\<forall>l x. isSup l x = (x \<in> set l)"
    and "ValidateCreate vwp isSup m = None"
  shows "fcvMajorMinor (ver_Version (mdb_Version (Spec m))) \<in> set SupportedMongoDBVersions
    \<and> (odd (mdb_Members (Spec m)) \<or> mdb_Members (Spec m) = 0)
    \<and> auth_AdminCredentialsSecretRef (mdb_Auth (Spec m)) \<noteq> []
    \<and> ''--ldapTransportSecurity=none'' \<notin> set (options_of (replicaset_args m))
    \<and> (case st_Encryption (mdb_Storage (Spec m)) of None \<Rightarrow> True
       | Some e \<Rightarrow> enc_Enabled e \<longrightarrow> countConfiguredProviders (enc_KMSConfig e) = 1
           \<and> has_key_source (options_of (replicaset_args m)))"
proof -
  have v: "validateMongoDBSpec vwp isSup m = []" using assms(3) by (simp add: ValidateCreate_None)
  have "IsSupportedMongoDBVersion isSup (ver_Version (mdb_Version (Spec m)))"
    using v assms(1) by (simp add: validateMongoDBSpec_def Let_def)
  then have "fcvMajorMinor (ver_Version (mdb_Version (Spec m))) \<in> set SupportedMongoDBVersions"
    using assms(2) by (simp add: supported_iff)
  moreover have "''--ldapTransportSecurity=none'' \<notin> set (auth_options (mdb_Auth (Spec m)))"
    using v by (intro auth_options_plain) (simp add: validateMongoDBSpec_def Let_def check_block_nil)
  then have "''--ldapTransportSecurity=none'' \<notin> set (options_of (replicaset_args m))"
    using options_of_subset other_options_plain by (fastforce simp: replicaset_options)
  moreover have "ValidateEncryptionSpec e = None" if "st_Encryption (mdb_Storage (Spec m)) = Some e" for e
    using v that by (simp add: validateMongoDBSpec_def Let_def check_block_nil)
  then have "countConfiguredProviders (enc_KMSConfig e) = 1 \<and> has_key_source (options_of (replicaset_args m))"
    if "st_Encryption (mdb_Storage (Spec m)) = Some e" "enc_Enabled e" for e
    using validated_encryption [of e] that key_source_append
    by (simp add: replicaset_options encryption_options_flags) (simp add: encryption_options_def has_key_source_def)
  ultimately show ?thesis
    using v by (auto simp: validateMongoDBSpec_def Let_def validateAuthSecretRef_def split: if_splits option.splits)
qed

definition encrypted_mdb :: MongoDB where
  "encrypted_mdb = sample_mdb\<lparr>Spec := (Spec sample_mdb)\<lparr>mdb_Storage := (mdb_Storage (Spec sample_mdb))
     \<lparr>st_Encryption := Some \<lparr>enc_Enabled = True, enc_KeyProvider = ''vault'', enc_KMSConfig = Some
       \<lparr>kms_Secret = None, kms_Vault = Some \<lparr>vault_Address = ''https://vault'', vault_TransitPath = [], vault_KeyName = ''key'',
          vault_AuthMethod = [], vault_AuthSecretRef = ''vault-auth'', vault_CASecretRef = None\<rparr>,
        kms_AWSKMS = None, kms_GCPKMS = None, kms_AzureKV = None\<rparr>, enc_CipherMode = [], enc_KeyRotationDays = 0\<rparr>\<rparr>\<rparr>\<rparr>"

lemma encrypted_mdb_admitted: "ValidateCreate sample_vwp exact_whitelist encrypted_mdb = None"
  by code_simp

theorem admitted_replica_set_witness:
  "odd (mdb_Members (Spec encrypted_mdb)) \<and> auth_AdminCredentialsSecretRef (mdb_Auth (Spec encrypted_mdb)) \<noteq> []
   \<and> has_key_source (options_of (replicaset_args encrypted_mdb))"
  using admitted_replica_set [OF _ _ encrypted_mdb_admitted] by (simp add: encrypted_mdb_def sample_mdb_def)

text \<open>
  Arbiters of shards cannot be admitted: a cluster that enables them and says how many members
  a shard has is always rejected, since one rule asks for an odd member count and the other for an
  odd sum of members and arbiters, of which there may be one.
\<close>

theorem shard_arbiter_never_admitted:
  assumes "sh_Arbiter (shd_Shards (ShSpec m)) = Some a" and "sarb_Enabled a" and "0 \<le> sarb_Replicas a"
    and "0 < sh_MembersPerShard (shd_Shards (ShSpec m))"
  shows "ValidateShardedCreate vwp isSup m \<noteq> None"
proof
  assume "ValidateShardedCreate vwp isSup m = None"
  then have v: "validateMongoDBShardedSpec vwp isSup m = []" by (simp add: ValidateShardedCreate_None)
  have "odd (sh_MembersPerShard (shd_Shards (ShSpec m)))"
    using v assms(4) by (auto simp: validateMongoDBShardedSpec_def Let_def split: if_splits)
  moreover have "sarb_Replicas a = 1" "odd (sh_MembersPerShard (shd_Shards (ShSpec m)) + sarb_Replicas a)"
    using v assms by (auto simp: validateMongoDBShardedSpec_def Let_def validateShardArbiter_def split: if_splits)
  ultimately show False by simp
qed

definition arbiter_sharded :: MongoDBSharded where
  "arbiter_sharded = sample_sharded\<lparr>ShSpec := (ShSpec sample_sharded)\<lparr>shd_Shards := (shd_Shards (ShSpec sample_sharded))
     \<lparr>sh_Arbiter := Some \<lparr>sarb_Enabled = True, sarb_Replicas = 1, sarb_Resources = zero_resources\<rparr>\<rparr>\<rparr>\<rparr>"

theorem shard_arbiter_never_admitted_witness:
  "ValidateShardedCreate sample_vwp exact_whitelist arbiter_sharded \<noteq> None"
  by (rule shard_arbiter_never_admitted [where a = "\<lparr>sarb_Enabled = True, sarb_Replicas = 1, sarb_Resources = zero_resources\<rparr>"])
    (simp_all add: arbiter_sharded_def sample_sharded_def)

definition with_ldap :: "LDAPSpec \<Rightarrow> MongoDBSharded \<Rightarrow> MongoDBSharded" where
  "with_ldap l m = m\<lparr>ShSpec := (ShSpec m)\<lparr>shd_Auth := (shd_Auth (ShSpec m))\<lparr>auth_LDAP := Some l\<rparr>\<rparr>\<rparr>"

text \<open>
  The webhook of sharded clusters does not look at the LDAP settings: adding any LDAP block to a
  cluster does not change its verdict. A block without TLS, which is rejected for a replica set, is
  therefore admitted, and config servers, shards and mongos are started with LDAP in plain text.
\<close>

theorem sharded_plaintext_ldap_admitted:
  assumes "ldap_Servers l \<noteq> []" and "\<not> ldap_TLS l"
  shows "(ValidateShardedCreate vwp isSup (with_ldap l m) = None) = (ValidateShardedCreate vwp isSup m = None)
    \<and> ValidateLDAPSpec l \<noteq> None
    \<and> ''--ldapTransportSecurity=none'' \<in> set (configserver_args (with_ldap l m))
    \<and> ''--ldapTransportSecurity=none'' \<in> set (shard_args (with_ldap l m) i)
    \<and> ''--ldapTransportSecurity=none'' \<in> set (mongos_args (with_ldap l m))"
proof -
  have "validateMongoDBShardedSpec vwp isSup (with_ldap l m) = validateMongoDBShardedSpec vwp isSup m"
    by (simp add: validateMongoDBShardedSpec_def with_ldap_def Let_def)
  moreover have "''--ldapTransportSecurity=none'' \<in> set (auth_options (shd_Auth (ShSpec (with_ldap l m))))"
    using assms by (simp add: auth_options_def with_ldap_def LDAPMongodArgs_def)
  ultimately show ?thesis
    using assms(2) by (simp add: ValidateShardedCreate_None configserver_args_def shard_args_def mongos_args_def ValidateLDAPSpec_def)
qed

definition plain_ldap :: LDAPSpec where
  "plain_ldap = \<lparr>ldap_Servers = ''ldap:389'', ldap_BindMethod = ''simple'', ldap_BindCredentialsSecretRef = None,
     ldap_UserToDNMapping = [], ldap_TLS = False, ldap_CASecretRef = None, ldap_AuthorizationQueryTemplate = []\<rparr>"

theorem sharded_plaintext_ldap_admitted_witness:
  "ValidateShardedCreate sample_vwp exact_whitelist (with_ldap plain_ldap sample_sharded) = None
   \<and> ''--ldapTransportSecurity=none'' \<in> set (mongos_args (with_ldap plain_ldap sample_sharded))"
proof -
  have "ValidateShardedCreate sample_vwp exact_whitelist sample_sharded = None" by code_simp
  then show ?thesis
    using sharded_plaintext_ldap_admitted [of plain_ldap sample_vwp exact_whitelist sample_sharded]
    by (simp add: plain_ldap_def)
qed

end
