(* ===== verification/Admitted_Life.thy ===== *)
theory Admitted_Life
  imports Admission Sharded_Laws
begin

text \<open>
  The webhooks and the controllers together: the life of a resource that goes through admission.
  The API server stores what the webhook admits, the user edits the stored object, the controller
  reconciles it, in any order. What the controllers assume of the stored versions is what the
  webhooks check, so the upgrade discipline holds for every resource that was ever admitted.
\<close>

section \<open>What the version rules of both webhooks give\<close>

text \<open>\<^verbatim>\<open>ValidateWithPredicate\<close> reports an error exactly when the predicate rejects the value.\<close>

definition exact_check :: "predicate_check \<Rightarrow> bool" where
  "exact_check vwp \<longleftrightarrow> (\<forall>path v p l. (vwp path v p l = None) = p v)"

lemma admitted_supported:
  assumes "exact_check vwp" and "\<forall>l x. isSup l x = (x \<in> set l)" and "validateMongoDBSpec vwp isSup m = []"
  shows "supported_mm (ver_Version (mdb_Version (Spec m)))"
  using assms supported_iff [of isSup]
  by (simp add: validateMongoDBSpec_def Let_def exact_check_def supported_mm_def)

lemma sharded_admitted_supported:
  assumes "exact_check vwp" and "\<forall>l x. isSup l x = (x \<in> set l)" and "validateMongoDBShardedSpec vwp isSup m = []"
  shows "supported_mm (sh_desired m)"
  using assms supported_iff [of isSup]
  by (simp add: validateMongoDBShardedSpec_def Let_def exact_check_def supported_mm_def)

lemma version_change_accepted:
  "version_change_error isSup (Some v) w = None \<Longrightarrow> v \<noteq> [] \<Longrightarrow> accepted_update isSup v w"
  by (auto simp: version_change_error_def accepted_update_def IsValidUpgradePath_def split: if_splits)

lemma ValidateUpdate_None:
  "ValidateUpdate vwp isSup (Some m) m' = None \<longleftrightarrow> validateMongoDBSpec vwp isSup m' = []
     \<and> version_change_error isSup (Some (ver_Version (mdb_Version (Spec m)))) (ver_Version (mdb_Version (Spec m'))) = None"
  by (simp add: ValidateUpdate_def Let_def)

lemma ValidateShardedUpdate_None:
  "ValidateShardedUpdate vwp isSup (Some m) m' = None \<longleftrightarrow> validateMongoDBShardedSpec vwp isSup m' = []
     \<and> version_change_error isSup (Some (ver_Version (shd_Version (ShSpec m)))) (ver_Version (shd_Version (ShSpec m'))) = None"
  by (simp add: ValidateShardedUpdate_def Let_def)

section \<open>Lives under admission\<close>

definition no_history :: "MongoDB \<Rightarrow> bool" where
  "no_history m \<longleftrightarrow> s_Version (Status m) = [] \<and> s_EffectiveVersion (Status m) = [] \<and> s_FCVVersion (Status m) = []
     \<and> s_UpgradePhase (Status m) = []"

inductive admitted_life ::
    "predicate_check \<Rightarrow> (string list \<Rightarrow> string \<Rightarrow> bool) \<Rightarrow> op_config \<Rightarrow> MongoDB effect list \<Rightarrow> MongoDB \<Rightarrow> bool"
  for vwp isSup cfg where
  admit_create: "ValidateCreate vwp isSup m = None \<Longrightarrow> no_history m \<Longrightarrow> admitted_life vwp isSup cfg [] m"
| admit_pass: "admitted_life vwp isSup cfg es m \<Longrightarrow> honest (edited rs_view) W \<Longrightarrow> w_get W k = Inr m \<Longrightarrow>
     run_state (Reconcile cfg W) (start_run m k) = (r, s') \<Longrightarrow>
     admitted_life vwp isSup cfg (es @ r_log s') (stored m (r_log s'))"
| admit_update: "admitted_life vwp isSup cfg es m \<Longrightarrow> ValidateUpdate vwp isSup (Some m) m' = None \<Longrightarrow>
     Status m' = Status m \<Longrightarrow> Generation m \<le> Generation m' \<Longrightarrow> admitted_life vwp isSup cfg es m'"

lemma admitted_life_refines:
  assumes "admitted_life vwp isSup cfg es m" and v: "exact_check vwp" and s: "\<forall>l x. isSup l x = (x \<in> set l)"
  shows "\<exists>m0. fresh_object m0 \<and> life isSup cfg m0 es m"
  using assms(1)
proof induction
  case (admit_create m)
  then have "fresh_object m"
    using admitted_supported [OF v s] by (simp add: fresh_object_def no_history_def ValidateCreate_None)
  then show ?case by (blast intro: life.created)
next
  case (admit_pass es m W k r s')
  then show ?case by (blast intro: life.reconciled)
next
  case (admit_update es m m')
  then obtain m0 where m0: "fresh_object m0" "life isSup cfg m0 es m" by blast
  have "uinv (rs_view m0)" using m0(1) by (simp add: fresh_object_def uinv_def rs_view_def fcv_below_def)
  with life_discipline [OF m0(2) s] have "ver_Version (mdb_Version (Spec m)) \<noteq> []"
    by (auto simp: uinv_def rs_view_def dest: supported_mm_ne)
  then have "accepted_update isSup (ver_Version (mdb_Version (Spec m))) (ver_Version (mdb_Version (Spec m')))"
    using admit_update(2) by (simp add: ValidateUpdate_None version_change_accepted)
  with m0 admit_update show ?case by (blast intro: life.spec_edited)
qed

definition sh_no_history :: "MongoDBSharded \<Rightarrow> bool" where
  "sh_no_history m \<longleftrightarrow> ss_Version (ShStatus m) = [] \<and> ss_EffectiveVersion (ShStatus m) = [] \<and> ss_FCVVersion (ShStatus m) = []
     \<and> ss_UpgradePhase (ShStatus m) = []"

inductive sharded_admitted_life ::
    "predicate_check \<Rightarrow> (string list \<Rightarrow> string \<Rightarrow> bool) \<Rightarrow> op_config \<Rightarrow> MongoDBSharded effect list \<Rightarrow> MongoDBSharded \<Rightarrow> bool"
  for vwp isSup cfg where
  sh_admit_create: "ValidateShardedCreate vwp isSup m = None \<Longrightarrow> sh_no_history m \<Longrightarrow> sharded_admitted_life vwp isSup cfg [] m"
| sh_admit_pass: "sharded_admitted_life vwp isSup cfg es m \<Longrightarrow> honest (edited sh_view) W \<Longrightarrow> w_get W k = Inr m \<Longrightarrow>
     run_state (ReconcileSharded cfg W) (start_run m k) = (r, s') \<Longrightarrow>
     sharded_admitted_life vwp isSup cfg (es @ r_log s') (stored m (r_log s'))"
| sh_admit_update: "sharded_admitted_life vwp isSup cfg es m \<Longrightarrow> ValidateShardedUpdate vwp isSup (Some m) m' = None \<Longrightarrow>
     ShStatus m' = ShStatus m \<Longrightarrow> ShGeneration m \<le> ShGeneration m' \<Longrightarrow> sharded_admitted_life vwp isSup cfg es m'"

lemma sharded_admitted_life_refines:
  assumes "sharded_admitted_life vwp isSup cfg es m" and v: "exact_check vwp" and s: "\<forall>l x. isSup l x = (x \<in> set l)"
  shows "\<exists>m0. fresh_sharded m0 \<and> sharded_life isSup cfg m0 es m"
  using assms(1)
proof induction
  case (sh_admit_create m)
  then have "fresh_sharded m"
    using sharded_admitted_supported [OF v s] by (simp add: fresh_sharded_def sh_no_history_def ValidateShardedCreate_None)
  then show ?case by (blast intro: sharded_life.sh_created)
next
  case (sh_admit_pass es m W k r s')
  then show ?case by (blast intro: sharded_life.sh_reconciled)
next
  case (sh_admit_update es m m')
  then obtain m0 where m0: "fresh_sharded m0" "sharded_life isSup cfg m0 es m" by blast
  have "uinv (sh_view m0)" using m0(1) by (simp add: fresh_sharded_def uinv_def sh_view_def fcv_below_def)
  with sharded_life_discipline [OF m0(2) s] have "sh_desired m \<noteq> []"
    by (auto simp: uinv_def sh_view_def dest: supported_mm_ne)
  then have "accepted_update isSup (sh_desired m) (sh_desired m')"
    using sh_admit_update(2) by (simp add: ValidateShardedUpdate_None version_change_accepted)
  with m0 sh_admit_update show ?case by (blast intro: sharded_life.sh_spec_edited)
qed

section \<open>The upgrade discipline\<close>

text \<open>
  C1. The FCV that the operator recorded is never above the binary it deploys: take any resource
  that the webhook admitted, and let any number of reconcile passes (with whatever the API server,
  the database and the clock answer) and edits that the webhook admits happen, in any order. Then
  every StatefulSet that was applied on the way, and the stored object at the end, deploys a
  version that is not below the recorded FCV; and while an upgrade is under way the version a
  rollback would return to is not below it either.
\<close>

theorem recorded_fcv_never_above_deployed:
  assumes "exact_check vwp" and "\<forall>l x. isSup l x = (x \<in> set l)" and "admitted_life vwp isSup cfg es m"
  shows "fcv_below (s_FCVVersion (Status m)) (deployed_version m)
    \<and> (s_UpgradePhase (Status m) \<noteq> [] \<longrightarrow> fcv_below (s_FCVVersion (Status m)) (s_PreviousVersion (Status m)))
    \<and> (\<forall>m' \<in> set (applied es). fcv_below (s_FCVVersion (Status m')) (deployed_version m'))"
  using admitted_life_refines [OF assms(3,1,2)] life_fcv_below [OF assms(2)] by blast

text \<open>A pass in the sample world, and the admitted move of a new cluster to the next release.\<close>

lemma admitted_sample_pass:
  "admitted_life vwp isSup sample_cfg es m \<Longrightarrow> admitted_life vwp isSup sample_cfg (es @ pass_log m) (after_pass m)"
  unfolding pass_log_def after_pass_def
  by (rule admitted_life.admit_pass [where W = "reading m (sample_world 0 done_sts [] yes_driver)" and k = 0 and
        r = "fst (run_state (Reconcile sample_cfg (reading m (sample_world 0 done_sts [] yes_driver))) (start_run m 0))"])
    (simp_all add: honest_sample edited_def)

lemma bumped_admitted:
  "Spec m = Spec new_mdb \<Longrightarrow> ValidateUpdate sample_vwp exact_whitelist (Some m) (bumped ''8.2.1'' m) = None"
proof -
  assume s: "Spec m = Spec new_mdb"
  have "validateMongoDBSpec sample_vwp exact_whitelist (bumped ''8.2.1'' m)
      = validateMongoDBSpec sample_vwp exact_whitelist (bumped ''8.2.1'' new_mdb)"
    by (simp add: validateMongoDBSpec_def bumped_def s)
  also have "\<dots> = []" by code_simp
  finally have "validateMongoDBSpec sample_vwp exact_whitelist (bumped ''8.2.1'' m) = []" .
  moreover have "version_change_error exact_whitelist (Some ''8.0.4'') ''8.2.1'' = None" by code_simp
  ultimately show ?thesis by (simp add: ValidateUpdate_None s) (simp add: new_mdb_def bumped_def)
qed

lemma sample_exact: "exact_check sample_vwp" "\<forall>l x. exact_whitelist l x = (x \<in> set l)"
  by (simp_all add: exact_check_def)

theorem recorded_fcv_never_above_deployed_witness:
  "fcv_below (s_FCVVersion (Status (after_pass (bumped ''8.2.1'' (after_pass (after_pass new_mdb))))))
     (deployed_version (after_pass (bumped ''8.2.1'' (after_pass (after_pass new_mdb)))))"
proof -
  let ?m = "after_pass (after_pass new_mdb)"
  have "ValidateCreate sample_vwp exact_whitelist new_mdb = None" by code_simp
  moreover have "no_history new_mdb" by code_simp
  ultimately have "\<exists>es. admitted_life sample_vwp exact_whitelist sample_cfg es ?m"
    by (blast intro: admitted_sample_pass admitted_life.admit_create)
  then have "\<exists>es. admitted_life sample_vwp exact_whitelist sample_cfg es (bumped ''8.2.1'' ?m)"
    using admitted_life.admit_update [OF _ bumped_admitted [of ?m]] by (auto simp: after_pass_spec bumped_def)
  then show ?thesis
    using recorded_fcv_never_above_deployed [OF sample_exact, of sample_cfg] admitted_sample_pass by blast
qed

text \<open>
  C5. The same discipline holds for sharded clusters: over any sequence of reconcile passes and
  admitted edits of an admitted cluster, no config server, shard or mongos is ever deployed in a
  version below the FCV the operator has recorded, nor is one that a rollback would return to.
\<close>

theorem sharded_fcv_never_above_deployed:
  assumes "exact_check vwp" and "\<forall>l x. isSup l x = (x \<in> set l)" and "sharded_admitted_life vwp isSup cfg es m"
  shows "fcv_below (ss_FCVVersion (ShStatus m)) (sh_deployed_version m)
    \<and> (ss_UpgradePhase (ShStatus m) \<noteq> [] \<longrightarrow> fcv_below (ss_FCVVersion (ShStatus m)) (ss_PreviousVersion (ShStatus m)))
    \<and> (\<forall>m' \<in> set (applied es). fcv_below (ss_FCVVersion (ShStatus m')) (sh_deployed_version m'))"
  using sharded_admitted_life_refines [OF assms(3,1,2)] sharded_life_fcv_below [OF assms(2)] by blast

lemma sharded_admitted_sample_pass:
  "sharded_admitted_life vwp isSup sample_cfg es m \<Longrightarrow>
   sharded_admitted_life vwp isSup sample_cfg (es @ sh_pass_log m) (sh_after_pass m)"
  unfolding sh_pass_log_def sh_after_pass_def
  by (rule sharded_admitted_life.sh_admit_pass [where W = "sh_world m" and k = 0 and
        r = "fst (run_state (ReconcileSharded sample_cfg (sh_world m)) (start_run m 0))"])
    (simp_all add: edited_def)

theorem sharded_fcv_never_above_deployed_witness:
  "fcv_below (ss_FCVVersion (ShStatus (sh_after_pass (sh_after_pass new_sharded))))
     (sh_deployed_version (sh_after_pass (sh_after_pass new_sharded)))"
proof -
  have "ValidateShardedCreate sample_vwp exact_whitelist new_sharded = None" by code_simp
  moreover have "sh_no_history new_sharded" by code_simp
  ultimately have "\<exists>es. sharded_admitted_life sample_vwp exact_whitelist sample_cfg es (sh_after_pass (sh_after_pass new_sharded))"
    by (blast intro: sharded_admitted_sample_pass sharded_admitted_life.sh_admit_create)
  then show ?thesis using sharded_fcv_never_above_deployed [OF sample_exact, of sample_cfg] by blast
qed

end
