(* ===== verification/Wiring.thy ===== *)
theory Wiring
  imports Server_Options Sharded
begin

text \<open>
  How the parts of a sharded cluster find each other: the replica set names on the command lines
  (\<^verbatim>\<open>builder.go\<close>), the configurations the controller initiates replica sets with, the connection
  strings it registers shards with (\<^verbatim>\<open>mongodbsharded_controller.go\<close>), and the config server string
  mongos is started with.
\<close>

definition connection_string :: "ReplicaSetConfig \<Rightarrow> string" where
  "connection_string c = rc_ID c @ ''/'' @ Join (map rm_Host (rc_Members c)) '',''"

definition shard_config :: "MongoDBSharded \<Rightarrow> nat \<Rightarrow> ReplicaSetConfig" where
  "shard_config m i = BuildReplicaSetConfig (shard_name m i) (shard_name m i) (shard_name m i @ ''-headless'')
     (ShNamespace m) (nat (sh_MembersPerShard (shd_Shards (ShSpec m)))) 27018"

definition config_server_config :: "MongoDBSharded \<Rightarrow> ReplicaSetConfig" where
  "config_server_config m = BuildReplicaSetConfig (ShName m @ ''-cfg'') (ShName m @ ''-cfg'') (ShName m @ ''-cfg-headless'')
     (ShNamespace m) (nat (cs_Members (shd_ConfigServer (ShSpec m)))) 27019"

section \<open>The strings\<close>

lemma Join_snoc: "Join (xs @ [x]) sep = (if xs = [] then x else Join xs sep @ sep @ x)"
  by (induction xs rule: induct_list012) auto

lemma Join_upt_hosts:
  "Join (map f [0..<n]) '','' = concat (map (\<lambda>i. (if i > 0 then '','' else []) @ f i) [0..<n])"
  by (induction n) (simp_all add: Join_snoc)

lemma config_hosts_concat:
  "config_hosts m is = concat (map (\<lambda>i. (if i > 0 then '','' else []) @ ShName m @ ''-cfg-'' @ show_nat i @ ''.'' @ ShName m
     @ ''-cfg-headless.'' @ om_Namespace (ShMeta m) @ ''.svc.cluster.local:27019'') is)"
  by (induction "is") auto

lemma show_27019: "show_int 27019 = ''27019''"
  by (simp add: render_defs)

lemma configdb_string:
  assumes "cs_External (shd_ConfigServer (ShSpec m)) = None"
  shows "buildMongosConfigDB m = connection_string (config_server_config m)"
  using assms
  by (simp add: buildMongosConfigDB_def connection_string_def config_server_config_def BuildReplicaSetConfig_def comp_def
      Join_upt_hosts config_hosts_concat GetPodFQDN_def show_27019)

lemma shard_string:
  "BuildShardConnectionString (shard_name m i) (shard_name m i) (shard_name m i @ ''-headless'') (ShNamespace m)
     (nat (sh_MembersPerShard (shd_Shards (ShSpec m)))) 27018 = connection_string (shard_config m i)"
  by (simp add: BuildShardConnectionString_def connection_string_def shard_config_def BuildReplicaSetConfig_def
      GetPodsFQDN_def comp_def)

section \<open>The commands\<close>

definition sends_only :: "mongo_cmd set \<Rightarrow> 'o rstate \<Rightarrow> bool" where
  "sends_only A s \<longleftrightarrow> set (issued (r_log s)) \<subseteq> A"

lemma sends_only_intros:
  "keeps (sends_only A) (ask q)" "keeps (sends_only A) the_obj" "keeps (sends_only A) (put_obj m)"
  by (simp_all add: keeps_def wp_simps sends_only_def)

lemma sends_only_issue: "(\<And>k. set (fst (op k)) \<subseteq> A) \<Longrightarrow> keeps (sends_only A) (issue op)"
  by (auto simp: keeps_def wp_simps sends_only_def split: prod.splits) (metis fst_conv subsetD)

lemma sends_only_update: "keeps (sends_only A) (UpdateWithRetry W f)"
  by (auto simp: keeps_def wp_simps sends_only_def split: prod.splits)

lemma initiate_sends:
  "ReplSetInitiate c \<in> A \<Longrightarrow> keeps (sends_only A) (issue (\<lambda>k. Initiate (drv k) (f k) p ns c))"
  by (rule sends_only_issue) (auto simp: Initiate_def run_cmd_def split: sum.splits option.splits if_splits)

lemma add_shard_sends:
  "AddShardCmd c \<in> A \<Longrightarrow> keeps (sends_only A) (issue (\<lambda>k. AddShard (drv k) (f k) p ns c))"
  by (rule sends_only_issue) (auto simp: AddShard_def runAdminCommand_def split: sum.splits option.splits if_splits)

lemma init_shards_sends:
  "(\<And>i. i \<in> set is \<Longrightarrow> ReplSetInitiate (shard_config m i) \<in> A) \<Longrightarrow>
   keeps (sends_only A) (init_shards W m pw is errs flags)"
  by (induction "is" arbitrary: errs flags)
    (auto simp: Let_def shard_config_def [symmetric]
      intro!: keeps_intros sends_only_intros initiate_sends split: sum.split bool.split)

lemma add_shards_sends:
  "(\<And>i. i \<in> set is \<Longrightarrow> AddShardCmd (connection_string (shard_config m i)) \<in> A) \<Longrightarrow>
   keeps (sends_only A) (add_shards W m pw pod is errs flags)"
  by (induction "is" arbitrary: errs flags)
    (auto simp: Let_def shard_string
      intro!: keeps_intros sends_only_intros add_shard_sends split: sum.split bool.split)

lemma reads_send_nothing: "keeps (sends_only A) (sh_password W m)" "keeps (sends_only A) (getMongosPodName W m)"
  unfolding sh_password_def getAdminPassword_def getMongosPodName_def by (intro keeps_intros sends_only_intros)+

lemma shard_config_flags:
  "shard_config (updsh f m) = shard_config m" "shard_count (updsh f m) = shard_count m"
  by (simp_all add: fun_eq_iff shard_config_def shard_name_def shard_count_def)

text \<open>The commands a step sends when it starts from the object that was read.\<close>

definition sent :: "('o, 'a) ctl \<Rightarrow> 'o \<Rightarrow> nat \<Rightarrow> mongo_cmd list" where
  "sent c m k = issued (r_log (snd (run_state c (start_run m k))))"

lemma sentI: "wp c (\<lambda>_. sends_only A) (start_run m k) \<Longrightarrow> set (sent c m k) \<subseteq> A"
  by (simp add: sent_def wp_def sends_only_def split: prod.splits)

lemma nothing_sent [simp]: "sends_only A (start_run m k)" "sends_only A (start_run m k\<lparr>r_obj := m'\<rparr>)"
  by (simp_all add: sends_only_def start_run_def)

lemma config_server_init_sends:
  "set (sent (reconcileConfigServerInit W) m k) \<subseteq> {ReplSetInitiate (config_server_config m)}"
proof (rule sentI)
  let ?I = "sends_only {ReplSetInitiate (config_server_config m)}"
  have i: "keeps ?I (issue (\<lambda>k. Initiate (drv k) (f k) p ns (BuildReplicaSetConfig (ShName m @ ''-cfg'') (ShName m @ ''-cfg'')
      (ShName m @ ''-cfg-headless'') (ShNamespace m) (nat (cs_Members (shd_ConfigServer (ShSpec m)))) 27019)))" for drv f p ns
    by (rule initiate_sends) (simp add: config_server_config_def)
  show "wp (reconcileConfigServerInit W) (\<lambda>_. ?I) (start_run m k)"
    unfolding reconcileConfigServerInit_def wp_bind [of the_obj] wp_the_obj Let_def
    by (rule keeps_wp) (auto intro!: keeps_intros sends_only_intros reads_send_nothing sends_only_update i split: sum.split bool.split)
qed

lemma persist_flags_sends: "keeps (sends_only A) (persist_flags W f r)"
  unfolding persist_flags_def by (intro keeps_intros sends_only_update)

lemma shards_init_sends:
  "set (sent (reconcileShardsInit W) m k) \<subseteq> {ReplSetInitiate (shard_config m i) |i. i < shard_count m}"
proof (rule sentI)
  let ?A = "{ReplSetInitiate (shard_config m i) |i. i < shard_count m}"
  have i: "keeps (sends_only ?A) (init_shards W (updsh f m) pw [0..<shard_count m] errs flags)" for f pw errs flags
    by (rule init_shards_sends) (auto simp: shard_config_flags)
  show "wp (reconcileShardsInit W) (\<lambda>_. sends_only ?A) (start_run m k)"
    unfolding reconcileShardsInit_def wp_bind [of the_obj] wp_the_obj wp_bind [of "put_obj _"] wp_put_obj
    by (simp add: shard_config_flags) (rule keeps_wp,
      auto intro!: keeps_intros reads_send_nothing i persist_flags_sends split: sum.split)
qed

lemma add_shards_step_sends:
  "set (sent (reconcileAddShards W) m k) \<subseteq> {AddShardCmd (connection_string (shard_config m i)) |i. i < shard_count m}"
proof (rule sentI)
  let ?A = "{AddShardCmd (connection_string (shard_config m i)) |i. i < shard_count m}"
  have i: "keeps (sends_only ?A) (add_shards W (updsh f m) pw pod [0..<shard_count m] errs flags)" for f pw pod errs flags
    by (rule add_shards_sends) (auto simp: shard_config_flags)
  show "wp (reconcileAddShards W) (\<lambda>_. sends_only ?A) (start_run m k)"
    unfolding reconcileAddShards_def wp_bind [of the_obj] wp_the_obj wp_bind [of "put_obj _"] wp_put_obj
    by (simp add: shard_config_flags)
      (auto intro!: keeps_wp keeps_intros reads_send_nothing i persist_flags_sends split: sum.split)
qed

text \<open>
  C16. The parts of a sharded cluster name each other consistently. The config servers are
  initiated under the replica set name they were started with, and mongos is started with exactly
  the name and members they were initiated with, unless the spec refers to external config servers:
  then mongos gets exactly the name and hosts of that reference (and the controller still sends
  its own config servers nothing but their own configuration). Each shard is initiated under the
  name it was started with, and what is registered with mongos are exactly the name and the
  members a declared shard is initiated with.
\<close>

theorem cluster_wired_consistently:
  "set (sent (reconcileConfigServerInit W) m k1) \<subseteq> {ReplSetInitiate (config_server_config m)}
    \<and> configserver_args m ! 2 = rc_ID (config_server_config m)
    \<and> mongos_args m ! 1 = (case cs_External (shd_ConfigServer (ShSpec m)) of
         None \<Rightarrow> connection_string (config_server_config m)
       | Some e \<Rightarrow> ext_ReplicaSetName e @ ''/'' @ Join (ext_Hosts e) '','')
    \<and> set (sent (reconcileShardsInit W) m k2) \<subseteq> {ReplSetInitiate (shard_config m i) |i. i < shard_count m}
    \<and> shard_args m i ! 2 = rc_ID (shard_config m i)
    \<and> set (sent (reconcileAddShards W) m k3) \<subseteq> {AddShardCmd (connection_string (shard_config m i)) |i. i < shard_count m}"
proof -
  have "configserver_args m ! 2 = rc_ID (config_server_config m)" "shard_args m i ! 2 = rc_ID (shard_config m i)"
    by (simp_all add: configserver_args_def shard_args_def config_server_config_def shard_config_def
        BuildReplicaSetConfig_def shard_component_def shard_name_def)
  moreover have "mongos_args m ! 1 = (case cs_External (shd_ConfigServer (ShSpec m)) of
         None \<Rightarrow> connection_string (config_server_config m)
       | Some e \<Rightarrow> ext_ReplicaSetName e @ ''/'' @ Join (ext_Hosts e) '','')"
    using configdb_string [of m] by (cases "cs_External (shd_ConfigServer (ShSpec m))")
      (simp_all add: mongos_args_def buildMongosConfigDB_def)
  ultimately show ?thesis
    using config_server_init_sends [of W m k1] shards_init_sends [of W m k2] add_shards_step_sends [of W m k3] by blast
qed

end
