(* ===== verification/Pod_Templates.thy ===== *)
theory Pod_Templates
  imports Server_Options Versions
begin

text \<open>
  The pods that the controllers deploy: \<^verbatim>\<open>internal/resources/builder.go\<close> with \<^verbatim>\<open>builder_tls.go\<close>,
  \<^verbatim>\<open>oplog_tailer.go\<close>, \<^verbatim>\<open>presets.go\<close>, \<^verbatim>\<open>builder_configmap.go\<close> and the sidecar of \<^verbatim>\<open>mongot.go\<close>. A workload is its
  name, replica count and pod template. \<^verbatim>\<open>TLSSecretMount\<close> of the commons library, which makes the
  volume and the mount of a certificate, is the parameter \<open>tsm\<close>.
\<close>

section \<open>Workloads\<close>

datatype PodSecurityContext = DefaultPodSecurityContext | GivenPodSecurityContext k8s_value

text \<open>The labels of a pod: the set of \<^verbatim>\<open>buildLabels\<close> and further pairs.\<close>

record PodLabels =
  pl_Set :: LabelSet
  pl_Extra :: string_map

text \<open>\<^verbatim>\<open>commonstopology.Defaulted(nil, members, labels)\<close> is kept as its arguments.\<close>

record PodTemplate =
  pt_Labels :: PodLabels
  pt_Annotations :: string_map
  pt_SecurityContext :: PodSecurityContext
  pt_InitContainers :: "Container list"
  pt_Containers :: "Container list"
  pt_Volumes :: "Volume list"
  pt_AntiAffinity :: string
  pt_TopologySpread :: "(int32 \<times> LabelSet) option"

record ClaimTemplate =
  ct_ClaimName :: string
  ct_StorageClassName :: "string option"
  ct_Storage :: Quantity

record Workload =
  wl_Name :: string
  wl_Namespace :: string
  wl_Labels :: LabelSet
  wl_ServiceName :: string
  wl_Replicas :: int32
  wl_Selector :: LabelSet
  wl_Template :: PodTemplate
  wl_Claims :: "ClaimTemplate list"
  wl_RetentionPolicy :: "k8s_value option"

type_synonym tls_secret_mount = "string \<Rightarrow> string \<Rightarrow> string \<Rightarrow> Volume \<times> VolumeMount"

section \<open>Quantities and presets\<close>

text \<open>\<^verbatim>\<open>resource.MustParse\<close> of the literals \<^verbatim>\<open>"<n>m"\<close>, \<^verbatim>\<open>"<n>"\<close>, \<^verbatim>\<open>"<n>Mi"\<close> and \<^verbatim>\<open>"<n>Gi"\<close>.\<close>

definition milli :: "int \<Rightarrow> Quantity" where "milli n = n * 1000000"
definition unit_q :: "int \<Rightarrow> Quantity" where "unit_q n = n * 1000000000"
definition mebi :: "int \<Rightarrow> Quantity" where "mebi n = n * 1048576 * 1000000000"
definition gibi :: "int \<Rightarrow> Quantity" where "gibi n = n * 1073741824 * 1000000000"

definition mkResources :: "Quantity \<Rightarrow> Quantity \<Rightarrow> Quantity \<Rightarrow> Quantity \<Rightarrow> ResourceRequirements" where
  "mkResources cpuReq memReq cpuLim memLim =
     \<lparr>rr_Requests = [(''cpu'', cpuReq), (''memory'', memReq)], rr_Limits = [(''cpu'', cpuLim), (''memory'', memLim)]\<rparr>"

definition no_resources :: ResourceRequirements where
  "no_resources = \<lparr>rr_Requests = [], rr_Limits = []\<rparr>"

definition ResourcePreset :: "string \<Rightarrow> ResourceRequirements" where
  "ResourcePreset name =
     (if name = ''nano'' then mkResources (milli 100) (mebi 128) (milli 200) (mebi 256)
      else if name = ''micro'' then mkResources (milli 250) (mebi 256) (milli 500) (mebi 512)
      else if name = ''small'' then mkResources (milli 500) (mebi 512) (unit_q 1) (gibi 1)
      else if name = ''medium'' then mkResources (unit_q 1) (gibi 1) (unit_q 2) (gibi 2)
      else if name = ''large'' then mkResources (unit_q 2) (gibi 2) (unit_q 4) (gibi 4)
      else if name = ''xlarge'' then mkResources (unit_q 4) (gibi 4) (unit_q 8) (gibi 8)
      else if name = ''2xlarge'' then mkResources (unit_q 8) (gibi 8) (unit_q 16) (gibi 16)
      else no_resources)"

definition IsValidPreset :: "string \<Rightarrow> bool" where
  "IsValidPreset name \<longleftrightarrow>
     name \<in> set [[], ''none'', ''nano'', ''micro'', ''small'', ''medium'', ''large'', ''xlarge'', ''2xlarge'']"

definition buildResourceRequirements :: "ResourcesSpec \<Rightarrow> ResourceRequirements" where
  "buildResourceRequirements spec = \<lparr>rr_Requests = rs_Requests spec, rr_Limits = rs_Limits spec\<rparr>"

definition isResourcesEmpty :: "ResourcesSpec \<Rightarrow> bool" where
  "isResourcesEmpty r \<longleftrightarrow> length (rs_Requests r) = 0 \<and> length (rs_Limits r) = 0"

section \<open>Containers, volumes and mounts\<close>

definition container :: "string \<Rightarrow> string \<Rightarrow> Container" where
  "container name img = \<lparr>ct_Name = name, ct_Image = img, ct_Command = [], ct_Args = [], ct_Ports = [], ct_Env = [],
     ct_Resources = no_resources, ct_VolumeMounts = [], ct_LivenessProbe = None, ct_ReadinessProbe = None,
     ct_StartupProbe = None, ct_Lifecycle = None, ct_SecurityContext = NoSecurityContext\<rparr>"

definition rw_mount :: "string \<Rightarrow> string \<Rightarrow> VolumeMount" where
  "rw_mount name path = \<lparr>vm_Name = name, vm_MountPath = path, vm_ReadOnly = False, vm_SubPath = []\<rparr>"

definition ro_mount :: "string \<Rightarrow> string \<Rightarrow> VolumeMount" where
  "ro_mount name path = \<lparr>vm_Name = name, vm_MountPath = path, vm_ReadOnly = True, vm_SubPath = []\<rparr>"

definition add_mounts :: "VolumeMount list \<Rightarrow> Container \<Rightarrow> Container" where
  "add_mounts ms c = c\<lparr>ct_VolumeMounts := ct_VolumeMounts c @ ms\<rparr>"

text \<open>The file modes \<^verbatim>\<open>0400\<close>, \<^verbatim>\<open>0755\<close> and \<^verbatim>\<open>0555\<close>.\<close>

definition mode_0400 :: int32 where "mode_0400 = 256"
definition mode_0755 :: int32 where "mode_0755 = 493"
definition mode_0555 :: int32 where "mode_0555 = 365"

definition keyfileInitImage :: string where "keyfileInitImage = ''busybox:1.37''"
definition exporterImage :: string where "exporterImage = ''percona/mongodb_exporter:0.53.0''"
definition metricsPort :: int32 where "metricsPort = 9216"

definition buildAdminCredentialsVolume :: "string \<Rightarrow> Volume" where
  "buildAdminCredentialsVolume secretName =
     \<lparr>vol_Name = ''admin-credentials'', vol_Source = SecretVolume secretName (Some mode_0400)\<rparr>"

definition buildAdminCredentialsMount :: VolumeMount where
  "buildAdminCredentialsMount = ro_mount ''admin-credentials'' ''/etc/mongodb-admin''"

definition buildScriptsVolume :: "string \<Rightarrow> Volume" where
  "buildScriptsVolume configMapName = \<lparr>vol_Name = ''scripts'', vol_Source = ConfigMapVolume configMapName (Some mode_0755)\<rparr>"

definition buildScriptsMount :: VolumeMount where
  "buildScriptsMount = ro_mount ''scripts'' ''/scripts''"

definition keyfile_volumes :: "string \<Rightarrow> Volume list" where
  "keyfile_volumes name =
     [\<lparr>vol_Name = ''keyfile-secret'', vol_Source = SecretVolume (name @ ''-keyfile'') (Some mode_0400)\<rparr>,
      \<lparr>vol_Name = ''keyfile'', vol_Source = EmptyDirVolume None\<rparr>]"

definition keyfile_mount :: VolumeMount where
  "keyfile_mount = ro_mount ''keyfile'' ''/etc/mongodb-keyfile''"

definition copy_keyfile :: Container where
  "copy_keyfile = (container ''copy-keyfile'' keyfileInitImage)\<lparr>
     ct_Command := [''sh'', ''-c'', ''cp /keyfile-secret/keyfile /keyfile/keyfile && chmod 400 /keyfile/keyfile''],
     ct_VolumeMounts := [ro_mount ''keyfile-secret'' ''/keyfile-secret'', rw_mount ''keyfile'' ''/keyfile''],
     ct_SecurityContext := KeyfileInitSecurityContext\<rparr>"

text \<open>TLS.\<close>

definition tlsServerVolume :: string where "tlsServerVolume = ''tls-server''"
definition tlsServerPEMVolume :: string where "tlsServerPEMVolume = ''tls-server-pem''"

definition BuildPEMMergeInitContainer :: Container where
  "BuildPEMMergeInitContainer = (container ''tls-pem-merge'' keyfileInitImage)\<lparr>
     ct_Command := [''sh'', ''-c'',
       ''cat /tls-input/tls.crt /tls-input/tls.key > /tls-pem/server.pem.tmp && '' @
       ''mv -f /tls-pem/server.pem.tmp /tls-pem/server.pem && '' @
       ''chmod 0400 /tls-pem/server.pem''],
     ct_VolumeMounts := [ro_mount tlsServerVolume ''/tls-input'', rw_mount tlsServerPEMVolume ''/tls-pem''],
     ct_SecurityContext := KeyfileInitSecurityContext\<rparr>"

definition buildTLSPEMVolume :: Volume where
  "buildTLSPEMVolume = \<lparr>vol_Name = tlsServerPEMVolume, vol_Source = EmptyDirVolume None\<rparr>"

definition buildTLSPEMMount :: VolumeMount where
  "buildTLSPEMMount = ro_mount tlsServerPEMVolume MongoTLSPEMPath"

definition buildTLSServerVolume :: "tls_secret_mount \<Rightarrow> string \<Rightarrow> Volume" where
  "buildTLSServerVolume tsm secretName = fst (tsm tlsServerVolume secretName MongoTLSMountPath)"

definition buildTLSServerMount :: "tls_secret_mount \<Rightarrow> VolumeMount" where
  "buildTLSServerMount tsm = snd (tsm tlsServerVolume [] MongoTLSMountPath)"

definition tls_volumes :: "tls_secret_mount \<Rightarrow> string \<Rightarrow> TLSSpec option \<Rightarrow> Volume list" where
  "tls_volumes tsm name tls =
     (if tls_enabled tls then [buildTLSServerVolume tsm (name @ ''-tls''), buildTLSPEMVolume] else [])"

definition tls_mounts :: "tls_secret_mount \<Rightarrow> TLSSpec option \<Rightarrow> VolumeMount list" where
  "tls_mounts tsm tls = (if tls_enabled tls then [buildTLSServerMount tsm, buildTLSPEMMount] else [])"

definition pem_init :: "TLSSpec option \<Rightarrow> Container list" where
  "pem_init tls = (if tls_enabled tls then [BuildPEMMergeInitContainer] else [])"

section \<open>Probes, hooks and environment\<close>

definition mongoshPing :: "int \<Rightarrow> string list" where
  "mongoshPing port =
     [''mongosh'', ''--norc'', ''--quiet''] @ (if port > 0 then [''--port'', show_int port] else [])
     @ [''--eval'', ''db.adminCommand('' @ [CHR 0x27] @ ''ping'' @ [CHR 0x27] @ '')'']"

definition probe :: "Handler \<Rightarrow> int32 \<Rightarrow> int32 \<Rightarrow> int32 option \<Rightarrow> int32 option \<Rightarrow> Probe" where
  "probe h delay period timeout failures = \<lparr>pr_Handler = h, pr_InitialDelaySeconds = Some delay,
     pr_PeriodSeconds = Some period, pr_TimeoutSeconds = timeout, pr_FailureThreshold = failures\<rparr>"

definition probeLivenessPeriodSec :: int32 where "probeLivenessPeriodSec = 30"
definition probeLivenessTimeoutSec :: int32 where "probeLivenessTimeoutSec = 15"
definition probeLivenessFailures :: int32 where "probeLivenessFailures = 4"
definition probeReadinessPeriodSec :: int32 where "probeReadinessPeriodSec = 15"
definition probeReadinessTimeoutSec :: int32 where "probeReadinessTimeoutSec = 10"

definition liveness :: "int \<Rightarrow> Probe" where
  "liveness port = probe (ExecAction (mongoshPing port)) 30 probeLivenessPeriodSec
     (Some probeLivenessTimeoutSec) (Some probeLivenessFailures)"

definition readiness :: "string list \<Rightarrow> int32 \<Rightarrow> Probe" where
  "readiness cmd delay = probe (ExecAction cmd) delay probeReadinessPeriodSec (Some probeReadinessTimeoutSec) None"

definition buildAdminBootstrapLifecycle :: Lifecycle where
  "buildAdminBootstrapLifecycle =
     \<lparr>lc_PostStart = Some (ExecAction [''/scripts/bootstrap-admin.sh'']),
      lc_PreStop = Some (ExecAction [''/scripts/prestop-stepdown.sh''])\<rparr>"

definition env :: "string \<Rightarrow> string \<Rightarrow> EnvVar" where
  "env name v = \<lparr>env_Name = name, env_Source = EnvValue v\<rparr>"

definition buildBootstrapEnv ::
    "string \<Rightarrow> string \<Rightarrow> string \<Rightarrow> string \<Rightarrow> int32 \<Rightarrow> int \<Rightarrow> bool \<Rightarrow> EnvVar list" where
  "buildBootstrapEnv stsName headlessSvc namespace replSetName replicas port configsvr =
     (let fqdns = map (\<lambda>i. stsName @ ''-'' @ show_nat i @ ''.'' @ headlessSvc @ ''.'' @ namespace
                          @ ''.svc.cluster.local:'' @ show_int port) [0..<nat replicas] in
      [env ''MONGO_PORT'' (show_int port), env ''MONGO_REPLSET'' replSetName,
       env ''MONGO_MEMBERS'' (Join fqdns '',''),
       env ''MONGO_CONFIGSVR'' (if configsvr then ''true'' else [])])"

section \<open>Sidecars\<close>

definition exporter_container :: "string \<Rightarrow> string \<Rightarrow> Container" where
  "exporter_container img name = (container ''exporter'' img)\<lparr>
     ct_Ports := [\<lparr>cport_Name = ''metrics'', cport_ContainerPort = metricsPort\<rparr>],
     ct_Args := [''--collect-all'', ''--compatible-mode''],
     ct_Env := [\<lparr>env_Name = ''MONGODB_URI'',
       env_Source = EnvSecretKeyRef \<lparr>sks_Name = name @ ''-exporter-uri'', sks_Key = ''uri''\<rparr>\<rparr>]\<rparr>"

definition oplogStagingMount :: string where "oplogStagingMount = ''/var/lib/mongodb-oplog-staging''"
definition oplogStagingVolume :: string where "oplogStagingVolume = ''oplog-staging''"
definition oplogTailerBatchSeconds :: int where "oplogTailerBatchSeconds = 30"

definition IsOplogTailerEnabled :: "BackupSpec option \<Rightarrow> bool" where
  "IsOplogTailerEnabled spec =
     (case spec of None \<Rightarrow> False
      | Some b \<Rightarrow> bk_Enabled b \<and> bk_PITREnabled b \<and> \<not> bk_OplogRetentionHours b \<le> 0)"

text \<open>The number printer of \<^verbatim>\<open>oplog_tailer.go\<close>; negating the least integer gives itself.\<close>

function intString_go :: "int \<Rightarrow> string \<Rightarrow> string" where
  "intString_go n buf = (if n > 0 then intString_go (n div 10) (digit_char (nat (n mod 10)) # buf) else buf)"
  by pat_completeness auto
termination by (relation "measure (nat \<circ> fst)") auto

declare intString_go.simps [simp del]

definition intString :: "int64 \<Rightarrow> string" where
  "intString n =
     (if n = 0 then ''0''
      else let neg = n < 0; n' = (if neg then wrap64 (- n) else n); buf = intString_go n' [] in
        if neg then CHR ''-'' # buf else buf)"

definition lines_of :: "string list \<Rightarrow> string" where
  "lines_of ls = concat (map (\<lambda>l. l @ [CHR 0x0A]) ls)"

definition tailer_script :: "int32 \<Rightarrow> string" where
  \<open>tailer_script port = lines_of
     [''set -eu'',
      ''PASS_FILE=/etc/mongodb-admin/password'',
      ''ADMIN_USER=admin'',
      ''if [ -f "${PASS_FILE}" ]; then'',
      ''  ADMIN_PASS=$(cat "${PASS_FILE}")'',
      ''else'',
      ''  ADMIN_PASS=""'',
      ''fi'',
      ''until mongosh --quiet --port '' @ intString port @ '' -u "${ADMIN_USER}" -p "${ADMIN_PASS}" --eval '' @
        [CHR 0x27] @ ''db.adminCommand({ping:1})'' @ [CHR 0x27] @ '' >/dev/null 2>&1; do'',
      ''  echo "[oplog-tailer] waiting for mongod..."'',
      ''  sleep 5'',
      ''done'',
      ''echo "[oplog-tailer] mongod ready, starting tail loop (batch='' @ intString oplogTailerBatchSeconds @ ''s)"'',
      ''while true; do'',
      ''  TS=$(date -u +%Y%m%dT%H%M%SZ)'',
      ''  OUT='' @ oplogStagingMount @ ''/oplog-${TS}.bson'',
      ''  mongodump --port '' @ intString port @ '' '' @ [CHR 0x5C],
      ''    -u "${ADMIN_USER}" -p "${ADMIN_PASS}" '' @ [CHR 0x5C],
      ''    --authenticationDatabase=admin '' @ [CHR 0x5C],
      ''    --db=local --collection=oplog.rs '' @ [CHR 0x5C],
      ''    --readPreference=secondary '' @ [CHR 0x5C],
      ''    --quiet --archive="${OUT}" || echo "[oplog-tailer] dump failed (will retry)"'',
      ''  sleep '' @ intString oplogTailerBatchSeconds,
      ''done'']\<close>

definition BuildOplogTailerSidecar :: "MongoDBVersion \<Rightarrow> int32 \<Rightarrow> bool \<Rightarrow> Container" where
  "BuildOplogTailerSidecar version mongodPort adminSecretMount =
     (let port = (if mongodPort \<le> 0 then mongoDBPort else mongodPort) in
      (container ''oplog-tailer'' (getMongoDBImage version))\<lparr>
        ct_Command := [''sh'', ''-c'', tailer_script port],
        ct_Resources := mkResources (milli 50) (mebi 64) (milli 200) (mebi 256),
        ct_VolumeMounts := [rw_mount oplogStagingVolume oplogStagingMount]
          @ (if adminSecretMount then [ro_mount ''admin-credentials'' ''/etc/mongodb-admin''] else []),
        ct_SecurityContext := DefaultContainerSecurityContext\<rparr>)"

definition BuildOplogStagingVolume :: Volume where
  "BuildOplogStagingVolume = \<lparr>vol_Name = oplogStagingVolume, vol_Source = EmptyDirVolume (Some (gibi 4))\<rparr>"

text \<open>The blocks for the oplog tailer and the audit forwarder: containers, volumes and mounts of the server.\<close>

definition tailer_containers :: "BackupSpec option \<Rightarrow> MongoDBVersion \<Rightarrow> int32 \<Rightarrow> string \<Rightarrow> Container list" where
  "tailer_containers backup version port adminSecret =
     (if IsOplogTailerEnabled backup then [BuildOplogTailerSidecar version port (adminSecret \<noteq> [])] else [])"

definition tailer_volumes :: "BackupSpec option \<Rightarrow> Volume list" where
  "tailer_volumes backup = (if IsOplogTailerEnabled backup then [BuildOplogStagingVolume] else [])"

definition tailer_mounts :: "BackupSpec option \<Rightarrow> VolumeMount list" where
  "tailer_mounts backup =
     (if IsOplogTailerEnabled backup then [rw_mount oplogStagingVolume oplogStagingMount] else [])"

definition buildAuditForwarderSidecar :: "AuditForwarderSpec \<Rightarrow> Container" where
  "buildAuditForwarderSidecar fwd = (container ''audit-forwarder'' ''fluent/fluent-bit:3.2'')\<lparr>
     ct_Command := [''/fluent-bit/bin/fluent-bit'', ''-c'', ''/fluent-bit/etc/fluent-bit.conf''],
     ct_Env := [env ''FORWARDER_TYPE'' (fwd_Type fwd), env ''FORWARDER_URL'' (fwd_URL fwd)],
     ct_VolumeMounts := [ro_mount ''audit-log'' ''/var/log/mongodb-audit''],
     ct_Resources := mkResources (milli 50) (mebi 64) (milli 200) (mebi 128),
     ct_SecurityContext := DefaultContainerSecurityContext\<rparr>"

definition active_forwarder :: "AuditLogSpec option \<Rightarrow> AuditForwarderSpec option" where
  "active_forwarder audit =
     (case audit of None \<Rightarrow> None | Some a \<Rightarrow> if aud_Enabled a then aud_CentralForwarder a else None)"

definition forwarder_containers :: "AuditLogSpec option \<Rightarrow> Container list" where
  "forwarder_containers audit = map buildAuditForwarderSidecar (case active_forwarder audit of None \<Rightarrow> [] | Some f \<Rightarrow> [f])"

definition forwarder_volumes :: "AuditLogSpec option \<Rightarrow> Volume list" where
  "forwarder_volumes audit =
     (if active_forwarder audit \<noteq> None then [\<lparr>vol_Name = ''audit-log'', vol_Source = EmptyDirVolume None\<rparr>] else [])"

definition forwarder_mounts :: "AuditLogSpec option \<Rightarrow> VolumeMount list" where
  "forwarder_mounts audit =
     (if active_forwarder audit \<noteq> None then [rw_mount ''audit-log'' ''/var/log/mongodb-audit''] else [])"

text \<open>The search sidecar.\<close>

definition mongotHealthPort :: int32 where "mongotHealthPort = 8080"
definition mongotBasePath :: string where "mongotBasePath = ''/var/lib/mongot''"
definition mongotConfigPath :: string where "mongotConfigPath = ''/etc/mongot/config''"
definition mongotSecretsPath :: string where "mongotSecretsPath = ''/etc/mongot/secrets''"
definition mongotSyncRawPath :: string where "mongotSyncRawPath = ''/tmp/mongot-sync''"
definition mongotBinary :: string where "mongotBinary = ''/mongot-community/mongot''"

definition MongotConfigMapName :: "string \<Rightarrow> string" where
  "MongotConfigMapName mdbName = mdbName @ ''-mongot-config''"

definition defaultMongotResources :: ResourceRequirements where
  "defaultMongotResources = mkResources (milli 50) (mebi 512) (unit_q 1) (gibi 6)"

definition mongot_volumes :: "string \<Rightarrow> string \<Rightarrow> Volume list" where
  "mongot_volumes mdbName syncSecretName =
     [\<lparr>vol_Name = ''mongot-config'', vol_Source = ConfigMapVolume (MongotConfigMapName mdbName) None\<rparr>,
      \<lparr>vol_Name = ''mongot-sync-raw'', vol_Source = SecretVolume syncSecretName (Some mode_0400)\<rparr>,
      \<lparr>vol_Name = ''mongot-secrets'', vol_Source = EmptyDirVolume None\<rparr>]"

definition mongot_init :: Container where
  "mongot_init = (container ''copy-mongot-password'' keyfileInitImage)\<lparr>
     ct_Command := [''sh'', ''-c'', ''cp '' @ mongotSyncRawPath @ ''/password '' @ mongotSecretsPath
       @ ''/passwordFile && chmod 0400 '' @ mongotSecretsPath @ ''/passwordFile''],
     ct_VolumeMounts := [ro_mount ''mongot-sync-raw'' mongotSyncRawPath, rw_mount ''mongot-secrets'' mongotSecretsPath],
     ct_SecurityContext := KeyfileInitSecurityContext\<rparr>"

definition mongot_container :: "string \<Rightarrow> Container" where
  "mongot_container img = (container ''mongot'' img)\<lparr>
     ct_Command := [mongotBinary, ''--config'', mongotConfigPath @ ''/config.yml''],
     ct_Ports := [\<lparr>cport_Name = ''mongot-grpc'', cport_ContainerPort = int mongotGRPCPort\<rparr>,
                  \<lparr>cport_Name = ''mongot-health'', cport_ContainerPort = mongotHealthPort\<rparr>],
     ct_SecurityContext := DefaultContainerSecurityContext,
     ct_Resources := defaultMongotResources,
     ct_VolumeMounts := [ro_mount ''mongot-config'' mongotConfigPath,
       \<lparr>vm_Name = ''data'', vm_MountPath = mongotBasePath, vm_ReadOnly = False, vm_SubPath = ''search-index''\<rparr>,
       ro_mount ''mongot-secrets'' mongotSecretsPath],
     ct_ReadinessProbe := Some (probe (TCPSocketAction (int mongotGRPCPort)) 15 10 None None)\<rparr>"

text \<open>The block for the search sidecar; without an image there is none.\<close>

definition search_containers :: "string \<Rightarrow> Container list" where
  "search_containers img = (if img \<noteq> [] then [mongot_container img] else [])"

definition search_inits :: "string \<Rightarrow> Container list" where
  "search_inits img = (if img \<noteq> [] then [mongot_init] else [])"

definition search_volumes :: "string \<Rightarrow> string \<Rightarrow> string \<Rightarrow> Volume list" where
  "search_volumes img mdbName syncSecretName = (if img \<noteq> [] then mongot_volumes mdbName syncSecretName else [])"

section \<open>Settings of the user\<close>

definition applyPodSpecExtensions :: "Container \<Rightarrow> PodSpec \<Rightarrow> Container" where
  "applyPodSpecExtensions c pod =
     (let c1 = c\<lparr>ct_VolumeMounts := ct_VolumeMounts c @ pod_ExtraVolumeMounts pod,
                 ct_Env := ct_Env c @ pod_ExtraEnvVars pod\<rparr>;
          c2 = (case pod_LifecycleHooks pod of
                  None \<Rightarrow> c1
                | Some h \<Rightarrow> (case lc_PreStop h of
                    None \<Rightarrow> c1
                  | Some p \<Rightarrow> c1\<lparr>ct_Lifecycle := Some ((case ct_Lifecycle c1 of
                        None \<Rightarrow> \<lparr>lc_PostStart = None, lc_PreStop = None\<rparr> | Some l \<Rightarrow> l)\<lparr>lc_PreStop := Some p\<rparr>)\<rparr>)) in
      if pod_InitScripts pod \<noteq> None
      then add_mounts [ro_mount ''init-scripts'' ''/docker-entrypoint-initdb.d''] c2 else c2)"

definition init_script_volumes :: "InitScriptsSpec option \<Rightarrow> Volume list" where
  "init_script_volumes scripts =
     (case scripts of None \<Rightarrow> []
      | Some i \<Rightarrow> (case is_ConfigMapRef i of
          Some n \<Rightarrow> [\<lparr>vol_Name = ''init-scripts'', vol_Source = ConfigMapVolume n (Some mode_0555)\<rparr>]
        | None \<Rightarrow> (case is_SecretRef i of
            Some n \<Rightarrow> [\<lparr>vol_Name = ''init-scripts'', vol_Source = SecretVolume n (Some mode_0555)\<rparr>]
          | None \<Rightarrow> [])))"

definition appendPodSpecPodLevel ::
    "Container list \<Rightarrow> Volume list \<Rightarrow> PodSpec option \<Rightarrow> Container list \<times> Volume list" where
  "appendPodSpecPodLevel containers volumes pod =
     (case pod of None \<Rightarrow> (containers, volumes)
      | Some p \<Rightarrow> (containers @ pod_Sidecars p,
                   volumes @ pod_ExtraVolumes p @ init_script_volumes (pod_InitScripts p)))"

definition buildVolumePermissionsInit :: "VolumePermissionsSpec \<Rightarrow> Container" where
  "buildVolumePermissionsInit spec =
     (container ''volume-permissions'' (if vp_Image spec = [] then keyfileInitImage else vp_Image spec))\<lparr>
       ct_Command := [''sh'', ''-c'', ''chown -R 999:999 /data/db 2>/dev/null || true; chmod -R 0755 /data/db''],
       ct_VolumeMounts := [rw_mount ''data'' ''/data/db''],
       ct_Resources := buildResourceRequirements (vp_Resources spec),
       ct_SecurityContext := KeyfileInitSecurityContext\<rparr>"

definition permission_init :: "PodSpec option \<Rightarrow> Container list" where
  "permission_init pod =
     (case pod of None \<Rightarrow> []
      | Some p \<Rightarrow> (case pod_VolumePermissions p of None \<Rightarrow> []
          | Some v \<Rightarrow> if vp_Enabled v then [buildVolumePermissionsInit v] else []))"

definition user_init :: "PodSpec option \<Rightarrow> Container list" where
  "user_init pod = (case pod of None \<Rightarrow> [] | Some p \<Rightarrow> pod_InitContainers p)"

definition applyDiagnosticMode :: "Container \<Rightarrow> Container" where
  "applyDiagnosticMode c = c\<lparr>ct_Command := [''sleep'', ''infinity''], ct_Args := [], ct_LivenessProbe := None,
     ct_ReadinessProbe := None, ct_StartupProbe := None, ct_Lifecycle := None\<rparr>"

text \<open>Diagnostic mode, extensions and preset on the container of the server.\<close>

definition apply_pod_spec :: "PodSpec option \<Rightarrow> ResourcesSpec \<Rightarrow> Container \<Rightarrow> Container" where
  "apply_pod_spec pod resources c =
     (case pod of None \<Rightarrow> c
      | Some p \<Rightarrow>
          let c1 = (case pod_DiagnosticMode p of None \<Rightarrow> c | Some d \<Rightarrow> if dm_Enabled d then applyDiagnosticMode c else c);
              c2 = applyPodSpecExtensions c1 p in
          if pod_ResourcesPreset p \<noteq> [] \<and> isResourcesEmpty resources
          then c2\<lparr>ct_Resources := ResourcePreset (pod_ResourcesPreset p)\<rparr> else c2)"

definition claim :: "StorageSpec \<Rightarrow> Quantity \<Rightarrow> ClaimTemplate" where
  "claim st dflt = \<lparr>ct_ClaimName = ''data'',
     ct_StorageClassName = (if st_StorageClassName st \<noteq> [] then Some (st_StorageClassName st) else None),
     ct_Storage = (if st_Size st = 0 then dflt else st_Size st)\<rparr>"

end
