(* ===== verification/Workloads.thy ===== *)
theory Workloads
  imports Pod_Templates
begin

text \<open>
  The four kinds of workload of \<^verbatim>\<open>internal/resources/builder.go\<close> with their services and script config
  maps, in the form in which the controllers apply them: for sharded clusters the controller
  appends the container that merges the certificate (\<^verbatim>\<open>mongodbsharded_controller.go\<close>). What is the
  same for all of them is left out: the TCP protocol of ports, the rolling update strategy, the
  parallel pod management and the access mode of claims.
\<close>

section \<open>Replica sets\<close>

abbreviation rs_admin :: "MongoDB \<Rightarrow> string" where
  "rs_admin mdb \<equiv> auth_AdminCredentialsSecretRef (mdb_Auth (Spec mdb))"

abbreviation rs_mongot :: "MongoDB \<Rightarrow> string" where
  "rs_mongot mdb \<equiv> map_get (om_Annotations (Meta mdb)) MongotSidecarImageAnnotation"

definition rs_volumes :: "tls_secret_mount \<Rightarrow> MongoDB \<Rightarrow> Volume list" where
  "rs_volumes tsm mdb =
     keyfile_volumes (Name mdb) @ [buildScriptsVolume (Name mdb @ ''-scripts'')]
     @ (if rs_admin mdb \<noteq> [] then [buildAdminCredentialsVolume (rs_admin mdb)] else [])
     @ tls_volumes tsm (Name mdb) (mdb_TLS (Spec mdb))
     @ search_volumes (rs_mongot mdb) (Name mdb) (map_get (om_Annotations (Meta mdb)) MongotSyncSecretAnnotation)
     @ tailer_volumes (mdb_Backup (Spec mdb)) @ forwarder_volumes (mdb_AuditLog (Spec mdb))"

definition rs_server_mounts :: "tls_secret_mount \<Rightarrow> MongoDB \<Rightarrow> VolumeMount list" where
  "rs_server_mounts tsm mdb =
     [rw_mount ''data'' (st_DataDirPath (mdb_Storage (Spec mdb))), keyfile_mount, buildScriptsMount]
     @ (if rs_admin mdb \<noteq> [] then [buildAdminCredentialsMount] else []) @ tls_mounts tsm (mdb_TLS (Spec mdb))"

definition rs_server :: "tls_secret_mount \<Rightarrow> MongoDB \<Rightarrow> Container" where
  "rs_server tsm mdb = (container ''mongodb''
       (getMongoDBImage (effectiveMongoDBVersion (mdb_Version (Spec mdb)) (s_EffectiveVersion (Status mdb)))))\<lparr>
     ct_Ports := [\<lparr>cport_Name = ''mongodb'', cport_ContainerPort = mongoDBPort\<rparr>],
     ct_Args := replicaset_args mdb,
     ct_VolumeMounts := rs_server_mounts tsm mdb,
     ct_Resources := buildResourceRequirements (mdb_Resources (Spec mdb)),
     ct_SecurityContext := DefaultContainerSecurityContext,
     ct_LivenessProbe := Some (liveness 0),
     ct_ReadinessProbe := Some (readiness [''/scripts/readiness-probe.sh''] 5),
     ct_Lifecycle := Some buildAdminBootstrapLifecycle,
     ct_Env := [\<lparr>env_Name = ''POD_NAME'', env_Source = EnvFieldRef ''metadata.name''\<rparr>,
                \<lparr>env_Name = ''POD_NAMESPACE'', env_Source = EnvFieldRef ''metadata.namespace''\<rparr>]
       @ buildBootstrapEnv (Name mdb) (Name mdb @ ''-headless'') (Namespace mdb) (mdb_ReplicaSetName (Spec mdb))
           (mdb_Members (Spec mdb)) mongoDBPort False\<rparr>"

definition rs_init_containers :: "MongoDB \<Rightarrow> Container list" where
  "rs_init_containers mdb =
     [copy_keyfile] @ pem_init (mdb_TLS (Spec mdb)) @ permission_init (mdb_Pod (Spec mdb)) @ user_init (mdb_Pod (Spec mdb))
     @ search_inits (rs_mongot mdb)"

definition rs_exporter :: "MongoDB \<Rightarrow> Container list" where
  "rs_exporter mdb =
     (case mdb_Monitoring (Spec mdb) of None \<Rightarrow> []
      | Some mon \<Rightarrow> if \<not> mon_Enabled mon then [] else
          [(exporter_container (case mon_Exporter mon of None \<Rightarrow> exporterImage
              | Some e \<Rightarrow> if exp_Image e \<noteq> [] then exp_Image e else exporterImage) (Name mdb))\<lparr>
             ct_Resources := mkResources (milli 50) (mebi 64) (milli 200) (mebi 256)\<rparr>])"

definition BuildReplicaSetStatefulSet :: "tls_secret_mount \<Rightarrow> MongoDB \<Rightarrow> Workload" where
  "BuildReplicaSetStatefulSet tsm mdb =
     (let sp = Spec mdb; labels = buildLabels (Name mdb) ''replicaset'';
          server = add_mounts (tailer_mounts (mdb_Backup sp) @ forwarder_mounts (mdb_AuditLog sp))
            (apply_pod_spec (mdb_Pod sp) (mdb_Resources sp) (rs_server tsm mdb));
          containers = [server] @ rs_exporter mdb
            @ tailer_containers (mdb_Backup sp) (mdb_Version sp) mongoDBPort (rs_admin mdb)
            @ forwarder_containers (mdb_AuditLog sp)
            @ search_containers (rs_mongot mdb);
          (containers', volumes') = appendPodSpecPodLevel containers (rs_volumes tsm mdb) (mdb_Pod sp) in
      \<lparr>wl_Name = Name mdb, wl_Namespace = Namespace mdb, wl_Labels = labels, wl_ServiceName = Name mdb @ ''-headless'',
       wl_Replicas = mdb_Members sp, wl_Selector = labels,
       wl_Template = \<lparr>pt_Labels = \<lparr>pl_Set = labels, pl_Extra = []\<rparr>,
         pt_Annotations = [(''prometheus.io/scrape'', ''true''), (''prometheus.io/port'', show_int metricsPort)],
         pt_SecurityContext = (case mdb_Pod sp of None \<Rightarrow> DefaultPodSecurityContext
           | Some p \<Rightarrow> (case pod_SecurityContext p of None \<Rightarrow> DefaultPodSecurityContext | Some c \<Rightarrow> GivenPodSecurityContext c)),
         pt_InitContainers = rs_init_containers mdb, pt_Containers = containers', pt_Volumes = volumes',
         pt_AntiAffinity = Name mdb, pt_TopologySpread = Some (mdb_Members sp, labels)\<rparr>,
       wl_Claims = [claim (mdb_Storage sp) (gibi 10)],
       wl_RetentionPolicy = st_PersistentVolumeClaimRetentionPolicy (mdb_Storage sp)\<rparr>)"

section \<open>Config servers and shards\<close>

abbreviation sh_admin :: "MongoDBSharded \<Rightarrow> string" where
  "sh_admin m \<equiv> auth_AdminCredentialsSecretRef (shd_Auth (ShSpec m))"

abbreviation sh_mongot :: "MongoDBSharded \<Rightarrow> string" where
  "sh_mongot m \<equiv> map_get (om_Annotations (ShMeta m)) MongotSidecarImageAnnotation"

definition sharded_image :: "MongoDBSharded \<Rightarrow> string" where
  "sharded_image m = getMongoDBImage (effectiveMongoDBVersion (shd_Version (ShSpec m)) (ss_EffectiveVersion (ShStatus m)))"

text \<open>The volumes and mounts that config servers and shards have in common.\<close>

definition member_volumes :: "tls_secret_mount \<Rightarrow> MongoDBSharded \<Rightarrow> string \<Rightarrow> Volume list" where
  "member_volumes tsm m scripts =
     keyfile_volumes (ShName m)
     @ (if sh_admin m \<noteq> [] then [buildScriptsVolume scripts, buildAdminCredentialsVolume (sh_admin m)] else [])
     @ tls_volumes tsm (ShName m) (shd_TLS (ShSpec m))"

definition member_mounts :: "tls_secret_mount \<Rightarrow> MongoDBSharded \<Rightarrow> string \<Rightarrow> VolumeMount list" where
  "member_mounts tsm m dataPath =
     [rw_mount ''data'' dataPath, keyfile_mount]
     @ (if sh_admin m \<noteq> [] then [buildScriptsMount, buildAdminCredentialsMount] else []) @ tls_mounts tsm (shd_TLS (ShSpec m))"

definition member_server ::
    "tls_secret_mount \<Rightarrow> MongoDBSharded \<Rightarrow> string \<Rightarrow> string list \<Rightarrow> ResourcesSpec \<Rightarrow> string \<Rightarrow> int32 \<Rightarrow> int \<Rightarrow> bool \<Rightarrow> Container" where
  "member_server tsm m dataPath args resources name members port configsvr = (container ''mongodb'' (sharded_image m))\<lparr>
     ct_Ports := [\<lparr>cport_Name = ''mongodb'', cport_ContainerPort = mongoDBPort\<rparr>],
     ct_Args := args,
     ct_Resources := buildResourceRequirements resources,
     ct_SecurityContext := DefaultContainerSecurityContext,
     ct_VolumeMounts := member_mounts tsm m dataPath,
     ct_Lifecycle := (if sh_admin m \<noteq> [] then Some buildAdminBootstrapLifecycle else None),
     ct_LivenessProbe := Some (liveness port),
     ct_ReadinessProbe := Some (readiness (mongoshPing port) 10),
     ct_Env := buildBootstrapEnv name (name @ ''-headless'') (om_Namespace (ShMeta m)) name members port configsvr\<rparr>"

definition sharded_template ::
    "MongoDBSharded \<Rightarrow> PodLabels \<Rightarrow> Container list \<Rightarrow> Container list \<times> Volume list \<Rightarrow> PodTemplate" where
  "sharded_template m labels inits cv =
     \<lparr>pt_Labels = labels, pt_Annotations = [], pt_SecurityContext = DefaultPodSecurityContext,
      pt_InitContainers = inits, pt_Containers = fst cv, pt_Volumes = snd cv, pt_AntiAffinity = ShName m,
      pt_TopologySpread = None\<rparr>"

definition BuildConfigServerStatefulSet :: "tls_secret_mount \<Rightarrow> MongoDBSharded \<Rightarrow> Workload" where
  "BuildConfigServerStatefulSet tsm m =
     (let sp = ShSpec m; cs = shd_ConfigServer sp; labels = buildLabels (ShName m) ''configsvr''; name = ShName m @ ''-cfg'';
          server = apply_pod_spec (cs_Pod cs) (cs_Resources cs)
            (add_mounts (tailer_mounts (shd_Backup sp) @ forwarder_mounts (shd_AuditLog sp))
              (member_server tsm m ''/data/configdb'' (configserver_args m) (cs_Resources cs) name (cs_Members cs) 27019 True));
          containers = [server] @ tailer_containers (shd_Backup sp) (shd_Version sp) 27019 (sh_admin m)
            @ forwarder_containers (shd_AuditLog sp);
          volumes = member_volumes tsm m (ShName m @ ''-cfg-scripts'') @ tailer_volumes (shd_Backup sp)
            @ forwarder_volumes (shd_AuditLog sp);
          inits = [copy_keyfile] @ permission_init (cs_Pod cs) @ user_init (cs_Pod cs) in
      \<lparr>wl_Name = name, wl_Namespace = om_Namespace (ShMeta m), wl_Labels = labels, wl_ServiceName = name @ ''-headless'',
       wl_Replicas = cs_Members cs, wl_Selector = labels,
       wl_Template = sharded_template m \<lparr>pl_Set = labels, pl_Extra = []\<rparr> inits (appendPodSpecPodLevel containers volumes (cs_Pod cs)),
       wl_Claims = [claim (cs_Storage cs) (gibi 10)],
       wl_RetentionPolicy = st_PersistentVolumeClaimRetentionPolicy (cs_Storage cs)\<rparr>)"

definition MongotPodLabel :: string where "MongotPodLabel = ''search.mongodb.keiailab.com/mongot''"
definition MongotPodLabelValue :: string where "MongotPodLabelValue = ''true''"

definition BuildShardStatefulSet :: "tls_secret_mount \<Rightarrow> MongoDBSharded \<Rightarrow> nat \<Rightarrow> Workload" where
  "BuildShardStatefulSet tsm m i =
     (let sp = ShSpec m; sh = shd_Shards sp; labels = buildLabels (ShName m) (shard_component i);
          name = ShName m @ ''-'' @ shard_component i; mongot = sh_mongot m;
          server = apply_pod_spec (sh_Pod sh) (sh_Resources sh)
            (add_mounts (tailer_mounts (shd_Backup sp) @ forwarder_mounts (shd_AuditLog sp))
              (member_server tsm m ''/data/db'' (shard_args m i) (sh_Resources sh) name (sh_MembersPerShard sh) 27018 False));
          containers = [server] @ search_containers mongot
            @ tailer_containers (shd_Backup sp) (shd_Version sp) 27018 (sh_admin m) @ forwarder_containers (shd_AuditLog sp);
          volumes = member_volumes tsm m (name @ ''-scripts'')
            @ search_volumes mongot name (map_get (om_Annotations (ShMeta m)) MongotSyncSecretAnnotation)
            @ tailer_volumes (shd_Backup sp) @ forwarder_volumes (shd_AuditLog sp);
          inits = [copy_keyfile] @ search_inits mongot
            @ permission_init (sh_Pod sh) @ user_init (sh_Pod sh) in
      \<lparr>wl_Name = name, wl_Namespace = om_Namespace (ShMeta m), wl_Labels = labels, wl_ServiceName = name @ ''-headless'',
       wl_Replicas = sh_MembersPerShard sh, wl_Selector = labels,
       wl_Template = sharded_template m
         \<lparr>pl_Set = labels, pl_Extra = (if mongot \<noteq> [] then [(MongotPodLabel, MongotPodLabelValue)] else [])\<rparr>
         inits (appendPodSpecPodLevel containers volumes (sh_Pod sh)),
       wl_Claims = [claim (sh_Storage sh) (gibi 50)],
       wl_RetentionPolicy = st_PersistentVolumeClaimRetentionPolicy (sh_Storage sh)\<rparr>)"

section \<open>Routers\<close>

definition buildMongosVolumes :: "tls_secret_mount \<Rightarrow> MongoDBSharded \<Rightarrow> Volume list" where
  "buildMongosVolumes tsm m =
     keyfile_volumes (ShName m)
     @ (if sh_admin m \<noteq> [] then [buildScriptsVolume (ShName m @ ''-mongos-config''), buildAdminCredentialsVolume (sh_admin m)] else [])
     @ tls_volumes tsm (ShName m) (shd_TLS (ShSpec m))"

definition mongos_server :: "tls_secret_mount \<Rightarrow> MongoDBSharded \<Rightarrow> Container" where
  "mongos_server tsm m = (container ''mongos'' (sharded_image m))\<lparr>
     ct_Command := [''mongos''],
     ct_Args := mongos_args m,
     ct_Ports := [\<lparr>cport_Name = ''mongodb'', cport_ContainerPort = mongoDBPort\<rparr>],
     ct_Resources := buildResourceRequirements (ms_Resources (shd_Mongos (ShSpec m))),
     ct_SecurityContext := DefaultContainerSecurityContext,
     ct_VolumeMounts := [keyfile_mount] @ tls_mounts tsm (shd_TLS (ShSpec m))
       @ (if sh_admin m \<noteq> [] then [buildScriptsMount, buildAdminCredentialsMount] else []),
     ct_Lifecycle := (if sh_admin m \<noteq> [] then
       Some \<lparr>lc_PostStart = Some (ExecAction [''/scripts/bootstrap-admin.sh'']), lc_PreStop = None\<rparr> else None),
     ct_StartupProbe := Some (probe (TCPSocketAction mongoDBPort) 5 10 None (Some 60)),
     ct_LivenessProbe := Some (probe (TCPSocketAction mongoDBPort) 30 10 None None),
     ct_ReadinessProbe := Some (probe (ExecAction (mongoshPing 0)) 10 10 (Some 10) (Some 6))\<rparr>"

definition mongos_exporter :: "MongoDBSharded \<Rightarrow> Container list" where
  "mongos_exporter m =
     (case shd_Monitoring (ShSpec m) of None \<Rightarrow> []
      | Some mon \<Rightarrow> if \<not> mon_Enabled mon then [] else
          [(exporter_container exporterImage (ShName m))\<lparr>
             ct_Resources := \<lparr>rr_Requests = [(''cpu'', milli 50), (''memory'', mebi 64)], rr_Limits = []\<rparr>,
             ct_SecurityContext := DefaultContainerSecurityContext\<rparr>])"

text \<open>The audit forwarder is added after the settings of the user.\<close>

definition BuildMongosDeployment :: "tls_secret_mount \<Rightarrow> MongoDBSharded \<Rightarrow> Workload" where
  "BuildMongosDeployment tsm m =
     (let sp = ShSpec m; ms = shd_Mongos sp; labels = buildLabels (ShName m) ''mongos'';
          server = add_mounts (forwarder_mounts (shd_AuditLog sp))
            (apply_pod_spec (ms_Pod ms) (ms_Resources ms) (mongos_server tsm m));
          (containers, volumes) = appendPodSpecPodLevel ([server] @ mongos_exporter m) (buildMongosVolumes tsm m) (ms_Pod ms) in
      \<lparr>wl_Name = ShName m @ ''-mongos'', wl_Namespace = om_Namespace (ShMeta m), wl_Labels = labels, wl_ServiceName = [],
       wl_Replicas = ms_Replicas ms, wl_Selector = labels,
       wl_Template = sharded_template m \<lparr>pl_Set = labels, pl_Extra = []\<rparr> [copy_keyfile]
         (containers @ forwarder_containers (shd_AuditLog sp), volumes @ forwarder_volumes (shd_AuditLog sp)),
       wl_Claims = [], wl_RetentionPolicy = None\<rparr>)"

definition BuildMongosStatefulSet :: "tls_secret_mount \<Rightarrow> MongoDBSharded \<Rightarrow> Workload" where
  "BuildMongosStatefulSet tsm m =
     (BuildMongosDeployment tsm m)\<lparr>wl_ServiceName := ShName m @ ''-mongos-headless''\<rparr>"

text \<open>The step of the sharded controller between building and applying.\<close>

definition with_pem_merge :: "MongoDBSharded \<Rightarrow> Workload \<Rightarrow> Workload" where
  "with_pem_merge m w = w\<lparr>wl_Template := (wl_Template w)\<lparr>
     pt_InitContainers := pt_InitContainers (wl_Template w) @ pem_init (shd_TLS (ShSpec m))\<rparr>\<rparr>"

definition sharded_workloads :: "tls_secret_mount \<Rightarrow> MongoDBSharded \<Rightarrow> Workload list" where
  "sharded_workloads tsm m = map (with_pem_merge m)
     ([BuildConfigServerStatefulSet tsm m] @ map (BuildShardStatefulSet tsm m) [0..<nat (sh_Count (shd_Shards (ShSpec m)))]
      @ [BuildMongosDeployment tsm m])"

section \<open>Queryable backups\<close>

definition defaultImage :: string where "defaultImage = ''mongo:9.0.2''"

definition BuildQueryableStatefulSet :: "MongoDBBackup \<Rightarrow> QueryableBackupSpec option \<Rightarrow> Workload option" where
  "BuildQueryableStatefulSet backup spec =
     (case spec of None \<Rightarrow> None
      | Some q \<Rightarrow> if \<not> qb_Enabled q then None else
          let name = om_Name (BkMeta backup) @ ''-queryable''; labels = buildLabels name ''queryable-backup'';
              mongod = (container ''mongod'' defaultImage)\<lparr>
                ct_Args := [''--bind_ip_all'', ''--noauth'', ''--dbpath'', ''/data/db''],
                ct_Ports := [\<lparr>cport_Name = ''mongodb'', cport_ContainerPort = 27017\<rparr>],
                ct_VolumeMounts := [rw_mount ''data'' ''/data/db''],
                ct_Resources := \<lparr>rr_Requests = [(''cpu'', milli 250), (''memory'', mebi 256)], rr_Limits = []\<rparr>,
                ct_SecurityContext := DefaultContainerSecurityContext\<rparr> in
          Some \<lparr>wl_Name = name, wl_Namespace = om_Namespace (BkMeta backup), wl_Labels = labels, wl_ServiceName = [],
            wl_Replicas = 1, wl_Selector = labels,
            wl_Template = \<lparr>pt_Labels = \<lparr>pl_Set = labels, pl_Extra = []\<rparr>, pt_Annotations = [],
              pt_SecurityContext = DefaultPodSecurityContext, pt_InitContainers = [], pt_Containers = [mongod],
              pt_Volumes = [], pt_AntiAffinity = [], pt_TopologySpread = None\<rparr>,
            wl_Claims = [\<lparr>ct_ClaimName = ''data'', ct_StorageClassName = None, ct_Storage = gibi 5\<rparr>],
            wl_RetentionPolicy = None\<rparr>)"

section \<open>Services and script config maps\<close>

record ServicePort =
  sp_Name :: string
  sp_Port :: int32

text \<open>A selector is a label set with further pairs; \<open>None\<close> selects by the pairs only.\<close>

record Service =
  svc_Name :: string
  svc_Namespace :: string
  svc_Labels :: LabelSet
  svc_Annotations :: string_map
  svc_Headless :: bool
  svc_Type :: string
  svc_Selector :: "LabelSet option \<times> string_map"
  svc_Ports :: "ServicePort list"
  svc_LoadBalancerIP :: string

definition service :: "string \<Rightarrow> string \<Rightarrow> LabelSet \<Rightarrow> LabelSet \<Rightarrow> bool \<Rightarrow> ServicePort list \<Rightarrow> Service" where
  "service name ns labels selector headless ports =
     \<lparr>svc_Name = name, svc_Namespace = ns, svc_Labels = labels, svc_Annotations = [], svc_Headless = headless,
      svc_Type = ''ClusterIP'', svc_Selector = (Some selector, []), svc_Ports = ports, svc_LoadBalancerIP = []\<rparr>"

definition mongodb_port :: ServicePort where "mongodb_port = \<lparr>sp_Name = ''mongodb'', sp_Port = mongoDBPort\<rparr>"
definition metrics_port :: ServicePort where "metrics_port = \<lparr>sp_Name = ''metrics'', sp_Port = metricsPort\<rparr>"

definition BuildHeadlessService :: "MongoDB \<Rightarrow> Service" where
  "BuildHeadlessService mdb = service (Name mdb @ ''-headless'') (Namespace mdb) (buildLabels (Name mdb) ''headless'')
     (buildLabels (Name mdb) ''replicaset'') True [mongodb_port]"

definition BuildClientService :: "MongoDB \<Rightarrow> Service" where
  "BuildClientService mdb = service (Name mdb) (Namespace mdb) (buildLabels (Name mdb) ''client'')
     (buildLabels (Name mdb) ''replicaset'') False [mongodb_port, metrics_port]"

definition BuildConfigServerService :: "MongoDBSharded \<Rightarrow> Service" where
  "BuildConfigServerService m = (let labels = buildLabels (ShName m) ''configsvr'' in
     service (ShName m @ ''-cfg-headless'') (om_Namespace (ShMeta m)) labels labels True [mongodb_port])"

definition BuildShardService :: "MongoDBSharded \<Rightarrow> nat \<Rightarrow> Service" where
  "BuildShardService m i = (let labels = buildLabels (ShName m) (shard_component i) in
     service (ShName m @ ''-'' @ shard_component i @ ''-headless'') (om_Namespace (ShMeta m)) labels labels True [mongodb_port])"

definition BuildMongosService :: "MongoDBSharded \<Rightarrow> Service" where
  "BuildMongosService m =
     (let labels = buildLabels (ShName m) ''mongos'';
          svc = service (ShName m @ ''-mongos'') (om_Namespace (ShMeta m)) labels labels False [mongodb_port, metrics_port] in
      case ms_Service (shd_Mongos (ShSpec m)) of None \<Rightarrow> svc
      | Some s \<Rightarrow> svc\<lparr>svc_Type := defaultStr (msvc_Type s) ''ClusterIP'', svc_Annotations := msvc_Annotations s,
          svc_LoadBalancerIP := msvc_LoadBalancerIP s\<rparr>)"

definition BuildMongosPerReplicaServices :: "MongoDBSharded \<Rightarrow> Service list" where
  "BuildMongosPerReplicaServices m =
     (case ms_Service (shd_Mongos (ShSpec m)) of None \<Rightarrow> []
      | Some s \<Rightarrow> (case msvc_ServicePerReplica s of None \<Rightarrow> []
        | Some r \<Rightarrow> if \<not> spr_Enabled r then [] else
            let replicas = (if ms_Replicas (shd_Mongos (ShSpec m)) > 0 then ms_Replicas (shd_Mongos (ShSpec m)) else 2) in
            map (\<lambda>i. let podName = ShName m @ ''-mongos-'' @ show_nat i in
                (service podName (om_Namespace (ShMeta m)) (buildLabels (ShName m) ''mongos'')
                   (buildLabels (ShName m) ''mongos'') False [mongodb_port])\<lparr>
                  svc_Type := defaultStr (spr_Type r) ''ClusterIP'',
                  svc_Selector := (None, [(''statefulset.kubernetes.io/pod-name'', podName)]),
                  svc_Annotations := spr_Annotations r\<rparr>) [0..<nat replicas]))"

definition DefaultMongotRouterShard :: string where "DefaultMongotRouterShard = ''shard-0''"

definition MongotRouterShard :: "MongoDBSharded \<Rightarrow> string" where
  "MongotRouterShard m = defaultStr (map_get (om_Annotations (ShMeta m)) MongotRouterShardAnnotation) DefaultMongotRouterShard"

definition BuildMongotService :: "MongoDBSharded \<Rightarrow> Service option" where
  "BuildMongotService m =
     (if sh_mongot m = [] then None
      else Some ((service (MongotServiceName (ShName m)) (om_Namespace (ShMeta m)) (buildLabels (ShName m) ''mongot'')
        (buildLabels (ShName m) ''mongot'') False [\<lparr>sp_Name = ''mongot-grpc'', sp_Port = int mongotGRPCPort\<rparr>])\<lparr>
          svc_Selector := (Some (buildLabels (ShName m) (MongotRouterShard m)), [(MongotPodLabel, MongotPodLabelValue)])\<rparr>))"

text \<open>A config map with scripts: its name and the names of its files; the texts come from templates.\<close>

record ScriptMap =
  scm_Name :: string
  scm_Files :: "string list"

definition member_scripts :: "string list" where
  "member_scripts = [''readiness-probe.sh'', ''bootstrap-admin.sh'', ''prestop-stepdown.sh'']"

definition BuildMongoDBConfigMap :: "MongoDB \<Rightarrow> ScriptMap" where
  "BuildMongoDBConfigMap mdb = \<lparr>scm_Name = Name mdb @ ''-scripts'', scm_Files = member_scripts\<rparr>"

definition BuildConfigServerScriptsConfigMap :: "MongoDBSharded \<Rightarrow> ScriptMap" where
  "BuildConfigServerScriptsConfigMap m = \<lparr>scm_Name = ShName m @ ''-cfg-scripts'', scm_Files = member_scripts\<rparr>"

definition BuildShardScriptsConfigMap :: "MongoDBSharded \<Rightarrow> nat \<Rightarrow> ScriptMap" where
  "BuildShardScriptsConfigMap m i = \<lparr>scm_Name = ShName m @ ''-'' @ shard_component i @ ''-scripts'', scm_Files = member_scripts\<rparr>"

definition BuildMongosConfigMap :: "MongoDBSharded \<Rightarrow> ScriptMap" where
  "BuildMongosConfigMap m = \<lparr>scm_Name = ShName m @ ''-mongos-config'', scm_Files = [''configdb'', ''bootstrap-admin.sh'']\<rparr>"

end
