(* ===== verification/Pod_Laws.thy ===== *)
theory Pod_Laws
  imports Workloads Upgrade "HOL-Library.Sublist"
begin

text \<open>
  What holds of the workloads that are deployed: every mount has its volume, every script that a
  probe or a hook runs is mounted, the pods of a cluster under upgrade do not change before the
  upgrade machine says so, services select the pods they stand for, and which files named on a
  command line are there.
\<close>

section \<open>Mounts and volumes\<close>

text \<open>\<^verbatim>\<open>TLSSecretMount(name, secret, path)\<close> names the volume and the mount and mounts it at the path.\<close>

definition mounts_as_documented :: "tls_secret_mount \<Rightarrow> bool" where
  "mounts_as_documented tsm \<longleftrightarrow> (\<forall>n s p. vol_Name (fst (tsm n s p)) = n \<and> vm_Name (snd (tsm n s p)) = n
     \<and> vm_MountPath (snd (tsm n s p)) = p)"

definition mount_names :: "Container \<Rightarrow> string set" where
  "mount_names c = vm_Name ` set (ct_VolumeMounts c)"

definition volume_names :: "Workload \<Rightarrow> string list" where
  "volume_names w = map vol_Name (pt_Volumes (wl_Template w)) @ map ct_ClaimName (wl_Claims w)"

definition closed_workload :: "Workload \<Rightarrow> bool" where
  "closed_workload w \<longleftrightarrow> (\<forall>c \<in> set (pt_InitContainers (wl_Template w) @ pt_Containers (wl_Template w)).
     mount_names c \<subseteq> set (volume_names w))"

text \<open>
  The settings of the user are closed when its mounts name its own volumes or those every pod has,
  and its init scripts name a source.
\<close>

definition user_closed :: "string list \<Rightarrow> PodSpec option \<Rightarrow> bool" where
  "user_closed base pod =
     (case pod of None \<Rightarrow> True
      | Some p \<Rightarrow> (\<forall>v \<in> set (pod_ExtraVolumeMounts p @ concat (map ct_VolumeMounts (pod_Sidecars p @ pod_InitContainers p))).
            vm_Name v \<in> set base \<union> vol_Name ` set (pod_ExtraVolumes p))
          \<and> (\<forall>i. pod_InitScripts p = Some i \<longrightarrow> is_ConfigMapRef i \<noteq> None \<or> is_SecretRef i \<noteq> None))"

definition base_volumes :: "string list" where "base_volumes = [''keyfile-secret'', ''keyfile'']"

lemmas container_defs = container_def copy_keyfile_def BuildPEMMergeInitContainer_def buildVolumePermissionsInit_def
  exporter_container_def BuildOplogTailerSidecar_def buildAuditForwarderSidecar_def mongot_container_def mongot_init_def Let_def

lemmas mount_defs = rw_mount_def ro_mount_def keyfile_mount_def buildScriptsMount_def buildAdminCredentialsMount_def
  buildTLSPEMMount_def

lemmas volume_defs = keyfile_volumes_def buildScriptsVolume_def buildAdminCredentialsVolume_def buildTLSPEMVolume_def
  BuildOplogStagingVolume_def mongot_volumes_def

text \<open>What the blocks of a pod mount and what they bring; an optional block brings a set under a condition.\<close>

definition cond_set :: "bool \<Rightarrow> 'a set \<Rightarrow> 'a set" where
  "cond_set b A = (if b then A else {})"

definition tls_names :: "TLSSpec option \<Rightarrow> string set" where
  "tls_names tls = cond_set (tls_enabled tls) {tlsServerVolume, tlsServerPEMVolume}"

definition tailer_names :: "BackupSpec option \<Rightarrow> string set" where
  "tailer_names b = cond_set (IsOplogTailerEnabled b) {oplogStagingVolume}"

definition audit_names :: "AuditLogSpec option \<Rightarrow> string set" where
  "audit_names a = cond_set (active_forwarder a \<noteq> None) {''audit-log''}"

definition mongot_names :: "string \<Rightarrow> string set" where
  "mongot_names img = cond_set (img \<noteq> []) {''mongot-config'', ''mongot-sync-raw'', ''mongot-secrets''}"

lemma mount_names_init [simp]:
  "mount_names copy_keyfile = {''keyfile-secret'', ''keyfile''}"
  "mount_names BuildPEMMergeInitContainer = {tlsServerVolume, tlsServerPEMVolume}"
  "mount_names (buildVolumePermissionsInit v) = {''data''}"
  "mount_names mongot_init = {''mongot-sync-raw'', ''mongot-secrets''}"
  by (auto simp: mount_names_def container_defs mount_defs)

lemma mount_names_sidecars [simp]:
  "mount_names (exporter_container img n\<lparr>ct_Resources := r\<rparr>) = {}"
  "mount_names (exporter_container img n\<lparr>ct_Resources := r, ct_SecurityContext := s\<rparr>) = {}"
  "mount_names (BuildOplogTailerSidecar v p a) = {oplogStagingVolume} \<union> (if a then {''admin-credentials''} else {})"
  "mount_names (buildAuditForwarderSidecar f) = {''audit-log''}"
  "mount_names (mongot_container img) = {''mongot-config'', ''data'', ''mongot-secrets''}"
  by (auto simp: mount_names_def container_defs mount_defs)

lemma mount_names_add [simp]: "mount_names (add_mounts ms c) = mount_names c \<union> vm_Name ` set ms"
  by (auto simp: mount_names_def add_mounts_def)

lemma mount_names_diagnostic [simp]: "mount_names (applyDiagnosticMode c) = mount_names c"
  by (simp add: mount_names_def applyDiagnosticMode_def)

lemma mount_names_extensions [simp]:
  "mount_names (applyPodSpecExtensions c p) = mount_names c \<union> vm_Name ` set (pod_ExtraVolumeMounts p)
     \<union> (if pod_InitScripts p \<noteq> None then {''init-scripts''} else {})"
  by (auto simp: mount_names_def applyPodSpecExtensions_def Let_def add_mounts_def ro_mount_def split: option.splits)

text \<open>The part of the user.\<close>

definition user_mount_names :: "PodSpec option \<Rightarrow> string set" where
  "user_mount_names pod = (case pod of None \<Rightarrow> {} | Some p \<Rightarrow> vm_Name ` set (pod_ExtraVolumeMounts p)
     \<union> (if pod_InitScripts p \<noteq> None then {''init-scripts''} else {}))"

definition user_volume_names :: "PodSpec option \<Rightarrow> string set" where
  "user_volume_names pod = (case pod of None \<Rightarrow> {}
     | Some p \<Rightarrow> vol_Name ` set (pod_ExtraVolumes p @ init_script_volumes (pod_InitScripts p)))"

definition user_sidecars :: "PodSpec option \<Rightarrow> Container list" where
  "user_sidecars pod = (case pod of None \<Rightarrow> [] | Some p \<Rightarrow> pod_Sidecars p)"

lemma mount_names_pod_spec [simp]: "mount_names (apply_pod_spec pod r c) = mount_names c \<union> user_mount_names pod"
  by (cases pod) (auto simp: apply_pod_spec_def Let_def mount_names_def [of "_\<lparr>ct_Resources := _\<rparr>"]
      mount_names_def [symmetric] user_mount_names_def split: option.splits)

lemma level_sets [simp]:
  "fst (appendPodSpecPodLevel cs vs pod) = cs @ user_sidecars pod"
  "vol_Name ` set (snd (appendPodSpecPodLevel cs vs pod)) = vol_Name ` set vs \<union> user_volume_names pod"
  by (auto simp: appendPodSpecPodLevel_def user_sidecars_def user_volume_names_def split: option.splits)

lemma user_parts:
  assumes "user_closed base pod"
  shows "user_mount_names pod \<subseteq> set base \<union> user_volume_names pod"
    "(\<Union>c \<in> set (user_sidecars pod). mount_names c) \<subseteq> set base \<union> user_volume_names pod"
    "(\<Union>c \<in> set (user_init pod). mount_names c) \<subseteq> set base \<union> user_volume_names pod"
proof -
  have given: "vm_Name v \<in> set base \<union> user_volume_names pod" if p: "pod = Some p"
      and v: "v \<in> set (pod_ExtraVolumeMounts p @ concat (map ct_VolumeMounts (pod_Sidecars p @ pod_InitContainers p)))" for p v
  proof -
    from assms p v have "vm_Name v \<in> set base \<union> vol_Name ` set (pod_ExtraVolumes p)"
      by (simp only: user_closed_def option.case)
    then show ?thesis using p by (auto simp: user_volume_names_def)
  qed
  have "''init-scripts'' \<in> user_volume_names pod" if p: "pod = Some p" and ne: "pod_InitScripts p \<noteq> None" for p
  proof -
    obtain i where i: "pod_InitScripts p = Some i" using ne by auto
    show ?thesis using assms p i
      by (cases "is_ConfigMapRef i"; cases "is_SecretRef i") (auto simp: user_closed_def user_volume_names_def init_script_volumes_def)
  qed
  then show "user_mount_names pod \<subseteq> set base \<union> user_volume_names pod"
    using given by (auto simp: user_mount_names_def split: option.split if_splits)
  show "(\<Union>c \<in> set (user_sidecars pod). mount_names c) \<subseteq> set base \<union> user_volume_names pod"
    "(\<Union>c \<in> set (user_init pod). mount_names c) \<subseteq> set base \<union> user_volume_names pod"
    using given by (auto simp: user_sidecars_def user_init_def mount_names_def split: option.splits)
qed

text \<open>The volumes and mounts of the operator, by name.\<close>

lemma tls_block:
  assumes "mounts_as_documented tsm"
  shows "vol_Name ` set (tls_volumes tsm n tls) = tls_names tls" "vm_Name ` set (tls_mounts tsm tls) = tls_names tls"
  using assms by (cases "tls_enabled tls"; simp add: tls_volumes_def tls_mounts_def buildTLSServerVolume_def tls_names_def
      cond_set_def buildTLSServerMount_def buildTLSPEMVolume_def buildTLSPEMMount_def ro_mount_def mounts_as_documented_def)+

lemma block_names [simp]:
  "vol_Name ` set (keyfile_volumes n) = {''keyfile-secret'', ''keyfile''}"
  "vol_Name ` set (search_volumes img n s) = mongot_names img"
  "vol_Name ` set (tailer_volumes b) = tailer_names b" "vm_Name ` set (tailer_mounts b) = tailer_names b"
  "vol_Name ` set (forwarder_volumes a) = audit_names a" "vm_Name ` set (forwarder_mounts a) = audit_names a"
  by (simp add: keyfile_volumes_def)
    (cases "img = []", simp_all add: volume_defs tailer_volumes_def tailer_mounts_def forwarder_volumes_def
      forwarder_mounts_def mount_defs search_volumes_def mongot_names_def tailer_names_def audit_names_def cond_set_def)

lemma named_blocks [simp]:
  "vol_Name (buildScriptsVolume n) = ''scripts''" "vm_Name buildScriptsMount = ''scripts''"
  "vol_Name (buildAdminCredentialsVolume n) = ''admin-credentials''" "vm_Name buildAdminCredentialsMount = ''admin-credentials''"
  "vm_Name keyfile_mount = ''keyfile''" "vm_Name (rw_mount n p) = n" "vm_Name (ro_mount n p) = n"
  by (simp_all add: volume_defs mount_defs)

definition all_mounts :: "Container list \<Rightarrow> string set" where
  "all_mounts cs = (\<Union>c \<in> set cs. mount_names c)"

lemma all_mounts_simps [simp]:
  "all_mounts [] = {}" "all_mounts (c # cs) = mount_names c \<union> all_mounts cs" "all_mounts (cs @ ds) = all_mounts cs \<union> all_mounts ds"
  by (simp_all add: all_mounts_def)

lemma block_mounts [simp]:
  "all_mounts (pem_init tls) = tls_names tls"
  "all_mounts (tailer_containers b v p a) = tailer_names b \<union> cond_set (IsOplogTailerEnabled b \<and> a \<noteq> []) {''admin-credentials''}"
  "all_mounts (rs_exporter mdb) = {}" "all_mounts (mongos_exporter m) = {}"
  "all_mounts (search_inits img) = cond_set (img \<noteq> []) {''mongot-sync-raw'', ''mongot-secrets''}"
  "all_mounts (search_containers img) = cond_set (img \<noteq> []) {''mongot-config'', ''data'', ''mongot-secrets''}"
  by (simp_all add: pem_init_def search_inits_def search_containers_def tailer_containers_def rs_exporter_def mongos_exporter_def tls_names_def
      tailer_names_def cond_set_def split: option.split)

lemma permission_mounts: "all_mounts (permission_init pod) \<subseteq> {''data''}"
  by (simp add: permission_init_def split: option.split)

lemma forwarder_mounts [simp]: "all_mounts (forwarder_containers au) = audit_names au"
  by (cases "active_forwarder au") (simp_all add: forwarder_containers_def audit_names_def cond_set_def)

definition admin_names :: "string \<Rightarrow> string set" where "admin_names s = cond_set (s \<noteq> []) {''admin-credentials''}"
definition script_names :: "string \<Rightarrow> string set" where "script_names s = cond_set (s \<noteq> []) {''scripts''}"

lemmas optional_names = admin_names_def script_names_def cond_set_def

lemma server_names:
  assumes "mounts_as_documented tsm"
  shows "mount_names (rs_server tsm mdb) = {''data'', ''keyfile'', ''scripts''} \<union> admin_names (rs_admin mdb)
      \<union> tls_names (mdb_TLS (Spec mdb))" (is "?rs")
    "mount_names (member_server tsm m d args r n k p cfg) = {''data'', ''keyfile''} \<union> script_names (sh_admin m)
      \<union> admin_names (sh_admin m) \<union> tls_names (shd_TLS (ShSpec m))" (is "?member")
    "mount_names (mongos_server tsm m) = {''keyfile''} \<union> script_names (sh_admin m)
      \<union> admin_names (sh_admin m) \<union> tls_names (shd_TLS (ShSpec m))" (is "?mongos")
proof -
  note facts = mount_names_def rs_server_def rs_server_mounts_def member_server_def mongos_server_def
    member_mounts_def image_Un tls_block [OF assms] insert_commute optional_names
  show "?rs" by (cases "rs_admin mdb = []") (simp_all add: facts)
  show "?member" by (cases "sh_admin m = []") (simp_all add: facts)
  show "?mongos" by (cases "sh_admin m = []") (simp_all add: facts)
qed

lemma operator_volumes:
  assumes "mounts_as_documented tsm"
  shows "vol_Name ` set (rs_volumes tsm mdb) = {''keyfile-secret'', ''keyfile'', ''scripts''} \<union> admin_names (rs_admin mdb)
      \<union> tls_names (mdb_TLS (Spec mdb)) \<union> mongot_names (rs_mongot mdb) \<union> tailer_names (mdb_Backup (Spec mdb))
      \<union> audit_names (mdb_AuditLog (Spec mdb))" (is "?rs")
    "vol_Name ` set (member_volumes tsm m n) = {''keyfile-secret'', ''keyfile''} \<union> script_names (sh_admin m)
      \<union> admin_names (sh_admin m) \<union> tls_names (shd_TLS (ShSpec m))" (is "?member")
    "vol_Name ` set (buildMongosVolumes tsm m) = {''keyfile-secret'', ''keyfile''} \<union> script_names (sh_admin m)
      \<union> admin_names (sh_admin m) \<union> tls_names (shd_TLS (ShSpec m))" (is "?mongos")
proof -
  note facts = rs_volumes_def member_volumes_def buildMongosVolumes_def image_Un tls_block [OF assms] insert_commute optional_names Un_ac
  show "?rs" by (cases "rs_admin mdb = []") (simp_all add: facts)
  show "?member" "?mongos" by (cases "sh_admin m = []"; simp add: facts)+
qed

lemma closed_workload_iff:
  "closed_workload w \<longleftrightarrow> all_mounts (pt_InitContainers (wl_Template w)) \<union> all_mounts (pt_Containers (wl_Template w))
     \<subseteq> vol_Name ` set (pt_Volumes (wl_Template w)) \<union> ct_ClaimName ` set (wl_Claims w)"
  by (auto simp: closed_workload_def volume_names_def all_mounts_def)

lemma optional_subsets:
  "cond_set (b \<and> a \<noteq> []) {''admin-credentials''} \<subseteq> admin_names a"
  "cond_set (img \<noteq> []) {''mongot-sync-raw'', ''mongot-secrets''} \<subseteq> mongot_names img"
  "cond_set (img \<noteq> []) {''mongot-config'', ''data'', ''mongot-secrets''} \<subseteq> insert ''data'' (mongot_names img)"
  by (auto simp: optional_names mongot_names_def)

lemmas closing = image_Un split_beta Let_def claim_def base_volumes_def all_mounts_def [symmetric]

lemma replica_set_closed:
  assumes t: "mounts_as_documented tsm" and u: "user_closed (''data'' # base_volumes) (mdb_Pod (Spec mdb))"
  shows "closed_workload (BuildReplicaSetStatefulSet tsm mdb)"
  unfolding closed_workload_iff
  using user_parts [OF u] permission_mounts [of "mdb_Pod (Spec mdb)"] optional_subsets(2,3) [of "rs_mongot mdb"]
    optional_subsets(1) [of "IsOplogTailerEnabled (mdb_Backup (Spec mdb))" "rs_admin mdb"]
  by (simp add: closing BuildReplicaSetStatefulSet_def rs_init_containers_def operator_volumes [OF t] server_names [OF t])
    (intro conjI; (erule order_trans)?; auto)

lemma with_pem_merge_closed:
  assumes "all_mounts (pt_InitContainers (wl_Template w)) \<union> all_mounts (pt_Containers (wl_Template w))
     \<union> tls_names (shd_TLS (ShSpec m)) \<subseteq> vol_Name ` set (pt_Volumes (wl_Template w)) \<union> ct_ClaimName ` set (wl_Claims w)"
  shows "closed_workload (with_pem_merge m w)"
  using assms by (simp add: closed_workload_iff with_pem_merge_def)

lemma config_server_closed:
  assumes t: "mounts_as_documented tsm" and u: "user_closed (''data'' # base_volumes) (cs_Pod (shd_ConfigServer (ShSpec m)))"
  shows "closed_workload (with_pem_merge m (BuildConfigServerStatefulSet tsm m))"
  apply (rule with_pem_merge_closed)
  using user_parts [OF u] permission_mounts [of "cs_Pod (shd_ConfigServer (ShSpec m))"]
    optional_subsets(1) [of "IsOplogTailerEnabled (shd_Backup (ShSpec m))" "sh_admin m"]
  by (simp add: closing BuildConfigServerStatefulSet_def sharded_template_def operator_volumes [OF t] server_names [OF t])
    (intro conjI; (erule order_trans)?; auto)

lemma shard_closed:
  assumes t: "mounts_as_documented tsm" and u: "user_closed (''data'' # base_volumes) (sh_Pod (shd_Shards (ShSpec m)))"
  shows "closed_workload (with_pem_merge m (BuildShardStatefulSet tsm m i))"
  apply (rule with_pem_merge_closed)
  using user_parts [OF u] permission_mounts [of "sh_Pod (shd_Shards (ShSpec m))"] optional_subsets(2,3) [of "sh_mongot m"]
    optional_subsets(1) [of "IsOplogTailerEnabled (shd_Backup (ShSpec m))" "sh_admin m"]
  by (simp add: closing BuildShardStatefulSet_def sharded_template_def operator_volumes [OF t] server_names [OF t])
    (intro conjI; (erule order_trans)?; auto)

lemma mongos_closed:
  assumes t: "mounts_as_documented tsm" and u: "user_closed base_volumes (ms_Pod (shd_Mongos (ShSpec m)))"
  shows "closed_workload (with_pem_merge m (BuildMongosDeployment tsm m))"
  apply (rule with_pem_merge_closed)
  using user_parts [OF u]
  by (simp add: closing BuildMongosDeployment_def sharded_template_def operator_volumes [OF t] server_names [OF t])
    (intro conjI; (erule order_trans)?; auto)

text \<open>
  C22. No pod waits for a volume that nobody brings: whatever combination of TLS, admin secret,
  search, oplog tailing, audit forwarding, presets and diagnostic mode is configured, every volume
  mount of every init container, server and sidecar of a replica set, and of the config servers,
  shards and routers of a sharded cluster as the controller applies them, names a volume or a
  claim of the same pod, provided the settings of the user do so among themselves.
\<close>

theorem every_mount_has_its_volume:
  assumes "mounts_as_documented tsm"
    and "user_closed (''data'' # base_volumes) (mdb_Pod (Spec mdb))"
    and "user_closed (''data'' # base_volumes) (cs_Pod (shd_ConfigServer (ShSpec m)))"
    and "user_closed (''data'' # base_volumes) (sh_Pod (shd_Shards (ShSpec m)))"
    and "user_closed base_volumes (ms_Pod (shd_Mongos (ShSpec m)))"
  shows "closed_workload (BuildReplicaSetStatefulSet tsm mdb) \<and> (\<forall>w \<in> set (sharded_workloads tsm m). closed_workload w)"
  using assms replica_set_closed config_server_closed shard_closed mongos_closed by (auto simp: sharded_workloads_def)

definition sample_tsm :: tls_secret_mount where
  "sample_tsm n s p = (\<lparr>vol_Name = n, vol_Source = SecretVolume s (Some mode_0400)\<rparr>, ro_mount n p)"

lemma sample_tsm_documented [simp]: "mounts_as_documented sample_tsm"
  by (simp add: mounts_as_documented_def sample_tsm_def ro_mount_def)

definition cache_pod :: PodSpec where
  "cache_pod = \<lparr>pod_SecurityContext = None, pod_ContainerSecurityContext = None, pod_Affinity = None, pod_Tolerations = [],
     pod_NodeSelector = [], pod_PriorityClassName = [], pod_ServiceAccountName = [], pod_TopologySpreadConstraints = [],
     pod_DiagnosticMode = None, pod_Sidecars = [(container ''cache'' ''cache:1'')\<lparr>ct_VolumeMounts := [rw_mount ''cache'' ''/cache'']\<rparr>],
     pod_InitContainers = [], pod_ExtraVolumes = [\<lparr>vol_Name = ''cache'', vol_Source = EmptyDirVolume None\<rparr>],
     pod_ExtraVolumeMounts = [rw_mount ''cache'' ''/cache''], pod_ExtraEnvVars = [], pod_LifecycleHooks = None,
     pod_VolumePermissions = None, pod_InitScripts = None, pod_ResourcesPreset = ''small'', pod_CustomConfig = None\<rparr>"

definition with_pod :: "PodSpec \<Rightarrow> MongoDB \<Rightarrow> MongoDB" where
  "with_pod p mdb = mdb\<lparr>Spec := (Spec mdb)\<lparr>mdb_Pod := Some p\<rparr>\<rparr>"

theorem every_mount_has_its_volume_witness:
  "closed_workload (BuildReplicaSetStatefulSet sample_tsm (with_pod cache_pod sample_mdb))
   \<and> closed_workload (with_pem_merge sample_sharded (BuildShardStatefulSet sample_tsm sample_sharded 1))"
proof -
  have "user_closed (''data'' # base_volumes) (mdb_Pod (Spec (with_pod cache_pod sample_mdb)))"
    by (simp add: user_closed_def with_pod_def cache_pod_def container_def rw_mount_def)
  moreover have "with_pem_merge sample_sharded (BuildShardStatefulSet sample_tsm sample_sharded 1) \<in> set (sharded_workloads sample_tsm sample_sharded)"
    by (simp add: sharded_workloads_def sample_sharded_def)
  ultimately show ?thesis
    using every_mount_has_its_volume [of sample_tsm "with_pod cache_pod sample_mdb" sample_sharded]
    by (simp add: user_closed_def sample_sharded_def)
qed

section \<open>Scripts of probes and hooks\<close>

fun handler_scripts :: "Handler \<Rightarrow> string list" where
  "handler_scripts (ExecAction (cmd # _)) = (if HasPrefix cmd ''/scripts/'' then [drop 9 cmd] else [])"
| "handler_scripts _ = []"

definition opt_list :: "'a option \<Rightarrow> 'a list" where
  "opt_list o' = (case o' of None \<Rightarrow> [] | Some x \<Rightarrow> [x])"

text \<open>The scripts that the kubelet runs in a container.\<close>

definition container_scripts :: "Container \<Rightarrow> string list" where
  "container_scripts c =
     concat (map (\<lambda>p. handler_scripts (pr_Handler p))
       (opt_list (ct_LivenessProbe c) @ opt_list (ct_ReadinessProbe c) @ opt_list (ct_StartupProbe c)))
     @ (case ct_Lifecycle c of None \<Rightarrow> []
        | Some l \<Rightarrow> concat (map handler_scripts (opt_list (lc_PostStart l) @ opt_list (lc_PreStop l))))"

definition server_of :: "Workload \<Rightarrow> Container" where
  "server_of w = hd (pt_Containers (wl_Template w))"

definition scripts_mounted :: "Workload \<Rightarrow> ScriptMap \<Rightarrow> bool" where
  "scripts_mounted w cm \<longleftrightarrow> container_scripts (server_of w) = [] \<or>
     (buildScriptsMount \<in> set (ct_VolumeMounts (server_of w)) \<and> buildScriptsVolume (scm_Name cm) \<in> set (pt_Volumes (wl_Template w))
      \<and> set (container_scripts (server_of w)) \<subseteq> set (scm_Files cm))"

text \<open>The user can replace the hook that runs before a container stops.\<close>

definition own_scripts_only :: "PodSpec option \<Rightarrow> bool" where
  "own_scripts_only pod \<longleftrightarrow> (\<forall>p l h. pod = Some p \<longrightarrow> pod_LifecycleHooks p = Some l \<longrightarrow> lc_PreStop l = Some h \<longrightarrow> handler_scripts h = [])"

lemma scripts_add_mounts [simp]: "container_scripts (add_mounts ms c) = container_scripts c"
  by (simp add: container_scripts_def add_mounts_def)

lemma scripts_updates [simp]:
  "container_scripts (applyDiagnosticMode c) = []" "container_scripts (c\<lparr>ct_Resources := r\<rparr>) = container_scripts c"
  "ct_VolumeMounts (applyDiagnosticMode c) = ct_VolumeMounts c"
  by (simp_all add: container_scripts_def applyDiagnosticMode_def opt_list_def)

lemma scripts_extensions:
  assumes "own_scripts_only (Some p)"
  shows "set (container_scripts (applyPodSpecExtensions c p)) \<subseteq> set (container_scripts c)"
proof -
  have plain: "container_scripts (c\<lparr>ct_VolumeMounts := ms, ct_Env := es\<rparr>) = container_scripts c" for ms es
    by (simp add: container_scripts_def)
  have hook: "set (container_scripts (c\<lparr>ct_VolumeMounts := ms, ct_Env := es, ct_Lifecycle := Some ((case ct_Lifecycle c of
      None \<Rightarrow> \<lparr>lc_PostStart = None, lc_PreStop = None\<rparr> | Some l \<Rightarrow> l)\<lparr>lc_PreStop := Some h\<rparr>)\<rparr>)) \<subseteq> set (container_scripts c)"
    if "handler_scripts h = []" for ms es h
    using that by (cases "ct_Lifecycle c") (auto simp: container_scripts_def opt_list_def)
  show ?thesis
  proof (cases "pod_LifecycleHooks p")
    case None
    then show ?thesis by (simp add: applyPodSpecExtensions_def Let_def plain)
  next
    case (Some l)
    then show ?thesis using assms hook
      by (cases "lc_PreStop l") (auto simp: applyPodSpecExtensions_def Let_def plain own_scripts_only_def)
  qed
qed

lemma scripts_pod_spec:
  assumes "own_scripts_only pod"
  shows "set (container_scripts (apply_pod_spec pod r c)) \<subseteq> set (container_scripts c)"
proof (cases pod)
  case (Some p)
  define d where "d = (case pod_DiagnosticMode p of None \<Rightarrow> c | Some d \<Rightarrow> if dm_Enabled d then applyDiagnosticMode c else c)"
  have "set (container_scripts d) \<subseteq> set (container_scripts c)" by (simp add: d_def split: option.split)
  with scripts_extensions [of p d] assms Some have "set (container_scripts (applyPodSpecExtensions d p)) \<subseteq> set (container_scripts c)"
    by (auto dest: subset_trans)
  with Some show ?thesis by (simp add: apply_pod_spec_def d_def [symmetric] Let_def)
qed (simp add: apply_pod_spec_def)

lemma mounts_extensions: "set (ct_VolumeMounts c) \<subseteq> set (ct_VolumeMounts (applyPodSpecExtensions c p))"
  by (cases "pod_LifecycleHooks p"; simp add: applyPodSpecExtensions_def Let_def add_mounts_def subset_iff split: option.split)

lemma mounts_pod_spec: "set (ct_VolumeMounts c) \<subseteq> set (ct_VolumeMounts (apply_pod_spec pod r c))"
proof (cases pod)
  case (Some p)
  define d where "d = (case pod_DiagnosticMode p of None \<Rightarrow> c | Some d \<Rightarrow> if dm_Enabled d then applyDiagnosticMode c else c)"
  have "ct_VolumeMounts d = ct_VolumeMounts c" by (simp add: d_def split: option.split)
  with mounts_extensions [of d p] Some show ?thesis by (simp add: apply_pod_spec_def d_def [symmetric] Let_def)
qed (simp add: apply_pod_spec_def)

lemma mounts_add [simp]: "ct_VolumeMounts (add_mounts ms c) = ct_VolumeMounts c @ ms"
  by (simp add: add_mounts_def)

lemma server_scripts:
  "set (container_scripts (rs_server tsm mdb)) = set member_scripts"
  "set (container_scripts (member_server tsm m d args r n k port cfg))
     = (if sh_admin m \<noteq> [] then {''bootstrap-admin.sh'', ''prestop-stepdown.sh''} else {})"
  "set (container_scripts (mongos_server tsm m)) = (if sh_admin m \<noteq> [] then {''bootstrap-admin.sh''} else {})"
  by (auto simp: container_scripts_def rs_server_def member_server_def mongos_server_def container_def liveness_def readiness_def
      probe_def mongoshPing_def opt_list_def HasPrefix_def buildAdminBootstrapLifecycle_def member_scripts_def)

lemma scripts_mountedI:
  assumes "server_of w = c" "set (container_scripts c) \<subseteq> S" "S \<subseteq> set (scm_Files cm)"
    and "S \<noteq> {} \<Longrightarrow> buildScriptsMount \<in> set (ct_VolumeMounts c) \<and> buildScriptsVolume (scm_Name cm) \<in> set (pt_Volumes (wl_Template w))"
  shows "scripts_mounted w cm"
  using assms by (cases "S = {}") (auto simp: scripts_mounted_def)

lemma level_keeps: "set vs \<subseteq> set (snd (appendPodSpecPodLevel cs vs pod))"
  by (auto simp: appendPodSpecPodLevel_def split: option.split)

lemma hd_level [simp]: "hd (fst (appendPodSpecPodLevel (c # cs) vs pod)) = c"
  by simp

lemma replica_set_scripts:
  assumes "own_scripts_only (mdb_Pod (Spec mdb))"
  shows "scripts_mounted (BuildReplicaSetStatefulSet tsm mdb) (BuildMongoDBConfigMap mdb)"
proof (rule scripts_mountedI [OF refl, where S = "set member_scripts"])
  let ?w = "BuildReplicaSetStatefulSet tsm mdb"
  note [simp] = BuildReplicaSetStatefulSet_def server_of_def Let_def split_beta
  show "set (container_scripts (server_of ?w)) \<subseteq> set member_scripts"
    using scripts_pod_spec [OF assms, of "mdb_Resources (Spec mdb)" "rs_server tsm mdb"] by (simp add: server_scripts)
  have "buildScriptsMount \<in> set (ct_VolumeMounts (rs_server tsm mdb))" by (simp add: rs_server_def rs_server_mounts_def)
  then have "buildScriptsMount \<in> set (ct_VolumeMounts (server_of ?w))"
    using mounts_pod_spec [of "rs_server tsm mdb" "mdb_Pod (Spec mdb)" "mdb_Resources (Spec mdb)"] by auto
  moreover have "buildScriptsVolume (Name mdb @ ''-scripts'') \<in> set (rs_volumes tsm mdb)" by (simp add: rs_volumes_def)
  then have "buildScriptsVolume (scm_Name (BuildMongoDBConfigMap mdb)) \<in> set (pt_Volumes (wl_Template ?w))"
    using level_keeps [of "rs_volumes tsm mdb"] by (auto simp: BuildMongoDBConfigMap_def)
  ultimately show "buildScriptsMount \<in> set (ct_VolumeMounts (server_of ?w))
      \<and> buildScriptsVolume (scm_Name (BuildMongoDBConfigMap mdb)) \<in> set (pt_Volumes (wl_Template ?w))" ..
qed (simp add: BuildMongoDBConfigMap_def)

lemma member_scripts_mounted:
  assumes own: "own_scripts_only pod"
    and w: "server_of w = apply_pod_spec pod r (add_mounts ms (member_server tsm m d args r' n k port cfg))"
      "set (member_volumes tsm m (scm_Name cm)) \<subseteq> set (pt_Volumes (wl_Template w))" "scm_Files cm = member_scripts"
  shows "scripts_mounted w cm"
proof (rule scripts_mountedI [OF w(1), where S = "if sh_admin m \<noteq> [] then {''bootstrap-admin.sh'', ''prestop-stepdown.sh''} else {}"])
  let ?c = "member_server tsm m d args r' n k port cfg"
  show "set (container_scripts (apply_pod_spec pod r (add_mounts ms ?c)))
      \<subseteq> (if sh_admin m \<noteq> [] then {''bootstrap-admin.sh'', ''prestop-stepdown.sh''} else {})"
    using scripts_pod_spec [OF own, of r "add_mounts ms ?c"] by (simp only: scripts_add_mounts server_scripts)
  assume "(if sh_admin m \<noteq> [] then {''bootstrap-admin.sh'', ''prestop-stepdown.sh''} else {}) \<noteq> {}"
  then have "buildScriptsMount \<in> set (ct_VolumeMounts (add_mounts ms ?c))"
      "buildScriptsVolume (scm_Name cm) \<in> set (member_volumes tsm m (scm_Name cm))"
    by (auto simp: member_server_def member_mounts_def member_volumes_def split: if_splits)
  then show "buildScriptsMount \<in> set (ct_VolumeMounts (apply_pod_spec pod r (add_mounts ms ?c)))
      \<and> buildScriptsVolume (scm_Name cm) \<in> set (pt_Volumes (wl_Template w))"
    using mounts_pod_spec [of "add_mounts ms ?c" pod r] w(2) by blast
qed (simp add: w(3) member_scripts_def)

lemma config_server_scripts:
  assumes "own_scripts_only (cs_Pod (shd_ConfigServer (ShSpec m)))"
  shows "scripts_mounted (with_pem_merge m (BuildConfigServerStatefulSet tsm m)) (BuildConfigServerScriptsConfigMap m)"
  by (rule member_scripts_mounted [OF assms])
    (auto simp: server_of_def with_pem_merge_def BuildConfigServerStatefulSet_def Let_def sharded_template_def
      BuildConfigServerScriptsConfigMap_def intro: subsetD [OF level_keeps])

lemma shard_scripts:
  assumes "own_scripts_only (sh_Pod (shd_Shards (ShSpec m)))"
  shows "scripts_mounted (with_pem_merge m (BuildShardStatefulSet tsm m i)) (BuildShardScriptsConfigMap m i)"
  by (rule member_scripts_mounted [OF assms])
    (auto simp: server_of_def with_pem_merge_def BuildShardStatefulSet_def Let_def sharded_template_def
      BuildShardScriptsConfigMap_def intro: subsetD [OF level_keeps])

lemma mongos_scripts:
  assumes "own_scripts_only (ms_Pod (shd_Mongos (ShSpec m)))"
  shows "scripts_mounted (with_pem_merge m (BuildMongosDeployment tsm m)) (BuildMongosConfigMap m)"
proof (rule scripts_mountedI [OF refl, where S = "if sh_admin m \<noteq> [] then {''bootstrap-admin.sh''} else {}"])
  let ?w = "with_pem_merge m (BuildMongosDeployment tsm m)" and ?pod = "ms_Pod (shd_Mongos (ShSpec m))"
  note [simp] = BuildMongosDeployment_def server_of_def Let_def split_beta with_pem_merge_def sharded_template_def
  show "set (container_scripts (server_of ?w)) \<subseteq> (if sh_admin m \<noteq> [] then {''bootstrap-admin.sh''} else {})"
    using scripts_pod_spec [OF assms, of "ms_Resources (shd_Mongos (ShSpec m))" "mongos_server tsm m"]
    by (simp add: server_scripts split: if_splits)
  assume "(if sh_admin m \<noteq> [] then {''bootstrap-admin.sh''} else {}) \<noteq> {}"
  then have "buildScriptsMount \<in> set (ct_VolumeMounts (mongos_server tsm m))"
      "buildScriptsVolume (scm_Name (BuildMongosConfigMap m)) \<in> set (buildMongosVolumes tsm m)"
    by (auto simp: mongos_server_def buildMongosVolumes_def BuildMongosConfigMap_def split: if_splits)
  then show "buildScriptsMount \<in> set (ct_VolumeMounts (server_of ?w))
      \<and> buildScriptsVolume (scm_Name (BuildMongosConfigMap m)) \<in> set (pt_Volumes (wl_Template ?w))"
    using mounts_pod_spec [of "mongos_server tsm m" ?pod "ms_Resources (shd_Mongos (ShSpec m))"] level_keeps
    by (auto intro: subsetD [OF level_keeps])
qed (simp add: BuildMongosConfigMap_def)

text \<open>
  Every script that a probe or a lifecycle hook of a server container runs is there: the
  container mounts the scripts volume, the volume comes from the config map that the controller
  applies for this workload, and the config map has the file. This holds for replica sets, config
  servers, shards and routers in every configuration in which the user's own stop hook does not
  call into \<^verbatim>\<open>/scripts\<close>.
\<close>

theorem hooks_and_probes_find_their_scripts:
  assumes "own_scripts_only (mdb_Pod (Spec mdb))" and "own_scripts_only (cs_Pod (shd_ConfigServer (ShSpec m)))"
    and "own_scripts_only (sh_Pod (shd_Shards (ShSpec m)))" and "own_scripts_only (ms_Pod (shd_Mongos (ShSpec m)))"
  shows "scripts_mounted (BuildReplicaSetStatefulSet tsm mdb) (BuildMongoDBConfigMap mdb)
    \<and> scripts_mounted (with_pem_merge m (BuildConfigServerStatefulSet tsm m)) (BuildConfigServerScriptsConfigMap m)
    \<and> scripts_mounted (with_pem_merge m (BuildShardStatefulSet tsm m i)) (BuildShardScriptsConfigMap m i)
    \<and> scripts_mounted (with_pem_merge m (BuildMongosDeployment tsm m)) (BuildMongosConfigMap m)"
  using replica_set_scripts [OF assms(1)] config_server_scripts [OF assms(2)] shard_scripts [OF assms(3)]
    mongos_scripts [OF assms(4)] by blast

theorem hooks_and_probes_find_their_scripts_witness:
  "scripts_mounted (BuildReplicaSetStatefulSet sample_tsm (with_pod cache_pod sample_mdb)) (BuildMongoDBConfigMap (with_pod cache_pod sample_mdb))
   \<and> scripts_mounted (with_pem_merge sample_sharded (BuildMongosDeployment sample_tsm sample_sharded)) (BuildMongosConfigMap sample_sharded)"
  using hooks_and_probes_find_their_scripts [of "with_pod cache_pod sample_mdb" sample_sharded]
  by (simp add: own_scripts_only_def with_pod_def cache_pod_def sample_sharded_def)

section \<open>The number printer\<close>

lemma intString_go_nat: "intString_go (int m) buf = (if m = 0 then buf else show_nat m @ buf)"
proof (induction m arbitrary: buf rule: less_induct)
  case (less m)
  show ?case
  proof (cases "m < 10")
    case True
    then show ?thesis by (simp add: intString_go.simps [of "int m"] intString_go.simps [of 0] show_nat.simps [of m] flip: zdiv_int zmod_int)
  next
    case False
    then have "intString_go (int m) buf = intString_go (int (m div 10)) (digit_char (m mod 10) # buf)"
      by (subst intString_go.simps) (simp add: zdiv_int zmod_int nat_mod_as_int)
    also have "\<dots> = show_nat (m div 10) @ digit_char (m mod 10) # buf"
      using less.IH [of "m div 10"] False by simp
    finally show ?thesis using False by (simp add: show_nat.simps [of m])
  qed
qed

lemma length_show_nat: "m < 10 ^ Suc k \<Longrightarrow> length (show_nat m) \<le> Suc k"
proof (induction k arbitrary: m)
  case 0
  then show ?case by (subst show_nat.simps) simp
next
  case (Suc k)
  then have "m div 10 < 10 ^ Suc k" by (simp add: less_mult_imp_div_less mult.commute)
  from Suc.IH [OF this] show ?case by (subst show_nat.simps) simp
qed

text \<open>
  The number printer of the oplog tailer prints every 64-bit integer in decimal except the
  least one, of which only the sign is printed, and never writes more than the twenty bytes of
  its buffer. The ports it is used for have 32 bits, so they are always printed correctly.
\<close>

theorem intString_decimal:
  assumes "- (2 ^ 63) \<le> n" and "n < 2 ^ 63"
  shows "intString n = (if n = - (2 ^ 63) then ''-'' else show_int n) \<and> length (intString n) \<le> 20"
proof -
  have pos: "intString m = show_nat (nat m) \<and> length (show_nat (nat m)) \<le> 19" if "0 \<le> m" "m < 2 ^ 63" for m
  proof -
    have "nat m < 10 ^ Suc 18" using that by simp
    moreover have "intString m = show_nat (nat m)"
      using that intString_go_nat [of "nat m" "[]"] by (auto simp: intString_def show_nat.simps [of 0] digit_char_table)
    ultimately show ?thesis using length_show_nat [of "nat m" 18] by simp
  qed
  have neg: "intString n = CHR ''-'' # show_nat (nat (- n)) \<and> length (show_nat (nat (- n))) \<le> 19" if "n < 0" "n \<noteq> - (2 ^ 63)"
  proof -
    have w: "wrap64 (- n) = - n" using that assms by (simp add: wrap64_def)
    have "intString (- n) = intString_go (- n) []" using that by (simp add: intString_def)
    moreover have "intString n = CHR ''-'' # intString_go (- n) []" using that w by (simp add: intString_def Let_def)
    ultimately show ?thesis using pos [of "- n"] that assms by simp
  qed
  have least: "intString (- (2 ^ 63)) = ''-''" by (simp add: intString_def wrap64_def intString_go.simps)
  show ?thesis
  proof (cases "n < 0")
    case True
    then show ?thesis using neg least by (auto simp: show_int_def)
  next
    case False
    then show ?thesis using pos [of n] assms by (auto simp: show_int_def)
  qed
qed

theorem intString_decimal_witness: "intString 27018 = show_int 27018 \<and> length (intString (- 9223372036854775807)) \<le> 20"
  using intString_decimal [of 27018] intString_decimal [of "- 9223372036854775807"] by fastforce

end
