(* ===== verification/Deployment_Laws.thy ===== *)
theory Deployment_Laws
  imports Pod_Laws
begin

text \<open>
  The pods of a cluster over time and in their network: what an upgrade changes and when, which
  services select which pods, which of the files named on a command line are mounted, and which
  settings of the user reach a pod at all.
\<close>

section \<open>The version pin\<close>

definition with_version :: "string \<Rightarrow> MongoDB \<Rightarrow> MongoDB" where
  "with_version v mdb = mdb\<lparr>Spec := (Spec mdb)\<lparr>mdb_Version := \<lparr>ver_Version = v, ver_Image = []\<rparr>\<rparr>\<rparr>"

definition sh_with_version :: "string \<Rightarrow> MongoDBSharded \<Rightarrow> MongoDBSharded" where
  "sh_with_version v m = m\<lparr>ShSpec := (ShSpec m)\<lparr>shd_Version := \<lparr>ver_Version = v, ver_Image = []\<rparr>\<rparr>\<rparr>"

lemma config_hosts_version: "config_hosts (sh_with_version v m) is = config_hosts m is"
  by (induction "is") (simp_all add: sh_with_version_def)

lemma version_fields:
  "mdb_Version (Spec (with_version v mdb)) = \<lparr>ver_Version = v, ver_Image = []\<rparr>" "Meta (with_version v mdb) = Meta mdb"
  "Status (with_version v mdb) = Status mdb"
  "mdb_TLS (Spec (with_version v mdb)) = mdb_TLS (Spec mdb)" "mdb_Auth (Spec (with_version v mdb)) = mdb_Auth (Spec mdb)"
  "mdb_Storage (Spec (with_version v mdb)) = mdb_Storage (Spec mdb)" "mdb_Resources (Spec (with_version v mdb)) = mdb_Resources (Spec mdb)"
  "mdb_Members (Spec (with_version v mdb)) = mdb_Members (Spec mdb)" "mdb_ReplicaSetName (Spec (with_version v mdb)) = mdb_ReplicaSetName (Spec mdb)"
  "mdb_Pod (Spec (with_version v mdb)) = mdb_Pod (Spec mdb)" "mdb_Monitoring (Spec (with_version v mdb)) = mdb_Monitoring (Spec mdb)"
  "mdb_Backup (Spec (with_version v mdb)) = mdb_Backup (Spec mdb)" "mdb_AuditLog (Spec (with_version v mdb)) = mdb_AuditLog (Spec mdb)"
  by (simp_all add: with_version_def)

lemma sh_version_fields:
  "shd_Version (ShSpec (sh_with_version v m)) = \<lparr>ver_Version = v, ver_Image = []\<rparr>" "ShMeta (sh_with_version v m) = ShMeta m"
  "ShStatus (sh_with_version v m) = ShStatus m"
  "shd_TLS (ShSpec (sh_with_version v m)) = shd_TLS (ShSpec m)" "shd_Auth (ShSpec (sh_with_version v m)) = shd_Auth (ShSpec m)"
  "shd_ConfigServer (ShSpec (sh_with_version v m)) = shd_ConfigServer (ShSpec m)" "shd_Shards (ShSpec (sh_with_version v m)) = shd_Shards (ShSpec m)"
  "shd_Mongos (ShSpec (sh_with_version v m)) = shd_Mongos (ShSpec m)" "shd_Monitoring (ShSpec (sh_with_version v m)) = shd_Monitoring (ShSpec m)"
  "shd_Backup (ShSpec (sh_with_version v m)) = shd_Backup (ShSpec m)" "shd_AuditLog (ShSpec (sh_with_version v m)) = shd_AuditLog (ShSpec m)"
  by (simp_all add: sh_with_version_def)

lemma args_ignore_version:
  "replicaset_args (with_version v mdb) = replicaset_args mdb"
  "configserver_args (sh_with_version v m) = configserver_args m" "shard_args (sh_with_version v m) i = shard_args m i"
  "mongos_args (sh_with_version v m) = mongos_args m"
proof -
  have "buildMongosConfigDB (sh_with_version v m) = buildMongosConfigDB m"
    by (simp add: buildMongosConfigDB_def config_hosts_version sh_version_fields split: option.split)
  then show "mongos_args (sh_with_version v m) = mongos_args m"
    by (simp add: mongos_args_def sh_version_fields)
qed (simp_all add: replicaset_args_def configserver_args_def shard_args_def with_version_def sh_with_version_def)

lemma no_tailer: "\<not> IsOplogTailerEnabled b \<Longrightarrow> tailer_containers b v p a = []"
  by (simp add: tailer_containers_def)

lemma pinned_replica_set:
  assumes "ver_Image (mdb_Version (Spec mdb)) = []" "s_EffectiveVersion (Status mdb) \<noteq> []" "\<not> IsOplogTailerEnabled (mdb_Backup (Spec mdb))"
  shows "BuildReplicaSetStatefulSet tsm (with_version v mdb) = BuildReplicaSetStatefulSet tsm mdb"
proof -
  note f = version_fields args_ignore_version
  have "rs_server tsm (with_version v mdb) = rs_server tsm mdb"
    using assms(1,2) by (simp add: rs_server_def rs_server_mounts_def effectiveMongoDBVersion_def f)
  moreover have "rs_volumes tsm (with_version v mdb) = rs_volumes tsm mdb" "rs_exporter (with_version v mdb) = rs_exporter mdb"
      "rs_init_containers (with_version v mdb) = rs_init_containers mdb"
    by (simp_all add: rs_volumes_def rs_exporter_def rs_init_containers_def f split: option.split)
  ultimately show ?thesis by (simp add: BuildReplicaSetStatefulSet_def Let_def split_beta f no_tailer [OF assms(3)])
qed

lemma pinned_sharded:
  assumes "ver_Image (shd_Version (ShSpec m)) = []" "ss_EffectiveVersion (ShStatus m) \<noteq> []" "\<not> IsOplogTailerEnabled (shd_Backup (ShSpec m))"
  shows "sharded_workloads tsm (sh_with_version v m) = sharded_workloads tsm m"
proof -
  note f = sh_version_fields args_ignore_version
  have i: "sharded_image (sh_with_version v m) = sharded_image m"
    using assms(1,2) by (simp add: sharded_image_def effectiveMongoDBVersion_def f)
  have t: "sharded_template (sh_with_version v m) = sharded_template m" "with_pem_merge (sh_with_version v m) = with_pem_merge m"
    by (simp_all add: fun_eq_iff sharded_template_def with_pem_merge_def f)
  have s: "member_server tsm (sh_with_version v m) = member_server tsm m" "member_volumes tsm (sh_with_version v m) = member_volumes tsm m"
    by (simp_all add: fun_eq_iff member_server_def member_mounts_def member_volumes_def i f)
  have "BuildConfigServerStatefulSet tsm (sh_with_version v m) = BuildConfigServerStatefulSet tsm m"
    by (simp add: BuildConfigServerStatefulSet_def Let_def split_beta f t s no_tailer [OF assms(3)])
  moreover have "BuildShardStatefulSet tsm (sh_with_version v m) = BuildShardStatefulSet tsm m"
    by (simp add: fun_eq_iff BuildShardStatefulSet_def Let_def split_beta f t s no_tailer [OF assms(3)])
  moreover have "BuildMongosDeployment tsm (sh_with_version v m) = BuildMongosDeployment tsm m"
  proof -
    have "mongos_server tsm (sh_with_version v m) = mongos_server tsm m" "buildMongosVolumes tsm (sh_with_version v m) = buildMongosVolumes tsm m"
      "mongos_exporter (sh_with_version v m) = mongos_exporter m"
      by (simp_all add: mongos_server_def buildMongosVolumes_def mongos_exporter_def i f split: option.split)
    then show ?thesis by (simp add: BuildMongosDeployment_def Let_def split_beta f t)
  qed
  ultimately show ?thesis by (simp add: sharded_workloads_def f t)
qed

text \<open>
  C24. A change of the version does not touch a running pod before the upgrade machine moves the
  effective version: with an effective version recorded, no image given explicitly and no oplog
  tailer, the workloads built after any edit of \<^verbatim>\<open>spec.version\<close> are identical to the ones before, so
  applying them restarts nothing. This holds for replica sets and for all parts of a sharded cluster.
\<close>

theorem version_edit_restarts_nothing:
  assumes "ver_Image (mdb_Version (Spec mdb)) = []" and "s_EffectiveVersion (Status mdb) \<noteq> []"
    and "\<not> IsOplogTailerEnabled (mdb_Backup (Spec mdb))"
    and "ver_Image (shd_Version (ShSpec m)) = []" and "ss_EffectiveVersion (ShStatus m) \<noteq> []"
    and "\<not> IsOplogTailerEnabled (shd_Backup (ShSpec m))"
  shows "BuildReplicaSetStatefulSet tsm (with_version v mdb) = BuildReplicaSetStatefulSet tsm mdb
    \<and> sharded_workloads tsm (sh_with_version v m) = sharded_workloads tsm m"
  using pinned_replica_set [OF assms(1-3)] pinned_sharded [OF assms(4-6)] by blast

lemma sample_pinned: "ver_Image (mdb_Version (Spec sample_mdb)) = []" "s_EffectiveVersion (Status sample_mdb) \<noteq> []"
    "\<not> IsOplogTailerEnabled (mdb_Backup (Spec sample_mdb))"
  "ver_Image (shd_Version (ShSpec sample_sharded)) = []" "ss_EffectiveVersion (ShStatus sample_sharded) \<noteq> []"
    "\<not> IsOplogTailerEnabled (shd_Backup (ShSpec sample_sharded))"
  by (simp_all add: sample_mdb_def sample_status_def sample_sharded_def IsOplogTailerEnabled_def)

theorem version_edit_restarts_nothing_witness:
  "BuildReplicaSetStatefulSet sample_tsm (with_version ''8.3.0'' sample_mdb) = BuildReplicaSetStatefulSet sample_tsm sample_mdb
   \<and> sharded_workloads sample_tsm (sh_with_version ''8.3.0'' sample_sharded) = sharded_workloads sample_tsm sample_sharded"
  using version_edit_restarts_nothing [OF sample_pinned] by blast

text \<open>
  With the oplog tailer this fails: the tailer takes its image from \<^verbatim>\<open>spec.version\<close> and not from
  the effective version, so every edit of the version changes the pod template at once. The pods
  are restarted before the backup that precedes an upgrade is taken, and after a rollback the
  tailer stays on the version that failed.
\<close>

theorem tailer_ignores_the_pin:
  assumes "IsOplogTailerEnabled (mdb_Backup (Spec mdb))" and "ver_Image (mdb_Version (Spec mdb)) = []"
    and "s_EffectiveVersion (Status mdb) \<noteq> []" and "v \<noteq> ver_Version (mdb_Version (Spec mdb))" and "mdb_Pod (Spec mdb) = None"
  shows "ct_Image (server_of (BuildReplicaSetStatefulSet tsm mdb)) = ''mongo:'' @ s_EffectiveVersion (Status mdb)
    \<and> BuildOplogTailerSidecar (mdb_Version (Spec mdb)) mongoDBPort (rs_admin mdb \<noteq> [])
        \<in> set (pt_Containers (wl_Template (BuildReplicaSetStatefulSet tsm mdb)))
    \<and> ct_Image (BuildOplogTailerSidecar (mdb_Version (Spec mdb)) mongoDBPort (rs_admin mdb \<noteq> [])) = ''mongo:'' @ ver_Version (mdb_Version (Spec mdb))
    \<and> wl_Template (BuildReplicaSetStatefulSet tsm (with_version v mdb)) \<noteq> wl_Template (BuildReplicaSetStatefulSet tsm mdb)"
proof -
  note [simp] = BuildReplicaSetStatefulSet_def Let_def split_beta server_of_def tailer_containers_def user_sidecars_def apply_pod_spec_def
  let ?t = "\<lambda>v. BuildOplogTailerSidecar v mongoDBPort (rs_admin mdb \<noteq> [])"
  have image: "ct_Image (?t v) = getMongoDBImage v" for v by (simp add: BuildOplogTailerSidecar_def container_def)
  have "ct_Image (add_mounts ms (rs_server tsm mdb)) = ''mongo:'' @ s_EffectiveVersion (Status mdb)" for ms
    using assms(2,3) by (simp add: add_mounts_def rs_server_def container_def getMongoDBImage_def effectiveMongoDBVersion_def)
  moreover have "?t \<lparr>ver_Version = v, ver_Image = []\<rparr> \<noteq> ?t (mdb_Version (Spec mdb))"
    using assms(2,4) image [of "\<lparr>ver_Version = v, ver_Image = []\<rparr>"] image [of "mdb_Version (Spec mdb)"] by (auto simp: getMongoDBImage_def)
  moreover have "rs_exporter (with_version v mdb) = rs_exporter mdb" by (simp add: rs_exporter_def version_fields split: option.split)
  ultimately show ?thesis
    using assms(1,2,5) image [of "mdb_Version (Spec mdb)"] by (auto simp: version_fields getMongoDBImage_def)
qed

definition pitr_backup :: BackupSpec where
  "pitr_backup = \<lparr>bk_Enabled = True, bk_Schedule = ''0 2 * * *'', bk_Retention = None,
     bk_Storage = \<lparr>bs_Type = ''pvc'', bs_S3 = None, bs_PVC = None\<rparr>, bk_PITREnabled = True, bk_OplogRetentionHours = 24,
     bk_Throttle = None, bk_Queryable = None, bk_VerificationSchedule = []\<rparr>"

definition pitr_mdb :: MongoDB where
  "pitr_mdb = sample_mdb\<lparr>Spec := (Spec sample_mdb)\<lparr>mdb_Backup := Some pitr_backup\<rparr>\<rparr>"

theorem tailer_ignores_the_pin_witness:
  "wl_Template (BuildReplicaSetStatefulSet sample_tsm (with_version ''8.3.0'' pitr_mdb)) \<noteq> wl_Template (BuildReplicaSetStatefulSet sample_tsm pitr_mdb)"
  using tailer_ignores_the_pin [of pitr_mdb "''8.3.0''" sample_tsm]
  by (simp add: pitr_mdb_def pitr_backup_def IsOplogTailerEnabled_def sample_mdb_def sample_status_def)

section \<open>Services and pods\<close>

definition selects :: "Service \<Rightarrow> Workload \<Rightarrow> bool" where
  "selects svc w \<longleftrightarrow> (case fst (svc_Selector svc) of None \<Rightarrow> True | Some l \<Rightarrow> pl_Set (pt_Labels (wl_Template w)) = l)
     \<and> set (snd (svc_Selector svc)) \<subseteq> set (pl_Extra (pt_Labels (wl_Template w)))"

lemma labels_eq [simp]: "buildLabels n c = buildLabels n' c' \<longleftrightarrow> n = n' \<and> c = c'"
  by (simp add: buildLabels_def)

lemma shard_component_simps [simp]:
  "shard_component i = shard_component j \<longleftrightarrow> i = j" "shard_component i \<noteq> ''configsvr''" "''configsvr'' \<noteq> shard_component i"
  "shard_component i \<noteq> ''mongos''" "''mongos'' \<noteq> shard_component i"
  by (auto simp: shard_component_def show_nat_inj)

lemma workload_labels:
  "pt_Labels (wl_Template (with_pem_merge m w)) = pt_Labels (wl_Template w)" "wl_ServiceName (with_pem_merge m w) = wl_ServiceName w"
  "pt_Labels (wl_Template (BuildConfigServerStatefulSet tsm m)) = \<lparr>pl_Set = buildLabels (ShName m) ''configsvr'', pl_Extra = []\<rparr>"
  "pt_Labels (wl_Template (BuildShardStatefulSet tsm m i)) = \<lparr>pl_Set = buildLabels (ShName m) (shard_component i),
     pl_Extra = (if sh_mongot m \<noteq> [] then [(MongotPodLabel, MongotPodLabelValue)] else [])\<rparr>"
  "pt_Labels (wl_Template (BuildMongosDeployment tsm m)) = \<lparr>pl_Set = buildLabels (ShName m) ''mongos'', pl_Extra = []\<rparr>"
  by (simp_all add: with_pem_merge_def BuildConfigServerStatefulSet_def BuildShardStatefulSet_def BuildMongosDeployment_def
      sharded_template_def Let_def split_beta)

definition cfg_workload :: "tls_secret_mount \<Rightarrow> MongoDBSharded \<Rightarrow> Workload" where
  "cfg_workload tsm m = with_pem_merge m (BuildConfigServerStatefulSet tsm m)"

definition shard_workload :: "tls_secret_mount \<Rightarrow> MongoDBSharded \<Rightarrow> nat \<Rightarrow> Workload" where
  "shard_workload tsm m i = with_pem_merge m (BuildShardStatefulSet tsm m i)"

definition mongos_workload :: "tls_secret_mount \<Rightarrow> MongoDBSharded \<Rightarrow> Workload" where
  "mongos_workload tsm m = with_pem_merge m (BuildMongosDeployment tsm m)"

lemmas workload_defs = cfg_workload_def shard_workload_def mongos_workload_def

lemma service_selectors:
  "svc_Selector (BuildConfigServerService m) = (Some (buildLabels (ShName m) ''configsvr''), [])"
  "svc_Selector (BuildShardService m i) = (Some (buildLabels (ShName m) (shard_component i)), [])"
  "svc_Selector (BuildMongosService m) = (Some (buildLabels (ShName m) ''mongos''), [])"
  by (simp_all add: BuildConfigServerService_def BuildShardService_def BuildMongosService_def service_def Let_def split: option.split)

text \<open>
  Each service of a sharded cluster stands for exactly one workload: the governing service of
  the config servers, of each shard and the service of the routers select the pods of their own
  workload and of no other one, and the StatefulSets name these services as their governing ones,
  so that the host names in replica set configurations resolve. The search service selects the
  pods of a shard exactly if that shard is the pinned one.
\<close>

theorem services_select_their_own_pods:
  shows "selects (BuildConfigServerService m) (cfg_workload tsm m) \<and> \<not> selects (BuildConfigServerService m) (shard_workload tsm m j)
      \<and> \<not> selects (BuildConfigServerService m) (mongos_workload tsm m)
    \<and> (selects (BuildShardService m i) (shard_workload tsm m j) = (i = j)) \<and> \<not> selects (BuildShardService m i) (cfg_workload tsm m)
      \<and> \<not> selects (BuildShardService m i) (mongos_workload tsm m)
    \<and> selects (BuildMongosService m) (mongos_workload tsm m) \<and> \<not> selects (BuildMongosService m) (cfg_workload tsm m)
      \<and> \<not> selects (BuildMongosService m) (shard_workload tsm m j)
    \<and> wl_ServiceName (cfg_workload tsm m) = svc_Name (BuildConfigServerService m)
    \<and> wl_ServiceName (shard_workload tsm m j) = svc_Name (BuildShardService m j)
    \<and> (case BuildMongotService m of None \<Rightarrow> sh_mongot m = []
       | Some svc \<Rightarrow> selects svc (shard_workload tsm m j) = (MongotRouterShard m = shard_component j)
           \<and> \<not> selects svc (cfg_workload tsm m) \<and> \<not> selects svc (mongos_workload tsm m))"
proof -
  have names: "wl_ServiceName (cfg_workload tsm m) = svc_Name (BuildConfigServerService m)"
      "wl_ServiceName (shard_workload tsm m j) = svc_Name (BuildShardService m j)"
    by (simp_all add: workload_defs workload_labels BuildConfigServerStatefulSet_def BuildShardStatefulSet_def Let_def
        BuildConfigServerService_def BuildShardService_def service_def)
  have mongot: "case BuildMongotService m of None \<Rightarrow> sh_mongot m = []
       | Some svc \<Rightarrow> selects svc (shard_workload tsm m j) = (MongotRouterShard m = shard_component j)
           \<and> \<not> selects svc (cfg_workload tsm m) \<and> \<not> selects svc (mongos_workload tsm m)"
    by (auto simp: BuildMongotService_def selects_def workload_defs workload_labels)
  show ?thesis
    by (intro conjI names mongot) (auto simp: selects_def service_selectors workload_defs workload_labels)
qed

section \<open>Files on the command line\<close>

definition mounted :: "Container \<Rightarrow> string \<Rightarrow> bool" where
  "mounted c path \<longleftrightarrow> (\<exists>v \<in> set (ct_VolumeMounts c). prefix (vm_MountPath v @ ''/'') path)"

text \<open>
  Which of the files that mongod is told to read or write lie on a mounted volume, for a
  replica set without settings of the user: the key file always does, the certificate and the CA
  do whenever TLS is enabled, the audit log does exactly if a central forwarder is active, and the
  key file for encryption at rest never does, whatever the encryption settings say.
\<close>

theorem command_line_files_mounted:
  assumes "mounts_as_documented tsm" and "mdb_Pod (Spec mdb) = None" and "st_DataDirPath (mdb_Storage (Spec mdb)) = ''/data/db''"
  shows "mounted (server_of (BuildReplicaSetStatefulSet tsm mdb)) ''/etc/mongodb-keyfile/keyfile''
    \<and> (tls_enabled (mdb_TLS (Spec mdb)) \<longrightarrow> mounted (server_of (BuildReplicaSetStatefulSet tsm mdb)) (MongoTLSPEMPath @ ''/server.pem'')
         \<and> mounted (server_of (BuildReplicaSetStatefulSet tsm mdb)) (MongoTLSMountPath @ ''/ca.crt''))
    \<and> (mounted (server_of (BuildReplicaSetStatefulSet tsm mdb)) (AuditLogMountPath @ ''/'' @ AuditLogFileName)
         = (active_forwarder (mdb_AuditLog (Spec mdb)) \<noteq> None))
    \<and> \<not> mounted (server_of (BuildReplicaSetStatefulSet tsm mdb)) (EncryptionKeyMountPath @ ''/'' @ EncryptionKeyFileName)"
proof -
  define paths where "paths = [''/data/db'', ''/etc/mongodb-keyfile'', ''/scripts'']
    @ (if rs_admin mdb \<noteq> [] then [''/etc/mongodb-admin''] else [])
    @ (if tls_enabled (mdb_TLS (Spec mdb)) then [MongoTLSMountPath, MongoTLSPEMPath] else [])
    @ (if IsOplogTailerEnabled (mdb_Backup (Spec mdb)) then [oplogStagingMount] else [])
    @ (if active_forwarder (mdb_AuditLog (Spec mdb)) \<noteq> None then [''/var/log/mongodb-audit''] else [])"
  have tls: "map vm_MountPath (tls_mounts tsm tls) = (if tls_enabled tls then [MongoTLSMountPath, MongoTLSPEMPath] else [])" for tls
    using assms(1) by (simp add: tls_mounts_def buildTLSServerMount_def buildTLSPEMMount_def ro_mount_def mounts_as_documented_def)
  have rest: "map vm_MountPath (tailer_mounts b) = (if IsOplogTailerEnabled b then [oplogStagingMount] else [])"
      "map vm_MountPath (forwarder_mounts a) = (if active_forwarder a \<noteq> None then [''/var/log/mongodb-audit''] else [])" for a b
    by (simp_all add: tailer_mounts_def forwarder_mounts_def rw_mount_def)
  have p: "map vm_MountPath (ct_VolumeMounts (server_of (BuildReplicaSetStatefulSet tsm mdb))) = paths"
    using assms(2,3) by (simp add: paths_def BuildReplicaSetStatefulSet_def Let_def split_beta server_of_def apply_pod_spec_def
        rs_server_def rs_server_mounts_def tls rest mount_defs)
  have m: "mounted (server_of (BuildReplicaSetStatefulSet tsm mdb)) path \<longleftrightarrow> (\<exists>p \<in> set paths. prefix (p @ ''/'') path)" for path
    by (simp only: mounted_def p [symmetric] set_map) simp
  note path_defs = MongoTLSPEMPath_def MongoTLSMountPath_def AuditLogMountPath_def AuditLogFileName_def EncryptionKeyMountPath_def
    EncryptionKeyFileName_def oplogStagingMount_def
  show ?thesis unfolding m by (auto simp: paths_def path_defs)
qed

theorem command_line_files_mounted_witness:
  "mounted (server_of (BuildReplicaSetStatefulSet sample_tsm (sample_mdb\<lparr>Spec := (Spec sample_mdb)\<lparr>mdb_Storage := zero_storage\<lparr>st_DataDirPath := ''/data/db''\<rparr>\<rparr>\<rparr>))) ''/etc/mongodb-keyfile/keyfile''"
  using command_line_files_mounted [of sample_tsm "sample_mdb\<lparr>Spec := (Spec sample_mdb)\<lparr>mdb_Storage := zero_storage\<lparr>st_DataDirPath := ''/data/db''\<rparr>\<rparr>\<rparr>"]
  by (simp add: sample_mdb_def)

section \<open>Settings that have no effect\<close>

definition reschedule :: "PodSpec \<Rightarrow> PodSpec \<Rightarrow> PodSpec" where
  "reschedule q p = p\<lparr>pod_ContainerSecurityContext := pod_ContainerSecurityContext q, pod_Affinity := pod_Affinity q,
     pod_Tolerations := pod_Tolerations q, pod_NodeSelector := pod_NodeSelector q, pod_PriorityClassName := pod_PriorityClassName q,
     pod_ServiceAccountName := pod_ServiceAccountName q, pod_TopologySpreadConstraints := pod_TopologySpreadConstraints q,
     pod_CustomConfig := pod_CustomConfig q\<rparr>"

text \<open>
  Where a pod runs cannot be configured: two replica sets whose pod settings differ only in
  affinity, tolerations, node selector, priority class, service account, spread constraints,
  container security context and custom configuration get the same StatefulSet.
\<close>

theorem scheduling_settings_ignored:
  "BuildReplicaSetStatefulSet tsm (with_pod (reschedule q p) mdb) = BuildReplicaSetStatefulSet tsm (with_pod p mdb)"
proof -
  have ext: "applyPodSpecExtensions c (reschedule q p) = applyPodSpecExtensions c p" for c
    by (simp add: applyPodSpecExtensions_def reschedule_def Let_def)
  have "apply_pod_spec (Some (reschedule q p)) r c = apply_pod_spec (Some p) r c" for r c
    by (simp add: apply_pod_spec_def ext Let_def) (simp add: reschedule_def)
  moreover have "appendPodSpecPodLevel cs vs (Some (reschedule q p)) = appendPodSpecPodLevel cs vs (Some p)" for cs vs
    by (simp add: appendPodSpecPodLevel_def reschedule_def)
  moreover have "rs_server tsm (with_pod q' mdb) = rs_server tsm mdb" "rs_volumes tsm (with_pod q' mdb) = rs_volumes tsm mdb"
      "rs_exporter (with_pod q' mdb) = rs_exporter mdb" for q'
    by (simp_all add: rs_server_def rs_server_mounts_def rs_volumes_def rs_exporter_def replicaset_args_def with_pod_def split: option.split)
  moreover have "rs_init_containers (with_pod (reschedule q p) mdb) = rs_init_containers (with_pod p mdb)"
    by (simp add: rs_init_containers_def with_pod_def permission_init_def user_init_def reschedule_def)
  moreover have "mdb_Pod (Spec (with_pod q' mdb)) = Some q'" for q' by (simp add: with_pod_def)
  moreover have "pod_SecurityContext (reschedule q p) = pod_SecurityContext p" by (simp add: reschedule_def)
  ultimately show ?thesis
    by (simp add: BuildReplicaSetStatefulSet_def Let_def split_beta) (simp add: with_pod_def user_sidecars_def reschedule_def)
qed

end
