(* ===== verification/Backup_Jobs.thy ===== *)
theory Backup_Jobs
  imports Workloads Go_Time
begin

text \<open>
  The jobs of \<^verbatim>\<open>internal/resources/builder_backup.go\<close>: the dump, the restore and the cron job that
  creates backups, with the two dump scripts of \<^verbatim>\<open>internal/assets/scripts\<close>. The envelope of a job
  comes from \<^verbatim>\<open>batchjob.Build\<close> of the commons library; a job is the parameters that are given to it.
  The embedded templates are constants that always parse, so rendering has no error.
\<close>

record Job =
  job_Name :: string
  job_Namespace :: string
  job_Labels :: LabelSet
  job_BackoffLimit :: int32
  job_TTLSecondsAfterFinished :: int32
  job_Containers :: "Container list"
  job_Volumes :: "Volume list"
  job_PodSecurityContext :: "PodSecurityContext option"

section \<open>Scripts\<close>

definition dquote :: string where "dquote = [CHR 0x22]"

definition backup_pvc_script :: "string \<Rightarrow> string \<Rightarrow> string" where
  "backup_pvc_script clusterName compressionFlag = lines_of
     [[], ''set -e'',
      ''BACKUP_NAME='' @ dquote @ clusterName @ ''-$(date +%Y%m%d-%H%M%S)'' @ dquote,
      ''echo '' @ dquote @ ''Starting backup: ${BACKUP_NAME}'' @ dquote,
      ''mongodump --uri='' @ dquote @ ''${MONGODB_URI}'' @ dquote @ '' --out='' @ dquote @ ''/backup/${BACKUP_NAME}'' @ dquote
        @ '' '' @ compressionFlag,
      ''echo '' @ dquote @ ''Backup completed: ${BACKUP_NAME}'' @ dquote]"

definition backup_s3_script :: "string \<Rightarrow> string \<Rightarrow> string" where
  "backup_s3_script clusterName compressionFlag = lines_of
     [[], ''set -e'',
      ''BACKUP_NAME='' @ dquote @ clusterName @ ''-$(date +%Y%m%d-%H%M%S)'' @ dquote,
      ''echo '' @ dquote @ ''Starting backup: ${BACKUP_NAME}'' @ dquote,
      [],
      ''# Install aws-cli'',
      ''apt-get update && apt-get install -y awscli'',
      [],
      ''# Create backup and upload to S3'',
      ''mongodump --uri='' @ dquote @ ''${MONGODB_URI}'' @ dquote @ '' '' @ compressionFlag @ '' --archive | '' @ [CHR 0x5C],
      ''    aws s3 cp - '' @ dquote @ ''s3://${S3_BUCKET}/${S3_PREFIX}${BACKUP_NAME}.archive.gz'' @ dquote @ '' '' @ [CHR 0x5C],
      ''    --endpoint-url='' @ dquote @ ''${S3_ENDPOINT}'' @ dquote,
      [],
      ''echo '' @ dquote @ ''Backup completed: ${BACKUP_NAME}'' @ dquote]"

definition RenderBackup :: "string \<Rightarrow> string \<Rightarrow> string \<Rightarrow> string" where
  "RenderBackup storageType clusterName compressionFlag =
     (if storageType = ''s3'' then backup_s3_script clusterName compressionFlag
      else backup_pvc_script clusterName compressionFlag)"

definition buildBackupScript :: "MongoDBBackup \<Rightarrow> string" where
  "buildBackupScript backup =
     RenderBackup (bs_Type (bks_Storage (BkSpec backup))) (cr_Name (bks_ClusterRef (BkSpec backup)))
       (if bks_CompressionType (BkSpec backup) = ''zstd'' then ''--archive'' else ''--gzip'')"

section \<open>Dump and restore\<close>

definition secret_env :: "string \<Rightarrow> string \<Rightarrow> string \<Rightarrow> EnvVar" where
  "secret_env name secret key = \<lparr>env_Name = name, env_Source = EnvSecretKeyRef \<lparr>sks_Name = secret, sks_Key = key\<rparr>\<rparr>"

definition s3_env :: "BackupStorageSpec \<Rightarrow> EnvVar list" where
  "s3_env st =
     (case bs_S3 st of None \<Rightarrow> []
      | Some s3 \<Rightarrow> if bs_Type st \<noteq> ''s3'' then [] else
          [env ''S3_BUCKET'' (s3_Bucket s3), env ''S3_ENDPOINT'' (s3_Endpoint s3), env ''S3_REGION'' (s3_Region s3),
           env ''S3_PREFIX'' (s3_Prefix s3), secret_env ''AWS_ACCESS_KEY_ID'' (s3_CredentialsRef s3) ''access-key'',
           secret_env ''AWS_SECRET_ACCESS_KEY'' (s3_CredentialsRef s3) ''secret-key''])"

definition BuildBackupJob :: "MongoDBBackup \<Rightarrow> string \<Rightarrow> Job" where
  "BuildBackupJob backup authSecretName =
     \<lparr>job_Name = om_Name (BkMeta backup), job_Namespace = om_Namespace (BkMeta backup),
      job_Labels = buildLabels (om_Name (BkMeta backup)) ''backup'', job_BackoffLimit = 3, job_TTLSecondsAfterFinished = 86400,
      job_Containers = [(container ''backup'' defaultImage)\<lparr>
        ct_Command := [''/bin/bash'', ''-c''],
        ct_Args := [buildBackupScript backup],
        ct_Env := secret_env ''MONGODB_URI'' authSecretName ''connectionString'' # s3_env (bks_Storage (BkSpec backup)),
        ct_Resources := mkResources (milli 100) (mebi 256) (milli 500) (gibi 1)\<rparr>],
      job_Volumes = [], job_PodSecurityContext = None\<rparr>"

definition restore_script :: string where
  "restore_script = lines_of
     [''set -eu'',
      ''echo '' @ dquote @ ''[restore] source=${SOURCE_BACKUP} pit=${POINT_IN_TIME:-none}'' @ dquote,
      ''RESTORE_FLAGS='' @ dquote @ ''--archive=/data/source/dump.archive --gzip --drop'' @ dquote,
      ''if [ -n '' @ dquote @ ''${POINT_IN_TIME:-}'' @ dquote @ '' ]; then'',
      ''  EPOCH=$(date -u -d '' @ dquote @ ''${POINT_IN_TIME}'' @ dquote @ '' +%s)'',
      ''  RESTORE_FLAGS='' @ dquote @ ''${RESTORE_FLAGS} --oplogReplay --oplogLimit=${EPOCH}:0'' @ dquote,
      ''fi'',
      ''mongorestore --uri '' @ dquote @ ''${MONGODB_URI}'' @ dquote @ '' ${RESTORE_FLAGS}'',
      ''echo '' @ dquote @ ''[restore] completed'' @ dquote]"

text \<open>The point in time is printed with the layout of RFC 3339 in UTC.\<close>

definition BuildRestoreJob :: "MongoDBBackup \<Rightarrow> string \<Rightarrow> go_error + Job" where
  "BuildRestoreJob backup authSecretName =
     (case bks_Restore (BkSpec backup) of
        None \<Rightarrow> Inl (ErrMsg (''backup '' @ om_Name (BkMeta backup) @ '': Spec.Restore is nil''))
      | Some restore \<Rightarrow> Inr
          \<lparr>job_Name = om_Name (BkMeta backup) @ ''-restore'', job_Namespace = om_Namespace (BkMeta backup),
           job_Labels = buildLabels (om_Name (BkMeta backup)) ''restore'', job_BackoffLimit = 3, job_TTLSecondsAfterFinished = 86400,
           job_Containers = [(container ''mongorestore'' (getMongoDBImage \<lparr>ver_Version = ''8.2'', ver_Image = []\<rparr>))\<lparr>
             ct_Command := [''sh'', ''-c'', restore_script],
             ct_Env := [secret_env ''MONGODB_URI'' authSecretName ''connectionString'',
                        env ''SOURCE_BACKUP'' (rst_SourceBackupName restore)]
               @ (case rst_PointInTime restore of None \<Rightarrow> [] | Some t \<Rightarrow> [env ''POINT_IN_TIME'' (rfc3339 t)]),
             ct_VolumeMounts := [ro_mount ''source'' ''/data/source''],
             ct_SecurityContext := DefaultContainerSecurityContext\<rparr>],
           job_Volumes = [\<lparr>vol_Name = ''source'', vol_Source = ClaimVolume (rst_SourceBackupName restore) True\<rparr>],
           job_PodSecurityContext = Some DefaultPodSecurityContext\<rparr>)"

section \<open>Scheduled backups\<close>

record CronJob =
  cj_Name :: string
  cj_Namespace :: string
  cj_Labels :: LabelSet
  cj_Schedule :: string
  cj_SuccessfulJobsHistoryLimit :: int32
  cj_FailedJobsHistoryLimit :: int32
  cj_ServiceAccountName :: string
  cj_Container :: Container

definition backup_manifest :: "string \<Rightarrow> string \<Rightarrow> string \<Rightarrow> string \<Rightarrow> string" where
  "backup_manifest clusterName namespace clusterKind storageType = lines_of
     [''#!/bin/sh'',
      ''set -e'',
      ''BACKUP_NAME='' @ dquote @ clusterName @ ''-scheduled-$(date +%Y%m%d-%H%M%S)'' @ dquote,
      ''cat <<MANIFEST | kubectl apply -f -'',
      ''apiVersion: mongodb.keiailab.com/v1alpha1'',
      ''kind: MongoDBBackup'',
      ''metadata:'',
      ''  name: ${BACKUP_NAME}'',
      ''  namespace: '' @ namespace,
      ''  labels:'',
      ''    app.kubernetes.io/managed-by: backup-scheduler'',
      ''    app.kubernetes.io/instance: '' @ clusterName,
      ''spec:'',
      ''  clusterRef:'',
      ''    name: '' @ clusterName,
      ''    kind: '' @ clusterKind,
      ''  type: full'',
      ''  compression: true'',
      ''  storage:'',
      ''    type: '' @ storageType,
      ''MANIFEST'',
      ''echo '' @ dquote @ ''Created backup ${BACKUP_NAME}'' @ dquote]"

definition BuildBackupCronJob :: "string \<Rightarrow> string \<Rightarrow> string \<Rightarrow> string \<Rightarrow> BackupSpec \<Rightarrow> CronJob" where
  "BuildBackupCronJob clusterName namespace schedule clusterKind backupSpec =
     (let storageType = defaultStr (bs_Type (bk_Storage backupSpec)) ''pvc'' in
      \<lparr>cj_Name = clusterName @ ''-backup-schedule'', cj_Namespace = namespace,
       cj_Labels = buildLabels clusterName ''backup-scheduler'', cj_Schedule = schedule,
       cj_SuccessfulJobsHistoryLimit = 3, cj_FailedJobsHistoryLimit = 1,
       cj_ServiceAccountName = clusterName @ ''-backup-scheduler'',
       cj_Container = (container ''scheduler'' ''registry.k8s.io/kubectl:v1.31.0'')\<lparr>
         ct_Command := [''/bin/sh'', ''-c''],
         ct_Args := [backup_manifest clusterName namespace clusterKind storageType],
         ct_SecurityContext := DefaultContainerSecurityContext\<rparr>\<rparr>)"

end
