(* ===== verification/Backup.thy ===== *)
theory Backup
  imports Backup_Jobs Replica_Set
begin

text \<open>
  The backup controller (\<^verbatim>\<open>mongodbbackup_controller.go\<close>) and the backup verification controller
  (\<^verbatim>\<open>mongodbbackupverification_controller.go\<close>). Besides the world of a controller they read clusters
  and jobs and count documents; these answers are the records \<open>backup_env\<close> and \<open>verify_env\<close>.
\<close>

section \<open>Surroundings\<close>

record JobCondition =
  jc_Type :: string
  jc_Status :: string
  jc_Message :: string
  jc_LastTransitionTime :: gotime

record JobStatus =
  js_Conditions :: "JobCondition list"
  js_Active :: int32

text \<open>
  \<^verbatim>\<open>SetControllerReference\<close> may refuse the named object. Whether \<^verbatim>\<open>HandleFinalizerCleanup\<close> calls the
  cleanup function is decided by the commons library.
\<close>

record backup_env =
  be_mongodb :: "nat \<Rightarrow> string \<Rightarrow> string \<Rightarrow> go_error + MongoDB"
  be_sharded :: "nat \<Rightarrow> string \<Rightarrow> string \<Rightarrow> go_error + MongoDBSharded"
  be_job :: "nat \<Rightarrow> string \<Rightarrow> string \<Rightarrow> go_error + JobStatus"
  be_SetControllerReference :: "nat \<Rightarrow> string \<Rightarrow> go_error option"
  be_runs_cleanup :: "nat \<Rightarrow> MongoDBBackup \<Rightarrow> bool"

definition FinalizerMongoDBBackup :: string where "FinalizerMongoDBBackup = ''mongodbbackup.keiailab.com/finalizer''"
definition backupPhaseCompleted :: string where "backupPhaseCompleted = ''Completed''"
definition backupPhaseFailed :: string where "backupPhaseFailed = ''Failed''"
definition backupPhasePassed :: string where "backupPhasePassed = ''Passed''"
definition backupPhasePending :: string where "backupPhasePending = ''Pending''"
definition backupPhaseRunning :: string where "backupPhaseRunning = ''Running''"
definition backupPhaseRestoring :: string where "backupPhaseRestoring = ''Restoring''"

lemmas backup_phases = backupPhaseCompleted_def backupPhaseFailed_def backupPhasePassed_def backupPhasePending_def
  backupPhaseRunning_def backupPhaseRestoring_def

abbreviation BkName :: "MongoDBBackup \<Rightarrow> string" where "BkName b \<equiv> om_Name (BkMeta b)"
abbreviation BkNamespace :: "MongoDBBackup \<Rightarrow> string" where "BkNamespace b \<equiv> om_Namespace (BkMeta b)"
abbreviation BkPhase :: "MongoDBBackup \<Rightarrow> string" where "BkPhase b \<equiv> bkst_Phase (BkStatus b)"
abbreviation BkRestore :: "MongoDBBackup \<Rightarrow> RestoreSpec option" where "BkRestore b \<equiv> bks_Restore (BkSpec b)"

definition upd_bk :: "(MongoDBBackupStatus \<Rightarrow> MongoDBBackupStatus) \<Rightarrow> MongoDBBackup \<Rightarrow> MongoDBBackup" where
  "upd_bk f b = b\<lparr>BkStatus := f (BkStatus b)\<rparr>"

lemma upd_bk_simps [simp]:
  "BkMeta (upd_bk f b) = BkMeta b" "BkSpec (upd_bk f b) = BkSpec b" "BkStatus (upd_bk f b) = f (BkStatus b)"
  by (simp_all add: upd_bk_def)

section \<open>The connection string\<close>

definition backup_uri :: "string \<Rightarrow> string \<Rightarrow> string \<Rightarrow> string" where
  "backup_uri username password host = ''mongodb://'' @ username @ '':'' @ password @ ''@'' @ host @ ''/?authSource=admin''"

definition createOrUpdateSecret :: "MongoDBBackup world \<Rightarrow> string \<Rightarrow> string \<Rightarrow> (MongoDBBackup, go_error option) ctl" where
  "createOrUpdateSecret W secretName connStr = do {
     backup \<leftarrow> the_obj;
     existing \<leftarrow> ask (\<lambda>k. w_secret W k secretName (BkNamespace backup));
     case existing of
       Inl e \<Rightarrow> if IsNotFound e then apply_built W (''backup-uri '' @ connStr) else ret (Some e)
     | Inr _ \<Rightarrow> apply_built W (''backup-uri '' @ connStr)
   }"

text \<open>The host of the cluster and the name of its admin secret.\<close>

definition backup_target :: "backup_env \<Rightarrow> (MongoDBBackup, go_error + string \<times> string) ctl" where
  "backup_target E = do {
     backup \<leftarrow> the_obj;
     let ref = bks_ClusterRef (BkSpec backup);
     let ns = BkNamespace backup;
     if cr_Kind ref = ''MongoDB'' then do {
       got \<leftarrow> ask (\<lambda>k. be_mongodb E k (cr_Name ref) ns);
       ret (case got of
         Inl e \<Rightarrow> Inl (Wrapped ''failed to get MongoDB cluster'' e)
       | Inr mdb \<Rightarrow> Inr (Name mdb @ ''.'' @ ns @ ''.svc.cluster.local:27017'', auth_AdminCredentialsSecretRef (mdb_Auth (Spec mdb))))
     }
     else if cr_Kind ref = ''MongoDBSharded'' then do {
       got \<leftarrow> ask (\<lambda>k. be_sharded E k (cr_Name ref) ns);
       ret (case got of
         Inl e \<Rightarrow> Inl (Wrapped ''failed to get MongoDBSharded cluster'' e)
       | Inr m \<Rightarrow> Inr (ShName m @ ''-mongos.'' @ ns @ ''.svc.cluster.local:27017'', auth_AdminCredentialsSecretRef (shd_Auth (ShSpec m))))
     }
     else ret (Inl (ErrMsg (''unknown cluster kind: '' @ cr_Kind ref)))
   }"

definition getClusterConnectionString :: "backup_env \<Rightarrow> MongoDBBackup world \<Rightarrow> (MongoDBBackup, go_error + string) ctl" where
  "getClusterConnectionString E W = do {
     target \<leftarrow> backup_target E;
     backup \<leftarrow> the_obj;
     case target of
       Inl e \<Rightarrow> ret (Inl e)
     | Inr (host, authSecretName) \<Rightarrow> do {
         got \<leftarrow> ask (\<lambda>k. w_secret W k authSecretName (BkNamespace backup));
         case got of
           Inl e \<Rightarrow> ret (Inl (Wrapped (''failed to get auth secret '' @ authSecretName) e))
         | Inr secret \<Rightarrow>
             let username = map_get (sec_Data secret) ''username''; password = map_get (sec_Data secret) ''password'';
                 secretName = BkName backup @ ''-backup-uri'' in
             if username = [] \<or> password = []
             then ret (Inl (ErrMsg (''auth secret '' @ authSecretName @ '' missing username or password'')))
             else do {
               owner \<leftarrow> ask (\<lambda>k. be_SetControllerReference E k secretName);
               case owner of
                 Some e \<Rightarrow> ret (Inl (Wrapped ''failed to set owner reference on backup URI secret'' e))
               | None \<Rightarrow> do {
                   err \<leftarrow> createOrUpdateSecret W secretName (backup_uri username password host);
                   ret (case err of
                     Some e \<Rightarrow> Inl (Wrapped ''failed to create backup URI secret'' e)
                   | None \<Rightarrow> Inr secretName)
                 }
             }
       }
   }"

section \<open>The backup controller\<close>

text \<open>A job that exists is left as it is; only the owner reference is set.\<close>

definition createOrUpdate :: "MongoDBBackup world \<Rightarrow> string \<Rightarrow> (MongoDBBackup, go_error option) ctl" where
  "createOrUpdate W what = apply_built W what"

definition applyRestoringStatus :: "MongoDBBackup mutator" where
  "applyRestoringStatus now = upd_bk (\<lambda>s. s\<lparr>bkst_Phase := backupPhaseRestoring, bkst_StartTime := Some now\<rparr>)"

definition applyPendingStatus :: "MongoDBBackup mutator" where
  "applyPendingStatus now = upd_bk (\<lambda>s. s\<lparr>bkst_Phase := backupPhasePending, bkst_StartTime := Some now\<rparr>)"

definition applyFailedStatus :: "go_error \<Rightarrow> MongoDBBackup mutator" where
  "applyFailedStatus e now = upd_bk (\<lambda>s. s\<lparr>bkst_Phase := backupPhaseFailed, bkst_Error := Error e, bkst_CompletionTime := Some now\<rparr>)"

fun apply_job_conditions :: "JobCondition list \<Rightarrow> MongoDBBackupStatus \<Rightarrow> MongoDBBackupStatus" where
  "apply_job_conditions [] s = s"
| "apply_job_conditions (c # cs) s =
     (if jc_Type c = ''Complete'' \<and> jc_Status c = ''True''
      then s\<lparr>bkst_Phase := backupPhaseCompleted, bkst_CompletionTime := Some (jc_LastTransitionTime c)\<rparr>
      else if jc_Type c = ''Failed'' \<and> jc_Status c = ''True''
      then s\<lparr>bkst_Phase := backupPhaseFailed, bkst_Error := jc_Message c, bkst_CompletionTime := Some (jc_LastTransitionTime c)\<rparr>
      else apply_job_conditions cs s)"

definition s3_location :: "MongoDBBackup \<Rightarrow> string option" where
  "s3_location b =
     (if bs_Type (bks_Storage (BkSpec b)) = ''s3'' then
        map_option (\<lambda>s3. ''s3://'' @ s3_Bucket s3 @ ''/'' @ s3_Prefix s3 @ BkName b) (bs_S3 (bks_Storage (BkSpec b)))
      else None)"

definition applyJobStatus :: "JobStatus \<Rightarrow> MongoDBBackup mutator" where
  "applyJobStatus job now b =
     (let s1 = apply_job_conditions (js_Conditions job) (BkStatus b);
          s2 = (if js_Active job > 0 then s1\<lparr>bkst_Phase := backupPhaseRunning\<rparr> else s1) in
      b\<lparr>BkStatus := (case s3_location b of None \<Rightarrow> s2 | Some l \<Rightarrow> s2\<lparr>bkst_Location := l\<rparr>)\<rparr>)"

definition updateBackupStatus :: "backup_env \<Rightarrow> MongoDBBackup world \<Rightarrow> string \<Rightarrow> (MongoDBBackup, go_error option) ctl" where
  "updateBackupStatus E W jobName = do {
     backup \<leftarrow> the_obj;
     got \<leftarrow> ask (\<lambda>k. be_job E k jobName (BkNamespace backup));
     case got of
       Inl e \<Rightarrow> ret (Some e)
     | Inr job \<Rightarrow> UpdateWithRetry W (applyJobStatus job)
   }"

definition backup_updateStatusError :: "MongoDBBackup world \<Rightarrow> go_error \<Rightarrow> (MongoDBBackup, reconcile_result) ctl" where
  "backup_updateStatusError W err = do {
     _ \<leftarrow> UpdateWithRetry W (applyFailedStatus err);
     ret (no_requeue, Some err)
   }"

definition handleDeletion :: "backup_env \<Rightarrow> MongoDBBackup world \<Rightarrow> (MongoDBBackup, reconcile_result) ctl" where
  "handleDeletion E W = do {
     backup \<leftarrow> the_obj;
     run \<leftarrow> ask (\<lambda>k. be_runs_cleanup E k backup);
     (if run then do {
        got \<leftarrow> ask (\<lambda>k. be_job E k (BkName backup) (BkNamespace backup));
        (case got of Inl _ \<Rightarrow> ret None | Inr _ \<Rightarrow> delete_named W ''Job'' (BkName backup))
      } else ret None);
     ask (\<lambda>k. w_HandleFinalizerCleanup W k backup)
   }"

text \<open>A resource that asks for a restore.\<close>

definition restore_pass :: "backup_env \<Rightarrow> MongoDBBackup world \<Rightarrow> (MongoDBBackup, reconcile_result) ctl" where
  "restore_pass E W = do {
     backup \<leftarrow> the_obj;
     err \<leftarrow> (if BkPhase backup = [] \<or> BkPhase backup = backupPhasePending
             then UpdateWithRetry W applyRestoringStatus else ret None);
     case err of
       Some e \<Rightarrow> ret (no_requeue, Some e)
     | None \<Rightarrow> do {
         conn \<leftarrow> getClusterConnectionString E W;
         backup \<leftarrow> the_obj;
         case conn of
           Inl _ \<Rightarrow> ret (requeue_after requeueProvisioning, None)
         | Inr authSecretName \<Rightarrow>
             (case BuildRestoreJob backup authSecretName of
                Inl e \<Rightarrow> backup_updateStatusError W e
              | Inr _ \<Rightarrow> do {
                  err \<leftarrow> createOrUpdate W ''restore-job'';
                  case err of
                    Some e \<Rightarrow> backup_updateStatusError W e
                  | None \<Rightarrow> ret (requeue_after requeueProvisioning, None)
                })
       }
   }"

text \<open>A resource that asks for a backup.\<close>

definition capture_pass :: "backup_env \<Rightarrow> MongoDBBackup world \<Rightarrow> (MongoDBBackup, reconcile_result) ctl" where
  "capture_pass E W = do {
     backup \<leftarrow> the_obj;
     err \<leftarrow> (if BkPhase backup = [] then UpdateWithRetry W applyPendingStatus else ret None);
     case err of
       Some e \<Rightarrow> ret (no_requeue, Some e)
     | None \<Rightarrow> do {
         conn \<leftarrow> getClusterConnectionString E W;
         case conn of
           Inl e \<Rightarrow> backup_updateStatusError W e
         | Inr authSecretName \<Rightarrow> do {
             backup \<leftarrow> the_obj;
             err \<leftarrow> createOrUpdate W ''backup-job'';
             case err of
               Some e \<Rightarrow> backup_updateStatusError W e
             | None \<Rightarrow> do {
                 err \<leftarrow> updateBackupStatus E W (job_Name (BuildBackupJob backup authSecretName));
                 backup \<leftarrow> the_obj;
                 ret (case err of
                   Some e \<Rightarrow> (no_requeue, Some e)
                 | None \<Rightarrow> if BkPhase backup = backupPhaseRunning \<or> BkPhase backup = backupPhasePending
                     then (requeue_after requeueProvisioning, None) else (no_requeue, None))
               }
           }
       }
   }"

definition ReconcileBackup :: "backup_env \<Rightarrow> MongoDBBackup world \<Rightarrow> (MongoDBBackup, reconcile_result) ctl" where
  "ReconcileBackup E W = do {
     got \<leftarrow> ask (w_get W);
     case got of
       Inl e \<Rightarrow> ret (no_requeue, if IsNotFound e then None else Some e)
     | Inr backup \<Rightarrow> do {
         put_obj backup;
         if om_DeletionTimestamp (BkMeta backup) \<noteq> None then handleDeletion E W
         else if FinalizerMongoDBBackup \<notin> set (om_Finalizers (BkMeta backup)) then do {
           put_obj (backup\<lparr>BkMeta := (BkMeta backup)\<lparr>om_Finalizers := om_Finalizers (BkMeta backup) @ [FinalizerMongoDBBackup]\<rparr>\<rparr>);
           err \<leftarrow> update_object W;
           ret (case err of Some e \<Rightarrow> (no_requeue, Some e) | None \<Rightarrow> (requeue_now, None))
         }
         else if BkPhase backup = backupPhaseCompleted \<or> BkPhase backup = backupPhaseFailed then ret (no_requeue, None)
         else if BkRestore backup \<noteq> None then restore_pass E W
         else capture_pass E W
       }
   }"

end
