(* ===== verification/Backup_Verification.thy ===== *)
theory Backup_Verification
  imports Backup
begin

text \<open>
  The resource and the controller of backup verifications
  (\<^verbatim>\<open>mongodbbackupverification_types.go\<close>, \<^verbatim>\<open>mongodbbackupverification_controller.go\<close>): restore a backup
  with a job of its own, then count documents in the restored database. The driver of the
  counter and the parser of its filters are parameters; error messages are glossed in English.
\<close>

section \<open>The resource\<close>

record VerificationQuery =
  vq_DB :: string
  vq_Collection :: string
  vq_FilterJSON :: string
  vq_MinExpectedDocs :: int64

record MongoDBBackupVerificationSpec =
  vfs_BackupRef :: string
  vfs_SampleQueries :: "VerificationQuery list"
  vfs_CleanupOnSuccess :: bool
  vfs_Queryable :: "QueryableBackupSpec option"

record VerificationQueryResult =
  vr_DB :: string
  vr_Collection :: string
  vr_DocCount :: int64
  vr_Passed :: bool

record MongoDBBackupVerificationStatus =
  vst_Phase :: string
  vst_StartTime :: "gotime option"
  vst_CompletionTime :: "gotime option"
  vst_QueryResults :: "VerificationQueryResult list"
  vst_QueryableInstance :: string
  vst_Error :: string
  vst_Conditions :: "Condition list"

record MongoDBBackupVerification =
  VfMeta :: ObjectMeta
  VfSpec :: MongoDBBackupVerificationSpec
  VfStatus :: MongoDBBackupVerificationStatus

abbreviation VfName :: "MongoDBBackupVerification \<Rightarrow> string" where "VfName v \<equiv> om_Name (VfMeta v)"
abbreviation VfNamespace :: "MongoDBBackupVerification \<Rightarrow> string" where "VfNamespace v \<equiv> om_Namespace (VfMeta v)"
abbreviation VfPhase :: "MongoDBBackupVerification \<Rightarrow> string" where "VfPhase v \<equiv> vst_Phase (VfStatus v)"

definition upd_vf :: "(MongoDBBackupVerificationStatus \<Rightarrow> MongoDBBackupVerificationStatus) \<Rightarrow> MongoDBBackupVerification \<Rightarrow> MongoDBBackupVerification" where
  "upd_vf f v = v\<lparr>VfStatus := f (VfStatus v)\<rparr>"

lemma upd_vf_simps [simp]:
  "VfMeta (upd_vf f v) = VfMeta v" "VfSpec (upd_vf f v) = VfSpec v" "VfStatus (upd_vf f v) = f (VfStatus v)"
  by (simp_all add: upd_vf_def)

section \<open>The counter\<close>

type_synonym doc_counter = "nat \<Rightarrow> string \<Rightarrow> string \<Rightarrow> string \<Rightarrow> int64 \<times> go_error option"

text \<open>
  \<open>ve_NewDocCounter\<close> connects to the restored database. \<^verbatim>\<open>mongoDocCounter.Count\<close> parses the filter and
  asks the driver.
\<close>

record verify_env =
  ve_job :: "nat \<Rightarrow> string \<Rightarrow> string \<Rightarrow> go_error + JobStatus"
  ve_NewDocCounter :: "nat \<Rightarrow> string \<Rightarrow> go_error + doc_counter"

definition mongoDocCounter_Count ::
    "(string \<Rightarrow> go_error + bson_doc) \<Rightarrow> (nat \<Rightarrow> string \<Rightarrow> string \<Rightarrow> bson_doc \<Rightarrow> int64 \<times> go_error option) \<Rightarrow> doc_counter" where
  "mongoDocCounter_Count unmarshal CountDocuments k db coll filterJSON =
     (let f = (if filterJSON = [] then ''{}'' else filterJSON) in
      case unmarshal f of
        Inl e \<Rightarrow> (0, Some (Wrapped (''filterJSON '' @ f) e))
      | Inr flt \<Rightarrow> CountDocuments k db coll flt)"

section \<open>The controller\<close>

definition Status_Update :: "MongoDBBackupVerification world \<Rightarrow> (MongoDBBackupVerification, go_error option) ctl" where
  "Status_Update W = do {
     v \<leftarrow> the_obj;
     r \<leftarrow> ask (\<lambda>k. w_update_object W k v);
     put_obj (fst r);
     emit_if_ok (snd r) (PersistStatus (fst r));
     ret (snd r)
   }"

definition verify_wait :: duration where "verify_wait = 30 * second"
definition connect_wait :: duration where "connect_wait = 15 * second"

definition readRestoreConnString :: "MongoDBBackupVerification world \<Rightarrow> (MongoDBBackupVerification, go_error + string) ctl" where
  "readRestoreConnString W = do {
     v \<leftarrow> the_obj;
     let name = vfs_BackupRef (VfSpec v) @ ''-backup-uri'';
     got \<leftarrow> ask (\<lambda>k. w_secret W k name (VfNamespace v));
     ret (case got of
       Inl e \<Rightarrow> Inl e
     | Inr secret \<Rightarrow>
         let connStr = map_get (sec_Data secret) ''connectionString'' in
         if connStr = [] then Inl (ErrMsg (''secret '' @ name @ '': connectionString missing'')) else Inr connStr)
   }"

text \<open>The first phase: wait for the backup, record the start, restore.\<close>

definition begin_restore :: "MongoDBBackupVerification world \<Rightarrow> MongoDBBackup \<Rightarrow> (MongoDBBackupVerification, reconcile_result) ctl" where
  "begin_restore W backup = do {
     err \<leftarrow> Status_Update W;
     case err of
       Some e \<Rightarrow> ret (no_requeue, Some e)
     | None \<Rightarrow>
         (case BuildRestoreJob backup (BkName backup @ ''-backup-uri'') of
            Inl e \<Rightarrow> ret (no_requeue, Some (Wrapped ''build restore job'' e))
          | Inr _ \<Rightarrow> do {
              err \<leftarrow> apply_built W ''verify-restore-job'';
              ret (case err of
                Some e \<Rightarrow> (no_requeue, Some (Wrapped ''create restore job'' e))
              | None \<Rightarrow> (requeue_after verify_wait, None))
            })
   }"

definition verify_pending :: "MongoDBBackupVerification world \<Rightarrow> (MongoDBBackupVerification, reconcile_result) ctl" where
  "verify_pending W = do {
     v \<leftarrow> the_obj;
     got \<leftarrow> ask (\<lambda>k. w_backup W k (vfs_BackupRef (VfSpec v)) (VfNamespace v));
     case got of
       Inl e \<Rightarrow> ret (if IsNotFound e then (requeue_after verify_wait, None) else (no_requeue, Some e))
     | Inr backup \<Rightarrow>
         if BkPhase backup \<noteq> backupPhaseCompleted then ret (requeue_after verify_wait, None)
         else do {
           now \<leftarrow> ask (w_now W);
           put_obj (upd_vf (\<lambda>s. s\<lparr>vst_Phase := backupPhaseRestoring, vst_StartTime := Some now\<rparr>) v);
           case BuildQueryableStatefulSet backup (vfs_Queryable (VfSpec v)) of
             None \<Rightarrow> begin_restore W backup
           | Some sts \<Rightarrow> do {
               err \<leftarrow> apply_built W ''queryable-statefulset'';
               case err of
                 Some e \<Rightarrow> ret (no_requeue, Some (Wrapped ''create queryable statefulset'' e))
               | None \<Rightarrow> do {
                   v \<leftarrow> the_obj;
                   put_obj (upd_vf (\<lambda>s. s\<lparr>vst_QueryableInstance := wl_Name sts\<rparr>) v);
                   begin_restore W backup
                 }
             }
         }
   }"

text \<open>The second phase: the first condition of the job that is true decides.\<close>

fun job_verdict :: "JobCondition list \<Rightarrow> bool option" where
  "job_verdict [] = None"
| "job_verdict (c # cs) =
     (if jc_Type c = ''Complete'' \<and> jc_Status c = ''True'' then Some True
      else if jc_Type c = ''Failed'' \<and> jc_Status c = ''True'' then Some False
      else job_verdict cs)"

definition verify_restoring :: "verify_env \<Rightarrow> MongoDBBackupVerification world \<Rightarrow> (MongoDBBackupVerification, reconcile_result) ctl" where
  "verify_restoring E W = do {
     v \<leftarrow> the_obj;
     got \<leftarrow> ask (\<lambda>k. ve_job E k (VfName v @ ''-verify-restore'') (VfNamespace v));
     case got of
       Inl e \<Rightarrow> ret (if IsNotFound e then (requeue_after verify_wait, None) else (no_requeue, Some e))
     | Inr job \<Rightarrow>
         (case job_verdict (js_Conditions job) of
            None \<Rightarrow> ret (requeue_after verify_wait, None)
          | Some True \<Rightarrow> do {
              put_obj (upd_vf (\<lambda>s. s\<lparr>vst_Phase := ''Verifying''\<rparr>) v);
              err \<leftarrow> Status_Update W;
              ret (case err of Some e \<Rightarrow> (no_requeue, Some e) | None \<Rightarrow> (requeue_now, None))
            }
          | Some False \<Rightarrow> do {
              now \<leftarrow> ask (w_now W);
              put_obj (upd_vf (\<lambda>s. s\<lparr>vst_Phase := backupPhaseFailed, vst_CompletionTime := Some now,
                vst_QueryResults := vst_QueryResults s @ [\<lparr>vr_DB = ''restore'', vr_Collection = ''job'', vr_DocCount = 0, vr_Passed = False\<rparr>]\<rparr>) v);
              err \<leftarrow> Status_Update W;
              ret (no_requeue, err)
            })
   }"

text \<open>The third phase: count the documents of every sample query.\<close>

definition default_query :: VerificationQuery where
  "default_query = \<lparr>vq_DB = ''admin'', vq_Collection = ''system.version'', vq_FilterJSON = ''{}'', vq_MinExpectedDocs = 1\<rparr>"

definition queries_of :: "MongoDBBackupVerification \<Rightarrow> VerificationQuery list" where
  "queries_of v = (if vfs_SampleQueries (VfSpec v) = [] then [default_query] else vfs_SampleQueries (VfSpec v))"

definition query_passes :: "VerificationQuery \<Rightarrow> int64 \<times> go_error option \<Rightarrow> bool" where
  "query_passes q answer \<longleftrightarrow> snd answer = None \<and> vq_MinExpectedDocs q \<le> fst answer"

fun run_queries ::
    "doc_counter \<Rightarrow> VerificationQuery list \<Rightarrow> bool \<Rightarrow> VerificationQueryResult list
     \<Rightarrow> (MongoDBBackupVerification, bool \<times> VerificationQueryResult list) ctl" where
  "run_queries cnt [] allPassed results = ret (allPassed, results)"
| "run_queries cnt (q # qs) allPassed results = do {
     answer \<leftarrow> ask (\<lambda>k. cnt k (vq_DB q) (vq_Collection q) (vq_FilterJSON q));
     let passed = query_passes q answer;
     run_queries cnt qs (allPassed \<and> passed)
       (results @ [\<lparr>vr_DB = vq_DB q, vr_Collection = vq_Collection q, vr_DocCount = fst answer, vr_Passed = passed\<rparr>])
   }"

definition verify_verifying :: "verify_env \<Rightarrow> MongoDBBackupVerification world \<Rightarrow> (MongoDBBackupVerification, reconcile_result) ctl" where
  "verify_verifying E W = do {
     conn \<leftarrow> readRestoreConnString W;
     case conn of
       Inl e \<Rightarrow> ret (if IsNotFound e then (requeue_after connect_wait, None) else (no_requeue, Some (Wrapped ''restore connectionString'' e)))
     | Inr connStr \<Rightarrow> do {
         counter \<leftarrow> ask (\<lambda>k. ve_NewDocCounter E k connStr);
         case counter of
           Inl _ \<Rightarrow> ret (requeue_after connect_wait, None)
         | Inr cnt \<Rightarrow> do {
             v \<leftarrow> the_obj;
             now \<leftarrow> ask (w_now W);
             r \<leftarrow> run_queries cnt (queries_of v) True [];
             put_obj (upd_vf (\<lambda>s. s\<lparr>vst_QueryResults := vst_QueryResults s @ snd r,
               vst_Phase := (if fst r then backupPhasePassed else backupPhaseFailed), vst_CompletionTime := Some now\<rparr>) v);
             err \<leftarrow> Status_Update W;
             ret (no_requeue, err)
           }
       }
   }"

definition ReconcileVerification :: "verify_env \<Rightarrow> MongoDBBackupVerification world \<Rightarrow> (MongoDBBackupVerification, reconcile_result) ctl" where
  "ReconcileVerification E W = do {
     got \<leftarrow> ask (w_get W);
     case got of
       Inl e \<Rightarrow> ret (no_requeue, if IsNotFound e then None else Some e)
     | Inr v \<Rightarrow> do {
         put_obj v;
         if VfPhase v = [] \<or> VfPhase v = ''Pending'' then verify_pending W
         else if VfPhase v = ''Restoring'' then verify_restoring E W
         else if VfPhase v = ''Verifying'' then verify_verifying E W
         else ret (no_requeue, None)
       }
   }"

end
