(* ===== verification/Backup_Laws.thy ===== *)
theory Backup_Laws
  imports Backup_Verification Replica_Set_Laws
begin

text \<open>
  Backups as a protocol: the phases a backup may go through, as a step relation on phases alone,
  and the proof that every pass of the controller follows it, whatever the API server answers. The
  life of a backup then inherits what the protocol guarantees.
\<close>

section \<open>The protocol\<close>

definition bk_terminal :: "string \<Rightarrow> bool" where
  "bk_terminal p \<longleftrightarrow> p = ''Completed'' \<or> p = ''Failed''"

text \<open>
  \<open>bk_step J restore\<close> is a step of a resource that asks for a restore or not, when \<open>J\<close> are the
  states in which its dump job can be observed.
\<close>

inductive bk_step :: "JobStatus set \<Rightarrow> bool \<Rightarrow> string \<Rightarrow> string \<Rightarrow> bool" for J where
  accepted: "bk_step J False [] ''Pending''"
| restoring: "p = [] \<or> p = ''Pending'' \<Longrightarrow> bk_step J True p ''Restoring''"
| running: "\<not> bk_terminal p \<Longrightarrow> j \<in> J \<Longrightarrow> 0 < js_Active j \<Longrightarrow> bk_step J False p ''Running''"
| completed: "\<not> bk_terminal p \<Longrightarrow> j \<in> J \<Longrightarrow> js_Active j \<le> 0 \<Longrightarrow> job_verdict (js_Conditions j) = Some True \<Longrightarrow>
    bk_step J False p ''Completed''"
| failed: "\<not> bk_terminal p \<Longrightarrow> bk_step J r p ''Failed''"

inductive_cases bk_stepE: "bk_step J r p q"
inductive_simps bk_step_completed: "bk_step J r p ''Completed''"

definition bk_trans :: "JobStatus set \<Rightarrow> bool \<Rightarrow> string \<Rightarrow> string \<Rightarrow> bool" where
  "bk_trans J r p q \<longleftrightarrow> q = p \<or> bk_step J r p q"

definition job_states :: "backup_env \<Rightarrow> MongoDBBackup \<Rightarrow> JobStatus set" where
  "job_states E b = {j. \<exists>i. be_job E i (BkName b) (BkNamespace b) = Inr j}"

text \<open>
  What the operator relies on: an object that is read again after a conflict may have been edited,
  but it is the same resource, its status is written by this controller only, and a backup is not
  turned into a restore while the pass runs. (Between passes it may be: see the life of a backup below.)
\<close>

definition same_backup :: "MongoDBBackup \<Rightarrow> MongoDBBackup \<Rightarrow> bool" where
  "same_backup b b' \<longleftrightarrow> BkStatus b' = BkStatus b \<and> BkRestore b' = BkRestore b
     \<and> BkName b' = BkName b \<and> BkNamespace b' = BkNamespace b"

section \<open>A pass follows the protocol\<close>

definition same_kind :: "MongoDBBackup \<Rightarrow> MongoDBBackup \<Rightarrow> bool" where
  "same_kind b m \<longleftrightarrow> BkRestore m = BkRestore b \<and> BkName m = BkName b \<and> BkNamespace m = BkNamespace b"

definition chain :: "JobStatus set \<Rightarrow> MongoDBBackup \<Rightarrow> MongoDBBackup rstate \<Rightarrow> bool" where
  "chain J b s \<longleftrightarrow> successively (bk_trans J (BkRestore b \<noteq> None)) (map BkPhase (b # persisted (r_log s)))
     \<and> (\<forall>m \<in> set (persisted (r_log s)). same_kind b m)"

definition on_track :: "JobStatus set \<Rightarrow> MongoDBBackup \<Rightarrow> MongoDBBackup rstate \<Rightarrow> bool" where
  "on_track J b s \<longleftrightarrow> chain J b s \<and> BkPhase (r_obj s) = BkPhase (stored b (r_log s))
     \<and> BkRestore (r_obj s) = BkRestore b \<and> BkName (r_obj s) = BkName b \<and> BkNamespace (r_obj s) = BkNamespace b"

lemma chain_snoc:
  assumes c: "chain J b s" and t: "bk_trans J (BkRestore b \<noteq> None) (BkPhase (stored b (r_log s))) (BkPhase m)"
    and k: "same_kind b m"
  shows "chain J b (s\<lparr>r_obj := x, r_tick := n, r_log := r_log s @ [PersistStatus m]\<rparr>)"
proof -
  let ?ps = "map BkPhase (b # persisted (r_log s))"
  have "last ?ps = BkPhase (stored b (r_log s))" unfolding stored_persisted by (rule last_map) simp
  with c t have "successively (bk_trans J (BkRestore b \<noteq> None)) (?ps @ [BkPhase m])"
    unfolding chain_def successively_append_iff by simp
  then show ?thesis using c k by (simp add: chain_def)
qed

lemma chain_cong: "r_log s' = r_log s \<Longrightarrow> chain J b s' = chain J b s"
  by (simp add: chain_def)

lemma track_update:
  assumes "retry_ok same_backup W" and "on_track J b s"
    and "\<And>t m. BkMeta (f t m) = BkMeta m \<and> BkSpec (f t m) = BkSpec m"
    and "\<And>t m. same_backup (r_obj s) m \<Longrightarrow> bk_trans J (BkRestore b \<noteq> None) (BkPhase (r_obj s)) (BkPhase (f t m))"
  shows "wp (UpdateWithRetry W f) (\<lambda>err s'. chain J b s' \<and> (err = None \<longrightarrow> on_track J b s' \<and> (\<exists>t m. same_backup (r_obj s) m \<and> r_obj s' = f t m))) s"
proof (rule wp_update [OF assms(1)])
  fix t m assume m: "same_backup (r_obj s) m"
  let ?s' = "s\<lparr>r_obj := f t m, r_tick := Suc (Suc (r_tick s)), r_log := r_log s @ [PersistStatus (f t m)]\<rparr>"
  have "chain J b ?s'"
    using assms(2) assms(3) [of t m] assms(4) [OF m, of t] m by (intro chain_snoc) (simp_all add: on_track_def same_kind_def same_backup_def)
  moreover have "on_track J b ?s'"
    using calculation assms(2) assms(3) [of t m] m by (simp add: on_track_def same_backup_def)
  ultimately show "chain J b ?s' \<and> (None = None \<longrightarrow> on_track J b ?s' \<and> (\<exists>t' m'. same_backup (r_obj s) m' \<and> r_obj ?s' = f t' m'))"
    using m by auto
qed (use assms(2) in \<open>auto simp: on_track_def chain_def\<close>)

lemma on_track_cong:
  "r_log s' = r_log s \<Longrightarrow> r_obj s' = r_obj s \<Longrightarrow> on_track J b s' = on_track J b s"
  by (simp add: on_track_def chain_def)

definition live :: "MongoDBBackup rstate \<Rightarrow> bool" where
  "live s \<longleftrightarrow> \<not> bk_terminal (BkPhase (r_obj s))"

definition track_live :: "JobStatus set \<Rightarrow> MongoDBBackup \<Rightarrow> MongoDBBackup rstate \<Rightarrow> bool" where
  "track_live J b s \<longleftrightarrow> on_track J b s \<and> live s"

lemmas track_defs = track_live_def on_track_def chain_def live_def

lemma keeps_track_ask [keeps_intros]: "keeps (track_live J b) (ask q)"
  by (auto simp: keeps_def wp_simps track_defs)

lemma keeps_track_apply [keeps_intros]: "keeps (track_live J b) (apply_built W what)"
  unfolding apply_built_def by (intro keeps_intros) (auto simp: keeps_def wp_simps track_defs)

lemma keeps_track_connection: "keeps (track_live J b) (getClusterConnectionString E W)"
  unfolding getClusterConnectionString_def backup_target_def createOrUpdateSecret_def Let_def
  by (intro keeps_intros)

lemma track_chain: "track_live J b s \<Longrightarrow> chain J b s"
  by (simp add: track_defs)

lemma track_failed:
  assumes "retry_ok same_backup W" and "track_live J b s"
  shows "wp (backup_updateStatusError W e) (\<lambda>_. chain J b) s"
proof -
  have "wp (UpdateWithRetry W (applyFailedStatus e)) (\<lambda>err s'. chain J b s' \<and> (err = None \<longrightarrow> on_track J b s'
      \<and> (\<exists>t m. same_backup (r_obj s) m \<and> r_obj s' = applyFailedStatus e t m))) s"
    using assms by (intro track_update)
      (auto simp: applyFailedStatus_def bk_trans_def backup_phases track_live_def live_def intro: bk_step.failed)
  then show ?thesis unfolding backup_updateStatusError_def wp_bind wp_ret by (rule wp_mono) simp
qed

text \<open>An update that leaves the backup unfinished.\<close>

lemma track_live_update:
  assumes "retry_ok same_backup W" and "track_live J b s"
    and "\<And>t m. BkMeta (f t m) = BkMeta m \<and> BkSpec (f t m) = BkSpec m"
    and "\<And>t m. same_backup (r_obj s) m \<Longrightarrow> bk_trans J (BkRestore b \<noteq> None) (BkPhase (r_obj s)) (BkPhase (f t m)) \<and> \<not> bk_terminal (BkPhase (f t m))"
  shows "wp (UpdateWithRetry W f) (\<lambda>err s'. chain J b s' \<and> (err = None \<longrightarrow> track_live J b s')) s"
proof -
  have "wp (UpdateWithRetry W f) (\<lambda>err s'. chain J b s' \<and> (err = None \<longrightarrow> on_track J b s' \<and> (\<exists>t m. same_backup (r_obj s) m \<and> r_obj s' = f t m))) s"
    using assms by (intro track_update) (auto simp: track_live_def)
  then show ?thesis by (rule wp_mono) (use assms(4) in \<open>auto simp: track_live_def live_def\<close>)
qed

lemma track_then:
  assumes "wp c (\<lambda>err s'. chain J b s' \<and> (err = None \<longrightarrow> track_live J b s')) s"
    and "\<And>s'. track_live J b s' \<Longrightarrow> wp d (\<lambda>_. chain J b) s'"
  shows "wp (State_Monad.bind c (\<lambda>err. case err of Some e \<Rightarrow> ret (no_requeue, Some e) | None \<Rightarrow> d)) (\<lambda>_. chain J b) s"
  unfolding wp_bind
  by (rule wp_mono [OF assms(1)]) (use assms(2) in \<open>auto simp: wp_simps split: option.splits\<close>)

lemma track_connection:
  assumes "track_live J b s" and "\<And>r s'. track_live J b s' \<Longrightarrow> wp (f r) Q s'"
  shows "wp (State_Monad.bind (getClusterConnectionString E W) f) Q s"
  unfolding wp_bind by (rule wp_mono [OF keeps_wp [OF keeps_track_connection assms(1)]]) (rule assms(2))

lemma track_apply:
  assumes "retry_ok same_backup W" and "track_live J b s" and "\<And>s'. track_live J b s' \<Longrightarrow> wp d (\<lambda>_. chain J b) s'"
  shows "wp (State_Monad.bind (apply_built W what) (\<lambda>err. case err of Some e \<Rightarrow> backup_updateStatusError W e | None \<Rightarrow> d)) (\<lambda>_. chain J b) s"
  unfolding wp_bind
  by (rule wp_mono [OF keeps_wp [OF keeps_track_apply assms(2)]])
    (use assms(3) track_failed [OF assms(1)] in \<open>auto split: option.splits\<close>)

lemma restore_follows:
  assumes "retry_ok same_backup W" and "track_live J b s" and "BkRestore b \<noteq> None"
  shows "wp (restore_pass E W) (\<lambda>_. chain J b) s"
  unfolding restore_pass_def wp_bind [of the_obj] wp_the_obj
proof (rule track_then)
  let ?p = "BkPhase (r_obj s)"
  show "wp (if ?p = [] \<or> ?p = backupPhasePending then UpdateWithRetry W applyRestoringStatus else ret None)
      (\<lambda>err s'. chain J b s' \<and> (err = None \<longrightarrow> track_live J b s')) s"
  proof (cases "?p = [] \<or> ?p = backupPhasePending")
    case True
    then have "bk_trans J (BkRestore b \<noteq> None) ?p ''Restoring''"
      using assms(3) by (auto simp: bk_trans_def backup_phases intro: bk_step.restoring)
    then have "wp (UpdateWithRetry W applyRestoringStatus) (\<lambda>err s'. chain J b s' \<and> (err = None \<longrightarrow> track_live J b s')) s"
      using assms(1,2) by (intro track_live_update) (simp_all add: applyRestoringStatus_def backup_phases bk_terminal_def)
    with True show ?thesis by simp
  qed (use assms(2) track_chain in \<open>auto simp: wp_simps\<close>)
next
  fix s' assume "track_live J b s'"
  then show "wp (do {
      conn \<leftarrow> getClusterConnectionString E W; backup \<leftarrow> the_obj;
      case conn of Inl x \<Rightarrow> ret (requeue_after requeueProvisioning, None)
      | Inr authSecretName \<Rightarrow> (case BuildRestoreJob backup authSecretName of Inl e \<Rightarrow> backup_updateStatusError W e
         | Inr x \<Rightarrow> do { err \<leftarrow> createOrUpdate W ''restore-job'';
              case err of None \<Rightarrow> ret (requeue_after requeueProvisioning, None) | Some e \<Rightarrow> backup_updateStatusError W e })
    }) (\<lambda>_. chain J b) s'"
  proof (rule track_connection)
    fix r s assume t: "track_live J b s"
    then show "wp (do { backup \<leftarrow> the_obj;
      case r of Inl x \<Rightarrow> ret (requeue_after requeueProvisioning, None)
      | Inr authSecretName \<Rightarrow> (case BuildRestoreJob backup authSecretName of Inl e \<Rightarrow> backup_updateStatusError W e
         | Inr x \<Rightarrow> do { err \<leftarrow> createOrUpdate W ''restore-job'';
              case err of None \<Rightarrow> ret (requeue_after requeueProvisioning, None) | Some e \<Rightarrow> backup_updateStatusError W e }) }) (\<lambda>_. chain J b) s"
      using track_failed [OF assms(1) t] track_apply [OF assms(1) t, of "ret (requeue_after requeueProvisioning, None)" "''restore-job''"]
      by (auto simp: wp_the_obj wp_bind [of the_obj] wp_ret createOrUpdate_def track_chain split: sum.splits)
  qed
qed

lemma apply_conditions_verdict:
  "bkst_Phase (apply_job_conditions cs s) =
     (case job_verdict cs of None \<Rightarrow> bkst_Phase s | Some ok \<Rightarrow> if ok then ''Completed'' else ''Failed'')"
  by (induction cs) (auto simp: backup_phases split: option.splits)

lemma job_status_phase:
  "BkPhase (applyJobStatus job t m) =
     (if 0 < js_Active job then ''Running''
      else case job_verdict (js_Conditions job) of None \<Rightarrow> BkPhase m | Some ok \<Rightarrow> if ok then ''Completed'' else ''Failed'')"
  by (auto simp: applyJobStatus_def Let_def apply_conditions_verdict backup_phases split: option.splits)

lemma job_status_step:
  assumes "job \<in> J" and "\<not> bk_terminal (BkPhase m)"
  shows "bk_trans J False (BkPhase m) (BkPhase (applyJobStatus job t m))"
proof (cases "0 < js_Active job")
  case True
  then show ?thesis using assms by (auto simp: job_status_phase bk_trans_def intro: bk_step.running)
next
  case False
  then show ?thesis
    using assms by (cases "job_verdict (js_Conditions job)")
      (auto simp: job_status_phase bk_trans_def intro: bk_step.completed bk_step.failed)
qed

lemma track_job_status:
  assumes "retry_ok same_backup W" and "track_live J b s" and "BkRestore b = None" and "J = job_states E b"
  shows "wp (updateBackupStatus E W (BkName (r_obj s))) (\<lambda>_. chain J b) s"
proof -
  have names: "BkName (r_obj s) = BkName b" "BkNamespace (r_obj s) = BkNamespace b" using assms(2) by (simp_all add: track_defs)
  have "wp (UpdateWithRetry W (applyJobStatus job)) (\<lambda>_. chain J b) s'"
    if job: "job \<in> J" and s': "track_live J b s'" for job s'
  proof -
    have "bk_trans J False (BkPhase (r_obj s')) (BkPhase (applyJobStatus job t m))" if "same_backup (r_obj s') m" for t m
      using that job_status_step [OF job, of m t] s' by (simp add: same_backup_def track_live_def live_def)
    then have "wp (UpdateWithRetry W (applyJobStatus job)) (\<lambda>err t. chain J b t \<and> (err = None \<longrightarrow> on_track J b t
        \<and> (\<exists>u m. same_backup (r_obj s') m \<and> r_obj t = applyJobStatus job u m))) s'"
      using s' assms(1,3) by (intro track_update) (auto simp: applyJobStatus_def Let_def track_live_def)
    then show ?thesis by (rule wp_mono) simp
  qed
  moreover have "track_live J b (s\<lparr>r_tick := n\<rparr>)" for n using assms(2) by (auto simp: track_defs)
  ultimately have "wp (case be_job E (r_tick s) (BkName b) (BkNamespace b) of Inl e \<Rightarrow> ret (Some e)
      | Inr job \<Rightarrow> UpdateWithRetry W (applyJobStatus job)) (\<lambda>_. chain J b) (s\<lparr>r_tick := Suc (r_tick s)\<rparr>)"
    using assms(4) by (cases "be_job E (r_tick s) (BkName b) (BkNamespace b)") (auto simp: wp_ret job_states_def track_chain)
  then show ?thesis by (simp add: updateBackupStatus_def wp_bind wp_the_obj wp_ask names)
qed

lemma capture_follows:
  assumes "retry_ok same_backup W" and "track_live J b s" and "BkRestore b = None" and "J = job_states E b"
  shows "wp (capture_pass E W) (\<lambda>_. chain J b) s"
  unfolding capture_pass_def wp_bind [of the_obj] wp_the_obj
proof (rule track_then)
  let ?p = "BkPhase (r_obj s)"
  show "wp (if ?p = [] then UpdateWithRetry W applyPendingStatus else ret None)
      (\<lambda>err s'. chain J b s' \<and> (err = None \<longrightarrow> track_live J b s')) s"
  proof (cases "?p = []")
    case True
    then have "bk_trans J (BkRestore b \<noteq> None) ?p ''Pending''"
      using assms(3) by (simp add: bk_trans_def bk_step.accepted)
    then have "wp (UpdateWithRetry W applyPendingStatus) (\<lambda>err s'. chain J b s' \<and> (err = None \<longrightarrow> track_live J b s')) s"
      using assms(1,2) by (intro track_live_update) (simp_all add: applyPendingStatus_def backup_phases bk_terminal_def)
    with True show ?thesis by simp
  qed (use assms(2) track_chain in \<open>auto simp: wp_simps\<close>)
next
  let ?finish = "\<lambda>a. do { backup \<leftarrow> the_obj; err \<leftarrow> createOrUpdate W ''backup-job'';
      case err of None \<Rightarrow> do { err \<leftarrow> updateBackupStatus E W (job_Name (BuildBackupJob backup a)); backup \<leftarrow> the_obj;
            ret (case err of None \<Rightarrow> if BkPhase backup = backupPhaseRunning \<or> BkPhase backup = backupPhasePending
              then (requeue_after requeueProvisioning, None) else (no_requeue, None) | Some e \<Rightarrow> (no_requeue, Some e)) }
      | Some e \<Rightarrow> backup_updateStatusError W e }"
  have fin: "wp (?finish a) (\<lambda>_. chain J b) s'" if "track_live J b s'" for a s'
    unfolding wp_bind [of the_obj] wp_the_obj createOrUpdate_def
  proof (rule track_apply [OF assms(1) that])
    fix s assume t: "track_live J b s"
    have "BkName (r_obj s') = BkName (r_obj s)" using that t by (simp add: track_defs)
    with track_job_status [OF assms(1) t assms(3,4)]
    have "wp (updateBackupStatus E W (job_Name (BuildBackupJob (r_obj s') a))) (\<lambda>_. chain J b) s" by (simp add: BuildBackupJob_def)
    then show "wp (do { err \<leftarrow> updateBackupStatus E W (job_Name (BuildBackupJob (r_obj s') a)); backup \<leftarrow> the_obj;
            ret (case err of None \<Rightarrow> if BkPhase backup = backupPhaseRunning \<or> BkPhase backup = backupPhasePending
              then (requeue_after requeueProvisioning, None) else (no_requeue, None) | Some e \<Rightarrow> (no_requeue, Some e)) })
        (\<lambda>_. chain J b) s"
      unfolding wp_bind by (rule wp_mono) (simp add: wp_simps)
  qed
  fix s' assume "track_live J b s'"
  then show "wp (do { conn \<leftarrow> getClusterConnectionString E W;
      case conn of Inl e \<Rightarrow> backup_updateStatusError W e | Inr a \<Rightarrow> ?finish a }) (\<lambda>_. chain J b) s'"
    by (rule track_connection) (use fin track_failed [OF assms(1)] in \<open>auto split: sum.splits\<close>)
qed

lemma update_object_chain:
  assumes "honest same_backup W" and "on_track J b s"
  shows "wp (update_object W) (\<lambda>_. chain J b) s"
proof -
  obtain m' e where u: "w_update_object W (r_tick s) (r_obj s) = (m', e)" by fastforce
  then have "same_backup (r_obj s) m'" using assms(1) by (auto simp: honest_def)
  then have "bk_trans J (BkRestore b \<noteq> None) (BkPhase (stored b (r_log s))) (BkPhase m')"
    using assms(2) by (simp add: bk_trans_def same_backup_def on_track_def)
  moreover have "same_kind b m'" using \<open>same_backup (r_obj s) m'\<close> assms(2) by (simp add: same_kind_def same_backup_def on_track_def)
  ultimately show ?thesis
    using assms(2) chain_snoc [of J b s m'] by (simp add: update_object_def wp_simps u on_track_def) (auto simp: chain_def)
qed

lemma keeps_chain_deletion: "keeps (chain J b) (handleDeletion E W)"
  unfolding handleDeletion_def delete_named_def
  by (intro keeps_intros) (auto simp: keeps_def wp_simps chain_def)

lemma pass_follows:
  assumes "honest same_backup W" and "w_get W k = Inr b"
  shows "wp (ReconcileBackup E W) (\<lambda>_. chain (job_states E b) b) (start_run b k)"
proof -
  let ?J = "job_states E b"
  have r: "retry_ok same_backup W" using assms(1) by (rule honest_retry)
  have start: "on_track ?J b s" if "r_log s = []" "BkPhase (r_obj s) = BkPhase b \<and> BkRestore (r_obj s) = BkRestore b
      \<and> BkName (r_obj s) = BkName b \<and> BkNamespace (r_obj s) = BkNamespace b" for s
    using that by (simp add: on_track_def chain_def)
  have live: "track_live ?J b s" if "r_log s = []" "r_obj s = b" "\<not> bk_terminal (BkPhase b)" for s
    using that start [of s] by (simp add: track_live_def live_def)
  have fin: "wp (update_object W) (\<lambda>err. wp (ret (x err)) (\<lambda>_. chain ?J b)) s" if "on_track ?J b s" for x s
    by (rule wp_mono [OF update_object_chain [OF assms(1) that]]) (simp add: wp_simps)
  show ?thesis
    unfolding ReconcileBackup_def wp_bind wp_ask wp_put_obj wp_if
    by (simp add: assms(2) wp_put_obj wp_bind wp_if wp_ret)
      (auto intro!: fin start keeps_wp [OF keeps_chain_deletion] restore_follows [OF r] capture_follows [OF r] live
        simp: bk_terminal_def backup_phases chain_def wp_bind wp_put_obj wp_ret)
qed

text \<open>
  C21. The backup controller refines the protocol: in a pass over a stored backup, whatever the API
  server answers and however often a write is retried, the phases that are stored one after the
  other are steps of the protocol. In particular a backup is completed only when its job was seen
  finished and successful, a restore is never completed, and a finished backup is never touched.
\<close>

theorem backup_refines_protocol:
  assumes "honest same_backup W" and "w_get W k = Inr b" and "run_state (ReconcileBackup E W) (start_run b k) = (r, s')"
  shows "successively (bk_trans (job_states E b) (BkRestore b \<noteq> None)) (map BkPhase (b # persisted (r_log s')))"
  using pass_follows [OF assms(1,2), of E] assms(3) by (auto simp: wp_def chain_def)

section \<open>Examples\<close>

definition sample_backup :: "string \<Rightarrow> MongoDBBackup" where
  "sample_backup phase = \<lparr>BkMeta = \<lparr>om_Name = ''nightly'', om_Namespace = ''db'', om_Generation = 1, om_DeletionTimestamp = None,
       om_Finalizers = [FinalizerMongoDBBackup], om_Annotations = []\<rparr>,
     BkSpec = \<lparr>bks_ClusterRef = \<lparr>cr_Name = ''main'', cr_Kind = ''MongoDB''\<rparr>,
       bks_Storage = \<lparr>bs_Type = ''pvc'', bs_S3 = None, bs_PVC = None\<rparr>, bks_Type = ''full'', bks_Compression = True,
       bks_CompressionType = ''zstd'', bks_Restore = None\<rparr>,
     BkStatus = \<lparr>bkst_Phase = phase, bkst_StartTime = None, bkst_CompletionTime = None, bkst_Size = [], bkst_Location = [],
       bkst_Error = [], bkst_Conditions = []\<rparr>\<rparr>"

definition finished_job :: JobStatus where
  "finished_job = \<lparr>js_Conditions = [\<lparr>jc_Type = ''Complete'', jc_Status = ''True'', jc_Message = [], jc_LastTransitionTime = 7\<rparr>], js_Active = 0\<rparr>"

definition sample_env :: backup_env where
  "sample_env = \<lparr>be_mongodb = \<lambda>_ _ _. Inr sample_mdb, be_sharded = \<lambda>_ _ _. Inl (ErrNotFound []), be_job = \<lambda>_ _ _. Inr finished_job,
     be_SetControllerReference = \<lambda>_ _. None, be_runs_cleanup = \<lambda>_ _. True\<rparr>"

definition backup_world :: "MongoDBBackup \<Rightarrow> MongoDBBackup world" where
  "backup_world b = (sample_world 5 done_sts [] yes_driver)\<lparr>w_get := \<lambda>_. Inr b\<rparr>"

lemma backup_world_honest: "honest same_backup (backup_world b)"
  by (auto simp: honest_def backup_world_def sample_world_def same_backup_def retry_ok_def accept_update_def)

lemmas backup_run = ReconcileBackup_def capture_pass_def getClusterConnectionString_def backup_target_def createOrUpdateSecret_def
  createOrUpdate_def updateBackupStatus_def apply_built_def BuildBackupJob_def applyJobStatus_def backup_phases Let_def

lemma sample_capture:
  "map BkPhase (persisted (r_log (snd (run_state (ReconcileBackup sample_env (backup_world (sample_backup ''Pending'')))
     (start_run (sample_backup ''Pending'') 0))))) = [''Completed'']"
proof -
  have "wp (ReconcileBackup sample_env (backup_world (sample_backup ''Pending'')))
      (\<lambda>_ s. map BkPhase (persisted (r_log s)) = [''Completed'']) (start_run (sample_backup ''Pending'') 0)"
    by (simp add: backup_run wp_simps sample_backup_def backup_world_def sample_world_def sample_env_def finished_job_def
        accept_update_def sample_mdb_def map_get_def s3_location_def)
  then show ?thesis by (simp add: wp_def split: prod.splits)
qed

theorem backup_refines_protocol_witness:
  "successively (bk_trans (job_states sample_env (sample_backup ''Pending'')) False) [''Pending'', ''Completed'']"
  using backup_refines_protocol [OF backup_world_honest, of "sample_backup ''Pending''" 0 "sample_backup ''Pending''" sample_env,
      OF _ surjective_pairing] sample_capture
  by (simp add: backup_world_def sample_backup_def)

section \<open>The life of a backup\<close>

text \<open>
  A backup is created, reconciled and edited in any order; an edit may change every setting of the
  spec, and while a pass runs, writers that it conflicts with leave \<^verbatim>\<open>spec.restore\<close> alone. \<open>js\<close> are
  the states of its dump job that the API server has served so far, and \<open>changed\<close> says whether
  \<^verbatim>\<open>spec.restore\<close> has ever been changed: nothing forbids that.
\<close>

definition edited_backup :: "MongoDBBackup \<Rightarrow> MongoDBBackup \<Rightarrow> bool" where
  "edited_backup b b' \<longleftrightarrow> BkStatus b' = BkStatus b \<and> BkName b' = BkName b \<and> BkNamespace b' = BkNamespace b"

inductive backup_life :: "bool \<Rightarrow> JobStatus set \<Rightarrow> MongoDBBackup \<Rightarrow> bool" where
  bk_created: "BkPhase b = [] \<Longrightarrow> backup_life False {} b"
| bk_reconciled: "backup_life changed js b \<Longrightarrow> honest same_backup W \<Longrightarrow> w_get W k = Inr b \<Longrightarrow>
    run_state (ReconcileBackup E W) (start_run b k) = (r, s') \<Longrightarrow> backup_life changed (js \<union> job_states E b) (stored b (r_log s'))"
| bk_edited: "backup_life changed js b \<Longrightarrow> edited_backup b b' \<Longrightarrow> backup_life (changed \<or> BkRestore b' \<noteq> BkRestore b) js b'"

definition succeeded :: "JobStatus \<Rightarrow> bool" where
  "succeeded j \<longleftrightarrow> js_Active j \<le> 0 \<and> job_verdict (js_Conditions j) = Some True"

text \<open>What the protocol guarantees of a phase, and that its steps keep it.\<close>

definition dumped :: "JobStatus set \<Rightarrow> string \<Rightarrow> bool" where
  "dumped js p \<longleftrightarrow> (p = ''Completed'' \<longrightarrow> (\<exists>j \<in> js. succeeded j))"

definition bk_inv :: "JobStatus set \<Rightarrow> bool \<Rightarrow> string \<Rightarrow> bool" where
  "bk_inv js r p \<longleftrightarrow> (p = ''Completed'' \<longrightarrow> \<not> r \<and> (\<exists>j \<in> js. succeeded j))
     \<and> (r \<longrightarrow> p = [] \<or> p = ''Restoring'' \<or> p = ''Failed'')"

lemma bk_inv_step: "bk_trans J r p q \<Longrightarrow> bk_inv js r p \<Longrightarrow> J \<subseteq> js \<Longrightarrow> bk_inv js r q"
  by (auto simp: bk_trans_def bk_inv_def succeeded_def elim!: bk_stepE)

lemma dumped_step: "bk_trans J r p q \<Longrightarrow> dumped js p \<Longrightarrow> J \<subseteq> js \<Longrightarrow> dumped js q"
  by (auto simp: bk_trans_def dumped_def succeeded_def elim!: bk_stepE)

lemma restore_step: "bk_trans J True p q \<Longrightarrow> p \<noteq> ''Completed'' \<Longrightarrow> q \<noteq> ''Completed''"
  by (auto simp: bk_trans_def elim!: bk_stepE)

lemma successively_inv:
  assumes "successively P (x # xs)" and "I x" and "\<And>x y. P x y \<Longrightarrow> I x \<Longrightarrow> I y" and "y \<in> set (x # xs)"
  shows "I y"
  using assms by (induction xs arbitrary: x) auto

text \<open>What every step keeps holds of the phase that a pass leaves in the store.\<close>

lemma pass_life:
  assumes "honest same_backup W" and "w_get W k = Inr b" and "run_state (ReconcileBackup E W) (start_run b k) = (r, s')"
  shows "same_kind b (stored b (r_log s'))"
    and "I (BkPhase b) \<Longrightarrow> (\<And>p q. bk_trans (job_states E b) (BkRestore b \<noteq> None) p q \<Longrightarrow> I p \<Longrightarrow> I q)
      \<Longrightarrow> I (BkPhase (stored b (r_log s')))"
proof -
  have c: "chain (job_states E b) b s'" using pass_follows [OF assms(1,2), of E] assms(3) by (auto simp: wp_def)
  then show "same_kind b (stored b (r_log s'))"
    using stored_cases [of b "r_log s'"] by (auto simp: chain_def same_kind_def)
  have m: "BkPhase (stored b (r_log s')) \<in> set (BkPhase b # map BkPhase (persisted (r_log s')))"
    using stored_cases [of b "r_log s'"] by auto
  assume i: "I (BkPhase b)" and step: "\<And>p q. bk_trans (job_states E b) (BkRestore b \<noteq> None) p q \<Longrightarrow> I p \<Longrightarrow> I q"
  have "successively (bk_trans (job_states E b) (BkRestore b \<noteq> None)) (BkPhase b # map BkPhase (persisted (r_log s')))"
    using c by (simp add: chain_def)
  from this i step m show "I (BkPhase (stored b (r_log s')))" by (rule successively_inv)
qed

lemma life_dumped: "backup_life changed js b \<Longrightarrow> dumped js (BkPhase b)"
proof (induction rule: backup_life.induct)
  case (bk_reconciled changed js b W k E r s')
  have "dumped (js \<union> job_states E b) (BkPhase b)" using bk_reconciled.IH by (auto simp: dumped_def)
  from pass_life(2) [OF bk_reconciled.hyps(2-4), of "dumped (js \<union> job_states E b)", OF this dumped_step] show ?case by simp
qed (simp_all add: dumped_def edited_backup_def)

lemma life_inv: "backup_life changed js b \<Longrightarrow> \<not> changed \<Longrightarrow> bk_inv js (BkRestore b \<noteq> None) (BkPhase b)"
proof (induction rule: backup_life.induct)
  case (bk_reconciled changed js b W k E r s')
  have "bk_inv (js \<union> job_states E b) (BkRestore b \<noteq> None) (BkPhase b)"
    using bk_reconciled.IH bk_reconciled.prems by (auto simp: bk_inv_def)
  from pass_life(2) [OF bk_reconciled.hyps(2-4), of "bk_inv (js \<union> job_states E b) (BkRestore b \<noteq> None)", OF this bk_inv_step]
    pass_life(1) [OF bk_reconciled.hyps(2-4)]
  show ?case by (simp add: same_kind_def)
qed (simp_all add: bk_inv_def edited_backup_def)

text \<open>
  C23. A completed backup has a successful dump behind it: over any interleaving of passes and edits,
  edits of \<^verbatim>\<open>spec.restore\<close> included, and of conflicts with writers that leave \<^verbatim>\<open>spec.restore\<close> alone
  while a pass runs, a resource is in phase \<^verbatim>\<open>Completed\<close> only if the API server has answered, in one
  of the passes, that its job is finished with success and has no active pod. A pass over a
  resource that asks for a restore never completes it; so, unless \<^verbatim>\<open>spec.restore\<close> is changed after
  the creation, a completed resource does not ask for a restore.
\<close>

theorem completed_backup_has_dump:
  assumes "backup_life changed js b" and "honest same_backup W" and "w_get W k = Inr b"
    and "run_state (ReconcileBackup E W) (start_run b k) = (r, s')"
  shows "(BkPhase b = ''Completed'' \<longrightarrow> (\<exists>j \<in> js. succeeded j))
    \<and> (BkRestore b \<noteq> None \<and> BkPhase b \<noteq> ''Completed'' \<longrightarrow> BkPhase (stored b (r_log s')) \<noteq> ''Completed'')
    \<and> (\<not> changed \<and> BkPhase b = ''Completed'' \<longrightarrow> BkRestore b = None)"
proof -
  have "BkPhase (stored b (r_log s')) \<noteq> ''Completed''" if "BkRestore b \<noteq> None" "BkPhase b \<noteq> ''Completed''"
    by (rule pass_life(2) [OF assms(2-4), where I = "\<lambda>p. p \<noteq> ''Completed''"]) (use that restore_step in auto)
  then show ?thesis
    using life_dumped [OF assms(1)] life_inv [OF assms(1)] by (auto simp: dumped_def bk_inv_def)
qed

definition sample_done :: MongoDBBackup where
  "sample_done = stored (sample_backup []) (r_log (snd (run_state (ReconcileBackup sample_env (backup_world (sample_backup [])))
     (start_run (sample_backup []) 0))))"

lemma sample_done_life: "backup_life False (job_states sample_env (sample_backup [])) sample_done"
proof -
  have "backup_life False {} (sample_backup [])" by (rule bk_created) (simp add: sample_backup_def)
  from bk_reconciled [OF this backup_world_honest, of "sample_backup []" 0 sample_env, OF _ surjective_pairing]
  show ?thesis by (simp add: sample_done_def backup_world_def)
qed

lemma sample_done_phase: "BkPhase sample_done = ''Completed''" "BkRestore sample_done = None" "BkName sample_done = ''nightly''"
proof -
  have "wp (ReconcileBackup sample_env (backup_world (sample_backup [])))
      (\<lambda>_ s. let b = stored (sample_backup []) (r_log s) in BkPhase b = ''Completed'' \<and> BkRestore b = None \<and> BkName b = ''nightly'')
      (start_run (sample_backup []) 0)"
    by (simp add: backup_run wp_simps sample_backup_def backup_world_def sample_world_def sample_env_def finished_job_def
        accept_update_def sample_mdb_def map_get_def s3_location_def applyPendingStatus_def)
  then show "BkPhase sample_done = ''Completed''" "BkRestore sample_done = None" "BkName sample_done = ''nightly''"
    by (simp_all add: wp_def sample_done_def Let_def split: prod.splits)
qed

theorem completed_backup_has_dump_witness:
  "BkPhase sample_done = ''Completed'' \<and> (\<exists>j. j \<in> job_states sample_env (sample_backup []) \<and> succeeded j)"
  using completed_backup_has_dump [OF sample_done_life backup_world_honest, of sample_done 0 sample_env, OF _ surjective_pairing]
    sample_done_phase by (simp add: backup_world_def) blast

end
