(* ===== verification/Verification_Laws.thy ===== *)
theory Verification_Laws
  imports Backup_Laws Replica_Set_Status Sharded_Upgrade
begin

text \<open>
  Backups together with what uses them: the verification of a backup, the backup that precedes an
  upgrade, the jobs and the connection string.
\<close>

section \<open>Verifications\<close>


definition restore_created :: "MongoDBBackupVerification effect list \<Rightarrow> bool" where
  "restore_created es \<longleftrightarrow> (\<exists>v. Applied ''verify-restore-job'' v \<in> set es)"


definition vf_waiting :: "MongoDBBackupVerification \<Rightarrow> bool" where
  "vf_waiting v \<longleftrightarrow> VfPhase v = [] \<or> VfPhase v = ''Restoring''"

definition vf_stuck :: "MongoDBBackupVerification rstate \<Rightarrow> bool" where
  "vf_stuck s \<longleftrightarrow> \<not> restore_created (r_log s) \<and> (\<forall>v \<in> set (persisted (r_log s)). vf_waiting v)"


lemma keeps_stuck_ask [keeps_intros]: "keeps vf_stuck (ask q)"
  by (simp add: keeps_def wp_simps vf_stuck_def)





definition sample_verification :: MongoDBBackupVerification where
  "sample_verification = \<lparr>VfMeta = \<lparr>om_Name = ''drill'', om_Namespace = ''db'', om_Generation = 1, om_DeletionTimestamp = None,
       om_Finalizers = [], om_Annotations = []\<rparr>,
     VfSpec = \<lparr>vfs_BackupRef = ''nightly'', vfs_SampleQueries = [], vfs_CleanupOnSuccess = True, vfs_Queryable = None\<rparr>,
     VfStatus = \<lparr>vst_Phase = [], vst_StartTime = None, vst_CompletionTime = None, vst_QueryResults = [], vst_QueryableInstance = [],
       vst_Error = [], vst_Conditions = []\<rparr>\<rparr>"


definition sample_verify_env :: verify_env where
  "sample_verify_env = \<lparr>ve_job = \<lambda>_ _ _. Inl (ErrNotFound []), ve_NewDocCounter = \<lambda>_ _. Inr (\<lambda>_ _ _ _. (3, None))\<rparr>"



text \<open>The answers to the queries, in the order in which they are asked.\<close>

fun answers :: "doc_counter \<Rightarrow> nat \<Rightarrow> VerificationQuery list \<Rightarrow> (int64 \<times> go_error option) list" where
  "answers cnt t [] = []"
| "answers cnt t (q # qs) = cnt t (vq_DB q) (vq_Collection q) (vq_FilterJSON q) # answers cnt (Suc t) qs"

definition query_result :: "VerificationQuery \<Rightarrow> int64 \<times> go_error option \<Rightarrow> VerificationQueryResult" where
  "query_result q a = \<lparr>vr_DB = vq_DB q, vr_Collection = vq_Collection q, vr_DocCount = fst a, vr_Passed = query_passes q a\<rparr>"

lemma wp_run_queries:
  "wp (run_queries cnt qs ok rs) Q s =
     Q (ok \<and> list_all2 query_passes qs (answers cnt (r_tick s) qs), rs @ map2 query_result qs (answers cnt (r_tick s) qs))
       (s\<lparr>r_tick := r_tick s + length qs\<rparr>)"
  by (induction qs arbitrary: ok rs s) (simp_all add: wp_simps query_result_def conj_assoc Let_def)

text \<open>
  The verdict on a restored backup: when the database can be reached and the status write is
  accepted, a pass in phase \<^verbatim>\<open>Verifying\<close> asks every sample query once and in order, records one
  result per query, and ends in \<^verbatim>\<open>Passed\<close> exactly if every query was answered without error and
  with at least the expected number of documents.
\<close>

theorem verification_verdict:
  assumes "w_get W k = Inr v" and "VfPhase v = ''Verifying''"
    and "w_secret W (Suc k) (vfs_BackupRef (VfSpec v) @ ''-backup-uri'') (VfNamespace v) = Inr secret"
    and "map_get (sec_Data secret) ''connectionString'' = uri" and "uri \<noteq> []"
    and "ve_NewDocCounter E (k + 2) uri = Inr cnt" and "\<forall>i x. w_update_object W i x = (x, None)"
    and "run_state (ReconcileVerification E W) (start_run v k) = (r, s')"
  shows "r = (no_requeue, None)
    \<and> map VfPhase (persisted (r_log s')) = [if list_all2 query_passes (queries_of v) (answers cnt (k + 4) (queries_of v)) then ''Passed'' else ''Failed'']
    \<and> map (\<lambda>v. vst_QueryResults (VfStatus v)) (persisted (r_log s')) =
        [vst_QueryResults (VfStatus v) @ map2 query_result (queries_of v) (answers cnt (k + 4) (queries_of v))]"
proof -
  have "wp (ReconcileVerification E W) (\<lambda>r s'. r = (no_requeue, None)
      \<and> map VfPhase (persisted (r_log s')) = [if list_all2 query_passes (queries_of v) (answers cnt (k + 4) (queries_of v)) then ''Passed'' else ''Failed'']
      \<and> map (\<lambda>v. vst_QueryResults (VfStatus v)) (persisted (r_log s')) =
          [vst_QueryResults (VfStatus v) @ map2 query_result (queries_of v) (answers cnt (k + 4) (queries_of v))]) (start_run v k)"
    using assms(1-7) by (simp add: ReconcileVerification_def verify_verifying_def readRestoreConnString_def Status_Update_def
        wp_simps wp_run_queries backup_phases Let_def numeral_eq_Suc)
  then show ?thesis using assms(8) by (simp add: wp_def)
qed

definition restored_verification :: MongoDBBackupVerification where
  "restored_verification = upd_vf (\<lambda>s. s\<lparr>vst_Phase := ''Verifying''\<rparr>) sample_verification"

definition restored_world :: "MongoDBBackupVerification world" where
  "restored_world = (sample_world 5 done_sts [] yes_driver)\<lparr>w_get := \<lambda>_. Inr restored_verification,
     w_secret := \<lambda>_ n _. Inr \<lparr>sec_Name = n, sec_Data = [(''connectionString'', ''mongodb://db'')]\<rparr>\<rparr>"

theorem verification_verdict_witness:
  "map VfPhase (persisted (r_log (snd (run_state (ReconcileVerification sample_verify_env restored_world)
     (start_run restored_verification 0))))) = [''Passed'']"
  using verification_verdict [OF _ _ _ _ _ _ _ surjective_pairing, of restored_world 0 restored_verification
      "\<lparr>sec_Name = ''nightly-backup-uri'', sec_Data = [(''connectionString'', ''mongodb://db'')]\<rparr>" "''mongodb://db''"
      sample_verify_env "\<lambda>_ _ _ _. (3, None)"]
  by (simp add: restored_world_def restored_verification_def sample_verification_def sample_world_def map_get_def
      sample_verify_env_def queries_of_def default_query_def query_passes_def)

section \<open>The backup before an upgrade\<close>

text \<open>The schema of the resource allows two kinds of storage; the API server refuses anything else.\<close>

definition enforces_schema :: "'o world \<Rightarrow> bool" where
  "enforces_schema W \<longleftrightarrow> (\<forall>k b. bs_Type (bks_Storage (BkSpec b)) \<noteq> ''s3'' \<and> bs_Type (bks_Storage (BkSpec b)) \<noteq> ''pvc'' \<longrightarrow>
     (\<exists>e. w_create_backup W k b = Some e))"

lemma create_refused:
  "enforces_schema W \<Longrightarrow> wp (create_backup W (preUpgradeBackup n ns c kind)) (\<lambda>out t. (\<exists>e. out = (no_requeue, False, Some e)) \<and> r_obj t = r_obj s \<and> r_log t = r_log s) s"
proof -
  assume "enforces_schema W"
  then obtain e where "w_create_backup W (r_tick s) (preUpgradeBackup n ns c kind) = Some e"
    unfolding enforces_schema_def by (metis (no_types, lifting) preUpgradeBackup_def BackupStorageSpec.select_convs(1)
        MongoDBBackup.select_convs(2) MongoDBBackupSpec.select_convs(2) list.distinct(1))
  then show ?thesis by (simp add: create_backup_def wp_simps)
qed

text \<open>
  C40. An upgrade that is to be preceded by a backup does not start by itself: the backup is created
  without a kind of storage, which the schema of the resource does not allow, so the API server
  refuses it. While the upgrade is pending (the versions are recorded and the desired version is not
  the recorded one) and no backup of the expected name can be read, every pass in the backup phase
  ends with an error, changes nothing and deploys nothing. This holds for replica sets and for
  sharded clusters. What ends this state is an edit that takes the desired version back, or a
  backup of that name that somebody creates by hand.
\<close>

theorem preupgrade_backup_refused:
  assumes "enforces_schema W" and "seeded (r_obj s)" and "s_UpgradePhase (Status (r_obj s)) = UpgradePhaseBackingUp"
    and "s_Version (Status (r_obj s)) \<noteq> ver_Version (mdb_Version (Spec (r_obj s)))"
    and "\<forall>k b. w_backup W k (Name (r_obj s) @ ''-pre-upgrade-'' @ ver_Version (mdb_Version (Spec (r_obj s))))
      (Namespace (r_obj s)) \<noteq> Inr b"
    and "run_state (reconcileUpgrade W) s = (out, t)"
    and "enforces_schema V" and "ss_EffectiveVersion (ShStatus (r_obj u)) \<noteq> []" and "ss_Version (ShStatus (r_obj u)) \<noteq> []"
    and "ss_UpgradePhase (ShStatus (r_obj u)) = UpgradePhaseBackingUp"
    and "ss_Version (ShStatus (r_obj u)) \<noteq> sh_desired (r_obj u)"
    and "\<forall>k b. w_backup V k (ShName (r_obj u) @ ''-pre-upgrade-'' @ sh_desired (r_obj u)) (ShNamespace (r_obj u)) \<noteq> Inr b"
    and "run_state (reconcileShardedUpgrade V) u = (out', t')"
  shows "(\<exists>e. out = (no_requeue, False, Some e)) \<and> r_obj t = r_obj s \<and> r_log t = r_log s
    \<and> (\<exists>e. out' = (no_requeue, False, Some e)) \<and> r_obj t' = r_obj u \<and> r_log t' = r_log u"
proof -
  let ?s = "s\<lparr>r_tick := Suc (r_tick s)\<rparr>" and ?u = "u\<lparr>r_tick := Suc (r_tick u)\<rparr>"
  obtain e where "w_backup W (r_tick s) (Name (r_obj s) @ ''-pre-upgrade-'' @ ver_Version (mdb_Version (Spec (r_obj s))))
      (Namespace (r_obj s)) = Inl e" using assms(5) by (meson sum.exhaust)
  then have "wp (reconcileUpgrade W) (\<lambda>out t. (\<exists>e. out = (no_requeue, False, Some e)) \<and> r_obj t = r_obj s \<and> r_log t = r_log s) s"
    using assms(2-4) create_refused [OF assms(1), of _ _ _ _ ?s]
    by (simp add: reconcileUpgrade_def upgrade_dispatch_def reconcileUpgradeBackup_def wp_bind wp_the_obj wp_ask wp_if Let_def
        seeded_def upgrade_phase_defs terminal_for_generation_def)
  moreover obtain e' where "w_backup V (r_tick u) (ShName (r_obj u) @ ''-pre-upgrade-'' @ sh_desired (r_obj u)) (ShNamespace (r_obj u)) = Inl e'"
    using assms(12) by (meson sum.exhaust)
  then have "wp (reconcileShardedUpgrade V) (\<lambda>out t. (\<exists>e. out = (no_requeue, False, Some e)) \<and> r_obj t = r_obj u \<and> r_log t = r_log u) u"
    using assms(8-11) create_refused [OF assms(7), of _ _ _ _ ?u]
    by (simp add: reconcileShardedUpgrade_def sharded_upgrade_dispatch_def reconcileShardedUpgradeBackup_def wp_bind wp_the_obj wp_ask
        wp_ret wp_if Let_def upgrade_phase_defs sh_terminal_for_generation_def)
  ultimately show ?thesis using assms(6,13) by (simp add: wp_def)
qed

definition strict_world :: "'o world" where
  "strict_world = (sample_world 5 done_sts [] yes_driver)\<lparr>w_create_backup := \<lambda>_ b. if bs_Type (bks_Storage (BkSpec b)) = ''s3''
       \<or> bs_Type (bks_Storage (BkSpec b)) = ''pvc'' then None else Some (ErrMsg ''Unsupported value''),
     w_backup := \<lambda>_ n _. Inl (ErrNotFound n)\<rparr>"

definition backing_up :: MongoDB where
  "backing_up = sample_mdb\<lparr>Status := (Status sample_mdb)\<lparr>s_UpgradePhase := ''BackingUp''\<rparr>\<rparr>"

definition sharded_backing_up :: MongoDBSharded where
  "sharded_backing_up = sample_sharded\<lparr>ShStatus := (ShStatus sample_sharded)\<lparr>ss_UpgradePhase := ''BackingUp''\<rparr>\<rparr>"

theorem preupgrade_backup_refused_witness:
  "\<exists>e. fst (run_state (reconcileUpgrade strict_world) (start_run backing_up 0)) = (no_requeue, False, Some e)"
  using preupgrade_backup_refused [OF _ _ _ _ _ surjective_pairing _ _ _ _ _ _ surjective_pairing,
      of strict_world "start_run backing_up 0" strict_world "start_run sharded_backing_up 0"]
  by (simp add: strict_world_def enforces_schema_def backing_up_def sharded_backing_up_def seeded_def sample_mdb_def sample_status_def
      sample_sharded_def upgrade_phase_defs)

section \<open>Jobs and credentials\<close>

text \<open>
  A restore has nothing to read: its job mounts the claim named after the source backup and
  reads an archive there, but no backup job mounts a volume, whatever the storage settings, and
  without S3 storage the dump goes to a directory of the container that disappears with the pod.
\<close>

theorem dump_is_not_stored:
  assumes "BuildRestoreJob restore_backup a = Inr job" and "BkRestore restore_backup = Some rst"
  shows "map vol_Source (job_Volumes job) = [ClaimVolume (rst_SourceBackupName rst) True]
    \<and> job_Volumes (BuildBackupJob b a') = [] \<and> map ct_VolumeMounts (job_Containers (BuildBackupJob b a')) = [[]]
    \<and> (bs_Type (bks_Storage (BkSpec b)) \<noteq> ''s3'' \<longrightarrow>
         buildBackupScript b = backup_pvc_script (cr_Name (bks_ClusterRef (BkSpec b)))
           (if bks_CompressionType (BkSpec b) = ''zstd'' then ''--archive'' else ''--gzip''))"
  using assms by (auto simp: BuildRestoreJob_def BuildBackupJob_def buildBackupScript_def RenderBackup_def container_def)

definition sample_restore :: MongoDBBackup where
  "sample_restore = (sample_backup [])\<lparr>BkSpec := (BkSpec (sample_backup []))\<lparr>bks_Restore :=
     Some \<lparr>rst_SourceBackupName = ''nightly'', rst_PointInTime = None\<rparr>\<rparr>\<rparr>"

theorem dump_is_not_stored_witness:
  "(\<exists>job. BuildRestoreJob sample_restore ''x'' = Inr job) \<and> job_Volumes (BuildBackupJob (sample_backup []) ''y'') = []"
proof -
  obtain job where "BuildRestoreJob sample_restore ''x'' = Inr job" by (simp add: BuildRestoreJob_def sample_restore_def)
  moreover from dump_is_not_stored [OF this] have "job_Volumes (BuildBackupJob (sample_backup []) ''y'') = []"
    by (simp add: sample_restore_def)
  ultimately show ?thesis by blast
qed

lemma unescape_safe: "(\<And>c. c \<in> set s \<Longrightarrow> c \<noteq> CHR ''%'') \<Longrightarrow> unescape s = s"
  by (induction s) auto

lemma unescape_shorter: "length (unescape s) \<le> length s"
proof (induction s rule: length_induct)
  case (1 s)
  have "length (unescape t) \<le> n" if "length t < length s" "length t \<le> n" for t n
    using 1 that by (meson order_trans)
  then show ?case by (cases s) (auto split: list.splits)
qed

text \<open>
  Credentials in the connection string of a backup: the username and the password are pasted
  without escaping. A client reads them back if neither contains a reserved character, and it
  never reads back a password that contains an at sign, unlike with the URI of the exporter.
\<close>

theorem backup_uri_credentials:
  assumes "\<forall>c \<in> set u. userinfo_safe c"
  shows "((\<forall>c \<in> set p. userinfo_safe c) \<longrightarrow> uri_credentials (backup_uri u p host) = (u, p))
    \<and> (CHR ''@'' \<in> set p \<longrightarrow> uri_credentials (backup_uri u p host) \<noteq> (u, p))"
proof -
  have u: "c \<noteq> CHR ''%''" "c \<noteq> CHR ''@''" "c \<noteq> CHR '':''" if "c \<in> set u" for c using assms that safe_reserved by auto
  define p' where "p' = takeWhile (\<lambda>c. c \<noteq> CHR ''@'') (p @ ''@'')"
  have "takeWhile (\<lambda>c. c \<noteq> CHR ''@'') ((u @ CHR '':'' # p) @ CHR ''@'' # x) = u @ CHR '':'' # p'" for x
    using u by (cases "CHR ''@'' \<in> set p")
      (auto simp: p'_def takeWhile_append intro: takeWhile_append1)
  then have c: "uri_credentials (backup_uri u p host) = (unescape u, unescape p')"
    using u takeWhile_upto [of u "CHR '':''" p'] by (simp add: uri_credentials_def backup_uri_def)
  have "unescape u = u" using u by (intro unescape_safe) auto
  moreover have "unescape p = p \<and> p' = p" if "\<forall>c \<in> set p. userinfo_safe c"
    using that safe_reserved by (auto simp: p'_def takeWhile_append intro!: unescape_safe)
  moreover have "unescape p' \<noteq> p" if at: "CHR ''@'' \<in> set p"
  proof -
    obtain ys zs where p: "p = ys @ CHR ''@'' # zs" "CHR ''@'' \<notin> set ys" using split_list_first [OF at] by blast
    have "takeWhile (\<lambda>c. c \<noteq> CHR ''@'') (ys @ CHR ''@'' # zs @ ''@'') = ys" by (rule takeWhile_upto) (use p(2) in auto)
    then have "length p' < length p" by (simp add: p'_def p(1))
    then show ?thesis using unescape_shorter [of p'] by (metis leD)
  qed
  ultimately show ?thesis using c by auto
qed

theorem backup_uri_credentials_witness:
  "uri_credentials (backup_uri ''admin'' ''p@ss'' ''db:27017'') \<noteq> (''admin'', ''p@ss'')
   \<and> uri_credentials (backup_uri ''admin'' ''secret'' ''db:27017'') = (''admin'', ''secret'')"
proof -
  have "\<forall>c \<in> set ''admin''. userinfo_safe c" "\<forall>c \<in> set ''secret''. userinfo_safe c" by code_simp+
  then show ?thesis using backup_uri_credentials [of "''admin''" "''p@ss''" "''db:27017''"]
      backup_uri_credentials [of "''admin''" "''secret''" "''db:27017''"] by simp
qed

end
