(* ===== verification/Topology.thy ===== *)
theory Topology
  imports Complex_Main Go_Time "HOL-Library.List_Lexorder" "HOL-Library.Char_ord" "HOL-Library.Product_Lexorder" "HOL-Library.Multiset"
begin

text \<open>
  The planner of \<^verbatim>\<open>internal/topology\<close>: zones of shards, the check before the removal of a shard, the
  balancer and the pace of migrations. These are pure functions that the caller feeds with what it
  has observed. Reasons and messages of plans are left out except for the blockers and warnings of
  the check, which are kept as cases. A CPU share is a rational number.
\<close>

section \<open>Types\<close>

definition ActionAddToZone :: string where "ActionAddToZone = ''AddToZone''"
definition ActionRemoveFromZone :: string where "ActionRemoveFromZone = ''RemoveFromZone''"
definition ActionEnable :: string where "ActionEnable = ''Enable''"
definition ActionDisable :: string where "ActionDisable = ''Disable''"
definition ActionNoop :: string where "ActionNoop = ''Noop''"

record ShardZone =
  sz_ShardName :: string
  sz_Zones :: "string list"

record ZoneOp =
  zo_Action :: string
  zo_ShardName :: string
  zo_Zone :: string

record ZonePlacementPlan =
  zp_Ops :: "ZoneOp list"
  zp_DryRun :: bool

record ShardRemaining =
  rem_Chunks :: int64
  rem_Databases :: int64

record PreflightInput =
  pf_ShardCount :: int64
  pf_TargetShard :: string
  pf_Remaining :: ShardRemaining
  pf_BalancerEnabled :: bool
  pf_DrainTimeoutSeconds :: "int32 option"

datatype Blocker = LastShard int64 | ChunksCannotDrain int64 | PrimaryDatabases int64
datatype TopologyWarning = NoDrainTime

record PreflightVerdict =
  pv_Safe :: bool
  pv_Blockers :: "Blocker list"
  pv_Warnings :: "TopologyWarning list"

record BalancerState =
  bl_Enabled :: bool
  bl_Running :: bool
  bl_ActiveWindow :: bool
  bl_InflightMigrations :: int64

record BalancerPolicy =
  bp_DesiredEnabled :: bool
  bp_DryRun :: bool

record BalancerPlan =
  bpl_Action :: string
  bpl_DryRun :: bool

record ThrottleInput =
  ti_RemainingChunks :: int64
  ti_InflightMigrations :: int64
  ti_MongosCPUUtil :: rat
  ti_LastPollInterval :: duration

record ThrottlePlan =
  tp_PollInterval :: duration
  tp_MaxConcurrentMigrations :: int64

section \<open>Zones\<close>

text \<open>
  A set is the list of its elements without repetition. The order in which Go walks through a map
  is not specified: it is the parameter \<open>ord\<close>, which permutes the elements.
\<close>

definition toSet :: "string list \<Rightarrow> string list" where "toSet xs = remdups xs"

definition zone_op :: "string \<Rightarrow> string \<Rightarrow> string \<Rightarrow> ZoneOp" where
  "zone_op action shard zone = \<lparr>zo_Action = action, zo_ShardName = shard, zo_Zone = zone\<rparr>"

definition shard_ops :: "(string list \<Rightarrow> string list) \<Rightarrow> (string \<rightharpoonup> string list) \<Rightarrow> ShardZone \<Rightarrow> ZoneOp list" where
  "shard_ops ord desiredZones sh =
     (case desiredZones (sz_ShardName sh) of
        None \<Rightarrow> []
      | Some desired \<Rightarrow>
          let cur = toSet (sz_Zones sh); des = toSet desired in
          map (zone_op ActionAddToZone (sz_ShardName sh)) (filter (\<lambda>z. z \<notin> set cur) (ord des))
          @ map (zone_op ActionRemoveFromZone (sz_ShardName sh)) (filter (\<lambda>z. z \<notin> set des) (ord cur)))"

definition op_key :: "ZoneOp \<Rightarrow> string \<times> string \<times> string" where
  "op_key op = (zo_ShardName op, zo_Action op, zo_Zone op)"

definition PlanZonePlacement ::
    "(string list \<Rightarrow> string list) \<Rightarrow> ShardZone list \<Rightarrow> (string \<times> string list) list \<Rightarrow> ZonePlacementPlan" where
  "PlanZonePlacement ord shards desiredZones =
     (if length desiredZones = 0 then \<lparr>zp_Ops = [], zp_DryRun = True\<rparr>
      else \<lparr>zp_Ops = sort_key op_key (concat (map (shard_ops ord (map_of desiredZones)) shards)), zp_DryRun = True\<rparr>)"

section \<open>Checks and plans\<close>

definition PreflightTopologyChange :: "PreflightInput \<Rightarrow> PreflightVerdict" where
  "PreflightTopologyChange inp =
     (let blockers =
        (if pf_ShardCount inp = 1 then [LastShard (pf_ShardCount inp)] else [])
        @ (if \<not> pf_BalancerEnabled inp \<and> rem_Chunks (pf_Remaining inp) > 0 then [ChunksCannotDrain (rem_Chunks (pf_Remaining inp))] else [])
        @ (if rem_Databases (pf_Remaining inp) > 0 then [PrimaryDatabases (rem_Databases (pf_Remaining inp))] else []) in
      \<lparr>pv_Safe = (length blockers = 0), pv_Blockers = blockers,
       pv_Warnings = (if pf_DrainTimeoutSeconds inp = Some 0 then [NoDrainTime] else [])\<rparr>)"

definition PlanBalancerControl :: "BalancerState \<Rightarrow> BalancerPolicy \<Rightarrow> BalancerPlan" where
  "PlanBalancerControl st policy =
     \<lparr>bpl_Action =
        (if bp_DesiredEnabled policy \<and> \<not> bl_Enabled st then ActionEnable
         else if \<not> bp_DesiredEnabled policy \<and> bl_InflightMigrations st > 0 then ActionNoop
         else if \<not> bp_DesiredEnabled policy \<and> bl_Enabled st then ActionDisable
         else ActionNoop),
      bpl_DryRun = bp_DryRun policy\<rparr>"

definition throttleMinInterval :: duration where "throttleMinInterval = 30 * second"
definition throttleMaxInterval :: duration where "throttleMaxInterval = 5 * minute"

text \<open>
  The constant \<^verbatim>\<open>0.80\<close> as the double it is compared as: the nearest one, a little above four fifths. The
  utilisation is a double too, hence a rational; a NaN would count as low, like zero.
\<close>

definition throttleHighCPUThreshold :: rat where
  "throttleHighCPUThreshold = 3602879701896397 / 4503599627370496"

definition throttleDefaultConcurrency :: int64 where "throttleDefaultConcurrency = 2"

text \<open>Doubling the interval wraps around at 64 bits.\<close>

definition ComputeMigrationThrottle :: "ThrottleInput \<Rightarrow> ThrottlePlan" where
  "ComputeMigrationThrottle inp =
     (if ti_RemainingChunks inp \<le> 0 then \<lparr>tp_PollInterval = 0, tp_MaxConcurrentMigrations = 0\<rparr>
      else if ti_MongosCPUUtil inp > throttleHighCPUThreshold
      then \<lparr>tp_PollInterval = throttleMaxInterval, tp_MaxConcurrentMigrations = 1\<rparr>
      else
        let next = wrap64 (ti_LastPollInterval inp * 2);
            next1 = (if next < throttleMinInterval then throttleMinInterval else next);
            next2 = (if next1 > throttleMaxInterval then throttleMaxInterval else next1) in
        \<lparr>tp_PollInterval = next2, tp_MaxConcurrentMigrations = throttleDefaultConcurrency\<rparr>)"

section \<open>A zone plan leads to the desired zones\<close>

text \<open>Which shard is in which zone, and what carrying out an operation does to that.\<close>

definition memberships :: "ShardZone list \<Rightarrow> (string \<times> string) set" where
  "memberships shards = (\<Union>sh \<in> set shards. Pair (sz_ShardName sh) ` set (sz_Zones sh))"

definition wanted :: "ShardZone list \<Rightarrow> (string \<times> string list) list \<Rightarrow> (string \<times> string) set" where
  "wanted shards desired = (\<Union>sh \<in> set shards. Pair (sz_ShardName sh) `
     set (case map_of desired (sz_ShardName sh) of None \<Rightarrow> sz_Zones sh | Some ds \<Rightarrow> ds))"

definition carry_out :: "ZoneOp \<Rightarrow> (string \<times> string) set \<Rightarrow> (string \<times> string) set" where
  "carry_out op M = (if zo_Action op = ActionAddToZone then insert (zo_ShardName op, zo_Zone op) M
     else if zo_Action op = ActionRemoveFromZone then M - {(zo_ShardName op, zo_Zone op)} else M)"

definition permutes_lists :: "(string list \<Rightarrow> string list) \<Rightarrow> bool" where
  "permutes_lists ord \<longleftrightarrow> (\<forall>xs. mset (ord xs) = mset xs)"

definition added :: "ZoneOp list \<Rightarrow> (string \<times> string) set" where
  "added ops = {(zo_ShardName op, zo_Zone op) | op. op \<in> set ops \<and> zo_Action op = ActionAddToZone}"

definition removed :: "ZoneOp list \<Rightarrow> (string \<times> string) set" where
  "removed ops = {(zo_ShardName op, zo_Zone op) | op. op \<in> set ops \<and> zo_Action op = ActionRemoveFromZone}"

lemma carry_out_all:
  assumes "added ops \<inter> removed ops = {}"
  shows "fold carry_out ops M = (M - removed ops) \<union> added ops"
  using assms
proof (induction ops arbitrary: M)
  case Nil
  then show ?case by (simp add: added_def removed_def)
next
  case (Cons op ops)
  let ?m = "(zo_ShardName op, zo_Zone op)"
  have "added (op # ops) = (if zo_Action op = ActionAddToZone then insert ?m (added ops) else added ops)"
    "removed (op # ops) = (if zo_Action op = ActionRemoveFromZone then insert ?m (removed ops) else removed ops)"
    by (auto simp: added_def removed_def)
  moreover have "ActionAddToZone \<noteq> ActionRemoveFromZone" by (simp add: ActionAddToZone_def ActionRemoveFromZone_def)
  ultimately show ?case using Cons by (auto simp: carry_out_def split: if_splits)
qed

lemma sort_key_mset:
  assumes "mset xs = mset ys" shows "sort_key op_key xs = sort_key op_key ys"
proof -
  have m: "map op_key (sort_key op_key zs) = sort (map op_key zs)" for zs
    by (rule properties_for_sort [symmetric]) simp_all
  have "mset (map op_key xs) = mset (map op_key ys)" using assms by simp
  then have "sort (map op_key xs) = sort (map op_key ys)"
    by (intro properties_for_sort) simp_all
  then have "map op_key (sort_key op_key xs) = map op_key (sort_key op_key ys)" by (simp add: m)
  moreover have "inj op_key" by (auto simp: inj_def op_key_def)
  ultimately show ?thesis by (simp add: inj_map_eq_map)
qed

lemma shard_ops_mset:
  assumes "permutes_lists ord" "permutes_lists ord'"
  shows "mset (shard_ops ord d sh) = mset (shard_ops ord' d sh)"
  using assms by (auto simp: shard_ops_def permutes_lists_def Let_def mset_filter split: option.split)

lemma set_ord: "permutes_lists ord \<Longrightarrow> set (ord xs) = set xs"
  unfolding permutes_lists_def by (metis set_mset_mset)

lemma zone_op_simps [simp]:
  "zo_Action (zone_op a n z) = a" "zo_ShardName (zone_op a n z) = n" "zo_Zone (zone_op a n z) = z"
  by (simp_all add: zone_op_def)

definition to_add :: "(string \<rightharpoonup> string list) \<Rightarrow> ShardZone \<Rightarrow> string set" where
  "to_add d sh = (case d (sz_ShardName sh) of None \<Rightarrow> {} | Some ds \<Rightarrow> set ds - set (sz_Zones sh))"

definition to_remove :: "(string \<rightharpoonup> string list) \<Rightarrow> ShardZone \<Rightarrow> string set" where
  "to_remove d sh = (case d (sz_ShardName sh) of None \<Rightarrow> {} | Some ds \<Rightarrow> set (sz_Zones sh) - set ds)"

lemma added_parts:
  "added (xs @ ys) = added xs \<union> added ys" "removed (xs @ ys) = removed xs \<union> removed ys" "added [] = {}" "removed [] = {}"
  "added (map (zone_op ActionAddToZone n) zs) = Pair n ` set zs" "removed (map (zone_op ActionAddToZone n) zs) = {}"
  "added (map (zone_op ActionRemoveFromZone n) zs) = {}" "removed (map (zone_op ActionRemoveFromZone n) zs) = Pair n ` set zs"
  by (force simp: added_def removed_def ActionAddToZone_def ActionRemoveFromZone_def)+

lemma shard_changes:
  assumes "permutes_lists ord"
  shows "added (shard_ops ord d sh) = Pair (sz_ShardName sh) ` to_add d sh"
    and "removed (shard_ops ord d sh) = Pair (sz_ShardName sh) ` to_remove d sh"
  by (simp_all add: shard_ops_def Let_def added_parts to_add_def to_remove_def toSet_def set_ord [OF assms] set_diff_eq
      split: option.split)

lemma plan_changes:
  assumes "permutes_lists ord"
  shows "added (concat (map (shard_ops ord d) shards)) = (\<Union>sh \<in> set shards. Pair (sz_ShardName sh) ` to_add d sh)"
    and "removed (concat (map (shard_ops ord d) shards)) = (\<Union>sh \<in> set shards. Pair (sz_ShardName sh) ` to_remove d sh)"
proof -
  have "added (concat (map f xs)) = (\<Union>x \<in> set xs. added (f x))" "removed (concat (map f xs)) = (\<Union>x \<in> set xs. removed (f x))"
    for f :: "ShardZone \<Rightarrow> ZoneOp list" and xs by (auto simp: added_def removed_def)
  then show "added (concat (map (shard_ops ord d) shards)) = (\<Union>sh \<in> set shards. Pair (sz_ShardName sh) ` to_add d sh)"
    "removed (concat (map (shard_ops ord d) shards)) = (\<Union>sh \<in> set shards. Pair (sz_ShardName sh) ` to_remove d sh)"
    by (simp_all add: shard_changes [OF assms])
qed

lemma shard_zones: "set (case d (sz_ShardName sh) of None \<Rightarrow> sz_Zones sh | Some ds \<Rightarrow> ds) = (set (sz_Zones sh) - to_remove d sh) \<union> to_add d sh"
  by (auto simp: to_add_def to_remove_def split: option.splits)

lemma to_add_remove: "to_add d sh \<inter> to_remove d sh = {}"
  by (auto simp: to_add_def to_remove_def split: option.splits)

lemma named_diff:
  assumes "inj_on n S"
  shows "(\<Union>x \<in> S. Pair (n x) ` A x) - (\<Union>x \<in> S. Pair (n x) ` B x) = (\<Union>x \<in> S. Pair (n x) ` (A x - B x))"
    and "(\<And>x. A x \<inter> B x = {}) \<Longrightarrow> (\<Union>x \<in> S. Pair (n x) ` A x) \<inter> (\<Union>x \<in> S. Pair (n x) ` B x) = {}"
proof -
  have iff: "p \<in> (\<Union>x \<in> S. Pair (n x) ` C x) \<longleftrightarrow> (\<exists>x \<in> S. fst p = n x \<and> snd p \<in> C x)" for p C by (cases p) auto
  have same: "x = y" if "x \<in> S" "y \<in> S" "n x = n y" for x y using assms that by (simp add: inj_on_eq_iff)
  show "(\<Union>x \<in> S. Pair (n x) ` A x) - (\<Union>x \<in> S. Pair (n x) ` B x) = (\<Union>x \<in> S. Pair (n x) ` (A x - B x))"
    unfolding set_eq_iff Diff_iff iff using same by (metis DiffD1 DiffD2 DiffI)
  show "(\<Union>x \<in> S. Pair (n x) ` A x) \<inter> (\<Union>x \<in> S. Pair (n x) ` B x) = {}" if "\<And>x. A x \<inter> B x = {}"
    unfolding set_eq_iff Int_iff iff empty_iff using same that by (metis disjoint_iff)
qed

text \<open>
  C30. A zone plan is right and deterministic: when the shards have different names, carrying out its
  operations in their order puts every shard for which zones are desired into exactly these zones
  and leaves the others where they are. The plan does not depend on the order in which Go walks
  through its maps, and it is always marked as a dry run.
\<close>

theorem zone_plan_reaches_desired:
  assumes "distinct (map sz_ShardName shards)" and "permutes_lists ord"
  shows "fold carry_out (zp_Ops (PlanZonePlacement ord shards desired)) (memberships shards) = wanted shards desired
    \<and> (permutes_lists ord' \<longrightarrow> PlanZonePlacement ord' shards desired = PlanZonePlacement ord shards desired)
    \<and> zp_DryRun (PlanZonePlacement ord shards desired)"
proof (intro conjI impI)
  let ?d = "map_of desired" and ?ops = "concat (map (shard_ops ord (map_of desired)) shards)"
  have inj: "inj_on sz_ShardName (set shards)" using assms(1) by (simp add: distinct_map)
  have s: "set (zp_Ops (PlanZonePlacement ord shards desired)) = set ?ops"
    by (auto simp: PlanZonePlacement_def shard_ops_def)
  then have c: "added (zp_Ops (PlanZonePlacement ord shards desired)) = added ?ops"
    "removed (zp_Ops (PlanZonePlacement ord shards desired)) = removed ?ops"
    unfolding added_def removed_def by simp_all
  have "added ?ops \<inter> removed ?ops = {}"
    unfolding plan_changes [OF assms(2)] by (rule named_diff(2) [OF inj to_add_remove])
  then have "fold carry_out (zp_Ops (PlanZonePlacement ord shards desired)) (memberships shards) =
      (memberships shards - removed ?ops) \<union> added ?ops"
    using c by (subst carry_out_all) auto
  also have "\<dots> = wanted shards desired"
    unfolding plan_changes [OF assms(2)] memberships_def wanted_def shard_zones named_diff(1) [OF inj] by (simp add: image_Un UN_Un_distrib)
  finally show "fold carry_out (zp_Ops (PlanZonePlacement ord shards desired)) (memberships shards) = wanted shards desired" .
next
  assume o': "permutes_lists ord'"
  have "mset (concat (map (shard_ops ord' (map_of desired)) shards)) = mset (concat (map (shard_ops ord (map_of desired)) shards))"
    by (induction shards) (simp_all add: shard_ops_mset [OF o' assms(2)])
  from sort_key_mset [OF this]
  show "PlanZonePlacement ord' shards desired = PlanZonePlacement ord shards desired" by (simp only: PlanZonePlacement_def)
qed (simp add: PlanZonePlacement_def)

definition two_shards :: "ShardZone list" where
  "two_shards = [\<lparr>sz_ShardName = ''shard-0'', sz_Zones = [''eu'']\<rparr>, \<lparr>sz_ShardName = ''shard-1'', sz_Zones = [''us'']\<rparr>]"

theorem zone_plan_reaches_desired_witness:
  "fold carry_out (zp_Ops (PlanZonePlacement rev two_shards [(''shard-0'', [''us'', ''ap''])])) (memberships two_shards)
   = {(''shard-0'', ''us''), (''shard-0'', ''ap''), (''shard-1'', ''us'')}"
proof -
  have "wanted two_shards [(''shard-0'', [''us'', ''ap''])] = {(''shard-0'', ''us''), (''shard-0'', ''ap''), (''shard-1'', ''us'')}"
    by (auto simp: wanted_def two_shards_def)
  moreover have "distinct (map sz_ShardName two_shards)" "permutes_lists rev" by (simp_all add: two_shards_def permutes_lists_def)
  ultimately show ?thesis using zone_plan_reaches_desired [of two_shards rev, THEN conjunct1] by metis
qed

section \<open>Bounds and safety\<close>

text \<open>
  C31. The pace of migrations stays within its bounds for every input, also when doubling the last
  interval overflows: while chunks are left the interval is between half a minute and five minutes
  and one or two migrations may run, only one on a busy router; without chunks there is nothing to
  wait for.
\<close>

theorem throttle_bounds:
  "(if ti_RemainingChunks inp \<le> 0 then ComputeMigrationThrottle inp = \<lparr>tp_PollInterval = 0, tp_MaxConcurrentMigrations = 0\<rparr>
    else 30000000000 \<le> tp_PollInterval (ComputeMigrationThrottle inp) \<and> tp_PollInterval (ComputeMigrationThrottle inp) \<le> 300000000000
      \<and> tp_MaxConcurrentMigrations (ComputeMigrationThrottle inp) = (if ti_MongosCPUUtil inp > 3602879701896397 / 4503599627370496 then 1 else 2))"
  by (simp add: ComputeMigrationThrottle_def Let_def throttleMinInterval_def throttleMaxInterval_def throttleHighCPUThreshold_def
      throttleDefaultConcurrency_def second_def minute_def)

text \<open>
  The balancer is never switched off while chunks migrate, and the check before the removal of a
  shard passes exactly if another shard is left, chunks can drain and no primary database remains.
\<close>

lemma balancer_spares_migrations:
  "bl_InflightMigrations st > 0 \<Longrightarrow> bpl_Action (PlanBalancerControl st policy) \<noteq> ActionDisable"
  by (simp add: PlanBalancerControl_def ActionEnable_def ActionDisable_def ActionNoop_def)

lemma preflight_safe_iff:
  "pv_Safe (PreflightTopologyChange inp) \<longleftrightarrow> pf_ShardCount inp \<noteq> 1
     \<and> (rem_Chunks (pf_Remaining inp) > 0 \<longrightarrow> pf_BalancerEnabled inp) \<and> rem_Databases (pf_Remaining inp) \<le> 0"
  by (auto simp: PreflightTopologyChange_def Let_def)

end
