(* ===== verification/Fleet.thy ===== *)
theory Fleet
  imports Complex_Main Replica_Set_Laws Server_Options
begin

text \<open>
  Resources that span several clusters: the federation controller (\<^verbatim>\<open>mongodbfederation_controller.go\<close>,
  \<^verbatim>\<open>federation_propagation.go\<close>) and the cluster group controller (\<^verbatim>\<open>mongodbclustergroup_controller.go\<close>).
  The client that is made from a kubeconfig, and the list of nodes it asks for, are parameters.
\<close>

section \<open>Federations\<close>

record FederationRegion =
  fr_Name :: string
  fr_ClusterKubeConfigRef :: string
  fr_Members :: int32
  fr_Priority :: string
  fr_Zone :: string
  fr_Storage :: StorageSpec

record MongoDBFederationSpec =
  fd_Version :: MongoDBVersion
  fd_Regions :: "FederationRegion list"
  fd_Auth :: AuthSpec
  fd_TLS :: "TLSSpec option"

record FederationRegionStatus =
  rgs_Name :: string
  rgs_Phase :: string
  rgs_LastSyncTime :: "gotime option"
  rgs_Error :: string

record MongoDBFederationStatus =
  fds_Phase :: string
  fds_RegionStatuses :: "FederationRegionStatus list"
  fds_Conditions :: "Condition list"

record MongoDBFederation =
  FdMeta :: ObjectMeta
  FdSpec :: MongoDBFederationSpec
  FdStatus :: MongoDBFederationStatus

definition federationPhasePending :: string where "federationPhasePending = ''Pending''"
definition federationPhaseBootstrapping :: string where "federationPhaseBootstrapping = ''Bootstrapping''"
definition federationPhaseSynced :: string where "federationPhaseSynced = ''Synced''"
definition federationPhaseDegraded :: string where "federationPhaseDegraded = ''Degraded''"
definition federationPhaseFailed :: string where "federationPhaseFailed = ''Failed''"

lemmas federation_phases = federationPhasePending_def federationPhaseBootstrapping_def federationPhaseSynced_def
  federationPhaseDegraded_def federationPhaseFailed_def

record federation_env =
  fe_client :: "string \<Rightarrow> go_error + string"
  fe_nodes :: "nat \<Rightarrow> string \<Rightarrow> go_error option"

fun indexOfRegion :: "FederationRegionStatus list \<Rightarrow> string \<Rightarrow> nat option" where
  "indexOfRegion [] name = None"
| "indexOfRegion (s # ss) name = (if rgs_Name s = name then Some 0 else map_option Suc (indexOfRegion ss name))"

definition computeFederationPhase :: "FederationRegionStatus list \<Rightarrow> string" where
  "computeFederationPhase sts =
     (if length sts = 0 then federationPhaseBootstrapping
      else
        let syncedCount = length (filter (\<lambda>s. rgs_Phase s = federationPhaseSynced) sts);
            failedCount = length (filter (\<lambda>s. rgs_Phase s = federationPhaseFailed) sts) in
        if failedCount > 0 then federationPhaseDegraded
        else if syncedCount = length sts then federationPhaseSynced
        else federationPhaseBootstrapping)"

text \<open>The answer is whether the region is reachable, or why not.\<close>

text \<open>
  The kubeconfig is parsed and the clientset built by the client library: \<open>fe_client\<close> stands for these
  calls, with the errors that the source wraps around each of them.
\<close>

definition remoteClientFromKubeconfig ::
    "federation_env \<Rightarrow> MongoDBFederation world \<Rightarrow> string \<Rightarrow> string \<Rightarrow> (MongoDBFederation, go_error + string) ctl" where
  "remoteClientFromKubeconfig E W ref namespace = do {
     got \<leftarrow> ask (\<lambda>k. w_secret W k ref namespace);
     ret (case got of
       Inl e \<Rightarrow> Inl (Wrapped (''get kubeconfig secret '' @ namespace @ ''/'' @ ref) e)
     | Inr secret \<Rightarrow>
         if map_get (sec_Data secret) ''kubeconfig'' = []
         then Inl (ErrMsg (''kubeconfig secret '' @ namespace @ ''/'' @ ref @ '' missing '' @ [CHR 0x27] @ ''kubeconfig'' @ [CHR 0x27] @ '' key''))
         else fe_client E (map_get (sec_Data secret) ''kubeconfig''))
   }"

definition propagateRegionMongoDB ::
    "federation_env \<Rightarrow> MongoDBFederation world \<Rightarrow> string \<Rightarrow> FederationRegion \<Rightarrow> (MongoDBFederation, go_error option) ctl" where
  "propagateRegionMongoDB E W namespace region =
     (if fr_ClusterKubeConfigRef region = [] then ret None
      else do {
        remote \<leftarrow> remoteClientFromKubeconfig E W (fr_ClusterKubeConfigRef region) namespace;
        case remote of
          Inl e \<Rightarrow> ret (Some e)
        | Inr server \<Rightarrow> do {
            err \<leftarrow> ask (\<lambda>k. fe_nodes E k server);
            ret (case err of Some e \<Rightarrow> Some (Wrapped ''remote nodes list'' e) | None \<Rightarrow> None)
          }
      })"

definition region_result :: "gotime \<Rightarrow> go_error option \<Rightarrow> FederationRegionStatus \<Rightarrow> FederationRegionStatus" where
  "region_result now err s =
     (case err of
        None \<Rightarrow> s\<lparr>rgs_LastSyncTime := Some now, rgs_Phase := federationPhaseSynced, rgs_Error := []\<rparr>
      | Some e \<Rightarrow> s\<lparr>rgs_LastSyncTime := Some now, rgs_Phase := federationPhaseFailed, rgs_Error := Error e\<rparr>)"

fun sync_regions ::
    "federation_env \<Rightarrow> MongoDBFederation world \<Rightarrow> string \<Rightarrow> FederationRegion list \<Rightarrow> FederationRegionStatus list
     \<Rightarrow> (MongoDBFederation, FederationRegionStatus list) ctl" where
  "sync_regions E W ns [] sts = ret sts"
| "sync_regions E W ns (region # rest) sts = do {
     pair \<leftarrow> (case indexOfRegion sts (fr_Name region) of
       Some i \<Rightarrow> ret (sts, i)
     | None \<Rightarrow> do {
         now \<leftarrow> ask (w_now W);
         ret (sts @ [\<lparr>rgs_Name = fr_Name region, rgs_Phase = federationPhasePending, rgs_LastSyncTime = Some now, rgs_Error = []\<rparr>], length sts)
       });
     err \<leftarrow> propagateRegionMongoDB E W ns region;
     now \<leftarrow> ask (w_now W);
     sync_regions E W ns rest ((fst pair)[snd pair := region_result now err (fst pair ! snd pair)])
   }"

definition status_update :: "'o world \<Rightarrow> ('o, go_error option) ctl" where
  "status_update W = do {
     m \<leftarrow> the_obj;
     r \<leftarrow> ask (\<lambda>k. w_update_object W k m);
     put_obj (fst r);
     emit_if_ok (snd r) (PersistStatus (fst r));
     ret (snd r)
   }"

definition ReconcileFederation :: "federation_env \<Rightarrow> MongoDBFederation world \<Rightarrow> (MongoDBFederation, reconcile_result) ctl" where
  "ReconcileFederation E W = do {
     got \<leftarrow> ask (w_get W);
     case got of
       Inl e \<Rightarrow> ret (no_requeue, if IsNotFound e then None else Some e)
     | Inr fed \<Rightarrow> do {
         sts \<leftarrow> sync_regions E W (om_Namespace (FdMeta fed)) (fd_Regions (FdSpec fed)) (fds_RegionStatuses (FdStatus fed));
         put_obj (fed\<lparr>FdStatus := (FdStatus fed)\<lparr>fds_RegionStatuses := sts, fds_Phase := computeFederationPhase sts\<rparr>\<rparr>);
         err \<leftarrow> status_update W;
         ret (no_requeue, err)
       }
   }"

section \<open>Cluster groups\<close>

record ClusterGroupMember =
  cgm_Name :: string
  cgm_Kind :: string
  cgm_NamespacedName :: k8s_value
  cgm_ClusterKubeConfigRef :: "string option"

record ClusterGroupSharedAuth =
  csa_Users :: "MongoDBUser list"

record CentralMonitoringSpec =
  cmo_PrometheusRemoteWriteURL :: string
  cmo_GrafanaURL :: string
  cmo_AlertmanagerURL :: string

record ClusterGroupPolicy =
  cgp_MinBackupRetentionDays :: int32
  cgp_RequiredTLSEnabled :: bool
  cgp_RequiredEncryptionAtRest :: bool

record MongoDBClusterGroupSpec =
  gr_Members :: "ClusterGroupMember list"
  gr_SharedAuth :: "ClusterGroupSharedAuth option"
  gr_CentralMonitoring :: "CentralMonitoringSpec option"
  gr_PolicyTemplate :: "ClusterGroupPolicy option"

record ClusterGroupMemberStatus =
  cgs_Name :: string
  cgs_Phase :: string
  cgs_PolicyCompliant :: bool
  cgs_Error :: string

record MongoDBClusterGroupStatus =
  grs_Phase :: string
  grs_MemberStatuses :: "ClusterGroupMemberStatus list"
  grs_Conditions :: "Condition list"

record MongoDBClusterGroup =
  GrMeta :: ObjectMeta
  GrSpec :: MongoDBClusterGroupSpec
  GrStatus :: MongoDBClusterGroupStatus

definition groupPhasePending :: string where "groupPhasePending = ''Pending''"
definition groupPhaseReconciling :: string where "groupPhaseReconciling = ''Reconciling''"
definition groupPhaseSynced :: string where "groupPhaseSynced = ''Synced''"
definition groupPhaseDegraded :: string where "groupPhaseDegraded = ''Degraded''"

lemmas group_phases = groupPhasePending_def groupPhaseReconciling_def groupPhaseSynced_def groupPhaseDegraded_def

definition hasMemberStatus :: "ClusterGroupMemberStatus list \<Rightarrow> string \<Rightarrow> bool" where
  "hasMemberStatus sts name \<longleftrightarrow> (\<exists>s \<in> set sts. cgs_Name s = name)"

definition computeClusterGroupPhase :: "ClusterGroupMemberStatus list \<Rightarrow> string" where
  "computeClusterGroupPhase sts =
     (if length sts = 0 then groupPhasePending
      else
        let syncedCount = length (filter (\<lambda>s. cgs_Phase s = groupPhaseSynced) sts);
            failedCount = length (filter (\<lambda>s. cgs_Phase s = ''Failed'') sts) in
        if failedCount > 0 then groupPhaseDegraded
        else if syncedCount = length sts then groupPhaseSynced
        else groupPhaseReconciling)"

fun ensure_members :: "ClusterGroupMember list \<Rightarrow> ClusterGroupMemberStatus list \<Rightarrow> ClusterGroupMemberStatus list" where
  "ensure_members [] sts = sts"
| "ensure_members (m # ms) sts = ensure_members ms
     (if hasMemberStatus sts (cgm_Name m) then sts
      else sts @ [\<lparr>cgs_Name = cgm_Name m, cgs_Phase = groupPhasePending, cgs_PolicyCompliant = False, cgs_Error = []\<rparr>])"

text \<open>The phase is computed before the missing members are added; a failed update is only logged.\<close>

definition ReconcileClusterGroup :: "MongoDBClusterGroup world \<Rightarrow> (MongoDBClusterGroup, reconcile_result) ctl" where
  "ReconcileClusterGroup W = do {
     got \<leftarrow> ask (w_get W);
     case got of
       Inl e \<Rightarrow> ret (no_requeue, if IsNotFound e then None else Some e)
     | Inr g \<Rightarrow> do {
         put_obj (g\<lparr>GrStatus := (GrStatus g)\<lparr>grs_Phase := computeClusterGroupPhase (grs_MemberStatuses (GrStatus g)),
           grs_MemberStatuses := ensure_members (gr_Members (GrSpec g)) (grs_MemberStatuses (GrStatus g))\<rparr>\<rparr>);
         _ \<leftarrow> status_update W;
         ret (no_requeue, None)
       }
   }"

section \<open>Reported regions\<close>

lemma indexOfRegion_Some: "indexOfRegion sts n = Some i \<Longrightarrow> i < length sts \<and> rgs_Name (sts ! i) = n"
  by (induction sts arbitrary: i) (auto split: if_splits)

definition settled_status :: "FederationRegionStatus \<Rightarrow> bool" where
  "settled_status s \<longleftrightarrow> rgs_Phase s = ''Synced'' \<or> rgs_Phase s = ''Failed''"

lemma region_result_simps [simp]:
  "rgs_Name (region_result now err s) = rgs_Name s" "settled_status (region_result now err s)"
  by (auto simp: region_result_def settled_status_def federation_phases split: option.split)

text \<open>What the loop over the regions keeps: entries of other regions, and that entries are settled.\<close>

definition region_extends :: "string set \<Rightarrow> FederationRegionStatus list \<Rightarrow> FederationRegionStatus list \<Rightarrow> bool" where
  "region_extends names sts sts' \<longleftrightarrow> (\<forall>x \<in> set sts. rgs_Name x \<notin> names \<longrightarrow> x \<in> set sts')
     \<and> (\<forall>n. (\<exists>x \<in> set sts. rgs_Name x = n \<and> settled_status x) \<longrightarrow> (\<exists>x \<in> set sts'. rgs_Name x = n \<and> settled_status x))"

lemma region_extends_trans: "region_extends N a b \<Longrightarrow> region_extends M b c \<Longrightarrow> region_extends (N \<union> M) a c"
  unfolding region_extends_def by (metis UnCI)

lemma region_extends_update:
  assumes "i < length sts" "rgs_Name (sts ! i) = n"
  shows "region_extends {n} sts (sts[i := region_result now err (sts ! i)])"
    and "\<exists>x \<in> set (sts[i := region_result now err (sts ! i)]). rgs_Name x = n \<and> settled_status x"
proof -
  let ?new = "region_result now err (sts ! i)"
  have new: "?new \<in> set (sts[i := ?new])" using assms(1) by (rule set_update_memI)
  then show "\<exists>x \<in> set (sts[i := ?new]). rgs_Name x = n \<and> settled_status x" using assms(2) by (intro bexI) simp_all
  have "x \<in> set (sts[i := ?new]) \<or> x = sts ! i" if x: "x \<in> set sts" for x
  proof -
    obtain j where "j < length sts" "sts ! j = x" using x by (auto simp: in_set_conv_nth)
    then show ?thesis by (cases "j = i") (auto simp: in_set_conv_nth intro!: exI [of _ j])
  qed
  with new assms(2) show "region_extends {n} sts (sts[i := ?new])" unfolding region_extends_def by (auto, metis region_result_simps)
qed

lemma region_extends_append: "region_extends {} sts (sts @ ys)"
  by (auto simp: region_extends_def)

definition quiet :: "'o rstate \<Rightarrow> 'o rstate \<Rightarrow> bool" where
  "quiet s s' \<longleftrightarrow> r_log s' = r_log s \<and> r_obj s' = r_obj s"

lemma quiet_propagate: "wp (propagateRegionMongoDB E W ns r) (\<lambda>_. quiet s0) s = quiet s0 s" 
  by (auto simp: propagateRegionMongoDB_def remoteClientFromKubeconfig_def wp_simps quiet_def split: sum.splits option.splits)

lemma sync_regions_extends:
  "quiet s0 s \<Longrightarrow> wp (sync_regions E W ns rs sts) (\<lambda>sts' s'. quiet s0 s' \<and> region_extends (fr_Name ` set rs) sts sts'
     \<and> (\<forall>r \<in> set rs. \<exists>x \<in> set sts'. rgs_Name x = fr_Name r \<and> settled_status x)) s"
proof (induction rs arbitrary: sts s)
  case Nil
  then show ?case by (simp add: wp_ret region_extends_def)
next
  case (Cons r rs)
  have step: "wp (do { err \<leftarrow> propagateRegionMongoDB E W ns r; now \<leftarrow> ask (w_now W);
        sync_regions E W ns rs (l[i := region_result now err (l ! i)]) })
      (\<lambda>sts' s'. quiet s0 s' \<and> region_extends (fr_Name ` set (r # rs)) sts sts'
        \<and> (\<forall>r \<in> set (r # rs). \<exists>x \<in> set sts'. rgs_Name x = fr_Name r \<and> settled_status x)) t"
    if l: "region_extends {} sts l" "i < length l" "rgs_Name (l ! i) = fr_Name r" and t: "quiet s0 t" for l i t
  proof -
    have q: "wp (propagateRegionMongoDB E W ns r) (\<lambda>_. quiet s0) t" using t by (simp add: quiet_propagate)
    show ?thesis unfolding wp_bind wp_ask
    proof (rule wp_mono [OF q])
      fix err u assume "quiet s0 u"
      then have u: "quiet s0 (u\<lparr>r_tick := Suc (r_tick u)\<rparr>)" by (simp add: quiet_def)
      let ?l = "l[i := region_result (w_now W (r_tick u)) err (l ! i)]"
      note e = region_extends_update [OF l(2,3), of "w_now W (r_tick u)" err]
      show "wp (sync_regions E W ns rs ?l) (\<lambda>sts' s'. quiet s0 s' \<and> region_extends (fr_Name ` set (r # rs)) sts sts'
          \<and> (\<forall>r \<in> set (r # rs). \<exists>x \<in> set sts'. rgs_Name x = fr_Name r \<and> settled_status x)) (u\<lparr>r_tick := Suc (r_tick u)\<rparr>)"
      proof (rule wp_mono [OF Cons.IH [OF u, of ?l]], elim conjE, intro conjI)
        fix sts' s' assume x: "region_extends (fr_Name ` set rs) ?l sts'"
        from region_extends_trans [OF region_extends_trans [OF l(1) e(1)] x]
        show "region_extends (fr_Name ` set (r # rs)) sts sts'" by simp
        assume "\<forall>r \<in> set rs. \<exists>x \<in> set sts'. rgs_Name x = fr_Name r \<and> settled_status x"
        moreover have "\<exists>y \<in> set sts'. rgs_Name y = fr_Name r \<and> settled_status y" using x e(2) by (simp add: region_extends_def)
        ultimately show "\<forall>r \<in> set (r # rs). \<exists>x \<in> set sts'. rgs_Name x = fr_Name r \<and> settled_status x" by simp
      qed
    qed
  qed
  show ?case
  proof (cases "indexOfRegion sts (fr_Name r)")
    case None
    let ?new = "\<lparr>rgs_Name = fr_Name r, rgs_Phase = federationPhasePending, rgs_LastSyncTime = Some (w_now W (r_tick s)), rgs_Error = []\<rparr>"
    have "quiet s0 (s\<lparr>r_tick := Suc (r_tick s)\<rparr>)" using Cons.prems by (simp add: quiet_def)
    from step [of "sts @ [?new]" "length sts", OF region_extends_append _ _ this]
    show ?thesis by (simp add: None wp_bind wp_ask wp_ret)
  next
    case (Some i)
    then show ?thesis using step [of sts i s] Cons.prems indexOfRegion_Some [OF Some] region_extends_append [of sts "[]"]
      by (simp add: wp_bind wp_ret)
  qed
qed

lemma phase_synced: "computeFederationPhase sts = ''Synced'' \<longleftrightarrow> sts \<noteq> [] \<and> (\<forall>x \<in> set sts. rgs_Phase x = ''Synced'')"
proof -
  have "length (filter P xs) = length xs \<longleftrightarrow> (\<forall>x \<in> set xs. P x)" for P and xs :: "FederationRegionStatus list"
    by (metis filter_id_conv length_filter_less nat_neq_iff)
  then show ?thesis by (auto simp: computeFederationPhase_def Let_def federation_phases filter_empty_conv)
qed

lemma phase_degraded: "x \<in> set sts \<Longrightarrow> rgs_Phase x = ''Failed'' \<Longrightarrow> computeFederationPhase sts = ''Degraded''"
  by (auto simp: computeFederationPhase_def Let_def federation_phases filter_empty_conv)

definition reported :: "MongoDBFederation \<Rightarrow> MongoDBFederation \<Rightarrow> bool" where
  "reported fed fed' \<longleftrightarrow> FdSpec fed' = FdSpec fed
     \<and> (\<forall>g \<in> set (fd_Regions (FdSpec fed)). \<exists>x \<in> set (fds_RegionStatuses (FdStatus fed')). rgs_Name x = fr_Name g \<and> settled_status x)
     \<and> (fds_Phase (FdStatus fed') = ''Synced'' \<longleftrightarrow> fds_RegionStatuses (FdStatus fed') \<noteq> []
          \<and> (\<forall>x \<in> set (fds_RegionStatuses (FdStatus fed')). rgs_Phase x = ''Synced''))
     \<and> (\<forall>old \<in> set (fds_RegionStatuses (FdStatus fed)). rgs_Name old \<notin> fr_Name ` set (fd_Regions (FdSpec fed)) \<longrightarrow>
          old \<in> set (fds_RegionStatuses (FdStatus fed')) \<and> (rgs_Phase old = ''Failed'' \<longrightarrow> fds_Phase (FdStatus fed') = ''Degraded''))"

lemma federation_pass:
  assumes "w_get W k = Inr fed" and "\<forall>i x. w_update_object W i x = (x, None)"
  shows "wp (ReconcileFederation E W) (\<lambda>r s'. r = (no_requeue, None) \<and> (\<exists>fed'. persisted (r_log s') = [fed'] \<and> reported fed fed')) (start_run fed k)"
proof -
  let ?s = "(start_run fed k)\<lparr>r_tick := Suc k\<rparr>"
  let ?upd = "\<lambda>sts. fed\<lparr>FdStatus := (FdStatus fed)\<lparr>fds_RegionStatuses := sts, fds_Phase := computeFederationPhase sts\<rparr>\<rparr>"
  have "quiet ?s ?s" by (simp add: quiet_def)
  note sync = sync_regions_extends [OF this, of E W "om_Namespace (FdMeta fed)" "fd_Regions (FdSpec fed)" "fds_RegionStatuses (FdStatus fed)"]
  have "wp (sync_regions E W (om_Namespace (FdMeta fed)) (fd_Regions (FdSpec fed)) (fds_RegionStatuses (FdStatus fed)))
      (\<lambda>sts s. persisted (r_log s) = [] \<and> reported fed (?upd sts)) ?s"
  proof (rule wp_mono [OF sync], elim conjE, intro conjI)
    fix sts s
    assume e: "region_extends (fr_Name ` set (fd_Regions (FdSpec fed))) (fds_RegionStatuses (FdStatus fed)) sts"
      and all: "\<forall>r \<in> set (fd_Regions (FdSpec fed)). \<exists>x \<in> set sts. rgs_Name x = fr_Name r \<and> settled_status x"
    then show "reported fed (?upd sts)" by (auto simp: reported_def region_extends_def phase_synced phase_degraded)
  qed (simp add: quiet_def)
  then have "wp (sync_regions E W (om_Namespace (FdMeta fed)) (fd_Regions (FdSpec fed)) (fds_RegionStatuses (FdStatus fed)))
      (\<lambda>sts. wp (do { put_obj (?upd sts); err \<leftarrow> status_update W; ret (no_requeue, err) })
        (\<lambda>r s'. r = (no_requeue, None) \<and> (\<exists>fed'. persisted (r_log s') = [fed'] \<and> reported fed fed'))) ?s"
    by (rule wp_mono) (simp add: status_update_def wp_simps assms(2))
  then show ?thesis unfolding ReconcileFederation_def wp_bind [of "ask _"] wp_ask by (simp add: assms(1) wp_bind)
qed

text \<open>
  C35. What a federation reports: a pass whose status write is accepted stores one status in which
  every region of the spec is either synced or failed, and the phase is \<^verbatim>\<open>Synced\<close> exactly if every
  reported region is synced. Regions that were removed from the spec keep their last entry, so a
  region that had failed when it was removed leaves the federation degraded for good.
\<close>

theorem federation_report:
  assumes "w_get W k = Inr fed" and "\<forall>i x. w_update_object W i x = (x, None)"
    and "run_state (ReconcileFederation E W) (start_run fed k) = (r, s')"
  shows "r = (no_requeue, None) \<and> (\<exists>fed'. persisted (r_log s') = [fed'] \<and> reported fed fed')"
  using federation_pass [OF assms(1,2), of E] assms(3) by (simp add: wp_def)

definition sample_federation :: MongoDBFederation where
  "sample_federation = \<lparr>FdMeta = \<lparr>om_Name = ''world'', om_Namespace = ''db'', om_Generation = 1, om_DeletionTimestamp = None,
       om_Finalizers = [], om_Annotations = []\<rparr>,
     FdSpec = \<lparr>fd_Version = \<lparr>ver_Version = ''8.2.1'', ver_Image = []\<rparr>,
       fd_Regions = [\<lparr>fr_Name = ''eu'', fr_ClusterKubeConfigRef = [], fr_Members = 3, fr_Priority = [], fr_Zone = [], fr_Storage = zero_storage\<rparr>],
       fd_Auth = mdb_Auth (Spec sample_mdb), fd_TLS = None\<rparr>,
     FdStatus = \<lparr>fds_Phase = ''Degraded'', fds_RegionStatuses = [\<lparr>rgs_Name = ''us'', rgs_Phase = ''Failed'', rgs_LastSyncTime = None, rgs_Error = ''x''\<rparr>],
       fds_Conditions = []\<rparr>\<rparr>"

definition federation_world :: "MongoDBFederation world" where
  "federation_world = (sample_world 5 done_sts [] yes_driver)\<lparr>w_get := \<lambda>_. Inr sample_federation\<rparr>"

definition sample_federation_env :: federation_env where
  "sample_federation_env = \<lparr>fe_client = \<lambda>_. Inr ''https://eu'', fe_nodes = \<lambda>_ _. None\<rparr>"

theorem federation_report_witness:
  "\<exists>fed'. persisted (r_log (snd (run_state (ReconcileFederation sample_federation_env federation_world) (start_run sample_federation 0)))) = [fed']
     \<and> fds_Phase (FdStatus fed') = ''Degraded''"
  using federation_report [OF _ _ surjective_pairing, of federation_world 0 sample_federation sample_federation_env]
  by (fastforce simp: federation_world_def sample_world_def reported_def sample_federation_def)

section \<open>Groups\<close>

text \<open>
  No pass ever reports a member of a group as synced: entries are created pending and never
  changed, so a group that starts without entries never reaches the phase \<^verbatim>\<open>Synced\<close>.
\<close>

definition all_pending :: "ClusterGroupMemberStatus list \<Rightarrow> bool" where
  "all_pending sts \<longleftrightarrow> (\<forall>s \<in> set sts. cgs_Phase s = ''Pending'')"

lemma all_pending_append: "all_pending (xs @ [x]) \<longleftrightarrow> all_pending xs \<and> cgs_Phase x = ''Pending''"
  by (auto simp: all_pending_def)

lemma ensure_members_pending: "all_pending sts \<Longrightarrow> all_pending (ensure_members ms sts)"
  by (induction ms arbitrary: sts) (simp_all add: all_pending_append group_phases)

lemma pending_phase: "all_pending sts \<Longrightarrow> computeClusterGroupPhase sts = ''Pending'' \<or> computeClusterGroupPhase sts = ''Reconciling''"
proof -
  assume "all_pending sts"
  then have "filter (\<lambda>s. cgs_Phase s = ''Synced'') sts = []" "filter (\<lambda>s. cgs_Phase s = ''Failed'') sts = []"
    by (auto simp: all_pending_def filter_empty_conv)
  then show ?thesis by (simp add: computeClusterGroupPhase_def group_phases Let_def)
qed

lemma group_never_synced:
  assumes "w_get W k = Inr g" and "all_pending (grs_MemberStatuses (GrStatus g))"
    and "\<forall>i x x' e. w_update_object W i x = (x', e) \<longrightarrow> GrStatus x' = GrStatus x"
  shows "wp (ReconcileClusterGroup W) (\<lambda>_ s'. \<forall>g' \<in> set (persisted (r_log s')).
    all_pending (grs_MemberStatuses (GrStatus g')) \<and> grs_Phase (GrStatus g') \<noteq> ''Synced'') (start_run g k)"
proof -
  let ?g = "g\<lparr>GrStatus := (GrStatus g)\<lparr>grs_Phase := computeClusterGroupPhase (grs_MemberStatuses (GrStatus g)),
     grs_MemberStatuses := ensure_members (gr_Members (GrSpec g)) (grs_MemberStatuses (GrStatus g))\<rparr>\<rparr>"
  obtain g' e where u: "w_update_object W (Suc k) ?g = (g', e)" by fastforce
  then have "GrStatus g' = GrStatus ?g" using assms(3) by blast
  then show ?thesis
    using pending_phase [OF assms(2)] ensure_members_pending [OF assms(2)]
    by (auto simp: ReconcileClusterGroup_def status_update_def wp_simps assms(1) u)
qed

end
