(* ===== verification/Search.thy ===== *)
theory Search
  imports Workloads Sharded
begin

text \<open>
  Search on a cluster: \<^verbatim>\<open>internal/controller/mongodbsearch_controller.go\<close> with the search user of
  \<^verbatim>\<open>internal/mongodb/auth.go\<close>, the configuration of the sidecar (\<^verbatim>\<open>internal/resources/mongot.go\<close>) and
  the types of \<^verbatim>\<open>api/v1beta1/mongodbsearch_types.go\<close>. The controller does not deploy the sidecar: it
  applies a config map, keeps the secret and the database user that the sidecar logs in with, and
  annotates the cluster, whose own controller then adds the sidecar to its pods.
\<close>

section \<open>Resource types\<close>

record SearchRouterSpec =
  srt_MongotShard :: string

record SearchSource =
  src_MongoDBResourceRef :: "string option"
  src_Kind :: string

record MongotVersion =
  mtv_Version :: string
  mtv_Image :: string

record MongoDBSearchSpec =
  ses_Source :: SearchSource
  ses_Version :: MongotVersion
  ses_Replicas :: int32
  ses_Resources :: ResourcesSpec
  ses_Storage :: StorageSpec
  ses_TLS :: "TLSSpec option"
  ses_SyncUserSecretRef :: "string option"
  ses_Pod :: "PodSpec option"
  ses_Router :: "SearchRouterSpec option"

record MongoDBSearchStatus =
  sest_Phase :: string
  sest_MongotEndpoint :: string
  sest_ReadyReplicas :: int32
  sest_ObservedGeneration :: int64
  sest_Error :: string
  sest_Conditions :: "Condition list"

text \<open>\<open>SeUID\<close> is the uid of the metadata, which owner references name.\<close>

record MongoDBSearch =
  SeMeta :: ObjectMeta
  SeUID :: string
  SeSpec :: MongoDBSearchSpec
  SeStatus :: MongoDBSearchStatus

abbreviation SeName :: "MongoDBSearch \<Rightarrow> string" where "SeName s \<equiv> om_Name (SeMeta s)"
abbreviation SeNamespace :: "MongoDBSearch \<Rightarrow> string" where "SeNamespace s \<equiv> om_Namespace (SeMeta s)"
abbreviation SePhase :: "MongoDBSearch \<Rightarrow> string" where "SePhase s \<equiv> sest_Phase (SeStatus s)"
abbreviation SeSource :: "MongoDBSearch \<Rightarrow> string option" where "SeSource s \<equiv> src_MongoDBResourceRef (ses_Source (SeSpec s))"
abbreviation SeUserSecret :: "MongoDBSearch \<Rightarrow> string option" where "SeUserSecret s \<equiv> ses_SyncUserSecretRef (SeSpec s)"

definition upd_se :: "(MongoDBSearchStatus \<Rightarrow> MongoDBSearchStatus) \<Rightarrow> MongoDBSearch \<Rightarrow> MongoDBSearch" where
  "upd_se f s = s\<lparr>SeStatus := f (SeStatus s)\<rparr>"

lemma upd_se_simps [simp]:
  "SeMeta (upd_se f s) = SeMeta s" "SeUID (upd_se f s) = SeUID s" "SeSpec (upd_se f s) = SeSpec s"
  "SeStatus (upd_se f s) = f (SeStatus s)"
  by (simp_all add: upd_se_def)

definition FinalizerMongoDBSearch :: string where "FinalizerMongoDBSearch = ''mongodbsearch.keiailab.com/finalizer''"
definition defaultSyncUser :: string where "defaultSyncUser = ''search-sync''"
definition kindMongoDBSharded :: string where "kindMongoDBSharded = ''MongoDBSharded''"
definition searchPhasePending :: string where "searchPhasePending = ''Pending''"
definition searchPhaseProvisioning :: string where "searchPhaseProvisioning = ''Provisioning''"
definition searchPhaseSyncing :: string where "searchPhaseSyncing = ''Syncing''"
definition searchPhaseReady :: string where "searchPhaseReady = ''Ready''"
definition searchPhaseDegraded :: string where "searchPhaseDegraded = ''Degraded''"
definition searchPhaseFailed :: string where "searchPhaseFailed = ''Failed''"
definition mongodbPhaseRunning :: string where "mongodbPhaseRunning = ''Running''"
definition mongotSidecarEndpoint :: string where "mongotSidecarEndpoint = ''localhost:27028''"
definition mongotContainerName :: string where "mongotContainerName = ''mongot''"
definition labelManagedBy :: string where "labelManagedBy = ''app.kubernetes.io/managed-by''"
definition managedByValue :: string where "managedByValue = ''mongodb-operator''"
definition conditionTypeSearchAvailable :: string where "conditionTypeSearchAvailable = ''Available''"
definition conditionTypeSearchProgressing :: string where "conditionTypeSearchProgressing = ''Progressing''"
definition conditionTypeSearchDegraded :: string where "conditionTypeSearchDegraded = ''Degraded''"

lemmas search_phases = searchPhasePending_def searchPhaseProvisioning_def searchPhaseSyncing_def searchPhaseReady_def
  searchPhaseDegraded_def searchPhaseFailed_def

section \<open>The user of the sidecar\<close>

definition scramSHA1 :: string where "scramSHA1 = ''SCRAM-SHA-1''"
definition scramSHA256 :: string where "scramSHA256 = ''SCRAM-SHA-256''"

definition EnsureSearchCoordinatorUser :: "mongo_driver \<Rightarrow> conn \<Rightarrow> string \<Rightarrow> string \<Rightarrow> unit mgr_result" where
  "EnsureSearchCoordinatorUser drv c username password =
     (if password = [] then
        ([], Inl (ErrMsg (''searchCoordinator user '' @ Quote username @ '': '' @ utf8 [235, 185, 136] @ '' password ''
           @ emdash @ '' passwordless user '' @ utf8 [236, 131, 157, 236, 132, 177, 32, 234, 177, 176, 235, 182, 128])))
      else
        let mechanisms = [scramSHA1, scramSHA256];
            roles = [(''searchCoordinator'', adminUserDB)];
            create = CreateUserCmd username password mechanisms roles;
            update = UpdateUserCmd username password mechanisms roles in
        case drv_run drv c create of
          None \<Rightarrow> ([create], Inr ())
        | Some err \<Rightarrow>
            if \<not>  isUserAlreadyExistsErr err
            then ([create], Inl (Wrapped (''createUser '' @ Quote username @ '' (searchCoordinator)'') err))
            else ([create, update],
                  case drv_run drv c update of
                    None \<Rightarrow> Inr ()
                  | Some e \<Rightarrow> Inl (Wrapped (''updateUser '' @ Quote username @ '' (searchCoordinator '' @ utf8 [235, 179, 180, 236, 160, 149] @ '')'') e)))"

definition isUserNotFoundErr :: "go_error \<Rightarrow> bool" where "isUserNotFoundErr err = HasErrorCode err 11"

definition DropSearchCoordinatorUser :: "mongo_driver \<Rightarrow> conn \<Rightarrow> string \<Rightarrow> unit mgr_result" where
  "DropSearchCoordinatorUser drv c username =
     ([DropUserCmd username],
      case drv_run drv c (DropUserCmd username) of
        None \<Rightarrow> Inr ()
      | Some e \<Rightarrow> if isUserNotFoundErr e then Inr ()
                 else Inl (Wrapped (''dropUser '' @ Quote username @ '' (searchCoordinator)'') e))"

text \<open>The commands of an operation are logged with the connection they were sent over.\<close>

definition issue_at :: "conn \<Rightarrow> (nat \<Rightarrow> unit mgr_result) \<Rightarrow> ('o, go_error option) ctl" where
  "issue_at c op = do {
     r \<leftarrow> ask op;
     State (\<lambda>s. ((), s\<lparr>r_log := r_log s @ map (IssuedAt c) (fst r)\<rparr>));
     ret (case snd r of Inl e \<Rightarrow> Some e | Inr _ \<Rightarrow> None)
   }"

lemma wp_issue_at [wp_simps]:
  "wp (issue_at c op) Q s =
     (case op (r_tick s) of (cmds, res) \<Rightarrow>
        Q (case res of Inl e \<Rightarrow> Some e | Inr _ \<Rightarrow> None) (s\<lparr>r_tick := Suc (r_tick s), r_log := r_log s @ map (IssuedAt c) cmds\<rparr>))"
  by (simp add: wp_def issue_at_def ask_def ret_def split: prod.splits)

section \<open>The configuration of the sidecar\<close>

definition MongodReplicaSetPort :: int where "MongodReplicaSetPort = 27017"
definition MongodShardPort :: int where "MongodShardPort = 27018"
definition MongosPort :: int where "MongosPort = 27017"
definition defaultMongotImage :: string where "defaultMongotImage = ''mongodb/mongodb-community-search:latest''"

definition MongotImage :: "MongotVersion \<Rightarrow> string" where
  "MongotImage v =
     (if mtv_Image v \<noteq> [] then mtv_Image v
      else if mtv_Version v \<noteq> [] then ''mongodb/mongodb-community-search:'' @ mtv_Version v
      else defaultMongotImage)"

definition mongotLabels :: "string \<Rightarrow> LabelSet" where "mongotLabels searchName = buildLabels searchName ''mongot''"

record ConfigMap =
  cm_Name :: string
  cm_Namespace :: string
  cm_Labels :: LabelSet
  cm_Data :: string_map

definition router_block :: "string \<Rightarrow> string \<Rightarrow> string" where
  "router_block routerHostPort syncUser =
     (if routerHostPort = [] then []
      else lines_of
        [''  router:'',
         ''    hostAndPort: '' @ Quote routerHostPort,
         ''    username: '' @ Quote syncUser,
         ''    passwordFile: '' @ mongotSecretsPath @ ''/passwordFile'',
         ''    tls: false''])"

definition BuildMongotConfigMap :: "string \<Rightarrow> string \<Rightarrow> string \<Rightarrow> string \<Rightarrow> bool \<Rightarrow> int \<Rightarrow> string \<Rightarrow> ConfigMap" where
  "BuildMongotConfigMap mdbName namespace searchName syncUser tlsEnabled mongodPort routerHostPort =
     \<lparr>cm_Name = MongotConfigMapName mdbName, cm_Namespace = namespace, cm_Labels = mongotLabels searchName,
      cm_Data = [(''config.yml'',
        lines_of
          [''# operator-generated mongot sidecar config '' @ emdash @ '' '' @ namespace @ ''/'' @ searchName @ '' (preview)'',
           ''syncSource:'',
           ''  replicaSet:'',
           ''    hostAndPort: '' @ Quote (''localhost:'' @ show_int mongodPort),
           ''    username: '' @ Quote syncUser,
           ''    passwordFile: '' @ mongotSecretsPath @ ''/passwordFile'',
           ''    tls: false'']
        @ router_block routerHostPort syncUser
        @ lines_of
          [''storage:'',
           ''  dataPath: '' @ Quote mongotBasePath,
           ''server:'',
           ''  grpc:'',
           ''    address: '' @ Quote (''0.0.0.0:'' @ show_nat mongotGRPCPort),
           ''    tls:'',
           ''      mode: '' @ Quote ''DISABLED'',
           ''metrics:'',
           ''  enabled: true'',
           ''  address: '' @ Quote ''0.0.0.0:9946'',
           ''healthCheck:'',
           ''  address: '' @ Quote (''0.0.0.0:'' @ show_int mongotHealthPort),
           ''logging:'',
           ''  verbosity: INFO''])]\<rparr>"

section \<open>Surroundings\<close>

text \<open>
  What the controller reads and writes besides its own resource: clusters, secrets with their
  owner, the container statuses of pods (name and readiness, one list per pod), patches of
  annotations, applied objects, and the random bytes of a password. \<^verbatim>\<open>SetControllerReference\<close> returns
  the secret with the owner set. \<^verbatim>\<open>HandleFinalizerCleanup\<close> is given the result of the cleanup
  function (\<open>None\<close> when it does not call it) and returns the object it stored, if it stored one.
\<close>

record search_env =
  se_mongodb :: "nat \<Rightarrow> string \<Rightarrow> string \<Rightarrow> go_error + MongoDB"
  se_sharded :: "nat \<Rightarrow> string \<Rightarrow> string \<Rightarrow> go_error + MongoDBSharded"
  se_secret :: "nat \<Rightarrow> string \<Rightarrow> string \<Rightarrow> go_error + OwnedSecret"
  se_create_secret :: "nat \<Rightarrow> OwnedSecret \<Rightarrow> go_error option"
  se_update_secret :: "nat \<Rightarrow> OwnedSecret \<Rightarrow> go_error option"
  se_SetControllerReference :: "nat \<Rightarrow> string \<Rightarrow> OwnedSecret \<Rightarrow> go_error + OwnedSecret"
  se_rand :: "nat \<Rightarrow> nat list"
  se_pods :: "nat \<Rightarrow> string \<Rightarrow> string_map \<Rightarrow> go_error + (string \<times> bool) list list"
  se_patch :: "nat \<Rightarrow> string \<Rightarrow> string_map \<Rightarrow> go_error option"
  se_apply :: "nat \<Rightarrow> string \<Rightarrow> string \<Rightarrow> string_map \<Rightarrow> go_error option"
  se_runs_cleanup :: "nat \<Rightarrow> MongoDBSearch \<Rightarrow> bool"
  se_HandleFinalizerCleanup :: "nat \<Rightarrow> MongoDBSearch \<Rightarrow> go_error option option \<Rightarrow> MongoDBSearch option \<times> reconcile_result"

definition apply_object :: "search_env \<Rightarrow> string \<Rightarrow> string \<Rightarrow> string_map \<Rightarrow> ('o, go_error option) ctl" where
  "apply_object E kind name content = do {
     err \<leftarrow> ask (\<lambda>k. se_apply E k kind name content);
     emit_if_ok err (AppliedObject kind name content);
     ret err
   }"

section \<open>Phases and conditions\<close>

definition searchPhaseFromReadiness :: "int32 \<Rightarrow> int32 \<Rightarrow> string" where
  "searchPhaseFromReadiness ready sidecars =
     (if sidecars = 0 then searchPhaseProvisioning
      else if ready = 0 then searchPhaseDegraded
      else if ready < sidecars then searchPhaseSyncing
      else searchPhaseReady)"

definition search_condition :: "string \<Rightarrow> bool \<Rightarrow> int64 \<Rightarrow> string \<Rightarrow> Condition" where
  "search_condition ty on generation phase =
     \<lparr>c_Type = ty, c_Status = (if on then ConditionTrue else ConditionFalse), c_ObservedGeneration = generation,
      c_LastTransitionTime = 0, c_Reason = ''Phase'' @ phase, c_Message = ''mongot sidecar phase='' @ phase\<rparr>"

definition setSearchConditions ::
    "(Condition \<Rightarrow> Condition list \<Rightarrow> Condition list) \<Rightarrow> int64 \<Rightarrow> string \<Rightarrow> Condition list \<Rightarrow> Condition list" where
  "setSearchConditions put generation phase conds =
     put (search_condition conditionTypeSearchDegraded (phase \<in> {searchPhaseDegraded, searchPhaseFailed}) generation phase)
       (put (search_condition conditionTypeSearchProgressing
               (phase \<in> {searchPhaseProvisioning, searchPhaseSyncing, searchPhasePending}) generation phase)
         (put (search_condition conditionTypeSearchAvailable (phase = searchPhaseReady) generation phase) conds))"

definition applySearchStatus :: "MongoDBSearch world \<Rightarrow> string \<Rightarrow> int32 \<Rightarrow> MongoDBSearch mutator" where
  "applySearchStatus W phase readyReplicas _ search =
     upd_se (\<lambda>s. s\<lparr>sest_Phase := phase, sest_MongotEndpoint := mongotSidecarEndpoint, sest_ReadyReplicas := readyReplicas,
       sest_ObservedGeneration := om_Generation (SeMeta search), sest_Error := [],
       sest_Conditions := setSearchConditions (w_SetStatusCondition W) (om_Generation (SeMeta search)) phase (sest_Conditions s)\<rparr>) search"

definition applySearchError :: "MongoDBSearch world \<Rightarrow> string \<Rightarrow> string \<Rightarrow> MongoDBSearch mutator" where
  "applySearchError W phase msg _ search =
     upd_se (\<lambda>s. s\<lparr>sest_Phase := phase, sest_Error := msg,
       sest_Conditions := setSearchConditions (w_SetStatusCondition W) (om_Generation (SeMeta search)) phase (sest_Conditions s)\<rparr>) search"

definition search_pending :: "MongoDBSearch world \<Rightarrow> string \<Rightarrow> (MongoDBSearch, reconcile_result) ctl" where
  "search_pending W msg = do {
     _ \<leftarrow> UpdateWithRetry W (applySearchError W searchPhasePending msg);
     ret (requeue_after (30 * second), None)
   }"

definition search_fail :: "MongoDBSearch world \<Rightarrow> string \<Rightarrow> (MongoDBSearch, reconcile_result) ctl" where
  "search_fail W msg = do {
     _ \<leftarrow> UpdateWithRetry W (applySearchError W searchPhaseFailed msg);
     ret (requeue_after minute, None)
   }"

text \<open>The write of the status at the end of a pass.\<close>

definition finish_search :: "MongoDBSearch world \<Rightarrow> string \<Rightarrow> int32 \<Rightarrow> (MongoDBSearch, reconcile_result) ctl" where
  "finish_search W phase readyReplicas = do {
     err \<leftarrow> UpdateWithRetry W (applySearchStatus W phase readyReplicas);
     ret (case err of
       Some e \<Rightarrow> (no_requeue, Some e)
     | None \<Rightarrow> if phase \<noteq> searchPhaseReady then (requeue_after (15 * second), None) else (requeue_after (2 * minute), None))
   }"

section \<open>Counting sidecars\<close>

fun count_containers :: "(string \<times> bool) list \<Rightarrow> int32 \<times> int32 \<Rightarrow> int32 \<times> int32" where
  "count_containers [] acc = acc"
| "count_containers ((name, ready) # cs) (r, t) =
     count_containers cs (if name = mongotContainerName then (if ready then wrap32 (r + 1) else r, wrap32 (t + 1)) else (r, t))"

definition count_pods :: "(string \<times> bool) list list \<Rightarrow> int32 \<times> int32 \<Rightarrow> int32 \<times> int32" where
  "count_pods pods acc = fold count_containers pods acc"

definition count_workload ::
    "search_env \<Rightarrow> MongoDBSearch world \<Rightarrow> string \<Rightarrow> string \<Rightarrow> int32 \<times> int32 \<Rightarrow> (MongoDBSearch, go_error + int32 \<times> int32) ctl" where
  "count_workload E W name namespace acc = do {
     got \<leftarrow> ask (\<lambda>k. w_sts W k name namespace);
     case got of
       Inl e \<Rightarrow> ret (if IsNotFound e then Inr acc else Inl e)
     | Inr sts \<Rightarrow> do {
         pods \<leftarrow> ask (\<lambda>k. se_pods E k namespace (sts_MatchLabels sts));
         ret (case pods of Inl e \<Rightarrow> Inl e | Inr ps \<Rightarrow> Inr (count_pods ps acc))
       }
   }"

definition countReadyMongotSidecars :: "search_env \<Rightarrow> MongoDBSearch world \<Rightarrow> MongoDB \<Rightarrow> (MongoDBSearch, go_error + int32 \<times> int32) ctl" where
  "countReadyMongotSidecars E W source = count_workload E W (Name source) (Namespace source) (0, 0)"

fun count_shards ::
    "search_env \<Rightarrow> MongoDBSearch world \<Rightarrow> MongoDBSharded \<Rightarrow> nat list \<Rightarrow> int32 \<times> int32 \<Rightarrow> (MongoDBSearch, go_error + int32 \<times> int32) ctl" where
  "count_shards E W mdbsh [] acc = ret (Inr acc)"
| "count_shards E W mdbsh (i # is) acc = do {
     got \<leftarrow> count_workload E W (shard_name mdbsh i) (ShNamespace mdbsh) acc;
     case got of Inl e \<Rightarrow> ret (Inl e) | Inr acc' \<Rightarrow> count_shards E W mdbsh is acc'
   }"

definition countReadyMongotSidecarsSharded ::
    "search_env \<Rightarrow> MongoDBSearch world \<Rightarrow> MongoDBSharded \<Rightarrow> (MongoDBSearch, go_error + int32 \<times> int32) ctl" where
  "countReadyMongotSidecarsSharded E W mdbsh = count_shards E W mdbsh [0..<shard_count mdbsh] (0, 0)"

section \<open>Secrets\<close>

text \<open>\<^verbatim>\<open>base64.RawURLEncoding\<close> on bytes, and a password from 32 random bytes.\<close>

definition base64_char :: "nat \<Rightarrow> char" where
  "base64_char n = (''ABCDEFGHIJKLMNOPQRSTUVWXYZabcdefghijklmnopqrstuvwxyz0123456789-_'') ! (n mod 64)"

fun RawURLEncoding :: "nat list \<Rightarrow> string" where
  "RawURLEncoding [] = []"
| "RawURLEncoding [a] = map base64_char [a div 4, a mod 4 * 16]"
| "RawURLEncoding [a, b] = map base64_char [a div 4, a mod 4 * 16 + b div 16, b mod 16 * 4]"
| "RawURLEncoding (a # b # c # bs) =
     map base64_char [a div 4, a mod 4 * 16 + b div 16, b mod 16 * 4 + c div 64, c mod 64] @ RawURLEncoding bs"

definition generateSyncPassword :: "nat list \<Rightarrow> string" where
  "generateSyncPassword random = RawURLEncoding (take 32 (random @ replicate 32 0))"

definition map_put :: "string \<Rightarrow> string \<Rightarrow> string_map \<Rightarrow> string_map" where
  "map_put key value m = (key, value) # filter (\<lambda>e. fst e \<noteq> key) m"

definition IsControlledBy :: "OwnedSecret \<Rightarrow> MongoDBSearch \<Rightarrow> bool" where
  "IsControlledBy secret search \<longleftrightarrow> sec_Controller secret = Some (SeUID search)"

definition sync_secret_name :: "MongoDBSearch \<Rightarrow> string" where
  "sync_secret_name search = SeName search @ ''-search-sync''"

definition resolveSyncUser :: "search_env \<Rightarrow> string \<Rightarrow> string \<Rightarrow> (MongoDBSearch, go_error + string) ctl" where
  "resolveSyncUser E name ns = do {
     got \<leftarrow> ask (\<lambda>k. se_secret E k name ns);
     ret (case got of
       Inl e \<Rightarrow> Inl (Wrapped (''get sync secret '' @ name) e)
     | Inr s \<Rightarrow> Inr (let u = map_get (sec_Data s) ''username'' in if u \<noteq> [] then u else defaultSyncUser))
   }"

text \<open>A secret with the operator's label that has lost its owner: it is owned again and gets a new password.\<close>

definition readopt_secret :: "search_env \<Rightarrow> OwnedSecret \<Rightarrow> (MongoDBSearch, go_error + string) ctl" where
  "readopt_secret E existing = do {
     search \<leftarrow> the_obj;
     owned \<leftarrow> ask (\<lambda>k. se_SetControllerReference E k (SeUID search) existing);
     case owned of
       Inl e \<Rightarrow> ret (Inl (Wrapped ''re-adopt sync secret owner ref'' e))
     | Inr s \<Rightarrow> do {
         random \<leftarrow> ask (se_rand E);
         let s' = s\<lparr>sec_Data := map_put ''password'' (generateSyncPassword random)
                      (map_put ''username'' defaultSyncUser (sec_Data s))\<rparr>;
         err \<leftarrow> ask (\<lambda>k. se_update_secret E k s');
         emit_if_ok err (SecretWritten s');
         ret (case err of
           Some e \<Rightarrow> Inl (Wrapped ''re-adopt sync secret update'' e)
         | None \<Rightarrow> Inr (sync_secret_name search))
       }
   }"

definition fresh_secret :: "MongoDBSearch \<Rightarrow> string \<Rightarrow> OwnedSecret" where
  "fresh_secret search password =
     \<lparr>sec_Name = sync_secret_name search,
      sec_Data = [(''username'', defaultSyncUser), (''password'', password)],
      sec_Namespace = SeNamespace search,
      sec_Labels = [(labelManagedBy, managedByValue), (''mongodb.keiailab.com/search'', SeName search)],
      sec_Controller = None\<rparr>"

text \<open>
  \<^verbatim>\<open>ensureSyncSecret\<close> calls itself when another writer created the secret between its read and its
  write. \<open>races\<close> bounds the number of attempts; \<open>None\<close> stands for an execution that is still
  running after them.
\<close>

primrec ensureSyncSecret :: "nat \<Rightarrow> search_env \<Rightarrow> (MongoDBSearch, (go_error + string) option) ctl" where
  "ensureSyncSecret 0 E = ret None"
| "ensureSyncSecret (Suc races) E = do {
     search \<leftarrow> the_obj;
     case SeUserSecret search of
       Some name \<Rightarrow> ret (Some (Inr name))
     | None \<Rightarrow> do {
         got \<leftarrow> ask (\<lambda>k. se_secret E k (sync_secret_name search) (SeNamespace search));
         case got of
           Inr existing \<Rightarrow>
             if IsControlledBy existing search then ret (Some (Inr (sync_secret_name search)))
             else if map_get (sec_Labels existing) labelManagedBy \<noteq> managedByValue
             then ret (Some (Inl (ErrMsg (''sync secret '' @ Quote (sync_secret_name search) @
               utf8 [32, 234, 176, 128, 32, 236, 157, 180, 235, 175, 184, 32, 236, 161, 180, 236, 158, 172, 237, 149, 152, 235, 130, 152, 32, 111, 112, 101, 114, 97, 116, 111, 114, 32, 236, 134, 140, 236, 156, 160, 32, 236, 149, 132, 235, 139, 152, 40, 111, 119, 110, 101, 114, 45, 114, 101, 102, 47, 109, 97, 110, 97, 103, 101, 100, 45, 98, 121, 32, 235, 182, 128, 236, 158, 172, 41, 32, 226, 128, 148, 32, 102, 111, 114, 101, 105, 103, 110, 47, 112, 114, 101, 45, 115, 116, 97, 103, 101, 100, 32, 115, 101, 99, 114, 101, 116, 32, 97, 100, 111, 112, 116, 32, 234, 177, 176, 235, 182, 128, 40, 112, 114, 105, 118, 105, 108, 101, 103, 101, 32, 101, 115, 99, 97, 108, 97, 116, 105, 111, 110, 32, 235, 176, 169, 236, 167, 128, 41, 46, 32, 236, 130, 173, 236, 160, 156, 237, 149, 152, 234, 177, 176, 235, 130, 152, 32, 115, 112, 101, 99, 46, 115, 121, 110, 99, 85, 115, 101, 114, 83, 101, 99, 114, 101, 116, 82, 101, 102, 32, 235, 161, 156, 32, 235, 170, 133, 236, 139, 156, 32, 236, 167, 128, 236, 160, 149]))))
             else do { r \<leftarrow> readopt_secret E existing; ret (Some r) }
         | Inl e \<Rightarrow>
             if IsNotFound e then do {
               random \<leftarrow> ask (se_rand E);
               owned \<leftarrow> ask (\<lambda>k. se_SetControllerReference E k (SeUID search) (fresh_secret search (generateSyncPassword random)));
               case owned of
                 Inl e \<Rightarrow> ret (Some (Inl (Wrapped ''set owner ref on sync secret'' e)))
               | Inr secret \<Rightarrow> do {
                   err \<leftarrow> ask (\<lambda>k. se_create_secret E k secret);
                   emit_if_ok err (SecretWritten secret);
                   case err of
                     None \<Rightarrow> ret (Some (Inr (sync_secret_name search)))
                   | Some e \<Rightarrow> if IsAlreadyExists e then ensureSyncSecret races E
                       else ret (Some (Inl (Wrapped ''create sync secret'' e)))
                 }
             }
             else ret (Some (Inl (Wrapped ''get sync secret'' e)))
       }
   }"

section \<open>The user in the database\<close>

definition sourceAdminPassword :: "search_env \<Rightarrow> MongoDB \<Rightarrow> (MongoDBSearch, go_error + string) ctl" where
  "sourceAdminPassword E source =
     (let secretName = auth_AdminCredentialsSecretRef (mdb_Auth (Spec source)) in
      if secretName = [] then
        ret (Inl (ErrMsg (''source MongoDB '' @ Quote (Name source) @ utf8 [32, 236, 151, 144, 32, 97, 100, 109, 105, 110, 32, 99, 114, 101, 100, 101, 110, 116, 105, 97, 108, 115, 32, 115, 101, 99, 114, 101, 116, 32, 235, 175, 184, 236, 132, 164, 236, 160, 149])))
      else do {
        got \<leftarrow> ask (\<lambda>k. se_secret E k secretName (Namespace source));
        ret (case got of
          Inl e \<Rightarrow> Inl (Wrapped (''get admin secret '' @ secretName) e)
        | Inr s \<Rightarrow> let pw = map_get (sec_Data s) ''password'' in
            if pw = [] then Inl (ErrMsg (''admin secret '' @ secretName @ utf8 [32, 236, 151, 144, 32, 112, 97, 115, 115, 119, 111, 114, 100, 32, 237, 130, 164, 32, 236, 151, 134, 236, 157, 140])) else Inr pw)
      })"

definition source_connect :: "mongo_driver \<Rightarrow> MongoDB \<Rightarrow> string \<Rightarrow> go_error + conn" where
  "source_connect drv source adminPw =
     NewPodConnectFactory drv (Name source @ ''-headless'') 27017 ''admin'' adminPw ''admin'' (Name source @ ''-0'') (Namespace source) False"

definition mongos_connect :: "mongo_driver \<Rightarrow> MongoDBSharded \<Rightarrow> string \<Rightarrow> go_error + conn" where
  "mongos_connect drv mdbsh adminPw =
     NewServiceConnectFactory drv (ShName mdbsh @ ''-mongos'') (ShNamespace mdbsh) MongosPort ''admin'' adminPw ''admin''
       [] (ShNamespace mdbsh) False"

definition shard_connect :: "mongo_driver \<Rightarrow> MongoDBSharded \<Rightarrow> string \<Rightarrow> nat \<Rightarrow> go_error + conn" where
  "shard_connect drv mdbsh adminPw i =
     NewPodConnectFactory drv (shard_name mdbsh i @ ''-headless'') MongodShardPort ''admin'' adminPw ''admin''
       (shard_name mdbsh i @ ''-0'') (ShNamespace mdbsh) False"

definition user_on_source :: "search_env \<Rightarrow> MongoDBSearch world \<Rightarrow> MongoDB \<Rightarrow> string \<Rightarrow> (MongoDBSearch, go_error option) ctl" where
  "user_on_source E W source pw = do {
     admin \<leftarrow> sourceAdminPassword E source;
     case admin of
       Inl e \<Rightarrow> ret (Some e)
     | Inr adminPw \<Rightarrow> do {
         conn \<leftarrow> ask (\<lambda>k. source_connect (w_drv W k) source adminPw);
         case conn of
           Inl e \<Rightarrow> ret (Some (Wrapped ''connect source mongod'' e))
         | Inr c \<Rightarrow> issue_at c (\<lambda>k. EnsureSearchCoordinatorUser (w_drv W k) c defaultSyncUser pw)
       }
   }"

definition ensureSyncMongoUser :: "search_env \<Rightarrow> MongoDBSearch world \<Rightarrow> MongoDB \<Rightarrow> string \<Rightarrow> (MongoDBSearch, go_error option) ctl" where
  "ensureSyncMongoUser E W source secretName = do {
     search \<leftarrow> the_obj;
     if SeUserSecret search \<noteq> None then ret None
     else if s_Phase (Status source) \<noteq> mongodbPhaseRunning then ret None
     else do {
       got \<leftarrow> ask (\<lambda>k. se_secret E k secretName (SeNamespace search));
       case got of
         Inl e \<Rightarrow> ret (Some (Wrapped ''get sync secret'' e))
       | Inr s \<Rightarrow> user_on_source E W source (map_get (sec_Data s) ''password'')
     }
   }"

fun ensure_on_shards ::
    "MongoDBSearch world \<Rightarrow> MongoDBSharded \<Rightarrow> string \<Rightarrow> string \<Rightarrow> nat list \<Rightarrow> (MongoDBSearch, go_error option) ctl" where
  "ensure_on_shards W mdbsh adminPw pw [] = ret None"
| "ensure_on_shards W mdbsh adminPw pw (i # is) = do {
     conn \<leftarrow> ask (\<lambda>k. shard_connect (w_drv W k) mdbsh adminPw i);
     case conn of
       Inl e \<Rightarrow> ret (Some (Wrapped (''connect shard '' @ show_nat i @ '' mongod'') e))
     | Inr c \<Rightarrow> do {
         err \<leftarrow> issue_at c (\<lambda>k. EnsureSearchCoordinatorUser (w_drv W k) c defaultSyncUser pw);
         case err of
           Some e \<Rightarrow> ret (Some (Wrapped (''ensure search-sync on shard '' @ show_nat i) e))
         | None \<Rightarrow> ensure_on_shards W mdbsh adminPw pw is
       }
   }"

definition user_on_cluster :: "search_env \<Rightarrow> MongoDBSearch world \<Rightarrow> MongoDBSharded \<Rightarrow> string \<Rightarrow> (MongoDBSearch, go_error option) ctl" where
  "user_on_cluster E W mdbsh pw =
     (let adminSecretName = auth_AdminCredentialsSecretRef (shd_Auth (ShSpec mdbsh)) in
      if adminSecretName = [] then
        ret (Some (ErrMsg (''source MongoDBSharded '' @ Quote (ShName mdbsh) @ utf8 [32, 236, 151, 144, 32, 97, 100, 109, 105, 110, 32, 99, 114, 101, 100, 101, 110, 116, 105, 97, 108, 115, 32, 115, 101, 99, 114, 101, 116, 32, 235, 175, 184, 236, 132, 164, 236, 160, 149])))
      else do {
        admin \<leftarrow> ask (\<lambda>k. se_secret E k adminSecretName (ShNamespace mdbsh));
        case admin of
          Inl e \<Rightarrow> ret (Some (Wrapped (''get admin secret '' @ adminSecretName) e))
        | Inr a \<Rightarrow>
            (let adminPw = map_get (sec_Data a) ''password'' in
             if adminPw = [] then ret (Some (ErrMsg (''admin secret '' @ adminSecretName @ utf8 [32, 236, 151, 144, 32, 112, 97, 115, 115, 119, 111, 114, 100, 32, 237, 130, 164, 32, 236, 151, 134, 236, 157, 140])))
             else do {
               conn \<leftarrow> ask (\<lambda>k. mongos_connect (w_drv W k) mdbsh adminPw);
               case conn of
                 Inl e \<Rightarrow> ret (Some (Wrapped ''connect mongos'' e))
               | Inr c \<Rightarrow> do {
                   err \<leftarrow> issue_at c (\<lambda>k. EnsureSearchCoordinatorUser (w_drv W k) c defaultSyncUser pw);
                   case err of
                     Some e \<Rightarrow> ret (Some (Wrapped ''ensure search-sync via mongos(router)'' e))
                   | None \<Rightarrow> ensure_on_shards W mdbsh adminPw pw [0..<shard_count mdbsh]
                 }
             })
      })"

definition ensureSyncMongoUserSharded ::
    "search_env \<Rightarrow> MongoDBSearch world \<Rightarrow> MongoDBSharded \<Rightarrow> string \<Rightarrow> (MongoDBSearch, go_error option) ctl" where
  "ensureSyncMongoUserSharded E W mdbsh secretName = do {
     search \<leftarrow> the_obj;
     if SeUserSecret search \<noteq> None then ret None
     else if ss_Phase (ShStatus mdbsh) \<noteq> mongodbPhaseRunning then ret None
     else do {
       got \<leftarrow> ask (\<lambda>k. se_secret E k secretName (SeNamespace search));
       case got of
         Inl e \<Rightarrow> ret (Some (Wrapped ''get sync secret'' e))
       | Inr s \<Rightarrow> user_on_cluster E W mdbsh (map_get (sec_Data s) ''password'')
     }
   }"

definition dropSyncMongoUser :: "search_env \<Rightarrow> MongoDBSearch world \<Rightarrow> string \<Rightarrow> (MongoDBSearch, go_error option) ctl" where
  "dropSyncMongoUser E W sourceName = do {
     search \<leftarrow> the_obj;
     got \<leftarrow> ask (\<lambda>k. se_mongodb E k sourceName (SeNamespace search));
     case got of
       Inl e \<Rightarrow> ret (if IsNotFound e then None else Some e)
     | Inr source \<Rightarrow>
         if s_Phase (Status source) \<noteq> mongodbPhaseRunning then
           ret (Some (ErrMsg (''source MongoDB '' @ Quote (Name source) @ '' not Running(phase='' @ Quote (s_Phase (Status source))
             @ utf8 [41, 32, 226, 128, 148, 32, 115, 101, 97, 114, 99, 104, 67, 111, 111, 114, 100, 105, 110, 97, 116, 111, 114, 32, 100, 114, 111, 112, 32, 236, 158, 172, 236, 139, 156, 235, 143, 132, 32, 235, 140, 128, 234, 184, 176])))
         else do {
           admin \<leftarrow> sourceAdminPassword E source;
           case admin of
             Inl e \<Rightarrow> ret (Some (Wrapped ''source admin password(drop)'' e))
           | Inr adminPw \<Rightarrow> do {
               conn \<leftarrow> ask (\<lambda>k. source_connect (w_drv W k) source adminPw);
               case conn of
                 Inl e \<Rightarrow> ret (Some (Wrapped ''connect source mongod(drop)'' e))
               | Inr c \<Rightarrow> issue_at c (\<lambda>k. DropSearchCoordinatorUser (w_drv W k) c defaultSyncUser)
             }
         }
   }"

text \<open>A server of the cluster: its connection, or the error with which it is reported.\<close>

definition drop_at :: "MongoDBSearch world \<Rightarrow> (mongo_driver \<Rightarrow> go_error + conn) \<Rightarrow> string \<Rightarrow> (MongoDBSearch, go_error option) ctl" where
  "drop_at W connect what = do {
     conn \<leftarrow> ask (\<lambda>k. connect (w_drv W k));
     case conn of
       Inl e \<Rightarrow> ret (Some (Wrapped what e))
     | Inr c \<Rightarrow> issue_at c (\<lambda>k. DropSearchCoordinatorUser (w_drv W k) c defaultSyncUser)
   }"

text \<open>\<^verbatim>\<open>setErr\<close>: the first error is kept, the remaining shards are tried all the same.\<close>

fun drop_on_shards ::
    "MongoDBSearch world \<Rightarrow> MongoDBSharded \<Rightarrow> string \<Rightarrow> nat list \<Rightarrow> go_error option \<Rightarrow> (MongoDBSearch, go_error option) ctl" where
  "drop_on_shards W mdbsh adminPw [] dropErr = ret dropErr"
| "drop_on_shards W mdbsh adminPw (i # is) dropErr = do {
     err \<leftarrow> drop_at W (\<lambda>drv. shard_connect drv mdbsh adminPw i) (''connect shard '' @ show_nat i @ ''(drop)'');
     drop_on_shards W mdbsh adminPw is (if dropErr = None then err else dropErr)
   }"

definition dropSyncMongoUserSharded :: "search_env \<Rightarrow> MongoDBSearch world \<Rightarrow> string \<Rightarrow> (MongoDBSearch, go_error option) ctl" where
  "dropSyncMongoUserSharded E W sourceName = do {
     search \<leftarrow> the_obj;
     got \<leftarrow> ask (\<lambda>k. se_sharded E k sourceName (SeNamespace search));
     case got of
       Inl e \<Rightarrow> ret (if IsNotFound e then None else Some e)
     | Inr mdbsh \<Rightarrow>
         (let adminSecretName = auth_AdminCredentialsSecretRef (shd_Auth (ShSpec mdbsh)) in
          if ss_Phase (ShStatus mdbsh) \<noteq> mongodbPhaseRunning then
            ret (Some (ErrMsg (''source MongoDBSharded '' @ Quote (ShName mdbsh) @ '' not Running(phase='' @ Quote (ss_Phase (ShStatus mdbsh))
              @ utf8 [41, 32, 226, 128, 148, 32, 100, 114, 111, 112, 32, 236, 158, 172, 236, 139, 156, 235, 143, 132, 32, 235, 140, 128, 234, 184, 176])))
          else if adminSecretName = [] then
            ret (Some (ErrMsg (''source MongoDBSharded '' @ Quote (ShName mdbsh) @ utf8 [32, 97, 100, 109, 105, 110, 32, 99, 114, 101, 100, 101, 110, 116, 105, 97, 108, 115, 32, 115, 101, 99, 114, 101, 116, 32, 235, 175, 184, 236, 132, 164, 236, 160, 149, 32, 226, 128, 148, 32, 100, 114, 111, 112, 32, 235, 182, 136, 234, 176, 128])))
          else do {
            admin \<leftarrow> ask (\<lambda>k. se_secret E k adminSecretName (ShNamespace mdbsh));
            case admin of
              Inl e \<Rightarrow> ret (Some (Wrapped ''get admin secret(drop)'' e))
            | Inr a \<Rightarrow>
                (let adminPw = map_get (sec_Data a) ''password'' in
                 if adminPw = [] then ret (Some (ErrMsg (''admin secret '' @ Quote adminSecretName @ utf8 [32, 112, 97, 115, 115, 119, 111, 114, 100, 32, 237, 130, 164, 32, 236, 151, 134, 236, 157, 140, 40, 100, 114, 111, 112, 41])))
                 else do {
                   err \<leftarrow> drop_at W (\<lambda>drv. mongos_connect drv mdbsh adminPw) ''connect mongos(drop)'';
                   drop_on_shards W mdbsh adminPw [0..<shard_count mdbsh] err
                 })
          })
   }"

section \<open>Deletion\<close>

definition search_cleanup :: "search_env \<Rightarrow> MongoDBSearch world \<Rightarrow> (MongoDBSearch, go_error option) ctl" where
  "search_cleanup E W = do {
     search \<leftarrow> the_obj;
     case SeSource search of
       None \<Rightarrow> ret None
     | Some sourceName \<Rightarrow> do {
         got \<leftarrow> ask (\<lambda>k. se_secret E k (sync_secret_name search) (SeNamespace search));
         case got of
           Inl e \<Rightarrow> ret (if IsNotFound e then None else Some e)
         | Inr managed \<Rightarrow>
             if map_get (sec_Labels managed) labelManagedBy \<noteq> managedByValue then ret None
             else if src_Kind (ses_Source (SeSpec search)) = kindMongoDBSharded then dropSyncMongoUserSharded E W sourceName
             else dropSyncMongoUser E W sourceName
       }
   }"

definition search_handleDeletion :: "search_env \<Rightarrow> MongoDBSearch world \<Rightarrow> (MongoDBSearch, reconcile_result) ctl" where
  "search_handleDeletion E W = do {
     search \<leftarrow> the_obj;
     run \<leftarrow> ask (\<lambda>k. se_runs_cleanup E k search);
     cleaned \<leftarrow> (if run then do { err \<leftarrow> search_cleanup E W; ret (Some err) } else ret None);
     r \<leftarrow> ask (\<lambda>k. se_HandleFinalizerCleanup E k search cleaned);
     (case fst r of
        None \<Rightarrow> ret ()
      | Some search' \<Rightarrow> do { put_obj search'; emit (PersistObject search') });
     ret (snd r)
   }"

section \<open>Annotations of the cluster\<close>

definition source_annotations :: "string \<Rightarrow> string \<Rightarrow> string \<Rightarrow> string_map" where
  "source_annotations img syncSecret tlsMode =
     [(MongotSidecarImageAnnotation, img), (MongotSyncSecretAnnotation, syncSecret), (MongotTLSModeAnnotation, tlsMode)]"

definition patch_annotations :: "search_env \<Rightarrow> string \<Rightarrow> string_map \<Rightarrow> string_map \<Rightarrow> ('o, go_error option) ctl" where
  "patch_annotations E name current wanted =
     (if list_all (\<lambda>(k, v). map_get current k = v) wanted then ret None
      else do {
        err \<leftarrow> ask (\<lambda>k. se_patch E k name wanted);
        emit_if_ok err (Annotated name wanted);
        ret err
      })"

definition annotateSource :: "search_env \<Rightarrow> MongoDB \<Rightarrow> string \<Rightarrow> string \<Rightarrow> string \<Rightarrow> (MongoDBSearch, go_error option) ctl" where
  "annotateSource E source img syncSecret tlsMode =
     patch_annotations E (Name source) (om_Annotations (Meta source)) (source_annotations img syncSecret tlsMode)"

definition annotateShardedSource ::
    "search_env \<Rightarrow> MongoDBSharded \<Rightarrow> string \<Rightarrow> string \<Rightarrow> string \<Rightarrow> string \<Rightarrow> (MongoDBSearch, go_error option) ctl" where
  "annotateShardedSource E mdbsh img syncSecret tlsMode routerShard =
     patch_annotations E (ShName mdbsh) (om_Annotations (ShMeta mdbsh))
       (source_annotations img syncSecret tlsMode @ [(MongotRouterShardAnnotation, routerShard)])"

definition routerShardOf :: "MongoDBSearch \<Rightarrow> string" where
  "routerShardOf search =
     (case ses_Router (SeSpec search) of
        Some r \<Rightarrow> if srt_MongotShard r \<noteq> [] then srt_MongotShard r else DefaultMongotRouterShard
      | None \<Rightarrow> DefaultMongotRouterShard)"

definition annotated_locally :: "string \<Rightarrow> string \<Rightarrow> string \<Rightarrow> MongoDBSharded \<Rightarrow> MongoDBSharded" where
  "annotated_locally img tlsMode routerShard mdbsh =
     mdbsh\<lparr>ShMeta := (ShMeta mdbsh)\<lparr>om_Annotations :=
       map_put MongotRouterShardAnnotation routerShard (map_put MongotTLSModeAnnotation tlsMode
         (map_put MongotSidecarImageAnnotation img (om_Annotations (ShMeta mdbsh))))\<rparr>\<rparr>"

section \<open>The pass\<close>

text \<open>The name of the sync user: taken from the secret only when the user of the resource gave the secret.\<close>

definition sync_user :: "search_env \<Rightarrow> string \<Rightarrow> (MongoDBSearch, go_error + string) ctl" where
  "sync_user E syncSecret = do {
     search \<leftarrow> the_obj;
     if SeUserSecret search \<noteq> None then resolveSyncUser E syncSecret (SeNamespace search) else ret (Inr defaultSyncUser)
   }"

definition report_sidecars ::
    "MongoDBSearch world \<Rightarrow> bool \<Rightarrow> string \<Rightarrow> (MongoDBSearch, go_error + int32 \<times> int32) ctl \<Rightarrow> (MongoDBSearch, reconcile_result) ctl" where
  "report_sidecars W running what counting =
     (if running then do {
        got \<leftarrow> counting;
        case got of
          Inl e \<Rightarrow> ret (no_requeue, Some (Wrapped what e))
        | Inr (ready, sidecars) \<Rightarrow> finish_search W (searchPhaseFromReadiness ready sidecars) ready
      }
      else finish_search W searchPhaseProvisioning 0)"

text \<open>The end of a pass over a replica set: the user, the sidecars, the status.\<close>

definition replica_set_search :: "search_env \<Rightarrow> MongoDBSearch world \<Rightarrow> MongoDB \<Rightarrow> string \<Rightarrow> string \<Rightarrow> (MongoDBSearch, reconcile_result) ctl" where
  "replica_set_search E W source syncSecret syncUser = do {
     search \<leftarrow> the_obj;
     let img = MongotImage (ses_Version (SeSpec search));
     let cm = BuildMongotConfigMap (Name source) (SeNamespace search) (SeName search) syncUser
                (tls_enabled (mdb_TLS (Spec source))) MongodReplicaSetPort [];
     err \<leftarrow> apply_object E ''ConfigMap'' (cm_Name cm) (cm_Data cm);
     case err of
       Some e \<Rightarrow> ret (no_requeue, Some (Wrapped ''apply mongot configmap'' e))
     | None \<Rightarrow> do {
         err \<leftarrow> annotateSource E source img syncSecret ''disabled'';
         case err of
           Some e \<Rightarrow> ret (no_requeue, Some (Wrapped ''annotate source mongodb'' e))
         | None \<Rightarrow> do {
             _ \<leftarrow> ensureSyncMongoUser E W source syncSecret;
             report_sidecars W (s_Phase (Status source) = mongodbPhaseRunning) ''count mongot sidecars''
               (countReadyMongotSidecars E W source)
           }
       }
   }"

fun apply_shard_configs ::
    "search_env \<Rightarrow> MongoDBSharded \<Rightarrow> string \<Rightarrow> string \<Rightarrow> nat list \<Rightarrow> (MongoDBSearch, go_error option) ctl" where
  "apply_shard_configs E mdbsh syncUser routerHostPort [] = ret None"
| "apply_shard_configs E mdbsh syncUser routerHostPort (i # is) = do {
     search \<leftarrow> the_obj;
     let cm = BuildMongotConfigMap (shard_name mdbsh i) (SeNamespace search) (SeName search) syncUser
                (tls_enabled (shd_TLS (ShSpec mdbsh))) MongodShardPort routerHostPort;
     err \<leftarrow> apply_object E ''ConfigMap'' (cm_Name cm) (cm_Data cm);
     case err of
       Some e \<Rightarrow> ret (Some (Wrapped (''apply shard mongot configmap '' @ shard_name mdbsh i) e))
     | None \<Rightarrow> apply_shard_configs E mdbsh syncUser routerHostPort is
   }"

definition apply_mongot_service :: "search_env \<Rightarrow> MongoDBSharded \<Rightarrow> (MongoDBSearch, go_error option) ctl" where
  "apply_mongot_service E mdbsh =
     (case BuildMongotService mdbsh of
        None \<Rightarrow> ret None
      | Some svc \<Rightarrow> apply_object E ''Service'' (svc_Name svc) (snd (svc_Selector svc)))"

definition sharded_search :: "search_env \<Rightarrow> MongoDBSearch world \<Rightarrow> MongoDBSharded \<Rightarrow> string \<Rightarrow> string \<Rightarrow> (MongoDBSearch, reconcile_result) ctl" where
  "sharded_search E W mdbsh syncSecret syncUser = do {
     search \<leftarrow> the_obj;
     let img = MongotImage (ses_Version (SeSpec search));
     let routerHostPort = ShName mdbsh @ ''-mongos.'' @ SeNamespace search @ ''.svc.cluster.local:'' @ show_int MongosPort;
     err \<leftarrow> apply_shard_configs E mdbsh syncUser routerHostPort [0..<shard_count mdbsh];
     case err of
       Some e \<Rightarrow> ret (no_requeue, Some e)
     | None \<Rightarrow> do {
         let routerShard = routerShardOf search;
         err \<leftarrow> annotateShardedSource E mdbsh img syncSecret ''disabled'' routerShard;
         case err of
           Some e \<Rightarrow> ret (no_requeue, Some (Wrapped ''annotate source mongodbsharded'' e))
         | None \<Rightarrow> do {
             err \<leftarrow> apply_mongot_service E (annotated_locally img ''disabled'' routerShard mdbsh);
             case err of
               Some e \<Rightarrow> ret (no_requeue, Some (Wrapped ''apply mongot service'' e))
             | None \<Rightarrow> do {
                 _ \<leftarrow> ensureSyncMongoUserSharded E W mdbsh syncSecret;
                 report_sidecars W (ss_Phase (ShStatus mdbsh) = mongodbPhaseRunning) ''count sharded mongot sidecars''
                   (countReadyMongotSidecarsSharded E W mdbsh)
               }
           }
       }
   }"

text \<open>From the cluster on, both kinds of source take the same steps up to the sync user.\<close>

definition with_sync_user ::
    "nat \<Rightarrow> search_env \<Rightarrow> MongoDBSearch world \<Rightarrow> (string \<Rightarrow> string \<Rightarrow> (MongoDBSearch, reconcile_result) ctl)
     \<Rightarrow> (MongoDBSearch, reconcile_result option) ctl" where
  "with_sync_user races E W continue = do {
     secret \<leftarrow> ensureSyncSecret races E;
     case secret of
       None \<Rightarrow> ret None
     | Some (Inl e) \<Rightarrow> do { r \<leftarrow> search_fail W (''ensure sync secret: '' @ Error e); ret (Some r) }
     | Some (Inr syncSecret) \<Rightarrow> do {
         user \<leftarrow> sync_user E syncSecret;
         case user of
           Inl e \<Rightarrow> do { r \<leftarrow> search_fail W (''sync secret invalid: '' @ Error e); ret (Some r) }
         | Inr syncUser \<Rightarrow> do { r \<leftarrow> continue syncSecret syncUser; ret (Some r) }
       }
   }"

definition reconcileSharded :: "nat \<Rightarrow> search_env \<Rightarrow> MongoDBSearch world \<Rightarrow> string \<Rightarrow> (MongoDBSearch, reconcile_result option) ctl" where
  "reconcileSharded races E W sourceName = do {
     search \<leftarrow> the_obj;
     got \<leftarrow> ask (\<lambda>k. se_sharded E k sourceName (SeNamespace search));
     case got of
       Inl e \<Rightarrow> if IsNotFound e then do { r \<leftarrow> search_pending W ''source MongoDBSharded not found yet''; ret (Some r) }
               else ret (Some (no_requeue, Some e))
     | Inr mdbsh \<Rightarrow> with_sync_user races E W (sharded_search E W mdbsh)
   }"

definition reconcileReplicaSet :: "nat \<Rightarrow> search_env \<Rightarrow> MongoDBSearch world \<Rightarrow> string \<Rightarrow> (MongoDBSearch, reconcile_result option) ctl" where
  "reconcileReplicaSet races E W sourceName = do {
     search \<leftarrow> the_obj;
     got \<leftarrow> ask (\<lambda>k. se_mongodb E k sourceName (SeNamespace search));
     case got of
       Inl e \<Rightarrow> if IsNotFound e then do { r \<leftarrow> search_pending W ''source MongoDB not found yet''; ret (Some r) }
               else ret (Some (no_requeue, Some e))
     | Inr source \<Rightarrow> with_sync_user races E W (replica_set_search E W source)
   }"

definition add_search_finalizer :: "MongoDBSearch world \<Rightarrow> (MongoDBSearch, go_error option) ctl" where
  "add_search_finalizer W = do {
     search \<leftarrow> the_obj;
     if SeUserSecret search = None \<and> FinalizerMongoDBSearch \<notin> set (om_Finalizers (SeMeta search)) then do {
       put_obj (search\<lparr>SeMeta := (SeMeta search)\<lparr>om_Finalizers := om_Finalizers (SeMeta search) @ [FinalizerMongoDBSearch]\<rparr>\<rparr>);
       update_object W
     }
     else ret None
   }"

text \<open>An accepted update of the resource returns the spec it was given, so the source is read once.\<close>

definition ReconcileSearch :: "nat \<Rightarrow> search_env \<Rightarrow> MongoDBSearch world \<Rightarrow> (MongoDBSearch, reconcile_result option) ctl" where
  "ReconcileSearch races E W = do {
     got \<leftarrow> ask (w_get W);
     case got of
       Inl e \<Rightarrow> ret (Some (no_requeue, if IsNotFound e then None else Some e))
     | Inr search \<Rightarrow> do {
         put_obj search;
         if om_DeletionTimestamp (SeMeta search) \<noteq> None then do { r \<leftarrow> search_handleDeletion E W; ret (Some r) }
         else case SeSource search of
           None \<Rightarrow> do { r \<leftarrow> search_fail W ''source.mongodbResourceRef required''; ret (Some r) }
         | Some sourceName \<Rightarrow> do {
             err \<leftarrow> add_search_finalizer W;
             case err of
               Some e \<Rightarrow> ret (Some (no_requeue, Some e))
             | None \<Rightarrow>
                 if src_Kind (ses_Source (SeSpec search)) = kindMongoDBSharded then reconcileSharded races E W sourceName
                 else reconcileReplicaSet races E W sourceName
           }
       }
   }"

end
