(* ===== verification/Go_Json.thy ===== *)
theory Go_Json
  imports Go_Prelude
begin

text \<open>
  What the operator uses of \<^verbatim>\<open>encoding/json\<close>: \<^verbatim>\<open>json.Unmarshal\<close> of a text into a \<^verbatim>\<open>map[string]any\<close>, with its
  error and the keys of the decoded object. The text is checked by the byte-driven state machine
  of the library (\<^verbatim>\<open>scanner.go\<close>), so a rejected text gets the library's message.
\<close>

section \<open>The scanner\<close>

datatype json_step =
    BeginValue | BeginValueOrEmpty | BeginString | BeginStringOrEmpty | EndValue | EndTop
  | InString | InStringEsc | InStringEscU nat
  | Neg | Int1 | Int0 | Dot | Dot0 | Exp | ExpSign | Exp0
  | InLiteral string string

datatype parse_state = ParseObjectKey | ParseObjectValue | ParseArrayValue

text \<open>The stack has its top first.\<close>

record scanner =
  sc_step :: json_step
  sc_stack :: "parse_state list"

definition json_space :: "char \<Rightarrow> bool" where
  "json_space c \<longleftrightarrow> c \<in> {CHR 0x20, CHR 0x09, CHR 0x0D, CHR 0x0A}"

definition hex_char :: "char \<Rightarrow> bool" where
  "hex_char c \<longleftrightarrow> is_digit c \<or> CHR ''a'' \<le> c \<and> c \<le> CHR ''f'' \<or> CHR ''A'' \<le> c \<and> c \<le> CHR ''F''"

text \<open>
  The offending byte as a rune in single quotes: printable ones as they are, in UTF-8.
\<close>

definition quoteChar :: "char \<Rightarrow> string" where
  "quoteChar c =
     (let n = of_char c :: nat in
      if c = CHR 0x27 then [CHR 0x27, CHR 0x5C, CHR 0x27, CHR 0x27]
      else if c = CHR 0x22 then [CHR 0x27, CHR 0x22, CHR 0x27]
      else if n < 128 then CHR 0x27 # quote_char c @ [CHR 0x27]
      else if n \<le> 160 \<or> n = 173 then CHR 0x27 # CHR 0x5C # ''u00'' @ [hex_digit (n div 16), hex_digit (n mod 16), CHR 0x27]
      else CHR 0x27 # utf8 [192 + n div 64, 128 + n mod 64] @ [CHR 0x27])"

definition syntax_error :: "char \<Rightarrow> string \<Rightarrow> go_error + scanner" where
  "syntax_error c context = Inl (ErrMsg (''invalid character '' @ quoteChar c @ '' '' @ context))"

definition goes :: "scanner \<Rightarrow> json_step \<Rightarrow> go_error + scanner" where
  "goes s st = Inr (s\<lparr>sc_step := st\<rparr>)"

definition maxNestingDepth :: nat where "maxNestingDepth = 10000"

definition pushParseState :: "scanner \<Rightarrow> char \<Rightarrow> json_step \<Rightarrow> parse_state \<Rightarrow> go_error + scanner" where
  "pushParseState s c st ps =
     (if length (sc_stack s) < maxNestingDepth then Inr \<lparr>sc_step = st, sc_stack = ps # sc_stack s\<rparr>
      else syntax_error c ''exceeded max depth'')"

definition popParseState :: "scanner \<Rightarrow> go_error + scanner" where
  "popParseState s =
     (let rest = tl (sc_stack s) in Inr \<lparr>sc_step = (if rest = [] then EndTop else EndValue), sc_stack = rest\<rparr>)"

definition stateEndTop :: "scanner \<Rightarrow> char \<Rightarrow> go_error + scanner" where
  "stateEndTop s c = (if json_space c then goes s EndTop else syntax_error c ''after top-level value'')"

definition stateEndValue :: "scanner \<Rightarrow> char \<Rightarrow> go_error + scanner" where
  "stateEndValue s c =
     (case sc_stack s of
        [] \<Rightarrow> stateEndTop s c
      | ps # rest \<Rightarrow>
          if json_space c then goes s EndValue
          else case ps of
            ParseObjectKey \<Rightarrow>
              if c = CHR '':'' then Inr \<lparr>sc_step = BeginValue, sc_stack = ParseObjectValue # rest\<rparr>
              else syntax_error c ''after object key''
          | ParseObjectValue \<Rightarrow>
              if c = CHR '','' then Inr \<lparr>sc_step = BeginString, sc_stack = ParseObjectKey # rest\<rparr>
              else if c = CHR ''}'' then popParseState s
              else syntax_error c ''after object key:value pair''
          | ParseArrayValue \<Rightarrow>
              if c = CHR '','' then goes s BeginValue
              else if c = CHR '']'' then popParseState s
              else syntax_error c ''after array element'')"

definition stateBeginValue :: "scanner \<Rightarrow> char \<Rightarrow> go_error + scanner" where
  "stateBeginValue s c =
     (if json_space c then Inr s
      else if c = CHR ''{'' then pushParseState s c BeginStringOrEmpty ParseObjectKey
      else if c = CHR ''['' then pushParseState s c BeginValueOrEmpty ParseArrayValue
      else if c = CHR 0x22 then goes s InString
      else if c = CHR ''-'' then goes s Neg
      else if c = CHR ''0'' then goes s Int0
      else if c = CHR ''t'' then goes s (InLiteral ''true'' ''rue'')
      else if c = CHR ''f'' then goes s (InLiteral ''false'' ''alse'')
      else if c = CHR ''n'' then goes s (InLiteral ''null'' ''ull'')
      else if is_digit c then goes s Int1
      else syntax_error c ''looking for beginning of value'')"

definition stateBeginString :: "scanner \<Rightarrow> char \<Rightarrow> go_error + scanner" where
  "stateBeginString s c =
     (if json_space c then Inr s
      else if c = CHR 0x22 then goes s InString
      else syntax_error c ''looking for beginning of object key string'')"

definition state0 :: "scanner \<Rightarrow> char \<Rightarrow> go_error + scanner" where
  "state0 s c = (if c = CHR ''.'' then goes s Dot else if c \<in> {CHR ''e'', CHR ''E''} then goes s Exp else stateEndValue s c)"

definition stateESign :: "scanner \<Rightarrow> char \<Rightarrow> go_error + scanner" where
  "stateESign s c = (if is_digit c then goes s Exp0 else syntax_error c ''in exponent of numeric literal'')"

definition scan_step :: "scanner \<Rightarrow> char \<Rightarrow> go_error + scanner" where
  "scan_step s c =
     (case sc_step s of
        BeginValue \<Rightarrow> stateBeginValue s c
      | BeginValueOrEmpty \<Rightarrow> if c = CHR '']'' then stateEndValue s c else stateBeginValue s c
      | BeginString \<Rightarrow> stateBeginString s c
      | BeginStringOrEmpty \<Rightarrow>
          if c = CHR ''}'' then stateEndValue (s\<lparr>sc_stack := ParseObjectValue # tl (sc_stack s)\<rparr>) c else stateBeginString s c
      | EndValue \<Rightarrow> stateEndValue s c
      | EndTop \<Rightarrow> stateEndTop s c
      | InString \<Rightarrow>
          if c = CHR 0x22 then goes s EndValue else if c = CHR 0x5C then goes s InStringEsc
          else if c < CHR 0x20 then syntax_error c ''in string literal'' else Inr s
      | InStringEsc \<Rightarrow>
          if c \<in> {CHR ''b'', CHR ''f'', CHR ''n'', CHR ''r'', CHR ''t'', CHR 0x5C, CHR ''/'', CHR 0x22} then goes s InString
          else if c = CHR ''u'' then goes s (InStringEscU 0) else syntax_error c ''in string escape code''
      | InStringEscU n \<Rightarrow>
          if hex_char c then goes s (if n = 3 then InString else InStringEscU (n + 1))
          else syntax_error c (''in '' @ CHR 0x5C # ''u hexadecimal character escape'')
      | Neg \<Rightarrow> if c = CHR ''0'' then goes s Int0 else if is_digit c then goes s Int1 else syntax_error c ''in numeric literal''
      | Int1 \<Rightarrow> if is_digit c then Inr s else state0 s c
      | Int0 \<Rightarrow> state0 s c
      | Dot \<Rightarrow> if is_digit c then goes s Dot0 else syntax_error c ''after decimal point in numeric literal''
      | Dot0 \<Rightarrow> if is_digit c then Inr s else if c \<in> {CHR ''e'', CHR ''E''} then goes s Exp else stateEndValue s c
      | Exp \<Rightarrow> if c \<in> {CHR ''+'', CHR ''-''} then goes s ExpSign else stateESign s c
      | ExpSign \<Rightarrow> stateESign s c
      | Exp0 \<Rightarrow> if is_digit c then Inr s else stateEndValue s c
      | InLiteral word rest \<Rightarrow>
          if c = hd rest then goes s (if tl rest = [] then EndValue else InLiteral word (tl rest))
          else syntax_error c (''in literal '' @ word @ '' (expecting '' @ quoteChar (hd rest) @ '')''))"

fun scan :: "scanner \<Rightarrow> string \<Rightarrow> go_error + scanner" where
  "scan s [] = Inr s"
| "scan s (c # cs) = (case scan_step s c of Inl e \<Rightarrow> Inl e | Inr s' \<Rightarrow> scan s' cs)"

definition scan_start :: scanner where "scan_start = \<lparr>sc_step = BeginValue, sc_stack = []\<rparr>"

text \<open>\<^verbatim>\<open>eof\<close>: a value that is complete at the end, possibly after one more blank.\<close>

definition checkValid :: "string \<Rightarrow> go_error option" where
  "checkValid data =
     (case scan scan_start data of
        Inl e \<Rightarrow> Some e
      | Inr s \<Rightarrow>
          if sc_step s = EndTop then None
          else case scan_step s (CHR 0x20) of
            Inl e \<Rightarrow> Some e
          | Inr s' \<Rightarrow> if sc_step s' = EndTop then None else Some (ErrMsg ''unexpected end of JSON input''))"

section \<open>Decoding into a map\<close>

text \<open>
  The literals of a valid text: the raw keys of the top-level object, and the numbers, which
  \<^verbatim>\<open>ParseFloat\<close> refuses when they round beyond the largest 64-bit float.
\<close>

definition in_key :: "scanner \<Rightarrow> bool" where
  "in_key s \<longleftrightarrow> sc_stack s = [ParseObjectKey] \<and> (case sc_step s of InString \<Rightarrow> True | InStringEsc \<Rightarrow> True | InStringEscU _ \<Rightarrow> True | _ \<Rightarrow> False)"

definition in_number :: "scanner \<Rightarrow> bool" where
  "in_number s \<longleftrightarrow> sc_step s \<in> {Neg, Int1, Int0, Dot, Dot0, Exp, ExpSign, Exp0}"

fun literals :: "(scanner \<Rightarrow> bool) \<Rightarrow> scanner \<Rightarrow> string \<Rightarrow> string \<Rightarrow> string list" where
  "literals wanted s buf [] = (if wanted s then [buf] else [])"
| "literals wanted s buf (c # cs) =
     (case scan_step s c of
        Inl _ \<Rightarrow> []
      | Inr s' \<Rightarrow> if wanted s \<and> \<not> wanted s' then buf # literals wanted s' [] cs
                 else literals wanted s' (if wanted s' then buf @ [c] else []) cs)"

definition top_keys :: "string \<Rightarrow> string list" where
  "top_keys data = map tl (literals in_key scan_start [] data)"

definition hex_val :: "char \<Rightarrow> nat" where
  "hex_val c = (let n = of_char c in if n < 65 then n - 48 else if n < 97 then n - 55 else n - 87)"

definition EncodeRune :: "nat \<Rightarrow> string" where
  "EncodeRune r =
     (if r < 128 then utf8 [r]
      else if r < 2048 then utf8 [192 + r div 64, 128 + r mod 64]
      else if r < 65536 then utf8 [224 + r div 4096, 128 + r div 64 mod 64, 128 + r mod 64]
      else utf8 [240 + r div 262144, 128 + r div 4096 mod 64, 128 + r div 64 mod 64, 128 + r mod 64])"

text \<open>
  \<^verbatim>\<open>unquote\<close> of the inside of a string that the scanner accepted; a surrogate that is not the first of a
  pair becomes the replacement character. Bytes beyond ASCII are kept as they are.
\<close>

definition getu4 :: "string \<Rightarrow> nat" where
  "getu4 s = foldl (\<lambda>n c. n * 16 + hex_val c) 0 (take 4 s)"

definition escaped_char :: "char \<Rightarrow> char" where
  "escaped_char c =
     (if c = CHR ''b'' then CHR 0x08 else if c = CHR ''f'' then CHR 0x0C else if c = CHR ''n'' then CHR 0x0A
      else if c = CHR ''r'' then CHR 0x0D else if c = CHR ''t'' then CHR 0x09 else c)"

fun json_unescape :: "string \<Rightarrow> string" where
  "json_unescape [] = []"
| "json_unescape [c] = [c]"
| "json_unescape (b # u # rest) =
     (if b \<noteq> CHR 0x5C then b # json_unescape (u # rest)
      else if u \<noteq> CHR ''u'' then escaped_char u # json_unescape rest
      else
        let r = getu4 rest; r2 = getu4 (drop 6 rest) in
        if r < 55296 \<or> 57344 \<le> r then EncodeRune r @ json_unescape (drop 4 rest)
        else if r < 56320 \<and> HasPrefix (drop 4 rest) [CHR 0x5C, CHR ''u''] \<and> 56320 \<le> r2 \<and> r2 < 57344
        then EncodeRune ((r - 55296) * 1024 + (r2 - 56320) + 65536) @ json_unescape (drop 10 rest)
        else EncodeRune 65533 @ json_unescape (drop 4 rest))"

text \<open>A number of \<open>m * 10 ^ e\<close> is too large when it rounds beyond \<open>2 ^ 1024 - 2 ^ 971\<close>.\<close>

definition split_exponent :: "string \<Rightarrow> string \<times> string" where
  "split_exponent s = (let m = takeWhile (\<lambda>c. c \<notin> {CHR ''e'', CHR ''E''}) s in (m, drop (Suc (length m)) s))"

definition signed_value :: "string \<Rightarrow> int" where
  "signed_value s = (if HasPrefix s ''-'' then - digits_value 0 (tl s)
     else digits_value 0 (if HasPrefix s ''+'' then tl s else s))"

definition float_overflows :: "string \<Rightarrow> bool" where
  "float_overflows lit =
     (let (m, x) = split_exponent lit;
          whole = takeWhile (\<lambda>c. c \<noteq> CHR ''.'') m;
          frac = drop (Suc (length whole)) m;
          digits = abs (signed_value (whole @ frac));
          e = signed_value x - int (length frac);
          bound = 2 ^ 1024 - 2 ^ 970 in
      if 0 \<le> e then bound \<le> digits * 10 ^ nat e else bound * 10 ^ nat (- e) \<le> digits)"

definition type_error :: "string \<Rightarrow> string \<Rightarrow> go_error" where
  "type_error what into = ErrMsg (''json: cannot unmarshal '' @ what @ '' into Go value of type '' @ into)"

text \<open>The keys of the decoded map, in the order of the text and with repetitions.\<close>

definition Unmarshal_map :: "string \<Rightarrow> go_error + string list" where
  "Unmarshal_map data =
     (case checkValid data of
        Some e \<Rightarrow> Inl e
      | None \<Rightarrow>
          (let c = hd (dropWhile json_space data); refuse = (\<lambda>what. Inl (type_error what ''map[string]interface {}'')) in
           if c = CHR ''n'' then Inr []
           else if c = CHR ''['' then refuse ''array''
           else if c = CHR 0x22 then refuse ''string''
           else if c = CHR ''t'' \<or> c = CHR ''f'' then refuse ''bool''
           else if c \<noteq> CHR ''{'' then refuse ''number''
           else case filter float_overflows (literals in_number scan_start [] data) of
             lit # _ \<Rightarrow> Inl (type_error (''number '' @ lit) ''float64'')
           | [] \<Rightarrow> Inr (map json_unescape (top_keys data))))"

end
