(* ===== verification/Search_Index.thy ===== *)
theory Search_Index
  imports Search Admission Go_Json
begin

text \<open>
  Declared search indexes: \<^verbatim>\<open>internal/controller/mongodbsearchindex_controller.go\<close>, the manager of
  \<^verbatim>\<open>internal/mongodb/searchindex.go\<close>, the types of \<^verbatim>\<open>api/v1beta1/mongodbsearchindex_types.go\<close> and the webhook
  of \<^verbatim>\<open>internal/webhook/v1beta1\<close>. An index resource names a search resource, which names a cluster; the
  controller creates the index on that cluster and reports how its build goes.
\<close>

section \<open>Resource types\<close>

record MongoDBSearchIndexSpec =
  sis_SearchRef :: string
  sis_Database :: string
  sis_Collection :: string
  sis_IndexName :: string
  sis_Type :: string
  sis_DefinitionJSON :: string

record MongoDBSearchIndexStatus =
  sist_Phase :: string
  sist_IndexID :: string
  sist_Queryable :: bool
  sist_ObservedGeneration :: int64
  sist_Error :: string
  sist_Conditions :: "Condition list"

record MongoDBSearchIndex =
  SiMeta :: ObjectMeta
  SiSpec :: MongoDBSearchIndexSpec
  SiStatus :: MongoDBSearchIndexStatus

abbreviation SiNamespace :: "MongoDBSearchIndex \<Rightarrow> string" where "SiNamespace x \<equiv> om_Namespace (SiMeta x)"
abbreviation SiDeleted :: "MongoDBSearchIndex \<Rightarrow> bool" where "SiDeleted x \<equiv> om_DeletionTimestamp (SiMeta x) \<noteq> None"

definition FinalizerMongoDBSearchIndex :: string where "FinalizerMongoDBSearchIndex = ''mongodbsearchindex.keiailab.com/finalizer''"
definition siPhasePending :: string where "siPhasePending = ''Pending''"
definition siPhaseBuilding :: string where "siPhaseBuilding = ''Building''"
definition siPhaseReady :: string where "siPhaseReady = ''Ready''"
definition siPhaseFailed :: string where "siPhaseFailed = ''Failed''"
definition siPhaseDeleting :: string where "siPhaseDeleting = ''Deleting''"
definition siConditionReady :: string where "siConditionReady = ''Ready''"

lemmas si_phases = siPhasePending_def siPhaseBuilding_def siPhaseReady_def siPhaseFailed_def siPhaseDeleting_def

section \<open>The webhook\<close>

definition validateSearchIndexSpec :: "MongoDBSearchIndex \<Rightarrow> FieldError list" where
  "validateSearchIndexSpec idx =
     (case Unmarshal_map (sis_DefinitionJSON (SiSpec idx)) of
        Inl e \<Rightarrow> [Invalid (Child ''spec'' ''definitionJSON'') (''must be valid JSON: '' @ Error e)]
      | Inr keys \<Rightarrow>
          if sis_Type (SiSpec idx) = ''vectorSearch'' \<and> ''fields'' \<notin> set keys
          then [Invalid (Child ''spec'' ''definitionJSON'')
                  (''type=vectorSearch requires a '' @ Quote ''fields'' @ '' array (vector embedding definition)'')]
          else [])"

definition validateImmutable :: "string \<Rightarrow> string \<Rightarrow> string \<Rightarrow> FieldError list" where
  "validateImmutable path oldVal newVal =
     (if oldVal \<noteq> newVal then [Invalid path (utf8 [105, 109, 109, 117, 116, 97, 98, 108, 101, 58, 32, 109, 111, 110, 103, 111, 116, 32, 236, 157, 184, 235, 141, 177, 236, 138, 164, 235, 138, 148, 32, 114, 101, 110, 97, 109, 101, 47, 114, 101, 116, 97, 114, 103, 101, 116, 32, 235, 182, 136, 234, 176, 128, 32, 226, 128, 148, 32, 235, 179, 128, 234, 178, 189, 237, 149, 152, 235, 160, 164, 235, 169, 180, 32, 67, 82, 32, 236, 130, 173, 236, 160, 156, 32, 237, 155, 132, 32, 236, 158, 172, 236, 131, 157, 236, 132, 177])] else [])"

definition ValidateIndexCreate :: "MongoDBSearchIndex \<Rightarrow> ApiError option" where
  "ValidateIndexCreate idx =
     (let errs = validateSearchIndexSpec idx in
      if errs \<noteq> [] then Some (NewInvalid ''MongoDBSearchIndex'' (om_Name (SiMeta idx)) errs) else None)"

definition immutable_fields :: "MongoDBSearchIndexSpec \<Rightarrow> MongoDBSearchIndexSpec \<Rightarrow> FieldError list" where
  "immutable_fields a b =
     (let p = ''spec'' in
        validateImmutable (Child p ''database'') (sis_Database a) (sis_Database b)
      @ validateImmutable (Child p ''collection'') (sis_Collection a) (sis_Collection b)
      @ validateImmutable (Child p ''indexName'') (sis_IndexName a) (sis_IndexName b)
      @ validateImmutable (Child p ''type'') (sis_Type a) (sis_Type b)
      @ validateImmutable (Child (Child p ''searchRef'') ''name'') (sis_SearchRef a) (sis_SearchRef b))"

definition ValidateIndexUpdate :: "MongoDBSearchIndex option \<Rightarrow> MongoDBSearchIndex \<Rightarrow> ApiError option" where
  "ValidateIndexUpdate oldObj newObj =
     (let errs = validateSearchIndexSpec newObj
            @ (case oldObj of None \<Rightarrow> [] | Some x \<Rightarrow> immutable_fields (SiSpec x) (SiSpec newObj)) in
      if errs \<noteq> [] then Some (NewInvalid ''MongoDBSearchIndex'' (om_Name (SiMeta newObj)) errs) else None)"

section \<open>Index status and errors of the server\<close>

record SearchIndexInfo =
  sii_ID :: string
  sii_Name :: string
  sii_Status :: string
  sii_Queryable :: bool

text \<open>
  \<^verbatim>\<open>strings.ToUpper\<close> and \<^verbatim>\<open>strings.ToLower\<close> as far as their results are ASCII: two letters outside ASCII
  have an ASCII counterpart each way; the others are kept, which no comparison below can see.
\<close>

fun ToUpper :: "string \<Rightarrow> string" where
  "ToUpper [] = []"
| "ToUpper (c # s) =
     (if CHR ''a'' \<le> c \<and> c \<le> CHR ''z'' then char_of (of_char c - 32 :: nat) # ToUpper s
      else if c = CHR 0xC4 \<and> HasPrefix s [CHR 0xB1] then CHR ''I'' # ToUpper (tl s)
      else if c = CHR 0xC5 \<and> HasPrefix s [CHR 0xBF] then CHR ''S'' # ToUpper (tl s)
      else c # ToUpper s)"

fun ToLower :: "string \<Rightarrow> string" where
  "ToLower [] = []"
| "ToLower (c # s) =
     (if CHR ''A'' \<le> c \<and> c \<le> CHR ''Z'' then char_of (of_char c + 32 :: nat) # ToLower s
      else if c = CHR 0xC4 \<and> HasPrefix s [CHR 0xB0] then CHR ''i'' # ToLower (tl s)
      else if c = CHR 0xE2 \<and> HasPrefix s [CHR 0x84, CHR 0xAA] then CHR ''k'' # ToLower (tl (tl s))
      else c # ToLower s)"

definition ClassifyMongotStatus :: "string \<Rightarrow> bool \<Rightarrow> string" where
  "ClassifyMongotStatus status queryable =
     (let s = ToUpper status in
      if s = ''READY'' then (if queryable then siPhaseReady else siPhaseBuilding)
      else if s \<in> {''PENDING'', ''BUILDING'', ''STALE''} then siPhaseBuilding
      else if s = ''FAILED'' then siPhaseFailed
      else siPhasePending)"

definition isIndexNotFoundErr :: "go_error \<Rightarrow> bool" where
  "isIndexNotFoundErr err =
     (HasErrorCode err 27 \<or> HasErrorCode err 26 \<or> HasErrorCode err 220
      \<or> (let s = ToLower (Error err) in
         StrContains s ''index not found'' \<or> StrContains s ''ns not found'' \<or> StrContains s ''does not exist''))"

section \<open>The surroundings\<close>

text \<open>
  What the controller reads besides its own resource. A listing can fail at the command or at the
  cursor. \<^verbatim>\<open>UnmarshalExtJSON\<close> is the decoder of the driver. \<^verbatim>\<open>HandleFinalizerCleanup\<close> as for search resources.
\<close>

record index_env =
  ie_search :: "nat \<Rightarrow> string \<Rightarrow> string \<Rightarrow> go_error + MongoDBSearch"
  ie_mongodb :: "nat \<Rightarrow> string \<Rightarrow> string \<Rightarrow> go_error + MongoDB"
  ie_sharded :: "nat \<Rightarrow> string \<Rightarrow> string \<Rightarrow> go_error + MongoDBSharded"
  ie_secret :: "nat \<Rightarrow> string \<Rightarrow> string \<Rightarrow> go_error + OwnedSecret"
  ie_list :: "nat \<Rightarrow> conn \<Rightarrow> string \<Rightarrow> string \<Rightarrow> string \<Rightarrow> go_error + (go_error + SearchIndexInfo list)"
  ie_UnmarshalExtJSON :: "string \<Rightarrow> go_error + bson_doc"
  ie_runs_cleanup :: "nat \<Rightarrow> MongoDBSearchIndex \<Rightarrow> bool"
  ie_HandleFinalizerCleanup ::
    "nat \<Rightarrow> MongoDBSearchIndex \<Rightarrow> go_error option option \<Rightarrow> MongoDBSearchIndex option \<times> reconcile_result"

section \<open>The manager\<close>

text \<open>A manager is its connect factory, on the driver at the time of the call.\<close>

type_synonym SearchIndexManager = "mongo_driver \<Rightarrow> ConnectFactory"

definition index_path :: "string \<Rightarrow> string \<Rightarrow> string \<Rightarrow> string" where
  "index_path db coll name = db @ ''.'' @ coll @ ''/'' @ name"

definition index_List ::
    "index_env \<Rightarrow> 'o world \<Rightarrow> SearchIndexManager \<Rightarrow> string \<Rightarrow> string \<Rightarrow> string \<Rightarrow> string \<Rightarrow> string
     \<Rightarrow> ('o, go_error + SearchIndexInfo list) ctl" where
  "index_List E W m podName namespace db coll name = do {
     conn \<leftarrow> ask (\<lambda>k. m (w_drv W k) podName namespace False);
     case conn of
       Inl e \<Rightarrow> ret (Inl (Wrapped ''connect for search index list'' e))
     | Inr c \<Rightarrow> do {
         got \<leftarrow> ask (\<lambda>k. ie_list E k c db coll name);
         ret (case got of
           Inl e \<Rightarrow> Inl (Wrapped (''listSearchIndexes '' @ index_path db coll name) e)
         | Inr (Inl e) \<Rightarrow> Inl (Wrapped ''decode search indexes'' e)
         | Inr (Inr out) \<Rightarrow> Inr out)
       }
   }"

definition index_run :: "mongo_driver \<Rightarrow> conn \<Rightarrow> mongo_cmd \<Rightarrow> string \<Rightarrow> (go_error \<Rightarrow> bool) \<Rightarrow> unit mgr_result" where
  "index_run drv c cmd what ignored =
     ([cmd], case drv_run drv c cmd of
        None \<Rightarrow> Inr ()
      | Some e \<Rightarrow> if ignored e then Inr () else Inl (Wrapped what e))"

definition index_op ::
    "'o world \<Rightarrow> SearchIndexManager \<Rightarrow> string \<Rightarrow> string \<Rightarrow> string \<Rightarrow> mongo_cmd \<Rightarrow> string \<Rightarrow> (go_error \<Rightarrow> bool) \<Rightarrow> ('o, go_error option) ctl" where
  "index_op W m podName namespace verb cmd what ignored = do {
     conn \<leftarrow> ask (\<lambda>k. m (w_drv W k) podName namespace False);
     case conn of
       Inl e \<Rightarrow> ret (Some (Wrapped (''connect for search index '' @ verb) e))
     | Inr c \<Rightarrow> issue_at c (\<lambda>k. index_run (w_drv W k) c cmd what ignored)
   }"

text \<open>The name that the server returns for a created index is not used by the caller.\<close>

definition index_Create ::
    "'o world \<Rightarrow> SearchIndexManager \<Rightarrow> string \<Rightarrow> string \<Rightarrow> string \<Rightarrow> string \<Rightarrow> string \<Rightarrow> string \<Rightarrow> bson_doc \<Rightarrow> ('o, go_error option) ctl" where
  "index_Create W m podName namespace db coll name indexType def =
     index_op W m podName namespace ''create'' (CreateSearchIndexCmd db coll name indexType def)
       (''createSearchIndex '' @ index_path db coll name) (\<lambda>_. False)"

definition index_Update ::
    "'o world \<Rightarrow> SearchIndexManager \<Rightarrow> string \<Rightarrow> string \<Rightarrow> string \<Rightarrow> string \<Rightarrow> string \<Rightarrow> bson_doc \<Rightarrow> ('o, go_error option) ctl" where
  "index_Update W m podName namespace db coll name def =
     index_op W m podName namespace ''update'' (UpdateSearchIndexCmd db coll name def)
       (''updateSearchIndex '' @ index_path db coll name) (\<lambda>_. False)"

definition index_Drop ::
    "'o world \<Rightarrow> SearchIndexManager \<Rightarrow> string \<Rightarrow> string \<Rightarrow> string \<Rightarrow> string \<Rightarrow> string \<Rightarrow> ('o, go_error option) ctl" where
  "index_Drop W m podName namespace db coll name =
     index_op W m podName namespace ''drop'' (DropSearchIndexCmd db coll name)
       (''dropSearchIndex '' @ index_path db coll name) isIndexNotFoundErr"

section \<open>Status writes\<close>

definition phaseMessage :: "string \<Rightarrow> string \<Rightarrow> string" where
  "phaseMessage phase errMsg = (if errMsg \<noteq> [] then errMsg else ''search index phase='' @ phase)"

definition applyIndexStatus :: "MongoDBSearchIndex world \<Rightarrow> string \<Rightarrow> string \<Rightarrow> bool \<Rightarrow> string \<Rightarrow> MongoDBSearchIndex mutator" where
  "applyIndexStatus W phase indexID queryable errMsg _ idx =
     idx\<lparr>SiStatus := \<lparr>sist_Phase = phase, sist_IndexID = indexID, sist_Queryable = queryable,
       sist_ObservedGeneration = om_Generation (SiMeta idx), sist_Error = errMsg,
       sist_Conditions = w_SetStatusCondition W
         \<lparr>c_Type = siConditionReady, c_Status = (if phase = siPhaseReady then ConditionTrue else ConditionFalse),
          c_ObservedGeneration = om_Generation (SiMeta idx), c_LastTransitionTime = 0, c_Reason = ''Phase'' @ phase,
          c_Message = phaseMessage phase errMsg\<rparr> (sist_Conditions (SiStatus idx))\<rparr>\<rparr>"

definition index_applyStatus ::
    "MongoDBSearchIndex world \<Rightarrow> string \<Rightarrow> string \<Rightarrow> bool \<Rightarrow> string \<Rightarrow> (MongoDBSearchIndex, go_error option) ctl" where
  "index_applyStatus W phase indexID queryable errMsg = UpdateWithRetry W (applyIndexStatus W phase indexID queryable errMsg)"

definition index_report :: "MongoDBSearchIndex world \<Rightarrow> string \<Rightarrow> duration \<Rightarrow> string \<Rightarrow> (MongoDBSearchIndex, reconcile_result) ctl" where
  "index_report W phase interval msg = do {
     idx \<leftarrow> the_obj;
     _ \<leftarrow> index_applyStatus W phase (sist_IndexID (SiStatus idx)) False msg;
     ret (requeue_after interval, None)
   }"

definition index_pending :: "MongoDBSearchIndex world \<Rightarrow> string \<Rightarrow> (MongoDBSearchIndex, reconcile_result) ctl" where
  "index_pending W msg = index_report W siPhasePending (30 * second) msg"

definition index_building :: "MongoDBSearchIndex world \<Rightarrow> string \<Rightarrow> (MongoDBSearchIndex, reconcile_result) ctl" where
  "index_building W msg = index_report W siPhaseBuilding (10 * second) msg"

definition index_fail :: "MongoDBSearchIndex world \<Rightarrow> string \<Rightarrow> (MongoDBSearchIndex, reconcile_result) ctl" where
  "index_fail W msg = index_report W siPhaseFailed minute msg"

section \<open>The cluster behind the index\<close>

definition adminPasswordFor :: "index_env \<Rightarrow> string \<Rightarrow> string \<Rightarrow> ('o, go_error + string) ctl" where
  "adminPasswordFor E secretName namespace =
     (if secretName = [] then ret (Inl (ErrMsg (utf8 [97, 100, 109, 105, 110, 32, 99, 114, 101, 100, 101, 110, 116, 105, 97, 108, 115, 32, 115, 101, 99, 114, 101, 116, 32, 235, 175, 184, 236, 132, 164, 236, 160, 149])))
      else do {
        got \<leftarrow> ask (\<lambda>k. ie_secret E k secretName namespace);
        ret (case got of
          Inl e \<Rightarrow> Inl (Wrapped (''get admin secret '' @ secretName) e)
        | Inr s \<Rightarrow>
            if map_get (sec_Data s) ''password'' = [] then Inl (ErrMsg (''admin secret '' @ secretName @ utf8 [32, 236, 151, 144, 32, 112, 97, 115, 115, 119, 111, 114, 100, 32, 237, 130, 164, 32, 236, 151, 134, 236, 157, 140]))
            else Inr (map_get (sec_Data s) ''password''))
      })"

definition managerForSource :: "index_env \<Rightarrow> MongoDB \<Rightarrow> ('o, go_error + SearchIndexManager) ctl" where
  "managerForSource E source = do {
     pw \<leftarrow> adminPasswordFor E (auth_AdminCredentialsSecretRef (mdb_Auth (Spec source))) (Namespace source);
     ret (case pw of
       Inl e \<Rightarrow> Inl e
     | Inr adminPw \<Rightarrow> Inr (\<lambda>drv. NewPodConnectFactory drv (Name source @ ''-headless'') 27017 ''admin'' adminPw ''admin''))
   }"

definition managerForShardedSource :: "index_env \<Rightarrow> MongoDBSharded \<Rightarrow> ('o, go_error + SearchIndexManager) ctl" where
  "managerForShardedSource E mdbsh = do {
     pw \<leftarrow> adminPasswordFor E (auth_AdminCredentialsSecretRef (shd_Auth (ShSpec mdbsh))) (ShNamespace mdbsh);
     ret (case pw of
       Inl e \<Rightarrow> Inl e
     | Inr adminPw \<Rightarrow>
         Inr (\<lambda>drv. NewServiceConnectFactory drv (ShName mdbsh @ ''-mongos'') (ShNamespace mdbsh) 27017 ''admin'' adminPw ''admin''))
   }"

datatype resolved =
    ResolveError go_error
  | NotYet string
  | Source SearchIndexManager string bool

definition resolveSourceManager :: "index_env \<Rightarrow> MongoDBSearch \<Rightarrow> string \<Rightarrow> (MongoDBSearchIndex, resolved) ctl" where
  "resolveSourceManager E search sourceName = do {
     idx \<leftarrow> the_obj;
     if src_Kind (ses_Source (SeSpec search)) = kindMongoDBSharded then do {
       got \<leftarrow> ask (\<lambda>k. ie_sharded E k sourceName (SiNamespace idx));
       case got of
         Inl e \<Rightarrow> ret (if IsNotFound e then NotYet ''source MongoDBSharded not found yet'' else ResolveError e)
       | Inr mdbsh \<Rightarrow> do {
           m \<leftarrow> managerForShardedSource E mdbsh;
           ret (case m of
             Inl e \<Rightarrow> NotYet (''source connection unavailable: '' @ Error e)
           | Inr m \<Rightarrow> Source m [] (ss_Phase (ShStatus mdbsh) = mongodbPhaseRunning))
         }
     }
     else do {
       got \<leftarrow> ask (\<lambda>k. ie_mongodb E k sourceName (SiNamespace idx));
       case got of
         Inl e \<Rightarrow> ret (if IsNotFound e then NotYet ''source MongoDB not found yet'' else ResolveError e)
       | Inr source \<Rightarrow> do {
           m \<leftarrow> managerForSource E source;
           ret (case m of
             Inl e \<Rightarrow> NotYet (''source connection unavailable: '' @ Error e)
           | Inr m \<Rightarrow> Source m (Name source @ ''-0'') (s_Phase (Status source) = mongodbPhaseRunning))
         }
     }
   }"

section \<open>The pass\<close>

text \<open>The manager is absent when the cluster cannot be reached; then there is nothing to drop.\<close>

definition index_cleanup :: "MongoDBSearchIndex world \<Rightarrow> (SearchIndexManager \<times> string) option \<Rightarrow> (MongoDBSearchIndex, go_error option) ctl" where
  "index_cleanup W m =
     (case m of
        None \<Rightarrow> ret None
      | Some (mgr, pod) \<Rightarrow> do {
          idx \<leftarrow> the_obj;
          index_Drop W mgr pod (SiNamespace idx) (sis_Database (SiSpec idx)) (sis_Collection (SiSpec idx)) (sis_IndexName (SiSpec idx))
        })"

definition index_handleDeletion ::
    "index_env \<Rightarrow> MongoDBSearchIndex world \<Rightarrow> (SearchIndexManager \<times> string) option \<Rightarrow> (MongoDBSearchIndex, reconcile_result) ctl" where
  "index_handleDeletion E W m = do {
     idx \<leftarrow> the_obj;
     _ \<leftarrow> index_applyStatus W siPhaseDeleting (sist_IndexID (SiStatus idx)) False [];
     idx \<leftarrow> the_obj;
     run \<leftarrow> ask (\<lambda>k. ie_runs_cleanup E k idx);
     cleaned \<leftarrow> (if run then do { err \<leftarrow> index_cleanup W m; ret (Some err) } else ret None);
     r \<leftarrow> ask (\<lambda>k. ie_HandleFinalizerCleanup E k idx cleaned);
     (case fst r of
        None \<Rightarrow> ret ()
      | Some idx' \<Rightarrow> do { put_obj idx'; emit (PersistObject idx') });
     ret (snd r)
   }"

definition indexType :: "MongoDBSearchIndex \<Rightarrow> string" where
  "indexType idx = (if sis_Type (SiSpec idx) = [] then ''search'' else sis_Type (SiSpec idx))"

definition ensureIndex ::
    "index_env \<Rightarrow> MongoDBSearchIndex world \<Rightarrow> SearchIndexManager \<Rightarrow> string \<Rightarrow> bson_doc \<Rightarrow> (MongoDBSearchIndex, reconcile_result) ctl" where
  "ensureIndex E W m pod def = do {
     idx \<leftarrow> the_obj;
     let ns = SiNamespace idx; let db = sis_Database (SiSpec idx); let coll = sis_Collection (SiSpec idx);
     let name = sis_IndexName (SiSpec idx);
     existing \<leftarrow> index_List E W m pod ns db coll name;
     case existing of
       Inl e \<Rightarrow> index_pending W (''list search index: '' @ Error e)
     | Inr [] \<Rightarrow> do {
         err \<leftarrow> index_Create W m pod ns db coll name (indexType idx) def;
         case err of
           Some e \<Rightarrow> index_fail W (''create search index: '' @ Error e)
         | None \<Rightarrow> index_building W ''search index created, building''
       }
     | Inr (info # _) \<Rightarrow> do {
         let phase = ClassifyMongotStatus (sii_Status info) (sii_Queryable info);
         err \<leftarrow> index_applyStatus W phase (sii_ID info) (sii_Queryable info) [];
         ret (case err of
           Some e \<Rightarrow> (no_requeue, Some e)
         | None \<Rightarrow>
             if phase = siPhaseReady then (requeue_after (2 * minute), None)
             else if phase = siPhaseFailed then (requeue_after minute, None)
             else (requeue_after (10 * second), None))
       }
   }"

definition add_index_finalizer :: "MongoDBSearchIndex world \<Rightarrow> (MongoDBSearchIndex, reconcile_result) ctl" where
  "add_index_finalizer W = do {
     idx \<leftarrow> the_obj;
     put_obj (idx\<lparr>SiMeta := (SiMeta idx)\<lparr>om_Finalizers := om_Finalizers (SiMeta idx) @ [FinalizerMongoDBSearchIndex]\<rparr>\<rparr>);
     err \<leftarrow> update_object W;
     ret (case err of Some e \<Rightarrow> (no_requeue, Some e) | None \<Rightarrow> (requeue_now, None))
   }"

definition index_with_source ::
    "index_env \<Rightarrow> MongoDBSearchIndex world \<Rightarrow> MongoDBSearch \<Rightarrow> SearchIndexManager \<Rightarrow> string \<Rightarrow> bool \<Rightarrow> (MongoDBSearchIndex, reconcile_result) ctl" where
  "index_with_source E W search m pod sourceRunning = do {
     idx \<leftarrow> the_obj;
     if SiDeleted idx then index_handleDeletion E W (Some (m, pod))
     else if FinalizerMongoDBSearchIndex \<notin> set (om_Finalizers (SiMeta idx)) then add_index_finalizer W
     else if \<not> sourceRunning \<or> SePhase search \<noteq> searchPhaseReady then
       index_building W ''source mongod / mongot sidecar not ready yet''
     else case ie_UnmarshalExtJSON E (sis_DefinitionJSON (SiSpec idx)) of
       Inl e \<Rightarrow> index_fail W (''invalid definitionJSON: '' @ Error e)
     | Inr def \<Rightarrow> ensureIndex E W m pod def
   }"

definition ReconcileIndex :: "index_env \<Rightarrow> MongoDBSearchIndex world \<Rightarrow> (MongoDBSearchIndex, reconcile_result) ctl" where
  "ReconcileIndex E W = do {
     got \<leftarrow> ask (w_get W);
     case got of
       Inl e \<Rightarrow> ret (no_requeue, if IsNotFound e then None else Some e)
     | Inr idx \<Rightarrow> do {
         put_obj idx;
         search \<leftarrow> ask (\<lambda>k. ie_search E k (sis_SearchRef (SiSpec idx)) (SiNamespace idx));
         case search of
           Inl e \<Rightarrow>
             if \<not> IsNotFound e then ret (no_requeue, Some e)
             else if SiDeleted idx then index_handleDeletion E W None
             else index_pending W ''MongoDBSearch not found yet''
         | Inr search \<Rightarrow>
             (case SeSource search of
                None \<Rightarrow> index_fail W ''MongoDBSearch.spec.source.mongodbResourceRef required''
              | Some sourceName \<Rightarrow> do {
                  resolved \<leftarrow> resolveSourceManager E search sourceName;
                  case resolved of
                    ResolveError e \<Rightarrow> ret (no_requeue, Some e)
                  | NotYet reason \<Rightarrow> if SiDeleted idx then index_handleDeletion E W None else index_pending W reason
                  | Source m pod running \<Rightarrow> index_with_source E W search m pod running
                })
       }
   }"

end
