(* ===== verification/Search_Laws.thy ===== *)
theory Search_Laws
  imports Search Replica_Set_Laws
begin

text \<open>
  What the search controller guarantees about the privileged user that it keeps in the database:
  whose password it can have, and that it does not outlive the resource; and what the reported
  phase says about the sidecars.
\<close>

section \<open>Effects that are all of one kind\<close>

definition all_effects :: "('o effect \<Rightarrow> bool) \<Rightarrow> 'o rstate \<Rightarrow> bool" where
  "all_effects G s \<longleftrightarrow> (\<forall>e \<in> set (r_log s). G e)"

lemma all_effects_tick [simp]: "all_effects G (s\<lparr>r_tick := n\<rparr>) = all_effects G s"
  and all_effects_obj [simp]: "all_effects G (s\<lparr>r_obj := m\<rparr>) = all_effects G s"
  and all_effects_log [simp]: "all_effects G (s\<lparr>r_log := es\<rparr>) \<longleftrightarrow> (\<forall>e \<in> set es. G e)"
  and all_effects_start [simp]: "all_effects G (start_run x k)"
  by (simp_all add: all_effects_def start_run_def)

text \<open>A guard that every write of the own resource passes.\<close>

locale guarded_log =
  fixes G :: "'o effect \<Rightarrow> bool"
  assumes guard_status: "G (PersistStatus m)" and guard_object: "G (PersistObject m)"
begin

lemma keeps_reads: "keeps (all_effects G) (ask q)" "keeps (all_effects G) (put_obj x)"
  by (auto simp: keeps_def wp_simps all_effects_def)

lemma keeps_retry: "keeps (all_effects G) (UpdateWithRetry W f)"
  using guard_status by (auto simp: keeps_def wp_UpdateWithRetry all_effects_def split: prod.splits)

lemma keeps_object: "keeps (all_effects G) (update_object W)"
  using guard_object by (auto simp: keeps_def update_object_def wp_simps all_effects_def)

lemma keeps_emitted: "(err = None \<Longrightarrow> G e) \<Longrightarrow> keeps (all_effects G) (emit_if_ok err e)"
  by (auto simp: keeps_def wp_simps all_effects_def)

lemma keeps_issued_at:
  assumes "\<And>k cmd. cmd \<in> set (fst (op k)) \<Longrightarrow> G (IssuedAt c cmd)" shows "keeps (all_effects G) (issue_at c op)"
  by (auto simp: keeps_def wp_issue_at all_effects_def split: prod.splits) (metis assms fst_conv)

lemmas guard_intros = keeps_intros keeps_reads keeps_retry keeps_object keeps_emitted keeps_issued_at

end

section \<open>Whose password the search user has\<close>

text \<open>
  The sync secret: what it is called, and the moments of a pass at which the operator knows it to be
  its own. Either the secret that was read is controlled by the resource, or the operator has just
  written it, with the resource as its controller and a new password.
\<close>

definition sync_secret_of :: "MongoDBSearch \<Rightarrow> OwnedSecret \<Rightarrow> bool" where
  "sync_secret_of search s \<longleftrightarrow> sec_Name s = sync_secret_name search \<and> sec_Namespace s = SeNamespace search \<and> IsControlledBy s search"

definition vouched :: "search_env \<Rightarrow> MongoDBSearch \<Rightarrow> nat \<Rightarrow> bool" where
  "vouched E search k \<longleftrightarrow>
     (\<exists>s. se_secret E k (sync_secret_name search) (SeNamespace search) = Inr s \<and> IsControlledBy s search)
   \<or> (\<exists>s i. sync_secret_of search s \<and> map_get (sec_Data s) ''password'' = generateSyncPassword (se_rand E i)
        \<and> (se_create_secret E k s = None \<or> se_update_secret E k s = None))"

definition owned_from :: "search_env \<Rightarrow> nat \<Rightarrow> MongoDBSearch \<Rightarrow> nat \<Rightarrow> bool" where
  "owned_from E lo search k \<longleftrightarrow> (\<exists>k'. lo \<le> k' \<and> k' < k \<and> vouched E search k')"

text \<open>
  A user command of the operator: it names the fixed user with the search role and nothing else,
  and the password is that of the sync secret, read after the operator has made sure in the same
  pass, that is since \<open>lo\<close>, that the secret is its own.
\<close>

definition granted :: "search_env \<Rightarrow> nat \<Rightarrow> MongoDBSearch \<Rightarrow> string \<Rightarrow> string \<Rightarrow> string list \<Rightarrow> (string \<times> string) list \<Rightarrow> bool" where
  "granted E lo search u p ms rs \<longleftrightarrow> SeUserSecret search = None \<and> u = ''search-sync'' \<and> p \<noteq> []
     \<and> ms = [''SCRAM-SHA-1'', ''SCRAM-SHA-256''] \<and> rs = [(''searchCoordinator'', ''admin'')]
     \<and> (\<exists>k s. owned_from E lo search k \<and> se_secret E k (sync_secret_name search) (SeNamespace search) = Inr s
          \<and> map_get (sec_Data s) ''password'' = p)"

fun rightful :: "search_env \<Rightarrow> nat \<Rightarrow> MongoDBSearch \<Rightarrow> MongoDBSearch effect \<Rightarrow> bool" where
  "rightful E lo search (IssuedAt c (CreateUserCmd u p ms rs)) = granted E lo search u p ms rs"
| "rightful E lo search (IssuedAt c (UpdateUserCmd u p ms rs)) = granted E lo search u p ms rs"
| "rightful E lo search (IssuedAt c (DropUserCmd u)) = (u = ''search-sync'')"
| "rightful E lo search (IssuedAt c _) = False"
| "rightful E lo search (Issued _) = False"
| "rightful E lo search _ = True"

interpretation sg: guarded_log "rightful E lo search" for E lo search
  by unfold_locales simp_all

text \<open>
  What the API server and its client library document: \<^verbatim>\<open>SetControllerReference\<close> sets the owner and
  nothing else, and a read returns the object that was asked for.
\<close>

definition secret_api :: "search_env \<Rightarrow> MongoDBSearch \<Rightarrow> bool" where
  "secret_api E search \<longleftrightarrow>
     (\<forall>k s s'. se_SetControllerReference E k (SeUID search) s = Inr s' \<longrightarrow> s' = s\<lparr>sec_Controller := Some (SeUID search)\<rparr>)
   \<and> (\<forall>k s. se_secret E k (sync_secret_name search) (SeNamespace search) = Inr s \<longrightarrow>
        sec_Name s = sync_secret_name search \<and> sec_Namespace s = SeNamespace search)"

lemma owned_from_mono: "owned_from E lo search k \<Longrightarrow> k \<le> k' \<Longrightarrow> owned_from E lo search k'"
  unfolding owned_from_def by (meson less_le_trans)

lemma sync_secret_updates [simp]:
  "sec_Controller (s\<lparr>sec_Data := d\<rparr>) = sec_Controller s" "sec_Name (s\<lparr>sec_Data := d\<rparr>) = sec_Name s"
  "sec_Namespace (s\<lparr>sec_Data := d\<rparr>) = sec_Namespace s"
  by simp_all

text \<open>The invariant from the moment the sync secret is trusted.\<close>

definition trusted :: "search_env \<Rightarrow> nat \<Rightarrow> MongoDBSearch \<Rightarrow> MongoDBSearch rstate \<Rightarrow> bool" where
  "trusted E lo search s \<longleftrightarrow> r_obj s = search \<and> lo \<le> r_tick s \<and> owned_from E lo search (r_tick s) \<and> all_effects (rightful E lo search) s"

definition untouched :: "search_env \<Rightarrow> nat \<Rightarrow> MongoDBSearch \<Rightarrow> MongoDBSearch rstate \<Rightarrow> bool" where
  "untouched E lo search s \<longleftrightarrow> r_obj s = search \<and> lo \<le> r_tick s \<and> all_effects (rightful E lo search) s"

lemma map_get_put: "map_get (map_put k v m) k = v"
  by (simp add: map_get_def map_put_def)

lemma owned_by_write:
  assumes "sync_secret_of search s" and "map_get (sec_Data s) ''password'' = generateSyncPassword (se_rand E r)"
    and "se_create_secret E i s = None \<or> se_update_secret E i s = None" and "lo \<le> i"
  shows "owned_from E lo search (Suc i)"
  using assms unfolding owned_from_def vouched_def by (intro exI [of _ i]) blast

lemma owned_by_read:
  assumes "se_secret E i (sync_secret_name search) (SeNamespace search) = Inr s" and "IsControlledBy s search" and "lo \<le> i"
  shows "owned_from E lo search (Suc i)"
  using assms unfolding owned_from_def vouched_def by (intro exI [of _ i]) blast

lemma wp_readopt:
  assumes "secret_api E search" and "untouched E lo search s"
    and "se_secret E k (sync_secret_name search) (SeNamespace search) = Inr x"
  shows "wp (readopt_secret E x) (\<lambda>r s'. untouched E lo search s'
    \<and> (\<forall>n. r = Inr n \<longrightarrow> n = sync_secret_name search \<and> trusted E lo search s')) s"
proof -
  have "owned_from E lo search (Suc i)"
    if "se_SetControllerReference E j (SeUID search) x = Inr y"
      "se_update_secret E i (y\<lparr>sec_Data := map_put ''password'' (generateSyncPassword (se_rand E r)) d\<rparr>) = None" "lo \<le> i" for i j y r d
  proof (rule owned_by_write [where r = r])
    have "y = x\<lparr>sec_Controller := Some (SeUID search)\<rparr>" using that(1) assms(1) unfolding secret_api_def by blast
    with assms(1,3) show "sync_secret_of search (y\<lparr>sec_Data := map_put ''password'' (generateSyncPassword (se_rand E r)) d\<rparr>)"
      by (auto simp: sync_secret_of_def secret_api_def IsControlledBy_def)
  qed (use that in \<open>simp_all add: map_get_put\<close>)
  with assms(2) show ?thesis
    by (auto simp: readopt_secret_def wp_simps untouched_def trusted_def all_effects_def Let_def split: sum.splits option.splits)
qed

lemma wp_ensureSyncSecret:
  assumes "secret_api E search" and "untouched E lo search s" and "SeUserSecret search = None"
  shows "wp (ensureSyncSecret races E) (\<lambda>r s'. untouched E lo search s'
    \<and> (\<forall>n. r = Some (Inr n) \<longrightarrow> n = sync_secret_name search \<and> trusted E lo search s')) s"
  using assms(2)
proof (induction races arbitrary: s)
  case 0
  then show ?case by (simp add: wp_ret)
next
  case (Suc races)
  let ?n = "sync_secret_name search" and ?ns = "SeNamespace search"
  let ?Q = "\<lambda>r s'. untouched E lo search s' \<and> (\<forall>n. r = Some (Inr n) \<longrightarrow> n = ?n \<and> trusted E lo search s')"
  from Suc.prems have obj: "r_obj s = search" and lo: "lo \<le> r_tick s" by (simp_all add: untouched_def)
  have t: "untouched E lo search (s\<lparr>r_tick := i\<rparr>)" if "r_tick s \<le> i" for i using Suc.prems that by (simp add: untouched_def)
  show ?case
  proof (cases "se_secret E (r_tick s) ?n ?ns")
    case (Inr x)
    have "trusted E lo search (s\<lparr>r_tick := Suc (r_tick s)\<rparr>)" if "IsControlledBy x search"
      using Suc.prems owned_by_read [OF Inr that lo] by (simp add: trusted_def untouched_def)
    moreover have "wp (readopt_secret E x) (\<lambda>r. ?Q (Some r)) (s\<lparr>r_tick := Suc (r_tick s)\<rparr>)"
      by (rule wp_mono [OF wp_readopt [OF assms(1) t Inr]]) simp_all
    ultimately show ?thesis using Inr t [of "Suc (r_tick s)"] assms(3)
      by (simp add: wp_simps wp_ret_fun obj)
  next
    case (Inl e)
    let ?pw = "generateSyncPassword (se_rand E (Suc (r_tick s)))"
    have own: "owned_from E lo search (Suc i)" if "se_SetControllerReference E j (SeUID search) (fresh_secret search ?pw) = Inr y"
        "se_create_secret E i y = None" "lo \<le> i" for i j y
    proof -
      have "y = (fresh_secret search ?pw)\<lparr>sec_Controller := Some (SeUID search)\<rparr>" using that(1) assms(1) unfolding secret_api_def by blast
      then have "sync_secret_of search y" "map_get (sec_Data y) ''password'' = ?pw"
        by (simp_all add: sync_secret_of_def fresh_secret_def IsControlledBy_def map_get_def)
      from owned_by_write [OF this] that(2,3) show ?thesis by blast
    qed
    have eff: "\<forall>x \<in> set (r_log s). rightful E lo search x" using Suc.prems by (simp add: untouched_def all_effects_def)
    have rec: "wp (ensureSyncSecret races E) ?Q (s\<lparr>r_tick := i\<rparr>)" if "r_tick s \<le> i" for i
      by (rule Suc.IH [OF t [OF that]])
    show ?thesis using Inl own rec lo eff assms(3)
      by (auto simp: wp_simps obj trusted_def untouched_def all_effects_def split: sum.splits option.splits)
  qed
qed

text \<open>Steps that keep the trust.\<close>

lemma trusted_tick: "trusted E lo search s \<Longrightarrow> trusted E lo search (s\<lparr>r_tick := Suc (r_tick s)\<rparr>)"
  using owned_from_mono [of E lo search "r_tick s" "Suc (r_tick s)"] by (simp add: trusted_def)

lemma keeps_trusted_ask [keeps_intros]: "keeps (trusted E lo search) (ask q)"
  by (simp add: keeps_def wp_simps trusted_tick)

lemma keeps_trusted_emit [keeps_intros]:
  "rightful E lo search e \<Longrightarrow> keeps (trusted E lo search) (emit_if_ok err e)"
  by (auto simp: keeps_def wp_simps trusted_def all_effects_def)

lemma keeps_trusted_apply [keeps_intros]: "keeps (trusted E lo search) (apply_object E' kind name content)"
  unfolding apply_object_def by (intro keeps_intros) simp

lemma keeps_trusted_patch [keeps_intros]: "keeps (trusted E lo search) (patch_annotations E' name cur new)"
  unfolding patch_annotations_def by (intro keeps_intros) simp

lemma keeps_trusted_configs: "keeps (trusted E lo search) (apply_shard_configs E' m u r is)"
  by (induction "is") (auto simp: Let_def intro!: keeps_intros)

lemma keeps_trusted_service: "keeps (trusted E lo search) (apply_mongot_service E' m)"
  unfolding apply_mongot_service_def by (intro keeps_intros)

lemma keeps_trusted_password: "keeps (trusted E lo search) (sourceAdminPassword E' m)"
  unfolding sourceAdminPassword_def Let_def by (intro keeps_intros)

text \<open>A password that comes from the vouched secret may be sent, and is sent for the fixed user only.\<close>

definition own_password :: "search_env \<Rightarrow> nat \<Rightarrow> MongoDBSearch \<Rightarrow> string \<Rightarrow> bool" where
  "own_password E lo search p \<longleftrightarrow> SeUserSecret search = None
     \<and> (\<exists>k s. owned_from E lo search k \<and> se_secret E k (sync_secret_name search) (SeNamespace search) = Inr s
          \<and> map_get (sec_Data s) ''password'' = p)"

lemma ensure_commands:
  assumes "own_password E lo search p" and "cmd \<in> set (fst (EnsureSearchCoordinatorUser drv c defaultSyncUser p))"
  shows "rightful E lo search (IssuedAt c cmd)"
proof -
  have "granted E lo search ''search-sync'' p [''SCRAM-SHA-1'', ''SCRAM-SHA-256''] [(''searchCoordinator'', ''admin'')]" if "p \<noteq> []"
    using assms(1) that by (simp add: granted_def own_password_def)
  with assms(2) show ?thesis
    by (auto simp: EnsureSearchCoordinatorUser_def Let_def defaultSyncUser_def scramSHA1_def scramSHA256_def adminUserDB_def
        split: if_splits option.splits)
qed

lemma keeps_trusted_ensure:
  assumes "own_password E lo search p"
  shows "keeps (trusted E lo search) (issue_at c (\<lambda>k. EnsureSearchCoordinatorUser (drv k) c defaultSyncUser p))"
  unfolding keeps_def
proof (intro allI impI)
  fix s assume t: "trusted E lo search s"
  have "rightful E lo search (IssuedAt c cmd)" if "EnsureSearchCoordinatorUser (drv (r_tick s)) c defaultSyncUser p = (cmds, res)"
    "cmd \<in> set cmds" for cmds res cmd
    using ensure_commands [OF assms, of cmd "drv (r_tick s)" c] that by simp
  with trusted_tick [OF t] show "wp (issue_at c (\<lambda>k. EnsureSearchCoordinatorUser (drv k) c defaultSyncUser p)) (\<lambda>_. trusted E lo search) s"
    by (auto simp: wp_issue_at trusted_def all_effects_def split: prod.split)
qed

lemma keeps_trusted_shards:
  "own_password E lo search p \<Longrightarrow> keeps (trusted E lo search) (ensure_on_shards W m a p is)"
  by (induction "is") (auto intro!: keeps_intros keeps_trusted_ensure)

text \<open>The secret is read again before its password is sent; its owner is not looked at again.\<close>

lemma wp_read_own:
  assumes "trusted E lo search s" and "SeUserSecret search = None"
    and "\<And>x. own_password E lo search (map_get (sec_Data x) ''password'') \<Longrightarrow> keeps (trusted E lo search) (f (Inr x))"
    and "\<And>e. keeps (trusted E lo search) (f (Inl e))"
  shows "wp (State_Monad.bind (ask (\<lambda>k. se_secret E k (sync_secret_name search) (SeNamespace search))) f) (\<lambda>_. trusted E lo search) s"
proof -
  let ?r = "se_secret E (r_tick s) (sync_secret_name search) (SeNamespace search)"
  have "keeps (trusted E lo search) (f ?r)"
  proof (cases ?r)
    case (Inr x)
    moreover have "owned_from E lo search (r_tick s)" using assms(1) by (simp add: trusted_def)
    ultimately have "own_password E lo search (map_get (sec_Data x) ''password'')" using assms(2) unfolding own_password_def by blast
    with Inr assms(3) show ?thesis by simp
  qed (use assms(4) in simp)
  from keeps_wp [OF this trusted_tick [OF assms(1)]] show ?thesis by (simp add: wp_bind wp_ask)
qed

lemma keeps_trusted_users:
  assumes "own_password E lo search p"
  shows "keeps (trusted E lo search) (user_on_source E' W source p)" "keeps (trusted E lo search) (user_on_cluster E' W mdbsh p)"
  unfolding user_on_source_def user_on_cluster_def Let_def
  by (intro keeps_intros keeps_trusted_ensure keeps_trusted_password keeps_trusted_shards assms)+

lemma wp_users:
  assumes "trusted E lo search s" and "SeUserSecret search = None"
  shows "wp (ensureSyncMongoUser E W source (sync_secret_name search)) (\<lambda>_. trusted E lo search) s"
    "wp (ensureSyncMongoUserSharded E W mdbsh (sync_secret_name search)) (\<lambda>_. trusted E lo search) s"
proof -
  have obj: "r_obj s = search" using assms(1) by (simp add: trusted_def)
  have "wp (State_Monad.bind (ask (\<lambda>k. se_secret E k (sync_secret_name search) (SeNamespace search)))
      (\<lambda>got. case got of Inl e \<Rightarrow> ret (Some (Wrapped ''get sync secret'' e)) | Inr x \<Rightarrow> f (map_get (sec_Data x) ''password'')))
      (\<lambda>_. trusted E lo search) s" if "\<And>p. own_password E lo search p \<Longrightarrow> keeps (trusted E lo search) (f p)" for f
    using that by (intro wp_read_own [OF assms]) (auto intro: keeps_intros)
  note read = this
  show "wp (ensureSyncMongoUser E W source (sync_secret_name search)) (\<lambda>_. trusted E lo search) s"
    using read [of "user_on_source E W source", OF keeps_trusted_users(1)] assms obj
    by (simp add: ensureSyncMongoUser_def wp_bind wp_the_obj wp_ret wp_ask)
  show "wp (ensureSyncMongoUserSharded E W mdbsh (sync_secret_name search)) (\<lambda>_. trusted E lo search) s"
    using read [of "user_on_cluster E W mdbsh", OF keeps_trusted_users(2)] assms obj
    by (simp add: ensureSyncMongoUserSharded_def wp_bind wp_the_obj wp_ret wp_ask)
qed

text \<open>With a secret of the user's own, nothing is sent to the database.\<close>

lemma users_of_others:
  assumes "r_obj s = search" and "SeUserSecret search \<noteq> None"
  shows "wp (ensureSyncMongoUser E W source n) Q s = Q None s" "wp (ensureSyncMongoUserSharded E W mdbsh n) Q s = Q None s"
  using assms by (simp_all add: ensureSyncMongoUser_def ensureSyncMongoUserSharded_def wp_simps)

text \<open>
  The two ends of a pass start in a trusted state, or in one whose resource names a secret of the
  user's own; either way every effect is rightful.
\<close>

definition ready_for_user :: "search_env \<Rightarrow> nat \<Rightarrow> MongoDBSearch \<Rightarrow> string \<Rightarrow> MongoDBSearch rstate \<Rightarrow> bool" where
  "ready_for_user E lo search secret s \<longleftrightarrow>
     (if SeUserSecret search = None then secret = sync_secret_name search \<and> trusted E lo search s else untouched E lo search s)"

lemma keeps_untouched [keeps_intros]:
  "keeps (untouched E lo search) (ask q)"
  "rightful E lo search e \<Longrightarrow> keeps (untouched E lo search) (emit_if_ok err e)"
  by (auto simp: keeps_def wp_simps untouched_def all_effects_def)

lemma keeps_ready:
  assumes "keeps (trusted E lo search) c" and "keeps (untouched E lo search) c" and "ready_for_user E lo search n s"
  shows "wp c (\<lambda>_. ready_for_user E lo search n) s"
proof (cases "SeUserSecret search = None")
  case True
  with assms(3) have "trusted E lo search s" "n = sync_secret_name search" by (simp_all add: ready_for_user_def)
  with True show ?thesis by (intro wp_mono [OF keeps_wp [OF assms(1)]]) (simp_all add: ready_for_user_def)
next
  case False
  with assms(3) have "untouched E lo search s" by (simp add: ready_for_user_def)
  with False show ?thesis by (intro wp_mono [OF keeps_wp [OF assms(2)]]) (auto simp: ready_for_user_def)
qed

lemma keeps_untouched_steps:
  "keeps (untouched E lo search) (apply_object E' kind name content)"
  "keeps (untouched E lo search) (patch_annotations E' name cur new)"
  "keeps (untouched E lo search) (apply_shard_configs E' m u r is)"
  "keeps (untouched E lo search) (apply_mongot_service E' m)"
proof -
  show a: "keeps (untouched E lo search) (apply_object E' kind name content)" for kind name content
    unfolding apply_object_def by (intro keeps_intros) simp
  show "keeps (untouched E lo search) (patch_annotations E' name cur new)"
    unfolding patch_annotations_def by (intro keeps_intros) simp
  show "keeps (untouched E lo search) (apply_shard_configs E' m u r is)"
    by (induction "is") (auto simp: Let_def intro!: keeps_intros a)
  show "keeps (untouched E lo search) (apply_mongot_service E' m)"
    unfolding apply_mongot_service_def by (intro keeps_intros a)
qed

lemma ready_rightful: "ready_for_user E lo search n s \<Longrightarrow> all_effects (rightful E lo search) s"
  by (auto simp: ready_for_user_def trusted_def untouched_def split: if_splits)

lemma wp_ready_users:
  assumes "ready_for_user E lo search n s"
  shows "wp (ensureSyncMongoUser E W source n) (\<lambda>_. all_effects (rightful E lo search)) s"
    "wp (ensureSyncMongoUserSharded E W mdbsh n) (\<lambda>_. all_effects (rightful E lo search)) s"
proof -
  show "wp (ensureSyncMongoUser E W source n) (\<lambda>_. all_effects (rightful E lo search)) s"
    using assms wp_mono [OF wp_users(1)] users_of_others(1) [of s search E W source n]
    by (cases "SeUserSecret search = None") (force simp: ready_for_user_def trusted_def untouched_def)+
  show "wp (ensureSyncMongoUserSharded E W mdbsh n) (\<lambda>_. all_effects (rightful E lo search)) s"
    using assms wp_mono [OF wp_users(2)] users_of_others(2) [of s search E W mdbsh n]
    by (cases "SeUserSecret search = None") (force simp: ready_for_user_def trusted_def untouched_def)+
qed

lemma wp_then: "wp c (\<lambda>_. I) s \<Longrightarrow> (\<And>a s'. I s' \<Longrightarrow> wp (f a) Q s') \<Longrightarrow> wp (State_Monad.bind c f) Q s"
  unfolding wp_bind by (rule wp_mono)

lemma keeps_status_writes:
  "keeps (all_effects (rightful E lo search)) (finish_search W phase n)"
  "keeps (all_effects (rightful E lo search)) (search_fail W msg)"
  "keeps (all_effects (rightful E lo search)) (search_pending W msg)"
  unfolding finish_search_def search_fail_def search_pending_def by (intro sg.guard_intros)+

lemma keeps_counts:
  "keeps (all_effects (rightful E lo search)) (countReadyMongotSidecars E' W source)"
  "keeps (all_effects (rightful E lo search)) (countReadyMongotSidecarsSharded E' W mdbsh)"
proof -
  have one: "keeps (all_effects (rightful E lo search)) (count_workload E' W a b acc)" for a b acc
    unfolding count_workload_def by (intro sg.guard_intros)
  then show "keeps (all_effects (rightful E lo search)) (countReadyMongotSidecars E' W source)"
    by (simp add: countReadyMongotSidecars_def)
  have "keeps (all_effects (rightful E lo search)) (count_shards E' W mdbsh is acc)" for "is" acc
    by (induction "is" arbitrary: acc) (auto intro!: sg.guard_intros one)
  then show "keeps (all_effects (rightful E lo search)) (countReadyMongotSidecarsSharded E' W mdbsh)"
    by (simp add: countReadyMongotSidecarsSharded_def)
qed

lemma keeps_report: "keeps (all_effects (rightful E lo search)) c \<Longrightarrow> keeps (all_effects (rightful E lo search)) (report_sidecars W b what c)"
  unfolding report_sidecars_def by (intro sg.guard_intros keeps_status_writes)

lemma step_rightful:
  assumes "ready_for_user E lo search n s" and "keeps (trusted E lo search) c" and "keeps (untouched E lo search) c"
    and "\<And>s'. ready_for_user E lo search n s' \<Longrightarrow> wp d (\<lambda>_. all_effects (rightful E lo search)) s'"
  shows "wp (State_Monad.bind c (\<lambda>err. case err of Some e \<Rightarrow> ret (no_requeue, g e) | None \<Rightarrow> d)) (\<lambda>_. all_effects (rightful E lo search)) s"
  by (rule wp_then [OF keeps_ready [OF assms(2,3,1)]]) (use assms(4) in \<open>auto simp: wp_ret ready_rightful split: option.split\<close>)

lemma user_rightful:
  assumes "ready_for_user E lo search n s" and "keeps (all_effects (rightful E lo search)) d"
  shows "wp (State_Monad.bind (ensureSyncMongoUser E W source n) (\<lambda>_. d)) (\<lambda>_. all_effects (rightful E lo search)) s"
    "wp (State_Monad.bind (ensureSyncMongoUserSharded E W mdbsh n) (\<lambda>_. d)) (\<lambda>_. all_effects (rightful E lo search)) s"
  by (rule wp_then, rule wp_ready_users [OF assms(1)], erule keeps_wp [OF assms(2)])+

lemma ends_rightful:
  assumes "ready_for_user E lo search n s"
  shows "wp (replica_set_search E W source n u) (\<lambda>_. all_effects (rightful E lo search)) s"
    "wp (sharded_search E W mdbsh n u) (\<lambda>_. all_effects (rightful E lo search)) s"
  unfolding replica_set_search_def sharded_search_def Let_def annotateSource_def annotateShardedSource_def wp_bind [of the_obj] wp_the_obj
  by (intro step_rightful [where n = n] user_rightful keeps_report keeps_counts keeps_trusted_apply keeps_trusted_patch keeps_trusted_configs
      keeps_trusted_service keeps_untouched_steps assms | assumption)+

lemma with_sync_user_rightful:
  assumes "secret_api E search" and "untouched E lo search s"
    and "\<And>n u s'. ready_for_user E lo search n s' \<Longrightarrow> wp (f n u) (\<lambda>_. all_effects (rightful E lo search)) s'"
  shows "wp (with_sync_user races E W f) (\<lambda>_. all_effects (rightful E lo search)) s"
proof -
  let ?J = "\<lambda>_. all_effects (rightful E lo search)"
  have secret: "wp (ensureSyncSecret races E) (\<lambda>r s'. untouched E lo search s' \<and> (\<forall>n. r = Some (Inr n) \<longrightarrow> ready_for_user E lo search n s')) s"
  proof (cases "SeUserSecret search")
    case None
    then show ?thesis by (intro wp_mono [OF wp_ensureSyncSecret [OF assms(1,2)]]) (auto simp: ready_for_user_def)
  next
    case (Some name)
    with assms(2) show ?thesis by (cases races) (simp_all add: wp_simps untouched_def ready_for_user_def)
  qed
  have user: "wp (sync_user E n) (\<lambda>_. ready_for_user E lo search n) s'" if "ready_for_user E lo search n s'" for n s'
    using that unfolding sync_user_def resolveSyncUser_def
    by (intro keeps_ready keeps_intros) 
  have "wp (do { u \<leftarrow> sync_user E n; case u of Inl e \<Rightarrow> do { r \<leftarrow> search_fail W (''sync secret invalid: '' @ Error e); ret (Some r) }
      | Inr u \<Rightarrow> do { r \<leftarrow> f n u; ret (Some r) } }) ?J s'" if "ready_for_user E lo search n s'" for n s'
    by (rule wp_then [OF user [OF that]])
      (auto simp: wp_bind wp_ret_fun ready_rightful assms(3) intro: keeps_wp [OF keeps_status_writes(2)] split: sum.split)
  moreover have "wp (do { r \<leftarrow> search_fail W msg; ret (Some r) }) ?J s'" if "untouched E lo search s'" for msg s'
    using that keeps_wp [OF keeps_status_writes(2)] by (simp add: wp_bind wp_ret_fun untouched_def)
  ultimately show ?thesis
    unfolding with_sync_user_def wp_bind [of "ensureSyncSecret races E"]
    by (intro wp_mono [OF secret]) (auto simp: wp_ret untouched_def split: option.split sum.split)
qed

text \<open>Deletion sends nothing but the command that drops the user.\<close>

lemma keeps_drop_at: "keeps (all_effects (rightful E lo search)) (drop_at W f what)"
  unfolding drop_at_def by (intro sg.guard_intros) (simp add: DropSearchCoordinatorUser_def defaultSyncUser_def)

lemma keeps_deletion: "keeps (all_effects (rightful E lo search)) (search_handleDeletion E' W)"
proof -
  have "keeps (all_effects (rightful E lo search)) (drop_on_shards W m a is err)" for m a "is" err
    by (induction "is" arbitrary: err) (auto intro!: sg.guard_intros keeps_drop_at)
  then have "keeps (all_effects (rightful E lo search)) (dropSyncMongoUserSharded E' W n)" for n
    unfolding dropSyncMongoUserSharded_def Let_def by (intro sg.guard_intros keeps_drop_at)
  moreover have "keeps (all_effects (rightful E lo search)) (dropSyncMongoUser E' W n)" for n
    unfolding dropSyncMongoUser_def sourceAdminPassword_def Let_def
    by (intro sg.guard_intros) (simp add: DropSearchCoordinatorUser_def defaultSyncUser_def)
  moreover have "keeps (all_effects (rightful E lo search)) (emit (PersistObject m))" for m
    by (auto simp: keeps_def wp_simps all_effects_def)
  ultimately show ?thesis
    unfolding search_handleDeletion_def search_cleanup_def by (intro sg.guard_intros)
qed

definition same_search :: "MongoDBSearch \<Rightarrow> MongoDBSearch \<Rightarrow> bool" where
  "same_search s t \<longleftrightarrow> SeUID t = SeUID s \<and> SeSpec t = SeSpec s \<and> SeName t = SeName s \<and> SeNamespace t = SeNamespace s"

lemma same_search_parts:
  assumes "same_search s t"
  shows "sync_secret_name t = sync_secret_name s" "SeNamespace t = SeNamespace s" "SeUID t = SeUID s" "SeSpec t = SeSpec s"
    "IsControlledBy x t = IsControlledBy x s" "owned_from E lo t = owned_from E lo s" "sync_secret_of t x = sync_secret_of s x"
proof -
  show p: "sync_secret_name t = sync_secret_name s" "SeNamespace t = SeNamespace s" "SeUID t = SeUID s" "SeSpec t = SeSpec s"
    using assms by (simp_all add: same_search_def sync_secret_name_def)
  then show c: "IsControlledBy x t = IsControlledBy x s" for x by (simp add: IsControlledBy_def)
  show o: "sync_secret_of t x = sync_secret_of s x" for x by (simp add: sync_secret_of_def p c)
  show "owned_from E lo t = owned_from E lo s" by (simp add: fun_eq_iff owned_from_def vouched_def p c o)
qed

lemma same_search_rightful: "same_search s t \<Longrightarrow> rightful E lo t = rightful E lo s"
proof
  fix e assume st: "same_search s t"
  have "granted E lo t = granted E lo s" by (simp add: fun_eq_iff granted_def same_search_parts [OF st])
  then show "rightful E lo t e = rightful E lo s e" by (cases "(E, lo, s, e)" rule: rightful.cases) simp_all
qed

lemma same_search_api: "same_search s t \<Longrightarrow> secret_api E s \<Longrightarrow> secret_api E t"
  unfolding secret_api_def by (simp only: same_search_parts)

lemma sources_rightful:
  assumes "secret_api E search" and "untouched E lo search s"
  shows "wp (reconcileSharded races E W n) (\<lambda>_. all_effects (rightful E lo search)) s"
    "wp (reconcileReplicaSet races E W n) (\<lambda>_. all_effects (rightful E lo search)) s"
proof -
  let ?J = "\<lambda>_. all_effects (rightful E lo search)" and ?s = "s\<lparr>r_tick := Suc (r_tick s)\<rparr>"
  have t: "untouched E lo search ?s" using assms(2) by (simp add: untouched_def)
  have p: "wp (search_pending W msg) ?J ?s" for msg
    using t keeps_wp [OF keeps_status_writes(3)] by (simp add: untouched_def)
  have u: "wp (with_sync_user races E W (sharded_search E W m)) ?J ?s"
    "wp (with_sync_user races E W (replica_set_search E W m')) ?J ?s" for m m'
    using with_sync_user_rightful [OF assms(1) t] ends_rightful by blast+
  show "wp (reconcileSharded races E W n) ?J s" "wp (reconcileReplicaSet races E W n) ?J s"
    using t by (auto simp: reconcileSharded_def reconcileReplicaSet_def wp_bind wp_the_obj wp_ask wp_ret_fun wp_ret p u untouched_def
        split: sum.split)
qed

text \<open>
  C17. The password of the search user comes from a secret that the operator has vouched for. Whatever
  the state of the cluster and however the secrets change while the pass runs, every user command of
  a pass names the fixed user \<^verbatim>\<open>search-sync\<close> with the search role and both mechanisms, and its password
  is read from the sync secret after the pass has either read that secret as one controlled by the
  resource or written it itself, with the resource as controller and a new random password; a
  secret of the same name that somebody has placed in advance is refused or gets a new password
  first. For a resource that names a secret of its own no user is created or changed at all. The
  owner is not checked again at the read that the password is taken from.
\<close>

theorem search_user_credentials:
  assumes "w_get W k = Inr search" and "secret_api E search" and "\<forall>i m. same_search m (fst (w_update_object W i m))"
    and "run_state (ReconcileSearch races E W) (start_run search k) = (r, s')"
  shows "\<forall>e \<in> set (r_log s'). rightful E k search e"
proof -
  let ?J = "all_effects (rightful E k search)"
  have start: "?J s'" if "r_log s' = []" for s' using that by (simp add: all_effects_def)
  have run: "wp (reconcileSharded races E W n) (\<lambda>_. ?J) s'" "wp (reconcileReplicaSet races E W n) (\<lambda>_. ?J) s'"
    if "same_search search (r_obj s')" "?J s'" "k \<le> r_tick s'" for n s'
  proof -
    have "untouched E k (r_obj s') s'" using that same_search_rightful [OF that(1)] by (simp add: untouched_def)
    from sources_rightful [OF same_search_api [OF that(1) assms(2)] this]
    show "wp (reconcileSharded races E W n) (\<lambda>_. ?J) s'" "wp (reconcileReplicaSet races E W n) (\<lambda>_. ?J) s'"
      using same_search_rightful [OF that(1)] by simp_all
  qed
  have "same_search search search" by (simp add: same_search_def)
  moreover have "same_search search (fst (w_update_object W i (search\<lparr>SeMeta := (SeMeta search)\<lparr>om_Finalizers := fs\<rparr>\<rparr>)))" for i fs
    using assms(3) [rule_format, of "search\<lparr>SeMeta := (SeMeta search)\<lparr>om_Finalizers := fs\<rparr>\<rparr>" i] by (simp add: same_search_def)
  ultimately have "wp (ReconcileSearch races E W) (\<lambda>_. ?J) (start_run search k)"
    using keeps_wp [OF keeps_deletion, of E k search _ E W] keeps_wp [OF keeps_status_writes(2), of E k search _ W]
    by (simp add: ReconcileSearch_def add_search_finalizer_def update_object_def wp_bind wp_ask wp_the_obj wp_put_obj wp_ret wp_ret_fun
        wp_emit_if_ok wp_if assms(1) run start split: option.split)
  from wpD [OF this assms(4)] show ?thesis by (simp add: all_effects_def)
qed

section \<open>Examples\<close>

definition sample_search :: MongoDBSearch where
  "sample_search = \<lparr>SeMeta = \<lparr>om_Name = ''docs'', om_Namespace = ''db'', om_Generation = 1, om_DeletionTimestamp = None,
       om_Finalizers = [FinalizerMongoDBSearch], om_Annotations = []\<rparr>, SeUID = ''u1'',
     SeSpec = \<lparr>ses_Source = \<lparr>src_MongoDBResourceRef = Some ''rs'', src_Kind = ''MongoDB''\<rparr>, ses_Version = \<lparr>mtv_Version = [], mtv_Image = []\<rparr>,
       ses_Replicas = 1, ses_Resources = zero_resources, ses_Storage = zero_storage, ses_TLS = None, ses_SyncUserSecretRef = None,
       ses_Pod = None, ses_Router = None\<rparr>,
     SeStatus = \<lparr>sest_Phase = [], sest_MongotEndpoint = [], sest_ReadyReplicas = 0, sest_ObservedGeneration = 0, sest_Error = [],
       sest_Conditions = []\<rparr>\<rparr>"

definition owned_secret :: "string \<Rightarrow> string \<Rightarrow> string \<Rightarrow> string option \<Rightarrow> OwnedSecret" where
  "owned_secret name ns pw owner = \<lparr>sec_Name = name, sec_Data = [(''password'', pw)], sec_Namespace = ns,
     sec_Labels = [(labelManagedBy, managedByValue)], sec_Controller = owner\<rparr>"

definition sample_search_env :: search_env where
  "sample_search_env = \<lparr>se_mongodb = \<lambda>_ _ _. Inr sample_mdb, se_sharded = \<lambda>_ _ _. Inr sample_sharded,
     se_secret = \<lambda>_ n ns. Inr (owned_secret n ns ''pw'' (Some ''u1'')), se_create_secret = \<lambda>_ _. None, se_update_secret = \<lambda>_ _. None,
     se_SetControllerReference = \<lambda>_ uid s. Inr (s\<lparr>sec_Controller := Some uid\<rparr>), se_rand = \<lambda>_. [],
     se_pods = \<lambda>_ _ _. Inr [[(''mongodb'', True), (''mongot'', True)]], se_patch = \<lambda>_ _ _. None, se_apply = \<lambda>_ _ _ _. None,
     se_runs_cleanup = \<lambda>_ _. True,
     se_HandleFinalizerCleanup = \<lambda>_ s c. (if c = Some None then Some (s\<lparr>SeMeta := (SeMeta s)\<lparr>om_Finalizers := []\<rparr>\<rparr>) else None, (no_requeue, None))\<rparr>"

definition search_world :: "MongoDBSearch \<Rightarrow> MongoDBSearch world" where
  "search_world s = (sample_world 5 done_sts [] yes_driver)\<lparr>w_get := \<lambda>_. Inr s\<rparr>"

definition rs_conn :: conn where
  "rs_conn = (case source_connect yes_driver sample_mdb ''pw'' of Inr c \<Rightarrow> c)"

lemma sample_source_connect: "source_connect yes_driver sample_mdb ''pw'' = Inr rs_conn"
  unfolding rs_conn_def using sample_driver_ok by (auto simp: source_connect_def split: sum.splits)

lemma sample_search_facts [simp]:
  "SeUserSecret sample_search = None" "SeSource sample_search = Some ''rs''" "SeNamespace sample_search = ''db''"
  "src_Kind (ses_Source (SeSpec sample_search)) = ''MongoDB''" "om_DeletionTimestamp (SeMeta sample_search) = None"
  "om_Finalizers (SeMeta sample_search) = [FinalizerMongoDBSearch]" "SeUID sample_search = ''u1''" "SeName sample_search = ''docs''"
  by (simp_all add: sample_search_def)

lemma sample_search_answers:
  "se_mongodb sample_search_env i n ns = Inr sample_mdb"
  "se_secret sample_search_env i n ns = Inr (owned_secret n ns ''pw'' (Some ''u1''))"
  "se_patch sample_search_env i n sm = None" "se_apply sample_search_env i kd n sm = None"
  "se_pods sample_search_env i ns sm = Inr [[(''mongodb'', True), (''mongot'', True)]]"
  "w_get (search_world x) i = Inr x" "w_drv (search_world x) i = yes_driver" "w_sts (search_world x) i n ns = Inr done_sts"
  "w_update_object (search_world x) i m = (m, None)" "w_UpdateWithRetry (search_world x) = accept_update"
  "drv_run yes_driver c cmd = None" "s_Phase (Status sample_mdb) = ''Running''"
  "auth_AdminCredentialsSecretRef (mdb_Auth (Spec sample_mdb)) = ''admin-creds''"
  "map_get (sec_Data (owned_secret n ns p ow)) ''password'' = p" "sec_Controller (owned_secret n ns p ow) = ow"
  "om_Annotations (Meta sample_mdb) = []" "map_get [] key = []" "Namespace sample_mdb = ''db''"
  by (simp_all add: sample_search_env_def search_world_def sample_world_def yes_driver_def sample_mdb_def sample_status_def
      PhaseRunning_def owned_secret_def map_get_def)

lemmas search_run_defs = ReconcileSearch_def add_search_finalizer_def reconcileReplicaSet_def with_sync_user_def sync_user_def
  replica_set_search_def report_sidecars_def finish_search_def annotateSource_def patch_annotations_def apply_object_def
  ensureSyncMongoUser_def user_on_source_def sourceAdminPassword_def countReadyMongotSidecars_def count_workload_def

theorem search_user_credentials_witness:
  "IssuedAt rs_conn (CreateUserCmd ''search-sync'' ''pw'' [''SCRAM-SHA-1'', ''SCRAM-SHA-256''] [(''searchCoordinator'', ''admin'')])
     \<in> set (r_log (snd (run_state (ReconcileSearch 2 sample_search_env (search_world sample_search)) (start_run sample_search 0))))
   \<and> granted sample_search_env 0 sample_search ''search-sync'' ''pw'' [''SCRAM-SHA-1'', ''SCRAM-SHA-256''] [(''searchCoordinator'', ''admin'')]"
proof -
  let ?W = "search_world sample_search"
  let ?run = "run_state (ReconcileSearch 2 sample_search_env ?W) (start_run sample_search 0)"
  have "wp (ReconcileSearch 2 sample_search_env ?W) (\<lambda>_ s. IssuedAt rs_conn (CreateUserCmd ''search-sync'' ''pw''
      [''SCRAM-SHA-1'', ''SCRAM-SHA-256''] [(''searchCoordinator'', ''admin'')]) \<in> set (r_log s)) (start_run sample_search 0)"
    by (simp add: search_run_defs wp_simps numeral_2_eq_2 sample_search_answers IsControlledBy_def accept_update_def sample_source_connect
        kindMongoDBSharded_def mongodbPhaseRunning_def EnsureSearchCoordinatorUser_def defaultSyncUser_def scramSHA1_def scramSHA256_def
        adminUserDB_def Let_def)
  then have sent: "IssuedAt rs_conn (CreateUserCmd ''search-sync'' ''pw'' [''SCRAM-SHA-1'', ''SCRAM-SHA-256''] [(''searchCoordinator'', ''admin'')])
      \<in> set (r_log (snd ?run))" by (simp add: wp_def split: prod.splits)
  have "secret_api sample_search_env sample_search"
    unfolding secret_api_def
    by (auto simp: sample_search_env_def owned_secret_def IsControlledBy_def)
  moreover have "\<forall>i m. same_search m (fst (w_update_object ?W i m))" by (simp add: sample_search_answers same_search_def)
  ultimately have "\<forall>e \<in> set (r_log (snd ?run)). rightful sample_search_env 0 sample_search e"
    by (intro search_user_credentials [of ?W 0 sample_search _ 2 "fst ?run"]) (simp_all add: sample_search_answers)
  with sent show ?thesis by fastforce
qed

text \<open>
  The gap that the statement leaves is real: the secret is read a second time for its password and its
  owner is not looked at again, so a secret that replaces the controlled one in between decides the
  password.
\<close>

definition replaced_env :: search_env where
  "replaced_env = sample_search_env\<lparr>se_secret := \<lambda>i n ns. if n = ''docs-search-sync'' \<and> 4 \<le> i
     then Inr (owned_secret n ns ''planted'' None) else se_secret sample_search_env i n ns\<rparr>"

lemma replaced_secret_decides:
  "IssuedAt rs_conn (CreateUserCmd ''search-sync'' ''planted'' [''SCRAM-SHA-1'', ''SCRAM-SHA-256''] [(''searchCoordinator'', ''admin'')])
     \<in> set (r_log (snd (run_state (ReconcileSearch 2 replaced_env (search_world sample_search)) (start_run sample_search 0))))"
proof -
  have env: "se_mongodb replaced_env i n ns = Inr sample_mdb" "se_patch replaced_env i n sm = None" "se_apply replaced_env i kd n sm = None"
    "se_pods replaced_env i ns sm = Inr [[(''mongodb'', True), (''mongot'', True)]]"
    "se_secret replaced_env i n ns = (if n = ''docs-search-sync'' \<and> 4 \<le> i
       then Inr (owned_secret n ns ''planted'' None) else Inr (owned_secret n ns ''pw'' (Some ''u1'')))" for i n ns sm kd
    by (simp_all add: replaced_env_def sample_search_answers)
  have "wp (ReconcileSearch 2 replaced_env (search_world sample_search)) (\<lambda>_ s. IssuedAt rs_conn (CreateUserCmd ''search-sync'' ''planted''
      [''SCRAM-SHA-1'', ''SCRAM-SHA-256''] [(''searchCoordinator'', ''admin'')]) \<in> set (r_log s)) (start_run sample_search 0)"
    by (simp add: search_run_defs wp_simps numeral_2_eq_2 env sample_search_answers IsControlledBy_def accept_update_def sample_source_connect
        kindMongoDBSharded_def mongodbPhaseRunning_def EnsureSearchCoordinatorUser_def defaultSyncUser_def scramSHA1_def scramSHA256_def
        adminUserDB_def Let_def sync_secret_name_def source_annotations_def)
  then show ?thesis by (simp add: wp_def split: prod.splits)
qed

section \<open>The user does not outlive the resource\<close>

text \<open>
  A server has been told to drop the user, and has answered that it did or that there is none.
\<close>

definition dropped_by :: "MongoDBSearch world \<Rightarrow> (mongo_driver \<Rightarrow> go_error + conn) \<Rightarrow> MongoDBSearch effect list \<Rightarrow> bool" where
  "dropped_by W connect log \<longleftrightarrow> (\<exists>i j c. connect (w_drv W i) = Inr c \<and> IssuedAt c (DropUserCmd ''search-sync'') \<in> set log
     \<and> (case drv_run (w_drv W j) c (DropUserCmd ''search-sync'') of None \<Rightarrow> True | Some e \<Rightarrow> HasErrorCode e 11))"

definition user_gone :: "search_env \<Rightarrow> MongoDBSearch world \<Rightarrow> nat \<Rightarrow> MongoDBSearch \<Rightarrow> string \<Rightarrow> MongoDBSearch effect list \<Rightarrow> bool" where
  "user_gone E W lo search src log \<longleftrightarrow>
     (\<exists>i \<ge> lo. case se_secret E i (sync_secret_name search) (SeNamespace search) of
            Inl e \<Rightarrow> IsNotFound e | Inr s \<Rightarrow> map_get (sec_Labels s) labelManagedBy \<noteq> managedByValue)
   \<or> (if src_Kind (ses_Source (SeSpec search)) = ''MongoDBSharded''
      then \<exists>i \<ge> lo. case se_sharded E i src (SeNamespace search) of
             Inl e \<Rightarrow> IsNotFound e
           | Inr m \<Rightarrow> \<exists>pw. dropped_by W (\<lambda>drv. mongos_connect drv m pw) log
               \<and> (\<forall>j < shard_count m. dropped_by W (\<lambda>drv. shard_connect drv m pw j) log)
      else \<exists>i \<ge> lo. case se_mongodb E i src (SeNamespace search) of
             Inl e \<Rightarrow> IsNotFound e
           | Inr m \<Rightarrow> \<exists>pw. dropped_by W (\<lambda>drv. source_connect drv m pw) log)"

lemma dropped_by_more: "dropped_by W f log \<Longrightarrow> set log \<subseteq> set log' \<Longrightarrow> dropped_by W f log'"
  unfolding dropped_by_def by blast

lemma dropped_byI:
  "f (w_drv W i) = Inr c \<Longrightarrow> IssuedAt c (DropUserCmd ''search-sync'') \<in> set log
   \<Longrightarrow> (case drv_run (w_drv W j) c (DropUserCmd ''search-sync'') of None \<Rightarrow> True | Some e \<Rightarrow> HasErrorCode e 11) \<Longrightarrow> dropped_by W f log"
  unfolding dropped_by_def by blast

lemma wp_drop:
  assumes "f (w_drv W i) = Inr c"
  shows "wp (issue_at c (\<lambda>k. DropSearchCoordinatorUser (w_drv W k) c defaultSyncUser))
    (\<lambda>err s'. set (r_log s) \<subseteq> set (r_log s') \<and> (err = None \<longrightarrow> dropped_by W f (r_log s'))) s"
  by (auto simp: wp_issue_at DropSearchCoordinatorUser_def defaultSyncUser_def isUserNotFoundErr_def
      intro!: dropped_byI [where f = f and W = W and i = i and c = c and j = "r_tick s"] assms split: option.split if_splits)

lemma wp_drop_at:
  "wp (drop_at W f what) (\<lambda>err s'. set (r_log s) \<subseteq> set (r_log s') \<and> (err = None \<longrightarrow> dropped_by W f (r_log s'))) s"
proof (cases "f (w_drv W (r_tick s))")
  case (Inr c)
  from wp_drop [where f = f, OF Inr, of "s\<lparr>r_tick := Suc (r_tick s)\<rparr>"] show ?thesis
    by (simp add: drop_at_def wp_bind wp_ask Inr)
qed (simp add: drop_at_def wp_bind wp_ask wp_ret)

lemma wp_drop_on_shards:
  "wp (drop_on_shards W m pw is err) (\<lambda>r s'. set (r_log s) \<subseteq> set (r_log s')
     \<and> (r = None \<longrightarrow> err = None \<and> (\<forall>i \<in> set is. dropped_by W (\<lambda>drv. shard_connect drv m pw i) (r_log s')))) s"
proof (induction "is" arbitrary: err s)
  case (Cons i "is")
  show ?case unfolding drop_on_shards.simps wp_bind
  proof (rule wp_mono [OF wp_drop_at [of W "\<lambda>drv. shard_connect drv m pw i" _ s]], elim conjE)
    fix e :: "go_error option" and s' :: "MongoDBSearch rstate" assume a: "set (r_log s) \<subseteq> set (r_log s')" "e = None \<longrightarrow> dropped_by W (\<lambda>drv. shard_connect drv m pw i) (r_log s')"
    show "wp (drop_on_shards W m pw is (if err = None then e else err)) (\<lambda>r s''. set (r_log s) \<subseteq> set (r_log s'')
       \<and> (r = None \<longrightarrow> err = None \<and> (\<forall>j \<in> set (i # is). dropped_by W (\<lambda>drv. shard_connect drv m pw j) (r_log s'')))) s'"
      by (rule wp_mono [OF Cons.IH]) (use a dropped_by_more in \<open>auto split: if_splits\<close>)
  qed
qed (simp add: wp_ret)

lemma wp_drop_cluster:
  "r_obj s = search \<Longrightarrow> wp (dropSyncMongoUserSharded E W src) (\<lambda>r s'. r = None \<longrightarrow>
     (\<exists>i \<ge> r_tick s. case se_sharded E i src (SeNamespace search) of Inl e \<Rightarrow> IsNotFound e
        | Inr m \<Rightarrow> \<exists>pw. dropped_by W (\<lambda>drv. mongos_connect drv m pw) (r_log s')
            \<and> (\<forall>j < shard_count m. dropped_by W (\<lambda>drv. shard_connect drv m pw j) (r_log s')))) s"
proof -
  assume obj: "r_obj s = search"
  let ?Q = "\<lambda>r s'. r = None \<longrightarrow> (\<exists>i \<ge> r_tick s. case se_sharded E i src (SeNamespace search) of Inl e \<Rightarrow> IsNotFound e
        | Inr m \<Rightarrow> \<exists>pw. dropped_by W (\<lambda>drv. mongos_connect drv m pw) (r_log s')
            \<and> (\<forall>j < shard_count m. dropped_by W (\<lambda>drv. shard_connect drv m pw j) (r_log s')))"
  have both: "wp (do { err \<leftarrow> drop_at W (\<lambda>drv. mongos_connect drv m pw) what; drop_on_shards W m pw [0..<shard_count m] err }) ?Q s'"
    if m: "se_sharded E i src (SeNamespace search) = Inr m" "r_tick s \<le> i" for m pw what s' i
    unfolding wp_bind
  proof (rule wp_mono [OF wp_drop_at], elim conjE)
    fix err :: "go_error option" and t :: "MongoDBSearch rstate" assume a: "err = None \<longrightarrow> dropped_by W (\<lambda>drv. mongos_connect drv m pw) (r_log t)"
    show "wp (drop_on_shards W m pw [0..<shard_count m] err) ?Q t"
      by (rule wp_mono [OF wp_drop_on_shards])
        (use a m in \<open>auto intro!: exI [of _ i] exI [of _ pw] intro: dropped_by_more\<close>)
  qed
  show ?thesis
  proof (cases "se_sharded E (r_tick s) src (SeNamespace search)")
    case (Inl e)
    then show ?thesis by (auto simp: dropSyncMongoUserSharded_def wp_bind wp_the_obj wp_ask wp_ret obj intro!: exI [of _ "r_tick s"])
  next
    case (Inr m)
    then show ?thesis using both [OF Inr order_refl]
      by (auto simp: dropSyncMongoUserSharded_def wp_bind [of the_obj] wp_bind [of "ask _"] wp_the_obj wp_ask wp_ret obj Let_def split: sum.split)
  qed
qed

lemma wp_drop_source:
  assumes "r_obj s = search"
  shows "wp (dropSyncMongoUser E W src) (\<lambda>r s'. r = None \<longrightarrow>
     (\<exists>i \<ge> r_tick s. case se_mongodb E i src (SeNamespace search) of Inl e \<Rightarrow> IsNotFound e
        | Inr m \<Rightarrow> \<exists>pw. dropped_by W (\<lambda>drv. source_connect drv m pw) (r_log s'))) s"
proof (cases "se_mongodb E (r_tick s) src (SeNamespace search)")
  case (Inl e)
  then show ?thesis by (auto simp: dropSyncMongoUser_def wp_bind wp_the_obj wp_ask wp_ret assms intro!: exI [of _ "r_tick s"])
next
  case (Inr m)
  let ?Q = "\<lambda>r s'. r = None \<longrightarrow> (\<exists>i \<ge> r_tick s. case se_mongodb E i src (SeNamespace search) of Inl e \<Rightarrow> IsNotFound e
        | Inr m \<Rightarrow> \<exists>pw. dropped_by W (\<lambda>drv. source_connect drv m pw) (r_log s'))"
  have "wp (issue_at c (\<lambda>k. DropSearchCoordinatorUser (w_drv W k) c defaultSyncUser)) ?Q s'"
    if "source_connect (w_drv W i) m pw = Inr c" for c s' i pw
    by (rule wp_mono [OF wp_drop [where f = "\<lambda>drv. source_connect drv m pw", OF that]])
      (use Inr in \<open>auto intro!: exI [of _ "r_tick s"]\<close>)
  then show ?thesis
    by (auto simp: dropSyncMongoUser_def sourceAdminPassword_def wp_bind wp_the_obj wp_ask wp_ret assms Inr Let_def split: sum.split)
qed

text \<open>
  What the commons library promises: the finalizer is taken off only after a cleanup that ended
  without an error.
\<close>

definition releases_after_cleanup :: "search_env \<Rightarrow> bool" where
  "releases_after_cleanup E \<longleftrightarrow> (\<forall>i s c. fst (se_HandleFinalizerCleanup E i s c) \<noteq> None \<longrightarrow> c = Some None)"

lemma wp_cleanup:
  assumes "r_obj s = search" and "SeSource search = Some src" and "lo \<le> r_tick s"
  shows "wp (search_cleanup E W) (\<lambda>r s'. r = None \<longrightarrow> user_gone E W lo search src (r_log s')) s"
proof -
  let ?n = "sync_secret_name search" and ?ns = "SeNamespace search" and ?s = "s\<lparr>r_tick := Suc (r_tick s)\<rparr>"
  have "wp (dropSyncMongoUserSharded E W src) (\<lambda>r s'. r = None \<longrightarrow> user_gone E W lo search src (r_log s')) ?s"
    if "src_Kind (ses_Source (SeSpec search)) = ''MongoDBSharded''"
    by (rule wp_mono [OF wp_drop_cluster [of ?s search]]) (use assms(1,3) that in \<open>auto simp: user_gone_def dest: Suc_leD intro: le_SucI order_trans\<close>)
  moreover have "wp (dropSyncMongoUser E W src) (\<lambda>r s'. r = None \<longrightarrow> user_gone E W lo search src (r_log s')) ?s"
    if "src_Kind (ses_Source (SeSpec search)) \<noteq> ''MongoDBSharded''"
    by (rule wp_mono [OF wp_drop_source [of ?s search]]) (use assms(1,3) that in \<open>auto simp: user_gone_def dest: Suc_leD intro: le_SucI order_trans\<close>)
  moreover have "user_gone E W lo search src log"
    if "case se_secret E (r_tick s) ?n ?ns of Inl e \<Rightarrow> IsNotFound e | Inr x \<Rightarrow> map_get (sec_Labels x) labelManagedBy \<noteq> managedByValue" for log
    unfolding user_gone_def using that assms(3) by blast
  ultimately show ?thesis
    by (auto simp: search_cleanup_def wp_bind wp_the_obj wp_ask wp_ret assms kindMongoDBSharded_def split: sum.split)
qed

lemma persisted_IssuedAt [simp]: "persisted (map (IssuedAt c) cs) = []"
  by (induction cs) simp_all

lemma keeps_unstored [keeps_intros]:
  "keeps (\<lambda>s. persisted (r_log s) = []) (ask q)" "keeps (\<lambda>s. persisted (r_log s) = []) (issue_at c op)"
  by (auto simp: keeps_def wp_ask wp_issue_at split: prod.split)

lemma cleanup_stores_nothing: "keeps (\<lambda>s. persisted (r_log s) = []) (search_cleanup E W)"
proof -
  have "keeps (\<lambda>s. persisted (r_log s) = []) (drop_on_shards W m pw is err)" for m pw "is" err
    unfolding drop_at_def by (induction "is" arbitrary: err) (auto simp: drop_at_def intro!: keeps_intros)
  then show ?thesis
    unfolding search_cleanup_def dropSyncMongoUserSharded_def dropSyncMongoUser_def sourceAdminPassword_def drop_at_def Let_def
    by (intro keeps_intros)
qed

lemma unreferenced_cleanup:
  "r_obj s = search \<Longrightarrow> SeSource search = None \<Longrightarrow> wp (search_cleanup E W) Q s = Q None s"
  by (simp add: search_cleanup_def wp_bind wp_the_obj wp_ret)

text \<open>Why a pass may let a deleted search resource go.\<close>

definition released_rightly :: "search_env \<Rightarrow> MongoDBSearch world \<Rightarrow> nat \<Rightarrow> MongoDBSearch \<Rightarrow> MongoDBSearch effect list \<Rightarrow> bool" where
  "released_rightly E W lo search log \<longleftrightarrow>
     (case SeSource search of
        None \<Rightarrow> (\<forall>c cmd. IssuedAt c cmd \<notin> set log)
      | Some src \<Rightarrow> user_gone E W lo search src log)"

lemma wp_release:
  assumes "r_obj s = search" and "lo \<le> r_tick s" and "r_log s = []"
  shows "wp (search_cleanup E W) (\<lambda>r s'. r = None \<longrightarrow> released_rightly E W lo search (r_log s')) s"
  using assms wp_cleanup [OF assms(1) _ assms(2), of _ E W]
  by (cases "SeSource search") (simp_all add: released_rightly_def unreferenced_cleanup)

lemma released_rightly_snoc [simp]:
  "released_rightly E W lo search (log @ [PersistObject x]) = released_rightly E W lo search log"
proof -
  have "dropped_by W f (log @ [PersistObject x]) = dropped_by W f log" for f by (simp add: dropped_by_def)
  then show ?thesis by (simp add: released_rightly_def user_gone_def cong: sum.case_cong option.case_cong)
qed

text \<open>
  C18. The privileged user outlives a resource that refers to a cluster only if the operator finds
  no trace of it. When a pass takes the finalizer off such a search resource, then either the pass
  has read the sync secret and found none, or one without the operator's label (from which the
  code concludes that it made no user), or the cluster is gone, or the user has been dropped: on
  the replica set, or on the router and on every shard of the cluster. Servers that cannot be
  reached or refuse keep the resource alive. The user is dropped on the cluster that the resource
  names now; if its reference has been removed, the finalizer comes off and no command is sent
  at all, so that a user made before stays.
\<close>

theorem search_user_not_left_behind:
  assumes "w_get W k = Inr search" and "om_DeletionTimestamp (SeMeta search) \<noteq> None"
    and "releases_after_cleanup E" and "run_state (ReconcileSearch races E W) (start_run search k) = (r, s')"
  shows "persisted (r_log s') = [] \<or>
    (case SeSource search of
       None \<Rightarrow> (\<forall>c cmd. IssuedAt c cmd \<notin> set (r_log s'))
     | Some src \<Rightarrow> user_gone E W k search src (r_log s'))"
proof -
  let ?R = "released_rightly E W k search"
  let ?Q = "\<lambda>s'. persisted (r_log s') = [] \<or> ?R (r_log s')"
  let ?s = "(start_run search k)\<lparr>r_obj := search, r_tick := Suc (Suc k)\<rparr>"
  have "wp (search_cleanup E W) (\<lambda>r s'. (r = None \<longrightarrow> ?R (r_log s')) \<and> persisted (r_log s') = []) ?s"
    unfolding wp_conj using wp_release [of ?s search k E W] keeps_wp [OF cleanup_stores_nothing, of ?s E W] by simp
  moreover have rel: "c = Some None" if "fst (se_HandleFinalizerCleanup E i s c) = Some x" for i s c x
    using assms(3) that unfolding releases_after_cleanup_def by (metis option.distinct(1))
  ultimately have clean: "wp (search_cleanup E W) (\<lambda>a s'. (fst (se_HandleFinalizerCleanup E (r_tick s') search (Some a)) = None \<longrightarrow> ?Q s')
      \<and> (\<forall>x. fst (se_HandleFinalizerCleanup E (r_tick s') search (Some a)) = Some x \<longrightarrow> ?R (r_log s'))) ?s"
    by (auto elim!: wp_mono dest!: rel)
  have "fst (se_HandleFinalizerCleanup E i s None) = None" for i s
    using rel [of i s None] by (cases "fst (se_HandleFinalizerCleanup E i s None)") simp_all
  with clean have "wp (ReconcileSearch races E W) (\<lambda>_. ?Q) (start_run search k)"
    by (auto simp: ReconcileSearch_def search_handleDeletion_def wp_simps wp_ret_fun assms(1,2) split: option.splits)
  from wpD [OF this assms(4)] show ?thesis by (simp add: released_rightly_def)
qed

definition leaving_search :: MongoDBSearch where
  "leaving_search = sample_search\<lparr>SeMeta := (SeMeta sample_search)\<lparr>om_DeletionTimestamp := Some 7\<rparr>\<rparr>"

theorem search_user_not_left_behind_witness:
  "persisted (r_log (snd (run_state (ReconcileSearch 2 sample_search_env (search_world leaving_search)) (start_run leaving_search 0)))) \<noteq> []
   \<and> user_gone sample_search_env (search_world leaving_search) 0 leaving_search ''rs''
       (r_log (snd (run_state (ReconcileSearch 2 sample_search_env (search_world leaving_search)) (start_run leaving_search 0))))"
proof -
  let ?W = "search_world leaving_search"
  let ?run = "run_state (ReconcileSearch 2 sample_search_env ?W) (start_run leaving_search 0)"
  have facts: "SeSource leaving_search = Some ''rs''" "om_DeletionTimestamp (SeMeta leaving_search) = Some 7"
    "src_Kind (ses_Source (SeSpec leaving_search)) = ''MongoDB''" "SeNamespace leaving_search = ''db''"
    by (simp_all add: leaving_search_def sample_search_def)
  have rel: "releases_after_cleanup sample_search_env" by (simp add: releases_after_cleanup_def sample_search_env_def)
  have "wp (ReconcileSearch 2 sample_search_env ?W) (\<lambda>_ s. persisted (r_log s) \<noteq> []) (start_run leaving_search 0)"
    by (simp add: ReconcileSearch_def search_handleDeletion_def search_cleanup_def dropSyncMongoUser_def sourceAdminPassword_def
        wp_simps sample_search_answers facts kindMongoDBSharded_def sample_source_connect DropSearchCoordinatorUser_def Let_def)
      (simp add: sample_search_env_def wp_simps owned_secret_def map_get_def mongodbPhaseRunning_def)
  then have "persisted (r_log (snd ?run)) \<noteq> []" by (simp add: wp_def split: prod.splits)
  with search_user_not_left_behind [of ?W 0 leaving_search sample_search_env 2 "fst ?run" "snd ?run"] rel facts
  show ?thesis by (simp add: sample_search_answers)
qed

section \<open>The phase that the sidecars give\<close>

abbreviation sidecars_of :: "(string \<times> bool) list list \<Rightarrow> bool list" where
  "sidecars_of pods \<equiv> map snd (filter (\<lambda>c. fst c = mongotContainerName) (concat pods))"

lemma all_flags: "length (filter id xs) = length xs \<longleftrightarrow> list_all id xs"
  unfolding list_all_iff by (metis filter_id_conv length_filter_less order_less_irrefl)

lemma no_flags: "length (filter id xs) = 0 \<longleftrightarrow> \<not>  list_ex id xs"
  by (induction xs) simp_all

lemma count_containers_exact:
  "0 \<le> r \<Longrightarrow> r \<le> t \<Longrightarrow> t + int (length cs) < 2 ^ 31 \<Longrightarrow> count_containers cs (r, t) =
     (r + int (length (filter (\<lambda>c. fst c = mongotContainerName \<and> snd c) cs)), t + int (length (filter (\<lambda>c. fst c = mongotContainerName) cs)))"
proof (induction cs "(r, t)" arbitrary: r t rule: count_containers.induct)
  case (2 name ready cs r t)
  then have "wrap32 (r + 1) = r + 1" "wrap32 (t + 1) = t + 1" by (auto simp: is_int32_def)
  with 2 show ?case by auto
qed simp

lemma count_pods_exact:
  "0 \<le> r \<Longrightarrow> r \<le> t \<Longrightarrow> t + int (length (concat pods)) < 2 ^ 31 \<Longrightarrow> count_pods pods (r, t) =
     (r + int (length (filter id (sidecars_of pods))), t + int (length (sidecars_of pods)))"
proof (induction pods arbitrary: r t)
  case (Cons p ps)
  let ?r = "length (filter (\<lambda>c. fst c = mongotContainerName \<and> snd c) p)" and ?t = "length (filter (\<lambda>c. fst c = mongotContainerName) p)"
  have "int ?t \<le> int (length p)" by (simp only: of_nat_le_iff length_filter_le)
  moreover have "?r \<le> ?t" by (induction p) auto
  ultimately have "count_pods ps (r + int ?r, t + int ?t) =
      (r + int ?r + int (length (filter id (sidecars_of ps))), t + int ?t + int (length (sidecars_of ps)))"
    using Cons.prems by (intro Cons.IH) (simp_all del: length_filter_le)
  moreover have "count_containers p (r, t) = (r + int ?r, t + int ?t)" using Cons.prems by (intro count_containers_exact) auto
  ultimately show ?case by (simp add: count_pods_def filter_map comp_def conj_commute)
qed (simp add: count_pods_def)

text \<open>
  What the phase says of the pods that were listed: Provisioning when none of them has a sidecar,
  Ready when there is a sidecar and all of them are ready, Degraded when none is, Syncing otherwise.
  A pod without the sidecar has no say, as the example below shows.
\<close>

theorem search_phase_of_pods:
  assumes "int (length (concat pods)) < 2 ^ 31" and "count_pods pods (0, 0) = (ready, sidecars)"
  shows "searchPhaseFromReadiness ready sidecars =
    (if sidecars_of pods = [] then ''Provisioning'' else if list_all id (sidecars_of pods) then ''Ready''
     else if list_ex id (sidecars_of pods) then ''Syncing'' else ''Degraded'')"
proof -
  let ?s = "sidecars_of pods"
  have "ready = int (length (filter id ?s))" "sidecars = int (length ?s)"
    using count_pods_exact [of 0 0 pods] assms by simp_all
  moreover have "length (filter id ?s) \<le> length ?s" by (rule length_filter_le)
  moreover have "length (filter id ?s) = length ?s \<longleftrightarrow> list_all id ?s" by (rule all_flags)
  moreover have "length (filter id ?s) = 0 \<longleftrightarrow> \<not>  list_ex id ?s" by (rule no_flags)
  ultimately show ?thesis
    by (auto simp: searchPhaseFromReadiness_def searchPhaseProvisioning_def searchPhaseDegraded_def searchPhaseSyncing_def searchPhaseReady_def)
qed

theorem search_phase_of_pods_witness:
  "searchPhaseFromReadiness 1 1 = ''Ready'' \<and> sidecars_of [[(''mongodb'', True), (''mongot'', True)], [(''mongodb'', True)]] = [True]"
  using search_phase_of_pods [of "[[(''mongodb'', True), (''mongot'', True)], [(''mongodb'', True)]]" 1 1]
  by (simp add: count_pods_def mongotContainerName_def is_int32_def)
end
