(* ===== verification/Search_Index_Laws.thy ===== *)
theory Search_Index_Laws
  imports Search_Index Search_Laws
begin

text \<open>
  What the index controller and its webhook guarantee together: over its whole life a resource has
  commands sent for one index only, so that the index it drops is the one it created; what has
  happened when a deleted resource is let go; and what becomes of an edited definition.
\<close>

section \<open>Passes that stay with one identity\<close>

text \<open>
  A relation that the API server and every status write respect, and the commands that an object
  may send; related objects may send the same.
\<close>

locale one_identity =
  fixes R :: "'o \<Rightarrow> 'o \<Rightarrow> bool" and C :: "'o \<Rightarrow> mongo_cmd \<Rightarrow> bool"
  assumes R_refl: "R x x" and R_trans: "R x y \<Longrightarrow> R y z \<Longrightarrow> R x z" and C_cong: "R x y \<Longrightarrow> C y cmd = C x cmd"
begin

definition within :: "'o \<Rightarrow> 'o effect \<Rightarrow> bool" where
  "within x e = (case e of PersistStatus m \<Rightarrow> R x m | PersistObject m \<Rightarrow> R x m | IssuedAt c cmd \<Rightarrow> C x cmd | Issued cmd \<Rightarrow> C x cmd | _ \<Rightarrow> True)"

definition stays :: "'o \<Rightarrow> 'o rstate \<Rightarrow> bool" where
  "stays x s \<longleftrightarrow> R x (r_obj s) \<and> all_effects (within x) s"

lemma within_simps [simp]:
  "within x (PersistStatus m) = R x m" "within x (PersistObject m) = R x m" "within x (IssuedAt c cmd) = C x cmd"
  "within x (Issued cmd) = C x cmd"
  by (simp_all add: within_def)

lemma within_cong: "R x y \<Longrightarrow> within y e \<Longrightarrow> within x e"
  using R_trans [of x y] C_cong [of x y] by (cases e) (simp_all add: within_def)

lemma stays_start: "stays x (start_run x k)"
  by (simp add: stays_def start_run_def all_effects_def R_refl)

lemma keeps_stays_ask: "keeps (stays x) (ask q)"
  by (auto simp: keeps_def wp_simps stays_def)

lemma keeps_stays_retry:
  assumes "retry_ok R W" and "\<And>t m. R m (f t m)"
  shows "keeps (stays x) (UpdateWithRetry W f)"
  unfolding keeps_def
proof (intro allI impI)
  fix s assume s: "stays x s"
  then have "R x b" "R x (f t b)" if "R (r_obj s) b" for b t
    using R_trans [of x "r_obj s" b] R_trans [of x b "f t b"] that assms(2) by (auto simp: stays_def)
  then show "wp (UpdateWithRetry W f) (\<lambda>_. stays x) s"
    using s by (intro wp_update [OF assms(1)]) (auto simp: stays_def all_effects_def)
qed

lemma keeps_stays_issue:
  assumes "\<And>k cmd. cmd \<in> set (fst (op k)) \<Longrightarrow> C x cmd" shows "keeps (stays x) (issue_at c op)"
proof -
  have "C x cmd" if "op k = (cmds, res)" "cmd \<in> set cmds" for k cmds res cmd
    using assms [of cmd k] that by simp
  then show ?thesis by (auto simp: keeps_def wp_issue_at stays_def all_effects_def split: prod.split)
qed

lemma within_stored: "R x m \<Longrightarrow> \<forall>e \<in> set es. within x e \<Longrightarrow> R x (stored m es)"
  by (induction m es rule: stored.induct) (auto simp: within_def)

end

section \<open>The identity of an index resource\<close>

definition same_index :: "MongoDBSearchIndex \<Rightarrow> MongoDBSearchIndex \<Rightarrow> bool" where
  "same_index a b \<longleftrightarrow> SiNamespace a = SiNamespace b
     \<and> (\<lambda>s. (sis_SearchRef s, sis_Database s, sis_Collection s, sis_IndexName s, sis_Type s)) (SiSpec a)
       = (\<lambda>s. (sis_SearchRef s, sis_Database s, sis_Collection s, sis_IndexName s, sis_Type s)) (SiSpec b)"

text \<open>The commands for the index that a resource names: its creation with the declared type, and its removal.\<close>

fun index_cmd :: "MongoDBSearchIndex \<Rightarrow> mongo_cmd \<Rightarrow> bool" where
  "index_cmd idx (CreateSearchIndexCmd db coll name ty def) \<longleftrightarrow> db = sis_Database (SiSpec idx) \<and> coll = sis_Collection (SiSpec idx)
     \<and> name = sis_IndexName (SiSpec idx) \<and> ty = indexType idx"
| "index_cmd idx (DropSearchIndexCmd db coll name) \<longleftrightarrow> db = sis_Database (SiSpec idx) \<and> coll = sis_Collection (SiSpec idx)
     \<and> name = sis_IndexName (SiSpec idx)"
| "index_cmd idx _ \<longleftrightarrow> False"

interpretation si: one_identity same_index index_cmd
proof
  show "same_index x x" for x by (simp add: same_index_def)
  show "same_index x y \<Longrightarrow> same_index y z \<Longrightarrow> same_index x z" for x y z by (simp add: same_index_def)
  show "same_index x y \<Longrightarrow> index_cmd y cmd = index_cmd x cmd" for x y cmd
    by (cases cmd) (auto simp: same_index_def indexType_def)
qed

lemma same_index_sym: "same_index x y \<Longrightarrow> same_index y x"
  by (simp add: same_index_def)

lemma same_index_status: "same_index x (applyIndexStatus W p i q e t x)"
  by (simp add: same_index_def applyIndexStatus_def)

text \<open>What the commons library promises of the object that it stores without the finalizer.\<close>

definition releases_same :: "index_env \<Rightarrow> bool" where
  "releases_same E \<longleftrightarrow> (\<forall>i x c x'. fst (ie_HandleFinalizerCleanup E i x c) = Some x' \<longrightarrow> same_index x x')"

lemmas si_keeps = keeps_intros si.keeps_stays_ask

lemma keeps_index_status: "honest same_index W \<Longrightarrow> keeps (si.stays x) (index_applyStatus W p i q e)"
  unfolding index_applyStatus_def by (rule si.keeps_stays_retry) (simp_all add: honest_retry same_index_status)

lemma keeps_index_reports:
  assumes "honest same_index W"
  shows "keeps (si.stays x) (index_pending W msg)" "keeps (si.stays x) (index_building W msg)" "keeps (si.stays x) (index_fail W msg)"
  unfolding index_pending_def index_building_def index_fail_def index_report_def
  by (intro keeps_intros keeps_index_status assms)+

lemma index_run_cmds: "cmd' \<in> set (fst (index_run drv c cmd what ign)) \<longleftrightarrow> cmd' = cmd"
  by (simp add: index_run_def)

lemma keeps_index_op: "index_cmd x cmd \<Longrightarrow> keeps (si.stays x) (index_op W m pod ns verb cmd what ign)"
  unfolding index_op_def by (intro si_keeps si.keeps_stays_issue) (simp add: index_run_cmds)

lemma wp_index_cleanup: "si.stays x s \<Longrightarrow> wp (index_cleanup W m) (\<lambda>_. si.stays x) s"
proof (cases m)
  case (Some a)
  assume s: "si.stays x s"
  obtain mgr pod where a: "a = (mgr, pod)" by (cases a)
  have "index_cmd x (DropSearchIndexCmd (sis_Database (SiSpec (r_obj s))) (sis_Collection (SiSpec (r_obj s))) (sis_IndexName (SiSpec (r_obj s))))"
    using s by (simp add: si.stays_def same_index_def)
  from keeps_wp [OF keeps_index_op [OF this] s] Some a show ?thesis
    by (simp add: index_cleanup_def index_Drop_def wp_bind wp_the_obj)
qed (simp add: index_cleanup_def wp_ret)

lemma keeps_index_deletion:
  assumes "honest same_index W" and "releases_same E"
  shows "keeps (si.stays x) (index_handleDeletion E W m)"
proof -
  have rel: "si.stays x (s\<lparr>r_obj := y, r_log := r_log s @ [PersistObject y]\<rparr>)"
    if "si.stays x s" "same_index x z" "fst (ie_HandleFinalizerCleanup E i z c) = Some y" for s y z i c
    using that assms(2) si.R_trans [of x z y] by (simp add: si.stays_def all_effects_def releases_same_def)
  have "wp (do { r \<leftarrow> ask (\<lambda>k. ie_HandleFinalizerCleanup E k z c);
        (case fst r of None \<Rightarrow> ret () | Some y \<Rightarrow> do { put_obj y; emit (PersistObject y) }); ret (snd r) }) (\<lambda>_. si.stays x) s"
    if "si.stays x s" "same_index x z" for s z c
    using that rel [of "s\<lparr>r_tick := Suc (r_tick s)\<rparr>" z] by (auto simp: wp_simps si.stays_def split: option.split)
  note fin = this
  have obj: "si.stays x s \<Longrightarrow> same_index x (r_obj s)" for s by (simp add: si.stays_def)
  show ?thesis unfolding keeps_def index_handleDeletion_def
  proof (intro allI impI)
    fix s assume "si.stays x s"
    show "wp (do { idx \<leftarrow> the_obj; _ \<leftarrow> index_applyStatus W siPhaseDeleting (sist_IndexID (SiStatus idx)) False [];
        idx \<leftarrow> the_obj; run \<leftarrow> ask (\<lambda>k. ie_runs_cleanup E k idx);
        cleaned \<leftarrow> (if run then do { err \<leftarrow> index_cleanup W m; ret (Some err) } else ret None);
        r \<leftarrow> ask (\<lambda>k. ie_HandleFinalizerCleanup E k idx cleaned);
        (case fst r of None \<Rightarrow> ret () | Some y \<Rightarrow> do { put_obj y; emit (PersistObject y) }); ret (snd r) }) (\<lambda>_. si.stays x) s"
      unfolding wp_bind [of the_obj] wp_the_obj wp_bind [of "index_applyStatus _ _ _ _ _"]
    proof (rule wp_mono [OF keeps_wp [OF keeps_index_status [OF assms(1)] \<open>si.stays x s\<close>]])
      fix t :: "MongoDBSearchIndex rstate" assume t: "si.stays x t"
      then have u: "si.stays x (t\<lparr>r_tick := Suc (r_tick t)\<rparr>)" by (simp add: si.stays_def)
      show "wp (do { run \<leftarrow> ask (\<lambda>k. ie_runs_cleanup E k (r_obj t));
        cleaned \<leftarrow> (if run then do { err \<leftarrow> index_cleanup W m; ret (Some err) } else ret None);
        r \<leftarrow> ask (\<lambda>k. ie_HandleFinalizerCleanup E k (r_obj t) cleaned);
        (case fst r of None \<Rightarrow> ret () | Some y \<Rightarrow> do { put_obj y; emit (PersistObject y) }); ret (snd r) }) (\<lambda>_. si.stays x) t"
        using fin [OF _ obj [OF t]] wp_mono [OF wp_index_cleanup [OF u], of _ W m] u
        by (simp add: wp_bind [of "ask (\<lambda>k. ie_runs_cleanup E k (r_obj t))"] wp_ask wp_bind [of "if _ then _ else _"] wp_if
            wp_bind [of "index_cleanup W m"] wp_ret)
    qed
  qed
qed

lemma wp_ensureIndex:
  assumes "honest same_index W" and "si.stays x s"
  shows "wp (ensureIndex E W m pod def) (\<lambda>_. si.stays x) s"
proof -
  let ?o = "r_obj s"
  have "index_cmd x (CreateSearchIndexCmd (sis_Database (SiSpec ?o)) (sis_Collection (SiSpec ?o)) (sis_IndexName (SiSpec ?o)) (indexType ?o) def)"
    using assms(2) by (simp add: si.stays_def same_index_def indexType_def)
  note create = keeps_index_op [OF this]
  have "keeps (si.stays x) (do {
      existing \<leftarrow> index_List E W m pod (SiNamespace ?o) (sis_Database (SiSpec ?o)) (sis_Collection (SiSpec ?o)) (sis_IndexName (SiSpec ?o));
      f existing })" if "\<And>r. keeps (si.stays x) (f r)" for f
    unfolding index_List_def by (intro si_keeps that)
  from keeps_wp [OF this assms(2)] show ?thesis
    unfolding ensureIndex_def wp_bind [of the_obj] wp_the_obj Let_def index_Create_def
    by (rule back_subst [of "\<lambda>c. wp c _ s"]) (auto intro!: si_keeps create keeps_index_reports keeps_index_status assms(1) split: list.split)
qed

lemma keeps_resolve: "keeps (si.stays x) (resolveSourceManager E search src)"
  unfolding resolveSourceManager_def managerForSource_def managerForShardedSource_def adminPasswordFor_def by (intro si_keeps)

lemma keeps_add_index_finalizer:
  assumes "honest same_index W" shows "keeps (si.stays x) (add_index_finalizer W)"
proof -
  have "same_index x b" if "same_index x (r_obj s)" and
    "w_update_object W k ((r_obj s)\<lparr>SiMeta := (SiMeta (r_obj s))\<lparr>om_Finalizers := fs\<rparr>\<rparr>) = (b, e)" for s :: "MongoDBSearchIndex rstate" and k fs b e
  proof -
    have "same_index x ((r_obj s)\<lparr>SiMeta := (SiMeta (r_obj s))\<lparr>om_Finalizers := fs\<rparr>\<rparr>)" using that(1) by (simp add: same_index_def)
    moreover from that(2) assms have "same_index ((r_obj s)\<lparr>SiMeta := (SiMeta (r_obj s))\<lparr>om_Finalizers := fs\<rparr>\<rparr>) b"
      unfolding honest_def by blast
    ultimately show ?thesis by (rule si.R_trans)
  qed
  then show ?thesis
    by (auto simp: keeps_def add_index_finalizer_def update_object_def wp_simps si.stays_def all_effects_def split: prod.split)
      (metis prod.collapse)+
qed

lemma wp_index_with_source:
  assumes "honest same_index W" and "releases_same E" and "si.stays x s"
  shows "wp (index_with_source E W search m pod running) (\<lambda>_. si.stays x) s"
proof -
  note k = keeps_wp [OF keeps_index_deletion [OF assms(1,2)] assms(3)] keeps_wp [OF keeps_add_index_finalizer [OF assms(1)] assms(3)]
    keeps_wp [OF keeps_index_reports(2) [OF assms(1)] assms(3)] keeps_wp [OF keeps_index_reports(3) [OF assms(1)] assms(3)]
    wp_ensureIndex [OF assms(1,3)]
  show ?thesis unfolding index_with_source_def wp_bind wp_the_obj by (simp add: wp_simps k split: sum.split)
qed

lemma index_pass_stays:
  assumes "honest same_index W" and "releases_same E" and "w_get W k = Inr idx"
  shows "wp (ReconcileIndex E W) (\<lambda>_. si.stays idx) (start_run idx k)"
proof -
  have s: "si.stays idx ((start_run idx k)\<lparr>r_obj := idx, r_tick := i\<rparr>)" for i using si.stays_start [of idx k] by (simp add: si.stays_def si.R_refl)
  note k = keeps_wp [OF keeps_index_deletion [OF assms(1,2)]] keeps_wp [OF keeps_index_reports(1) [OF assms(1)]]
    keeps_wp [OF keeps_index_reports(3) [OF assms(1)]]
  have "wp (resolveSourceManager E search src) (\<lambda>res. wp (case res of
        ResolveError e \<Rightarrow> ret (no_requeue, Some e) | NotYet reason \<Rightarrow> f reason
      | Source m pod running \<Rightarrow> index_with_source E W search m pod running) (\<lambda>_. si.stays idx))
      ((start_run idx k)\<lparr>r_obj := idx, r_tick := i\<rparr>)" if "\<And>reason. keeps (si.stays idx) (f reason)" for search src i f
    by (rule wp_mono [OF keeps_wp [OF keeps_resolve s]])
      (auto simp: wp_simps keeps_wp [OF that] wp_index_with_source [OF assms(1,2)] split: resolved.split)
  then show ?thesis
    by (auto simp: ReconcileIndex_def wp_bind wp_ask wp_put_obj wp_ret assms(3) k s keeps_index_deletion [OF assms(1,2)]
        keeps_index_reports(1) [OF assms(1)] split: sum.split option.split)
qed

section \<open>One index for life\<close>

inductive index_life :: "MongoDBSearchIndex effect list \<Rightarrow> MongoDBSearchIndex \<Rightarrow> bool" where
  index_created: "ValidateIndexCreate idx = None \<Longrightarrow> index_life [] idx"
| index_pass: "index_life es idx \<Longrightarrow> honest same_index W \<Longrightarrow> releases_same E \<Longrightarrow> w_get W k = Inr idx \<Longrightarrow>
     run_state (ReconcileIndex E W) (start_run idx k) = (r, s') \<Longrightarrow> index_life (es @ r_log s') (stored idx (r_log s'))"
| index_edited: "index_life es idx \<Longrightarrow> ValidateIndexUpdate (Some idx) idx' = None \<Longrightarrow> SiNamespace idx' = SiNamespace idx \<Longrightarrow> index_life es idx'"

lemma admitted_edit_same: "ValidateIndexUpdate (Some a) b = None \<Longrightarrow> SiNamespace b = SiNamespace a \<Longrightarrow> same_index b a"
  by (auto simp: ValidateIndexUpdate_def immutable_fields_def validateImmutable_def same_index_def Let_def split: if_splits)

text \<open>
  C19. Over the whole life of an index resource, with any admitted edits and passes in any order, every
  command that was ever sent names the database, the collection and the index that the resource
  names now: it creates this index with the declared type, or it drops it. An index is never
  updated in place. The server that a command goes to is not pinned by this: it is the cluster
  that the referenced search resource names at the time of the pass, and that reference may be
  edited.
\<close>

theorem index_identity_for_life:
  assumes "index_life es idx" and "IssuedAt c cmd \<in> set es"
  shows "index_cmd idx cmd"
proof -
  have "\<forall>e \<in> set es. si.within idx e"
    using assms(1)
  proof (induction rule: index_life.induct)
    case (index_pass es idx W E k r s')
    have "si.stays idx s'" using wpD [OF index_pass_stays [OF index_pass.hyps(2,3,4)] index_pass.hyps(5)] .
    then have new: "\<forall>e \<in> set (r_log s'). si.within idx e" by (simp add: si.stays_def all_effects_def)
    have "same_index (stored idx (r_log s')) idx" using si.within_stored [OF si.R_refl new] by (rule same_index_sym)
    with si.within_cong [OF this] index_pass.IH new show ?case by auto
  next
    case (index_edited es idx idx')
    with si.within_cong [OF admitted_edit_same [OF index_edited.hyps(2,3)]] show ?case by blast
  qed simp
  with assms(2) show ?thesis by fastforce
qed

section \<open>Examples\<close>

definition sample_index :: MongoDBSearchIndex where
  "sample_index = \<lparr>SiMeta = \<lparr>om_Name = ''titles'', om_Namespace = ''db'', om_Generation = 2, om_DeletionTimestamp = None,
       om_Finalizers = [FinalizerMongoDBSearchIndex], om_Annotations = []\<rparr>,
     SiSpec = \<lparr>sis_SearchRef = ''docs'', sis_Database = ''app'', sis_Collection = ''pages'', sis_IndexName = ''titles'',
       sis_Type = [], sis_DefinitionJSON = ''{}''\<rparr>,
     SiStatus = \<lparr>sist_Phase = [], sist_IndexID = [], sist_Queryable = False, sist_ObservedGeneration = 0, sist_Error = [],
       sist_Conditions = []\<rparr>\<rparr>"

definition ready_search :: MongoDBSearch where
  "ready_search = upd_se (\<lambda>s. s\<lparr>sest_Phase := ''Ready''\<rparr>) sample_search"

definition index_sample_env :: "SearchIndexInfo list \<Rightarrow> index_env" where
  "index_sample_env listed = \<lparr>ie_search = \<lambda>_ _ _. Inr ready_search, ie_mongodb = \<lambda>_ _ _. Inr sample_mdb,
     ie_sharded = \<lambda>_ _ _. Inr sample_sharded, ie_secret = \<lambda>_ n ns. Inr (owned_secret n ns ''pw'' None),
     ie_list = \<lambda>_ _ _ _ _. Inr (Inr listed), ie_UnmarshalExtJSON = \<lambda>_. Inr [], ie_runs_cleanup = \<lambda>_ _. True,
     ie_HandleFinalizerCleanup = \<lambda>_ x c. (if c = Some None then Some (x\<lparr>SiMeta := (SiMeta x)\<lparr>om_Finalizers := []\<rparr>\<rparr>) else None, (no_requeue, None))\<rparr>"

definition index_world :: "MongoDBSearchIndex \<Rightarrow> MongoDBSearchIndex world" where
  "index_world x = (sample_world 5 done_sts [] yes_driver)\<lparr>w_get := \<lambda>_. Inr x\<rparr>"

lemma index_world_facts:
  "honest same_index (index_world x)" "releases_same (index_sample_env l)" "w_get (index_world x) i = Inr x"
  "w_drv (index_world x) i = yes_driver" "w_UpdateWithRetry (index_world x) = accept_update"
  by (auto simp: honest_def index_world_def sample_world_def accept_update_def retry_ok_def same_index_def releases_same_def
      index_sample_env_def split: if_splits)

lemma index_env_facts:
  "ie_search (index_sample_env l) i n ns = Inr ready_search" "ie_mongodb (index_sample_env l) i n ns = Inr sample_mdb"
  "ie_secret (index_sample_env l) i n ns = Inr (owned_secret n ns ''pw'' None)" "ie_list (index_sample_env l) i c d e f = Inr (Inr l)"
  "ie_UnmarshalExtJSON (index_sample_env l) j = Inr []" "SeSource ready_search = Some ''rs''"
  "src_Kind (ses_Source (SeSpec ready_search)) = ''MongoDB''" "SePhase ready_search = ''Ready''"
  by (simp_all add: index_sample_env_def ready_search_def upd_se_def)

lemma sample_pod_connect:
  "NewPodConnectFactory yes_driver (Name sample_mdb @ ''-headless'') 27017 ''admin'' ''pw'' ''admin'' (Name sample_mdb @ ''-0'') ''db'' False = Inr rs_conn"
  using sample_source_connect by (simp add: source_connect_def sample_search_answers)

lemma sample_index_facts [simp]:
  "om_DeletionTimestamp (SiMeta sample_index) = None" "om_Finalizers (SiMeta sample_index) = [FinalizerMongoDBSearchIndex]"
  "SiNamespace sample_index = ''db''" "sis_Database (SiSpec sample_index) = ''app''" "sis_Collection (SiSpec sample_index) = ''pages''"
  "sis_IndexName (SiSpec sample_index) = ''titles''" "indexType sample_index = ''search''"
  by (simp_all add: sample_index_def indexType_def)

lemmas index_run_defs = ReconcileIndex_def resolveSourceManager_def managerForSource_def adminPasswordFor_def index_with_source_def
  ensureIndex_def index_List_def index_Create_def index_op_def index_run_def index_building_def index_report_def index_applyStatus_def

lemma sample_index_created:
  "wp (ReconcileIndex (index_sample_env []) (index_world sample_index))
     (\<lambda>_ s. IssuedAt rs_conn (CreateSearchIndexCmd ''app'' ''pages'' ''titles'' ''search'' []) \<in> set (r_log s)) (start_run sample_index 0)"
  by (simp add: index_run_defs wp_simps index_env_facts index_world_facts sample_search_answers sample_pod_connect
      kindMongoDBSharded_def mongodbPhaseRunning_def searchPhaseReady_def accept_update_def Let_def)

theorem index_identity_for_life_witness:
  "\<exists>es idx. IssuedAt rs_conn (CreateSearchIndexCmd ''app'' ''pages'' ''titles'' ''search'' []) \<in> set es \<and> index_life es idx
     \<and> index_cmd idx (CreateSearchIndexCmd ''app'' ''pages'' ''titles'' ''search'' [])"
proof -
  let ?W = "index_world sample_index" and ?E = "index_sample_env []"
  let ?run = "run_state (ReconcileIndex ?E ?W) (start_run sample_index 0)"
  have "ValidateIndexCreate sample_index = None" by code_simp
  from index_pass [OF index_created [OF this] index_world_facts(1,2,3) surjective_pairing]
  have life: "index_life ([] @ r_log (snd ?run)) (stored sample_index (r_log (snd ?run)))" .
  moreover have sent: "IssuedAt rs_conn (CreateSearchIndexCmd ''app'' ''pages'' ''titles'' ''search'' []) \<in> set ([] @ r_log (snd ?run))"
    using sample_index_created by (simp add: wp_def split: prod.splits)
  moreover note index_identity_for_life [OF life sent]
  ultimately show ?thesis by blast
qed

section \<open>Letting a deleted resource go\<close>

text \<open>
  Why the controller takes the cluster for unreachable and gives the index up: since \<open>lo\<close> a read has
  shown that the search resource or the cluster does not exist, or the password of its admin could
  not be read, be it that no secret is named, that it has no password, or that the read failed
  with any error, also one that will pass.
\<close>

definition password_unread :: "index_env \<Rightarrow> nat \<Rightarrow> string \<Rightarrow> string \<Rightarrow> bool" where
  "password_unread E lo name ns \<longleftrightarrow> name = [] \<or> (\<exists>k \<ge> lo. case ie_secret E k name ns of Inl _ \<Rightarrow> True | Inr s \<Rightarrow> map_get (sec_Data s) ''password'' = [])"

definition source_lost :: "index_env \<Rightarrow> nat \<Rightarrow> MongoDBSearchIndex \<Rightarrow> bool" where
  "source_lost E lo idx \<longleftrightarrow> (\<exists>i \<ge> lo. case ie_search E i (sis_SearchRef (SiSpec idx)) (SiNamespace idx) of
       Inl e \<Rightarrow> IsNotFound e
     | Inr search \<Rightarrow> \<exists>src. SeSource search = Some src \<and>
         (if src_Kind (ses_Source (SeSpec search)) = ''MongoDBSharded''
          then \<exists>j \<ge> lo. case ie_sharded E j src (SiNamespace idx) of
                 Inl e \<Rightarrow> IsNotFound e | Inr m \<Rightarrow> password_unread E lo (auth_AdminCredentialsSecretRef (shd_Auth (ShSpec m))) (ShNamespace m)
          else \<exists>j \<ge> lo. case ie_mongodb E j src (SiNamespace idx) of
                 Inl e \<Rightarrow> IsNotFound e | Inr m \<Rightarrow> password_unread E lo (auth_AdminCredentialsSecretRef (mdb_Auth (Spec m))) (Namespace m)))"

text \<open>A connection to the cluster that the index is declared on, as its admin.\<close>

definition source_conn :: "index_env \<Rightarrow> MongoDBSearchIndex world \<Rightarrow> MongoDBSearchIndex \<Rightarrow> conn \<Rightarrow> bool" where
  "source_conn E W idx c \<longleftrightarrow> (\<exists>i search src j k pw. ie_search E i (sis_SearchRef (SiSpec idx)) (SiNamespace idx) = Inr search
     \<and> SeSource search = Some src \<and>
       (if src_Kind (ses_Source (SeSpec search)) = ''MongoDBSharded''
        then \<exists>m. ie_sharded E j src (SiNamespace idx) = Inr m \<and>
          NewServiceConnectFactory (w_drv W k) (ShName m @ ''-mongos'') (ShNamespace m) 27017 ''admin'' pw ''admin'' [] (SiNamespace idx) False = Inr c
        else \<exists>m. ie_mongodb E j src (SiNamespace idx) = Inr m \<and>
          NewPodConnectFactory (w_drv W k) (Name m @ ''-headless'') 27017 ''admin'' pw ''admin'' (Name m @ ''-0'') (SiNamespace idx) False = Inr c))"

definition index_dropped :: "index_env \<Rightarrow> MongoDBSearchIndex world \<Rightarrow> MongoDBSearchIndex \<Rightarrow> MongoDBSearchIndex effect list \<Rightarrow> bool" where
  "index_dropped E W idx log \<longleftrightarrow>
     (let cmd = DropSearchIndexCmd (sis_Database (SiSpec idx)) (sis_Collection (SiSpec idx)) (sis_IndexName (SiSpec idx)) in
      \<exists>c j. source_conn E W idx c \<and> IssuedAt c cmd \<in> set log
        \<and> (case drv_run (w_drv W j) c cmd of None \<Rightarrow> True | Some e \<Rightarrow> isIndexNotFoundErr e))"

definition index_released :: "MongoDBSearchIndex effect list \<Rightarrow> bool" where
  "index_released log \<longleftrightarrow> (\<exists>x. PersistObject x \<in> set log)"

definition releases_index_after_cleanup :: "index_env \<Rightarrow> bool" where
  "releases_index_after_cleanup E \<longleftrightarrow> (\<forall>i x c. fst (ie_HandleFinalizerCleanup E i x c) \<noteq> None \<longrightarrow> c = Some None)"

text \<open>A pass that has not let the resource go and still works for the same index.\<close>

definition holding :: "MongoDBSearchIndex \<Rightarrow> MongoDBSearchIndex rstate \<Rightarrow> bool" where
  "holding idx s \<longleftrightarrow> si.stays idx s \<and> \<not> index_released (r_log s)"

lemma keeps_holding_ask: "keeps (holding idx) (ask q)"
  by (auto simp: keeps_def wp_simps holding_def si.stays_def)

lemma keeps_holding_status: "honest same_index W \<Longrightarrow> keeps (holding idx) (index_applyStatus W p i q e)"
proof -
  assume "honest same_index W"
  have "wp (index_applyStatus W p i q e) (\<lambda>_ s'. \<not> index_released (r_log s')) s" if "\<not> index_released (r_log s)" for s
    using that by (auto simp: index_applyStatus_def wp_UpdateWithRetry index_released_def split: prod.split)
  with keeps_wp [OF keeps_index_status [OF \<open>honest same_index W\<close>]] show ?thesis
    unfolding keeps_def holding_def [abs_def] wp_conj by blast
qed

lemma wp_adminPasswordFor:
  "lo \<le> r_tick s \<Longrightarrow> wp (adminPasswordFor E name ns) (\<lambda>r s'. s' = s\<lparr>r_tick := r_tick s'\<rparr> \<and> (\<forall>e. r = Inl e \<longrightarrow> password_unread E lo name ns)) s"
proof (cases "name = [] \<or> (\<forall>x. ie_secret E (r_tick s) name ns = Inr x \<longrightarrow> map_get (sec_Data x) ''password'' = [])")
  case True
  moreover assume "lo \<le> r_tick s"
  ultimately have "password_unread E lo name ns"
    unfolding password_unread_def by (cases "ie_secret E (r_tick s) name ns") (auto intro!: exI [of _ "r_tick s"])
  then show ?thesis by (simp add: adminPasswordFor_def wp_simps)
next
  case False
  then show ?thesis by (auto simp: adminPasswordFor_def wp_simps)
qed

lemma resolved_source:
  assumes "ie_search E i (sis_SearchRef (SiSpec idx)) (SiNamespace idx) = Inr search" and "SeSource search = Some src"
    and "r_obj s = idx" and "lo \<le> i" and "lo \<le> r_tick s"
  shows "wp (resolveSourceManager E search src) (\<lambda>res s'. s' = s\<lparr>r_tick := r_tick s'\<rparr> \<and> (case res of
      ResolveError _ \<Rightarrow> True | NotYet _ \<Rightarrow> source_lost E lo idx
    | Source m pod _ \<Rightarrow> \<forall>k c. m (w_drv W k) pod (SiNamespace idx) False = Inr c \<longrightarrow> source_conn E W idx c)) s"
proof -
  let ?ns = "SiNamespace idx" and ?sharded = "src_Kind (ses_Source (SeSpec search)) = ''MongoDBSharded''"
  have lost: "source_lost E lo idx" if "if ?sharded then case ie_sharded E j src ?ns of
        Inl e \<Rightarrow> IsNotFound e | Inr m \<Rightarrow> password_unread E lo (auth_AdminCredentialsSecretRef (shd_Auth (ShSpec m))) (ShNamespace m)
      else case ie_mongodb E j src ?ns of
        Inl e \<Rightarrow> IsNotFound e | Inr m \<Rightarrow> password_unread E lo (auth_AdminCredentialsSecretRef (mdb_Auth (Spec m))) (Namespace m)" "lo \<le> j" for j
    unfolding source_lost_def using assms(1,2,4) that by (intro exI [of _ i]) (auto split: if_splits)
  have conn: "source_conn E W idx c" if "if ?sharded then \<exists>m. ie_sharded E j src ?ns = Inr m \<and>
        NewServiceConnectFactory (w_drv W k) (ShName m @ ''-mongos'') (ShNamespace m) 27017 ''admin'' pw ''admin'' [] ?ns False = Inr c
      else \<exists>m. ie_mongodb E j src ?ns = Inr m \<and>
        NewPodConnectFactory (w_drv W k) (Name m @ ''-headless'') 27017 ''admin'' pw ''admin'' (Name m @ ''-0'') ?ns False = Inr c" for j k pw c
    unfolding source_conn_def using assms(1,2) that by blast
  show ?thesis
  proof (cases ?sharded)
    case True
    then show ?thesis
    proof (cases "ie_sharded E (r_tick s) src ?ns")
      case (Inl e)
      with True lost [of "r_tick s"] assms(5) show ?thesis
        by (auto simp: resolveSourceManager_def wp_simps assms(3) kindMongoDBSharded_def)
    next
      case (Inr m)
      with True lost [of "r_tick s"] assms(5) conn [of "r_tick s"] show ?thesis
        by (auto simp: resolveSourceManager_def managerForShardedSource_def wp_bind wp_the_obj wp_ask wp_ret assms(3) kindMongoDBSharded_def
            intro!: wp_mono [OF wp_adminPasswordFor [of lo]] split: sum.split)
    qed
  next
    case False
    show ?thesis
    proof (cases "ie_mongodb E (r_tick s) src ?ns")
      case (Inl e)
      with False lost [of "r_tick s"] assms(5) show ?thesis
        by (auto simp: resolveSourceManager_def wp_simps assms(3) kindMongoDBSharded_def)
    next
      case (Inr m)
      with False lost [of "r_tick s"] assms(5) conn [of "r_tick s"] show ?thesis
        by (auto simp: resolveSourceManager_def managerForSource_def wp_bind wp_the_obj wp_ask wp_ret assms(3) kindMongoDBSharded_def
            intro!: wp_mono [OF wp_adminPasswordFor [of lo]] split: sum.split)
    qed
  qed
qed

lemma wp_index_drop:
  assumes "holding idx s" and "\<And>k c. m (w_drv W k) pod (SiNamespace idx) False = Inr c \<Longrightarrow> source_conn E W idx c"
  shows "wp (index_cleanup W (Some (m, pod))) (\<lambda>r s'. holding idx s' \<and> (r = None \<longrightarrow> index_dropped E W idx (r_log s'))) s"
proof -
  let ?cmd = "DropSearchIndexCmd (sis_Database (SiSpec idx)) (sis_Collection (SiSpec idx)) (sis_IndexName (SiSpec idx))"
  have same: "same_index idx (r_obj s)" and hold: "si.stays idx s" "\<not> index_released (r_log s)"
    using assms(1) by (simp_all add: holding_def si.stays_def)
  have dropped: "index_dropped E W idx (r_log s @ [IssuedAt c ?cmd])"
    if "m (w_drv W k) pod (SiNamespace idx) False = Inr c"
      "case drv_run (w_drv W j) c ?cmd of None \<Rightarrow> True | Some e \<Rightarrow> isIndexNotFoundErr e" for c k j
    unfolding index_dropped_def Let_def using assms(2) [OF that(1)] that(2) by (intro exI [of _ c] exI [of _ j]) simp
  show ?thesis using same hold dropped [of "r_tick s" _ "Suc (r_tick s)"]
    by (auto simp: index_cleanup_def index_Drop_def index_op_def index_run_def wp_simps same_index_def holding_def si.stays_def
        all_effects_def index_released_def split: sum.split option.split)
qed

lemma wp_index_handleDeletion:
  assumes "honest same_index W" and "releases_index_after_cleanup E" and "holding idx s"
    and "\<And>k c. m (w_drv W k) pod (SiNamespace idx) False = Inr c \<Longrightarrow> source_conn E W idx c"
  shows "wp (index_handleDeletion E W (Some (m, pod))) (\<lambda>_ s'. index_released (r_log s') \<longrightarrow> index_dropped E W idx (r_log s')) s"
proof -
  let ?Q = "\<lambda>s'. index_released (r_log s') \<longrightarrow> index_dropped E W idx (r_log s')"
  have grow: "index_dropped E W idx (log @ [e])" if "index_dropped E W idx log" for log e
    using that by (auto simp: index_dropped_def Let_def)
  have none: "fst (ie_HandleFinalizerCleanup E i x None) = None" and err: "fst (ie_HandleFinalizerCleanup E i x (Some (Some e))) = None" for i x e
    using assms(2) unfolding releases_index_after_cleanup_def by (metis option.distinct(1), metis option.distinct(1) option.inject)
  have fin: "wp (do { r \<leftarrow> ask (\<lambda>k. ie_HandleFinalizerCleanup E k x (Some err));
        (case fst r of None \<Rightarrow> ret () | Some y \<Rightarrow> do { put_obj y; emit (PersistObject y) }); ret (snd r) }) (\<lambda>_. ?Q) t"
    if "holding idx t" "err = None \<longrightarrow> index_dropped E W idx (r_log t)" for t err x
    using that by (cases err) (auto simp: wp_simps err holding_def intro: grow split: option.split)
  have skip: "wp (do { r \<leftarrow> ask (\<lambda>k. ie_HandleFinalizerCleanup E k x None);
        (case fst r of None \<Rightarrow> ret () | Some y \<Rightarrow> do { put_obj y; emit (PersistObject y) }); ret (snd r) }) (\<lambda>_. ?Q) t"
    if "holding idx t" for t x
    using that by (simp add: wp_simps none holding_def)
  show ?thesis unfolding index_handleDeletion_def wp_bind [of the_obj] wp_the_obj wp_bind [of "index_applyStatus _ _ _ _ _"]
  proof (rule wp_mono [OF keeps_wp [OF keeps_holding_status [OF assms(1)] assms(3)]])
    fix t :: "MongoDBSearchIndex rstate" assume t: "holding idx t"
    then have u: "holding idx (t\<lparr>r_tick := Suc (r_tick t)\<rparr>)" by (simp add: holding_def si.stays_def)
    have "wp (index_cleanup W (Some (m, pod))) (\<lambda>r. wp (do { r \<leftarrow> ask (\<lambda>k. ie_HandleFinalizerCleanup E k (r_obj t) (Some r));
        (case fst r of None \<Rightarrow> ret () | Some y \<Rightarrow> do { put_obj y; emit (PersistObject y) }); ret (snd r) }) (\<lambda>_. ?Q)) (t\<lparr>r_tick := Suc (r_tick t)\<rparr>)"
    proof (rule wp_mono)
      show "wp (index_cleanup W (Some (m, pod))) (\<lambda>r s'. holding idx s' \<and> (r = None \<longrightarrow> index_dropped E W idx (r_log s'))) (t\<lparr>r_tick := Suc (r_tick t)\<rparr>)"
        using u assms(4) by (rule wp_index_drop)
    qed (rule fin, simp_all)
    with t u show "wp (do { run \<leftarrow> ask (\<lambda>k. ie_runs_cleanup E k (r_obj t));
        cleaned \<leftarrow> (if run then do { err \<leftarrow> index_cleanup W (Some (m, pod)); ret (Some err) } else ret None);
        r \<leftarrow> ask (\<lambda>k. ie_HandleFinalizerCleanup E k (r_obj t) cleaned);
        (case fst r of None \<Rightarrow> ret () | Some y \<Rightarrow> do { put_obj y; emit (PersistObject y) }); ret (snd r) }) (\<lambda>_. ?Q) t"
      using skip [OF u]
      by (simp add: wp_bind [of "ask (\<lambda>k. ie_runs_cleanup E k (r_obj t))"] wp_ask wp_bind [of "if _ then _ else _"] wp_if
          wp_bind [of "index_cleanup W _"] wp_ret wp_ret_fun)
  qed
qed

text \<open>
  C20. When a pass lets a deleted index resource go, then it has found that the search resource or the
  cluster does not exist, or it could not read the password of the cluster's admin, for whatever
  reason, or the index that the resource names has been dropped on the cluster, or was not there. A
  server that cannot be reached or refuses keeps the resource, but an error of the read of the
  secret does not: then the index is left behind on a cluster that exists.
\<close>

theorem deleted_index_dropped:
  assumes "honest same_index W" and "releases_index_after_cleanup E" and "w_get W k = Inr idx" and "SiDeleted idx"
    and "run_state (ReconcileIndex E W) (start_run idx k) = (r, s')"
  shows "index_released (r_log s') \<longrightarrow> source_lost E k idx \<or> index_dropped E W idx (r_log s')"
proof (rule ccontr)
  let ?Q = "\<lambda>s'. index_released (r_log s') \<longrightarrow> index_dropped E W idx (r_log s')"
  assume "\<not> (index_released (r_log s') \<longrightarrow> source_lost E k idx \<or> index_dropped E W idx (r_log s'))"
  then have reach: "\<not> source_lost E k idx" "index_released (r_log s')" "\<not> index_dropped E W idx (r_log s')" by simp_all
  have h: "holding idx ((start_run idx k)\<lparr>r_obj := idx, r_tick := i\<rparr>)" for i
    by (simp add: holding_def si.stays_def si.R_refl index_released_def start_run_def all_effects_def)
  have found: "ie_search E i (sis_SearchRef (SiSpec idx)) (SiNamespace idx) = Inl e \<Longrightarrow> k \<le> i \<Longrightarrow> \<not> IsNotFound e" for i e
    using reach unfolding source_lost_def by (auto dest: spec [of _ i])
  have fail: "wp (index_fail W msg) (\<lambda>_. ?Q) ((start_run idx k)\<lparr>r_obj := idx, r_tick := i\<rparr>)" for msg i
    unfolding index_fail_def index_report_def wp_bind wp_the_obj wp_ret_fun
    by (rule wp_mono [OF keeps_wp [OF keeps_holding_status [OF assms(1)] h]]) (simp add: holding_def)
  have "wp (resolveSourceManager E search src) (\<lambda>res. wp (case res of
        ResolveError e \<Rightarrow> ret (no_requeue, Some e) | NotYet reason \<Rightarrow> f reason
      | Source m pod running \<Rightarrow> index_with_source E W search m pod running) (\<lambda>_. ?Q)) ((start_run idx k)\<lparr>r_obj := idx, r_tick := i\<rparr>)"
    if "ie_search E j (sis_SearchRef (SiSpec idx)) (SiNamespace idx) = Inr search" "SeSource search = Some src" "k \<le> j" "k \<le> i" for search src i j f
    using resolved_source [OF that(1,2), of "(start_run idx k)\<lparr>r_obj := idx, r_tick := i\<rparr>" k W] that(3,4)
  proof (simp, elim wp_mono)
    fix res and t :: "MongoDBSearchIndex rstate"
    assume t: "t = (start_run idx k)\<lparr>r_obj := idx, r_tick := r_tick t\<rparr> \<and> (case res of ResolveError _ \<Rightarrow> True | NotYet _ \<Rightarrow> source_lost E k idx
      | Source m pod _ \<Rightarrow> \<forall>k c. m (w_drv W k) pod (SiNamespace idx) False = Inr c \<longrightarrow> source_conn E W idx c)"
    then have o: "r_obj t = idx" "holding idx t" using h [of "r_tick t"] by (metis rstate.select_convs(1) rstate.surjective rstate.update_convs(1) rstate.update_convs(2), metis)
    show "wp (case res of ResolveError e \<Rightarrow> ret (no_requeue, Some e) | NotYet reason \<Rightarrow> f reason
      | Source m pod running \<Rightarrow> index_with_source E W search m pod running) (\<lambda>_. ?Q) t"
      using t o reach wp_index_handleDeletion [OF assms(1,2) o(2)] assms(4)
      by (auto simp: wp_ret holding_def index_with_source_def wp_bind wp_the_obj split: resolved.splits)
  qed
  with fail h found have "wp (ReconcileIndex E W) (\<lambda>_. ?Q) (start_run idx k)"
    by (auto simp: ReconcileIndex_def wp_bind wp_ask wp_put_obj wp_ret assms(3) holding_def split: sum.split option.split)
  from wpD [OF this assms(5)] reach show False by blast
qed

definition leaving_index :: MongoDBSearchIndex where
  "leaving_index = sample_index\<lparr>SiMeta := (SiMeta sample_index)\<lparr>om_DeletionTimestamp := Some 7\<rparr>\<rparr>"

lemma leaving_index_facts:
  "om_DeletionTimestamp (SiMeta leaving_index) = Some 7" "SiNamespace leaving_index = ''db''"
  "SiSpec leaving_index = SiSpec sample_index"
  by (simp_all add: leaving_index_def)

theorem deleted_index_dropped_witness:
  "index_released (r_log (snd (run_state (ReconcileIndex (index_sample_env []) (index_world leaving_index)) (start_run leaving_index 0))))
   \<and> index_dropped (index_sample_env []) (index_world leaving_index) leaving_index
       (r_log (snd (run_state (ReconcileIndex (index_sample_env []) (index_world leaving_index)) (start_run leaving_index 0))))"
proof -
  let ?W = "index_world leaving_index" and ?E = "index_sample_env []"
  let ?run = "run_state (ReconcileIndex ?E ?W) (start_run leaving_index 0)"
  have rel: "releases_index_after_cleanup ?E" by (simp add: releases_index_after_cleanup_def index_sample_env_def)
  have clean: "ie_runs_cleanup ?E i x" "ie_HandleFinalizerCleanup ?E i x (Some None) =
      (Some (x\<lparr>SiMeta := (SiMeta x)\<lparr>om_Finalizers := []\<rparr>\<rparr>), (no_requeue, None))" for i x
    by (simp_all add: index_sample_env_def)
  have "wp (ReconcileIndex ?E ?W) (\<lambda>_ s. index_released (r_log s)) (start_run leaving_index 0)"
    by (simp add: index_run_defs index_handleDeletion_def index_cleanup_def index_Drop_def wp_simps index_env_facts index_world_facts
        sample_search_answers sample_pod_connect leaving_index_facts kindMongoDBSharded_def applyIndexStatus_def accept_update_def
        clean index_released_def Let_def)
  then have "index_released (r_log (snd ?run))" by (simp add: wp_def split: prod.splits)
  moreover have "\<not> source_lost ?E 0 leaving_index"
    by (simp add: source_lost_def index_env_facts password_unread_def sample_search_answers)
  ultimately show ?thesis
    using deleted_index_dropped [OF index_world_facts(1) rel index_world_facts(3), of leaving_index 0 "fst ?run" "snd ?run"] leaving_index_facts
    by simp
qed

text \<open>The case is real: an API server that does not answer the read of the secret in time is enough.\<close>

definition timeout_env :: index_env where
  "timeout_env = (index_sample_env [])\<lparr>ie_secret := \<lambda>_ _ _. Inl (ErrMsg ''etcdserver: request timed out'')\<rparr>"

lemma unread_password_leaves_index:
  "wp (ReconcileIndex timeout_env (index_world leaving_index))
     (\<lambda>_ s. index_released (r_log s) \<and> (\<forall>c cmd. IssuedAt c cmd \<notin> set (r_log s))) (start_run leaving_index 0)"
proof -
  have env: "ie_search timeout_env i n ns = Inr ready_search" "ie_mongodb timeout_env i n ns = Inr sample_mdb"
    "ie_secret timeout_env i n ns = Inl (ErrMsg ''etcdserver: request timed out'')" "ie_runs_cleanup timeout_env i x"
    "ie_HandleFinalizerCleanup timeout_env i x (Some None) = (Some (x\<lparr>SiMeta := (SiMeta x)\<lparr>om_Finalizers := []\<rparr>\<rparr>), (no_requeue, None))" for i n ns x
    by (simp_all add: timeout_env_def index_env_facts) (simp_all add: index_sample_env_def)
  show ?thesis
    by (simp add: index_run_defs index_handleDeletion_def index_cleanup_def wp_simps env index_env_facts index_world_facts sample_search_answers
        leaving_index_facts kindMongoDBSharded_def accept_update_def index_released_def Let_def)
qed

text \<open>
  Without a source in the search resource the controller reports a failure before it looks at the
  deletion, and never lets the resource go.
\<close>

lemma index_without_source_stuck:
  assumes "w_get W k = Inr idx" and "\<forall>i. \<exists>search. ie_search E i (sis_SearchRef (SiSpec idx)) (SiNamespace idx) = Inr search \<and> SeSource search = None"
    and "run_state (ReconcileIndex E W) (start_run idx k) = (r, s')"
  shows "\<not> index_released (r_log s')"
proof -
  obtain search where "ie_search E (Suc k) (sis_SearchRef (SiSpec idx)) (SiNamespace idx) = Inr search" "SeSource search = None"
    using assms(2) by blast
  then have "wp (ReconcileIndex E W) (\<lambda>_ s'. \<not> index_released (r_log s')) (start_run idx k)"
    by (auto simp: ReconcileIndex_def index_fail_def index_report_def index_applyStatus_def wp_simps assms(1) start_run_def
        index_released_def split: prod.split)
  from wpD [OF this assms(3)] show ?thesis .
qed

section \<open>Edits of a definition\<close>

text \<open>
  C38. The webhook admits an edit of the definition, but no edit reaches the database: while the index
  is listed by the server, a pass over a resource that is not being deleted sends no command at all,
  whatever the definition now says, and every status that it stores reports the generation of the
  edit as observed.
\<close>

theorem definition_edit_not_applied:
  assumes "w_get W k = Inr idx" and "\<not> SiDeleted idx" and "w_UpdateWithRetry W = accept_update"
    and "\<forall>i c. ie_list E i c (sis_Database (SiSpec idx)) (sis_Collection (SiSpec idx)) (sis_IndexName (SiSpec idx)) = Inr (Inr (info # infos))"
    and "run_state (ReconcileIndex E W) (start_run idx k) = (r, s')"
  shows "(\<forall>c cmd. IssuedAt c cmd \<notin> set (r_log s'))
    \<and> (\<forall>x. PersistStatus x \<in> set (r_log s') \<longrightarrow> sist_ObservedGeneration (SiStatus x) = om_Generation (SiMeta idx))"
proof -
  let ?I = "\<lambda>s. (\<forall>c cmd. IssuedAt c cmd \<notin> set (r_log s))
    \<and> (\<forall>x. PersistStatus x \<in> set (r_log s) \<longrightarrow> sist_ObservedGeneration (SiStatus x) = om_Generation (SiMeta idx))"
  let ?P = "\<lambda>s. r_obj s = idx \<and> ?I s"
  have status: "wp (index_applyStatus W p i q e) (\<lambda>_. ?I) s" if "?P s" for p i q e s
    using that by (auto simp: index_applyStatus_def wp_UpdateWithRetry assms(3) accept_update_def applyIndexStatus_def)
  have rep: "wp (index_pending W msg) (\<lambda>_. ?I) s" "wp (index_building W msg) (\<lambda>_. ?I) s" "wp (index_fail W msg) (\<lambda>_. ?I) s" if "?P s" for msg s
    using status [OF that] that
    by (simp_all add: index_pending_def index_building_def index_fail_def index_report_def wp_bind wp_the_obj wp_ret_fun)
  have ens: "wp (ensureIndex E W m pod def) (\<lambda>_. ?I) s" if "?P s" for m pod def s
  proof -
    have t: "?P (s\<lparr>r_tick := i\<rparr>)" for i using that by simp
    show ?thesis using that assms(4) rep(1) [OF t] status [OF t]
      by (auto simp: ensureIndex_def index_List_def wp_bind wp_the_obj wp_ask wp_ret wp_ret_fun Let_def split: sum.split)
  qed
  have fin: "wp (add_index_finalizer W) (\<lambda>_. ?I) s" if "?P s" for s
    using that by (auto simp: add_index_finalizer_def update_object_def wp_simps)
  have src: "wp (index_with_source E W search m pod running) (\<lambda>_. ?I) s" if "?P s" for search m pod running s
    using that assms(2) rep [OF that] ens [OF that] fin [OF that]
    by (auto simp: index_with_source_def wp_bind wp_the_obj split: sum.split)
  have kept: "keeps ?P (resolveSourceManager E search src)" for search src
    unfolding resolveSourceManager_def managerForSource_def managerForShardedSource_def adminPasswordFor_def
    by (intro keeps_intros) (auto simp: keeps_def wp_ask)
  have res: "wp (resolveSourceManager E search src) (\<lambda>res. wp (case res of
        ResolveError e \<Rightarrow> ret (no_requeue, Some e) | NotYet reason \<Rightarrow> index_pending W reason
      | Source m pod running \<Rightarrow> index_with_source E W search m pod running) (\<lambda>_. ?I)) s" if "?P s" for search src s
    by (rule wp_mono [OF keeps_wp [OF kept that]]) (auto simp: wp_ret rep src split: resolved.split)
  have start: "?P ((start_run idx k)\<lparr>r_obj := idx, r_tick := i\<rparr>)" for i by (simp add: start_run_def)
  have "wp (ReconcileIndex E W) (\<lambda>_. ?I) (start_run idx k)"
    using assms(2) rep [OF start] res [OF start] start
    by (auto simp: ReconcileIndex_def wp_bind wp_ask wp_put_obj wp_ret assms(1) split: sum.split option.split)
  from wpD [OF this assms(5)] show ?thesis .
qed

definition listed_info :: SearchIndexInfo where
  "listed_info = \<lparr>sii_ID = ''1'', sii_Name = ''titles'', sii_Status = ''READY'', sii_Queryable = True\<rparr>"

definition edited_index :: MongoDBSearchIndex where
  "edited_index = sample_index\<lparr>SiMeta := (SiMeta sample_index)\<lparr>om_Generation := 3\<rparr>,
     SiSpec := (SiSpec sample_index)\<lparr>sis_DefinitionJSON := ''{ }''\<rparr>\<rparr>"

theorem definition_edit_not_applied_witness:
  "ValidateIndexUpdate (Some sample_index) edited_index = None
   \<and> (\<forall>c cmd. IssuedAt c cmd \<notin> set (r_log (snd (run_state (ReconcileIndex (index_sample_env [listed_info]) (index_world edited_index)) (start_run edited_index 0)))))
   \<and> (\<exists>x. PersistStatus x \<in> set (r_log (snd (run_state (ReconcileIndex (index_sample_env [listed_info]) (index_world edited_index)) (start_run edited_index 0))))
        \<and> sist_Phase (SiStatus x) = ''Ready'' \<and> sist_ObservedGeneration (SiStatus x) = 3)"
proof -
  let ?W = "index_world edited_index" and ?E = "index_sample_env [listed_info]"
  let ?run = "run_state (ReconcileIndex ?E ?W) (start_run edited_index 0)"
  have f: "om_DeletionTimestamp (SiMeta edited_index) = None" "om_Finalizers (SiMeta edited_index) = [FinalizerMongoDBSearchIndex]"
    "SiNamespace edited_index = ''db''" "om_Generation (SiMeta edited_index) = 3"
    by (simp_all add: edited_index_def)
  have "ClassifyMongotStatus ''READY'' True = ''Ready''" by code_simp
  then have "wp (ReconcileIndex ?E ?W) (\<lambda>_ s. \<exists>x. PersistStatus x \<in> set (r_log s) \<and> sist_Phase (SiStatus x) = ''Ready''
      \<and> sist_ObservedGeneration (SiStatus x) = 3) (start_run edited_index 0)"
    by (simp add: index_run_defs wp_simps index_env_facts index_world_facts sample_search_answers sample_pod_connect f
        kindMongoDBSharded_def mongodbPhaseRunning_def searchPhaseReady_def accept_update_def applyIndexStatus_def listed_info_def Let_def)
  then have "\<exists>x. PersistStatus x \<in> set (r_log (snd ?run)) \<and> sist_Phase (SiStatus x) = ''Ready'' \<and> sist_ObservedGeneration (SiStatus x) = 3"
    by (simp add: wp_def split: prod.splits)
  moreover have "ValidateIndexUpdate (Some sample_index) edited_index = None" by code_simp
  moreover note definition_edit_not_applied [of ?W 0 edited_index ?E listed_info "[]" "fst ?run" "snd ?run"]
  ultimately show ?thesis by (simp add: f index_world_facts index_env_facts)
qed
end
