(* ===== verification/Insights_Analysis.thy ===== *)
theory Insights_Analysis
  imports Api_Types "HOL-Library.AList"
begin

text \<open>
  The advisor of \<^verbatim>\<open>internal/insights\<close>: rows of \<^verbatim>\<open>system.profile\<close> and \<^verbatim>\<open>$indexStats\<close> are converted
  (\<^verbatim>\<open>convert.go\<close>), grouped and turned into recommendations (\<^verbatim>\<open>analyzer.go\<close>), and these into planned
  actions (\<^verbatim>\<open>auto_action.go\<close>, \<^verbatim>\<open>autopilot_advisory.go\<close>). The functions are pure.

  A Go map is a list without repeated keys; a nil map reads as an empty one. Where the source sorts
  with \<^verbatim>\<open>sort.Slice\<close>, elements of equal key may come in any order; the model keeps their order, and no
  theorem depends on it.
\<close>

section \<open>Resource types\<close>

record Recommendation =
  rcm_Type :: string
  rcm_Severity :: string
  rcm_DB :: string
  rcm_Collection :: string
  rcm_Detail :: string
  rcm_IndexSuggestion :: string
  rcm_AvgLatencyMs :: int32
  rcm_QuerySamples :: "string list"

record AutoPilotAction =
  apa_Type :: string
  apa_NS :: string
  apa_Severity :: string
  apa_Detail :: string
  apa_DryRun :: bool

record AutoIndexSpec =
  aix_Enabled :: bool
  aix_MinSeverity :: string
  aix_DryRun :: bool

record AutoQueryHintSpec =
  aqh_Enabled :: bool
  aqh_SlowQueryThresholdMs :: int32
  aqh_DryRun :: bool

definition SevWarning :: string where "SevWarning = ''warning''"
definition SevInfo :: string where "SevInfo = ''info''"
definition SevCritical :: string where "SevCritical = ''critical''"
definition RecTypeMissingIndex :: string where "RecTypeMissingIndex = ''MissingIndex''"
definition RecTypeSlowQueryPattern :: string where "RecTypeSlowQueryPattern = ''SlowQueryPattern''"
definition RecTypeUnusedIndex :: string where "RecTypeUnusedIndex = ''UnusedIndex''"
definition RecTypeSchemaHint :: string where "RecTypeSchemaHint = ''SchemaHint''"
definition idIndexName :: string where "idIndexName = ''_id_''"
definition planSummaryCollscan :: string where "planSummaryCollscan = ''COLLSCAN''"

lemmas severities = SevWarning_def SevInfo_def SevCritical_def
lemmas rec_types = RecTypeMissingIndex_def RecTypeSlowQueryPattern_def RecTypeUnusedIndex_def RecTypeSchemaHint_def

section \<open>Decoded documents\<close>

text \<open>
  The dynamic types that the converter distinguishes. A \<^verbatim>\<open>float64\<close> is only ever converted to
  \<^verbatim>\<open>int64\<close>, so its constructor holds the result of that conversion.
\<close>

datatype any_value =
    AnyNil
  | AnyString string
  | AnyInt32 int
  | AnyInt64 int
  | AnyFloat64 int
  | AnyInt int
  | AnyM "(string \<times> any_value) list"
  | AnyMap "(string \<times> any_value) list"
  | AnyD "(string \<times> any_value) list"
  | AnyA "any_value list"
  | AnySlice "any_value list"
  | AnyOther

type_synonym any_map = "any_value gomap"

definition put_all :: "(string \<times> any_value) list \<Rightarrow> any_map" where
  "put_all kvs = foldl (\<lambda>m (k, v). AList.update k v m) [] kvs"

definition any_get :: "any_map \<Rightarrow> string \<Rightarrow> any_value" where
  "any_get m k = (case map_of m k of None \<Rightarrow> AnyNil | Some v \<Rightarrow> v)"

fun NormalizeMap :: "any_value \<Rightarrow> any_map option" where
  "NormalizeMap (AnyM m) = Some (put_all m)"
| "NormalizeMap (AnyMap m) = Some (put_all m)"
| "NormalizeMap (AnyD m) = Some (put_all m)"
| "NormalizeMap _ = None"

fun NormalizeSlice :: "any_value \<Rightarrow> any_value list" where
  "NormalizeSlice (AnyA s) = s"
| "NormalizeSlice (AnySlice s) = s"
| "NormalizeSlice _ = []"

fun ReadInt64Any :: "any_value \<Rightarrow> int64" where
  "ReadInt64Any (AnyInt32 x) = x"
| "ReadInt64Any (AnyInt64 x) = x"
| "ReadInt64Any (AnyFloat64 x) = x"
| "ReadInt64Any (AnyInt x) = x"
| "ReadInt64Any _ = 0"

definition string_or_empty :: "any_value \<Rightarrow> string" where
  "string_or_empty v = (case v of AnyString s \<Rightarrow> s | _ \<Rightarrow> [])"

definition map_or_nil :: "any_map option \<Rightarrow> any_map" where
  "map_or_nil m = (case m of None \<Rightarrow> [] | Some x \<Rightarrow> x)"

section \<open>Conversion\<close>

record ProfileDoc =
  pd_Op :: string
  pd_NS :: string
  pd_Millis :: int32
  pd_PlanSummary :: string
  pd_Filter :: any_map
  pd_Sort :: any_map
  pd_DocsExamined :: int64
  pd_NReturned :: int64
  pd_KeysExamined :: int64

record IndexStat =
  ixs_NS :: string
  ixs_IndexName :: string
  ixs_Accesses :: int64

text \<open>Where the filter of a profiled operation is: at the top, in the command, or in its first pipeline stage.\<close>

definition pipeline_filter :: "any_value \<Rightarrow> any_map" where
  "pipeline_filter pipeline =
     (case NormalizeSlice pipeline of
        [] \<Rightarrow> []
      | first # _ \<Rightarrow>
          (case NormalizeMap first of
             None \<Rightarrow> []
           | Some stage \<Rightarrow>
               (case map_of stage ''$match'' of
                  None \<Rightarrow> []
                | Some mt \<Rightarrow> map_or_nil (NormalizeMap mt))))"

definition profile_filter :: "any_map \<Rightarrow> any_map option \<Rightarrow> any_map" where
  "profile_filter m cmd =
     (if any_get m ''filter'' \<noteq> AnyNil then map_or_nil (NormalizeMap (any_get m ''filter''))
      else case cmd of
        None \<Rightarrow> []
      | Some c \<Rightarrow>
          if any_get c ''filter'' \<noteq> AnyNil then map_or_nil (NormalizeMap (any_get c ''filter''))
          else if any_get c ''q'' \<noteq> AnyNil then map_or_nil (NormalizeMap (any_get c ''q''))
          else if any_get c ''pipeline'' \<noteq> AnyNil then pipeline_filter (any_get c ''pipeline'')
          else [])"

definition profile_sort :: "any_map \<Rightarrow> any_map option \<Rightarrow> any_map" where
  "profile_sort m cmd =
     (if any_get m ''sort'' \<noteq> AnyNil then map_or_nil (NormalizeMap (any_get m ''sort''))
      else case cmd of
        None \<Rightarrow> []
      | Some c \<Rightarrow> if any_get c ''sort'' \<noteq> AnyNil then map_or_nil (NormalizeMap (any_get c ''sort'')) else [])"

definition ConvertProfile :: "any_map \<Rightarrow> ProfileDoc" where
  "ConvertProfile m =
     (let cmd = NormalizeMap (any_get m ''command'');
          nreturned = ReadInt64Any (any_get m ''nreturned'') in
      \<lparr>pd_Op = string_or_empty (any_get m ''op''), pd_NS = string_or_empty (any_get m ''ns''),
       pd_Millis = wrap32 (ReadInt64Any (any_get m ''millis'')),
       pd_PlanSummary = string_or_empty (any_get m ''planSummary''),
       pd_Filter = profile_filter m cmd, pd_Sort = profile_sort m cmd,
       pd_DocsExamined = ReadInt64Any (any_get m ''docsExamined''),
       pd_NReturned = (if nreturned = 0 then ReadInt64Any (any_get m ''nReturned'') else nreturned),
       pd_KeysExamined = ReadInt64Any (any_get m ''keysExamined'')\<rparr>)"

definition ConvertIndexStat :: "string \<Rightarrow> any_map \<Rightarrow> IndexStat" where
  "ConvertIndexStat ns m =
     \<lparr>ixs_NS = ns, ixs_IndexName = string_or_empty (any_get m ''name''),
      ixs_Accesses = (case NormalizeMap (any_get m ''accesses'') of None \<Rightarrow> 0 | Some acc \<Rightarrow> ReadInt64Any (any_get acc ''ops''))\<rparr>"

section \<open>Shapes and texts\<close>

definition filterShape :: "any_map \<Rightarrow> string" where
  "filterShape m = (if length m = 0 then [] else Join (sort (map fst m)) '','')"

definition suggestIndex :: "any_map \<Rightarrow> any_map \<Rightarrow> string" where
  "suggestIndex filter_keys sortKeys =
     (if length filter_keys = 0 \<and> length sortKeys = 0 then []
      else
        let fkeys = sort (map fst filter_keys);
            skeys = sort (filter (\<lambda>k. map_of filter_keys k = None) (map fst sortKeys)) in
        ''{'' @ Join (map (\<lambda>k. k @ '':1'') fkeys @ map (\<lambda>k. k @ '':1'') skeys) '', '' @ ''}'')"

definition summarizeQuery :: "ProfileDoc \<Rightarrow> string" where
  "summarizeQuery d = pd_Op d @ '' ns='' @ pd_NS d @ '' filter='' @ filterShape (pd_Filter d)
     @ '' millis='' @ show_int (pd_Millis d) @ '' examined='' @ show_int (pd_DocsExamined d)
     @ '' returned='' @ show_int (pd_NReturned d)"

fun StrIndex :: "string \<Rightarrow> string \<Rightarrow> nat option" where
  "StrIndex [] p = (if p = [] then Some 0 else None)"
| "StrIndex (c # s) p = (if HasPrefix (c # s) p then Some 0 else map_option Suc (StrIndex s p))"

definition splitNS :: "string \<Rightarrow> string \<times> string" where
  "splitNS ns = (case StrIndex ns ''.'' of None \<Rightarrow> (ns, []) | Some i \<Rightarrow> (take i ns, drop (i + 1) ns))"

definition severityFromLatency :: "int32 \<Rightarrow> string" where
  "severityFromLatency avg = (if avg \<ge> 1000 then SevCritical else if avg \<ge> 500 then SevWarning else SevInfo)"

definition countBoolClauses :: "any_map \<Rightarrow> nat" where
  "countBoolClauses m =
     foldl (\<lambda>mx k. case map_of m k of None \<Rightarrow> mx
       | Some v \<Rightarrow> (let arr = NormalizeSlice v in if length arr > mx then length arr else mx)) 0 [''$or'', ''$nor'']"

section \<open>Ratios of counters\<close>

text \<open>
  \<^verbatim>\<open>float64(n)\<close> for an integer: the nearest number with 53 significant bits, the even one of two.
\<close>

fun excess_bits :: "nat \<Rightarrow> nat" where
  "excess_bits n = (if n < 9007199254740992 then 0 else Suc (excess_bits (n div 2)))"

declare excess_bits.simps [simp del]

definition float64_of_nat :: "nat \<Rightarrow> nat" where
  "float64_of_nat n =
     (let e = excess_bits n; q = n div 2 ^ e; r = n mod 2 ^ e; twice = 2 * r in
      (if twice < 2 ^ e \<or> twice = 2 ^ e \<and> even q then q else q + 1) * 2 ^ e)"

text \<open>
  \<^verbatim>\<open>float64(a) / float64(b) > 100\<close>: the next number above 100 is 100 + 2^-46, and a quotient halfway
  between the two is rounded to 100, whose last bit is even. So the rounded quotient is above 100 just
  when the exact one is above 100 + 2^-47.
\<close>

definition ratio_above_100 :: "int64 \<Rightarrow> int64 \<Rightarrow> bool" where
  "ratio_above_100 a b \<longleftrightarrow> int (float64_of_nat (nat b)) * (100 * 2 ^ 47 + 1) < int (float64_of_nat (nat a)) * 2 ^ 47"

definition looksLikeMissingIndex :: "ProfileDoc \<Rightarrow> bool" where
  "looksLikeMissingIndex d \<longleftrightarrow>
     pd_PlanSummary d = planSummaryCollscan
     \<or> pd_DocsExamined d > 1000
       \<and> ratio_above_100 (pd_DocsExamined d) (if pd_NReturned d < 1 then 1 else pd_NReturned d)"

section \<open>Groups\<close>

text \<open>
  The loop of both detectors: a map from keys to buckets, in which the bucket of a document is
  created when it is missing and then updated.
\<close>

definition group_step :: "('d \<Rightarrow> string) \<Rightarrow> ('d \<Rightarrow> 'b) \<Rightarrow> ('d \<Rightarrow> 'b \<Rightarrow> 'b) \<Rightarrow> 'b gomap \<Rightarrow> 'd \<Rightarrow> 'b gomap" where
  "group_step key fresh bump groups d =
     AList.update (key d) (bump d (case map_of groups (key d) of None \<Rightarrow> fresh d | Some b \<Rightarrow> b)) groups"

definition quot64 :: "int64 \<Rightarrow> int64 \<Rightarrow> int64" where
  "quot64 a b = (if a < 0 then - ((- a) div b) else a div b)"

record MissingBucket =
  mbk_ns :: string
  mbk_filter :: any_map
  mbk_sort :: any_map
  mbk_samples :: "string list"
  mbk_count :: int64
  mbk_totalMillis :: int64
  mbk_collscanSeen :: bool

definition add_sample :: "ProfileDoc \<Rightarrow> string list \<Rightarrow> string list" where
  "add_sample d samples = (if length samples < 3 then samples @ [summarizeQuery d] else samples)"

definition missing_key :: "ProfileDoc \<Rightarrow> string" where
  "missing_key d = pd_NS d @ ''|'' @ filterShape (pd_Filter d) @ ''|'' @ filterShape (pd_Sort d)"

definition missing_fresh :: "ProfileDoc \<Rightarrow> MissingBucket" where
  "missing_fresh d = \<lparr>mbk_ns = pd_NS d, mbk_filter = pd_Filter d, mbk_sort = pd_Sort d, mbk_samples = [],
     mbk_count = 0, mbk_totalMillis = 0, mbk_collscanSeen = False\<rparr>"

text \<open>The largest ratio of a bucket is computed by the source but not read.\<close>

definition missing_bump :: "ProfileDoc \<Rightarrow> MissingBucket \<Rightarrow> MissingBucket" where
  "missing_bump d b = b\<lparr>mbk_count := mbk_count b + 1,
     mbk_totalMillis := wrap64 (mbk_totalMillis b + pd_Millis d),
     mbk_collscanSeen := (pd_PlanSummary d = planSummaryCollscan \<or> mbk_collscanSeen b),
     mbk_samples := add_sample d (mbk_samples b)\<rparr>"

definition missing_recommendation :: "MissingBucket \<Rightarrow> Recommendation" where
  "missing_recommendation b =
     (let avg = (if mbk_count b > 0 then wrap32 (quot64 (mbk_totalMillis b) (mbk_count b)) else 0);
          (db, coll) = splitNS (mbk_ns b);
          reason = (if mbk_collscanSeen b then utf8 [67, 79, 76, 76, 83, 67, 65, 78, 32, 234, 176, 144, 236, 167, 128] else utf8 [68, 111, 99, 115, 69, 120, 97, 109, 105, 110, 101, 100, 47, 78, 82, 101, 116, 117, 114, 110, 101, 100, 32, 235, 185, 132, 236, 156, 168, 32, 234, 179, 188, 235, 139, 164]) in
      \<lparr>rcm_Type = RecTypeMissingIndex, rcm_Severity = severityFromLatency avg, rcm_DB = db, rcm_Collection = coll,
       rcm_Detail = reason @ utf8 [32, 226, 128, 148, 32, 102, 105, 108, 116, 101, 114, 32] @ filterShape (mbk_filter b) @ utf8 [32, 236, 151, 144, 32, 235, 140, 128, 237, 149, 156, 32, 236, 157, 184, 235, 141, 177, 236, 138, 164, 32, 234, 182, 140, 236, 158, 165],
       rcm_IndexSuggestion = suggestIndex (mbk_filter b) (mbk_sort b), rcm_AvgLatencyMs = avg,
       rcm_QuerySamples = mbk_samples b\<rparr>)"

definition missing_groups :: "ProfileDoc list \<Rightarrow> MissingBucket gomap" where
  "missing_groups docs =
     foldl (\<lambda>g d. if looksLikeMissingIndex d then group_step missing_key missing_fresh missing_bump g d else g) [] docs"

definition detectMissingIndexes :: "ProfileDoc list \<Rightarrow> Recommendation list" where
  "detectMissingIndexes docs =
     (let groups = missing_groups docs in
      map (\<lambda>k. missing_recommendation (the (map_of groups k))) (sort (map fst groups)))"

record SlowBucket =
  sbk_ns :: string
  sbk_filter :: any_map
  sbk_samples :: "string list"
  sbk_count :: int64
  sbk_total :: int64

definition slow_key :: "ProfileDoc \<Rightarrow> string" where
  "slow_key d = pd_NS d @ ''|'' @ filterShape (pd_Filter d)"

definition slow_fresh :: "ProfileDoc \<Rightarrow> SlowBucket" where
  "slow_fresh d = \<lparr>sbk_ns = pd_NS d, sbk_filter = pd_Filter d, sbk_samples = [], sbk_count = 0, sbk_total = 0\<rparr>"

definition slow_bump :: "ProfileDoc \<Rightarrow> SlowBucket \<Rightarrow> SlowBucket" where
  "slow_bump d b = b\<lparr>sbk_count := sbk_count b + 1, sbk_total := wrap64 (sbk_total b + pd_Millis d),
     sbk_samples := add_sample d (sbk_samples b)\<rparr>"

definition slow_recommendation :: "int32 \<Rightarrow> SlowBucket \<Rightarrow> Recommendation" where
  "slow_recommendation thresholdMs b =
     (let avg = wrap32 (quot64 (sbk_total b) (sbk_count b)); (db, coll) = splitNS (sbk_ns b) in
      \<lparr>rcm_Type = RecTypeSlowQueryPattern, rcm_Severity = severityFromLatency avg, rcm_DB = db, rcm_Collection = coll,
       rcm_Detail = ''filter '' @ filterShape (sbk_filter b) @ utf8 [32, 226, 128, 148, 32] @ show_int (sbk_count b) @ utf8 [237, 154, 140, 32, 235, 176, 156, 236, 131, 157, 44, 32, 237, 143, 137, 234, 183, 160, 32]
         @ show_int avg @ utf8 [109, 115, 32, 40, 236, 158, 132, 234, 179, 132, 32] @ show_int thresholdMs @ ''ms)'',
       rcm_IndexSuggestion = [], rcm_AvgLatencyMs = avg, rcm_QuerySamples = sbk_samples b\<rparr>)"

definition slow_groups :: "ProfileDoc list \<Rightarrow> SlowBucket gomap" where
  "slow_groups docs = foldl (group_step slow_key slow_fresh slow_bump) [] docs"

definition slow_enough :: "int32 \<Rightarrow> SlowBucket \<Rightarrow> bool" where
  "slow_enough thresholdMs b \<longleftrightarrow> \<not> (sbk_count b < 3) \<and> \<not> (quot64 (sbk_total b) (sbk_count b) < thresholdMs)"

definition detectSlowQueryPatterns :: "ProfileDoc list \<Rightarrow> int32 \<Rightarrow> Recommendation list" where
  "detectSlowQueryPatterns docs thresholdMs =
     (let groups = slow_groups docs in
      map (\<lambda>k. slow_recommendation thresholdMs (the (map_of groups k)))
        (sort (map fst (filter (\<lambda>(k, b). slow_enough thresholdMs b) groups))))"

section \<open>Schema hints and unused indexes\<close>

definition schema_hint :: "ProfileDoc \<Rightarrow> Recommendation" where
  "schema_hint d =
     (let (db, coll) = splitNS (pd_NS d) in
      \<lparr>rcm_Type = RecTypeSchemaHint, rcm_Severity = SevInfo, rcm_DB = db, rcm_Collection = coll,
       rcm_Detail = show_nat (countBoolClauses (pd_Filter d)) @ utf8 [234, 176, 156, 32, 36, 111, 114, 47, 36, 110, 111, 114, 32, 236, 160, 136, 32, 234, 176, 144, 236, 167, 128, 32, 226, 128, 148, 32, 235, 179, 181, 237, 149, 169, 32, 236, 157, 184, 235, 141, 177, 236, 138, 164, 32, 235, 152, 144, 235, 138, 148, 32, 115, 99, 104, 101, 109, 97, 32, 236, 160, 149, 234, 183, 156, 237, 153, 148, 32, 234, 178, 128, 237, 134, 160],
       rcm_IndexSuggestion = [], rcm_AvgLatencyMs = 0, rcm_QuerySamples = []\<rparr>)"

fun schema_hints :: "string list \<Rightarrow> ProfileDoc list \<Rightarrow> Recommendation list" where
  "schema_hints seen [] = []"
| "schema_hints seen (d # ds) =
     (if countBoolClauses (pd_Filter d) < 5 then schema_hints seen ds
      else if pd_NS d \<in> set seen then schema_hints seen ds
      else schema_hint d # schema_hints (pd_NS d # seen) ds)"

definition detectSchemaHints :: "ProfileDoc list \<Rightarrow> Recommendation list" where
  "detectSchemaHints docs = sort_key (\<lambda>r. rcm_DB r @ [CHR 0x00] @ rcm_Collection r) (schema_hints [] docs)"

definition Analyze :: "ProfileDoc list \<Rightarrow> int32 \<Rightarrow> Recommendation list" where
  "Analyze docs slowThresholdMs =
     (if length docs = 0 then []
      else detectMissingIndexes docs @ detectSlowQueryPatterns docs slowThresholdMs @ detectSchemaHints docs)"

definition unused_index :: "IndexStat \<Rightarrow> Recommendation" where
  "unused_index s =
     \<lparr>rcm_Type = RecTypeUnusedIndex, rcm_Severity = SevWarning, rcm_DB = [], rcm_Collection = [],
      rcm_Detail = ''Index '' @ Quote (ixs_IndexName s) @ '' on '' @ ixs_NS s @ utf8 [32, 104, 97, 115, 32, 48, 32, 97, 99, 99, 101, 115, 115, 101, 115, 32, 226, 128, 148, 32, 99, 111, 110, 115, 105, 100, 101, 114, 32, 100, 114, 111, 112, 112, 105, 110, 103],
      rcm_IndexSuggestion = [], rcm_AvgLatencyMs = 0, rcm_QuerySamples = []\<rparr>"

definition AnalyzeIndexUsage :: "IndexStat list \<Rightarrow> Recommendation list" where
  "AnalyzeIndexUsage stats =
     sort_key rcm_Detail (map unused_index (filter (\<lambda>s. ixs_IndexName s \<noteq> idIndexName \<and> ixs_Accesses s = 0) stats))"

section \<open>Planned actions\<close>

record IndexAction =
  ixa_NS :: string
  ixa_Keys :: "string list"
  ixa_Severity :: string
  ixa_Reason :: string
  ixa_DryRun :: bool

record QueryHintAction =
  qha_NS :: string
  qha_Pattern :: string
  qha_Severity :: string
  qha_Reason :: string
  qha_DryRun :: bool

definition severity_order :: "string \<Rightarrow> nat option" where
  "severity_order s = (if s = SevInfo then Some 0 else if s = SevWarning then Some 1 else if s = SevCritical then Some 2 else None)"

definition meetsSeverity :: "string \<Rightarrow> string \<Rightarrow> bool" where
  "meetsSeverity got minimum =
     (case severity_order got of
        None \<Rightarrow> False
      | Some gv \<Rightarrow> (case severity_order minimum of None \<Rightarrow> False | Some mv \<Rightarrow> gv \<ge> mv))"

definition joinNS :: "string \<Rightarrow> string \<Rightarrow> string" where
  "joinNS db coll = (if db = [] \<or> coll = [] then [] else db @ ''.'' @ coll)"

definition IndexAny :: "string \<Rightarrow> string \<Rightarrow> nat option" where
  "IndexAny s chars = (let n = length (takeWhile (\<lambda>c. c \<notin> set chars) s) in if n < length s then Some n else None)"

definition TrimChars :: "string \<Rightarrow> string \<Rightarrow> string" where
  "TrimChars s cutset = rev (dropWhile (\<lambda>c. c \<in> set cutset) (rev (dropWhile (\<lambda>c. c \<in> set cutset) s)))"

definition extractKeys :: "string \<Rightarrow> string list" where
  "extractKeys detail =
     (case StrIndex detail ''keys:'' of
        None \<Rightarrow> []
      | Some start \<Rightarrow>
          let rest = drop (start + 5) detail;
              rest = (case IndexAny rest [CHR ''.'', CHR 0x0A] of
                        Some e \<Rightarrow> (if e > 0 then take e rest else rest) | None \<Rightarrow> rest);
              rest = TrimSpace (TrimChars rest ''[]{}'') in
          if rest = [] then []
          else filter (\<lambda>p. p \<noteq> []) (map (\<lambda>p. TrimSpace (TrimChars p [CHR 0x22, CHR 0x27])) (split_on CHR '','' rest)))"

definition index_action :: "AutoIndexSpec \<Rightarrow> Recommendation \<Rightarrow> IndexAction" where
  "index_action spec r = \<lparr>ixa_NS = joinNS (rcm_DB r) (rcm_Collection r), ixa_Keys = extractKeys (rcm_Detail r),
     ixa_Severity = rcm_Severity r, ixa_Reason = rcm_Detail r, ixa_DryRun = aix_DryRun spec\<rparr>"

definition PlanMissingIndexActions :: "Recommendation list \<Rightarrow> AutoIndexSpec option \<Rightarrow> IndexAction list" where
  "PlanMissingIndexActions recs spec =
     (case spec of
        None \<Rightarrow> []
      | Some sp \<Rightarrow>
          if \<not>  aix_Enabled sp then []
          else
            let minSev = (if aix_MinSeverity sp = [] then SevWarning else aix_MinSeverity sp) in
            sort_key ixa_NS (map (index_action sp)
              (filter (\<lambda>r. rcm_Type r = RecTypeMissingIndex \<and> meetsSeverity (rcm_Severity r) minSev) recs)))"

definition hint_action :: "AutoQueryHintSpec \<Rightarrow> Recommendation \<Rightarrow> QueryHintAction" where
  "hint_action spec r = \<lparr>qha_NS = joinNS (rcm_DB r) (rcm_Collection r), qha_Pattern = rcm_Detail r,
     qha_Severity = rcm_Severity r, qha_Reason = rcm_Detail r, qha_DryRun = aqh_DryRun spec\<rparr>"

definition PlanSlowQueryHints :: "Recommendation list \<Rightarrow> AutoQueryHintSpec option \<Rightarrow> QueryHintAction list" where
  "PlanSlowQueryHints recs spec =
     (case spec of
        None \<Rightarrow> []
      | Some sp \<Rightarrow>
          if \<not>  aqh_Enabled sp then []
          else sort_key qha_NS (map (hint_action sp)
            (filter (\<lambda>r. rcm_Type r = RecTypeSlowQueryPattern \<and> \<not> (rcm_AvgLatencyMs r < aqh_SlowQueryThresholdMs sp)) recs)))"

definition buildAutoPilotActions ::
    "Recommendation list \<Rightarrow> AutoIndexSpec option \<Rightarrow> AutoQueryHintSpec option \<Rightarrow> AutoPilotAction list" where
  "buildAutoPilotActions recs autoIdx autoHint =
     map (\<lambda>a. \<lparr>apa_Type = ''MissingIndex'', apa_NS = ixa_NS a, apa_Severity = ixa_Severity a, apa_Detail = ixa_Reason a,
       apa_DryRun = ixa_DryRun a\<rparr>) (PlanMissingIndexActions recs autoIdx)
     @ map (\<lambda>a. \<lparr>apa_Type = ''SlowQueryHint'', apa_NS = qha_NS a, apa_Severity = qha_Severity a, apa_Detail = qha_Reason a,
       apa_DryRun = qha_DryRun a\<rparr>) (PlanSlowQueryHints recs autoHint)"

end
