(* ===== verification/Insights.thy ===== *)
theory Insights
  imports Fleet Search_Index Insights_Analysis
begin

text \<open>
  The insights controller (\<^verbatim>\<open>mongodbinsights_controller.go\<close>) and the fetcher it uses
  (\<^verbatim>\<open>internal/insights/fetcher.go\<close>): a pass in the phase \<^verbatim>\<open>Analyzing\<close> connects to the cluster, sets the
  profiling level of its databases, reads the profile and the index statistics, and stores the
  advice. The pointers that the fetcher checks for nil are always set by the controller; these checks,
  metrics and log lines are left out.
\<close>

section \<open>Resource types\<close>

record MongoDBInsightsSpec =
  ins_ClusterRef :: ClusterReference
  ins_TargetKind :: string
  ins_ProfilingLevel :: int32
  ins_SlowQueryThresholdMs :: int32
  ins_SampleSize :: int32
  ins_AnalysisInterval :: string
  ins_Enabled :: bool
  ins_AnalysisCredentialsSecretRef :: "string option"
  ins_AutoIndex :: "AutoIndexSpec option"
  ins_AutoQueryHint :: "AutoQueryHintSpec option"

record MongoDBInsightsStatus =
  inst_Phase :: string
  inst_LastAnalysisTime :: "gotime option"
  inst_Recommendations :: "Recommendation list"
  inst_SlowQueriesSampled :: int32
  inst_AutoPilotActions :: "AutoPilotAction list"
  inst_Conditions :: "Condition list"

record MongoDBInsights =
  InMeta :: ObjectMeta
  InSpec :: MongoDBInsightsSpec
  InStatus :: MongoDBInsightsStatus

definition insightsPhasePending :: string where "insightsPhasePending = ''Pending''"
definition insightsPhaseAnalyzing :: string where "insightsPhaseAnalyzing = ''Analyzing''"
definition insightsPhaseReady :: string where "insightsPhaseReady = ''Ready''"
definition insightsPhaseFailed :: string where "insightsPhaseFailed = ''Failed''"
definition insightsFailedRequeue :: duration where "insightsFailedRequeue = 5 * minute"

lemmas insights_phases = insightsPhasePending_def insightsPhaseAnalyzing_def insightsPhaseReady_def insightsPhaseFailed_def

definition skipDBAdmin :: string where "skipDBAdmin = ''admin''"
definition skipDBLocal :: string where "skipDBLocal = ''local''"
definition skipDBConfig :: string where "skipDBConfig = ''config''"
definition defaultAuthDB :: string where "defaultAuthDB = ''admin''"
definition clusterKindMongoDB :: string where "clusterKindMongoDB = ''MongoDB''"
definition clusterKindSharded :: string where "clusterKindSharded = ''MongoDBSharded''"
definition defaultConnectTimeout :: duration where "defaultConnectTimeout = 10 * second"

lemmas insights_kinds = clusterKindMongoDB_def clusterKindSharded_def
lemmas skipped_dbs = skipDBAdmin_def skipDBLocal_def skipDBConfig_def

definition IsShardedKind :: "string \<Rightarrow> bool" where "IsShardedKind kind \<longleftrightarrow> kind = clusterKindSharded"

definition skip_db :: "string \<Rightarrow> bool" where
  "skip_db n \<longleftrightarrow> n = skipDBAdmin \<or> n = skipDBLocal \<or> n = skipDBConfig"

section \<open>The surroundings\<close>

text \<open>
  What the fetcher reads besides secrets: the cluster, and from the driver the names of databases and
  collections and two cursors. A cursor is the rows it yields, each decoded or not, and the error it
  ends with.
\<close>

type_synonym cursor = "any_map option list \<times> go_error option"

record insights_env =
  ne_mongodb :: "nat \<Rightarrow> string \<Rightarrow> string \<Rightarrow> go_error + MongoDB"
  ne_sharded :: "nat \<Rightarrow> string \<Rightarrow> string \<Rightarrow> go_error + MongoDBSharded"
  ne_ListDatabaseNames :: "nat \<Rightarrow> conn \<Rightarrow> go_error + string list"
  ne_ListCollectionNames :: "nat \<Rightarrow> conn \<Rightarrow> string \<Rightarrow> go_error + string list"
  ne_profile :: "nat \<Rightarrow> conn \<Rightarrow> string \<Rightarrow> int64 \<Rightarrow> go_error + cursor"
  ne_indexStats :: "nat \<Rightarrow> conn \<Rightarrow> string \<Rightarrow> string \<Rightarrow> go_error + cursor"

section \<open>Connections\<close>

record connectTarget =
  tgt_Host :: string
  tgt_ReplicaSet :: string
  tgt_AdminSecretName :: string
  tgt_Namespace :: string

record analysisCredentials =
  acr_Username :: string
  acr_Password :: string
  acr_AuthDB :: string

definition resolveConnectTarget :: "insights_env \<Rightarrow> (MongoDBInsights, go_error + connectTarget) ctl" where
  "resolveConnectTarget E = do {
     x \<leftarrow> the_obj;
     let ns = om_Namespace (InMeta x); name = cr_Name (ins_ClusterRef (InSpec x)); kind = cr_Kind (ins_ClusterRef (InSpec x)) in
     if kind = clusterKindMongoDB then do {
       got \<leftarrow> ask (\<lambda>k. ne_mongodb E k name ns);
       ret (case got of
         Inl e \<Rightarrow> Inl (if IsNotFound e then ErrMsg (''ClusterRef MongoDB/'' @ name @ '' not found'') else Wrapped ''get MongoDB'' e)
       | Inr mdb \<Rightarrow> Inr \<lparr>tgt_Host = Name mdb @ ''-headless.'' @ Namespace mdb @ ''.svc.cluster.local:27017'',
           tgt_ReplicaSet = Name mdb, tgt_AdminSecretName = auth_AdminCredentialsSecretRef (mdb_Auth (Spec mdb)),
           tgt_Namespace = Namespace mdb\<rparr>)
     }
     else if kind = clusterKindSharded then do {
       got \<leftarrow> ask (\<lambda>k. ne_sharded E k name ns);
       ret (case got of
         Inl e \<Rightarrow> Inl (if IsNotFound e then ErrMsg (''ClusterRef MongoDBSharded/'' @ name @ '' not found'') else Wrapped ''get MongoDBSharded'' e)
       | Inr mdbsh \<Rightarrow> Inr \<lparr>tgt_Host = ShName mdbsh @ ''-mongos.'' @ ShNamespace mdbsh @ ''.svc.cluster.local:27017'',
           tgt_ReplicaSet = [], tgt_AdminSecretName = auth_AdminCredentialsSecretRef (shd_Auth (ShSpec mdbsh)),
           tgt_Namespace = ShNamespace mdbsh\<rparr>)
     }
     else ret (Inl (ErrMsg (''unreachable: kind validation should have caught '' @ Quote kind)))
   }"

definition non_empty :: "string_map \<Rightarrow> string \<Rightarrow> string option" where
  "non_empty m k = (case map_of m k of None \<Rightarrow> None | Some v \<Rightarrow> if length v > 0 then Some v else None)"

definition credentials_of :: "bool \<Rightarrow> string \<Rightarrow> Secret \<Rightarrow> go_error + analysisCredentials" where
  "credentials_of custom name sec =
     (case map_of (sec_Data sec) ''password'' of
        None \<Rightarrow> Inl (ErrMsg (''secret '' @ name @ '' missing '' @ [CHR 0x27] @ ''password'' @ [CHR 0x27] @ '' key''))
      | Some pw \<Rightarrow>
          let username = (case non_empty (sec_Data sec) ''username'' of Some u \<Rightarrow> u | None \<Rightarrow> []);
              authDB = (case non_empty (sec_Data sec) ''authDB'' of Some a \<Rightarrow> a
                | None \<Rightarrow> (case non_empty (sec_Data sec) ''authSource'' of Some a \<Rightarrow> a | None \<Rightarrow> []));
              db = (if authDB = [] then defaultAuthDB else authDB) in
          if \<not>  custom then Inr \<lparr>acr_Username = (if username = [] then defaultAuthDB else username), acr_Password = pw, acr_AuthDB = db\<rparr>
          else if username = [] then
            Inl (ErrMsg (''secret '' @ name @ '' missing '' @ [CHR 0x27] @ ''username'' @ [CHR 0x27] @ '' key (required for AnalysisCredentialsSecretRef)''))
          else Inr \<lparr>acr_Username = username, acr_Password = pw, acr_AuthDB = db\<rparr>)"

definition loadCredentialsFromSecret ::
    "MongoDBInsights world \<Rightarrow> string \<Rightarrow> string \<Rightarrow> (MongoDBInsights, go_error + analysisCredentials) ctl" where
  "loadCredentialsFromSecret W fallbackSecretName ns = do {
     x \<leftarrow> the_obj;
     let custom = (case ins_AnalysisCredentialsSecretRef (InSpec x) of Some n \<Rightarrow> n \<noteq> [] | None \<Rightarrow> False);
         name = (case ins_AnalysisCredentialsSecretRef (InSpec x) of Some n \<Rightarrow> (if n \<noteq> [] then n else fallbackSecretName) | None \<Rightarrow> fallbackSecretName) in
     if name = [] then ret (Inl (ErrMsg ''no credentials secret resolvable for analysis''))
     else do {
       got \<leftarrow> ask (\<lambda>k. w_secret W k name ns);
       ret (case got of
         Inl e \<Rightarrow> Inl (Wrapped (''get secret '' @ name) e)
       | Inr sec \<Rightarrow> credentials_of custom name sec)
     }
   }"

definition connectTo :: "MongoDBInsights world \<Rightarrow> connectTarget \<Rightarrow> (MongoDBInsights, go_error + conn) ctl" where
  "connectTo W target = do {
     creds \<leftarrow> loadCredentialsFromSecret W (tgt_AdminSecretName target) (tgt_Namespace target);
     case creds of
       Inl e \<Rightarrow> ret (Inl e)
     | Inr cr \<Rightarrow> do {
         cli \<leftarrow> ask (\<lambda>k. NewClient (w_drv W k) \<lparr>co_Hosts = [tgt_Host target], co_Username = acr_Username cr,
           co_Password = acr_Password cr, co_AuthDB = acr_AuthDB cr, co_ReplicaSet = tgt_ReplicaSet target,
           co_Direct = False, co_Timeout = defaultConnectTimeout\<rparr>);
         ret (case cli of Inl e \<Rightarrow> Inl (Wrapped (''connect '' @ tgt_Host target) e) | Inr c \<Rightarrow> Inr c)
       }
   }"

definition insights_connect :: "insights_env \<Rightarrow> MongoDBInsights world \<Rightarrow> (MongoDBInsights, go_error + conn) ctl" where
  "insights_connect E W = do {
     x \<leftarrow> the_obj;
     let kind = cr_Kind (ins_ClusterRef (InSpec x)) in
     if kind \<noteq> clusterKindMongoDB \<and> kind \<noteq> clusterKindSharded
     then ret (Inl (ErrMsg (''unsupported ClusterRef.Kind '' @ Quote kind @ '' (allowed MongoDB|MongoDBSharded)'')))
     else do {
       target \<leftarrow> resolveConnectTarget E;
       case target of Inl e \<Rightarrow> ret (Inl e) | Inr t \<Rightarrow> connectTo W t
     }
   }"

definition shardConnectTargets :: "string \<Rightarrow> string \<Rightarrow> string \<Rightarrow> nat \<Rightarrow> connectTarget list" where
  "shardConnectTargets name ns adminSecret n =
     map (\<lambda>i. \<lparr>tgt_Host = name @ ''-shard-'' @ show_nat i @ ''-headless.'' @ ns @ ''.svc.cluster.local:27017'',
       tgt_ReplicaSet = name @ ''-shard-'' @ show_nat i, tgt_AdminSecretName = adminSecret, tgt_Namespace = ns\<rparr>) [0..<n]"

definition resolveShardTargets :: "insights_env \<Rightarrow> (MongoDBInsights, go_error + connectTarget list) ctl" where
  "resolveShardTargets E = do {
     x \<leftarrow> the_obj;
     let ns = om_Namespace (InMeta x); name = cr_Name (ins_ClusterRef (InSpec x)) in do {
       got \<leftarrow> ask (\<lambda>k. ne_sharded E k name ns);
       ret (case got of
         Inl e \<Rightarrow> Inl (if IsNotFound e then ErrMsg (''ClusterRef MongoDBSharded/'' @ name @ '' not found'') else Wrapped ''get MongoDBSharded'' e)
       | Inr mdbsh \<Rightarrow>
           let n = sh_Count (shd_Shards (ShSpec mdbsh)) in
           if n \<le> 0 then Inl (ErrMsg (''MongoDBSharded/'' @ name @ '' shards.count='' @ show_int n @ utf8 [32, 40, 62, 61, 49, 32, 237, 149, 132, 236, 154, 148, 41]))
           else Inr (shardConnectTargets (ShName mdbsh) (ShNamespace mdbsh) (auth_AdminCredentialsSecretRef (shd_Auth (ShSpec mdbsh))) (nat n)))
     }
   }"

section \<open>Reading the profile\<close>

text \<open>\<^verbatim>\<open>errors.As\<close> finds the error of the server through wrapping.\<close>

fun command_error_code :: "go_error \<Rightarrow> int option" where
  "command_error_code (ErrServer c _) = Some c"
| "command_error_code (Wrapped _ e) = command_error_code e"
| "command_error_code _ = None"

definition isProfileAbsent :: "go_error \<Rightarrow> bool" where
  "isProfileAbsent err =
     (case command_error_code err of
        Some code \<Rightarrow> code = 26
      | None \<Rightarrow> (let lower = ToLower (Error err) in StrContains lower ''ns not found'' \<or> StrContains lower ''namespacenotfound''))"

text \<open>The result of the command that sets the level of one database is not read.\<close>

fun profile_databases :: "MongoDBInsights world \<Rightarrow> conn \<Rightarrow> int \<Rightarrow> int \<Rightarrow> string list \<Rightarrow> (MongoDBInsights, unit) ctl" where
  "profile_databases W c level slowMs [] = ret ()"
| "profile_databases W c level slowMs (n # ns) =
     (if skip_db n then profile_databases W c level slowMs ns
      else do {
        _ \<leftarrow> issue_at c (\<lambda>k. let cmd = ProfileCmd n level slowMs in
          ([cmd], case drv_run (w_drv W k) c cmd of None \<Rightarrow> Inr () | Some e \<Rightarrow> Inl e));
        profile_databases W c level slowMs ns
      })"

definition applyProfilingLevel :: "insights_env \<Rightarrow> MongoDBInsights world \<Rightarrow> conn \<Rightarrow> (MongoDBInsights, go_error option) ctl" where
  "applyProfilingLevel E W c = do {
     x \<leftarrow> the_obj;
     let level = ins_ProfilingLevel (InSpec x) in
     if level < 0 \<or> level > 2 then ret (Some (ErrMsg (''invalid ProfilingLevel '' @ show_int level @ '' (allowed 0|1|2)'')))
     else
       let slowMs = (if ins_SlowQueryThresholdMs (InSpec x) \<le> 0 then 100 else ins_SlowQueryThresholdMs (InSpec x)) in do {
         got \<leftarrow> ask (\<lambda>k. ne_ListDatabaseNames E k c);
         case got of
           Inl e \<Rightarrow> ret (Some (Wrapped ''listDatabases'' e))
         | Inr dbNames \<Rightarrow> do { profile_databases W c level slowMs dbNames; ret None }
       }
   }"

fun read_profile :: "nat \<Rightarrow> any_map option list \<Rightarrow> go_error option \<Rightarrow> ProfileDoc list \<Rightarrow> ProfileDoc list \<times> go_error option" where
  "read_profile cap [] err docs = (docs, err)"
| "read_profile cap (r # rs) err docs =
     (if length docs \<ge> cap then (docs, None)
      else read_profile cap rs err (case r of None \<Rightarrow> docs | Some m \<Rightarrow> docs @ [ConvertProfile m]))"

fun collect_databases ::
    "insights_env \<Rightarrow> conn \<Rightarrow> int64 \<Rightarrow> nat \<Rightarrow> string list \<Rightarrow> ProfileDoc list \<Rightarrow> (MongoDBInsights, go_error + ProfileDoc list) ctl" where
  "collect_databases E c limit cap [] docs = ret (Inr docs)"
| "collect_databases E c limit cap (db # dbs) docs = do {
     got \<leftarrow> ask (\<lambda>k. ne_profile E k c db limit);
     case got of
       Inl e \<Rightarrow>
         if isProfileAbsent e then collect_databases E c limit cap dbs docs
         else ret (Inl (Wrapped (''find system.profile on '' @ db) e))
     | Inr (rows, err) \<Rightarrow>
         (case read_profile cap rows err docs of
            (docs', Some e) \<Rightarrow> ret (Inl (Wrapped (''cursor on '' @ db @ ''.system.profile'') e))
          | (docs', None) \<Rightarrow> if length docs' \<ge> cap then ret (Inr docs') else collect_databases E c limit cap dbs docs')
   }"

definition collectProfileDocs :: "insights_env \<Rightarrow> conn \<Rightarrow> int32 \<Rightarrow> (MongoDBInsights, go_error + ProfileDoc list) ctl" where
  "collectProfileDocs E c sampleSize = do {
     got \<leftarrow> ask (\<lambda>k. ne_ListDatabaseNames E k c);
     case got of
       Inl e \<Rightarrow> ret (Inl (Wrapped ''listDatabases'' e))
     | Inr dbNames \<Rightarrow>
         let targetDBs = filter (\<lambda>n. \<not>  skip_db n) dbNames;
             share = quot64 sampleSize (int (length targetDBs));
             perDBLimit = (if length targetDBs > 0 then (if share < 10 then 10 else share) else sampleSize) in
         collect_databases E c perDBLimit (nat sampleSize) targetDBs []
   }"

definition insights_Fetch :: "insights_env \<Rightarrow> MongoDBInsights world \<Rightarrow> int32 \<Rightarrow> (MongoDBInsights, go_error + ProfileDoc list) ctl" where
  "insights_Fetch E W requested =
     (let sampleSize = (if requested \<le> 0 then 500 else requested) in do {
        cli \<leftarrow> insights_connect E W;
        case cli of
          Inl e \<Rightarrow> ret (Inl e)
        | Inr c \<Rightarrow> do {
            x \<leftarrow> the_obj;
            err \<leftarrow> (if cr_Kind (ins_ClusterRef (InSpec x)) = clusterKindMongoDB then applyProfilingLevel E W c else ret None);
            case err of
              Some e \<Rightarrow> ret (Inl (Wrapped ''apply profiling level'' e))
            | None \<Rightarrow> collectProfileDocs E c sampleSize
          }
      })"

record shard_run =
  sr_docs :: "ProfileDoc list"
  sr_lastErr :: "go_error option"
  sr_okCount :: nat
  sr_collectedOK :: nat

definition shard_failed :: "go_error \<Rightarrow> shard_run \<Rightarrow> shard_run" where
  "shard_failed e st = st\<lparr>sr_lastErr := Some e\<rparr>"

definition shard_collected :: "go_error + ProfileDoc list \<Rightarrow> shard_run \<Rightarrow> shard_run" where
  "shard_collected docs st =
     (case docs of
        Inl e \<Rightarrow> shard_failed e st
      | Inr ds \<Rightarrow> st\<lparr>sr_docs := sr_docs st @ ds, sr_collectedOK := sr_collectedOK st + 1\<rparr>)"

definition fetch_shard :: "insights_env \<Rightarrow> MongoDBInsights world \<Rightarrow> int32 \<Rightarrow> connectTarget \<Rightarrow> shard_run \<Rightarrow> (MongoDBInsights, shard_run) ctl" where
  "fetch_shard E W perShard target st = do {
     cli \<leftarrow> connectTo W target;
     case cli of
       Inl e \<Rightarrow> ret (shard_failed e st)
     | Inr c \<Rightarrow>
         let st' = st\<lparr>sr_okCount := sr_okCount st + 1\<rparr> in do {
         perr \<leftarrow> applyProfilingLevel E W c;
         case perr of
           Some e \<Rightarrow> ret (shard_failed e st')
         | None \<Rightarrow> do {
             docs \<leftarrow> collectProfileDocs E c perShard;
             ret (shard_collected docs st')
           }
       }
   }"

fun fetch_shards :: "insights_env \<Rightarrow> MongoDBInsights world \<Rightarrow> int32 \<Rightarrow> connectTarget list \<Rightarrow> shard_run \<Rightarrow> (MongoDBInsights, shard_run) ctl" where
  "fetch_shards E W perShard [] st = ret st"
| "fetch_shards E W perShard (target # rest) st = do {
     st' \<leftarrow> fetch_shard E W perShard target st;
     fetch_shards E W perShard rest st'
   }"

definition per_shard :: "int32 \<Rightarrow> nat \<Rightarrow> int32" where
  "per_shard sampleSize shards = (let share = quot64 sampleSize (int shards) in if share < 10 then 10 else share)"

text \<open>The documents are returned together with the error when only some shards failed.\<close>

definition sharded_result :: "connectTarget list \<Rightarrow> shard_run \<Rightarrow> ProfileDoc list \<times> go_error option" where
  "sharded_result targets st =
     (case sr_lastErr st of
        None \<Rightarrow> (sr_docs st, None)
      | Some lastErr \<Rightarrow>
          if sr_collectedOK st = 0 then
            ([], Some (Wrapped (''all '' @ show_nat (length targets) @ '' shards failed (connected='' @ show_nat (sr_okCount st) @ '')'') lastErr))
          else if sr_collectedOK st < length targets then
            (sr_docs st, Some (Wrapped (''partial shard failure ('' @ show_nat (sr_collectedOK st) @ ''/''
               @ show_nat (length targets) @ '' shards collected)'') lastErr))
          else (sr_docs st, None))"

definition FetchShardedProfiles ::
    "insights_env \<Rightarrow> MongoDBInsights world \<Rightarrow> int32 \<Rightarrow> (MongoDBInsights, ProfileDoc list \<times> go_error option) ctl" where
  "FetchShardedProfiles E W requested = do {
     x \<leftarrow> the_obj;
     let kind = cr_Kind (ins_ClusterRef (InSpec x)); sampleSize = (if requested \<le> 0 then 500 else requested) in
     if kind \<noteq> clusterKindSharded
     then ret ([], Some (ErrMsg (utf8 [70, 101, 116, 99, 104, 83, 104, 97, 114, 100, 101, 100, 80, 114, 111, 102, 105, 108, 101, 115, 32, 235, 138, 148, 32, 77, 111, 110, 103, 111, 68, 66, 83, 104, 97, 114, 100, 101, 100, 32, 107, 105, 110, 100, 32, 236, 160, 132, 236, 154, 169, 32, 40, 103, 111, 116, 32] @ Quote kind @ '')'')))
     else do {
       resolved \<leftarrow> resolveShardTargets E;
       case resolved of
         Inl e \<Rightarrow> ret ([], Some e)
       | Inr targets \<Rightarrow> do {
           st \<leftarrow> fetch_shards E W (per_shard sampleSize (length targets)) targets
             \<lparr>sr_docs = [], sr_lastErr = None, sr_okCount = 0, sr_collectedOK = 0\<rparr>;
           ret (sharded_result targets st)
         }
     }
   }"

section \<open>Index statistics\<close>

fun stats_of_collections ::
    "insights_env \<Rightarrow> conn \<Rightarrow> string \<Rightarrow> string list \<Rightarrow> IndexStat list \<Rightarrow> (MongoDBInsights, go_error + IndexStat list) ctl" where
  "stats_of_collections E c db [] stats = ret (Inr stats)"
| "stats_of_collections E c db (coll # colls) stats =
     (if HasPrefix coll ''system.'' then stats_of_collections E c db colls stats
      else do {
        got \<leftarrow> ask (\<lambda>k. ne_indexStats E k c db coll);
        case got of
          Inl e \<Rightarrow>
            if isProfileAbsent e then stats_of_collections E c db colls stats
            else ret (Inl (Wrapped (''$indexStats on '' @ db @ ''.'' @ coll) e))
        | Inr (rows, err) \<Rightarrow>
            (case err of
               Some e \<Rightarrow> ret (Inl (Wrapped (''cursor $indexStats on '' @ db @ ''.'' @ coll) e))
             | None \<Rightarrow> stats_of_collections E c db colls
                 (stats @ map (\<lambda>m. ConvertIndexStat (db @ ''.'' @ coll) m) (List.map_filter id rows)))
      })"

fun stats_of_databases ::
    "insights_env \<Rightarrow> conn \<Rightarrow> string list \<Rightarrow> IndexStat list \<Rightarrow> (MongoDBInsights, go_error + IndexStat list) ctl" where
  "stats_of_databases E c [] stats = ret (Inr stats)"
| "stats_of_databases E c (db # dbs) stats =
     (if skip_db db then stats_of_databases E c dbs stats
      else do {
        got \<leftarrow> ask (\<lambda>k. ne_ListCollectionNames E k c db);
        case got of
          Inl e \<Rightarrow> ret (Inl (Wrapped (''listCollections on '' @ db) e))
        | Inr collNames \<Rightarrow> do {
            r \<leftarrow> stats_of_collections E c db collNames stats;
            case r of Inl e \<Rightarrow> ret (Inl e) | Inr stats' \<Rightarrow> stats_of_databases E c dbs stats'
          }
      })"

definition collectIndexStats :: "insights_env \<Rightarrow> conn \<Rightarrow> (MongoDBInsights, go_error + IndexStat list) ctl" where
  "collectIndexStats E c = do {
     got \<leftarrow> ask (\<lambda>k. ne_ListDatabaseNames E k c);
     case got of
       Inl e \<Rightarrow> ret (Inl (Wrapped ''listDatabases'' e))
     | Inr dbNames \<Rightarrow> stats_of_databases E c dbNames []
   }"

definition FetchIndexStats :: "insights_env \<Rightarrow> MongoDBInsights world \<Rightarrow> (MongoDBInsights, go_error + IndexStat list) ctl" where
  "FetchIndexStats E W = do {
     cli \<leftarrow> insights_connect E W;
     case cli of Inl e \<Rightarrow> ret (Inl e) | Inr c \<Rightarrow> collectIndexStats E c
   }"

section \<open>The pass\<close>

definition runAnalysis :: "insights_env \<Rightarrow> MongoDBInsights world \<Rightarrow> (MongoDBInsights, go_error + (Recommendation list \<times> int32)) ctl" where
  "runAnalysis E W = do {
     x \<leftarrow> the_obj;
     let sampleSize = (if ins_SampleSize (InSpec x) \<le> 0 then 500 else ins_SampleSize (InSpec x)) in do {
       fetched \<leftarrow> (if IsShardedKind (cr_Kind (ins_ClusterRef (InSpec x))) then FetchShardedProfiles E W sampleSize
         else do { r \<leftarrow> insights_Fetch E W sampleSize; ret (case r of Inl e \<Rightarrow> ([], Some e) | Inr ds \<Rightarrow> (ds, None)) });
       case fetched of
         (_, Some e) \<Rightarrow> ret (Inl e)
       | (docs, None) \<Rightarrow> do {
           stats \<leftarrow> FetchIndexStats E W;
           ret (Inr (Analyze docs (ins_SlowQueryThresholdMs (InSpec x))
             @ (case stats of Inl _ \<Rightarrow> [] | Inr st \<Rightarrow> AnalyzeIndexUsage st), wrap32 (int (length docs))))
         }
     }
   }"

definition parseAnalysisInterval :: "string \<Rightarrow> duration" where
  "parseAnalysisInterval s =
     (if s = [] then 15 * minute
      else case ParseDuration s of None \<Rightarrow> 15 * minute | Some d \<Rightarrow> if d \<le> 0 then 15 * minute else d)"

fun setInsightsCondition :: "Condition list \<Rightarrow> Condition \<Rightarrow> Condition list" where
  "setInsightsCondition [] c = [c]"
| "setInsightsCondition (existing # rest) c =
     (if c_Type existing = c_Type c
      then (if c_Status existing = c_Status c then c\<lparr>c_LastTransitionTime := c_LastTransitionTime existing\<rparr> else c) # rest
      else existing # setInsightsCondition rest c)"

definition analysis_condition :: "string \<Rightarrow> string \<Rightarrow> string \<Rightarrow> gotime \<Rightarrow> Condition" where
  "analysis_condition status reason msg now = \<lparr>c_Type = ''AnalysisHealthy'', c_Status = status, c_ObservedGeneration = 0,
     c_LastTransitionTime = now, c_Reason = reason, c_Message = msg\<rparr>"

definition analysis_failed :: "gotime \<Rightarrow> go_error \<Rightarrow> MongoDBInsights \<Rightarrow> MongoDBInsights" where
  "analysis_failed now e x = x\<lparr>InStatus := (InStatus x)\<lparr>inst_Phase := insightsPhaseFailed, inst_LastAnalysisTime := Some now,
     inst_Conditions := setInsightsCondition (inst_Conditions (InStatus x))
       (analysis_condition ConditionFalse ''AnalysisError'' (Error e) now)\<rparr>\<rparr>"

definition analysis_ready :: "gotime \<Rightarrow> Recommendation list \<Rightarrow> int32 \<Rightarrow> MongoDBInsights \<Rightarrow> MongoDBInsights" where
  "analysis_ready now recs sampled x = x\<lparr>InStatus := (InStatus x)\<lparr>inst_Phase := insightsPhaseReady, inst_LastAnalysisTime := Some now,
     inst_Recommendations := recs, inst_SlowQueriesSampled := sampled,
     inst_AutoPilotActions := buildAutoPilotActions recs (ins_AutoIndex (InSpec x)) (ins_AutoQueryHint (InSpec x)),
     inst_Conditions := setInsightsCondition (inst_Conditions (InStatus x))
       (analysis_condition ConditionTrue ''AnalysisSucceeded''
         (show_nat (length recs) @ '' recommendations from '' @ show_int sampled @ '' profile docs'') now)\<rparr>\<rparr>"

definition store_analysis ::
    "MongoDBInsights world \<Rightarrow> gotime \<Rightarrow> MongoDBInsights \<Rightarrow> go_error + (Recommendation list \<times> int32) \<Rightarrow> (MongoDBInsights, reconcile_result) ctl" where
  "store_analysis W now x res =
     (case res of
        Inl e \<Rightarrow> do {
          put_obj (analysis_failed now e x);
          _ \<leftarrow> status_update W;
          ret (requeue_after insightsFailedRequeue, None)
        }
      | Inr (recs, sampled) \<Rightarrow> do {
          put_obj (analysis_ready now recs sampled x);
          _ \<leftarrow> status_update W;
          ret (requeue_after (parseAnalysisInterval (ins_AnalysisInterval (InSpec x))), None)
        })"

definition ReconcileInsights :: "insights_env \<Rightarrow> MongoDBInsights world \<Rightarrow> (MongoDBInsights, reconcile_result) ctl" where
  "ReconcileInsights E W = do {
     got \<leftarrow> ask (w_get W);
     case got of
       Inl e \<Rightarrow> ret (no_requeue, if IsNotFound e then None else Some e)
     | Inr x \<Rightarrow> do {
         put_obj x;
         if \<not>  ins_Enabled (InSpec x) then ret (no_requeue, None)
         else do {
           now \<leftarrow> ask (w_now W);
           let phase = inst_Phase (InStatus x) in
           if phase = [] \<or> phase = insightsPhasePending then do {
             put_obj (x\<lparr>InStatus := (InStatus x)\<lparr>inst_Phase := insightsPhaseAnalyzing, inst_LastAnalysisTime := Some now\<rparr>\<rparr>);
             _ \<leftarrow> status_update W;
             ret (requeue_now, None)
           }
           else if phase = insightsPhaseAnalyzing then do {
             res \<leftarrow> runAnalysis E W;
             store_analysis W now x res
           }
           else if phase = insightsPhaseReady \<or> phase = insightsPhaseFailed then do {
             put_obj (x\<lparr>InStatus := (InStatus x)\<lparr>inst_Phase := insightsPhaseAnalyzing\<rparr>\<rparr>);
             _ \<leftarrow> status_update W;
             ret (requeue_now, None)
           }
           else ret (no_requeue, None)
         }
       }
   }"

end
