(* ===== verification/Insights_Analysis_Laws.thy ===== *)
theory Insights_Analysis_Laws
  imports Insights_Analysis
begin

text \<open>
  What the advisor computes: the buckets that its loops fill are the groups of the documents by
  key, so each recommendation is a function of one group; and which actions are planned.
\<close>

section \<open>Loops that fill buckets\<close>

lemma map_of_group_step:
  "map_of (group_step key fresh bump g d) k =
     (if key d = k then Some (bump d (case map_of g k of None \<Rightarrow> fresh d | Some b \<Rightarrow> b)) else map_of g k)"
  by (simp add: group_step_def update_conv')

lemma group_lookup:
  "map_of (foldl (group_step key fresh bump) g ds) k =
     (case filter (\<lambda>d. key d = k) ds of
        [] \<Rightarrow> map_of g k
      | d # r \<Rightarrow> Some (fold bump (d # r) (case map_of g k of None \<Rightarrow> fresh d | Some b \<Rightarrow> b)))"
  by (induction ds arbitrary: g) (simp_all add: map_of_group_step split: list.split)

lemma group_keys: "fst ` set (foldl (group_step key fresh bump) g ds) = fst ` set g \<union> key ` set ds"
proof -
  have "dom (map_of (foldl (group_step key fresh bump) g ds)) = dom (map_of g) \<union> key ` set ds"
    by (induction ds arbitrary: g) (auto simp: map_of_group_step dom_def split: if_splits)
  then show ?thesis by (simp add: dom_map_of_conv_image_fst)
qed

lemma group_distinct: "distinct (map fst g) \<Longrightarrow> distinct (map fst (foldl (group_step key fresh bump) g ds))"
  by (induction ds arbitrary: g) (simp_all add: group_step_def distinct_update)

lemma foldl_guard: "foldl (\<lambda>g d. if P d then f g d else g) g ds = foldl f g (filter P ds)"
  by (induction ds arbitrary: g) simp_all

lemma sort_keys: "distinct xs \<Longrightarrow> distinct ys \<Longrightarrow> set xs = set ys \<Longrightarrow> sort xs = sort ys" for xs ys :: "string list"
  by (simp add: sorted_distinct_set_unique)

lemma group_map:
  "map (\<lambda>k. F (the (map_of (foldl (group_step key fresh bump) [] ds) k))) (sort (map fst (foldl (group_step key fresh bump) [] ds)))
   = map (\<lambda>k. let g = filter (\<lambda>d. key d = k) ds in F (fold bump g (fresh (hd g)))) (sort (remdups (map key ds)))"
proof -
  have "sort (map fst (foldl (group_step key fresh bump) [] ds)) = sort (remdups (map key ds))"
    by (rule sort_keys) (simp_all add: group_distinct group_keys)
  moreover have "the (map_of (foldl (group_step key fresh bump) [] ds) k)
      = (let g = filter (\<lambda>d. key d = k) ds in fold bump g (fresh (hd g)))" if "k \<in> set (map key ds)" for k
  proof -
    from that have "filter (\<lambda>d. key d = k) ds \<noteq> []" by (auto simp: filter_empty_conv)
    then show ?thesis by (cases "filter (\<lambda>d. key d = k) ds") (simp_all add: group_lookup)
  qed
  ultimately show ?thesis by (simp add: Let_def cong: map_cong)
qed

section \<open>What a bucket holds\<close>

lemma wrap64_add [simp]: "wrap64 (wrap64 a + b) = wrap64 (a + b)"
  by (simp add: wrap64_def) (metis (no_types, lifting) add.assoc add.commute mod_add_left_eq)

lemma samples_take: "length xs \<le> 3 \<Longrightarrow> fold add_sample ds xs = take 3 (xs @ map summarizeQuery ds)"
proof (induction ds arbitrary: xs)
  case (Cons d ds)
  then show ?case by (cases "length xs < 3") (simp_all add: add_sample_def take_Cons' diff_Suc Suc_diff_le numeral_3_eq_3)
qed simp

lemma missing_fold:
  "mbk_totalMillis b = wrap64 t \<Longrightarrow> fold missing_bump ds b =
     b\<lparr>mbk_count := mbk_count b + int (length ds), mbk_totalMillis := wrap64 (t + sum_list (map pd_Millis ds)),
       mbk_collscanSeen := ((\<exists>d \<in> set ds. pd_PlanSummary d = planSummaryCollscan) \<or> mbk_collscanSeen b),
       mbk_samples := fold add_sample ds (mbk_samples b)\<rparr>"
  by (induction ds arbitrary: b t) (simp_all add: missing_bump_def algebra_simps disj_ac)

lemma slow_fold:
  "sbk_total b = wrap64 t \<Longrightarrow> fold slow_bump ds b =
     b\<lparr>sbk_count := sbk_count b + int (length ds), sbk_total := wrap64 (t + sum_list (map pd_Millis ds)),
       sbk_samples := fold add_sample ds (sbk_samples b)\<rparr>"
  by (induction ds arbitrary: b t) (simp_all add: slow_bump_def algebra_simps)

lemma wrap64_0 [simp]: "wrap64 0 = 0"
  by (simp add: wrap64_def)

section \<open>The report by groups\<close>

text \<open>
  The reference: for every key in order, the documents that have it, and one bucket made of them
  at once.
\<close>

definition missing_bucket :: "ProfileDoc list \<Rightarrow> MissingBucket" where
  "missing_bucket g = \<lparr>mbk_ns = pd_NS (hd g), mbk_filter = pd_Filter (hd g), mbk_sort = pd_Sort (hd g),
     mbk_samples = take 3 (map summarizeQuery g), mbk_count = int (length g),
     mbk_totalMillis = wrap64 (sum_list (map pd_Millis g)),
     mbk_collscanSeen = (\<exists>d \<in> set g. pd_PlanSummary d = planSummaryCollscan)\<rparr>"

definition missing_report :: "ProfileDoc list \<Rightarrow> Recommendation list" where
  "missing_report docs =
     (let hits = filter looksLikeMissingIndex docs in
      map (\<lambda>k. missing_recommendation (missing_bucket (filter (\<lambda>d. missing_key d = k) hits)))
        (sort (remdups (map missing_key hits))))"

definition slow_bucket :: "ProfileDoc list \<Rightarrow> SlowBucket" where
  "slow_bucket g = \<lparr>sbk_ns = pd_NS (hd g), sbk_filter = pd_Filter (hd g),
     sbk_samples = take 3 (map summarizeQuery g), sbk_count = int (length g),
     sbk_total = wrap64 (sum_list (map pd_Millis g))\<rparr>"

definition slow_report :: "ProfileDoc list \<Rightarrow> int32 \<Rightarrow> Recommendation list" where
  "slow_report docs thresholdMs =
     map (\<lambda>k. slow_recommendation thresholdMs (slow_bucket (filter (\<lambda>d. slow_key d = k) docs)))
       (filter (\<lambda>k. let g = filter (\<lambda>d. slow_key d = k) docs in
                    length g \<ge> 3 \<and> quot64 (wrap64 (sum_list (map pd_Millis g))) (int (length g)) \<ge> thresholdMs)
         (sort (remdups (map slow_key docs))))"

lemma missing_bucket_fold: "fold missing_bump g (missing_fresh (hd g)) = missing_bucket g"
  by (subst missing_fold [where t = 0]) (simp_all add: missing_fresh_def missing_bucket_def samples_take)

lemma slow_bucket_fold: "fold slow_bump g (slow_fresh (hd g)) = slow_bucket g"
  by (subst slow_fold [where t = 0]) (simp_all add: slow_fresh_def slow_bucket_def samples_take)

lemma detectMissingIndexes_report: "detectMissingIndexes docs = missing_report docs"
  unfolding detectMissingIndexes_def missing_groups_def foldl_guard Let_def missing_report_def
  by (subst group_map) (simp add: missing_bucket_fold)

lemma slow_groups_lookup:
  "map_of (slow_groups docs) k = (let g = filter (\<lambda>d. slow_key d = k) docs in if g = [] then None else Some (slow_bucket g))"
  by (simp add: slow_groups_def group_lookup Let_def flip: slow_bucket_fold split: list.split)

lemma map_fst_filter_map_of:
  "distinct (map fst m) \<Longrightarrow> set (map fst (filter (\<lambda>(k, b). P b) m)) = {k. \<exists>b. map_of m k = Some b \<and> P b}"
  by (force simp: image_iff)

lemma detectSlowQueryPatterns_report: "detectSlowQueryPatterns docs t = slow_report docs t"
proof -
  let ?g = "\<lambda>k. filter (\<lambda>d. slow_key d = k) docs"
  let ?ok = "\<lambda>k. length (?g k) \<ge> 3 \<and> quot64 (wrap64 (sum_list (map pd_Millis (?g k)))) (int (length (?g k))) \<ge> t"
  have dist: "distinct (map fst (slow_groups docs))" by (simp add: slow_groups_def group_distinct)
  have "sort (map fst (filter (\<lambda>(k, b). slow_enough t b) (slow_groups docs))) = sort (filter ?ok (remdups (map slow_key docs)))"
  proof (rule sort_keys)
    show "distinct (map fst (filter (\<lambda>(k, b). slow_enough t b) (slow_groups docs)))" using dist by (simp add: distinct_map_filter)
    show "set (map fst (filter (\<lambda>(k, b). slow_enough t b) (slow_groups docs))) = set (filter ?ok (remdups (map slow_key docs)))"
      unfolding map_fst_filter_map_of [OF dist]
      by (auto simp: slow_groups_lookup slow_enough_def slow_bucket_def Let_def filter_empty_conv split: if_splits)
  qed simp
  then have keys: "sort (map fst (filter (\<lambda>(k, b). slow_enough t b) (slow_groups docs))) = filter ?ok (sort (remdups (map slow_key docs)))"
    by (simp add: filter_sort)
  show ?thesis unfolding detectSlowQueryPatterns_def slow_report_def Let_def keys
    by (auto simp: slow_groups_lookup Let_def filter_empty_conv)
qed

text \<open>
  C34. The two grouping detectors report by group: the single pass over the documents with a map of
  buckets yields exactly one recommendation per key, in the order of the keys, computed from all
  documents with that key - their number, their mean duration in 64-bit arithmetic, the first three as
  samples. The key of a missing index is the namespace with the shapes of the filter and of the sort,
  so that a filter that is used with two sort orders is reported twice; the key of a slow pattern is
  the namespace with the shape of the filter. A slow pattern is reported just for the groups of at
  least three documents whose mean is at least the threshold.
\<close>

theorem advice_by_groups:
  "detectMissingIndexes docs = missing_report docs \<and> detectSlowQueryPatterns docs t = slow_report docs t"
  by (simp add: detectMissingIndexes_report detectSlowQueryPatterns_report)

section \<open>Exact ratios\<close>

lemma float64_small [simp]: "n < 9007199254740992 \<Longrightarrow> float64_of_nat n = n"
  by (simp add: float64_of_nat_def excess_bits.simps)

text \<open>
  The test for a missing index is exact for counters that occur: up to 2^53 examined and fewer than
  2^47 returned documents, the comparison of the rounded quotient with 100 is the comparison of the
  integers, and an operation that returns nothing counts as one that returns one document.
\<close>

lemma looksLikeMissingIndex_exact:
  assumes "0 \<le> pd_DocsExamined d" "pd_DocsExamined d < 2 ^ 53" "pd_NReturned d < 2 ^ 47"
  shows "looksLikeMissingIndex d \<longleftrightarrow> pd_PlanSummary d = ''COLLSCAN'' \<or> 1000 < pd_DocsExamined d \<and> 100 * max 1 (pd_NReturned d) < pd_DocsExamined d"
proof -
  let ?a = "pd_DocsExamined d" and ?b = "max 1 (pd_NReturned d)"
  have b: "1 \<le> ?b" "?b < 2 ^ 47" using assms(3) by simp_all
  have "float64_of_nat (nat ?a) = nat ?a" "float64_of_nat (nat ?b) = nat ?b"
    using assms b by (simp_all add: nat_less_iff)
  moreover have "(if pd_NReturned d < 1 then 1 else pd_NReturned d) = ?b" by simp
  moreover have "0 \<le> ?b" using b(1) by linarith
  ultimately have "ratio_above_100 ?a (if pd_NReturned d < 1 then 1 else pd_NReturned d) \<longleftrightarrow> ?b * (100 * 2 ^ 47 + 1) < ?a * 2 ^ 47"
    using assms(1) by (simp only: ratio_above_100_def nat_0_le)
  also have "\<dots> \<longleftrightarrow> 100 * ?b < ?a"
    using b by (simp add: algebra_simps) linarith
  finally show ?thesis by (simp add: looksLikeMissingIndex_def planSummaryCollscan_def)
qed

section \<open>Planned actions\<close>

definition index_actions_spec :: "Recommendation list \<Rightarrow> AutoIndexSpec \<Rightarrow> AutoPilotAction set" where
  "index_actions_spec recs sp =
     {\<lparr>apa_Type = ''MissingIndex'', apa_NS = joinNS (rcm_DB r) (rcm_Collection r), apa_Severity = rcm_Severity r,
       apa_Detail = rcm_Detail r, apa_DryRun = aix_DryRun sp\<rparr> | r.
       r \<in> set recs \<and> aix_Enabled sp \<and> rcm_Type r = ''MissingIndex''
       \<and> meetsSeverity (rcm_Severity r) (if aix_MinSeverity sp = [] then ''warning'' else aix_MinSeverity sp)}"

definition hint_actions_spec :: "Recommendation list \<Rightarrow> AutoQueryHintSpec \<Rightarrow> AutoPilotAction set" where
  "hint_actions_spec recs sp =
     {\<lparr>apa_Type = ''SlowQueryHint'', apa_NS = joinNS (rcm_DB r) (rcm_Collection r), apa_Severity = rcm_Severity r,
       apa_Detail = rcm_Detail r, apa_DryRun = aqh_DryRun sp\<rparr> | r.
       r \<in> set recs \<and> aqh_Enabled sp \<and> rcm_Type r = ''SlowQueryPattern'' \<and> aqh_SlowQueryThresholdMs sp \<le> rcm_AvgLatencyMs r}"

lemma index_actions:
  "(\<lambda>a. \<lparr>apa_Type = ''MissingIndex'', apa_NS = ixa_NS a, apa_Severity = ixa_Severity a, apa_Detail = ixa_Reason a,
     apa_DryRun = ixa_DryRun a\<rparr>) ` set (PlanMissingIndexActions recs x) = (case x of None \<Rightarrow> {} | Some sp \<Rightarrow> index_actions_spec recs sp)"
  by (cases x) (auto simp: PlanMissingIndexActions_def index_actions_spec_def index_action_def rec_types severities Let_def image_image setcompr_eq_image)

lemma hint_actions:
  "(\<lambda>a. \<lparr>apa_Type = ''SlowQueryHint'', apa_NS = qha_NS a, apa_Severity = qha_Severity a, apa_Detail = qha_Reason a,
     apa_DryRun = qha_DryRun a\<rparr>) ` set (PlanSlowQueryHints recs x) = (case x of None \<Rightarrow> {} | Some sp \<Rightarrow> hint_actions_spec recs sp)"
  by (cases x) (auto simp: PlanSlowQueryHints_def hint_actions_spec_def hint_action_def rec_types image_image not_less setcompr_eq_image)

text \<open>
  The planned actions are exactly those the policies allow: one for every missing index whose
  severity reaches the minimum (a warning by default) if index creation is enabled, and one for
  every slow pattern at or above the threshold if hints are enabled, each with the dry-run flag of
  its policy. Unused indexes and schema hints never lead to an action.
\<close>

theorem autopilot_actions_exact:
  "set (buildAutoPilotActions recs idx hint) =
     (case idx of None \<Rightarrow> {} | Some sp \<Rightarrow> index_actions_spec recs sp) \<union> (case hint of None \<Rightarrow> {} | Some sp \<Rightarrow> hint_actions_spec recs sp)"
  by (simp add: buildAutoPilotActions_def index_actions hint_actions)

end
