(* ===== verification/Insights_Laws.thy ===== *)
theory Insights_Laws
  imports Insights Insights_Analysis_Laws Search_Laws
begin

text \<open>
  What a pass of the insights controller does to the cluster and to the stored advice: the only
  commands it sends set the profiling level of the user's databases, it reads no more documents than
  the sample allows, and the stored advice is either computed anew as a whole or kept.
\<close>

section \<open>Commands\<close>

text \<open>The commands that the resource \<open>x\<close> allows, and the state while it is analysed.\<close>

definition profiling_of :: "MongoDBInsights \<Rightarrow> mongo_cmd \<Rightarrow> bool" where
  "profiling_of x cmd \<longleftrightarrow>
     (\<exists>db slowMs. cmd = ProfileCmd db (ins_ProfilingLevel (InSpec x)) slowMs \<and> db \<notin> {''admin'', ''local'', ''config''}
        \<and> ins_ProfilingLevel (InSpec x) \<in> {0..2} \<and> 0 < slowMs)"

fun profiled :: "MongoDBInsights \<Rightarrow> MongoDBInsights effect \<Rightarrow> bool" where
  "profiled x (IssuedAt c cmd) = profiling_of x cmd"
| "profiled x _ = False"

definition analysing :: "MongoDBInsights \<Rightarrow> MongoDBInsights rstate \<Rightarrow> bool" where
  "analysing x s \<longleftrightarrow> r_obj s = x \<and> all_effects (profiled x) s"

lemma keeps_analysing_ask: "keeps (analysing x) (ask q)"
  by (simp add: keeps_def wp_simps analysing_def)

lemma keeps_analysing_obj:
  assumes "keeps (analysing x) (f x)" shows "keeps (analysing x) (State_Monad.bind the_obj f)"
  using assms by (simp add: keeps_def wp_simps analysing_def)

lemma keeps_analysing_issue:
  assumes "\<And>k cmd. cmd \<in> set (fst (op k)) \<Longrightarrow> profiling_of x cmd" shows "keeps (analysing x) (issue_at c op)"
  by (auto simp: keeps_def wp_issue_at analysing_def all_effects_def split: prod.splits) (metis assms fst_conv)

lemmas analysing_intros = keeps_analysing_obj keeps_ret keeps_if keeps_case_option keeps_case_sum keeps_case_prod keeps_Let
  keeps_analysing_ask keeps_bind

lemma keeps_profile_databases:
  assumes "ins_ProfilingLevel (InSpec x) \<in> {0..2}" "0 < slowMs"
  shows "keeps (analysing x) (profile_databases W c (ins_ProfilingLevel (InSpec x)) slowMs dbs)"
proof (induction dbs)
  case (Cons n ns)
  have "keeps (analysing x) (issue_at c (\<lambda>k. let cmd = ProfileCmd n (ins_ProfilingLevel (InSpec x)) slowMs in
      ([cmd], case drv_run (w_drv W k) c cmd of None \<Rightarrow> Inr () | Some e \<Rightarrow> Inl e)))" if "\<not>  skip_db n"
    using that assms by (intro keeps_analysing_issue) (auto simp: Let_def profiling_of_def skip_db_def skipped_dbs)
  then show ?case using Cons.IH by (auto intro: keeps_bind)
qed (simp add: keeps_ret)

lemma keeps_applyProfilingLevel: "keeps (analysing x) (applyProfilingLevel E W c)"
  unfolding applyProfilingLevel_def Let_def
  by (intro keeps_analysing_obj)
    (auto intro!: keeps_ret keeps_bind keeps_analysing_ask keeps_case_sum keeps_profile_databases)

lemma keeps_connects:
  "keeps (analysing x) (resolveConnectTarget E)" "keeps (analysing x) (resolveShardTargets E)"
  "keeps (analysing x) (connectTo W t)"
  unfolding resolveConnectTarget_def resolveShardTargets_def connectTo_def loadCredentialsFromSecret_def
  by (intro analysing_intros)+

lemma keeps_insights_connect: "keeps (analysing x) (insights_connect E W)"
  unfolding insights_connect_def by (intro analysing_intros keeps_connects)

lemma keeps_collect_databases: "keeps (analysing x) (collect_databases E c limit cap dbs docs)"
proof (induction dbs arbitrary: docs)
  case (Cons db dbs)
  then show ?case unfolding collect_databases.simps by (intro analysing_intros)
qed (simp add: keeps_ret)

lemma keeps_collectProfileDocs: "keeps (analysing x) (collectProfileDocs E c n)"
  unfolding collectProfileDocs_def by (intro analysing_intros keeps_collect_databases)

lemma keeps_fetch_shards: "keeps (analysing x) (fetch_shards E W n ts st)"
proof (induction ts arbitrary: st)
  case (Cons t ts)
  then show ?case unfolding fetch_shards.simps fetch_shard_def
    by (intro analysing_intros keeps_connects keeps_applyProfilingLevel keeps_collectProfileDocs)
qed (simp add: keeps_ret)

lemma keeps_stats:
  "keeps (analysing x) (stats_of_collections E c db colls stats)" "keeps (analysing x) (stats_of_databases E c dbs stats)"
proof -
  show *: "keeps (analysing x) (stats_of_collections E c db colls stats)" for db colls stats
  proof (induction colls arbitrary: stats)
    case (Cons coll colls)
    then show ?case unfolding stats_of_collections.simps by (intro analysing_intros)
  qed (simp add: keeps_ret)
  show "keeps (analysing x) (stats_of_databases E c dbs stats)"
  proof (induction dbs arbitrary: stats)
    case (Cons db dbs)
    then show ?case unfolding stats_of_databases.simps by (intro analysing_intros *)
  qed (simp add: keeps_ret)
qed

lemma keeps_runAnalysis: "keeps (analysing x) (runAnalysis E W)"
  unfolding runAnalysis_def FetchShardedProfiles_def insights_Fetch_def FetchIndexStats_def collectIndexStats_def
  by (intro analysing_intros keeps_insights_connect keeps_connects keeps_applyProfilingLevel keeps_collectProfileDocs
      keeps_fetch_shards keeps_stats)

section \<open>Documents\<close>

text \<open>A document that was read from the profile of one of the user's databases.\<close>

definition observed :: "insights_env \<Rightarrow> ProfileDoc \<Rightarrow> bool" where
  "observed E d \<longleftrightarrow> (\<exists>k c db limit rows err m. ne_profile E k c db limit = Inr (rows, err) \<and> \<not>  skip_db db
     \<and> Some m \<in> set rows \<and> d = ConvertProfile m)"

definition sample_ok :: "insights_env \<Rightarrow> nat \<Rightarrow> ProfileDoc list \<Rightarrow> bool" where
  "sample_ok E n docs \<longleftrightarrow> length docs \<le> n \<and> (\<forall>d \<in> set docs. observed E d)"

lemma sample_ok_Nil [simp]: "sample_ok E n []"
  by (simp add: sample_ok_def)

lemma sample_ok_append: "sample_ok E m xs \<Longrightarrow> sample_ok E n ys \<Longrightarrow> sample_ok E (m + n) (xs @ ys)"
  by (auto simp: sample_ok_def)

lemma read_profile_ok:
  "sample_ok E cap docs \<Longrightarrow> (\<And>m. Some m \<in> set rows \<Longrightarrow> observed E (ConvertProfile m)) \<Longrightarrow>
   sample_ok E cap (fst (read_profile cap rows err docs))"
proof (induction rows arbitrary: docs)
  case (Cons r rows)
  show ?case
  proof (cases "length docs \<ge> cap")
    case True
    then show ?thesis using Cons.prems by simp
  next
    case False
    have "sample_ok E cap (case r of None \<Rightarrow> docs | Some m \<Rightarrow> docs @ [ConvertProfile m])"
      using False Cons.prems by (auto simp: sample_ok_def split: option.split)
    then show ?thesis using Cons.IH Cons.prems(2) False by simp
  qed
qed simp

lemma collect_databases_ok:
  "sample_ok E cap docs \<Longrightarrow> list_all (\<lambda>n. \<not>  skip_db n) dbs \<Longrightarrow>
   wp (collect_databases E c limit cap dbs docs) (\<lambda>r _. \<forall>ds. r = Inr ds \<longrightarrow> sample_ok E cap ds) s"
proof (induction dbs arbitrary: docs s)
  case (Cons db dbs docs s)
  show ?case
  proof (cases "ne_profile E (r_tick s) c db limit")
    case (Inl e)
    then show ?thesis using Cons.IH [of docs "s\<lparr>r_tick := Suc (r_tick s)\<rparr>"] Cons.prems by (auto simp: wp_simps)
  next
    case (Inr cur)
    obtain rows err where cur: "cur = (rows, err)" by (cases cur)
    have "observed E (ConvertProfile m)" if "Some m \<in> set rows" for m
      using that Inr cur Cons.prems(2) unfolding observed_def by simp blast
    then have "sample_ok E cap (fst (read_profile cap rows err docs))" by (rule read_profile_ok [OF Cons.prems(1)])
    then show ?thesis using Inr cur Cons.IH Cons.prems(2) by (auto simp: wp_simps split: prod.split option.split)
  qed
qed (simp add: wp_ret)

lemma collectProfileDocs_ok: "wp (collectProfileDocs E c n) (\<lambda>r _. \<forall>ds. r = Inr ds \<longrightarrow> sample_ok E (nat n) ds) s"
  by (auto simp: collectProfileDocs_def wp_simps Let_def list_all_iff intro!: collect_databases_ok split: sum.split)

lemma wp_any: "(\<And>a t. Q a t) \<Longrightarrow> wp c Q s"
  by (simp add: wp_def split: prod.split)

lemma fetch_shard_ok:
  "wp (fetch_shard E W n t st) (\<lambda>st' _. \<exists>ds. sr_docs st' = sr_docs st @ ds \<and> sample_ok E (nat n) ds) s"
proof -
  let ?Q = "\<lambda>st' _. \<exists>ds. sr_docs st' = sr_docs st @ ds \<and> sample_ok E (nat n) ds"
  let ?st = "st\<lparr>sr_okCount := sr_okCount st + 1\<rparr>"
  have collected: "wp (collectProfileDocs E c n) (\<lambda>r. ?Q (shard_collected r ?st)) s'" for c s'
    by (rule wp_mono [OF collectProfileDocs_ok]) (auto simp: shard_collected_def shard_failed_def split: sum.split)
  have profiled: "wp (case perr of Some e \<Rightarrow> ret (shard_failed e ?st)
      | None \<Rightarrow> do { docs \<leftarrow> collectProfileDocs E c n; ret (shard_collected docs ?st) }) ?Q s'" for perr c s'
    using collected [of c s'] by (cases perr) (simp_all add: wp_ret_fun wp_ret wp_bind shard_failed_def)
  show ?thesis unfolding fetch_shard_def wp_bind Let_def
  proof (rule wp_any)
    fix cli s'
    show "wp (case cli of Inl e \<Rightarrow> ret (shard_failed e st) | Inr c \<Rightarrow> applyProfilingLevel E W c \<bind> (\<lambda>perr.
        case perr of None \<Rightarrow> do { docs \<leftarrow> collectProfileDocs E c n; ret (shard_collected docs ?st) }
        | Some e \<Rightarrow> ret (shard_failed e ?st))) ?Q s'"
    proof (cases cli)
      case (Inr c)
      show ?thesis unfolding Inr sum.case wp_bind by (rule wp_any) (rule profiled [unfolded wp_bind])
    qed (simp add: wp_ret shard_failed_def)
  qed
qed

lemma fetch_shards_ok:
  "sample_ok E m (sr_docs st) \<Longrightarrow>
   wp (fetch_shards E W n ts st) (\<lambda>st' _. sample_ok E (m + length ts * nat n) (sr_docs st')) s"
proof (induction ts arbitrary: m st s)
  case (Cons t ts m st s)
  have "wp (fetch_shards E W n ts st') (\<lambda>st' _. sample_ok E (m + length (t # ts) * nat n) (sr_docs st')) s'"
    if "sr_docs st' = sr_docs st @ ds" "sample_ok E (nat n) ds" for st' ds s'
    using Cons.IH [of "m + nat n" st' s'] sample_ok_append [OF Cons.prems that(2)] that(1) by (simp add: algebra_simps)
  then show ?case unfolding fetch_shards.simps wp_bind by (intro wp_mono [OF fetch_shard_ok]) blast
qed (simp add: wp_ret)

section \<open>Advice\<close>

definition sample_size :: "MongoDBInsights \<Rightarrow> int" where
  "sample_size x = (if ins_SampleSize (InSpec x) \<le> 0 then 500 else ins_SampleSize (InSpec x))"

text \<open>
  How many documents a pass may read: the sample size, and on a sharded cluster for each shard its
  share of the sample or ten.
\<close>

definition reading_bound :: "insights_env \<Rightarrow> MongoDBInsights \<Rightarrow> nat \<Rightarrow> bool" where
  "reading_bound E x n \<longleftrightarrow>
     (if cr_Kind (ins_ClusterRef (InSpec x)) = ''MongoDBSharded''
      then \<exists>k cluster. ne_sharded E k (cr_Name (ins_ClusterRef (InSpec x))) (om_Namespace (InMeta x)) = Inr cluster
        \<and> 0 < sh_Count (shd_Shards (ShSpec cluster))
        \<and> int n = sh_Count (shd_Shards (ShSpec cluster)) * max 10 (sample_size x div sh_Count (shd_Shards (ShSpec cluster)))
      else int n = sample_size x)"

definition advice :: "insights_env \<Rightarrow> MongoDBInsights \<Rightarrow> Recommendation list \<Rightarrow> int32 \<Rightarrow> bool" where
  "advice E x recs sampled \<longleftrightarrow> (\<exists>docs stats n.
     recs = Analyze docs (ins_SlowQueryThresholdMs (InSpec x)) @ AnalyzeIndexUsage stats
     \<and> sampled = wrap32 (int (length docs)) \<and> sample_ok E n docs \<and> reading_bound E x n)"

lemma quot64_pos [simp]: "0 \<le> a \<Longrightarrow> quot64 a b = a div b"
  by (simp add: quot64_def)

lemma sample_size_pos: "0 < sample_size x"
  by (simp add: sample_size_def)

lemma insights_Fetch_ok:
  "wp (insights_Fetch E W n) (\<lambda>r _. \<forall>ds. r = Inr ds \<longrightarrow> sample_ok E (nat (if n \<le> 0 then 500 else n)) ds) s"
proof -
  let ?n = "if n \<le> 0 then 500 else n"
  let ?Q = "\<lambda>r _. \<forall>ds. r = Inr ds \<longrightarrow> sample_ok E (nat ?n) ds"
  have collect: "wp (case err of Some e \<Rightarrow> ret (Inl (Wrapped ''apply profiling level'' e)) | None \<Rightarrow> collectProfileDocs E c ?n) ?Q t" for err c t
    using collectProfileDocs_ok [of E c ?n t] by (cases err) (simp_all add: wp_ret)
  have "wp (case cli of Inl e \<Rightarrow> ret (Inl e) | Inr c \<Rightarrow> the_obj \<bind> (\<lambda>x.
      (if cr_Kind (ins_ClusterRef (InSpec x)) = clusterKindMongoDB then applyProfilingLevel E W c else ret None) \<bind> (\<lambda>err.
        case err of None \<Rightarrow> collectProfileDocs E c ?n | Some e \<Rightarrow> ret (Inl (Wrapped ''apply profiling level'' e))))) ?Q t" for cli t
  proof (cases cli)
    case (Inr c)
    show ?thesis unfolding Inr sum.case wp_bind by (rule wp_any, rule wp_any, rule collect)
  qed (simp add: wp_ret)
  then show ?thesis unfolding insights_Fetch_def Let_def wp_bind by (rule wp_any)
qed

lemma shardConnectTargets_length [simp]: "length (shardConnectTargets a b c n) = n"
  by (simp add: shardConnectTargets_def)

lemma resolveShardTargets_ok:
  "r_obj s = x \<Longrightarrow> wp (resolveShardTargets E) (\<lambda>r s'. r_obj s' = x \<and> (\<forall>ts. r = Inr ts \<longrightarrow>
     (\<exists>k cluster. ne_sharded E k (cr_Name (ins_ClusterRef (InSpec x))) (om_Namespace (InMeta x)) = Inr cluster
        \<and> 0 < sh_Count (shd_Shards (ShSpec cluster)) \<and> int (length ts) = sh_Count (shd_Shards (ShSpec cluster))))) s"
  by (auto simp: resolveShardTargets_def wp_simps Let_def split: sum.split)
    (metis linorder_not_le)

lemma FetchShardedProfiles_ok:
  assumes "r_obj s = x" "cr_Kind (ins_ClusterRef (InSpec x)) = ''MongoDBSharded''"
  shows "wp (FetchShardedProfiles E W (sample_size x))
     (\<lambda>r _. \<forall>docs. r = (docs, None) \<longrightarrow> (\<exists>n. sample_ok E n docs \<and> reading_bound E x n)) s"
proof -
  let ?Q = "\<lambda>r _. \<forall>docs. r = (docs, None) \<longrightarrow> (\<exists>n. sample_ok E n docs \<and> reading_bound E x n)"
  let ?start = "\<lparr>sr_docs = [], sr_lastErr = None, sr_okCount = 0, sr_collectedOK = 0\<rparr>"
  have shards: "wp (fetch_shards E W (per_shard (sample_size x) (length ts)) ts ?start)
      (\<lambda>st _. \<exists>n. sample_ok E n (sr_docs st) \<and> reading_bound E x n) t"
    if "ne_sharded E k (cr_Name (ins_ClusterRef (InSpec x))) (om_Namespace (InMeta x)) = Inr cluster"
      "0 < sh_Count (shd_Shards (ShSpec cluster))" "int (length ts) = sh_Count (shd_Shards (ShSpec cluster))" for ts t k cluster
  proof (rule wp_mono [OF fetch_shards_ok [where E = E and m = 0]])
    let ?per = "per_shard (sample_size x) (length ts)"
    have "?per = max 10 (sample_size x div int (length ts))" using sample_size_pos [of x] by (simp add: per_shard_def Let_def)
    then have "reading_bound E x (length ts * nat ?per)" unfolding reading_bound_def using that assms(2) by auto
    then show "\<exists>n. sample_ok E n (sr_docs st) \<and> reading_bound E x n"
      if "sample_ok E (0 + length ts * nat ?per) (sr_docs st)" for st using that by auto
  qed simp
  have fetched: "wp (case res of Inl e \<Rightarrow> ret ([], Some e) | Inr ts \<Rightarrow>
      fetch_shards E W (per_shard (sample_size x) (length ts)) ts ?start
        \<bind> (\<lambda>st. ret (sharded_result ts st))) ?Q t"
    if "\<forall>ts. res = Inr ts \<longrightarrow> (\<exists>k cluster. ne_sharded E k (cr_Name (ins_ClusterRef (InSpec x))) (om_Namespace (InMeta x)) = Inr cluster
        \<and> 0 < sh_Count (shd_Shards (ShSpec cluster)) \<and> int (length ts) = sh_Count (shd_Shards (ShSpec cluster)))" for res t
  proof (cases res)
    case (Inr ts)
    with that obtain k cluster where "ne_sharded E k (cr_Name (ins_ClusterRef (InSpec x))) (om_Namespace (InMeta x)) = Inr cluster"
      "0 < sh_Count (shd_Shards (ShSpec cluster))" "int (length ts) = sh_Count (shd_Shards (ShSpec cluster))" by blast
    from wp_mono [OF shards [OF this]] show ?thesis
      unfolding Inr sum.case wp_bind wp_ret_fun by (auto simp: sharded_result_def split: option.splits if_splits)
  qed (simp add: wp_ret)
  have "wp (resolveShardTargets E) (\<lambda>res. wp (case res of Inl e \<Rightarrow> ret ([], Some e) | Inr ts \<Rightarrow>
      fetch_shards E W (per_shard (sample_size x) (length ts)) ts ?start \<bind> (\<lambda>st. ret (sharded_result ts st))) ?Q) s"
    by (rule wp_mono [OF resolveShardTargets_ok [OF assms(1), of E]]) (rule fetched, blast)
  then show ?thesis using sample_size_pos [of x] assms
    by (simp add: FetchShardedProfiles_def wp_bind wp_the_obj Let_def insights_kinds)
qed

lemma advice_intro:
  "sample_ok E n docs \<Longrightarrow> reading_bound E x n \<Longrightarrow>
   advice E x (Analyze docs (ins_SlowQueryThresholdMs (InSpec x)) @ (case stats of Inl e \<Rightarrow> [] | Inr st \<Rightarrow> AnalyzeIndexUsage st))
     (wrap32 (int (length docs)))"
  unfolding advice_def
  by (intro exI [of _ docs] exI [of _ "case stats of Inl e \<Rightarrow> [] | Inr st \<Rightarrow> st"] exI [of _ n])
    (auto simp: AnalyzeIndexUsage_def split: sum.split)

lemma runAnalysis_ok:
  assumes "r_obj s = x"
  shows "wp (runAnalysis E W) (\<lambda>r _. \<forall>recs n. r = Inr (recs, n) \<longrightarrow> advice E x recs n) s"
proof -
  let ?Q = "\<lambda>r _. \<forall>recs n. r = Inr (recs, n) \<longrightarrow> advice E x recs n"
  let ?ok = "\<lambda>r _. \<forall>docs. r = (docs, None) \<longrightarrow> (\<exists>n. sample_ok E n docs \<and> reading_bound E x n)"
  let ?fetch = "if IsShardedKind (cr_Kind (ins_ClusterRef (InSpec x))) then FetchShardedProfiles E W (sample_size x)
     else do { r \<leftarrow> insights_Fetch E W (sample_size x); ret (case r of Inl e \<Rightarrow> ([], Some e) | Inr ds \<Rightarrow> (ds, None)) }"
  have fetch: "wp ?fetch ?ok s"
  proof (cases "cr_Kind (ins_ClusterRef (InSpec x)) = ''MongoDBSharded''")
    case True
    then show ?thesis using FetchShardedProfiles_ok [OF assms True] by (simp add: IsShardedKind_def insights_kinds)
  next
    case False
    have "wp (insights_Fetch E W (sample_size x)) (\<lambda>r. ?ok (case r of Inl e \<Rightarrow> ([], Some e) | Inr ds \<Rightarrow> (ds, None))) s"
      by (rule wp_mono [OF insights_Fetch_ok])
        (use sample_size_pos [of x] False in \<open>auto simp: reading_bound_def split: sum.splits intro!: exI [of _ "nat (sample_size x)"]\<close>)
    then show ?thesis using False by (simp add: IsShardedKind_def insights_kinds wp_bind wp_ret_fun)
  qed
  have rest: "wp (case fetched of (_, Some e) \<Rightarrow> ret (Inl e) | (docs, None) \<Rightarrow> FetchIndexStats E W \<bind> (\<lambda>stats.
      ret (Inr (Analyze docs (ins_SlowQueryThresholdMs (InSpec x)) @ (case stats of Inl _ \<Rightarrow> [] | Inr st \<Rightarrow> AnalyzeIndexUsage st),
        wrap32 (int (length docs)))))) ?Q t" if "?ok fetched t" for fetched t
    using that by (cases fetched) (auto simp: wp_bind wp_ret_fun wp_ret advice_intro intro!: wp_any split: option.split)
  have "wp ?fetch (\<lambda>fetched. wp (case fetched of (_, Some e) \<Rightarrow> ret (Inl e) | (docs, None) \<Rightarrow> FetchIndexStats E W \<bind> (\<lambda>stats.
      ret (Inr (Analyze docs (ins_SlowQueryThresholdMs (InSpec x)) @ (case stats of Inl _ \<Rightarrow> [] | Inr st \<Rightarrow> AnalyzeIndexUsage st),
        wrap32 (int (length docs)))))) ?Q) s"
    by (rule wp_mono [OF fetch]) (rule rest)
  then show ?thesis
    unfolding runAnalysis_def Let_def wp_bind [of the_obj] wp_the_obj assms sample_size_def [symmetric] wp_bind [of ?fetch] .
qed

section \<open>Passes\<close>

lemma analysis_of:
  "analysing x s \<Longrightarrow> wp (runAnalysis E W) (\<lambda>r s'. analysing x s' \<and> (\<forall>recs n. r = Inr (recs, n) \<longrightarrow> advice E x recs n)) s"
  unfolding wp_conj by (intro conjI keeps_wp [OF keeps_runAnalysis] runAnalysis_ok) (simp_all add: analysing_def)

lemma analysing_persisted: "analysing x s \<Longrightarrow> persisted (r_log s) = []"
proof -
  have "\<forall>e \<in> set l. profiled x e \<Longrightarrow> persisted l = []" for l
    by (induction l) (auto elim!: profiled.elims)
  then show "analysing x s \<Longrightarrow> persisted (r_log s) = []" by (simp add: analysing_def all_effects_def)
qed

lemma wp_status_update:
  "wp (status_update W) Q s = (case w_update_object W (r_tick s) (r_obj s) of (m, err) \<Rightarrow>
     Q err (s\<lparr>r_obj := m, r_tick := Suc (r_tick s), r_log := r_log s @ (if err = None then [PersistStatus m] else [])\<rparr>))"
  by (cases s) (auto simp: status_update_def wp_simps split: prod.splits)

text \<open>What a pass may leave in the log.\<close>

definition insights_effect :: "MongoDBInsights \<Rightarrow> MongoDBInsights effect \<Rightarrow> bool" where
  "insights_effect x e \<longleftrightarrow> (\<exists>y. e = PersistStatus y)
     \<or> (\<exists>c cmd. e = IssuedAt c cmd \<and> profiling_of x cmd \<and> ins_Enabled (InSpec x) \<and> inst_Phase (InStatus x) = ''Analyzing'')"

lemma insights_effect_status [simp]: "insights_effect x (PersistStatus y)"
  by (simp add: insights_effect_def)

lemma analysing_effects:
  "analysing x s \<Longrightarrow> ins_Enabled (InSpec x) \<Longrightarrow> inst_Phase (InStatus x) = ''Analyzing'' \<Longrightarrow> all_effects (insights_effect x) s"
  by (auto simp: analysing_def all_effects_def insights_effect_def elim!: profiled.elims)

lemma store_analysis_effects:
  "all_effects (insights_effect x) s \<Longrightarrow> wp (store_analysis W now x res) (\<lambda>_. all_effects (insights_effect x)) s"
  by (cases res) (auto simp: store_analysis_def wp_bind wp_put_obj wp_status_update wp_ret all_effects_def split: prod.splits)

lemma insights_pass_effects:
  assumes "w_get W k = Inr x"
  shows "wp (ReconcileInsights E W) (\<lambda>_. all_effects (insights_effect x)) (start_run x0 k)"
proof (cases "ins_Enabled (InSpec x) \<and> inst_Phase (InStatus x) = ''Analyzing''")
  case True
  let ?s = "(start_run x0 k)\<lparr>r_obj := x, r_tick := Suc (Suc k)\<rparr>"
  have "analysing x ?s" by (simp add: analysing_def)
  from analysis_of [OF this, of E W]
  have "wp (runAnalysis E W) (\<lambda>res. wp (store_analysis W (w_now W (Suc k)) x res) (\<lambda>_. all_effects (insights_effect x))) ?s"
    by (rule wp_mono) (use True in \<open>auto intro!: store_analysis_effects analysing_effects\<close>)
  then show ?thesis using assms True by (simp add: ReconcileInsights_def wp_bind wp_ask wp_put_obj Let_def insights_phases start_run_def)
next
  case False
  then show ?thesis using assms
    by (auto simp: ReconcileInsights_def wp_simps wp_status_update Let_def insights_phases all_effects_def split: prod.splits)
qed

text \<open>
  C32. An analysis does not touch data: whatever the cluster answers, a pass of the insights controller
  writes the status of its resource and otherwise only sends \<^verbatim>\<open>profile\<close> commands, to databases other than
  \<^verbatim>\<open>admin\<close>, \<^verbatim>\<open>local\<close> and \<^verbatim>\<open>config\<close>, with the profiling level of the spec if that is 0, 1 or 2 and with a
  positive threshold; and these only while the resource is enabled and in the phase \<^verbatim>\<open>Analyzing\<close>.
\<close>

theorem insights_only_profiles:
  assumes "w_get W k = Inr x" and "run_state (ReconcileInsights E W) (start_run x0 k) = (r, s')"
  shows "\<forall>e \<in> set (r_log s'). insights_effect x e"
  using wpD [OF insights_pass_effects [OF assms(1)] assms(2)] by (simp add: all_effects_def)

definition sample_insights :: MongoDBInsights where
  "sample_insights = \<lparr>InMeta = Meta sample_mdb,
     InSpec = \<lparr>ins_ClusterRef = \<lparr>cr_Name = ''shop'', cr_Kind = ''MongoDB''\<rparr>, ins_TargetKind = ''MongoDB'', ins_ProfilingLevel = 1,
       ins_SlowQueryThresholdMs = 100, ins_SampleSize = 500, ins_AnalysisInterval = ''15m'', ins_Enabled = True,
       ins_AnalysisCredentialsSecretRef = Some ''reader'', ins_AutoIndex = None, ins_AutoQueryHint = None\<rparr>,
     InStatus = \<lparr>inst_Phase = ''Analyzing'', inst_LastAnalysisTime = None, inst_Recommendations = [], inst_SlowQueriesSampled = 0,
       inst_AutoPilotActions = [], inst_Conditions = []\<rparr>\<rparr>"

definition insights_world :: "MongoDBInsights world" where
  "insights_world = (sample_world 5 done_sts [] yes_driver)\<lparr>w_get := \<lambda>_. Inr sample_insights,
     w_secret := \<lambda>_ n _. Inr \<lparr>sec_Name = n, sec_Data = [(''username'', ''reader''), (''password'', ''pw'')]\<rparr>\<rparr>"

definition sample_insights_env :: insights_env where
  "sample_insights_env = \<lparr>ne_mongodb = \<lambda>_ _ _. Inr sample_mdb, ne_sharded = \<lambda>_ _ _. Inl (ErrMsg []),
     ne_ListDatabaseNames = \<lambda>_ _. Inr [''admin'', ''app''], ne_ListCollectionNames = \<lambda>_ _ _. Inr [''orders''],
     ne_profile = \<lambda>_ _ _ _. Inr ([Some [(''ns'', AnyString ''app.orders''), (''planSummary'', AnyString ''COLLSCAN'')]], None),
     ne_indexStats = \<lambda>_ _ _ _. Inr ([], None)\<rparr>"

definition sample_insights_pass :: "reconcile_result \<times> MongoDBInsights rstate" where
  "sample_insights_pass = run_state (ReconcileInsights sample_insights_env insights_world) (start_run sample_insights 0)"

fun sent_command :: "'o effect \<Rightarrow> mongo_cmd option" where
  "sent_command (IssuedAt c cmd) = Some cmd"
| "sent_command _ = None"

definition pass_summary :: "reconcile_result \<times> MongoDBInsights rstate \<Rightarrow> mongo_cmd option list \<times> string list" where
  "pass_summary p = (map sent_command (r_log (snd p)), map (inst_Phase \<circ> InStatus) (persisted (r_log (snd p))))"

lemma sample_insights_summary:
  "pass_summary sample_insights_pass = ([Some (ProfileCmd ''app'' 1 100), None], [''Ready''])"
  by code_simp

lemmas sample_insights_run = sample_insights_summary [unfolded pass_summary_def]

theorem insights_only_profiles_witness:
  "list_all (insights_effect sample_insights) (r_log (snd sample_insights_pass))
   \<and> map sent_command (r_log (snd sample_insights_pass)) = [Some (ProfileCmd ''app'' 1 100), None]"
  using insights_only_profiles [OF _ surjective_pairing, of insights_world 0 sample_insights sample_insights_env sample_insights]
    sample_insights_run
  by (simp add: insights_world_def list_all_iff sample_insights_pass_def)

text \<open>What is stored after an analysis.\<close>

definition analysis_outcome :: "insights_env \<Rightarrow> MongoDBInsights \<Rightarrow> MongoDBInsights \<Rightarrow> reconcile_result \<Rightarrow> bool" where
  "analysis_outcome E x y r \<longleftrightarrow> InMeta y = InMeta x \<and> InSpec y = InSpec x \<and> snd r = None \<and>
     (let old = InStatus x; new = InStatus y in
        inst_Phase new = ''Failed'' \<and> inst_Recommendations new = inst_Recommendations old
          \<and> inst_AutoPilotActions new = inst_AutoPilotActions old \<and> inst_SlowQueriesSampled new = inst_SlowQueriesSampled old
          \<and> RequeueAfter (fst r) = 5 * minute
      \<or> inst_Phase new = ''Ready'' \<and> advice E x (inst_Recommendations new) (inst_SlowQueriesSampled new)
          \<and> inst_AutoPilotActions new = buildAutoPilotActions (inst_Recommendations new) (ins_AutoIndex (InSpec x)) (ins_AutoQueryHint (InSpec x))
          \<and> 0 < RequeueAfter (fst r))"

lemma parseAnalysisInterval_pos: "0 < parseAnalysisInterval s"
  by (auto simp: parseAnalysisInterval_def minute_def split: option.split)

lemma store_analysis_outcome:
  assumes "\<forall>i y. w_update_object W i y = (y, None)" "persisted (r_log s) = []"
    and "\<forall>recs n. res = Inr (recs, n) \<longrightarrow> advice E x recs n"
  shows "wp (store_analysis W now x res) (\<lambda>r s'. \<exists>y. persisted (r_log s') = [y] \<and> analysis_outcome E x y r) s"
proof (cases res)
  case (Inl e)
  then show ?thesis using assms
    by (simp add: store_analysis_def wp_bind wp_put_obj wp_status_update wp_ret analysis_failed_def analysis_outcome_def
        insights_phases insightsFailedRequeue_def requeue_after_def)
next
  case (Inr p)
  then show ?thesis using assms parseAnalysisInterval_pos
    by (cases p) (simp add: store_analysis_def wp_bind wp_put_obj wp_status_update wp_ret analysis_ready_def analysis_outcome_def
        insights_phases requeue_after_def Let_def)
qed

lemma insights_analysis_pass:
  assumes "w_get W k = Inr x" "ins_Enabled (InSpec x)" "inst_Phase (InStatus x) = ''Analyzing''"
    and upd: "\<forall>i y. w_update_object W i y = (y, None)"
  shows "wp (ReconcileInsights E W) (\<lambda>r s'. \<exists>y. persisted (r_log s') = [y] \<and> analysis_outcome E x y r) (start_run x0 k)"
proof -
  let ?s = "(start_run x0 k)\<lparr>r_obj := x, r_tick := Suc (Suc k)\<rparr>"
  have "analysing x ?s" by (simp add: analysing_def)
  from analysis_of [OF this, of E W]
  have "wp (runAnalysis E W) (\<lambda>res. wp (store_analysis W (w_now W (Suc k)) x res)
      (\<lambda>r s'. \<exists>y. persisted (r_log s') = [y] \<and> analysis_outcome E x y r)) ?s"
    by (rule wp_mono) (auto intro!: store_analysis_outcome [OF upd] analysing_persisted)
  then show ?thesis using assms(1-3) by (simp add: ReconcileInsights_def wp_bind wp_ask wp_put_obj Let_def insights_phases start_run_def)
qed

text \<open>
  C33. Stored advice is whole: a pass in the phase \<^verbatim>\<open>Analyzing\<close> whose write is accepted stores exactly one
  status. Either the analysis failed, and the earlier recommendations, actions and counts are kept and
  the pass comes back after five minutes; or the recommendations are the analysis of documents that were
  read from the profiles of the user's databases and of index statistics, the planned actions are those
  of exactly these recommendations, and the next pass is scheduled after a positive time. The number
  of documents is at most the sample size on a replica set; on a sharded cluster it is at most the
  number of shards times the share of a shard, which is never below ten, so that it can exceed the
  sample size.
\<close>

theorem advice_is_whole:
  assumes "w_get W k = Inr x" "ins_Enabled (InSpec x)" "inst_Phase (InStatus x) = ''Analyzing''"
    and "\<forall>i y. w_update_object W i y = (y, None)"
    and "run_state (ReconcileInsights E W) (start_run x0 k) = (r, s')"
  shows "\<exists>y. persisted (r_log s') = [y] \<and> analysis_outcome E x y r"
  using wpD [OF insights_analysis_pass [OF assms(1-4)] assms(5)] .

theorem advice_is_whole_witness:
  "\<exists>y. persisted (r_log (snd sample_insights_pass)) = [y] \<and> inst_Phase (InStatus y) = ''Ready''
     \<and> advice sample_insights_env sample_insights (inst_Recommendations (InStatus y)) (inst_SlowQueriesSampled (InStatus y))"
proof -
  have "\<exists>y. persisted (r_log (snd sample_insights_pass)) = [y]
      \<and> analysis_outcome sample_insights_env sample_insights y (fst sample_insights_pass)"
    unfolding sample_insights_pass_def
    by (rule advice_is_whole [OF _ _ _ _ surjective_pairing]) (simp_all add: insights_world_def sample_world_def sample_insights_def)
  then show ?thesis using sample_insights_run by (auto simp: analysis_outcome_def Let_def)
qed

end
