(* ===== verification/Auto_Pilot.thy ===== *)
theory Auto_Pilot
  imports Complex_Main Api_Types
begin

text \<open>
  The advisory helpers \<^verbatim>\<open>auto_anomaly.go\<close>, \<^verbatim>\<open>auto_healing.go\<close> and \<^verbatim>\<open>auto_scaling.go\<close>: pure decisions on observed
  values, which no controller calls yet. Observed rates are finite doubles and so rational numbers;
  the one product of two of them that can be rounded is a parameter.
\<close>

section \<open>Policies\<close>

record AutoHealingSpec =
  ahs_Enabled :: bool
  ahs_LagThresholdSeconds :: int32
  ahs_PodCrashLoopThreshold :: int32
  ahs_PVCExpansionUsagePercent :: int32
  ahs_PVCExpansionIncrementGi :: int32

record AnomalyDetectionSpec =
  ads_Enabled :: bool
  ads_ConnectionSpikeMultiplier :: int32
  ads_AuthFailureRatePerMin :: int32

section \<open>Anomalies\<close>

definition severityWarning :: string where "severityWarning = ''warning''"
definition severityCritical :: string where "severityCritical = ''critical''"

record AnomalyAlert =
  anl_Type :: string
  anl_Severity :: string
  anl_Message :: string
  anl_Metric :: string
  anl_Observed :: rat
  anl_Baseline :: rat

definition or_default :: "int32 \<Rightarrow> int32 \<Rightarrow> int32" where
  "or_default v d = (if v = 0 then d else v)"

text \<open>\<open>fmul\<close> is the multiplication of doubles; doubling is exact.\<close>

definition DetectTrafficSpike :: "(rat \<Rightarrow> rat \<Rightarrow> rat) \<Rightarrow> rat \<Rightarrow> rat \<Rightarrow> AnomalyDetectionSpec option \<Rightarrow> AnomalyAlert option" where
  "DetectTrafficSpike fmul currentConns baselineConns spec =
     (case spec of
        None \<Rightarrow> None
      | Some sp \<Rightarrow>
          if \<not>  ads_Enabled sp then None
          else if baselineConns \<le> 0 then None
          else
            let threshold = fmul baselineConns (of_int (or_default (ads_ConnectionSpikeMultiplier sp) 3)) in
            if currentConns \<le> threshold then None
            else Some \<lparr>anl_Type = ''TrafficSpike'',
              anl_Severity = (if currentConns > threshold * 2 then severityCritical else severityWarning),
              anl_Message = ''connection rate exceeded baseline multiplier'', anl_Metric = ''mongodb_connections_active'',
              anl_Observed = currentConns, anl_Baseline = baselineConns\<rparr>)"

definition DetectAuthFailureSpike :: "rat \<Rightarrow> AnomalyDetectionSpec option \<Rightarrow> AnomalyAlert option" where
  "DetectAuthFailureSpike failuresPerMin spec =
     (case spec of
        None \<Rightarrow> None
      | Some sp \<Rightarrow>
          if \<not>  ads_Enabled sp then None
          else
            let thresh = of_int (or_default (ads_AuthFailureRatePerMin sp) 10) in
            if failuresPerMin \<le> thresh then None
            else Some \<lparr>anl_Type = ''AuthFailureSpike'',
              anl_Severity = (if failuresPerMin > thresh * 5 then severityCritical else severityWarning),
              anl_Message = ''authentication failures exceed threshold'',
              anl_Metric = ''mongodb_audit_events_total{atype=authenticate}'',
              anl_Observed = failuresPerMin, anl_Baseline = thresh\<rparr>)"

section \<open>Healing\<close>

record MemberLag =
  ml_Name :: string
  ml_LagSecs :: int32

definition DetectLaggingMembers :: "MemberLag list \<Rightarrow> AutoHealingSpec option \<Rightarrow> MemberLag list" where
  "DetectLaggingMembers observations spec =
     (case spec of
        None \<Rightarrow> []
      | Some sp \<Rightarrow>
          if \<not>  ahs_Enabled sp then []
          else filter (\<lambda>m. ml_LagSecs m > or_default (ahs_LagThresholdSeconds sp) 30) observations)"

record CrashLoopPod =
  clp_Name :: string
  clp_RestartCount :: int32

definition FilterCrashLoopPods :: "CrashLoopPod list \<Rightarrow> AutoHealingSpec option \<Rightarrow> CrashLoopPod list" where
  "FilterCrashLoopPods pods spec =
     (case spec of
        None \<Rightarrow> []
      | Some sp \<Rightarrow>
          if \<not>  ahs_Enabled sp then []
          else filter (\<lambda>p. clp_RestartCount p \<ge> or_default (ahs_PodCrashLoopThreshold sp) 5) pods)"

record PVCExpansionPlan =
  pvx_PVCName :: string
  pvx_CurrentSizeGi :: int64
  pvx_NewSizeGi :: int64
  pvx_UsagePercent :: int32

definition PlanPVCExpansion :: "int64 \<Rightarrow> int32 \<Rightarrow> AutoHealingSpec option \<Rightarrow> PVCExpansionPlan option" where
  "PlanPVCExpansion currentGi usagePercent spec =
     (case spec of
        None \<Rightarrow> None
      | Some sp \<Rightarrow>
          if \<not>  ahs_Enabled sp then None
          else if usagePercent < or_default (ahs_PVCExpansionUsagePercent sp) 85 then None
          else Some \<lparr>pvx_PVCName = [], pvx_CurrentSizeGi = currentGi,
            pvx_NewSizeGi = wrap64 (currentGi + or_default (ahs_PVCExpansionIncrementGi sp) 10), pvx_UsagePercent = usagePercent\<rparr>)"

section \<open>Scaling\<close>

record ShardDistribution =
  sdist_ShardName :: string
  sdist_Chunks :: int32

record ScaleDecision =
  scd_Reason :: string
  scd_Action :: string
  scd_Delta :: int32
  scd_Confidence :: string

definition scale_noop :: "string \<Rightarrow> ScaleDecision" where
  "scale_noop reason = \<lparr>scd_Reason = reason, scd_Action = ''Noop'', scd_Delta = 0, scd_Confidence = []\<rparr>"

definition chunk_range :: "ShardDistribution list \<Rightarrow> int32 \<times> int32" where
  "chunk_range shards =
     foldl (\<lambda>(lo, hi) d. (if sdist_Chunks d < lo then sdist_Chunks d else lo, if sdist_Chunks d > hi then sdist_Chunks d else hi))
       (sdist_Chunks (hd shards), sdist_Chunks (hd shards)) shards"

text \<open>
  The quotient of two 32-bit counts differs from 3/2 by more than a double rounds, if at all, so the
  comparison is exact.
\<close>

definition DecideShardScaling :: "ShardDistribution list \<Rightarrow> AutoScalingSpec option \<Rightarrow> ScaleDecision" where
  "DecideShardScaling shards spec =
     (case spec of
        None \<Rightarrow> scale_noop ''auto-scaling disabled''
      | Some sp \<Rightarrow>
          if \<not>  as_Enabled sp then scale_noop ''auto-scaling disabled''
          else if length shards < 2 then scale_noop ''insufficient shards to compare''
          else
            let (minC, maxC) = chunk_range shards in
            if minC = 0 then scale_noop ''empty shard present''
            else if (of_int maxC :: rat) / of_int minC > 3 / 2 then
              \<lparr>scd_Reason = ''chunk imbalance ratio > 1.5'', scd_Action = ''AddShard'', scd_Delta = 1, scd_Confidence = ''high''\<rparr>
            else scale_noop ''balanced'')"

definition DecideOplogWindowScaling :: "rat \<Rightarrow> AutoScalingSpec option \<Rightarrow> ScaleDecision" where
  "DecideOplogWindowScaling currentWindowHours spec =
     (case spec of
        None \<Rightarrow> scale_noop ''auto-scaling disabled''
      | Some sp \<Rightarrow>
          if \<not>  as_Enabled sp then scale_noop ''auto-scaling disabled''
          else if currentWindowHours \<ge> 1 then scale_noop ''oplog window healthy''
          else \<lparr>scd_Reason = ''oplog window below 1h threshold'', scd_Action = ''AddSecondary'', scd_Delta = 1,
            scd_Confidence = (if currentWindowHours \<ge> 1 / 2 then ''medium'' else ''high'')\<rparr>)"

section \<open>What is decided\<close>

lemma chunk_range_extremes:
  assumes "shards \<noteq> []"
  shows "chunk_range shards = (Min (sdist_Chunks ` set shards), Max (sdist_Chunks ` set shards))"
proof -
  have ext: "foldl (\<lambda>(lo, hi) d. (if sdist_Chunks d < lo then sdist_Chunks d else lo, if sdist_Chunks d > hi then sdist_Chunks d else hi)) (a, b) ds
      = (Min (insert a (sdist_Chunks ` set ds)), Max (insert b (sdist_Chunks ` set ds)))" for a b ds
  proof (induction ds arbitrary: a b)
    case (Cons d ds)
    have "insert a (sdist_Chunks ` set (d # ds)) = {a, sdist_Chunks d} \<union> sdist_Chunks ` set ds"
      and "insert b (sdist_Chunks ` set (d # ds)) = {b, sdist_Chunks d} \<union> sdist_Chunks ` set ds" by auto
    then show ?case using Cons.IH
      by (cases "sdist_Chunks ` set ds = {}") (auto simp: min_def max_def Min.union Max.union)
  qed simp
  have "insert (sdist_Chunks (hd shards)) (sdist_Chunks ` set shards) = sdist_Chunks ` set shards"
    using assms by (simp add: insert_absorb)
  then show ?thesis unfolding chunk_range_def ext by simp
qed

text \<open>
  A shard is added just when every shard holds chunks and some shard holds more than one and a half
  times as many as another.
\<close>

theorem shard_added_on_imbalance:
  assumes "as_Enabled sp" and "\<forall>d \<in> set shards. 0 \<le> sdist_Chunks d"
  shows "scd_Action (DecideShardScaling shards (Some sp)) = ''AddShard'' \<longleftrightarrow>
     (\<forall>d \<in> set shards. 0 < sdist_Chunks d) \<and> (\<exists>a \<in> set shards. \<exists>b \<in> set shards. 2 * sdist_Chunks a > 3 * sdist_Chunks b)"
proof (cases "length shards < 2")
  case True
  then show ?thesis by (cases shards) (auto simp: DecideShardScaling_def scale_noop_def assms(1) not_less)
next
  case False
  then have ne: "shards \<noteq> []" by auto
  let ?S = "sdist_Chunks ` set shards"
  have fin: "finite ?S" "?S \<noteq> {}" using ne by simp_all
  have nonneg: "0 \<le> Min ?S" using fin assms(2) by simp
  have pos: "Min ?S \<noteq> 0 \<longleftrightarrow> (\<forall>d \<in> set shards. 0 < sdist_Chunks d)"
    using nonneg fin by (metis (no_types, lifting) Min_gr_iff image_iff order_less_le)
  have ratio: "(of_int (Max ?S) :: rat) / of_int (Min ?S) > 3 / 2 \<longleftrightarrow> 2 * Max ?S > 3 * Min ?S" if "Min ?S > 0"
    using that by (simp add: field_simps) (metis of_int_less_iff of_int_mult of_int_numeral)
  have ext: "2 * Max ?S > 3 * Min ?S \<longleftrightarrow> (\<exists>a \<in> set shards. \<exists>b \<in> set shards. 2 * sdist_Chunks a > 3 * sdist_Chunks b)"
  proof
    assume "2 * Max ?S > 3 * Min ?S"
    moreover obtain a b where "a \<in> set shards" "Max ?S = sdist_Chunks a" "b \<in> set shards" "Min ?S = sdist_Chunks b"
      using Max_in [OF fin] Min_in [OF fin] by auto
    ultimately show "\<exists>a \<in> set shards. \<exists>b \<in> set shards. 2 * sdist_Chunks a > 3 * sdist_Chunks b" by auto
  next
    assume "\<exists>a \<in> set shards. \<exists>b \<in> set shards. 2 * sdist_Chunks a > 3 * sdist_Chunks b"
    then obtain a b where "a \<in> set shards" "b \<in> set shards" "2 * sdist_Chunks a > 3 * sdist_Chunks b" by auto
    moreover from this have "sdist_Chunks a \<le> Max ?S" "Min ?S \<le> sdist_Chunks b" by simp_all
    ultimately show "2 * Max ?S > 3 * Min ?S" by linarith
  qed
  show ?thesis using False assms(1) nonneg pos ratio ext
    by (auto simp: DecideShardScaling_def scale_noop_def chunk_range_extremes [OF ne])
qed

end
