(* ===== verification/External_Services.thy ===== *)
theory External_Services
  imports Workloads
begin

text \<open>
  What the operator says to services other than the cluster: the LDAP and OIDC probes
  (\<^verbatim>\<open>auth/integration.go\<close>), the Vault client and the key-service probes (\<^verbatim>\<open>encryption/integration.go\<close>), and the
  keyfile of a cluster (\<^verbatim>\<open>builder.go\<close>), with the Base64 of the Go library. The network, the certificate
  pool, the URL parser and the decoding of a JSON answer into its fields are parameters; timeouts and
  the closing of connections are left out.
\<close>

section \<open>Base64\<close>

text \<open>
  \<^verbatim>\<open>base64.StdEncoding\<close> on bytes. Decoding skips line breaks, wants the padding, and does not look at the
  unused bits of the last character; the position in its error is left out.
\<close>

definition b64_alphabet :: string where
  "b64_alphabet = ''ABCDEFGHIJKLMNOPQRSTUVWXYZabcdefghijklmnopqrstuvwxyz0123456789+/''"

definition b64_char :: "nat \<Rightarrow> char" where "b64_char n = b64_alphabet ! (n mod 64)"

fun position :: "char \<Rightarrow> string \<Rightarrow> nat option" where
  "position c [] = None"
| "position c (d # ds) = (if c = d then Some 0 else map_option Suc (position c ds))"

definition b64_value :: "char \<Rightarrow> nat option" where "b64_value c = position c b64_alphabet"

fun b64_encode :: "nat list \<Rightarrow> string" where
  "b64_encode [] = []"
| "b64_encode [a] = [b64_char (a div 4), b64_char (a mod 4 * 16), CHR ''='', CHR ''='']"
| "b64_encode [a, b] = [b64_char (a div 4), b64_char (a mod 4 * 16 + b div 16), b64_char (b mod 16 * 4), CHR ''='']"
| "b64_encode (a # b # c # bs) =
     [b64_char (a div 4), b64_char (a mod 4 * 16 + b div 16), b64_char (b mod 16 * 4 + c div 64), b64_char (c mod 64)] @ b64_encode bs"

fun b64_decode :: "string \<Rightarrow> nat list option" where
  "b64_decode [] = Some []"
| "b64_decode (w # x # y # z # rest) =
     (case (b64_value w, b64_value x) of
        (Some p, Some q) \<Rightarrow>
          if y = CHR ''='' then (if z = CHR ''='' \<and> rest = [] then Some [p * 4 + q div 16] else None)
          else (case b64_value y of
            None \<Rightarrow> None
          | Some r \<Rightarrow>
              if z = CHR ''='' then (if rest = [] then Some [p * 4 + q div 16, q mod 16 * 16 + r div 4] else None)
              else (case b64_value z of
                None \<Rightarrow> None
              | Some s \<Rightarrow> map_option (\<lambda>bs. [p * 4 + q div 16, q mod 16 * 16 + r div 4, r mod 4 * 64 + s] @ bs) (b64_decode rest)))
      | _ \<Rightarrow> None)"
| "b64_decode _ = None"

definition EncodeToString :: "string \<Rightarrow> string" where "EncodeToString bytes = b64_encode (map of_char bytes)"

definition DecodeString :: "string \<Rightarrow> go_error + string" where
  "DecodeString s =
     (case b64_decode (filter (\<lambda>c. c \<noteq> CHR 0x0A \<and> c \<noteq> CHR 0x0D) s) of
        None \<Rightarrow> Inl (ErrMsg ''illegal base64 data'')
      | Some bs \<Rightarrow> Inr (map char_of bs))"

section \<open>The keyfile\<close>

text \<open>\<open>random\<close> is what the source of randomness fills the buffer with.\<close>

definition generateRandomKey :: "string \<Rightarrow> string" where "generateRandomKey random = EncodeToString random"

record KeyfileSecret =
  kf_Name :: string
  kf_Namespace :: string
  kf_Labels :: LabelSet
  kf_Keyfile :: string

definition BuildKeyfileSecret :: "string \<Rightarrow> MongoDB \<Rightarrow> KeyfileSecret" where
  "BuildKeyfileSecret random mdb = \<lparr>kf_Name = Name mdb @ ''-keyfile'', kf_Namespace = Namespace mdb,
     kf_Labels = buildLabels (Name mdb) ''keyfile'', kf_Keyfile = generateRandomKey random\<rparr>"

definition BuildShardedKeyfileSecret :: "string \<Rightarrow> MongoDBSharded \<Rightarrow> KeyfileSecret" where
  "BuildShardedKeyfileSecret random mdbsh = \<lparr>kf_Name = ShName mdbsh @ ''-keyfile'', kf_Namespace = om_Namespace (ShMeta mdbsh),
     kf_Labels = buildLabels (ShName mdbsh) ''keyfile'', kf_Keyfile = generateRandomKey random\<rparr>"

section \<open>Vault\<close>

definition TrimRight :: "string \<Rightarrow> char \<Rightarrow> string" where "TrimRight s c = rev (dropWhile (\<lambda>d. d = c) (rev s))"

record VaultClient =
  vc_address :: string
  vc_token :: string
  vc_transitPath :: string

text \<open>
  An answer to a request: the status and the body, or the error of reading it. A request can also be
  refused because of its address, before it is sent.
\<close>

record http_env =
  he_pool :: "string \<Rightarrow> bool"
  he_request :: "string \<Rightarrow> go_error option"
  he_post :: "string \<Rightarrow> string \<Rightarrow> string_map \<Rightarrow> go_error + (int \<times> (go_error + string))"
  he_get :: "string \<Rightarrow> go_error + (int \<times> (go_error + string))"
  he_json :: "string \<Rightarrow> string \<Rightarrow> go_error + string"

definition NewVaultClientFromSpec ::
    "http_env \<Rightarrow> VaultKMSConfig option \<Rightarrow> string \<Rightarrow> string \<Rightarrow> go_error + VaultClient" where
  "NewVaultClientFromSpec H spec token caCertPEM =
     (case spec of
        None \<Rightarrow> Inl (ErrMsg ''nil vault spec'')
      | Some sp \<Rightarrow>
          if TrimSpace (vault_Address sp) = [] then Inl (ErrMsg ''vault.address required'')
          else if token = [] then Inl (ErrMsg ''vault token required'')
          else if length caCertPEM > 0 \<and> \<not>  he_pool H caCertPEM then Inl (ErrMsg ''invalid CA PEM'')
          else Inr \<lparr>vc_address = TrimRight (vault_Address sp) CHR ''/'', vc_token = token,
            vc_transitPath = (if vault_TransitPath sp = [] then ''transit'' else vault_TransitPath sp)\<rparr>)"

definition vault_post :: "http_env \<Rightarrow> VaultClient \<Rightarrow> string \<Rightarrow> string_map \<Rightarrow> go_error + string" where
  "vault_post H c path body =
     (case he_request H (vc_address c @ path) of
        Some e \<Rightarrow> Inl e
      | None \<Rightarrow>
          (case he_post H (vc_address c @ path) (vc_token c) body of
             Inl e \<Rightarrow> Inl (Wrapped (''vault POST '' @ path) e)
           | Inr (status, Inl e) \<Rightarrow> Inl e
           | Inr (status, Inr respBody) \<Rightarrow>
               if status \<noteq> 200 then Inl (ErrMsg (''vault POST '' @ path @ '' HTTP '' @ show_int status @ '': '' @ respBody))
               else Inr respBody))"

definition vault_path :: "VaultClient \<Rightarrow> string \<Rightarrow> string \<Rightarrow> string" where
  "vault_path c verb keyName = ''/v1/'' @ vc_transitPath c @ ''/'' @ verb @ ''/'' @ keyName"

definition vault_Encrypt :: "http_env \<Rightarrow> VaultClient \<Rightarrow> string \<Rightarrow> string \<Rightarrow> go_error + string" where
  "vault_Encrypt H c keyName plaintext =
     (case vault_post H c (vault_path c ''encrypt'' keyName) [(''plaintext'', EncodeToString plaintext)] of
        Inl e \<Rightarrow> Inl e
      | Inr respBody \<Rightarrow>
          (case he_json H respBody ''ciphertext'' of
             Inl e \<Rightarrow> Inl (Wrapped ''vault encrypt decode'' e)
           | Inr ciphertext \<Rightarrow> if ciphertext = [] then Inl (ErrMsg ''vault encrypt: empty ciphertext'') else Inr ciphertext))"

definition vault_Decrypt :: "http_env \<Rightarrow> VaultClient \<Rightarrow> string \<Rightarrow> string \<Rightarrow> go_error + string" where
  "vault_Decrypt H c keyName ciphertext =
     (case vault_post H c (vault_path c ''decrypt'' keyName) [(''ciphertext'', ciphertext)] of
        Inl e \<Rightarrow> Inl e
      | Inr respBody \<Rightarrow>
          (case he_json H respBody ''plaintext'' of
             Inl e \<Rightarrow> Inl (Wrapped ''vault decrypt decode'' e)
           | Inr plaintext \<Rightarrow> DecodeString plaintext))"

definition vault_Health :: "http_env \<Rightarrow> VaultClient \<Rightarrow> go_error option" where
  "vault_Health H c =
     (let url = vc_address c @ ''/v1/sys/health'' in
      case he_request H url of
        Some e \<Rightarrow> Some e
      | None \<Rightarrow>
          (case he_get H url of
             Inl e \<Rightarrow> Some (Wrapped ''vault health'' e)
           | Inr (status, _) \<Rightarrow>
               if status < 200 \<or> status > 499 then Some (ErrMsg (''vault health HTTP '' @ show_int status)) else None))"

section \<open>Key services\<close>

definition probeTLSEndpoint :: "http_env \<Rightarrow> string \<Rightarrow> string \<Rightarrow> go_error option" where
  "probeTLSEndpoint H urlStr caCertPEM =
     (if length caCertPEM > 0 \<and> \<not>  he_pool H caCertPEM then Some (ErrMsg ''invalid CA PEM'')
      else case he_request H urlStr of
        Some e \<Rightarrow> Some e
      | None \<Rightarrow>
          (case he_get H urlStr of
             Inl e \<Rightarrow> Some (Wrapped (''probe '' @ urlStr) e)
           | Inr (status, _) \<Rightarrow> if status \<ge> 500 then Some (ErrMsg (''probe '' @ urlStr @ '' HTTP '' @ show_int status)) else None))"

definition ProbeKMS :: "http_env \<Rightarrow> EncryptionSpec option \<Rightarrow> string \<Rightarrow> string \<Rightarrow> go_error option" where
  "ProbeKMS H spec vaultToken caCertPEM =
     (case spec of
        None \<Rightarrow> None
      | Some sp \<Rightarrow>
          if \<not>  enc_Enabled sp then None
          else
            let provider = enc_KeyProvider sp; kms = enc_KMSConfig sp in
            if provider = [] \<or> provider = ''secret'' then None
            else if provider = ''vault'' then
              (case Option.bind kms kms_Vault of
                 None \<Rightarrow> Some (ErrMsg ''vault config required'')
               | Some v \<Rightarrow>
                   (case NewVaultClientFromSpec H (Some v) vaultToken caCertPEM of
                      Inl e \<Rightarrow> Some e
                    | Inr client \<Rightarrow> vault_Health H client))
            else if provider = ''aws-kms'' then
              (case Option.bind kms kms_AWSKMS of
                 None \<Rightarrow> Some (ErrMsg ''aws-kms config required'')
               | Some a \<Rightarrow> probeTLSEndpoint H (''https://kms.'' @ aws_Region a @ ''.amazonaws.com/'') caCertPEM)
            else if provider = ''gcp-kms'' then probeTLSEndpoint H ''https://cloudkms.googleapis.com/'' caCertPEM
            else if provider = ''azure-kv'' then
              (case Option.bind kms kms_AzureKV of
                 None \<Rightarrow> Some (ErrMsg ''azure-kv config required'')
               | Some a \<Rightarrow> probeTLSEndpoint H (az_VaultURL a) caCertPEM)
            else Some (ErrMsg (''unknown keyProvider: '' @ Quote provider)))"

section \<open>LDAP and OIDC\<close>

record net_env =
  nv_dial :: "string \<Rightarrow> go_error option"
  nv_handshake :: "string \<Rightarrow> string \<Rightarrow> go_error option"
  nv_SplitHostPort :: "string \<Rightarrow> string option"
  nv_url_scheme :: "string \<Rightarrow> go_error + string"

definition hostOnly :: "net_env \<Rightarrow> string \<Rightarrow> string" where
  "hostOnly N addr = (case nv_SplitHostPort N addr of None \<Rightarrow> addr | Some host \<Rightarrow> host)"

fun probe_servers :: "net_env \<Rightarrow> bool \<Rightarrow> string list \<Rightarrow> go_error option \<Rightarrow> go_error option" where
  "probe_servers N tls [] lastErr = Some (case lastErr of None \<Rightarrow> ErrMsg ''no LDAP servers in spec'' | Some e \<Rightarrow> e)"
| "probe_servers N tls (server # rest) lastErr =
     (let addr = TrimSpace server in
      if addr = [] then probe_servers N tls rest lastErr
      else case nv_dial N addr of
        Some e \<Rightarrow> probe_servers N tls rest (Some (Wrapped (''dial '' @ addr) e))
      | None \<Rightarrow>
          if tls then
            (case nv_handshake N addr (hostOnly N addr) of
               Some e \<Rightarrow> probe_servers N tls rest (Some (Wrapped (''ldap TLS '' @ addr) e))
             | None \<Rightarrow> None)
          else None)"

definition ProbeLDAP :: "net_env \<Rightarrow> LDAPSpec option \<Rightarrow> go_error option" where
  "ProbeLDAP N spec =
     (case spec of
        None \<Rightarrow> Some (ErrMsg ''ldap.servers empty'')
      | Some sp \<Rightarrow>
          if TrimSpace (ldap_Servers sp) = [] then Some (ErrMsg ''ldap.servers empty'')
          else probe_servers N (ldap_TLS sp) (split_on CHR '','' (ldap_Servers sp)) None)"

definition ProbeOIDC :: "net_env \<Rightarrow> http_env \<Rightarrow> OIDCSpec option \<Rightarrow> go_error option" where
  "ProbeOIDC N H spec =
     (case spec of
        None \<Rightarrow> Some (ErrMsg ''oidc.issuerURL empty'')
      | Some sp \<Rightarrow>
          if TrimSpace (oidc_IssuerURL sp) = [] then Some (ErrMsg ''oidc.issuerURL empty'')
          else
            let issuer = TrimRight (oidc_IssuerURL sp) CHR ''/'';
                discoveryURL = issuer @ ''/.well-known/openid-configuration'' in
            case nv_url_scheme N discoveryURL of
              Inl e \<Rightarrow> Some (Wrapped ''invalid issuer URL'' e)
            | Inr scheme \<Rightarrow>
                if scheme \<noteq> ''https'' then Some (ErrMsg (''oidc issuer must be https (got '' @ scheme @ '')''))
                else case he_request H discoveryURL of
                  Some e \<Rightarrow> Some (Wrapped ''build OIDC discovery request'' e)
                | None \<Rightarrow>
                    (case he_get H discoveryURL of
                       Inl e \<Rightarrow> Some (Wrapped ''OIDC discovery fetch'' e)
                     | Inr (status, body) \<Rightarrow>
                         if status \<noteq> 200 then Some (ErrMsg (''OIDC discovery HTTP '' @ show_int status))
                         else
                           (case body of
                              Inl e \<Rightarrow> Some (Wrapped ''OIDC discovery decode'' e)
                            | Inr text \<Rightarrow>
                                (case he_json H text ''issuer'' of
                                   Inl e \<Rightarrow> Some (Wrapped ''OIDC discovery decode'' e)
                                 | Inr found \<Rightarrow>
                                     (case he_json H text ''jwks_uri'' of
                                        Inl e \<Rightarrow> Some (Wrapped ''OIDC discovery decode'' e)
                                      | Inr jwks \<Rightarrow>
                                          if TrimRight found CHR ''/'' \<noteq> issuer then
                                            Some (ErrMsg (''OIDC issuer mismatch: spec='' @ Quote issuer @ '' discovery='' @ Quote found))
                                          else if jwks = [] then Some (ErrMsg ''OIDC discovery missing jwks_uri'')
                                          else None)))))"

definition FetchOIDCJWKS :: "http_env \<Rightarrow> string \<Rightarrow> string \<Rightarrow> go_error + string" where
  "FetchOIDCJWKS H jwksURI caCertPEM =
     (if jwksURI = [] then Inl (ErrMsg ''empty jwksURI'')
      else if length caCertPEM > 0 \<and> \<not>  he_pool H caCertPEM then Inl (ErrMsg ''invalid CA PEM bundle'')
      else case he_request H jwksURI of
        Some e \<Rightarrow> Inl e
      | None \<Rightarrow>
          (case he_get H jwksURI of
             Inl e \<Rightarrow> Inl (Wrapped ''JWKS fetch'' e)
           | Inr (status, body) \<Rightarrow>
               if status \<noteq> 200 then Inl (ErrMsg (''JWKS HTTP '' @ show_int status))
               else (case body of
                 Inl e \<Rightarrow> Inl (Wrapped ''JWKS read'' e)
               | Inr buf \<Rightarrow> Inr (take 1048576 buf))))"

section \<open>Oplog upload\<close>

definition IsApplicable :: "BackupSpec option \<Rightarrow> bool" where
  "IsApplicable spec =
     (case spec of
        None \<Rightarrow> False
      | Some b \<Rightarrow>
          if \<not>  bk_Enabled b \<or> \<not>  bk_PITREnabled b then False
          else if bk_OplogRetentionHours b \<le> 0 then False
          else True)"

section \<open>Round trips\<close>

lemma b64_value_table: "list_all (\<lambda>n. b64_value (b64_char n) = Some n \<and> b64_char n \<noteq> CHR ''='' \<and> b64_char n \<noteq> CHR 0x0A \<and> b64_char n \<noteq> CHR 0x0D) [0..<64]"
  by code_simp

lemma b64_char_props [simp]:
  assumes "n < 64"
  shows "b64_value (b64_char n) = Some n" "b64_char n \<noteq> CHR ''=''" "b64_char n \<noteq> CHR 0x0A" "b64_char n \<noteq> CHR 0x0D"
  using b64_value_table assms by (simp_all add: list_all_iff)

lemma sextet_bounds:
  fixes a b c :: nat
  shows "a < 256 \<Longrightarrow> a div 4 < 64" "a mod 4 * 16 < 64" "b < 256 \<Longrightarrow> a mod 4 * 16 + b div 16 < 64" "b mod 16 * 4 < 64"
    "c < 256 \<Longrightarrow> b mod 16 * 4 + c div 64 < 64"
  by auto

lemma b64_roundtrip: "\<forall>b \<in> set bs. b < 256 \<Longrightarrow> b64_decode (b64_encode bs) = Some bs"
  by (induction bs rule: b64_encode.induct) (auto simp: sextet_bounds)

lemma b64_no_breaks: "\<forall>b \<in> set bs. b < 256 \<Longrightarrow> filter (\<lambda>c. c \<noteq> CHR 0x0A \<and> c \<noteq> CHR 0x0D) (b64_encode bs) = b64_encode bs"
  by (induction bs rule: b64_encode.induct) (simp_all add: sextet_bounds)

lemma b64_length: "length (b64_encode bs) = 4 * ((length bs + 2) div 3)"
proof (induction bs rule: b64_encode.induct)
  case (4 a b c bs)
  have "(length bs + 2 + 3) div 3 = (length bs + 2) div 3 + 1" by simp
  with 4 show ?case by (simp add: add.commute)
qed simp_all

lemma DecodeString_EncodeToString: "DecodeString (EncodeToString s) = Inr s"
  by (simp add: DecodeString_def EncodeToString_def b64_no_breaks b64_roundtrip comp_def of_char_of)

text \<open>
  What is encrypted with Vault can be decrypted with it: if the server answers a decryption with the
  text that it was given to encrypt, then the client, which sends the bytes in Base64 and decodes the
  answer, gets back exactly the bytes it encrypted, whatever they are.
\<close>

theorem vault_roundtrip:
  assumes server: "\<forall>text body ciphertext.
      he_post H (vc_address c @ vault_path c ''encrypt'' key) (vc_token c) [(''plaintext'', text)] = Inr (200, Inr body)
      \<and> he_json H body ''ciphertext'' = Inr ciphertext \<longrightarrow>
      (\<exists>answer. he_post H (vc_address c @ vault_path c ''decrypt'' key) (vc_token c) [(''ciphertext'', ciphertext)] = Inr (200, Inr answer)
        \<and> he_json H answer ''plaintext'' = Inr text)"
    and address: "he_request H (vc_address c @ vault_path c ''decrypt'' key) = None"
    and encrypted: "vault_Encrypt H c key plaintext = Inr ciphertext"
  shows "vault_Decrypt H c key ciphertext = Inr plaintext"
proof -
  from encrypted obtain body
    where "he_post H (vc_address c @ vault_path c ''encrypt'' key) (vc_token c) [(''plaintext'', EncodeToString plaintext)] = Inr (200, Inr body)"
      "he_json H body ''ciphertext'' = Inr ciphertext"
    by (auto simp: vault_Encrypt_def vault_post_def split: sum.splits option.splits prod.splits if_splits)
  with server address show ?thesis
    by (fastforce simp: vault_Decrypt_def vault_post_def DecodeString_EncodeToString)
qed

definition echo_vault :: http_env where
  "echo_vault = \<lparr>he_pool = \<lambda>_. True, he_request = \<lambda>_. None, he_post = \<lambda>_ _ body. Inr (200, Inr (''v:'' @ snd (hd body))),
     he_get = \<lambda>_. Inr (200, Inr []), he_json = \<lambda>body field. Inr (if field = ''plaintext'' then drop 4 body else body)\<rparr>"

definition sample_vault :: VaultClient where
  "sample_vault = \<lparr>vc_address = ''https://vault'', vc_token = ''t'', vc_transitPath = ''transit''\<rparr>"

theorem vault_roundtrip_witness:
  "vault_Encrypt echo_vault sample_vault ''k'' [CHR 0x00, CHR 0xFF] = Inr ''v:AP8=''
   \<and> vault_Decrypt echo_vault sample_vault ''k'' ''v:AP8='' = Inr [CHR 0x00, CHR 0xFF]"
proof
  show enc: "vault_Encrypt echo_vault sample_vault ''k'' [CHR 0x00, CHR 0xFF] = Inr ''v:AP8=''" by code_simp
  show "vault_Decrypt echo_vault sample_vault ''k'' ''v:AP8='' = Inr [CHR 0x00, CHR 0xFF]"
    by (rule vault_roundtrip [OF _ _ enc]) (auto simp: echo_vault_def)
qed

section \<open>Keyfiles and probes\<close>

text \<open>
  A keyfile made from 756 bytes has 1008 characters of the Base64 alphabet, within the 6 to 1024 that the
  server accepts, and the bytes can be read back from it.
\<close>

lemma keyfile_accepted:
  assumes "length random = 756"
  shows "length (kf_Keyfile (BuildKeyfileSecret random mdb)) = 1008" "DecodeString (kf_Keyfile (BuildKeyfileSecret random mdb)) = Inr random"
  using assms by (simp_all add: BuildKeyfileSecret_def generateRandomKey_def EncodeToString_def b64_length
      DecodeString_EncodeToString [unfolded EncodeToString_def])

definition ldap_answers :: "net_env \<Rightarrow> bool \<Rightarrow> string \<Rightarrow> bool" where
  "ldap_answers N tls addr \<longleftrightarrow> addr \<noteq> [] \<and> nv_dial N addr = None \<and> (tls \<longrightarrow> nv_handshake N addr (hostOnly N addr) = None)"

lemma probe_servers_iff: "probe_servers N tls servers err = None \<longleftrightarrow> (\<exists>s \<in> set servers. ldap_answers N tls (TrimSpace s))"
  by (induction servers arbitrary: err) (auto simp: Let_def ldap_answers_def split: option.splits)

text \<open>The LDAP probe succeeds just when one of the listed servers answers, over TLS if that is asked for.\<close>

theorem ldap_probe_exact:
  "ProbeLDAP N (Some spec) = None \<longleftrightarrow> TrimSpace (ldap_Servers spec) \<noteq> []
     \<and> (\<exists>s \<in> set (split_on CHR '','' (ldap_Servers spec)). ldap_answers N (ldap_TLS spec) (TrimSpace s))"
  by (simp add: ProbeLDAP_def probe_servers_iff)

text \<open>The uploader applies to just the backups that get a tailer in their pods.\<close>

theorem uploader_with_tailer: "IsApplicable spec = IsOplogTailerEnabled spec"
  by (auto simp: IsApplicable_def IsOplogTailerEnabled_def split: option.split)

end
