(* ===== verification/Spec2Isabelle.thy ===== *)
theory Spec2Isabelle
  imports Versions Upgrade Policies Bootstrap_Protocol Replica_Set_Status Sharded_Status Admitted_Life Wiring
    Deployment_Laws Verification_Laws Topology Fleet Search_Index_Laws Insights_Laws Auto_Pilot External_Services
begin

text \<open>
  A verification library for the MongoDB operator: a Kubernetes controller written in Go that runs
  MongoDB replica sets and sharded clusters from declarative resources.

  \<^bold>\<open>The program.\<close> A resource of kind \<^verbatim>\<open>MongoDB\<close> or \<^verbatim>\<open>MongoDBSharded\<close> declares a cluster; further kinds declare
  backups and their verification, search sidecars and search indexes, an advisor for queries, and
  federations and groups of clusters. For each kind a controller is called with the name of a resource
  and makes one pass: it reads the object, brings secrets, services, workloads and policies in line
  with it, sends commands to the database (initialises replica sets, creates users, registers shards,
  creates indexes), moves an upgrade one phase forward, and writes the status. A pass can fail or be
  cut short at every call; it is then called again. Two passes share nothing but the stored object, the
  Kubernetes objects and the database. Webhooks check a resource before it is stored. The operator
  talks to the database through the managers in \<^verbatim>\<open>internal/mongodb\<close>; \<^verbatim>\<open>internal/resources\<close> makes the
  Kubernetes objects.

  \<^bold>\<open>The model.\<close> A pass is a function in a state monad (theory \<^verbatim>\<open>Controller_Runtime\<close>). Its state is the
  object in memory, a counter of the calls made so far, and a log of effects (status writes,
  applied workloads, deletions, commands sent to the database, lease operations). Whatever a
  pass reads comes from a \<^emph>\<open>world\<close>, a record of functions that answer a call from the counter and its
  arguments: the API server, the database driver, the clock and the packages of
  \<^verbatim>\<open>keiailab-commons\<close> and \<^verbatim>\<open>k8s.io\<close>, none of which is part of the repository; a controller that reads more
  has a second record for it (\<open>search_env\<close>, \<open>index_env\<close>, \<open>insights_env\<close> and others). The world is a
  parameter of every definition, so that a theorem over all worlds covers every answer, every
  error and every interleaving with other writers. Where a theorem needs more of it, the
  assumption is named: \<open>honest\<close> (a refetch after a conflict returns an object related to the one
  that was read, for example with the same spec), \<open>accept_update\<close> (the write succeeds),
  \<open>condition_store\<close> (the documented behaviour of \<^verbatim>\<open>SetStatusCondition\<close>), \<open>secret_api\<close> (that of
  \<^verbatim>\<open>SetControllerReference\<close> and of a read by name). Errors are values of
  \<open>go_error\<close>; an index out of range ends a pass with the value \<open>index_panic\<close>.

  \<^bold>\<open>The theories.\<close>
  \<^item> \<^verbatim>\<open>Go_Prelude\<close>: integers of 32 and 64 bits with wrap-around, strings as bytes with the
    functions of \<^verbatim>\<open>strings\<close> and \<^verbatim>\<open>strconv\<close> that are used, errors, results of a pass. \<^verbatim>\<open>Go_Time\<close>: \<^verbatim>\<open>ParseDuration\<close>
    and the printing of durations and times. \<^verbatim>\<open>Go_Json\<close>: the JSON scanner behind \<^verbatim>\<open>json.Unmarshal\<close>.
  \<^item> \<^verbatim>\<open>Api_Types\<close>, \<^verbatim>\<open>Cluster_Types\<close>: the structs of \<^verbatim>\<open>api/v1alpha1\<close>, one record each.
  \<^item> \<^verbatim>\<open>Versions\<close>: \<^verbatim>\<open>splitVersion\<close>, \<^verbatim>\<open>parseMongoVersion\<close>, \<^verbatim>\<open>IsValidUpgradePath\<close> of
    \<^verbatim>\<open>common_types.go\<close>; the exact set of accepted changes, and that no sequence of them downgrades.
  \<^item> \<^verbatim>\<open>Conditions\<close>: the list of status conditions (\<^verbatim>\<open>setUpgradeCondition\<close>, \<^verbatim>\<open>helpers.go\<close>); the
    locale \<open>condition_store\<close> states what an update of the list promises.
  \<^item> \<^verbatim>\<open>Mongo_Admin\<close>: \<^verbatim>\<open>client.go\<close>, \<^verbatim>\<open>replicaset.go\<close>, \<^verbatim>\<open>auth.go\<close>; \<^verbatim>\<open>Sharding\<close>: \<^verbatim>\<open>sharding.go\<close>, with the
    behaviour of the declarative sharding of a collection on every branch.
  \<^item> \<^verbatim>\<open>Controller_Runtime\<close>: the monad, the world, and weakest preconditions to reason about passes.
  \<^item> \<^verbatim>\<open>Upgrade_Contract\<close>: the abstract upgrade machine as a locale. Its laws say what each phase
    change does to the versions and to the recorded FCV; its lemmas say that the invariant \<open>uinv\<close>
    is kept. \<^verbatim>\<open>Upgrade\<close> (\<^verbatim>\<open>upgrade.go\<close>) and \<^verbatim>\<open>Sharded_Upgrade\<close> (\<^verbatim>\<open>sharded_upgrade.go\<close>) interpret it.
  \<^item> \<^verbatim>\<open>Policies\<close>: \<^verbatim>\<open>builder_hpa.go\<close>, \<^verbatim>\<open>builder_policy.go\<close>, \<^verbatim>\<open>tls.go\<close>, \<^verbatim>\<open>internal/security\<close>. \<^verbatim>\<open>Server_Options\<close>: the
    settings of authentication, encryption and audit as command-line arguments.
  \<^item> \<^verbatim>\<open>Replica_Set\<close>: \<^verbatim>\<open>mongodb_controller.go\<close>, \<^verbatim>\<open>bootstrap_lease.go\<close>, \<^verbatim>\<open>password_rotation.go\<close>.
    \<^verbatim>\<open>Replica_Set_Laws\<close> lifts invariants to sequences of passes (locale \<open>pass_invariant\<close>, interpreted
    for the upgrade discipline, the ownership of the spec, the end of an upgrade and the bootstrap);
    \<^verbatim>\<open>Bootstrap_Protocol\<close> is about the lease and the admin user, \<^verbatim>\<open>Replica_Set_Status\<close> about
    conditions, scaling, the exporter and the rotation.
  \<^item> \<^verbatim>\<open>Sharded\<close>: \<^verbatim>\<open>mongodbsharded_controller.go\<close>. \<^verbatim>\<open>Sharded_Laws\<close> (locale \<open>sharded_invariant\<close>) shows
    the upgrade discipline, the order of the rollout and the safety of scale-in over whole
    passes; \<^verbatim>\<open>Sharded_Status\<close> the conditions and the behaviour of an unfinished scale-in.
  \<^item> \<^verbatim>\<open>Admission\<close>: the webhooks of both cluster kinds. \<^verbatim>\<open>Admitted_Life\<close> puts webhook and controller
    together: over a life of admitted edits and passes the recorded FCV is never above the deployed version.
  \<^item> \<^verbatim>\<open>Pod_Templates\<close>, \<^verbatim>\<open>Workloads\<close>: the pods, services, claims and config maps of \<^verbatim>\<open>internal/resources\<close>.
    \<^verbatim>\<open>Pod_Laws\<close>: every mount has its volume and every script of a probe or a hook is mounted.
    \<^verbatim>\<open>Deployment_Laws\<close>: what an upgrade changes and when, which pods a service selects, which settings
    reach a pod. \<^verbatim>\<open>Wiring\<close>: the names under which the parts of a sharded cluster find each other.
  \<^item> \<^verbatim>\<open>Backup_Jobs\<close>, \<^verbatim>\<open>Backup\<close>, \<^verbatim>\<open>Backup_Laws\<close>: the backup controller with its jobs, scripts and schedules;
    \<^verbatim>\<open>Backup_Verification\<close>, \<^verbatim>\<open>Verification_Laws\<close>: the controller that restores a backup to check it.
  \<^item> \<^verbatim>\<open>Topology\<close>: the planners of \<^verbatim>\<open>internal/topology\<close>. \<^verbatim>\<open>Fleet\<close>: federations and cluster groups.
  \<^item> \<^verbatim>\<open>Search\<close>, \<^verbatim>\<open>Search_Laws\<close>: the search controller and the user it keeps in the database (locale
    \<open>guarded_log\<close>: what may be in the log of a pass). \<^verbatim>\<open>Search_Index\<close>, \<^verbatim>\<open>Search_Index_Laws\<close>: the index
    controller, its manager and its webhook (locale \<open>one_identity\<close>: a resource stays with one index).
  \<^item> \<^verbatim>\<open>Insights_Analysis\<close>, \<^verbatim>\<open>Insights_Analysis_Laws\<close>: the advisor of \<^verbatim>\<open>internal/insights\<close>, equal to a report by
    groups of queries, and the actions it plans. \<^verbatim>\<open>Insights\<close>, \<^verbatim>\<open>Insights_Laws\<close>: the fetcher and the
    controller, the commands of a pass and the bound on what it reads.
  \<^item> \<^verbatim>\<open>Auto_Pilot\<close>: advisory helpers on scaling, healing and anomalies. \<^verbatim>\<open>External_Services\<close>: the probes of LDAP,
    OIDC and key services, the Vault client with the round trip of what it encrypts, and the keyfile.

  \<^bold>\<open>Bounds.\<close> The loop that verifies the admin user takes the number of waits its context allows as
  an argument; \<^verbatim>\<open>verification_ends\<close> shows that five are enough. The creation of the sync secret of a search
  resource retries while another writer races it; the model takes the number of races as fuel, and
  \<open>None\<close> stands for a pass that is still retrying. All other loops run over lists. A
  negative shard or member count, which the schema of the resource excludes, is read as zero by
  the loops, as in the source. Integers are unbounded where the source cannot overflow them and
  wrapped (\<open>wrap32\<close>, \<open>wrap64\<close>) where it can, as in the validation timeout. The numbers of members from which
  host lists and replica set configurations are built are natural numbers: the source would panic on a
  negative one. The one comparison of
  rounded quotients that matters is modelled with the rounding (\<open>ratio_above_100\<close>).

  \<^bold>\<open>Not modelled.\<close> Log lines, metrics and events are left out, and so is a failure of
  \<^verbatim>\<open>SetControllerReference\<close>, which only an object with a foreign owner has. The rendering of alert
  rules, the Prometheus collectors and the literal rule object are assembly of text or data; the pass of
  the oplog uploader only writes log lines. The bodies of the embedded shell scripts are opaque, as are Kubernetes values that
  the operator only passes on. \<^verbatim>\<open>api/v1beta1\<close> repeats the types of \<^verbatim>\<open>v1alpha1\<close> except for the search kinds, which
  are modelled; \<^verbatim>\<open>zz_generated\<close> files are generated, and \<^verbatim>\<open>cmd/main.go\<close> only starts the process.
\<close>

end
